(* ===== verification/Prelude.thy ===== *)
theory Prelude
  imports Main "HOL-Library.AList"
begin

text \<open>
  What the components share: JavaScript maps as association lists in insertion order,
  JSON values, milliseconds, the collections of lemmas the component proofs use, and the
  interface of a transition system with an invariant.
\<close>

named_theorems frame_simps \<open>what an operation leaves unchanged\<close>
named_theorems table_simps \<open>reading a table after a statement has run on it\<close>

section \<open>JavaScript maps\<close>

text \<open>
  A JavaScript \<open>Map\<close> iterates in insertion order; setting an existing key keeps its
  place. \<^const>\<open>AList.update\<close> and \<^const>\<open>AList.delete\<close> do the same on a list of
  pairs whose keys are distinct.
\<close>

type_synonym ('k, 'v) jsmap = "('k \<times> 'v) list"

abbreviation jm_get :: "('k, 'v) jsmap \<Rightarrow> 'k \<Rightarrow> 'v option" where
  "jm_get m k \<equiv> map_of m k"

abbreviation jm_set :: "'k \<Rightarrow> 'v \<Rightarrow> ('k, 'v) jsmap \<Rightarrow> ('k, 'v) jsmap" where
  "jm_set k v m \<equiv> AList.update k v m"

abbreviation jm_delete :: "'k \<Rightarrow> ('k, 'v) jsmap \<Rightarrow> ('k, 'v) jsmap" where
  "jm_delete k m \<equiv> AList.delete k m"

definition jm_wf :: "('k, 'v) jsmap \<Rightarrow> bool" where
  "jm_wf m \<longleftrightarrow> distinct (map fst m)"

lemma jm_wf_Nil [simp]: "jm_wf []"
  by (simp add: jm_wf_def)

lemma jm_wf_set [simp]: "jm_wf m \<Longrightarrow> jm_wf (jm_set k v m)"
  by (simp add: jm_wf_def distinct_update)

lemma jm_wf_delete [simp]: "jm_wf m \<Longrightarrow> jm_wf (jm_delete k m)"
  by (simp add: jm_wf_def AList.distinct_delete)

lemma jm_get_set [simp]: "jm_get (jm_set k v m) j = (if j = k then Some v else jm_get m j)"
  by (simp add: update_conv')

lemma jm_get_delete [simp]: "jm_get (jm_delete k m) j = (if j = k then None else jm_get m j)"
  by (simp add: AList.delete_conv')

lemma distinct_map_filter_fst: "distinct (map fst m) \<Longrightarrow> distinct (map fst (filter P m))"
  by (induction m) auto

lemma jm_wf_filter [simp]: "jm_wf m \<Longrightarrow> jm_wf (filter P m)"
  by (simp add: jm_wf_def distinct_map_filter_fst)

lemma jm_get_in: "jm_wf m \<Longrightarrow> jm_get m k = Some v \<longleftrightarrow> (k, v) \<in> set m"
  by (auto simp: jm_wf_def map_of_is_SomeI dest: map_of_SomeD)

lemma jm_get_filter: "jm_wf m \<Longrightarrow>
    jm_get (filter P m) k = (case jm_get m k of Some v \<Rightarrow> if P (k, v) then Some v else None
                              | None \<Rightarrow> None)"
proof (cases "jm_get m k")
  case None
  then have "k \<notin> fst ` set m" by (simp add: map_of_eq_None_iff)
  then have "jm_get (filter P m) k = None" by (auto simp: map_of_eq_None_iff)
  with None show ?thesis by simp
next
  case (Some v)
  assume wf: "jm_wf m"
  with Some have kv: "(k, v) \<in> set m" by (simp add: jm_get_in)
  show ?thesis
  proof (cases "P (k, v)")
    case True
    with kv wf have "jm_get (filter P m) k = Some v" by (simp add: jm_get_in)
    with True Some show ?thesis by simp
  next
    case False
    have "jm_get (filter P m) k = None"
    proof (rule ccontr)
      assume "jm_get (filter P m) k \<noteq> None"
      then obtain w where "jm_get (filter P m) k = Some w" by blast
      with wf have "(k, w) \<in> set m" "P (k, w)" by (simp_all add: jm_get_in)
      with wf Some have "w = v" by (simp add: jm_get_in [symmetric])
      with False \<open>P (k, w)\<close> show False by simp
    qed
    with False Some show ?thesis by simp
  qed
qed

text \<open>The keys of a map after setting or deleting one.\<close>

lemma set_jm_set: "jm_wf m \<Longrightarrow> (x, y) \<in> set (jm_set k v m) \<longleftrightarrow>
    (if x = k then y = v else (x, y) \<in> set m)"
  by (auto simp flip: jm_get_in)

lemma set_jm_delete: "jm_wf m \<Longrightarrow> (x, y) \<in> set (jm_delete k m) \<longleftrightarrow> x \<noteq> k \<and> (x, y) \<in> set m"
  by (auto simp flip: jm_get_in)

section \<open>JSON values\<close>

text \<open>
  What the database's JSON columns and the handlers' untyped snapshots hold. Numbers there
  are whole. An object's fields are a map.
\<close>

datatype json =
    JNull
  | JBool bool
  | JNum int
  | JStr string
  | JArr "json list"
  | JObj "(string \<times> json) list"

section \<open>Times\<close>

text \<open>Instants and durations are whole milliseconds, as \<open>Date.getTime()\<close> gives them.\<close>

type_synonym ms = int

abbreviation minute_ms :: ms where "minute_ms \<equiv> 60000"
abbreviation hour_ms :: ms where "hour_ms \<equiv> 3600000"
abbreviation day_ms :: ms where "day_ms \<equiv> 86400000"

section \<open>Who writes\<close>

text \<open>The operator a write to the directory is made as.\<close>

(* src/apps/api/src/providers/types.ts:329-334 WriteContext *)
record write_context =
  wc_actorUserId :: string
  wc_actorUsername :: string
  wc_actorPassword :: string
  wc_correlationId :: string

section \<open>Updating the rows of a table\<close>

text \<open>
  \<open>UPDATE t SET ... WHERE p\<close> on a table held as a list, and how many rows it touched
  (\<open>numUpdatedRows\<close>).
\<close>

definition update_where :: "('r \<Rightarrow> bool) \<Rightarrow> ('r \<Rightarrow> 'r) \<Rightarrow> 'r list \<Rightarrow> 'r list" where
  "update_where p f rs = map (\<lambda>r. if p r then f r else r) rs"

definition updated_count :: "('r \<Rightarrow> bool) \<Rightarrow> 'r list \<Rightarrow> nat" where
  "updated_count p rs = length (filter p rs)"

lemma update_where_simps [simp, code]:
  "update_where p f [] = []"
  "update_where p f (r # rs) = (if p r then f r else r) # update_where p f rs"
  by (simp_all add: update_where_def)

lemma length_update_where [simp]: "length (update_where p f rs) = length rs"
  by (simp add: update_where_def)

lemma set_update_where: "set (update_where p f rs) = (\<lambda>r. if p r then f r else r) ` set rs"
  by (simp add: update_where_def)

lemma map_update_where [frame_simps]:
  "(\<And>r. p r \<Longrightarrow> g (f r) = g r) \<Longrightarrow> map g (update_where p f rs) = map g rs"
  by (induction rs) auto

lemma map_key_update_where:
  "(\<And>r. k (f r) = k r) \<Longrightarrow> map k (update_where p f rs) = map k rs"
  by (rule map_update_where)

lemma find_mem: "find P xs = Some x \<Longrightarrow> x \<in> set xs \<and> P x"
  by (induction xs) (auto split: if_splits)

lemma bex_update_where:
  "(\<And>r. Q (f r) = Q r) \<Longrightarrow> (\<exists>x \<in> set (update_where p f rs). Q x) = (\<exists>x \<in> set rs. Q x)"
  by (induction rs) auto

lemma ball_update_where:
  "(\<And>r. Q (f r) = Q r) \<Longrightarrow> (\<forall>x \<in> set (update_where p f rs). Q x) = (\<forall>x \<in> set rs. Q x)"
  by (induction rs) auto

lemma distinct_key_eq: "distinct (map k rs) \<Longrightarrow> x \<in> set rs \<Longrightarrow> y \<in> set rs \<Longrightarrow> k x = k y \<Longrightarrow> x = y"
  by (metis distinct_map inj_onD)

lemma find_by_key:
  assumes "distinct (map k rs)" "x \<in> set rs"
  shows "find (\<lambda>y. k y = k x \<and> P y) rs = (if P x then Some x else None)"
  using assms by (induction rs) (auto simp: find_None_iff image_iff)

text \<open>The row with a key, when a statement's condition names the key.\<close>

lemma hit_all:
  assumes "distinct (map k rs)" "updated_count (\<lambda>r. k r = i \<and> Q r) rs \<noteq> 0" "r \<in> set rs" "k r = i"
  shows "Q r"
proof -
  obtain x where "x \<in> set rs" "k x = i" "Q x"
    using assms(2) by (auto simp: updated_count_def filter_empty_conv)
  with distinct_key_eq [OF assms(1) assms(3)] assms(4) show ?thesis by metis
qed

lemma hit_all_after:
  assumes "distinct (map k rs)" "updated_count (\<lambda>r. k r = i \<and> Q r) rs \<noteq> 0"
    and "\<And>r. k (f r) = k r" "\<And>r. Q r \<Longrightarrow> P (f r)"
    and "x \<in> set (update_where (\<lambda>r. k r = i \<and> Q r) f rs)" "k x = i"
  shows "P x"
proof -
  obtain r where r: "r \<in> set rs" "x = (if k r = i \<and> Q r then f r else r)"
    using assms(5) by (auto simp: set_update_where)
  then have "k r = i" using assms(3,6) by (metis (full_types))
  moreover from hit_all [OF assms(1,2) r(1) this] have "Q r" .
  ultimately show ?thesis using r(2) assms(4) by simp
qed

lemma updated_count_0: "updated_count p rs = 0 \<longleftrightarrow> (\<forall>r \<in> set rs. \<not> p r)"
  by (simp add: updated_count_def filter_empty_conv)

lemma update_where_none: "(\<forall>r \<in> set rs. \<not> p r) \<Longrightarrow> update_where p f rs = rs"
  by (induction rs) auto

section \<open>Transition systems with an invariant\<close>

text \<open>
  The contract between a component's steps and a property every step keeps. A component
  interprets it on its own step relation and so gets the property in each reachable state.
\<close>

locale transition_system =
  fixes start :: "'s \<Rightarrow> bool"
    and step :: "'s \<Rightarrow> 's \<Rightarrow> bool"
    and inv :: "'s \<Rightarrow> bool"
  assumes inv_start: "start s \<Longrightarrow> inv s"
    and inv_step: "inv s \<Longrightarrow> step s t \<Longrightarrow> inv t"
begin

lemma inv_steps: "step\<^sup>*\<^sup>* s t \<Longrightarrow> inv s \<Longrightarrow> inv t"
  by (induction rule: rtranclp_induct) (auto intro: inv_step)

lemma inv_reachable: "start s \<Longrightarrow> step\<^sup>*\<^sup>* s t \<Longrightarrow> inv t"
  using inv_start inv_steps by blast

end

end
