(* ===== verification/JsText.thy ===== *)
theory JsText
  imports Prelude
begin

text \<open>
  JavaScript strings. A \<^typ>\<open>string\<close> here is a list of UTF-16 code units between
  U+0000 and U+00FF (a \<^typ>\<open>char\<close> is one code unit), the range in which the language's
  Unicode tables are written out below: \<open>toLowerCase\<close>, \<open>trim\<close>'s white space and the
  letter categories are those of the Latin-1 block. \<open>length\<close> counts code units, as
  JavaScript does. Text outside that block is not represented.
\<close>

section \<open>Characters\<close>

definition lower_char :: "char \<Rightarrow> char" where
  "lower_char c =
     (let n = of_char c :: nat
      in if (65 \<le> n \<and> n \<le> 90) \<or> (192 \<le> n \<and> n \<le> 222 \<and> n \<noteq> 215) then char_of (n + 32) else c)"

definition to_lower :: "string \<Rightarrow> string" where
  "to_lower s = map lower_char s"

definition is_space :: "char \<Rightarrow> bool" where
  "is_space c \<longleftrightarrow> (let n = of_char c :: nat in (9 \<le> n \<and> n \<le> 13) \<or> n = 32 \<or> n = 160)"

definition is_digit :: "char \<Rightarrow> bool" where
  "is_digit c \<longleftrightarrow> (let n = of_char c :: nat in 48 \<le> n \<and> n \<le> 57)"

definition is_ascii_letter :: "char \<Rightarrow> bool" where
  "is_ascii_letter c \<longleftrightarrow>
     (let n = of_char c :: nat in (65 \<le> n \<and> n \<le> 90) \<or> (97 \<le> n \<and> n \<le> 122))"

definition is_lower_az :: "char \<Rightarrow> bool" where
  "is_lower_az c \<longleftrightarrow> (let n = of_char c :: nat in 97 \<le> n \<and> n \<le> 122)"

definition is_hex :: "char \<Rightarrow> bool" where
  "is_hex c \<longleftrightarrow> (let n = of_char c :: nat
      in (48 \<le> n \<and> n \<le> 57) \<or> (65 \<le> n \<and> n \<le> 70) \<or> (97 \<le> n \<and> n \<le> 102))"

lemma of_char_less_256: "(of_char c :: nat) < 256"
  by (metis nat_of_char_less_256)

lemma lower_char_idem [simp]: "lower_char (lower_char c) = lower_char c"
proof (cases "(65 \<le> (of_char c :: nat) \<and> (of_char c :: nat) \<le> 90)
    \<or> (192 \<le> (of_char c :: nat) \<and> (of_char c :: nat) \<le> 222 \<and> (of_char c :: nat) \<noteq> 215)")
  case True
  then have "(of_char (char_of (of_char c + 32 :: nat) :: char) :: nat) = of_char c + 32"
    by (auto simp: of_char_of)
  with True show ?thesis
    by (auto simp: lower_char_def Let_def)
next
  case False
  then show ?thesis by (auto simp: lower_char_def Let_def)
qed

lemma lower_char_space [simp]: "is_space (lower_char c) = is_space c"
proof (cases "(65 \<le> (of_char c :: nat) \<and> (of_char c :: nat) \<le> 90)
    \<or> (192 \<le> (of_char c :: nat) \<and> (of_char c :: nat) \<le> 222 \<and> (of_char c :: nat) \<noteq> 215)")
  case True
  then have "(of_char (char_of (of_char c + 32 :: nat) :: char) :: nat) = of_char c + 32"
    by (auto simp: of_char_of)
  with True show ?thesis
    by (auto simp: lower_char_def is_space_def Let_def)
next
  case False
  then show ?thesis by (auto simp: lower_char_def Let_def)
qed

lemma to_lower_idem [simp]: "to_lower (to_lower s) = to_lower s"
  by (simp add: to_lower_def)

lemma to_lower_simps [simp]:
  "to_lower [] = []"
  "to_lower (c # s) = lower_char c # to_lower s"
  "to_lower (s @ t) = to_lower s @ to_lower t"
  "length (to_lower s) = length s"
  by (simp_all add: to_lower_def)

lemma to_lower_eq_Nil [simp]: "to_lower s = [] \<longleftrightarrow> s = []"
  by (simp add: to_lower_def)

text \<open>
  \<open>toUpperCase\<close>. A sharp s becomes two letters; the micro sign and y with diaeresis, whose upper
  case is outside the block, are left as they are.
\<close>

definition upper_char :: "char \<Rightarrow> string" where
  "upper_char c =
     (let n = of_char c :: nat
      in if n = 223 then ''SS''
         else if (97 \<le> n \<and> n \<le> 122) \<or> (224 \<le> n \<and> n \<le> 254 \<and> n \<noteq> 247) then [char_of (n - 32)]
         else [c])"

definition to_upper :: "string \<Rightarrow> string" where
  "to_upper s = concat (map upper_char s)"

section \<open>Strings\<close>

definition trim_start :: "string \<Rightarrow> string" where
  "trim_start s = dropWhile is_space s"

definition trim_end :: "string \<Rightarrow> string" where
  "trim_end s = rev (dropWhile is_space (rev s))"

definition trim :: "string \<Rightarrow> string" where
  "trim s = trim_end (trim_start s)"

definition starts_with :: "string \<Rightarrow> string \<Rightarrow> bool" where
  "starts_with s p \<longleftrightarrow> take (length p) s = p"

definition ends_with :: "string \<Rightarrow> string \<Rightarrow> bool" where
  "ends_with s p \<longleftrightarrow> length p \<le> length s \<and> drop (length s - length p) s = p"

fun includes_str :: "string \<Rightarrow> string \<Rightarrow> bool" where
  "includes_str [] p \<longleftrightarrow> p = []"
| "includes_str (c # s) p \<longleftrightarrow> starts_with (c # s) p \<or> includes_str s p"

text \<open>\<open>parts.join(sep)\<close>.\<close>

fun join :: "string \<Rightarrow> string list \<Rightarrow> string" where
  "join sep [] = []"
| "join sep [s] = s"
| "join sep (s # t # ss) = s @ sep @ join sep (t # ss)"

text \<open>\<open>s.split(p)\<close> for a separator of one character out of a class.\<close>

fun split_at :: "(char \<Rightarrow> bool) \<Rightarrow> string \<Rightarrow> string list" where
  "split_at p [] = [[]]"
| "split_at p (c # s) =
     (if p c then [] # split_at p s
      else (case split_at p s of [] \<Rightarrow> [[c]] | t # ts \<Rightarrow> (c # t) # ts))"

text \<open>A whole number in decimal, as a template literal writes it.\<close>

function dec_nat :: "nat \<Rightarrow> string" where
  "dec_nat n = (if n < 10 then [char_of (48 + n)] else dec_nat (n div 10) @ [char_of (48 + n mod 10)])"
  by pat_completeness auto
termination
  by (relation "measure id") auto

declare dec_nat.simps [simp del]

definition dec :: "int \<Rightarrow> string" where
  "dec i = (if i < 0 then ''-'' @ dec_nat (nat (- i)) else dec_nat (nat i))"

lemma dropWhile_idem [simp]: "dropWhile p (dropWhile p s) = dropWhile p s"
  by (induction s) auto

lemma trim_end_Nil [simp]: "trim_end [] = []"
  by (simp add: trim_end_def)

lemma trim_Nil [simp]: "trim [] = []"
  by (simp add: trim_def trim_start_def)

lemma trim_end_snoc: "trim_end (s @ [c]) = (if is_space c then trim_end s else s @ [c])"
  by (simp add: trim_end_def)

lemma length_trim: "length (trim s) \<le> length s"
  unfolding trim_def trim_end_def trim_start_def
  by (metis length_dropWhile_le length_rev order_trans)

lemma starts_with_append [simp]: "starts_with (p @ s) p"
  by (simp add: starts_with_def)

lemma starts_with_iff: "starts_with s p \<longleftrightarrow> (\<exists>t. s = p @ t)"
  by (auto simp: starts_with_def) (metis append_take_drop_id)

lemma split_at_nonempty [simp]: "split_at p s \<noteq> []"
  by (induction s) (auto split: list.splits)

lemma dec_nat_nonempty [simp]: "dec_nat n \<noteq> []"
  by (subst dec_nat.simps) simp

text \<open>Reading a decimal back: the value of a string of digits.\<close>

definition digits_value :: "string \<Rightarrow> nat" where
  "digits_value s = foldl (\<lambda>n c. 10 * n + (of_char c - 48)) 0 s"

lemma dec_nat_digits: "list_all is_digit (dec_nat n)"
proof (induction n rule: dec_nat.induct)
  case (1 n)
  have d: "is_digit (char_of (48 + m))" if "m < 10" for m :: nat
    using that by (simp add: is_digit_def of_char_of)
  show ?case
  proof (cases "n < 10")
    case True
    then show ?thesis by (subst dec_nat.simps) (simp add: d)
  next
    case False
    with 1 show ?thesis by (subst dec_nat.simps) (simp add: d)
  qed
qed

lemma digits_value_snoc: "digits_value (s @ [c]) = 10 * digits_value s + (of_char c - 48)"
  by (simp add: digits_value_def)

lemma digits_value_dec_nat [simp]: "digits_value (dec_nat n) = n"
proof (induction n rule: dec_nat.induct)
  case (1 n)
  show ?case
  proof (cases "n < 10")
    case True
    then show ?thesis
      by (subst dec_nat.simps) (simp add: digits_value_def of_char_of)
  next
    case False
    with 1 have "digits_value (dec_nat (n div 10)) = n div 10" by simp
    with False show ?thesis
      by (subst dec_nat.simps) (simp add: digits_value_snoc of_char_of)
  qed
qed

lemma dec_nat_inj: "dec_nat m = dec_nat n \<longleftrightarrow> m = n"
  by (metis digits_value_dec_nat)

section \<open>Empty and missing text\<close>

text \<open>\<open>s || t\<close> and \<open>!s\<close> on a string that may be null: the empty string is falsy too.\<close>

definition truthy :: "string option \<Rightarrow> bool" where
  "truthy s \<longleftrightarrow> (case s of None \<Rightarrow> False | Some t \<Rightarrow> t \<noteq> [])"

definition or_none :: "string \<Rightarrow> string option" where
  "or_none s = (if s = [] then None else Some s)"

definition or_empty :: "string option \<Rightarrow> string" where
  "or_empty s = (case s of None \<Rightarrow> [] | Some t \<Rightarrow> t)"

lemma truthy_simps [simp]: "\<not> truthy None" "truthy (Some t) \<longleftrightarrow> t \<noteq> []"
  by (simp_all add: truthy_def)

lemma or_none_simps [simp]: "or_none [] = None" "s \<noteq> [] \<Longrightarrow> or_none s = Some s"
    "or_none s = None \<longleftrightarrow> s = []"
  by (simp_all add: or_none_def)

lemma or_empty_simps [simp]: "or_empty None = []" "or_empty (Some t) = t"
  by (simp_all add: or_empty_def)

end
