(* ===== verification/Capabilities.thy ===== *)
theory Capabilities
  imports JsText
begin

text \<open>
  Capabilities, the roles that grant them, and how a person's directory groups become the
  capabilities of their session (\<^verbatim>\<open>packages/shared/src/capabilities.ts\<close>,
  \<^verbatim>\<open>apps/api/src/services/authorization.ts\<close>).
\<close>

(* src/packages/shared/src/capabilities.ts:2-34 Capability *)
datatype capability =
    Read_user | Read_user_deleted | Read_group | Read_computer | Read_computer_deleted
  | View_audit | Export_user
  | Write_user_create | Write_user_unlock | Write_user_resetPassword | Write_user_issueTap
  | Write_user_enableDisable | Write_user_attributes | Write_user_move | Write_user_rename
  | Write_user_delete | Write_user_restore
  | Write_group_membership | Write_group_create | Write_group_delete
  | Write_computer_enableDisable | Write_computer_resetAccount | Write_computer_move
  | Write_ou_create | Write_ou_update | Write_ou_delete
  | Configure_directory | Configure_security | View_raw_attributes

(* src/packages/shared/src/capabilities.ts:2-32 CAPABILITIES *)
definition CAPABILITIES :: "capability list" where
  "CAPABILITIES =
     [Read_user, Read_user_deleted, Read_group, Read_computer, Read_computer_deleted,
      View_audit, Export_user,
      Write_user_create, Write_user_unlock, Write_user_resetPassword, Write_user_issueTap,
      Write_user_enableDisable, Write_user_attributes, Write_user_move, Write_user_rename,
      Write_user_delete, Write_user_restore,
      Write_group_membership, Write_group_create, Write_group_delete,
      Write_computer_enableDisable, Write_computer_resetAccount, Write_computer_move,
      Write_ou_create, Write_ou_update, Write_ou_delete,
      Configure_directory, Configure_security, View_raw_attributes]"

(* src/packages/shared/src/capabilities.ts:36-37 Role *)
datatype role = Admin | Operator | Auditor

(* src/packages/shared/src/capabilities.ts:39-65 ROLE_CAPABILITIES *)
fun ROLE_CAPABILITIES :: "role \<Rightarrow> capability list" where
  "ROLE_CAPABILITIES Admin = CAPABILITIES"
| "ROLE_CAPABILITIES Operator =
     [Read_user, Read_group, Read_computer, Export_user,
      Write_user_create, Write_user_unlock, Write_user_resetPassword, Write_user_issueTap,
      Write_user_enableDisable, Write_user_attributes, Write_user_move, Write_user_rename,
      Write_group_membership, Write_group_create,
      Write_computer_enableDisable, Write_computer_resetAccount, Write_computer_move]"
| "ROLE_CAPABILITIES Auditor = [Read_user, Read_group, Read_computer, View_audit]"

text \<open>The writing capabilities: those the API's mutating routes ask for.\<close>

definition is_write :: "capability \<Rightarrow> bool" where
  "is_write c \<longleftrightarrow> c \<in> set
     [Write_user_create, Write_user_unlock, Write_user_resetPassword, Write_user_issueTap,
      Write_user_enableDisable, Write_user_attributes, Write_user_move, Write_user_rename,
      Write_user_delete, Write_user_restore, Write_group_membership, Write_group_create,
      Write_group_delete, Write_computer_enableDisable, Write_computer_resetAccount,
      Write_computer_move, Write_ou_create, Write_ou_update, Write_ou_delete]"

lemma CAPABILITIES_complete: "c \<in> set CAPABILITIES"
  by (cases c) (simp_all add: CAPABILITIES_def)

section \<open>Which role a directory group grants\<close>

text \<open>
  The settings that map roles to groups, and the environment's bootstrap group. A setting
  may be null or empty.
\<close>

record authz_settings =
  admin_group_dn :: "string option"
  operator_group_dn :: "string option"
  auditor_group_dn :: "string option"
  bootstrap_admin_group_dn :: "string option"

record role_group =
  rg_dn :: string
  rg_role :: role

(* src/apps/api/src/services/authorization.ts:67-78 loadAssignments *)
definition load_assignments :: "authz_settings \<Rightarrow> (string option \<times> role) list" where
  "load_assignments s =
     [(admin_group_dn s, Admin), (operator_group_dn s, Operator), (auditor_group_dn s, Auditor)]"

(* src/apps/api/src/services/authorization.ts:46-53 roleGroups *)
definition role_groups :: "authz_settings \<Rightarrow> role_group list" where
  "role_groups s =
     (let out = concat (map (\<lambda>(dn, r). case dn of
                   Some d \<Rightarrow> if d \<noteq> [] then [\<lparr>rg_dn = d, rg_role = r\<rparr>] else []
                 | None \<Rightarrow> []) (load_assignments s))
      in if \<not> (\<exists>g \<in> set out. rg_role g = Admin) \<and> truthy (bootstrap_admin_group_dn s)
         then out @ [\<lparr>rg_dn = or_empty (bootstrap_admin_group_dn s), rg_role = Admin\<rparr>]
         else out)"

(* src/apps/api/src/services/authorization.ts:27-38 resolveCapabilities *)
definition resolve_capabilities :: "authz_settings \<Rightarrow> string list \<Rightarrow> capability list" where
  "resolve_capabilities s memberOfDns =
     (let groups = set (map to_lower memberOfDns);
          matched = remdups (map rg_role (filter (\<lambda>g. to_lower (rg_dn g) \<in> groups) (role_groups s)))
      in remdups (concat (map ROLE_CAPABILITIES matched)))"

(* src/apps/api/src/services/authorization.ts:59-61 has *)
definition has_capability :: "capability list \<Rightarrow> capability \<Rightarrow> bool" where
  "has_capability caps required \<longleftrightarrow> required \<in> set caps"

(* src/apps/api/src/services/authorization.ts:63-65 hasAny *)
definition has_any :: "capability list \<Rightarrow> capability list \<Rightarrow> bool" where
  "has_any caps required \<longleftrightarrow> (\<exists>c \<in> set required. c \<in> set caps)"

lemma resolve_capabilities_iff:
  "c \<in> set (resolve_capabilities s dns) \<longleftrightarrow>
     (\<exists>g \<in> set (role_groups s). to_lower (rg_dn g) \<in> to_lower ` set dns \<and> c \<in> set (ROLE_CAPABILITIES (rg_role g)))"
  by (auto simp: resolve_capabilities_def Let_def)

lemma role_groups_nonempty_dn: "g \<in> set (role_groups s) \<Longrightarrow> rg_dn g \<noteq> []"
  by (auto simp: role_groups_def load_assignments_def Let_def truthy_def
      split: option.splits if_splits)

lemma role_groups_admin:
  "g \<in> set (role_groups s) \<Longrightarrow> rg_role g = Admin \<Longrightarrow>
     rg_dn g = (if truthy (admin_group_dn s) then or_empty (admin_group_dn s)
                else or_empty (bootstrap_admin_group_dn s))"
  by (auto simp: role_groups_def load_assignments_def Let_def truthy_def
      split: option.splits if_splits)

lemma role_capabilities_no_admin_write:
  "r \<noteq> Admin \<Longrightarrow> Configure_security \<notin> set (ROLE_CAPABILITIES r)"
  by (cases r) simp_all

text \<open>
  Only the group configured for admins grants \<open>configure:security\<close>: the admin group of the
  settings or, when the settings name none, the bootstrap group of the environment; so once
  an admin group is configured, membership of the bootstrap group grants nothing.
\<close>

theorem configure_security_needs_admin_group:
  "Configure_security \<in> set (resolve_capabilities s dns) \<longleftrightarrow>
     (let dn = if truthy (admin_group_dn s) then admin_group_dn s else bootstrap_admin_group_dn s
      in truthy dn \<and> to_lower (or_empty dn) \<in> to_lower ` set dns)"
  (is "?L \<longleftrightarrow> ?R")
proof
  assume ?L
  then obtain g where g: "g \<in> set (role_groups s)" "to_lower (rg_dn g) \<in> to_lower ` set dns"
      "Configure_security \<in> set (ROLE_CAPABILITIES (rg_role g))"
    by (auto simp: resolve_capabilities_iff)
  then have "rg_role g = Admin" using role_capabilities_no_admin_write by blast
  with g role_groups_admin [of g s] role_groups_nonempty_dn [of g s] show ?R
    by (auto simp: Let_def truthy_def or_empty_def split: option.splits if_splits)
next
  assume R: ?R
  let ?dn = "if truthy (admin_group_dn s) then admin_group_dn s else bootstrap_admin_group_dn s"
  have "\<lparr>rg_dn = or_empty ?dn, rg_role = Admin\<rparr> \<in> set (role_groups s)"
    using R by (auto simp: role_groups_def load_assignments_def Let_def truthy_def
        split: option.splits if_splits)
  moreover have "Configure_security \<in> set (ROLE_CAPABILITIES Admin)"
    by (simp add: CAPABILITIES_complete)
  ultimately show ?L using R
    by (auto simp: resolve_capabilities_iff Let_def intro!: bexI)
qed

end
