(* ===== verification/Sessions.thy ===== *)
theory Sessions
  imports Capabilities
begin

text \<open>
  Admin and elevated sessions (\<^verbatim>\<open>apps/api/src/services/sessions.ts\<close>). The two tables are
  lists of rows in insertion order. Every operation takes the current time; the session id,
  the token and \<open>hashToken\<close> come in as arguments. A statement's clock and the process's are
  the same clock.
\<close>

section \<open>The tables\<close>

(* src/apps/api/src/services/sessions.ts:12-29 AdminSession *)
record admin_session =
  as_id :: string
  token_hash :: string
  as_directoryId :: nat
  as_actorUserId :: string
  as_actorDisplayName :: "string option"
  as_actorUsername :: "string option"
  as_actorEmail :: "string option"
  as_actorDn :: "string option"
  as_capabilities :: "capability list"
  as_sourceIp :: "string option"
  as_userAgent :: "string option"
  as_createdAt :: ms
  as_lastSeenAt :: ms
  as_expiresAt :: ms
  as_revokedAt :: "ms option"

(* src/apps/api/src/services/sessions.ts:31-42 ElevatedSession *)
record elevated_session =
  es_id :: string
  es_adminSessionId :: string
  es_actorUserId :: string
  es_authMethod :: string
  es_capabilities :: "capability list"
  es_createdAt :: ms
  es_idleExpiresAt :: ms
  es_absoluteExpiresAt :: ms
  es_revokedAt :: "ms option"

record session_db =
  admin_sessions :: "admin_session list"
  elevated_sessions :: "elevated_session list"

(* src/apps/api/src/services/sessions.ts:44-59 CreateSessionInput *)
record create_session_input =
  in_directoryId :: nat
  in_actorUserId :: string
  in_actorDisplayName :: "string option"
  in_actorUsername :: "string option"
  in_actorEmail :: "string option"
  in_actorDn :: "string option"
  in_capabilities :: "capability list"
  in_sourceIp :: "string option"
  in_userAgent :: "string option"
  in_notAfter :: "ms option"

section \<open>The limits\<close>

text \<open>The stored settings; one that was never saved is \<open>None\<close> and its default counts.\<close>

record session_settings =
  absolute_timeout_hours :: "int option"
  idle_timeout_minutes :: "int option"
  stepup_idle_timeout_minutes :: "int option"
  stepup_absolute_lifetime_minutes :: "int option"

definition setting_or :: "int \<Rightarrow> int option \<Rightarrow> int" where
  "setting_or d v = (case v of Some x \<Rightarrow> x | None \<Rightarrow> d)"

(* src/packages/shared/src/elevatedSession.ts:18-32 ELEVATED_SESSION_LIMITS *)
record elevated_session_limit =
  lim_default :: int
  lim_min :: int
  lim_max :: int

definition idleTimeout :: elevated_session_limit where
  "idleTimeout = \<lparr>lim_default = 15, lim_min = 1, lim_max = 480\<rparr>"

definition absoluteLifetime :: elevated_session_limit where
  "absoluteLifetime = \<lparr>lim_default = 240, lim_min = 1, lim_max = 1440\<rparr>"

(* src/apps/api/src/services/sessions.ts:292-294 signInIdleMs *)
definition signInIdleMs :: "session_settings \<Rightarrow> ms" where
  "signInIdleMs st = setting_or 60 (idle_timeout_minutes st) * 60 * 1000"

(* src/apps/api/src/services/sessions.ts:280-290 elevationLimits *)
definition elevationLimits :: "session_settings \<Rightarrow> ms \<times> ms" where
  "elevationLimits st =
     (let idleMinutes = setting_or (lim_default idleTimeout) (stepup_idle_timeout_minutes st);
          absoluteMinutes = setting_or (lim_default absoluteLifetime) (stepup_absolute_lifetime_minutes st)
      in (min (idleMinutes * 60 * 1000) (signInIdleMs st), absoluteMinutes * 60 * 1000))"

text \<open>\<open>Math.min(x, limit?.getTime() ?? Infinity)\<close>.\<close>

definition min_opt :: "ms \<Rightarrow> ms option \<Rightarrow> ms" where
  "min_opt x limit = (case limit of Some y \<Rightarrow> min x y | None \<Rightarrow> x)"

section \<open>Admin sessions\<close>

(* src/apps/api/src/services/sessions.ts:77-104 createAdminSession *)
definition createAdminSession ::
    "(string \<Rightarrow> string) \<Rightarrow> session_settings \<Rightarrow> ms \<Rightarrow> string \<Rightarrow> string \<Rightarrow> create_session_input
       \<Rightarrow> session_db \<Rightarrow> admin_session \<times> session_db" where
  "createAdminSession hashToken st now newId cookieToken inp db =
     (let absoluteHours = setting_or 12 (absolute_timeout_hours st);
          fullLifetime = now + absoluteHours * 60 * 60 * 1000;
          row = \<lparr>as_id = newId,
                 token_hash = hashToken cookieToken,
                 as_directoryId = in_directoryId inp,
                 as_actorUserId = in_actorUserId inp,
                 as_actorDisplayName = in_actorDisplayName inp,
                 as_actorUsername = in_actorUsername inp,
                 as_actorEmail = in_actorEmail inp,
                 as_actorDn = in_actorDn inp,
                 as_capabilities = in_capabilities inp,
                 as_sourceIp = in_sourceIp inp,
                 as_userAgent = in_userAgent inp,
                 as_createdAt = now,
                 as_lastSeenAt = now,
                 as_expiresAt = min_opt fullLifetime (in_notAfter inp),
                 as_revokedAt = None\<rparr>
      in (row, db\<lparr>admin_sessions := admin_sessions db @ [row]\<rparr>))"

text \<open>
  The checks of \<open>resolve\<close> on the row found, apart from the statement that records the
  activity. That statement isn't awaited: \<open>bumped\<close> says whether it went through.
\<close>

definition session_live :: "session_settings \<Rightarrow> ms \<Rightarrow> admin_session \<Rightarrow> bool" where
  "session_live st now s \<longleftrightarrow>
     as_revokedAt s = None \<and> \<not> as_expiresAt s \<le> now \<and> \<not> now - as_lastSeenAt s > signInIdleMs st"

(* src/apps/api/src/services/sessions.ts:115-143 resolve *)
definition resolve ::
    "(string \<Rightarrow> string) \<Rightarrow> session_settings \<Rightarrow> ms \<Rightarrow> bool \<Rightarrow> string \<Rightarrow> session_db
       \<Rightarrow> admin_session option \<times> session_db" where
  "resolve hashToken st now bumped cookieToken db =
     (if cookieToken = [] then (None, db)
      else case find (\<lambda>s. token_hash s = hashToken cookieToken) (admin_sessions db) of
             None \<Rightarrow> (None, db)
           | Some s \<Rightarrow>
               if \<not> session_live st now s then (None, db)
               else (Some s,
                     if bumped then db\<lparr>admin_sessions :=
                       update_where (\<lambda>r. as_id r = as_id s) (as_lastSeenAt_update (\<lambda>_. now))
                         (admin_sessions db)\<rparr>
                     else db))"

text \<open>The statement that revokes the elevated sessions of an admin session, and whom it hit.\<close>

(* src/apps/api/src/services/sessions.ts:301-310 revokeElevatedSessionsForAdmin *)
definition revokeElevatedSessionsForAdmin ::
    "ms \<Rightarrow> string \<Rightarrow> session_db \<Rightarrow> string list \<times> session_db" where
  "revokeElevatedSessionsForAdmin now adminId db =
     (let p = (\<lambda>e. es_adminSessionId e = adminId \<and> es_revokedAt e = None)
      in (map es_id (filter p (elevated_sessions db)),
          db\<lparr>elevated_sessions :=
               update_where p (es_revokedAt_update (\<lambda>_. Some now)) (elevated_sessions db)\<rparr>))"

(* src/apps/api/src/services/sessions.ts:150-166 revokeAdminSession *)
definition revokeAdminSession :: "ms \<Rightarrow> string \<Rightarrow> session_db \<Rightarrow> string list \<times> session_db" where
  "revokeAdminSession now i db =
     (let db = db\<lparr>admin_sessions :=
            update_where (\<lambda>s. as_id s = i \<and> as_revokedAt s = None) (as_revokedAt_update (\<lambda>_. Some now))
              (admin_sessions db)\<rparr>
      in revokeElevatedSessionsForAdmin now i db)"

section \<open>Elevated sessions\<close>

(* src/apps/api/src/services/sessions.ts:202-227 createElevatedSession *)
definition createElevatedSession ::
    "session_settings \<Rightarrow> ms \<Rightarrow> string \<Rightarrow> string \<Rightarrow> string \<Rightarrow> capability list \<Rightarrow> string option \<Rightarrow> ms option
       \<Rightarrow> session_db \<Rightarrow> elevated_session \<times> session_db" where
  "createElevatedSession st now newId adminId actor caps authMethod notAfter db =
     (let (idleMs, absoluteMs) = elevationLimits st;
          absoluteExpiresAt = min_opt (now + absoluteMs) notAfter;
          idleExpiresAt = min (now + idleMs) absoluteExpiresAt;
          row = \<lparr>es_id = newId,
                 es_adminSessionId = adminId,
                 es_actorUserId = actor,
                 es_authMethod = (case authMethod of Some m \<Rightarrow> m | None \<Rightarrow> ''ad-rebind''),
                 es_capabilities = caps,
                 es_createdAt = now,
                 es_idleExpiresAt = idleExpiresAt,
                 es_absoluteExpiresAt = absoluteExpiresAt,
                 es_revokedAt = None\<rparr>
      in (row, db\<lparr>elevated_sessions := elevated_sessions db @ [row]\<rparr>))"

(* src/apps/api/src/services/sessions.ts:178-198 rotateAndElevate *)
definition rotateAndElevate ::
    "(string \<Rightarrow> string) \<Rightarrow> session_settings \<Rightarrow> ms \<Rightarrow> string \<Rightarrow> string \<Rightarrow> string
       \<Rightarrow> string \<Rightarrow> create_session_input \<Rightarrow> capability list \<Rightarrow> string option \<Rightarrow> session_db
       \<Rightarrow> (admin_session \<times> elevated_session \<times> string list) \<times> session_db" where
  "rotateAndElevate hashToken st now newAdminId newElevatedId cookieToken
       oldAdminSessionId seed elevatedCapabilities authMethod db =
     (let (admin, db) = createAdminSession hashToken st now newAdminId cookieToken seed db;
          (elevated, db) = createElevatedSession st now newElevatedId (as_id admin) (in_actorUserId seed)
             elevatedCapabilities authMethod (Some (as_expiresAt admin)) db;
          (revokedElevatedIds, db) = revokeAdminSession now oldAdminSessionId db
      in ((admin, elevated, revokedElevatedIds), db))"

text \<open>Active: not revoked, and past neither end.\<close>

definition elevated_active :: "ms \<Rightarrow> elevated_session \<Rightarrow> bool" where
  "elevated_active now e \<longleftrightarrow>
     es_revokedAt e = None \<and> now < es_idleExpiresAt e \<and> now < es_absoluteExpiresAt e"

text \<open>\<open>order by created_at desc limit 1\<close>.\<close>

fun newest :: "elevated_session list \<Rightarrow> elevated_session option" where
  "newest [] = None"
| "newest (e # es) =
     (case newest es of
        None \<Rightarrow> Some e
      | Some f \<Rightarrow> if es_createdAt f > es_createdAt e then Some f else Some e)"

(* src/apps/api/src/services/sessions.ts:233-246 findActiveElevated *)
definition findActiveElevated :: "ms \<Rightarrow> string \<Rightarrow> session_db \<Rightarrow> elevated_session option" where
  "findActiveElevated now adminId db =
     newest (filter (\<lambda>e. es_adminSessionId e = adminId \<and> elevated_active now e) (elevated_sessions db))"

text \<open>
  \<open>|next - idle| < idleMs / 20\<close>, on whole numbers.
\<close>

(* src/apps/api/src/services/sessions.ts:259-273 recordElevatedActivity *)
definition recordElevatedActivity ::
    "session_settings \<Rightarrow> ms \<Rightarrow> elevated_session \<Rightarrow> session_db \<Rightarrow> elevated_session option \<times> session_db" where
  "recordElevatedActivity st now elevated db =
     (let (idleMs, _) = elevationLimits st;
          next = min (now + idleMs) (es_absoluteExpiresAt elevated)
      in if 20 * \<bar>next - es_idleExpiresAt elevated\<bar> < idleMs then (Some elevated, db)
         else
           let p = (\<lambda>e. es_id e = es_id elevated \<and> es_revokedAt e = None \<and> es_idleExpiresAt e > now);
               f = es_idleExpiresAt_update (\<lambda>_. next)
           in (map_option f (find p (elevated_sessions db)),
               db\<lparr>elevated_sessions := update_where p f (elevated_sessions db)\<rparr>))"

text \<open>Every open elevated session, with the admin session that owns it.\<close>

(* src/apps/api/src/services/sessions.ts:317-350 endOpenElevatedSessions *)
definition endOpenElevatedSessions ::
    "ms \<Rightarrow> session_db \<Rightarrow> (elevated_session \<times> admin_session) list \<times> session_db" where
  "endOpenElevatedSessions now db =
     (let owner = (\<lambda>e. find (\<lambda>a. as_id a = es_adminSessionId e) (admin_sessions db));
          p = (\<lambda>e. owner e \<noteq> None \<and> elevated_active now e)
      in (map (\<lambda>e. (e, the (owner e))) (filter p (elevated_sessions db)),
          db\<lparr>elevated_sessions :=
               update_where p (es_revokedAt_update (\<lambda>_. Some now)) (elevated_sessions db)\<rparr>))"

record elevated_state =
  st_active :: bool
  st_idleExpiresAt :: "ms option"
  st_absoluteExpiresAt :: "ms option"

(* src/apps/api/src/services/sessions.ts:354-360 elevatedState *)
definition elevatedState :: "elevated_session option \<Rightarrow> elevated_state" where
  "elevatedState e =
     \<lparr>st_active = (e \<noteq> None),
      st_idleExpiresAt = map_option es_idleExpiresAt e,
      st_absoluteExpiresAt = map_option es_absoluteExpiresAt e\<rparr>"

end
