(* ===== verification/Bytes.thy ===== *)
theory Bytes
  imports JsText
begin

text \<open>
  Byte buffers: UTF-8 (\<open>Buffer.from(s, 'utf8')\<close>, \<open>toString('utf8')\<close>) and base64url
  (\<open>toString('base64url')\<close>, \<open>Buffer.from(s, 'base64url')\<close>), with their round trips. A
  byte is a natural number below 256.
\<close>

type_synonym bytes = "nat list"

definition bytes_ok :: "bytes \<Rightarrow> bool" where
  "bytes_ok bs \<longleftrightarrow> (\<forall>b \<in> set bs. b < 256)"

lemma bytes_ok_simps [simp]: "bytes_ok []" "bytes_ok (b # bs) \<longleftrightarrow> b < 256 \<and> bytes_ok bs"
    "bytes_ok (as @ bs) \<longleftrightarrow> bytes_ok as \<and> bytes_ok bs"
  by (auto simp: bytes_ok_def)

text \<open>Packing two numbers into one and reading them back.\<close>

lemma pack_div: "(y::nat) < n \<Longrightarrow> (x * n + y) div n = x"
  by simp

lemma pack_mod: "(y::nat) < n \<Longrightarrow> (x * n + y) mod n = y"
  by simp

lemma pack_split: "(x::nat) div n * n + x mod n = x"
  by simp

lemma div_below: "(b::nat) < 256 \<Longrightarrow> b div 16 < 16" "(b::nat) < 256 \<Longrightarrow> b div 64 < 4"
    "(b::nat) < 256 \<Longrightarrow> b div 4 < 64"
  by auto

lemma pack_below: "(x::nat) < m \<Longrightarrow> y < n \<Longrightarrow> x * n + y < m * n"
proof -
  assume "x < m" "y < n"
  then have "x * n + y < Suc x * n" by simp
  also have "\<dots> \<le> m * n" using \<open>x < m\<close> by (intro mult_right_mono) auto
  finally show ?thesis .
qed

section \<open>UTF-8\<close>

text \<open>A code unit of the represented range takes one byte, or two from U+0080.\<close>

definition utf8_char :: "char \<Rightarrow> bytes" where
  "utf8_char c = (let n = of_char c in if n < 128 then [n] else [192 + n div 64, 128 + n mod 64])"

definition utf8 :: "string \<Rightarrow> bytes" where
  "utf8 s = concat (map utf8_char s)"

text \<open>\<open>None\<close>: bytes that aren't UTF-8, or that stand for text outside the represented range.\<close>

fun utf8_decode :: "bytes \<Rightarrow> string option" where
  "utf8_decode [] = Some []"
| "utf8_decode (b # bs) =
     (if b < 128 then map_option ((#) (char_of b)) (utf8_decode bs)
      else if b = 194 \<or> b = 195 then
        (case bs of
           [] \<Rightarrow> None
         | c # cs \<Rightarrow> if 128 \<le> c \<and> c < 192
                     then map_option ((#) (char_of ((b - 192) * 64 + (c - 128)))) (utf8_decode cs)
                     else None)
      else None)"

lemma utf8_Nil [simp]: "utf8 [] = []"
  by (simp add: utf8_def)

lemma utf8_Cons: "utf8 (c # s) = utf8_char c @ utf8 s"
  by (simp add: utf8_def)

lemma utf8_bytes_ok [simp]: "bytes_ok (utf8 s)"
proof (induction s)
  case (Cons c s)
  have "(of_char c :: nat) < 256" by (rule of_char_less_256)
  then have "(of_char c :: nat) div 64 < 4" by (intro less_mult_imp_div_less) simp
  moreover have "(of_char c :: nat) mod 64 < 128"
    by (rule less_trans [OF mod_less_divisor]) simp_all
  ultimately have "bytes_ok (utf8_char c)" by (simp add: utf8_char_def Let_def)
  with Cons show ?case by (simp add: utf8_Cons)
qed simp

lemma utf8_char_decode: "utf8_decode (utf8_char c @ bs) = map_option ((#) c) (utf8_decode bs)"
proof -
  let ?n = "of_char c :: nat"
  have lt: "?n < 256" by (rule of_char_less_256)
  show ?thesis
  proof (cases "?n < 128")
    case True
    then show ?thesis by (simp add: utf8_char_def Let_def)
  next
    case False
    with lt have "2 \<le> ?n div 64" "?n div 64 < 4"
      by (simp_all add: less_eq_div_iff_mult_less_eq div_less_iff_less_mult)
    then have q: "?n div 64 = 2 \<or> ?n div 64 = 3" by linarith
    have m: "?n mod 64 < 64" by simp
    have "?n = ?n div 64 * 64 + ?n mod 64" by simp
    with q have c: "c = char_of ((192 + ?n div 64 - 192) * 64 + (128 + ?n mod 64 - 128))"
      by (metis add_diff_cancel_left' char_of_char)
    have "utf8_char c = [192 + ?n div 64, 128 + ?n mod 64]"
      using False by (simp add: utf8_char_def Let_def)
    with q m c show ?thesis by auto
  qed
qed

lemma utf8_roundtrip [simp]: "utf8_decode (utf8 s) = Some s"
  by (induction s) (simp_all add: utf8_Cons utf8_char_decode)

text \<open>Decoding accepts only what encoding gives.\<close>

lemma utf8_decode_exact: "utf8_decode bs = Some s \<Longrightarrow> utf8 s = bs"
proof (induction bs arbitrary: s rule: utf8_decode.induct)
  case (2 b bs)
  show ?case
  proof (cases "b < 128")
    case True
    with 2 show ?thesis
      by (auto simp: utf8_Cons utf8_char_def Let_def of_char_of)
  next
    case False
    with "2.prems" obtain c cs t where b: "b = 194 \<or> b = 195" and bs: "bs = c # cs"
        and c: "128 \<le> c" "c < 192" and t: "utf8_decode cs = Some t"
        and s: "s = char_of ((b - 192) * 64 + (c - 128)) # t"
      by (auto split: if_splits list.splits)
    from "2.IH"(2) [OF False b bs] c t have "utf8 t = cs" by simp
    moreover have "utf8_char (char_of ((b - 192) * 64 + (c - 128))) = [b, c]"
    proof -
      have "c = 128 + (c - 128)" "c - 128 < 64" using c by auto
      then obtain d where "c = 128 + d" "d < 64" by blast
      moreover from this have "(128 + d) mod 64 = d" "(192 + d) mod 64 = d"
        using pack_mod [of d 64 2] pack_mod [of d 64 3] by simp_all
      ultimately show ?thesis using b by (auto simp: utf8_char_def Let_def of_char_of)
    qed
    ultimately show ?thesis using s bs by (simp add: utf8_Cons)
  qed
qed simp

section \<open>base64url\<close>

definition b64_char :: "nat \<Rightarrow> char" where
  "b64_char n = char_of (if n < 26 then 65 + n else if n < 52 then 71 + n
                         else if n < 62 then n - 4 else if n = 62 then 45 else 95 :: nat)"

text \<open>Node's decoder takes the letters of both alphabets and skips any other character.\<close>

definition b64_value :: "char \<Rightarrow> nat option" where
  "b64_value c = (let n = of_char c :: nat
     in if 65 \<le> n \<and> n \<le> 90 then Some (n - 65)
        else if 97 \<le> n \<and> n \<le> 122 then Some (n - 71)
        else if 48 \<le> n \<and> n \<le> 57 then Some (n + 4)
        else if n = 45 \<or> n = 43 then Some 62
        else if n = 95 \<or> n = 47 then Some 63
        else None)"

fun to_sextets :: "bytes \<Rightarrow> nat list" where
  "to_sextets [] = []"
| "to_sextets [a] = [a div 4, (a mod 4) * 16]"
| "to_sextets [a, b] = [a div 4, (a mod 4) * 16 + b div 16, (b mod 16) * 4]"
| "to_sextets (a # b # c # bs) =
     a div 4 # ((a mod 4) * 16 + b div 16) # ((b mod 16) * 4 + c div 64) # (c mod 64) # to_sextets bs"

fun of_sextets :: "nat list \<Rightarrow> bytes" where
  "of_sextets [] = []"
| "of_sextets [p] = []"
| "of_sextets [p, q] = [p * 4 + q div 16]"
| "of_sextets [p, q, r] = [p * 4 + q div 16, (q mod 16) * 16 + r div 4]"
| "of_sextets (p # q # r # s # ns) =
     (p * 4 + q div 16) # ((q mod 16) * 16 + r div 4) # ((r mod 4) * 64 + s) # of_sextets ns"

definition b64url :: "bytes \<Rightarrow> string" where
  "b64url bs = map b64_char (to_sextets bs)"

definition b64url_decode :: "string \<Rightarrow> bytes" where
  "b64url_decode s = of_sextets (List.map_filter b64_value s)"

lemma sextets_below: "bytes_ok bs \<Longrightarrow> n \<in> set (to_sextets bs) \<Longrightarrow> n < 64"
proof (induction bs rule: to_sextets.induct)
  case (3 a b)
  then have "(a mod 4) * 16 + b div 16 < 64"
    using pack_below [of "a mod 4" 4 "b div 16" 16] by (simp add: div_below)
  with 3 show ?case by (auto simp: div_below)
next
  case (4 a b c bs)
  then have "(a mod 4) * 16 + b div 16 < 64" "(b mod 16) * 4 + c div 64 < 64"
    using pack_below [of "a mod 4" 4 "b div 16" 16] pack_below [of "b mod 16" 16 "c div 64" 4]
    by (simp_all add: div_below)
  with 4 show ?case by (auto simp: div_below)
qed (auto simp: div_below)

lemma sextets_roundtrip: "bytes_ok bs \<Longrightarrow> of_sextets (to_sextets bs) = bs"
proof (induction bs rule: to_sextets.induct)
  case (2 a)
  show ?case by (simp add: pack_split)
next
  case (3 a b)
  then show ?case by (simp add: pack_div pack_mod pack_split div_below)
next
  case (4 a b c bs)
  then show ?case by (simp add: pack_div pack_mod pack_split div_below)
qed simp

lemma b64_value_char [simp]: "n < 64 \<Longrightarrow> b64_value (b64_char n) = Some n"
proof -
  assume n: "n < 64"
  then consider "n < 26" | "26 \<le> n" "n < 52" | "52 \<le> n" "n < 62" | "n = 62" | "n = 63"
    by linarith
  then show ?thesis
    by cases (simp_all add: b64_value_def b64_char_def Let_def of_char_of, linarith+)
qed

lemma b64_char_no_dot: "n < 64 \<Longrightarrow> b64_char n \<noteq> CHR ''.''"
proof
  assume n: "n < 64" "b64_char n = CHR ''.''"
  then have "b64_value (CHR ''.'') = Some n" by (metis b64_value_char)
  then show False by (simp add: b64_value_def)
qed

lemma map_filter_b64: "\<forall>n \<in> set ns. n < 64 \<Longrightarrow> List.map_filter b64_value (map b64_char ns) = ns"
  by (induction ns) (simp_all add: List.map_filter_simps)

lemma b64url_roundtrip [simp]: "bytes_ok bs \<Longrightarrow> b64url_decode (b64url bs) = bs"
  by (simp add: b64url_def b64url_decode_def map_filter_b64 sextets_below sextets_roundtrip)

lemma b64url_no_dot: "bytes_ok bs \<Longrightarrow> CHR ''.'' \<notin> set (b64url bs)"
  using b64_char_no_dot sextets_below by (fastforce simp: b64url_def)

end
