(* ===== verification/CredentialCache.thy ===== *)
theory CredentialCache
  imports Bytes
begin

text \<open>
  The step-up passwords held in process memory
  (\<^verbatim>\<open>apps/api/src/services/credentialCache.ts\<close>). The entries are a JavaScript map from
  an elevated session's id to a password buffer and the time it goes. Buffers are mutable
  and are wiped in place, so they live in an explicit store: \<open>heap ! r\<close> is the content of
  buffer \<open>r\<close>, and an entry holds \<open>r\<close>. Every operation takes the current time.
\<close>

section \<open>The state and its operations\<close>

(* src/apps/api/src/services/credentialCache.ts:27-30 Entry *)
record cred_entry =
  password :: nat
  expiresAt :: ms

(* src/apps/api/src/services/credentialCache.ts:32-34 CredentialCacheService *)
record cred_cache =
  entries :: "(string, cred_entry) jsmap"
  heap :: "bytes list"

definition cc_empty :: cred_cache where
  "cc_empty = \<lparr>entries = [], heap = []\<rparr>"

text \<open>\<open>buffer.fill(0)\<close>.\<close>

definition wipe :: "nat \<Rightarrow> bytes list \<Rightarrow> bytes list" where
  "wipe r h = h[r := replicate (length (h ! r)) 0]"

(* src/apps/api/src/services/credentialCache.ts:88-91 evict *)
definition cc_evict :: "string \<Rightarrow> cred_entry \<Rightarrow> cred_cache \<Rightarrow> cred_cache" where
  "cc_evict i e c =
     c\<lparr>heap := wipe (password e) (heap c), entries := jm_delete i (entries c)\<rparr>"

(* src/apps/api/src/services/credentialCache.ts:42-50 set *)
definition cc_set :: "string \<Rightarrow> string \<Rightarrow> ms \<Rightarrow> cred_cache \<Rightarrow> cred_cache" where
  "cc_set i pw until c =
     (let h = (case jm_get (entries c) i of Some e \<Rightarrow> wipe (password e) (heap c) | None \<Rightarrow> heap c)
      in c\<lparr>heap := h @ [utf8 pw],
           entries := jm_set i \<lparr>password = length h, expiresAt = until\<rparr> (entries c)\<rparr>)"

text \<open>The password, if it is held and still in time, and the cache: an entry out of time is evicted.\<close>

(* src/apps/api/src/services/credentialCache.ts:52-61 get *)
definition cc_get :: "string \<Rightarrow> ms \<Rightarrow> cred_cache \<Rightarrow> string option \<times> cred_cache" where
  "cc_get i now c =
     (case jm_get (entries c) i of
        None \<Rightarrow> (None, c)
      | Some e \<Rightarrow>
          if expiresAt e \<le> now then (None, cc_evict i e c)
          else (utf8_decode (heap c ! password e), c))"

(* src/apps/api/src/services/credentialCache.ts:63-67 extend *)
definition cc_extend :: "string \<Rightarrow> ms \<Rightarrow> cred_cache \<Rightarrow> cred_cache" where
  "cc_extend i until c =
     (case jm_get (entries c) i of
        None \<Rightarrow> c
      | Some e \<Rightarrow> c\<lparr>entries := jm_set i (e\<lparr>expiresAt := until\<rparr>) (entries c)\<rparr>)"

(* src/apps/api/src/services/credentialCache.ts:69-72 delete *)
definition cc_delete :: "string \<Rightarrow> cred_cache \<Rightarrow> cred_cache" where
  "cc_delete i c = (case jm_get (entries c) i of None \<Rightarrow> c | Some e \<Rightarrow> cc_evict i e c)"

(* src/apps/api/src/services/credentialCache.ts:74-76 deleteMany *)
definition cc_delete_many :: "string list \<Rightarrow> cred_cache \<Rightarrow> cred_cache" where
  "cc_delete_many is c = fold cc_delete is c"

(* src/apps/api/src/services/credentialCache.ts:78-80 size *)
definition cc_size :: "cred_cache \<Rightarrow> nat" where
  "cc_size c = length (entries c)"

(* src/apps/api/src/services/credentialCache.ts:82-86 stop *)
definition cc_stop :: "cred_cache \<Rightarrow> cred_cache" where
  "cc_stop c = fold (\<lambda>(i, e). cc_evict i e) (entries c) c"

(* src/apps/api/src/services/credentialCache.ts:93-98 sweep *)
definition cc_sweep :: "ms \<Rightarrow> cred_cache \<Rightarrow> cred_cache" where
  "cc_sweep now c = fold (\<lambda>(i, e) c. if expiresAt e \<le> now then cc_evict i e c else c) (entries c) c"

section \<open>The store stays sound\<close>

text \<open>
  Each live entry has a buffer of its own, holding the UTF-8 of some text, and every other
  buffer ever allocated holds nothing but zeros.
\<close>

definition wiped :: "bytes \<Rightarrow> bool" where
  "wiped b \<longleftrightarrow> (\<forall>x \<in> set b. x = 0)"

definition cc_inv :: "cred_cache \<Rightarrow> bool" where
  "cc_inv c \<longleftrightarrow>
     jm_wf (entries c)
     \<and> (\<forall>i e. jm_get (entries c) i = Some e \<longrightarrow>
          password e < length (heap c) \<and> (\<exists>s. heap c ! password e = utf8 s))
     \<and> (\<forall>i j d e. jm_get (entries c) i = Some d \<longrightarrow> jm_get (entries c) j = Some e \<longrightarrow>
          password d = password e \<longrightarrow> i = j)
     \<and> (\<forall>r < length (heap c). (\<forall>i e. jm_get (entries c) i = Some e \<longrightarrow> password e \<noteq> r) \<longrightarrow>
          wiped (heap c ! r))"

lemma length_wipe [simp]: "length (wipe r h) = length h"
  by (simp add: wipe_def)

lemma wipe_nth: "r < length h \<Longrightarrow> wipe p h ! r = (if p = r then replicate (length (h ! r)) 0 else h ! r)"
  by (simp add: wipe_def)

lemma wiped_replicate [simp]: "wiped (replicate n 0)"
  by (simp add: wiped_def)

lemma cc_inv_empty: "cc_inv cc_empty"
  by (simp add: cc_inv_def cc_empty_def)

lemma cc_invD:
  assumes "cc_inv c"
  shows cc_inv_wf: "jm_wf (entries c)"
    and cc_inv_live: "jm_get (entries c) i = Some e \<Longrightarrow>
          password e < length (heap c) \<and> (\<exists>s. heap c ! password e = utf8 s)"
    and cc_inv_own: "jm_get (entries c) i = Some d \<Longrightarrow> jm_get (entries c) j = Some e \<Longrightarrow>
          password d = password e \<Longrightarrow> i = j"
    and cc_inv_dead: "r < length (heap c) \<Longrightarrow>
          (\<And>i e. jm_get (entries c) i = Some e \<Longrightarrow> password e \<noteq> r) \<Longrightarrow> wiped (heap c ! r)"
  using assms unfolding cc_inv_def by blast+

lemma cc_invI:
  assumes "jm_wf (entries c)"
    and "\<And>i e. jm_get (entries c) i = Some e \<Longrightarrow>
          password e < length (heap c) \<and> (\<exists>s. heap c ! password e = utf8 s)"
    and "\<And>i j d e. jm_get (entries c) i = Some d \<Longrightarrow> jm_get (entries c) j = Some e \<Longrightarrow>
          password d = password e \<Longrightarrow> i = j"
    and "\<And>r. r < length (heap c) \<Longrightarrow>
          (\<And>i e. jm_get (entries c) i = Some e \<Longrightarrow> password e \<noteq> r) \<Longrightarrow> wiped (heap c ! r)"
  shows "cc_inv c"
  using assms unfolding cc_inv_def by blast

lemma cc_inv_evict:
  assumes inv: "cc_inv c" and i: "jm_get (entries c) i = Some e"
  shows "cc_inv (cc_evict i e c)"
proof -
  note e = cc_inv_live [OF inv i]
  have "wiped (heap (cc_evict i e c) ! r)"
    if r: "r < length (heap c)" "\<forall>j d. jm_get (jm_delete i (entries c)) j = Some d \<longrightarrow> password d \<noteq> r" for r
  proof (cases "password e = r")
    case True
    with r show ?thesis by (simp add: cc_evict_def wipe_nth)
  next
    case False
    with r(2) i have "password d \<noteq> r" if "jm_get (entries c) j = Some d" for j d
      using that by (metis jm_get_delete option.inject)
    with False r cc_inv_dead [OF inv r(1)] show ?thesis by (simp add: cc_evict_def wipe_nth)
  qed
  moreover have "heap (cc_evict i e c) ! password d = heap c ! password d"
    if "jm_get (entries c) j = Some d" "j \<noteq> i" for j d
    using that cc_inv_own [OF inv i that(1)] cc_inv_live [OF inv that(1)]
    by (auto simp: cc_evict_def wipe_nth)
  ultimately show ?thesis
    using cc_inv_wf [OF inv] cc_inv_live [OF inv] cc_inv_own [OF inv]
    unfolding cc_inv_def by (auto simp: cc_evict_def split: if_splits)
qed

text \<open>Setting an entry: the old one's buffer is wiped as an eviction would, then a fresh one is used.\<close>

lemma cc_inv_put:
  assumes inv: "cc_inv c" and none: "jm_get (entries c) i = None"
  shows "cc_inv (c\<lparr>heap := heap c @ [utf8 pw],
      entries := jm_set i \<lparr>password = length (heap c), expiresAt = until\<rparr> (entries c)\<rparr>)"
    (is "cc_inv ?c")
proof -
  have old: "heap ?c ! r = heap c ! r" if "r < length (heap c)" for r
    using that by (simp add: nth_append)
  have live: "password e < length (heap ?c) \<and> (\<exists>s. heap ?c ! password e = utf8 s)"
    if "jm_get (entries ?c) j = Some e" for j e
    using that cc_inv_live [OF inv, of j e] by (auto simp: nth_append split: if_splits)
  have own: "j = k" if "jm_get (entries ?c) j = Some d" "jm_get (entries ?c) k = Some e"
      "password d = password e" for j k d e
  proof -
    have lt: "password f < length (heap c)" if "jm_get (entries c) l = Some f" for l f
      using cc_inv_live [OF inv that] by simp
    show ?thesis
    proof (cases "j = i"; cases "k = i")
      assume "j \<noteq> i" "k \<noteq> i"
      with that show ?thesis using cc_inv_own [OF inv, of j d k e] by simp
    next
      assume "j = i" "k \<noteq> i"
      with that lt [of k e] show ?thesis by auto
    next
      assume "j \<noteq> i" "k = i"
      with that lt [of j d] show ?thesis by auto
    qed simp
  qed
  have dead: "wiped (heap ?c ! r)"
    if "r < length (heap ?c)" "\<And>j e. jm_get (entries ?c) j = Some e \<Longrightarrow> password e \<noteq> r" for r
  proof -
    from that(2) [of i] have "r \<noteq> length (heap c)" by simp
    with that(1) have r: "r < length (heap c)" by simp
    have "password e \<noteq> r" if "jm_get (entries c) j = Some e" for j e
      using that none \<open>\<And>j e. jm_get (entries ?c) j = Some e \<Longrightarrow> password e \<noteq> r\<close> [of j e]
      by (cases "j = i") auto
    with cc_inv_dead [OF inv r] old [OF r] show ?thesis by simp
  qed
  show ?thesis
  proof (rule cc_invI)
    show "jm_wf (entries ?c)" using cc_inv_wf [OF inv] by simp
  next
    fix j e assume "jm_get (entries ?c) j = Some e"
    then show "password e < length (heap ?c) \<and> (\<exists>s. heap ?c ! password e = utf8 s)" by (rule live)
  next
    fix j k d e
    assume "jm_get (entries ?c) j = Some d" "jm_get (entries ?c) k = Some e" "password d = password e"
    then show "j = k" by (rule own)
  next
    fix r assume "r < length (heap ?c)" "\<And>j e. jm_get (entries ?c) j = Some e \<Longrightarrow> password e \<noteq> r"
    then show "wiped (heap ?c ! r)" by (rule dead)
  qed
qed

text \<open>The invariant reads the entries only through lookups and the map's shape.\<close>

lemma cc_inv_cong:
  assumes "cc_inv c" "heap d = heap c" "jm_get (entries d) = jm_get (entries c)" "jm_wf (entries d)"
  shows "cc_inv d"
  using assms(1) unfolding cc_inv_def assms(2,3) using assms(4) by blast

lemma cc_inv_set:
  assumes inv: "cc_inv c"
  shows "cc_inv (cc_set i pw until c)"
proof (cases "jm_get (entries c) i")
  case None
  then show ?thesis using cc_inv_put [OF inv None] by (simp add: cc_set_def Let_def)
next
  case (Some e)
  let ?c = "cc_evict i e c"
  have "cc_inv (?c\<lparr>heap := heap ?c @ [utf8 pw],
      entries := jm_set i \<lparr>password = length (heap ?c), expiresAt = until\<rparr> (entries ?c)\<rparr>)"
    by (rule cc_inv_put [OF cc_inv_evict [OF inv Some]]) (simp add: cc_evict_def)
  then show ?thesis
    by (rule cc_inv_cong)
      (use Some cc_inv_wf [OF inv] in \<open>simp_all add: cc_set_def cc_evict_def Let_def fun_eq_iff\<close>)
qed

lemma cc_inv_extend:
  assumes inv: "cc_inv c"
  shows "cc_inv (cc_extend i until c)"
proof (cases "jm_get (entries c) i")
  case None
  then show ?thesis using inv by (simp add: cc_extend_def)
next
  case (Some e)
  let ?c = "cc_extend i until c"
  have get: "jm_get (entries ?c) j = map_option (\<lambda>d. if j = i then d\<lparr>expiresAt := until\<rparr> else d)
      (jm_get (entries c) j)" for j
    using Some by (cases "jm_get (entries c) j") (auto simp: cc_extend_def)
  have h: "heap ?c = heap c" "jm_wf (entries ?c)"
    using Some cc_inv_wf [OF inv] by (simp_all add: cc_extend_def)
  have some: "\<exists>d. jm_get (entries c) j = Some d \<and> password d = password e'"
    if "jm_get (entries ?c) j = Some e'" for j e'
    using that unfolding get by (auto split: if_splits)
  show ?thesis
  proof (rule cc_invI)
    fix j d assume "jm_get (entries ?c) j = Some d"
    from some [OF this] obtain d' where "jm_get (entries c) j = Some d'" "password d' = password d"
      by blast
    with cc_inv_live [OF inv this(1)]
    show "password d < length (heap ?c) \<and> (\<exists>s. heap ?c ! password d = utf8 s)" by (simp add: h)
  next
    fix j k d d' assume *: "jm_get (entries ?c) j = Some d" "jm_get (entries ?c) k = Some d'"
      "password d = password d'"
    from some [OF *(1)] some [OF *(2)] show "j = k"
      using cc_inv_own [OF inv] *(3) by metis
  next
    fix r assume r: "r < length (heap ?c)" "\<And>j d. jm_get (entries ?c) j = Some d \<Longrightarrow> password d \<noteq> r"
    have "password d \<noteq> r" if "jm_get (entries c) j = Some d" for j d
      using r(2) [of j "if j = i then d\<lparr>expiresAt := until\<rparr> else d"] that by (simp add: get split: if_splits)
    with cc_inv_dead [OF inv, of r] r(1) show "wiped (heap ?c ! r)" by (simp add: h)
  qed (fact h(2))
qed

lemma cc_inv_delete: "cc_inv c \<Longrightarrow> cc_inv (cc_delete i c)"
  by (auto simp: cc_delete_def intro: cc_inv_evict split: option.split)

lemma cc_inv_get: "cc_inv c \<Longrightarrow> cc_inv (snd (cc_get i now c))"
  by (auto simp: cc_get_def intro: cc_inv_evict split: option.split)

lemma cc_inv_delete_many: "cc_inv c \<Longrightarrow> cc_inv (cc_delete_many is c)"
  unfolding cc_delete_many_def by (induction "is" arbitrary: c) (auto intro: cc_inv_delete)

lemma entries_evict [simp]: "entries (cc_evict i e c) = jm_delete i (entries c)"
  by (simp add: cc_evict_def)

text \<open>
  The loop over the entries that evicts some of them: what the JavaScript loop over the map
  leaves, whichever entries it picks.
\<close>

lemma evict_loop:
  assumes "cc_inv c" "distinct (map fst es)" "\<forall>(i, e) \<in> set es. jm_get (entries c) i = Some e"
  shows "cc_inv (fold (\<lambda>(i, e) c. if P e then cc_evict i e c else c) es c)
    \<and> (\<forall>i. jm_get (entries (fold (\<lambda>(i, e) c. if P e then cc_evict i e c else c) es c)) i =
           (if \<exists>e. (i, e) \<in> set es \<and> P e then None else jm_get (entries c) i))"
  using assms
proof (induction es arbitrary: c)
  case (Cons x es)
  obtain i e where x: "x = (i, e)" by fastforce
  let ?c = "if P e then cc_evict i e c else c"
  have get: "jm_get (entries ?c) j = (if P e \<and> j = i then None else jm_get (entries c) j)" for j
    by simp
  have "cc_inv ?c" using Cons.prems x by (auto intro: cc_inv_evict)
  moreover have "\<forall>(j, d) \<in> set es. jm_get (entries ?c) j = Some d"
    using Cons.prems x by (force simp: get image_iff)
  ultimately have IH: "cc_inv (fold (\<lambda>(i, e) c. if P e then cc_evict i e c else c) es ?c)
      \<and> (\<forall>j. jm_get (entries (fold (\<lambda>(i, e) c. if P e then cc_evict i e c else c) es ?c)) j =
           (if \<exists>d. (j, d) \<in> set es \<and> P d then None else jm_get (entries ?c) j))"
    using Cons.IH [of ?c] Cons.prems by simp
  then show ?case using x by (auto simp: get)
qed simp

lemma cc_entries_ok: "cc_inv c \<Longrightarrow> distinct (map fst (entries c))
    \<and> (\<forall>(i, e) \<in> set (entries c). jm_get (entries c) i = Some e)"
  by (auto simp: cc_inv_def jm_wf_def)

lemma cc_inv_sweep: "cc_inv c \<Longrightarrow> cc_inv (cc_sweep now c)"
  unfolding cc_sweep_def using evict_loop [where P = "\<lambda>e. expiresAt e \<le> now"] cc_entries_ok by blast

lemma cc_sweep_get:
  assumes "cc_inv c"
  shows "jm_get (entries (cc_sweep now c)) i =
     (case jm_get (entries c) i of
        Some e \<Rightarrow> if expiresAt e \<le> now then None else Some e | None \<Rightarrow> None)"
proof -
  have wf: "jm_wf (entries c)" using assms by (simp add: cc_inv_def)
  have "jm_get (entries (cc_sweep now c)) i =
      (if \<exists>e. (i, e) \<in> set (entries c) \<and> expiresAt e \<le> now then None else jm_get (entries c) i)"
    unfolding cc_sweep_def
    using evict_loop [where P = "\<lambda>e. expiresAt e \<le> now"] cc_entries_ok [OF assms] assms by blast
  then show ?thesis using wf by (auto simp flip: jm_get_in split: option.split)
qed

lemma cc_stop_eq: "cc_stop c = fold (\<lambda>(i, e) c. if True then cc_evict i e c else c) (entries c) c"
  by (simp add: cc_stop_def)

lemma cc_inv_stop: "cc_inv c \<Longrightarrow> cc_inv (cc_stop c)"
  unfolding cc_stop_eq using evict_loop [where P = "\<lambda>_. True"] cc_entries_ok by blast

lemma cc_stop_get:
  assumes "cc_inv c"
  shows "jm_get (entries (cc_stop c)) i = None"
proof -
  have "jm_get (entries (cc_stop c)) i =
      (if \<exists>e. (i, e) \<in> set (entries c) \<and> True then None else jm_get (entries c) i)"
    unfolding cc_stop_eq using evict_loop [where P = "\<lambda>_. True"] cc_entries_ok [OF assms] assms by blast
  then show ?thesis using cc_inv_wf [OF assms] by (auto simp flip: jm_get_in)
qed

section \<open>Runs of operations\<close>

datatype cc_op =
    Set_op string string ms | Get_op string ms | Extend_op string ms | Delete_op string
  | Delete_many_op "string list" | Sweep_op ms | Stop_op

fun cc_apply :: "cc_op \<Rightarrow> cred_cache \<Rightarrow> cred_cache" where
  "cc_apply (Set_op i pw until) c = cc_set i pw until c"
| "cc_apply (Get_op i now) c = snd (cc_get i now c)"
| "cc_apply (Extend_op i until) c = cc_extend i until c"
| "cc_apply (Delete_op i) c = cc_delete i c"
| "cc_apply (Delete_many_op is) c = cc_delete_many is c"
| "cc_apply (Sweep_op now) c = cc_sweep now c"
| "cc_apply Stop_op c = cc_stop c"

definition cc_run :: "cc_op list \<Rightarrow> cred_cache \<Rightarrow> cred_cache" where
  "cc_run ops c = fold cc_apply ops c"

lemma cc_inv_apply: "cc_inv c \<Longrightarrow> cc_inv (cc_apply op c)"
  by (cases op) (simp_all add: cc_inv_set cc_inv_get cc_inv_extend cc_inv_delete
      cc_inv_delete_many cc_inv_sweep cc_inv_stop)

interpretation cc: transition_system "\<lambda>c. c = cc_empty" "\<lambda>c d. \<exists>op. d = cc_apply op c" cc_inv
  by unfold_locales (auto simp: cc_inv_empty intro: cc_inv_apply)

lemma cc_run_steps: "(\<lambda>c d. \<exists>op. d = cc_apply op c)\<^sup>*\<^sup>* c (cc_run ops c)"
  unfolding cc_run_def
  by (induction ops arbitrary: c) (auto intro: converse_rtranclp_into_rtranclp)

lemma cc_inv_run: "cc_inv (cc_run ops cc_empty)"
  by (rule cc.inv_reachable [OF refl cc_run_steps])

lemma cc_buffer_of_entry:
  assumes inv: "cc_inv c" and r: "r < length (heap c)" "\<not> wiped (heap c ! r)"
  obtains i e where "jm_get (entries c) i = Some e" "password e = r"
  using cc_inv_dead [OF inv r(1)] r(2) by blast

lemma cc_get_set_same:
  assumes "now < until"
  shows "fst (cc_get i now (cc_set i pw until c)) = Some pw"
  using assms by (simp add: cc_get_def cc_set_def Let_def split: option.split)

text \<open>
  Whatever operations the process has run, a sweep at \<open>now\<close> leaves no password in memory
  past its time: each buffer the cache ever allocated is all zeros or belongs to an entry
  that expires after \<open>now\<close>.
\<close>

theorem cc_sweep_leaves_no_stale_password:
  "let c = cc_sweep now (cc_run ops cc_empty) in
     list_all (\<lambda>r. wiped (heap c ! r)
                  \<or> list_ex (\<lambda>(i, e). password e = r \<and> now < expiresAt e) (entries c))
       [0..<length (heap c)]"
proof -
  let ?d = "cc_run ops cc_empty" and ?c = "cc_sweep now (cc_run ops cc_empty)"
  have inv: "cc_inv ?c" by (intro cc_inv_sweep cc_inv_run)
  have "list_ex (\<lambda>(i, e). password e = r \<and> now < expiresAt e) (entries ?c)"
    if r: "r < length (heap ?c)" "\<not> wiped (heap ?c ! r)" for r
  proof -
    obtain i e where e: "jm_get (entries ?c) i = Some e" "password e = r"
      using cc_buffer_of_entry [OF inv r] .
    moreover have "now < expiresAt e"
      using e(1) unfolding cc_sweep_get [OF cc_inv_run] by (simp split: option.splits if_splits)
    ultimately show ?thesis
      using map_of_SomeD [OF e(1)] by (auto simp: list_ex_iff)
  qed
  then have "\<forall>r < length (heap ?c). wiped (heap ?c ! r)
      \<or> list_ex (\<lambda>(i, e). password e = r \<and> now < expiresAt e) (entries ?c)"
    by blast
  then show ?thesis by (simp add: Let_def list_all_iff)
qed

text \<open>
  Stopping the service wipes every password: after any operations and a stop, no entry is
  left and every buffer is all zeros.
\<close>

theorem cc_stop_wipes_everything:
  "list_all wiped (heap (cc_stop (cc_run ops cc_empty)))
   \<and> entries (cc_stop (cc_run ops cc_empty)) = []"
proof -
  let ?c = "cc_stop (cc_run ops cc_empty)"
  have inv: "cc_inv ?c" by (intro cc_inv_stop cc_inv_run)
  have none: "jm_get (entries ?c) i = None" for i by (rule cc_stop_get [OF cc_inv_run])
  then have "wiped (heap ?c ! r)" if "r < length (heap ?c)" for r
    using cc_inv_dead [OF inv that] by simp
  moreover have "entries ?c = []"
    using none by (cases "entries ?c") (auto, metis fst_conv map_of_Cons_code(2) option.distinct(1))
  ultimately show ?thesis by (simp add: list_all_length)
qed

end
