(* ===== verification/LoginBackoff.thy ===== *)
theory LoginBackoff
  imports JsText
begin

text \<open>
  The login backoff held in process memory
  (\<^verbatim>\<open>apps/api/src/services/loginBackoff.ts\<close>): failures counted by address and user name,
  and a lock once enough of them fall in the observation window. Every operation takes the
  current time; the constructor's arguments are a record.
\<close>

section \<open>The state and its operations\<close>

record backoff_entry =
  failures :: "ms list"
  lockedUntil :: "ms option"

(* src/apps/api/src/services/loginBackoff.ts:17-19 LoginBackoffService *)
type_synonym backoff = "(string, backoff_entry) jsmap"

record backoff_policy =
  threshold :: nat
  observationWindowMs :: ms
  lockoutMs :: ms

(* src/apps/api/src/services/loginBackoff.ts:21-26 constructor *)
definition default_policy :: backoff_policy where
  "default_policy =
     \<lparr>threshold = 5, observationWindowMs = 60 * 60 * 1000, lockoutMs = 15 * 60 * 1000\<rparr>"

(* src/apps/api/src/services/loginBackoff.ts:84-86 key *)
definition lb_key :: "string option \<Rightarrow> string option \<Rightarrow> string" where
  "lb_key ip username =
     (case ip of Some a \<Rightarrow> a | None \<Rightarrow> ''?'') @ ''|''
       @ to_lower (case username of Some u \<Rightarrow> u | None \<Rightarrow> [])"

text \<open>The milliseconds left of a lock, and the map: a lock that has run out is dropped.\<close>

(* src/apps/api/src/services/loginBackoff.ts:31-50 check *)
definition lb_check :: "string option \<Rightarrow> string option \<Rightarrow> ms \<Rightarrow> backoff \<Rightarrow> ms option \<times> backoff" where
  "lb_check ip username now m =
     (let key = lb_key ip username
      in case jm_get m key of
           None \<Rightarrow> (None, m)
         | Some e \<Rightarrow>
             (case lockedUntil e of
                None \<Rightarrow> (None, m)
              | Some until \<Rightarrow>
                  if until - now > 0 then (Some (until - now), m) else (None, jm_delete key m)))"

text \<open>\<open>entry.failures.filter((t) => now - t <= window)\<close>.\<close>

definition fresh_failures :: "backoff_policy \<Rightarrow> ms \<Rightarrow> ms list \<Rightarrow> ms list" where
  "fresh_failures p now ts = filter (\<lambda>t. now - t \<le> observationWindowMs p) ts"

(* src/apps/api/src/services/loginBackoff.ts:52-70 recordFailure *)
definition lb_record_failure ::
    "backoff_policy \<Rightarrow> string option \<Rightarrow> string option \<Rightarrow> ms \<Rightarrow> backoff \<Rightarrow> ms option \<times> backoff" where
  "lb_record_failure p ip username now m =
     (let key = lb_key ip username;
          e = (case jm_get m key of Some e \<Rightarrow> e | None \<Rightarrow> \<lparr>failures = [], lockedUntil = None\<rparr>);
          fs = fresh_failures p now (failures e) @ [now];
          e' = e\<lparr>failures := fs,
                 lockedUntil := if length fs \<ge> threshold p then Some (now + lockoutMs p)
                                else lockedUntil e\<rparr>
      in (map_option (\<lambda>until. until - now) (lockedUntil e'), jm_set key e' m))"

(* src/apps/api/src/services/loginBackoff.ts:72-74 recordSuccess *)
definition lb_record_success :: "string option \<Rightarrow> string option \<Rightarrow> backoff \<Rightarrow> backoff" where
  "lb_record_success ip username m = jm_delete (lb_key ip username) m"

(* src/apps/api/src/services/loginBackoff.ts:76-78 size *)
definition lb_size :: "backoff \<Rightarrow> nat" where
  "lb_size m = length m"

text \<open>One entry of the sweep, and the loop over the map.\<close>

definition lb_sweep_entry ::
    "backoff_policy \<Rightarrow> ms \<Rightarrow> string \<times> backoff_entry \<Rightarrow> backoff \<Rightarrow> backoff" where
  "lb_sweep_entry p now = (\<lambda>(key, e) m.
     if (case lockedUntil e of Some until \<Rightarrow> until \<le> now | None \<Rightarrow> False) then jm_delete key m
     else
       let fresh = fresh_failures p now (failures e)
       in if fresh = [] \<and> lockedUntil e = None then jm_delete key m
          else jm_set key (e\<lparr>failures := fresh\<rparr>) m)"

(* src/apps/api/src/services/loginBackoff.ts:88-102 sweep *)
definition lb_sweep :: "backoff_policy \<Rightarrow> ms \<Rightarrow> backoff \<Rightarrow> backoff" where
  "lb_sweep p now m = fold (lb_sweep_entry p now) m m"

section \<open>What a sweep leaves\<close>

definition swept_entry :: "backoff_policy \<Rightarrow> ms \<Rightarrow> backoff_entry \<Rightarrow> backoff_entry option" where
  "swept_entry p now e =
     (if (case lockedUntil e of Some until \<Rightarrow> until \<le> now | None \<Rightarrow> False) then None
      else if fresh_failures p now (failures e) = [] \<and> lockedUntil e = None then None
      else Some (e\<lparr>failures := fresh_failures p now (failures e)\<rparr>))"

lemma sweep_entry_get:
  "jm_get (lb_sweep_entry p now (k, e) m) j = (if j = k then swept_entry p now e else jm_get m j)"
  by (simp add: lb_sweep_entry_def swept_entry_def Let_def)

lemma sweep_fold_get:
  "distinct (map fst es) \<Longrightarrow>
   jm_get (fold (lb_sweep_entry p now) es m) j =
     (case jm_get es j of Some e \<Rightarrow> swept_entry p now e | None \<Rightarrow> jm_get m j)"
proof (induction es arbitrary: m)
  case (Cons x es)
  obtain k e where x: "x = (k, e)" by fastforce
  have "jm_get es j = None" if "j = k"
    using Cons.prems that x by (simp add: map_of_eq_None_iff)
  with Cons show ?case by (auto simp: x sweep_entry_get split: option.split)
qed simp

lemma lb_sweep_get:
  assumes "jm_wf m"
  shows "jm_get (lb_sweep p now m) j = Option.bind (jm_get m j) (swept_entry p now)"
  using assms by (simp add: lb_sweep_def jm_wf_def sweep_fold_get split: option.split)

lemma jm_wf_sweep [simp]: "jm_wf m \<Longrightarrow> jm_wf (lb_sweep p now m)"
proof -
  have "jm_wf m \<Longrightarrow> jm_wf (fold (lb_sweep_entry p now) es m)" for es
    by (induction es arbitrary: m) (auto simp: lb_sweep_entry_def Let_def split: if_splits)
  then show "jm_wf m \<Longrightarrow> jm_wf (lb_sweep p now m)" by (simp add: lb_sweep_def)
qed

lemma fresh_fresh [simp]:
  "now \<le> later \<Longrightarrow> fresh_failures p later (fresh_failures p now ts) = fresh_failures p later ts"
  by (induction ts) (auto simp: fresh_failures_def)

section \<open>Attempts to sign in\<close>

text \<open>
  The sign-in route asks \<open>check\<close> first and refuses while it is locked; otherwise it tries
  the password and records how that went. Sweeps run in between on a timer.
\<close>

datatype attempt_event =
    Fails (ev_ip: "string option") (ev_user: "string option")
  | Succeeds (ev_ip: "string option") (ev_user: "string option")
  | Sweeps

fun lb_event :: "backoff_policy \<Rightarrow> ms \<Rightarrow> attempt_event \<Rightarrow> backoff \<Rightarrow> ms option \<times> backoff" where
  "lb_event p now (Fails ip u) m =
     (case lb_check ip u now m of
        (Some left, m') \<Rightarrow> (Some left, m') | (None, m') \<Rightarrow> lb_record_failure p ip u now m')"
| "lb_event p now (Succeeds ip u) m =
     (case lb_check ip u now m of
        (Some left, m') \<Rightarrow> (Some left, m') | (None, m') \<Rightarrow> (None, lb_record_success ip u m'))"
| "lb_event p now Sweeps m = (None, lb_sweep p now m)"

text \<open>The answers the attempts of a run get, in order; a sweep answers nobody.\<close>

fun lb_answers :: "backoff_policy \<Rightarrow> (ms \<times> attempt_event) list \<Rightarrow> backoff \<Rightarrow> ms option list" where
  "lb_answers p [] m = []"
| "lb_answers p ((now, ev) # evs) m =
     (let (a, m') = lb_event p now ev m
      in (if ev = Sweeps then [] else [a]) @ lb_answers p evs m')"

lemma lb_check_cases:
  "lb_check ip u now m =
     (case jm_get m (lb_key ip u) of
        None \<Rightarrow> (None, m)
      | Some e \<Rightarrow> (case lockedUntil e of
                     None \<Rightarrow> (None, m)
                   | Some until \<Rightarrow> if now < until then (Some (until - now), m)
                                   else (None, jm_delete (lb_key ip u) m)))"
  by (auto simp: lb_check_def Let_def split: option.split)

text \<open>What a map says at a time: each key's entry as a sweep then would leave it.\<close>

definition lb_view :: "backoff_policy \<Rightarrow> ms \<Rightarrow> backoff \<Rightarrow> string \<Rightarrow> backoff_entry option" where
  "lb_view p now m k = Option.bind (jm_get m k) (swept_entry p now)"

lemma swept_swept:
  "now \<le> later \<Longrightarrow>
   Option.bind (swept_entry p now e) (swept_entry p later) = swept_entry p later e"
proof -
  assume le: "now \<le> later"
  have nil: "fresh_failures p now fs = [] \<Longrightarrow> fresh_failures p later fs = []" for fs
    using le fresh_fresh [OF le, of p fs] by (metis filter.simps(1) fresh_failures_def)
  have "fresh_failures p later [] = []" by (simp add: fresh_failures_def)
  with le show ?thesis by (auto simp: swept_entry_def nil split: option.splits)
qed

lemma lb_view_later:
  assumes "lb_view p now m = lb_view p now n" "now \<le> later"
  shows "lb_view p later m = lb_view p later n"
proof
  fix k
  have "Option.bind (lb_view p now m k) (swept_entry p later) = lb_view p later m k"
    "Option.bind (lb_view p now n k) (swept_entry p later) = lb_view p later n k"
    using assms(2) by (auto simp: lb_view_def swept_swept split: Option.bind_splits)
  then show "lb_view p later m k = lb_view p later n k" using assms(1) by simp
qed

lemma lb_view_sweep: "jm_wf m \<Longrightarrow> lb_view p now (lb_sweep p now m) = lb_view p now m"
proof
  fix k assume "jm_wf m"
  then show "lb_view p now (lb_sweep p now m) k = lb_view p now m k"
    using swept_swept [of now now p] by (cases "jm_get m k") (simp_all add: lb_view_def lb_sweep_get)
qed

lemma lb_check_by_view:
  "fst (lb_check ip u now m) =
     Option.bind (lb_view p now m (lb_key ip u)) (\<lambda>e. map_option (\<lambda>until. until - now) (lockedUntil e))"
  by (auto simp: lb_check_cases lb_view_def swept_entry_def split: option.splits)

lemma lb_view_check: "lb_view p now (snd (lb_check ip u now m)) = lb_view p now m"
  by (auto simp: lb_check_cases lb_view_def swept_entry_def fun_eq_iff split: option.splits)

text \<open>The entry a failure leaves when the key isn't locked, from what the map says then.\<close>

definition failed_entry :: "backoff_policy \<Rightarrow> ms \<Rightarrow> backoff_entry option \<Rightarrow> backoff_entry" where
  "failed_entry p now eo =
     (let fs = (case eo of Some e \<Rightarrow> failures e | None \<Rightarrow> []) @ [now]
      in \<lparr>failures = fs,
          lockedUntil = if threshold p \<le> length fs then Some (now + lockoutMs p) else None\<rparr>)"

definition sane_policy :: "backoff_policy \<Rightarrow> bool" where
  "sane_policy p \<longleftrightarrow> 0 \<le> observationWindowMs p \<and> 0 < lockoutMs p"

lemma fresh_view:
  "lb_view p now m k = Some e \<Longrightarrow> fresh_failures p now (failures e) = failures e"
  by (auto simp: lb_view_def swept_entry_def fresh_failures_def split: Option.bind_splits option.splits if_splits)

lemma swept_failed_entry:
  assumes "sane_policy p" "\<And>e. eo = Some e \<Longrightarrow> fresh_failures p now (failures e) = failures e"
  shows "swept_entry p now (failed_entry p now eo) = Some (failed_entry p now eo)"
proof -
  have "fresh_failures p now (failures (failed_entry p now eo)) = failures (failed_entry p now eo)"
    using assms by (cases eo) (simp_all add: failed_entry_def Let_def fresh_failures_def sane_policy_def)
  moreover have "failures (failed_entry p now eo) \<noteq> []" by (simp add: failed_entry_def Let_def)
  moreover have "now < until" if "lockedUntil (failed_entry p now eo) = Some until" for until
    using that assms(1) by (simp add: failed_entry_def Let_def sane_policy_def split: if_splits)
  ultimately show ?thesis by (auto simp: swept_entry_def split: option.split)
qed

lemma lb_record_entry:
  assumes "fst (lb_check ip u now m) = None"
  shows "lb_record_failure p ip u now (snd (lb_check ip u now m)) =
    (let e = failed_entry p now (lb_view p now m (lb_key ip u))
     in (map_option (\<lambda>until. until - now) (lockedUntil e),
         jm_set (lb_key ip u) e (snd (lb_check ip u now m))))"
proof -
  let ?k = "lb_key ip u" and ?m = "snd (lb_check ip u now m)"
  consider "jm_get ?m ?k = None" "lb_view p now m ?k = None"
    | e where "jm_get ?m ?k = Some e" "lockedUntil e = None" "jm_get m ?k = Some e"
    using assms by (auto simp: lb_check_cases lb_view_def swept_entry_def split: option.splits if_splits)
  then show ?thesis
  proof cases
    case 1
    then show ?thesis by (simp add: lb_record_failure_def failed_entry_def Let_def fresh_failures_def)
  next
    case 2
    have "(case lb_view p now m ?k of Some e \<Rightarrow> failures e | None \<Rightarrow> []) = fresh_failures p now (failures e)"
      using 2 by (simp add: lb_view_def swept_entry_def)
    with 2 show ?thesis by (cases e) (simp add: lb_record_failure_def failed_entry_def Let_def)
  qed
qed

lemma lb_view_set:
  "swept_entry p now e = Some e \<Longrightarrow> lb_view p now (jm_set k e m) = (lb_view p now m)(k \<mapsto> e)"
  by (auto simp: lb_view_def fun_eq_iff)

lemma lb_view_delete: "lb_view p now (jm_delete k m) = (lb_view p now m)(k := None)"
  by (auto simp: lb_view_def fun_eq_iff)

text \<open>An event's answer and what the map then says depend only on what the map said before.\<close>

definition view_event ::
    "backoff_policy \<Rightarrow> ms \<Rightarrow> attempt_event \<Rightarrow> (string \<Rightarrow> backoff_entry option)
       \<Rightarrow> ms option \<times> (string \<Rightarrow> backoff_entry option)" where
  "view_event p now ev v =
     (if ev = Sweeps then (None, v)
      else
        let k = lb_key (ev_ip ev) (ev_user ev)
        in case Option.bind (v k) (\<lambda>e. map_option (\<lambda>until. until - now) (lockedUntil e)) of
             Some left \<Rightarrow> (Some left, v)
           | None \<Rightarrow>
               (case ev of
                  Fails _ _ \<Rightarrow>
                    let e = failed_entry p now (v k)
                    in (map_option (\<lambda>until. until - now) (lockedUntil e), v(k \<mapsto> e))
                | _ \<Rightarrow> (None, v(k := None))))"

lemma view_event:
  assumes "sane_policy p" "jm_wf m"
  shows "fst (lb_event p now ev m) = fst (view_event p now ev (lb_view p now m))"
    and "lb_view p now (snd (lb_event p now ev m)) = snd (view_event p now ev (lb_view p now m))"
    and "jm_wf (snd (lb_event p now ev m))"
proof -
  note swept = swept_failed_entry [OF assms(1) fresh_view]
  have chk: "lb_check ip u now m = (fst (lb_check ip u now m), snd (lb_check ip u now m))" for ip u by simp
  have wf: "jm_wf (snd (lb_check ip u now m))" for ip u
    using assms(2) by (auto simp: lb_check_cases split: option.split)
  have "fst (lb_event p now ev m) = fst (view_event p now ev (lb_view p now m))
      \<and> lb_view p now (snd (lb_event p now ev m)) = snd (view_event p now ev (lb_view p now m))
      \<and> jm_wf (snd (lb_event p now ev m))"
  proof (cases ev)
    case (Fails ip u)
    show ?thesis
    proof (cases "fst (lb_check ip u now m)")
      case None
      then show ?thesis
        using lb_record_entry [OF None, of p] wf [of ip u] lb_check_by_view [of ip u now m p]
        by (simp add: Fails view_event_def lb_view_set swept lb_view_check Let_def split_beta)
    next
      case (Some left)
      then show ?thesis
        using lb_check_by_view [of ip u now m p] wf [of ip u]
        by (simp add: Fails view_event_def lb_view_check Let_def split_beta)
    qed
  next
    case (Succeeds ip u)
    show ?thesis
    proof (cases "fst (lb_check ip u now m)")
      case None
      then show ?thesis
        using wf [of ip u] lb_check_by_view [of ip u now m p]
        by (simp add: Succeeds view_event_def lb_record_success_def lb_view_delete lb_view_check
            Let_def split_beta)
    next
      case (Some left)
      then show ?thesis
        using lb_check_by_view [of ip u now m p] wf [of ip u]
        by (simp add: Succeeds view_event_def lb_view_check Let_def split_beta)
    qed
  next
    case Sweeps
    then show ?thesis using assms(2) by (simp add: view_event_def lb_view_sweep)
  qed
  then show "fst (lb_event p now ev m) = fst (view_event p now ev (lb_view p now m))"
    and "lb_view p now (snd (lb_event p now ev m)) = snd (view_event p now ev (lb_view p now m))"
    and "jm_wf (snd (lb_event p now ev m))"
    by blast+
qed

lemma lb_answers_same_view:
  assumes "sane_policy p"
  shows "sorted (t # map fst evs) \<Longrightarrow> jm_wf m \<Longrightarrow> jm_wf n \<Longrightarrow> lb_view p t m = lb_view p t n
    \<Longrightarrow> lb_answers p evs m = lb_answers p (filter (\<lambda>(_, ev). ev \<noteq> Sweeps) evs) n"
proof (induction evs arbitrary: t m n)
  case (Cons x evs)
  obtain now ev where x: "x = (now, ev)" by fastforce
  from Cons.prems x have "lb_view p now m = lb_view p now n" by (auto intro: lb_view_later)
  note m = view_event [OF assms Cons.prems(2), of now ev]
    and n = view_event [OF assms Cons.prems(3), of now ev] and v = this
  have srt: "sorted (now # map fst evs)" using Cons.prems(1) x by simp
  show ?case
  proof (cases "ev = Sweeps")
    case True
    have "lb_view p now (snd (lb_event p now ev m)) = lb_view p now n"
      using m(2) v True by (simp add: view_event_def)
    from Cons.IH [OF srt m(3) Cons.prems(3) this] show ?thesis using True x by simp
  next
    case False
    have "lb_view p now (snd (lb_event p now ev m)) = lb_view p now (snd (lb_event p now ev n))"
      using m(2) n(2) v by simp
    from Cons.IH [OF srt m(3) n(3) this] m(1) n(1) v False x show ?thesis
      by (simp add: split_beta Let_def)
  qed
qed simp

text \<open>
  C16. The timer that sweeps the map can't be told from the outside: whatever the sequence of
  sign-in attempts, the answers they get are the same with the sweeps as without them.
\<close>

theorem sweeps_are_unobservable:
  assumes "sane_policy p" "sorted (map fst evs)"
  shows "lb_answers p evs [] = lb_answers p (filter (\<lambda>(_, ev). ev \<noteq> Sweeps) evs) []"
proof (cases evs)
  case (Cons x rest)
  with assms(2) have "sorted (fst x # map fst evs)" by simp
  then show ?thesis by (rule lb_answers_same_view [OF assms(1)]) simp_all
qed simp

theorem sweeps_are_unobservable_witness:
  "lb_answers default_policy
     [(0, Fails None None), (1, Sweeps), (2, Fails None None), (3700000, Sweeps)] []
   = lb_answers default_policy [(0, Fails None None), (2, Fails None None)] []"
  using sweeps_are_unobservable [of default_policy
      "[(0, Fails None None), (1, Sweeps), (2, Fails None None), (3700000, Sweeps)]"]
  by (simp add: sane_policy_def default_policy_def)

lemma failing_run:
  assumes p: "sane_policy p" and m: "jm_wf m" "key = lb_key ip (Some u)"
    and e: "lb_view p t m key = (if old = [] then None else Some \<lparr>failures = old, lockedUntil = None\<rparr>)"
    and ts: "sorted (t # ts)" "ts \<noteq> []" "last ts - hd (old @ ts) \<le> observationWindowMs p"
      "sorted (old @ ts)" "length old + length ts = threshold p"
  shows "lb_answers p (map (\<lambda>t. (t, Fails ip (Some u))) ts @ evs) m =
      replicate (length ts - 1) None @ [Some (lockoutMs p)]
      @ lb_answers p evs (fold (\<lambda>t m. snd (lb_event p t (Fails ip (Some u)) m)) ts m)
    \<and> lb_view p (last ts) (fold (\<lambda>t m. snd (lb_event p t (Fails ip (Some u)) m)) ts m) key
        = Some \<lparr>failures = old @ ts, lockedUntil = Some (last ts + lockoutMs p)\<rparr>
    \<and> jm_wf (fold (\<lambda>t m. snd (lb_event p t (Fails ip (Some u)) m)) ts m)"
  using m(1) e ts
proof (induction ts arbitrary: t old m)
  case (Cons a ts)
  let ?m = "snd (lb_event p a (Fails ip (Some u)) m)"
  have old_fresh: "fresh_failures p a old = old"
  proof -
    have "a - x \<le> observationWindowMs p" if "x \<in> set old" for x
    proof -
      from that obtain b bs where old: "old = b # bs" by (cases old) auto
      have "b \<le> x" using that Cons.prems(6) old by (auto simp: sorted_append)
      moreover have "a \<le> last (a # ts)" using Cons.prems(3) by (auto simp: last_in_set)
      ultimately show ?thesis using Cons.prems(5) old by simp
    qed
    then show ?thesis by (auto simp: fresh_failures_def intro: filter_True)
  qed
  have va: "lb_view p a m key = (if old = [] then None else Some \<lparr>failures = old, lockedUntil = None\<rparr>)"
  proof -
    have "t \<le> a" using Cons.prems(3) by simp
    then have "lb_view p a m key = Option.bind (lb_view p t m key) (swept_entry p a)"
      by (auto simp: lb_view_def swept_swept split: Option.bind_splits)
    then show ?thesis using Cons.prems(2) old_fresh by (simp add: swept_entry_def)
  qed
  note ev = view_event [OF p Cons.prems(1), of a "Fails ip (Some u)"]
  have fe: "failed_entry p a (lb_view p a m key) =
      \<lparr>failures = old @ [a],
       lockedUntil = if threshold p \<le> length old + 1 then Some (a + lockoutMs p) else None\<rparr>"
    using va by (auto simp: failed_entry_def Let_def)
  have ans: "fst (lb_event p a (Fails ip (Some u)) m) =
        (if threshold p \<le> length old + 1 then Some (lockoutMs p) else None)"
    and view: "lb_view p a ?m key = Some \<lparr>failures = old @ [a],
       lockedUntil = if threshold p \<le> length old + 1 then Some (a + lockoutMs p) else None\<rparr>"
  proof -
    have "Option.bind (lb_view p a m key) (\<lambda>e. map_option (\<lambda>until. until - a) (lockedUntil e)) = None"
      using va by simp
    then have "view_event p a (Fails ip (Some u)) (lb_view p a m) =
      (map_option (\<lambda>until. until - a) (lockedUntil (failed_entry p a (lb_view p a m key))),
       (lb_view p a m)(key \<mapsto> failed_entry p a (lb_view p a m key)))"
      using m(2) by (simp add: view_event_def Let_def)
    with ev fe show "fst (lb_event p a (Fails ip (Some u)) m) =
        (if threshold p \<le> length old + 1 then Some (lockoutMs p) else None)"
      and "lb_view p a ?m key = Some \<lparr>failures = old @ [a],
       lockedUntil = if threshold p \<le> length old + 1 then Some (a + lockoutMs p) else None\<rparr>"
      by (simp_all del: lb_event.simps)
  qed
  show ?case
  proof (cases "ts = []")
    case True
    then show ?thesis using ans view ev(3) Cons.prems(7)
      by (simp add: split_beta Let_def del: lb_event.simps)
  next
    case False
    have not_yet: "\<not> threshold p \<le> length old + 1" using Cons.prems(7) False by (cases ts) auto
    have "lb_view p a ?m key = (if old @ [a] = [] then None else Some \<lparr>failures = old @ [a], lockedUntil = None\<rparr>)"
      using view not_yet by simp
    from Cons.IH [OF ev(3) this] Cons.prems False
    have IH: "lb_answers p (map (\<lambda>t. (t, Fails ip (Some u))) ts @ evs) ?m =
      replicate (length ts - 1) None @ [Some (lockoutMs p)]
      @ lb_answers p evs (fold (\<lambda>t m. snd (lb_event p t (Fails ip (Some u)) m)) ts ?m)
    \<and> lb_view p (last ts) (fold (\<lambda>t m. snd (lb_event p t (Fails ip (Some u)) m)) ts ?m) key
        = Some \<lparr>failures = old @ a # ts, lockedUntil = Some (last ts + lockoutMs p)\<rparr>
    \<and> jm_wf (fold (\<lambda>t m. snd (lb_event p t (Fails ip (Some u)) m)) ts ?m)"
      by (auto simp: sorted_append)
    show ?thesis
      using IH ans not_yet False by (cases ts) (simp_all add: split_beta Let_def del: lb_event.simps)
  qed
qed simp

text \<open>
  Failing as often as the threshold within the observation window locks the key: the last
  of those failures is told the full lockout, none before it is, and a further attempt, in
  whatever case the user name is typed, is refused until the lockout from the last failure
  is over.
\<close>

theorem threshold_failures_lock:
  assumes "sane_policy p" "sorted ts" "length ts = threshold p" "0 < threshold p"
    and "last ts - hd ts \<le> observationWindowMs p"
    and "last ts \<le> now" "now < last ts + lockoutMs p" "to_lower v = to_lower u"
  shows "lb_answers p (map (\<lambda>t. (t, Fails ip (Some u))) ts @ [(now, Succeeds ip (Some v))]) [] =
    replicate (threshold p - 1) None @ [Some (lockoutMs p), Some (last ts + lockoutMs p - now)]"
proof -
  let ?m = "fold (\<lambda>t m. snd (lb_event p t (Fails ip (Some u)) m)) ts []"
  let ?k = "lb_key ip (Some u)"
  have ts: "ts \<noteq> []" "sorted (hd ts # ts)" using assms(2-4) by (cases ts; auto)+
  have run: "lb_answers p (map (\<lambda>t. (t, Fails ip (Some u))) ts @ [(now, Succeeds ip (Some v))]) [] =
      replicate (length ts - 1) None @ [Some (lockoutMs p)]
      @ lb_answers p [(now, Succeeds ip (Some v))] ?m
    \<and> lb_view p (last ts) ?m ?k = Some \<lparr>failures = [] @ ts, lockedUntil = Some (last ts + lockoutMs p)\<rparr>
    \<and> jm_wf ?m"
    by (rule failing_run [OF assms(1), where t = "hd ts"])
      (use ts assms in \<open>simp_all add: lb_view_def\<close>)
  then have "lb_view p (last ts) ?m ?k = Some \<lparr>failures = ts, lockedUntil = Some (last ts + lockoutMs p)\<rparr>"
    by simp
  moreover have "lb_view p now ?m ?k = Option.bind (lb_view p (last ts) ?m ?k) (swept_entry p now)"
    using assms(6) by (auto simp: lb_view_def swept_swept split: Option.bind_splits)
  ultimately have "lb_view p now ?m ?k =
      Some \<lparr>failures = fresh_failures p now ts, lockedUntil = Some (last ts + lockoutMs p)\<rparr>"
    using assms(7) by (simp add: swept_entry_def)
  moreover have "lb_key ip (Some v) = ?k" using assms(8) by (simp add: lb_key_def)
  ultimately have "fst (lb_check ip (Some v) now ?m) = Some (last ts + lockoutMs p - now)"
    by (simp add: lb_check_by_view [where p = p])
  then show ?thesis using run assms(3) by (simp add: split_beta Let_def split: option.split)
qed

theorem threshold_failures_lock_witness:
  "lb_answers default_policy
     (map (\<lambda>t. (t, Fails None (Some ''Ann''))) [0, 1, 2, 3, 4] @ [(1000, Succeeds None (Some ''ann''))]) []
   = [None, None, None, None, Some 900000, Some 899004]"
proof -
  have "to_lower ''ann'' = to_lower ''Ann''" by code_simp
  then show ?thesis
    using threshold_failures_lock [of default_policy "[0, 1, 2, 3, 4]" 1000 "''ann''" "''Ann''" None]
    by (simp add: sane_policy_def default_policy_def numeral_eq_Suc del: to_lower_simps)
qed

end
