(* ===== verification/AuthRoutes.thy ===== *)
theory AuthRoutes
  imports Sessions CredentialCache LoginBackoff
begin

text \<open>
  Signing in, stepping up and who may call a route
  (\<^verbatim>\<open>apps/api/src/plugins/auth.ts\<close>, \<^verbatim>\<open>apps/api/src/routes/auth.ts\<close>): each request
  resolves its session from the cookie, a guard applies the route's policy, and the
  handlers for sign-in, sign-out, step-up and step-down change the sessions, the cached
  passwords, the login backoff and the audit log together.
\<close>

section \<open>User names\<close>

(* src/apps/api/src/lib/usernameParser.ts:11-19 bareUsername *)
definition bareUsername :: "string \<Rightarrow> string" where
  "bareUsername input =
     (let trimmed = trim input;
          before_bs = takeWhile (\<lambda>c. c \<noteq> CHR 0x5C) trimmed;
          before_at = takeWhile (\<lambda>c. c \<noteq> CHR ''@'') trimmed
      in if length before_bs < length trimmed then trim (drop (length before_bs + 1) trimmed)
         else if before_at \<noteq> [] \<and> length before_at < length trimmed then trim before_at
         else trimmed)"

(* src/apps/api/src/lib/usernameParser.ts:26-28 composeBindUpn *)
definition composeBindUpn :: "string \<Rightarrow> string \<Rightarrow> string" where
  "composeBindUpn rawUsername domainName = bareUsername rawUsername @ ''@'' @ domainName"

section \<open>Errors and the audit log\<close>

datatype step_up_reason = Not_elevated | Password_rejected

(* src/apps/api/src/plugins/errorHandler.ts:9-56 AppError *)
datatype api_error =
    Unauthorized_error
  | Session_required_error
  | Forbidden_error
  | Step_up_required_error step_up_reason
  | Not_found_error
  | Conflict_error
  | Bad_request_error
  | Directory_unavailable_error
  | Too_many_requests_error int

text \<open>What the model keeps of an audit event.\<close>

datatype audit_result = A_success | A_failure | A_denied

record audit_event =
  ae_action :: string
  ae_result :: audit_result
  ae_errorCode :: "string option"
  ae_sessionId :: "string option"
  ae_targetId :: "string option"

definition audit_event :: "string \<Rightarrow> audit_result \<Rightarrow> string option \<Rightarrow> string option \<Rightarrow> string option \<Rightarrow> audit_event" where
  "audit_event action res code sid target =
     \<lparr>ae_action = action, ae_result = res, ae_errorCode = code, ae_sessionId = sid, ae_targetId = target\<rparr>"

record auth_state =
  sdb :: session_db
  creds :: cred_cache
  backoff :: backoff
  audit_log :: "audit_event list"

definition audited :: "audit_event \<Rightarrow> auth_state \<Rightarrow> auth_state" where
  "audited e s = s\<lparr>audit_log := audit_log s @ [e]\<rparr>"

text \<open>What the handlers read: the settings, the clock, and the token hash.\<close>

record auth_env =
  env_hash :: "string \<Rightarrow> string"
  env_settings :: session_settings
  env_authz :: authz_settings
  env_policy :: backoff_policy

section \<open>Resolving the caller\<close>

(* src/apps/api/src/plugins/auth.ts:40-51 ResolvedActor *)
record resolved_actor =
  session :: admin_session
  elevated :: "elevated_session option"
  elevatedPassword :: "string option"

text \<open>
  The caller's elevated session and its cached password: without the password it doesn't count
  as open.
\<close>

(* src/apps/api/src/plugins/auth.ts:95-99 onRequest *)
definition open_elevated ::
    "ms \<Rightarrow> admin_session \<Rightarrow> session_db \<Rightarrow> cred_cache \<Rightarrow> (elevated_session option \<times> string option) \<times> cred_cache" where
  "open_elevated now sess db cc =
     (let found = findActiveElevated now (as_id sess) db;
          (pw, cc) = (case found of Some e \<Rightarrow> cc_get (es_id e) now cc | None \<Rightarrow> (None, cc))
      in ((if truthy pw then found else None, pw), cc))"

text \<open>
  A request that isn't marked as background keeps the elevated session open. \<open>recorded\<close> says
  whether the statement that records it went through; its failure doesn't fail the request.
\<close>

(* src/apps/api/src/plugins/auth.ts:100-108 onRequest *)
definition keep_open ::
    "session_settings \<Rightarrow> ms \<Rightarrow> bool \<Rightarrow> bool \<Rightarrow> elevated_session option \<Rightarrow> session_db \<Rightarrow> cred_cache
       \<Rightarrow> elevated_session option \<times> session_db \<times> cred_cache" where
  "keep_open st now recorded background el db cc =
     (case el of
        None \<Rightarrow> (None, db, cc)
      | Some before \<Rightarrow>
          if background then (Some before, db, cc)
          else
            let (after, db) = (if recorded then recordElevatedActivity st now before db else (Some before, db))
            in (after, db, case after of Some e \<Rightarrow> cc_extend (es_id e) (es_idleExpiresAt e) cc | None \<Rightarrow> cc))"

(* src/apps/api/src/plugins/auth.ts:87-116 onRequest *)
definition on_request ::
    "auth_env \<Rightarrow> ms \<Rightarrow> bool \<Rightarrow> bool \<Rightarrow> string option \<Rightarrow> bool \<Rightarrow> auth_state
       \<Rightarrow> resolved_actor option \<times> auth_state" where
  "on_request env now bumped recorded cookie background s =
     (case cookie of
        None \<Rightarrow> (None, s)
      | Some tok \<Rightarrow>
          (case resolve (env_hash env) (env_settings env) now bumped tok (sdb s) of
             (None, db) \<Rightarrow> (None, s\<lparr>sdb := db\<rparr>)
           | (Some sess, db) \<Rightarrow>
               let ((el, pw), cc) = open_elevated now sess db (creds s);
                   (el, db, cc) = keep_open (env_settings env) now recorded background el db cc
               in (Some \<lparr>session = sess, elevated = el, elevatedPassword = (if el = None then None else pw)\<rparr>,
                   s\<lparr>sdb := db, creds := cc\<rparr>)))"

section \<open>Route policies\<close>

datatype policy_directory = Caller | Param | No_directory

(* src/apps/api/src/plugins/auth.ts:26-32 RoutePolicy *)
datatype route_policy =
    Public
  | Policy (pol_capability: "capability option") (pol_stepUp: bool) (pol_directory: policy_directory)

(* src/apps/api/src/plugins/auth.ts:156-186 requireActorCapability *)
definition requireActorCapability ::
    "resolved_actor \<Rightarrow> capability \<Rightarrow> auth_state \<Rightarrow> api_error option \<times> auth_state" where
  "requireActorCapability a c s =
     (if has_capability (as_capabilities (session a)) c then (None, s)
      else (Some Forbidden_error,
            audited (audit_event ''authz.deny'' A_denied None (Some (as_id (session a))) None) s))"

(* src/apps/api/src/plugins/auth.ts:188-190 requireStepUp *)
definition requireStepUp :: "resolved_actor \<Rightarrow> api_error option" where
  "requireStepUp a =
     (if elevated a = None \<or> \<not> truthy (elevatedPassword a) then Some (Step_up_required_error Not_elevated)
      else None)"

text \<open>The URL's \<open>:id\<close> as a whole number, or none when it isn't one.\<close>

(* src/apps/api/src/plugins/auth.ts:194-198 requireCallersDirectory *)
definition requireCallersDirectory :: "int option \<Rightarrow> resolved_actor \<Rightarrow> api_error option" where
  "requireCallersDirectory param a =
     (case param of
        None \<Rightarrow> None
      | Some i \<Rightarrow> if i \<le> 0 then None
                  else if i \<noteq> int (as_directoryId (session a)) then Some Not_found_error else None)"

text \<open>A route that declared no policy is closed.\<close>

(* src/apps/api/src/plugins/auth.ts:142-149 policyGuard *)
definition policy_guard ::
    "route_policy option \<Rightarrow> int option \<Rightarrow> resolved_actor option \<Rightarrow> auth_state \<Rightarrow> api_error option \<times> auth_state" where
  "policy_guard policy param actor s =
     (case policy of
        None \<Rightarrow> (Some Forbidden_error, s)
      | Some Public \<Rightarrow> (None, s)
      | Some (Policy cap stepUp dir) \<Rightarrow>
          (case actor of
             None \<Rightarrow> (Some Session_required_error, s)
           | Some a \<Rightarrow>
               let (e, s) = (case cap of Some c \<Rightarrow> requireActorCapability a c s | None \<Rightarrow> (None, s))
               in case e of
                    Some _ \<Rightarrow> (e, s)
                  | None \<Rightarrow>
                      let e = (if stepUp then requireStepUp a else None)
                      in case e of
                           Some _ \<Rightarrow> (e, s)
                         | None \<Rightarrow> ((if dir = Param then requireCallersDirectory param a else None), s)))"

section \<open>Sign-in, sign-out, step-up, step-down\<close>

(* src/apps/api/src/routes/auth.ts:22-28 WRITE_CAPABILITIES *)
definition WRITE_CAPABILITIES :: "capability list" where
  "WRITE_CAPABILITIES =
     [Write_user_unlock, Write_user_resetPassword, Write_user_enableDisable, Write_user_attributes,
      Write_group_membership]"

text \<open>The directory's answer to a bind with the typed password.\<close>

record ad_user =
  objectGuid :: string
  displayName :: "string option"
  email :: "string option"
  distinguishedName :: string
  memberOfDns :: "string list"

record authenticate_result =
  ok :: bool
  reason :: "string option"
  user :: "ad_user option"
  groupDns :: "string list option"

record directory_config =
  dir_id :: nat
  domain :: string
  configured :: bool

text \<open>\<open>Math.max(1, Math.ceil(ms / 1000))\<close>.\<close>

definition retry_after_seconds :: "ms \<Rightarrow> int" where
  "retry_after_seconds m = max 1 ((m + 999) div 1000)"

(* src/apps/api/src/routes/auth.ts:446-450 formatRetry *)
definition formatRetry :: "int \<Rightarrow> string" where
  "formatRetry seconds =
     (if seconds < 60 then dec seconds @ '' second'' @ (if seconds = 1 then [] else ''s'')
      else let minutes = (seconds + 59) div 60
           in dec minutes @ '' minute'' @ (if minutes = 1 then [] else ''s''))"

record request_info =
  ri_ip :: "string option"
  ri_userAgent :: "string option"

text \<open>
  The sign-in handler. The directory's answer comes in as an argument; it is only looked at
  where the handler asks for it. The result is the new session with its cookie token.
\<close>

(* src/apps/api/src/routes/auth.ts:67-194 login *)
definition login ::
    "auth_env \<Rightarrow> ms \<Rightarrow> request_info \<Rightarrow> directory_config option \<Rightarrow> string \<Rightarrow> authenticate_result
       \<Rightarrow> string \<Rightarrow> string \<Rightarrow> auth_state \<Rightarrow> (api_error + admin_session \<times> string) \<times> auth_state" where
  "login env now ri directory username result newId cookieToken s =
     (case directory of
        None \<Rightarrow> (Inl Bad_request_error, s)
      | Some d \<Rightarrow>
          if \<not> configured d then (Inl Bad_request_error, s)
          else
            let bind = composeBindUpn username (domain d)
            in case lb_check (ri_ip ri) (Some bind) now (backoff s) of
                 (Some left, m) \<Rightarrow>
                   (Inl (Too_many_requests_error (retry_after_seconds left)), s\<lparr>backoff := m\<rparr>)
               | (None, m) \<Rightarrow>
                   let s = s\<lparr>backoff := m\<rparr>
                   in if \<not> ok result \<or> user result = None then
                        let counted = (reason result \<noteq> Some ''directory_error'');
                            s = (if counted then
                                   s\<lparr>backoff := snd (lb_record_failure (env_policy env) (ri_ip ri)
                                                    (Some bind) now (backoff s))\<rparr>
                                 else s);
                            s = audited (audit_event ''auth.login'' A_failure
                                  (Some (case reason result of Some r \<Rightarrow> r | None \<Rightarrow> ''unknown'')) None None) s
                        in (Inl (if counted then Unauthorized_error else Directory_unavailable_error), s)
                      else
                        let u = the (user result);
                            s = s\<lparr>backoff := lb_record_success (ri_ip ri) (Some bind) (backoff s)\<rparr>;
                            caps = resolve_capabilities (env_authz env)
                                     (case groupDns result of Some g \<Rightarrow> g | None \<Rightarrow> memberOfDns u)
                        in if caps = [] then
                             (Inl Unauthorized_error,
                              audited (audit_event ''auth.login'' A_denied (Some ''no_capabilities'') None None) s)
                           else
                             let (sess, db) = createAdminSession (env_hash env) (env_settings env) now newId
                                   cookieToken
                                   \<lparr>in_directoryId = dir_id d, in_actorUserId = objectGuid u,
                                    in_actorDisplayName = displayName u, in_actorUsername = Some bind,
                                    in_actorEmail = email u, in_actorDn = Some (distinguishedName u),
                                    in_capabilities = caps, in_sourceIp = ri_ip ri,
                                    in_userAgent = ri_userAgent ri, in_notAfter = None\<rparr> (sdb s)
                             in (Inr (sess, cookieToken),
                                 audited (audit_event ''auth.login'' A_success None (Some (as_id sess))
                                   (Some (objectGuid u))) (s\<lparr>sdb := db\<rparr>)))"

(* src/apps/api/src/routes/auth.ts:197-225 logout *)
definition logout :: "ms \<Rightarrow> resolved_actor option \<Rightarrow> auth_state \<Rightarrow> auth_state" where
  "logout now actor s =
     (case actor of
        None \<Rightarrow> s
      | Some a \<Rightarrow>
          let i = as_id (session a);
              (revokedElevatedIds, db) = revokeAdminSession now i (sdb s)
          in audited (audit_event ''auth.logout'' A_success None (Some i) (Some i))
               (s\<lparr>sdb := db, creds := cc_delete_many revokedElevatedIds (creds s)\<rparr>))"

text \<open>
  Step-up. On success the answer names the new elevated session and the new cookie's token;
  a person who lost every role is signed out instead.
\<close>

(* src/apps/api/src/routes/auth.ts:245-391 stepUp *)
definition step_up ::
    "auth_env \<Rightarrow> ms \<Rightarrow> request_info \<Rightarrow> string \<Rightarrow> authenticate_result \<Rightarrow> string \<Rightarrow> string \<Rightarrow> string
       \<Rightarrow> resolved_actor \<Rightarrow> auth_state \<Rightarrow> (api_error + elevated_session \<times> string) \<times> auth_state" where
  "step_up env now ri pw result newAdminId newElevatedId cookieToken a s =
     (let old = session a
      in if \<not> truthy (as_actorUsername old) then (Inl Unauthorized_error, s)
      else
        case lb_check (ri_ip ri) (as_actorUsername old) now (backoff s) of
          (Some left, m) \<Rightarrow>
            (Inl (Too_many_requests_error (retry_after_seconds left)), s\<lparr>backoff := m\<rparr>)
        | (None, m) \<Rightarrow>
            let s = s\<lparr>backoff := m\<rparr>
            in if \<not> ok result then
                 let counted = (reason result \<noteq> Some ''directory_error'');
                     s = (if counted then
                            s\<lparr>backoff := snd (lb_record_failure (env_policy env) (ri_ip ri)
                                             (as_actorUsername old) now (backoff s))\<rparr>
                          else s);
                     s = audited (audit_event ''auth.stepup'' A_failure
                           (Some (case reason result of Some r \<Rightarrow> r | None \<Rightarrow> ''unknown''))
                           (Some (as_id old)) None) s
                 in (Inl (if counted then Unauthorized_error else Directory_unavailable_error), s)
               else
                 let s = s\<lparr>backoff := lb_record_success (ri_ip ri) (as_actorUsername old) (backoff s)\<rparr>;
                     caps = resolve_capabilities (env_authz env)
                              (case groupDns result of Some g \<Rightarrow> g
                               | None \<Rightarrow> (case user result of Some u \<Rightarrow> memberOfDns u | None \<Rightarrow> []))
                 in if caps = [] then
                      let (revokedElevatedIds, db) = revokeAdminSession now (as_id old) (sdb s)
                      in (Inl Session_required_error,
                          audited (audit_event ''auth.stepup'' A_denied (Some ''no_capabilities'')
                                     (Some (as_id old)) None)
                            (s\<lparr>sdb := db, creds := cc_delete_many revokedElevatedIds (creds s)\<rparr>))
                    else
                      let writes = filter (\<lambda>c. c \<in> set WRITE_CAPABILITIES) caps;
                          ((rotated, el, revokedElevatedIds), db) =
                            rotateAndElevate (env_hash env) (env_settings env) now newAdminId newElevatedId
                              cookieToken (as_id old)
                              \<lparr>in_directoryId = as_directoryId old, in_actorUserId = as_actorUserId old,
                               in_actorDisplayName = as_actorDisplayName old,
                               in_actorUsername = as_actorUsername old, in_actorEmail = as_actorEmail old,
                               in_actorDn = as_actorDn old, in_capabilities = caps,
                               in_sourceIp = ri_ip ri, in_userAgent = ri_userAgent ri,
                               in_notAfter = Some (as_expiresAt old)\<rparr>
                              writes None (sdb s);
                          cc = cc_set (es_id el) pw (es_idleExpiresAt el)
                                 (cc_delete_many revokedElevatedIds (creds s))
                      in (Inr (el, cookieToken),
                          audited (audit_event ''auth.stepup'' A_success None (Some (as_id rotated))
                                     (Some (es_id el))) (s\<lparr>sdb := db, creds := cc\<rparr>)))"

(* src/apps/api/src/routes/auth.ts:394-423 stepDown *)
definition step_down :: "ms \<Rightarrow> resolved_actor \<Rightarrow> auth_state \<Rightarrow> auth_state" where
  "step_down now a s =
     (let i = as_id (session a);
          (revokedIds, db) = revokeElevatedSessionsForAdmin now i (sdb s);
          s = s\<lparr>sdb := db, creds := cc_delete_many revokedIds (creds s)\<rparr>
      in if revokedIds = [] then s
         else audited (audit_event ''auth.stepup.revoke'' A_success None (Some i) None) s)"

(* src/apps/api/src/routes/auth.ts:428-444 meResponse *)
record me_response =
  me_actorId :: string
  me_displayName :: string
  me_username :: string
  me_email :: "string option"
  me_capabilities :: "capability list"
  me_directoryId :: nat
  me_directoryDomain :: "string option"
  me_elevated :: elevated_state

definition meResponse :: "admin_session \<Rightarrow> elevated_session option \<Rightarrow> string option \<Rightarrow> me_response" where
  "meResponse s e domainName =
     \<lparr>me_actorId = as_actorUserId s,
      me_displayName = (case as_actorDisplayName s of Some n \<Rightarrow> n
         | None \<Rightarrow> (case as_actorUsername s of Some n \<Rightarrow> n | None \<Rightarrow> as_actorUserId s)),
      me_username = (case as_actorUsername s of Some n \<Rightarrow> n | None \<Rightarrow> []),
      me_email = as_actorEmail s,
      me_capabilities = as_capabilities s,
      me_directoryId = as_directoryId s,
      me_directoryDomain = domainName,
      me_elevated = elevatedState e\<rparr>"

text \<open>The API's start: the process memory is new, and sessions left open are ended and audited.\<close>

(* src/apps/api/src/plugins/services.ts:156-176 endElevatedSessionsLeftOpen *)
definition api_start :: "ms \<Rightarrow> auth_state \<Rightarrow> auth_state" where
  "api_start now s =
     (let (ended, db) = endOpenElevatedSessions now (sdb s)
      in s\<lparr>sdb := db, creds := cc_empty, backoff := [],
           audit_log := audit_log s @
             map (\<lambda>(e, a). audit_event ''auth.stepup.revoke'' A_success None (Some (es_adminSessionId e))
                    (Some (es_id e))) ended\<rparr>)"

end
