(* ===== verification/AuthSystem.thy ===== *)
theory AuthSystem
  imports AuthRoutes
begin

text \<open>
  The sessions, the cached passwords and the login backoff as one system: the requests and
  timers that change them as steps, what holds in every state they reach, and what that
  means for a request. Requests run one after another here, and the un-awaited statement
  that records a session's activity is taken to have gone through.
\<close>

section \<open>The tables stay sound\<close>

text \<open>An elevated session not revoked belongs to a session not revoked, which outlives it.\<close>

definition owns :: "session_settings \<Rightarrow> admin_session \<Rightarrow> elevated_session \<Rightarrow> bool" where
  "owns st a e \<longleftrightarrow>
     as_id a = es_adminSessionId e \<and> as_revokedAt a = None
     \<and> es_absoluteExpiresAt e \<le> as_expiresAt a \<and> es_idleExpiresAt e \<le> es_absoluteExpiresAt e
     \<and> es_idleExpiresAt e \<le> as_lastSeenAt a + signInIdleMs st"

definition keys_ok :: "session_db \<Rightarrow> bool" where
  "keys_ok db \<longleftrightarrow> distinct (map as_id (admin_sessions db)) \<and> distinct (map token_hash (admin_sessions db))
     \<and> distinct (map es_id (elevated_sessions db))"

definition owned_ok :: "session_settings \<Rightarrow> session_db \<Rightarrow> bool" where
  "owned_ok st db \<longleftrightarrow>
     (\<forall>e \<in> set (elevated_sessions db). es_revokedAt e = None \<longrightarrow> (\<exists>a \<in> set (admin_sessions db). owns st a e))"

definition seen_ok :: "ms \<Rightarrow> session_db \<Rightarrow> bool" where
  "seen_ok clock db \<longleftrightarrow> (\<forall>a \<in> set (admin_sessions db). as_lastSeenAt a \<le> clock)"

definition db_inv :: "session_settings \<Rightarrow> ms \<Rightarrow> session_db \<Rightarrow> bool" where
  "db_inv st clock db \<longleftrightarrow> keys_ok db \<and> owned_ok st db \<and> seen_ok clock db"

lemmas db_inv_defs = db_inv_def keys_ok_def owned_ok_def seen_ok_def

lemma db_inv_later: "db_inv st clock db \<Longrightarrow> clock \<le> now \<Longrightarrow> db_inv st now db"
  by (auto simp: db_inv_defs)

text \<open>Recording a session's activity.\<close>

definition bump :: "ms \<Rightarrow> string \<Rightarrow> session_db \<Rightarrow> session_db" where
  "bump now i db = db\<lparr>admin_sessions :=
     update_where (\<lambda>r. as_id r = i) (as_lastSeenAt_update (\<lambda>_. now)) (admin_sessions db)\<rparr>"

lemma db_inv_bump:
  assumes "db_inv st clock db" "clock \<le> now"
  shows "db_inv st now (bump now i db)"
proof -
  have "\<exists>a' \<in> set (admin_sessions (bump now i db)). owns st a' e"
    if "a \<in> set (admin_sessions db)" "owns st a e" for a e
  proof -
    let ?a = "if as_id a = i then a\<lparr>as_lastSeenAt := now\<rparr> else a"
    have "as_lastSeenAt a \<le> now" using assms that by (force simp: db_inv_defs)
    then have "owns st ?a e" using that(2) by (auto simp: owns_def)
    moreover have "?a \<in> set (admin_sessions (bump now i db))"
      using that(1) by (auto simp: bump_def set_update_where)
    ultimately show ?thesis by blast
  qed
  moreover have "keys_ok (bump now i db)"
    using assms by (simp add: db_inv_defs bump_def map_key_update_where)
  moreover have "seen_ok now (bump now i db)"
    using assms by (force simp: db_inv_defs bump_def set_update_where)
  ultimately show ?thesis using assms(1) unfolding db_inv_def owned_ok_def
    by (simp add: bump_def) blast
qed

lemma resolve_cases:
  assumes "resolve H st now True tok db = (r, db')"
  obtains "r = None" "db' = db"
  | s where "r = Some s" "s \<in> set (admin_sessions db)" "session_live st now s" "token_hash s = H tok"
      "db' = bump now (as_id s) db"
proof (cases "tok = []")
  case True
  with assms that(1) show ?thesis by (simp add: resolve_def)
next
  case tok: False
  show ?thesis
  proof (cases "find (\<lambda>s. token_hash s = H tok) (admin_sessions db)")
    case None
    with tok assms that(1) show ?thesis by (simp add: resolve_def)
  next
    case (Some s)
    then have s: "s \<in> set (admin_sessions db)" "token_hash s = H tok"
      by (auto simp: find_Some_iff)
    show ?thesis
    proof (cases "session_live st now s")
      case True
      with tok Some assms have "r = Some s" "db' = bump now (as_id s) db"
        by (simp_all add: resolve_def bump_def)
      with s True that(2) show ?thesis by blast
    next
      case False
      with tok Some assms that(1) show ?thesis by (simp add: resolve_def)
    qed
  qed
qed

text \<open>Revoking.\<close>

definition revoke_owned :: "ms \<Rightarrow> string \<Rightarrow> elevated_session list \<Rightarrow> elevated_session list" where
  "revoke_owned now i = update_where (\<lambda>e. es_adminSessionId e = i \<and> es_revokedAt e = None)
     (es_revokedAt_update (\<lambda>_. Some now))"

lemma revokeElevated_snd:
  "snd (revokeElevatedSessionsForAdmin now i db) =
     db\<lparr>elevated_sessions := revoke_owned now i (elevated_sessions db)\<rparr>"
  by (simp add: revokeElevatedSessionsForAdmin_def revoke_owned_def Let_def)

lemma revoked_ids:
  "j \<in> set (fst (revokeElevatedSessionsForAdmin now i db)) \<longleftrightarrow>
     (\<exists>e \<in> set (elevated_sessions db). es_id e = j \<and> es_adminSessionId e = i \<and> es_revokedAt e = None)"
  by (auto simp: revokeElevatedSessionsForAdmin_def Let_def)

lemma revoke_owned_unrevoked:
  "e \<in> set (revoke_owned now i es) \<Longrightarrow> es_revokedAt e = None \<Longrightarrow>
     e \<in> set es \<and> es_adminSessionId e \<noteq> i"
  by (auto simp: revoke_owned_def set_update_where split: if_splits)

lemma revoke_owned_keeps:
  "e \<in> set es \<Longrightarrow> es_adminSessionId e \<noteq> i \<Longrightarrow> e \<in> set (revoke_owned now i es)"
  by (force simp: revoke_owned_def set_update_where)

lemma map_es_id_revoke_owned [simp]: "map es_id (revoke_owned now i es) = map es_id es"
  by (simp add: revoke_owned_def map_key_update_where)

lemma db_inv_step_down:
  assumes "db_inv st clock db"
  shows "db_inv st clock (snd (revokeElevatedSessionsForAdmin now i db))"
  using assms unfolding revokeElevated_snd db_inv_defs
  by (simp, blast dest: revoke_owned_unrevoked)

definition revoke_admin_row :: "ms \<Rightarrow> string \<Rightarrow> admin_session list \<Rightarrow> admin_session list" where
  "revoke_admin_row now i = update_where (\<lambda>s. as_id s = i \<and> as_revokedAt s = None)
     (as_revokedAt_update (\<lambda>_. Some now))"

lemma revokeAdmin_snd:
  "snd (revokeAdminSession now i db) =
     db\<lparr>admin_sessions := revoke_admin_row now i (admin_sessions db),
        elevated_sessions := revoke_owned now i (elevated_sessions db)\<rparr>"
  by (simp add: revokeAdminSession_def revokeElevated_snd revoke_admin_row_def Let_def)

lemma revokeAdmin_fst: "fst (revokeAdminSession now i db) = fst (revokeElevatedSessionsForAdmin now i db)"
  by (simp add: revokeAdminSession_def revokeElevatedSessionsForAdmin_def Let_def)

lemma db_inv_revoke_admin:
  assumes "db_inv st clock db"
  shows "db_inv st clock (snd (revokeAdminSession now i db))"
proof -
  have "\<exists>a \<in> set (revoke_admin_row now i (admin_sessions db)). owns st a e"
    if "e \<in> set (revoke_owned now i (elevated_sessions db))" "es_revokedAt e = None" for e
  proof -
    from revoke_owned_unrevoked [OF that] assms that(2)
    obtain a where a: "a \<in> set (admin_sessions db)" "owns st a e" "es_adminSessionId e \<noteq> i"
      by (auto simp: db_inv_defs)
    then have "as_id a \<noteq> i" by (auto simp: owns_def)
    with a show ?thesis
      by (intro bexI [of _ a]) (force simp: revoke_admin_row_def set_update_where)+
  qed
  moreover have "keys_ok (snd (revokeAdminSession now i db))"
    using assms by (simp add: db_inv_defs revokeAdmin_snd revoke_admin_row_def map_key_update_where)
  moreover have "seen_ok clock (snd (revokeAdminSession now i db))"
    using assms by (auto simp: db_inv_defs revokeAdmin_snd revoke_admin_row_def set_update_where)
  ultimately show ?thesis by (simp add: db_inv_def owned_ok_def revokeAdmin_snd)
qed

text \<open>New sessions.\<close>

lemma db_inv_create:
  assumes "db_inv st clock db" "clock \<le> now" "i \<notin> as_id ` set (admin_sessions db)"
    and "H tok \<notin> token_hash ` set (admin_sessions db)"
  shows "db_inv st now (snd (createAdminSession H st now i tok inp db))"
  using assms by (fastforce simp: db_inv_defs createAdminSession_def Let_def)

lemma createElevated_row:
  assumes "createElevatedSession st now i adm actor caps am limit db = (e, db')"
  shows "db' = db\<lparr>elevated_sessions := elevated_sessions db @ [e]\<rparr>"
    and "es_id e = i" "es_adminSessionId e = adm" "es_revokedAt e = None"
    and "es_absoluteExpiresAt e = min_opt (now + snd (elevationLimits st)) limit"
    and "es_idleExpiresAt e = min (now + fst (elevationLimits st)) (es_absoluteExpiresAt e)"
  using assms by (auto simp: createElevatedSession_def Let_def split: prod.splits)

lemma elevationLimits_idle: "fst (elevationLimits st) \<le> signInIdleMs st"
  by (simp add: elevationLimits_def Let_def)

lemma db_inv_create_elevated:
  assumes inv: "db_inv st now db" and a: "a \<in> set (admin_sessions db)" "as_revokedAt a = None"
      "as_lastSeenAt a = now"
    and i: "i \<notin> es_id ` set (elevated_sessions db)"
    and c: "createElevatedSession st now i (as_id a) actor caps am (Some (as_expiresAt a)) db = (e, db')"
  shows "db_inv st now db'"
proof -
  note r = createElevated_row [OF c]
  have "owns st a e"
    using r elevationLimits_idle [of st] a by (auto simp: owns_def min_opt_def)
  then show ?thesis using inv i a(1) r(1,2) by (auto simp: db_inv_defs)
qed

text \<open>Activity on an elevated session: its idle end moves, or it stays as it is.\<close>

definition set_idle :: "string \<Rightarrow> ms \<Rightarrow> ms \<Rightarrow> elevated_session list \<Rightarrow> elevated_session list" where
  "set_idle i now next = update_where
     (\<lambda>e. es_id e = i \<and> es_revokedAt e = None \<and> es_idleExpiresAt e > now) (es_idleExpiresAt_update (\<lambda>_. next))"

lemma activity_cases:
  assumes inv: "db_inv st clock db" and e: "e \<in> set (elevated_sessions db)" "elevated_active now e"
    and r: "recordElevatedActivity st now e db = (r, db')"
  obtains "r = Some e" "db' = db"
  | "r = Some (e\<lparr>es_idleExpiresAt := min (now + fst (elevationLimits st)) (es_absoluteExpiresAt e)\<rparr>)"
    "db' = db\<lparr>elevated_sessions := set_idle (es_id e) now
        (min (now + fst (elevationLimits st)) (es_absoluteExpiresAt e)) (elevated_sessions db)\<rparr>"
proof -
  let ?next = "min (now + fst (elevationLimits st)) (es_absoluteExpiresAt e)"
  have "find (\<lambda>f. es_id f = es_id e \<and> es_revokedAt f = None \<and> es_idleExpiresAt f > now)
      (elevated_sessions db) = Some e"
    using find_by_key [of es_id "elevated_sessions db" e "\<lambda>f. es_revokedAt f = None \<and> es_idleExpiresAt f > now"]
      inv e by (simp add: db_inv_defs elevated_active_def)
  then show ?thesis
    using r that by (auto simp: recordElevatedActivity_def set_idle_def Let_def split: prod.splits if_splits)
qed

lemma set_idle_mem:
  "distinct (map es_id es) \<Longrightarrow> e \<in> set es \<Longrightarrow> es_revokedAt e = None \<Longrightarrow> es_idleExpiresAt e > now \<Longrightarrow>
   f \<in> set (set_idle (es_id e) now next es) \<longleftrightarrow>
     f = e\<lparr>es_idleExpiresAt := next\<rparr> \<or> (f \<in> set es \<and> es_id f \<noteq> es_id e)"
proof -
  assume a: "distinct (map es_id es)" "e \<in> set es" "es_revokedAt e = None" "es_idleExpiresAt e > now"
  have "es_id g = es_id e \<longleftrightarrow> g = e" if "g \<in> set es" for g
    using distinct_key_eq [OF a(1) that a(2)] by blast
  with a show ?thesis
    by (auto simp: set_idle_def set_update_where image_iff)
qed

lemma db_inv_activity:
  assumes inv: "db_inv st now db" and e: "e \<in> set (elevated_sessions db)" "elevated_active now e"
    and a: "a \<in> set (admin_sessions db)" "as_id a = es_adminSessionId e" "as_lastSeenAt a = now"
  shows "db_inv st now (snd (recordElevatedActivity st now e db))"
proof -
  let ?next = "min (now + fst (elevationLimits st)) (es_absoluteExpiresAt e)"
  let ?es = "set_idle (es_id e) now ?next (elevated_sessions db)"
  obtain a' where a': "a' \<in> set (admin_sessions db)" "owns st a' e"
    using inv e by (auto simp: db_inv_defs elevated_active_def)
  then have "a' = a" using a inv by (auto simp: db_inv_defs owns_def intro: distinct_key_eq [where k = as_id])
  with a' a(3) have own: "owns st a (e\<lparr>es_idleExpiresAt := ?next\<rparr>)"
    using elevationLimits_idle [of st] by (auto simp: owns_def)
  have mem: "f \<in> set ?es \<longleftrightarrow> f = e\<lparr>es_idleExpiresAt := ?next\<rparr> \<or> (f \<in> set (elevated_sessions db) \<and> es_id f \<noteq> es_id e)" for f
    using set_idle_mem [of "elevated_sessions db" e now f ?next] inv e by (simp add: db_inv_defs elevated_active_def)
  have "keys_ok (db\<lparr>elevated_sessions := ?es\<rparr>)"
    using inv by (simp add: db_inv_defs set_idle_def map_key_update_where)
  moreover have "owned_ok st (db\<lparr>elevated_sessions := ?es\<rparr>)"
    using inv own a(1) by (auto simp: owned_ok_def mem db_inv_def)
  ultimately have "db_inv st now (db\<lparr>elevated_sessions := ?es\<rparr>)"
    using inv by (simp add: db_inv_def seen_ok_def)
  then show ?thesis
    using inv by (cases "recordElevatedActivity st now e db")
      (auto elim: activity_cases [OF inv e])
qed

lemma db_inv_end_open:
  assumes "db_inv st clock db"
  shows "db_inv st clock (snd (endOpenElevatedSessions now db))"
proof -
  obtain p where p: "snd (endOpenElevatedSessions now db) =
      db\<lparr>elevated_sessions := update_where p (es_revokedAt_update (\<lambda>_. Some now)) (elevated_sessions db)\<rparr>"
    by (simp add: endOpenElevatedSessions_def Let_def)
  show ?thesis
    using assms unfolding p db_inv_defs
    by (simp add: map_key_update_where set_update_where) (auto split: if_splits)
qed

section \<open>A cached password belongs to an open elevated session\<close>

definition linked :: "session_db \<Rightarrow> cred_cache \<Rightarrow> bool" where
  "linked db c \<longleftrightarrow>
     (\<forall>i ce. jm_get (entries c) i = Some ce \<longrightarrow>
        (\<exists>e \<in> set (elevated_sessions db). es_id e = i \<and> es_revokedAt e = None
           \<and> expiresAt ce = es_idleExpiresAt e))"

lemma linked_sub:
  assumes "linked db c" "\<And>i ce. jm_get (entries d) i = Some ce \<Longrightarrow> jm_get (entries c) i = Some ce"
  shows "linked db d"
  using assms unfolding linked_def by blast

lemma cc_delete_entries: "jm_get (entries (cc_delete i c)) j = (if j = i then None else jm_get (entries c) j)"
  by (auto simp: cc_delete_def split: option.split)

lemma cc_delete_many_entries:
  "jm_get (entries (cc_delete_many is c)) j = (if j \<in> set is then None else jm_get (entries c) j)"
  unfolding cc_delete_many_def
  by (induction "is" arbitrary: c) (auto simp: cc_delete_entries)

lemma cc_get_entries:
  "jm_get (entries (snd (cc_get i now c))) j = Some ce \<Longrightarrow> jm_get (entries c) j = Some ce"
  by (auto simp: cc_get_def split: option.splits if_splits)

lemma cc_set_entries:
  "jm_get (entries (cc_set i pw until c)) j =
     (if j = i then Some \<lparr>password = length (heap c), expiresAt = until\<rparr> else jm_get (entries c) j)"
  by (auto simp: cc_set_def Let_def wipe_def split: option.split)

lemma cc_extend_entries:
  "jm_get (entries (cc_extend i until c)) j =
     (if j = i then map_option (expiresAt_update (\<lambda>_. until)) (jm_get (entries c) j) else jm_get (entries c) j)"
  by (auto simp: cc_extend_def split: option.split)

lemma linked_revoke:
  assumes "linked db c"
  shows "linked (snd (revokeElevatedSessionsForAdmin now i db))
           (cc_delete_many (fst (revokeElevatedSessionsForAdmin now i db)) c)"
  unfolding linked_def
proof (intro allI impI)
  fix j ce
  assume "jm_get (entries (cc_delete_many (fst (revokeElevatedSessionsForAdmin now i db)) c)) j = Some ce"
  then have j: "jm_get (entries c) j = Some ce" "j \<notin> set (fst (revokeElevatedSessionsForAdmin now i db))"
    by (simp_all add: cc_delete_many_entries split: if_splits)
  then obtain e where "e \<in> set (elevated_sessions db)" "es_id e = j" "es_revokedAt e = None"
      "expiresAt ce = es_idleExpiresAt e"
    using assms by (auto simp: linked_def)
  with j(2) show "\<exists>e \<in> set (elevated_sessions (snd (revokeElevatedSessionsForAdmin now i db))).
      es_id e = j \<and> es_revokedAt e = None \<and> expiresAt ce = es_idleExpiresAt e"
    by (intro bexI [of _ e]) (auto simp: revokeElevated_snd revoked_ids intro: revoke_owned_keeps)
qed

lemma linked_revoke_admin:
  "linked db c \<Longrightarrow> linked (snd (revokeAdminSession now i db))
     (cc_delete_many (fst (revokeAdminSession now i db)) c)"
  using linked_revoke [of db c now i]
  by (simp add: revokeAdmin_snd revokeAdmin_fst revokeElevated_snd linked_def)

lemma linked_activity:
  assumes inv: "db_inv st clock db" and e: "e \<in> set (elevated_sessions db)" "elevated_active now e"
    and l: "linked db c" and r: "recordElevatedActivity st now e db = (r, db')"
  shows "linked db' (case r of Some f \<Rightarrow> cc_extend (es_id f) (es_idleExpiresAt f) c | None \<Rightarrow> c)"
proof (rule activity_cases [OF inv e r])
  assume r: "r = Some e" "db' = db"
  show ?thesis
    unfolding linked_def r using l inv e
    by (auto simp: linked_def cc_extend_entries elevated_active_def split: if_splits)
next
  let ?next = "min (now + fst (elevationLimits st)) (es_absoluteExpiresAt e)"
  assume r: "r = Some (e\<lparr>es_idleExpiresAt := ?next\<rparr>)"
    "db' = db\<lparr>elevated_sessions := set_idle (es_id e) now ?next (elevated_sessions db)\<rparr>"
  have mem: "f \<in> set (elevated_sessions db') \<longleftrightarrow>
      f = e\<lparr>es_idleExpiresAt := ?next\<rparr> \<or> (f \<in> set (elevated_sessions db) \<and> es_id f \<noteq> es_id e)" for f
    using set_idle_mem [of "elevated_sessions db" e now f ?next] inv e r(2)
    by (simp add: db_inv_defs elevated_active_def)
  show ?thesis
    unfolding linked_def
  proof (intro allI impI)
    fix j ce
    assume j: "jm_get (entries (case r of Some f \<Rightarrow> cc_extend (es_id f) (es_idleExpiresAt f) c | None \<Rightarrow> c)) j = Some ce"
    show "\<exists>f \<in> set (elevated_sessions db'). es_id f = j \<and> es_revokedAt f = None \<and> expiresAt ce = es_idleExpiresAt f"
    proof (cases "j = es_id e")
      case True
      with j r(1) e(2) show ?thesis
        by (intro bexI [of _ "e\<lparr>es_idleExpiresAt := ?next\<rparr>"])
          (auto simp: mem cc_extend_entries elevated_active_def)
    next
      case False
      with j r(1) l obtain f where "f \<in> set (elevated_sessions db)" "es_id f = j" "es_revokedAt f = None"
          "expiresAt ce = es_idleExpiresAt f"
        by (auto simp: linked_def cc_extend_entries)
      with False show ?thesis by (intro bexI [of _ f]) (auto simp: mem)
    qed
  qed
qed

section \<open>The steps\<close>

text \<open>
  What handling a request does once its caller is resolved. Ids and tokens the handlers draw
  are new to their tables. Handlers of other routes, and refusals before any handler, leave
  all of this alone but for the audit log.
\<close>

inductive handles :: "auth_env \<Rightarrow> ms \<Rightarrow> resolved_actor option \<Rightarrow> auth_state \<Rightarrow> auth_state \<Rightarrow> bool"
  for env :: auth_env and now :: ms where
  H_other: "handles env now actor s s"
| H_refused: "snd (policy_guard policy param actor s) = t \<Longrightarrow> handles env now actor s t"
| H_login: "newId \<notin> as_id ` set (admin_sessions (sdb s)) \<Longrightarrow>
    env_hash env tok \<notin> token_hash ` set (admin_sessions (sdb s)) \<Longrightarrow>
    handles env now actor s (snd (login env now ri dir username result newId tok s))"
| H_logout: "handles env now actor s (logout now actor s)"
| H_step_up: "newAdminId \<notin> as_id ` set (admin_sessions (sdb s)) \<Longrightarrow>
    env_hash env tok \<notin> token_hash ` set (admin_sessions (sdb s)) \<Longrightarrow>
    newElevatedId \<notin> es_id ` set (elevated_sessions (sdb s)) \<Longrightarrow>
    handles env now (Some a) s
      (snd (step_up env now ri pw result newAdminId newElevatedId tok a s))"
| H_step_down: "handles env now (Some a) s (step_down now a s)"

inductive auth_step :: "auth_env \<Rightarrow> ms \<times> auth_state \<Rightarrow> ms \<times> auth_state \<Rightarrow> bool"
  for env :: auth_env where
  Request: "clock \<le> now \<Longrightarrow>
    on_request env now True recorded cookie background s = (actor, s1) \<Longrightarrow>
    handles env now actor s1 t \<Longrightarrow> auth_step env (clock, s) (now, t)"
| Sweep_passwords: "clock \<le> now \<Longrightarrow> auth_step env (clock, s) (now, s\<lparr>creds := cc_sweep now (creds s)\<rparr>)"
| Sweep_backoff: "clock \<le> now \<Longrightarrow>
    auth_step env (clock, s) (now, s\<lparr>backoff := lb_sweep (env_policy env) now (backoff s)\<rparr>)"
| Job_reads_password: "clock \<le> now \<Longrightarrow>
    auth_step env (clock, s) (now, s\<lparr>creds := snd (cc_get i now (creds s))\<rparr>)"
| Api_restart: "clock \<le> now \<Longrightarrow> auth_step env (clock, s) (now, api_start now s)"

inductive_cases auth_stepE: "auth_step env (clock, s) (now, t)"
inductive_cases handlesE: "handles env now actor s t"

definition auth_start :: "ms \<times> auth_state \<Rightarrow> bool" where
  "auth_start = (\<lambda>(clock, s). sdb s = \<lparr>admin_sessions = [], elevated_sessions = []\<rparr> \<and> creds s = cc_empty)"

definition auth_inv :: "auth_env \<Rightarrow> ms \<times> auth_state \<Rightarrow> bool" where
  "auth_inv env = (\<lambda>(clock, s). db_inv (env_settings env) clock (sdb s) \<and> linked (sdb s) (creds s)
     \<and> cc_inv (creds s))"

lemma newest_mem: "newest es = Some e \<Longrightarrow> e \<in> set es"
  by (induction es arbitrary: e) (auto split: option.splits if_splits)

lemma findActive_mem:
  "findActiveElevated now i db = Some e \<Longrightarrow>
     e \<in> set (elevated_sessions db) \<and> es_adminSessionId e = i \<and> elevated_active now e"
  using newest_mem [of "filter (\<lambda>e. es_adminSessionId e = i \<and> elevated_active now e) (elevated_sessions db)" e]
  by (simp add: findActiveElevated_def)

text \<open>The record updates of the state commute with what the invariant reads.\<close>

lemma auth_inv_fields [simp]:
  "auth_inv env (clock, audited ev s) = auth_inv env (clock, s)"
  "auth_inv env (clock, s\<lparr>backoff := m\<rparr>) = auth_inv env (clock, s)"
  by (simp_all add: auth_inv_def audited_def)

lemma audited_fields [simp]:
  "sdb (audited ev s) = sdb s" "creds (audited ev s) = creds s" "backoff (audited ev s) = backoff s"
  by (simp_all add: audited_def)

lemma linked_bump [simp]: "linked (bump now i db) c = linked db c"
  by (simp add: linked_def bump_def)

text \<open>What a request finds and leaves.\<close>

lemma open_elevated_inv:
  assumes o: "open_elevated now x db cc = ((el, pw), cc')" and l: "linked db cc" and c: "cc_inv cc"
  shows "linked db cc'" "cc_inv cc'"
    and "el = Some e \<Longrightarrow> e \<in> set (elevated_sessions db) \<and> es_adminSessionId e = as_id x
           \<and> elevated_active now e \<and> truthy pw"
proof -
  define found where "found = findActiveElevated now (as_id x) db"
  define pc where "pc = (case found of Some e \<Rightarrow> cc_get (es_id e) now cc | None \<Rightarrow> (None, cc))"
  have *: "el = (if truthy (fst pc) then found else None)" "pw = fst pc" "cc' = snd pc"
    using o by (auto simp: open_elevated_def found_def [symmetric] pc_def [symmetric] split_beta)
  show "cc_inv cc'" using c by (auto simp: * pc_def intro: cc_inv_get split: option.split)
  show "linked db cc'"
    by (rule linked_sub [OF l]) (auto simp: * pc_def intro: cc_get_entries split: option.splits)
  show "el = Some e \<Longrightarrow> e \<in> set (elevated_sessions db) \<and> es_adminSessionId e = as_id x
           \<and> elevated_active now e \<and> truthy pw"
    using findActive_mem [of now "as_id x" db e] by (auto simp: * found_def split: if_splits)
qed

lemma linked_extend_same:
  assumes l: "linked db c" and e: "e \<in> set (elevated_sessions db)" "elevated_active now e"
  shows "linked db (cc_extend (es_id e) (es_idleExpiresAt e) c)"
  unfolding linked_def
proof (intro allI impI)
  fix j ce assume j: "jm_get (entries (cc_extend (es_id e) (es_idleExpiresAt e) c)) j = Some ce"
  show "\<exists>f \<in> set (elevated_sessions db). es_id f = j \<and> es_revokedAt f = None \<and> expiresAt ce = es_idleExpiresAt f"
  proof (cases "j = es_id e")
    case True
    then show ?thesis using j e
      by (intro bexI [of _ e]) (auto simp: cc_extend_entries elevated_active_def)
  next
    case False
    then show ?thesis using j l by (simp add: cc_extend_entries linked_def)
  qed
qed

lemma keep_open_inv:
  assumes k: "keep_open st now recorded background el db cc = (el', db', cc')"
    and i: "db_inv st now db" "linked db cc" "cc_inv cc"
    and el: "\<And>e. el = Some e \<Longrightarrow> e \<in> set (elevated_sessions db) \<and> elevated_active now e
      \<and> (\<exists>a \<in> set (admin_sessions db). as_id a = es_adminSessionId e \<and> as_lastSeenAt a = now)"
  shows "db_inv st now db' \<and> linked db' cc' \<and> cc_inv cc' \<and> admin_sessions db' = admin_sessions db"
proof (cases el)
  case None
  then show ?thesis using k i by (simp add: keep_open_def)
next
  case (Some e)
  note e = el [OF Some]
  obtain r db1 where r: "recordElevatedActivity st now e db = (r, db1)" by fastforce
  have db1: "db_inv st now db1" "admin_sessions db1 = admin_sessions db"
  proof -
    show "db_inv st now db1" using db_inv_activity [OF i(1)] e r by (metis snd_conv)
    show "admin_sessions db1 = admin_sessions db"
      using r by (auto simp: recordElevatedActivity_def Let_def split: prod.splits if_splits)
  qed
  note l1 = linked_activity [OF i(1) _ _ i(2) r] and l2 = linked_extend_same [OF i(2), of e now]
    and x = cc_inv_extend [OF i(3)]
  consider "background" | "\<not> background" "recorded" | "\<not> background" "\<not> recorded" by blast
  then show ?thesis
  proof cases
    case 1
    then show ?thesis using k i Some by (simp add: keep_open_def)
  next
    case 2
    then have "db' = db1" "cc' = (case r of Some f \<Rightarrow> cc_extend (es_id f) (es_idleExpiresAt f) cc | None \<Rightarrow> cc)"
      using k Some r by (auto simp: keep_open_def)
    then show ?thesis using db1 l1 e i(3) x by (auto split: option.split)
  next
    case 3
    then have "db' = db" "cc' = cc_extend (es_id e) (es_idleExpiresAt e) cc"
      using k Some by (simp_all add: keep_open_def)
    then show ?thesis using i l2 e x by simp
  qed
qed

lemma on_request_cases:
  assumes inv: "auth_inv env (clock, s)" and le: "clock \<le> now"
    and r: "on_request env now True recorded cookie background s = (actor, t)"
  obtains "actor = None" "t = s"
  | a x where "actor = Some a" "x \<in> set (admin_sessions (sdb s))" "session a = x"
      "session_live (env_settings env) now x"
      "admin_sessions (sdb t) = admin_sessions (bump now (as_id x) (sdb s))" "auth_inv env (now, t)"
      "backoff t = backoff s"
proof (cases cookie)
  case None
  then show ?thesis using r that(1) by (simp add: on_request_def)
next
  case (Some tok)
  have i: "db_inv (env_settings env) clock (sdb s)" "linked (sdb s) (creds s)" "cc_inv (creds s)"
    using inv by (simp_all add: auth_inv_def)
  obtain ro db where res: "resolve (env_hash env) (env_settings env) now True tok (sdb s) = (ro, db)"
    by fastforce
  show ?thesis
  proof (rule resolve_cases [OF res])
    assume "ro = None" "db = sdb s"
    then show ?thesis using r res Some that(1) by (simp add: on_request_def)
  next
    fix x assume x: "ro = Some x" "x \<in> set (admin_sessions (sdb s))" "session_live (env_settings env) now x"
      and db: "db = bump now (as_id x) (sdb s)"
    have dbi: "db_inv (env_settings env) now db" using i(1) le db db_inv_bump by blast
    have row: "x\<lparr>as_lastSeenAt := now\<rparr> \<in> set (admin_sessions db)"
      using x(2) by (auto simp: db bump_def set_update_where)
    obtain el pw cc where o: "open_elevated now x db (creds s) = ((el, pw), cc)" by (metis surj_pair)
    have "linked db (creds s)" using i(2) db by simp
    note oi = open_elevated_inv [OF o this i(3)]
    obtain el' db' cc' where k: "keep_open (env_settings env) now recorded background el db cc = (el', db', cc')"
      by (metis surj_pair)
    have ki: "db_inv (env_settings env) now db' \<and> linked db' cc' \<and> cc_inv cc' \<and> admin_sessions db' = admin_sessions db"
    proof (rule keep_open_inv [OF k dbi oi(1,2)])
      fix e assume "el = Some e"
      from oi(3) [OF this] row show "e \<in> set (elevated_sessions db) \<and> elevated_active now e
        \<and> (\<exists>a \<in> set (admin_sessions db). as_id a = es_adminSessionId e \<and> as_lastSeenAt a = now)"
        by (auto intro!: bexI [of _ "x\<lparr>as_lastSeenAt := now\<rparr>"])
    qed
    have "actor = Some \<lparr>session = x, elevated = el', elevatedPassword = (if el' = None then None else pw)\<rparr>"
      "t = s\<lparr>sdb := db', creds := cc'\<rparr>"
      using r by (simp_all add: on_request_def Some res x(1) o k)
    then show ?thesis using that(2) x ki db by (simp add: auth_inv_def)
  qed
qed

lemma login_inv:
  assumes inv: "auth_inv env (now, s)" and fresh: "newId \<notin> as_id ` set (admin_sessions (sdb s))"
    "env_hash env tok \<notin> token_hash ` set (admin_sessions (sdb s))"
  shows "auth_inv env (now, snd (login env now ri dir username result newId tok s))"
proof -
  have "auth_inv env (now, s\<lparr>backoff := m, sdb := snd (createAdminSession (env_hash env) (env_settings env) now newId tok inp (sdb s))\<rparr>)"
    for m inp
    using inv db_inv_create [of "env_settings env" now "sdb s" now newId "env_hash env" tok inp] fresh
    by (auto simp: auth_inv_def linked_def createAdminSession_def Let_def)
  then show ?thesis using inv
    by (simp add: login_def Let_def split_beta split: option.split)
qed

lemma logout_inv: "auth_inv env (clock, s) \<Longrightarrow> auth_inv env (clock, logout now actor s)"
  by (simp add: logout_def Let_def split_beta auth_inv_def db_inv_revoke_admin linked_revoke_admin
      cc_inv_delete_many split: option.split)

lemma step_down_inv:
  assumes "auth_inv env (clock, s)"
  shows "auth_inv env (clock, step_down now a s)"
proof -
  let ?r = "revokeElevatedSessionsForAdmin now (as_id (session a)) (sdb s)"
  have "auth_inv env (clock, s\<lparr>sdb := snd ?r, creds := cc_delete_many (fst ?r) (creds s)\<rparr>)"
    using assms by (simp add: auth_inv_def db_inv_step_down linked_revoke cc_inv_delete_many)
  then show ?thesis
    by (cases "fst ?r = []") (simp_all add: step_down_def Let_def split_beta)
qed

lemma api_start_inv: "auth_inv env (now, s) \<Longrightarrow> auth_inv env (now, api_start now s)"
  by (simp add: api_start_def Let_def split_beta auth_inv_def db_inv_end_open cc_inv_empty linked_def)
    (simp add: cc_empty_def)

text \<open>Step-up's statements together: the new pair of sessions, then the old ones revoked.\<close>

lemma rotate_inv:
  assumes inv: "db_inv st now db" and fresh: "i \<notin> as_id ` set (admin_sessions db)"
      "H tok \<notin> token_hash ` set (admin_sessions db)" "j \<notin> es_id ` set (elevated_sessions db)"
    and l: "linked db c" and old: "old \<noteq> i"
    and r: "rotateAndElevate H st now i j tok old seed caps am db = ((adm, el, ids), db')"
  shows "db_inv st now db'"
    and "linked db' (cc_set (es_id el) pw (es_idleExpiresAt el) (cc_delete_many ids c))"
    and "as_expiresAt adm = min_opt (now + setting_or 12 (absolute_timeout_hours st) * 60 * 60 * 1000) (in_notAfter seed)"
    and "admin_sessions db' = revoke_admin_row now old (admin_sessions db @ [adm])"
    and "elevated_sessions db' = revoke_owned now old (elevated_sessions db @ [el])"
    and "es_adminSessionId el = as_id adm" "as_id adm = i" "es_id el = j" "token_hash adm = H tok"
proof -
  obtain db1 where c1: "createAdminSession H st now i tok seed db = (adm, db1)"
    using r by (auto simp: rotateAndElevate_def split: prod.splits)
  obtain e db2 where c2: "createElevatedSession st now j (as_id adm) (in_actorUserId seed) caps am
      (Some (as_expiresAt adm)) db1 = (e, db2)" by fastforce
  have e: "e = el" "ids = fst (revokeAdminSession now old db2)" "db' = snd (revokeAdminSession now old db2)"
    using r c1 c2 by (auto simp: rotateAndElevate_def split: prod.splits)
  note c2 = c2 [unfolded e(1)]
  note row = createElevated_row [OF c2]
  have adm: "db1 = db\<lparr>admin_sessions := admin_sessions db @ [adm]\<rparr>" "as_id adm = i" "token_hash adm = H tok"
    "as_revokedAt adm = None" "as_lastSeenAt adm = now"
    "as_expiresAt adm = min_opt (now + setting_or 12 (absolute_timeout_hours st) * 60 * 60 * 1000) (in_notAfter seed)"
    using c1 by (auto simp: createAdminSession_def Let_def)
  have db1: "db_inv st now db1" using db_inv_create [of st now db now i H tok seed] inv fresh c1 by simp
  have db2: "db_inv st now db2"
    by (rule db_inv_create_elevated [OF db1 _ adm(4,5) _ c2]) (use adm(1) fresh in simp_all)
  then show "db_inv st now db'" unfolding e by (rule db_inv_revoke_admin)
  show "admin_sessions db' = revoke_admin_row now old (admin_sessions db @ [adm])"
    "elevated_sessions db' = revoke_owned now old (elevated_sessions db @ [el])"
    using row(1) adm(1) by (simp_all add: e revokeAdmin_snd)
  show "as_expiresAt adm = min_opt (now + setting_or 12 (absolute_timeout_hours st) * 60 * 60 * 1000) (in_notAfter seed)"
    "es_adminSessionId el = as_id adm" "as_id adm = i" "es_id el = j" "token_hash adm = H tok"
    using adm row by simp_all
  have "linked db2 c" using l by (auto simp: linked_def row(1) adm(1))
  from linked_revoke_admin [OF this, of now old]
  have "linked db' (cc_delete_many ids c)" by (simp add: e)
  moreover have "el \<in> set (elevated_sessions db')"
    using row adm(2) old \<open>elevated_sessions db' = _\<close> by (auto intro: revoke_owned_keeps)
  ultimately show "linked db' (cc_set (es_id el) pw (es_idleExpiresAt el) (cc_delete_many ids c))"
    using row(2,4) by (auto simp: linked_def cc_set_entries)
qed

lemma step_up_inv:
  assumes inv: "auth_inv env (now, s)" and fresh: "i \<notin> as_id ` set (admin_sessions (sdb s))"
      "env_hash env tok \<notin> token_hash ` set (admin_sessions (sdb s))"
      "j \<notin> es_id ` set (elevated_sessions (sdb s))"
    and old: "as_id (session a) \<in> as_id ` set (admin_sessions (sdb s))"
  shows "auth_inv env (now, snd (step_up env now ri pw result i j tok a s))"
proof -
  have d: "db_inv (env_settings env) now (sdb s)" "linked (sdb s) (creds s)" "cc_inv (creds s)"
    using inv by (simp_all add: auth_inv_def)
  have ne: "as_id (session a) \<noteq> i" using old fresh(1) by auto
  have rot: "auth_inv env (now, s\<lparr>backoff := m,
      sdb := snd (rotateAndElevate (env_hash env) (env_settings env) now i j tok (as_id (session a)) seed caps am (sdb s)),
      creds := cc_set (es_id (fst (snd (fst (rotateAndElevate (env_hash env) (env_settings env) now i j tok (as_id (session a)) seed caps am (sdb s))))))
        pw (es_idleExpiresAt (fst (snd (fst (rotateAndElevate (env_hash env) (env_settings env) now i j tok (as_id (session a)) seed caps am (sdb s))))))
        (cc_delete_many (snd (snd (fst (rotateAndElevate (env_hash env) (env_settings env) now i j tok (as_id (session a)) seed caps am (sdb s))))) (creds s))\<rparr>)"
    for m seed caps am
  proof -
    obtain adm el ids db' where r: "rotateAndElevate (env_hash env) (env_settings env) now i j tok
        (as_id (session a)) seed caps am (sdb s) = ((adm, el, ids), db')" by (metis surj_pair)
    show ?thesis
      using rotate_inv [OF d(1) fresh d(2) ne r] cc_inv_set cc_inv_delete_many [OF d(3)]
      by (simp add: r auth_inv_def)
  qed
  have out: "auth_inv env (now, s\<lparr>backoff := m, sdb := snd (revokeAdminSession now k (sdb s)),
      creds := cc_delete_many (fst (revokeAdminSession now k (sdb s))) (creds s)\<rparr>)" for m k
    using d by (simp add: auth_inv_def db_inv_revoke_admin linked_revoke_admin cc_inv_delete_many)
  show ?thesis
    using inv rot out by (simp add: step_up_def Let_def split_beta split: option.split)
qed

lemma policy_guard_fields:
  "sdb (snd (policy_guard p n actor s)) = sdb s" "creds (snd (policy_guard p n actor s)) = creds s"
  by (auto simp: policy_guard_def requireActorCapability_def Let_def split: option.split route_policy.split)

lemma handles_inv:
  assumes "handles env now actor s t" "auth_inv env (now, s)"
    and "\<And>a. actor = Some a \<Longrightarrow> as_id (session a) \<in> as_id ` set (admin_sessions (sdb s))"
  shows "auth_inv env (now, t)"
  using assms(1)
proof cases
  case (H_refused policy param)
  then have "sdb t = sdb s" "creds t = creds s" using policy_guard_fields by metis+
  then show ?thesis using assms(2) by (simp add: auth_inv_def)
qed (use assms in \<open>simp_all add: login_inv logout_inv step_up_inv step_down_inv\<close>)

lemma auth_inv_step:
  assumes "auth_inv env (clock, s)" "auth_step env (clock, s) (now, t)"
  shows "auth_inv env (now, t)"
proof -
  have le: "clock \<le> now" using assms(2) by cases
  then have same: "auth_inv env (now, s)" using assms(1) by (auto simp: auth_inv_def intro: db_inv_later)
  from assms(2) show ?thesis
  proof cases
    case (Request recorded cookie background actor s1)
    show ?thesis
    proof (rule on_request_cases [OF assms(1) le Request(2)])
      assume "actor = None" "s1 = s"
      then show ?thesis using handles_inv [OF Request(3)] same by simp
    next
      fix a x assume a: "actor = Some a" "x \<in> set (admin_sessions (sdb s))" "session a = x"
        "admin_sessions (sdb s1) = admin_sessions (bump now (as_id x) (sdb s))" "auth_inv env (now, s1)"
      have "map as_id (admin_sessions (sdb s1)) = map as_id (admin_sessions (sdb s))"
        by (simp add: a(4) bump_def map_key_update_where)
      then have "as_id ` set (admin_sessions (sdb s1)) = as_id ` set (admin_sessions (sdb s))"
        by (simp only: set_map [symmetric])
      then have "as_id (session b) \<in> as_id ` set (admin_sessions (sdb s1))" if "actor = Some b" for b
        using a(1-3) that by simp
      then show ?thesis using handles_inv [OF Request(3) a(5)] by blast
    qed
  next
    case Sweep_passwords
    have "linked (sdb s) (cc_sweep now (creds s))"
      by (rule linked_sub [of _ "creds s"]) (use same in
        \<open>auto simp: auth_inv_def cc_sweep_get split: option.splits if_splits\<close>)
    then show ?thesis using same Sweep_passwords by (simp add: auth_inv_def cc_inv_sweep)
  next
    case Sweep_backoff
    then show ?thesis using same by simp
  next
    case (Job_reads_password i)
    have "linked (sdb s) (creds s)" using same by (simp add: auth_inv_def)
    then have "linked (sdb s) (snd (cc_get i now (creds s)))"
      by (rule linked_sub) (rule cc_get_entries)
    then show ?thesis using same Job_reads_password by (simp add: auth_inv_def cc_inv_get)
  next
    case Api_restart
    then show ?thesis using same api_start_inv by blast
  qed
qed

lemma auth_inv_start: "auth_start cs \<Longrightarrow> auth_inv env cs"
  by (cases cs) (simp add: auth_start_def auth_inv_def db_inv_defs linked_def cc_inv_empty,
      simp add: cc_empty_def)

interpretation auth: transition_system auth_start "auth_step env" "auth_inv env"
  by unfold_locales (auto simp: auth_inv_start intro: auth_inv_step)

section \<open>What it means for the operator\<close>

lemma reachable_inv: "auth_start x \<Longrightarrow> (auth_step env)\<^sup>*\<^sup>* x (clock, s) \<Longrightarrow> auth_inv env (clock, s)"
  by (rule auth.inv_reachable)

lemma active_owner:
  assumes inv: "auth_inv env (clock, s)" and e: "findActiveElevated now i (sdb s) = Some e"
  obtains a where "a \<in> set (admin_sessions (sdb s))" "as_id a = i" "session_live (env_settings env) now a"
proof -
  have "e \<in> set (elevated_sessions (sdb s))" "es_adminSessionId e = i" "elevated_active now e"
    using findActive_mem [OF e] by simp_all
  moreover then obtain a where "a \<in> set (admin_sessions (sdb s))" "owns (env_settings env) a e"
    using inv by (auto simp: auth_inv_def db_inv_def owned_ok_def elevated_active_def)
  ultimately show ?thesis
    by (intro that [of a]) (auto simp: owns_def session_live_def elevated_active_def)
qed


text \<open>
  C14. A step-up password is only ever served for an elevated session still in force: in every
  state the API reaches, an id for which the cache gives a password out names an elevated
  session that is neither revoked nor past its idle or its absolute end.
\<close>

theorem cached_password_needs_open_session:
  assumes "auth_start x" "(auth_step env)\<^sup>*\<^sup>* x (clock, s)"
    and "fst (cc_get i now (creds s)) = Some pw"
  shows "list_ex (\<lambda>e. es_id e = i \<and> elevated_active now e) (elevated_sessions (sdb s))"
proof -
  have inv: "auth_inv env (clock, s)" by (rule reachable_inv [OF assms(1,2)])
  obtain ce where ce: "jm_get (entries (creds s)) i = Some ce" "now < expiresAt ce"
    using assms(3) by (cases "jm_get (entries (creds s)) i") (auto simp: cc_get_def split: if_splits)
  with inv obtain e where e: "e \<in> set (elevated_sessions (sdb s))" "es_id e = i" "es_revokedAt e = None"
      "expiresAt ce = es_idleExpiresAt e"
    by (auto simp: auth_inv_def linked_def)
  with inv obtain a where "owns (env_settings env) a e"
    by (auto simp: auth_inv_def db_inv_def owned_ok_def)
  with e ce(2) show ?thesis by (auto simp: list_ex_iff elevated_active_def owns_def)
qed

lemma on_request_actor:
  assumes r: "on_request env now bumped recorded cookie background s = (Some a, t)"
  shows "session_live (env_settings env) now (session a)"
    and "elevated a \<noteq> None \<Longrightarrow> truthy (elevatedPassword a)"
proof -
  obtain tok where tok: "cookie = Some tok" using r by (auto simp: on_request_def split: option.splits)
  obtain x db where res: "resolve (env_hash env) (env_settings env) now bumped tok (sdb s) = (Some x, db)"
    using r tok by (cases "resolve (env_hash env) (env_settings env) now bumped tok (sdb s)")
      (auto simp: on_request_def split: option.splits)
  obtain el pw cc where o: "open_elevated now x db (creds s) = ((el, pw), cc)" by (metis surj_pair)
  obtain el' db' cc' where k: "keep_open (env_settings env) now recorded background el db cc = (el', db', cc')"
    by (metis surj_pair)
  have a: "a = \<lparr>session = x, elevated = el', elevatedPassword = (if el' = None then None else pw)\<rparr>"
    using r by (simp add: on_request_def tok res o k)
  show "session_live (env_settings env) now (session a)"
    using res by (auto simp: a resolve_def split: if_splits option.splits)
  have "el = None \<Longrightarrow> el' = None" using k by (simp add: keep_open_def)
  moreover have "el \<noteq> None \<Longrightarrow> truthy pw"
    using o by (auto simp: open_elevated_def split_beta Let_def split: if_splits)
  ultimately show "elevated a \<noteq> None \<Longrightarrow> truthy (elevatedPassword a)" by (auto simp: a)
qed

text \<open>
  A route that asks for step-up runs only for an operator who may write: when the guard of
  such a route lets a request through, the operator's session is live and has the
  capability, and their elevated session is active with its password at hand.
\<close>

theorem step_up_route_needs_open_session:
  assumes "on_request env now bumped recorded cookie background s = (actor, t)"
    and "policy_guard (Some (Policy (Some c) True dir)) param actor t = (None, t')"
  shows "case actor of
      None \<Rightarrow> False
    | Some a \<Rightarrow> session_live (env_settings env) now (session a) \<and> c \<in> set (as_capabilities (session a))
        \<and> elevated a \<noteq> None \<and> truthy (elevatedPassword a)"
proof (cases actor)
  case None
  then show ?thesis using assms(2) by (simp add: policy_guard_def)
next
  case (Some a)
  have "has_capability (as_capabilities (session a)) c" "requireStepUp a = None"
    using assms(2) Some
    by (auto simp: policy_guard_def requireActorCapability_def Let_def split: if_splits option.splits)
  then show ?thesis
    using on_request_actor [of env now bumped recorded cookie background s a t] assms(1) Some
    by (simp add: has_capability_def requireStepUp_def split: if_splits)
qed

lemma find_hash:
  assumes "distinct (map k rs)" "x \<in> set rs"
  shows "find (\<lambda>y. k y = k x) rs = Some x"
  using find_by_key [OF assms, of "\<lambda>_. True"] by simp

text \<open>
  C15. Stepping up replaces the session rather than extending it: once step-up has succeeded, the
  cookie it was asked with resolves to nothing at any later time, and the new session ends no
  later than the old one would have.
\<close>

theorem step_up_replaces_the_session:
  assumes "auth_start x" "(auth_step env)\<^sup>*\<^sup>* x (clock, s)" "clock \<le> now"
    and r: "on_request env now True recorded (Some tok) background s = (Some a, s1)"
    and u: "step_up env now ri pw result i j tok' a s1 = (Inr (el, sent), s2)"
    and fresh: "i \<notin> as_id ` set (admin_sessions (sdb s1))"
      "env_hash env tok' \<notin> token_hash ` set (admin_sessions (sdb s1))"
      "j \<notin> es_id ` set (elevated_sessions (sdb s1))"
  shows "fst (resolve (env_hash env) (env_settings env) later bumped tok (sdb s2)) = None
    \<and> list_ex (\<lambda>n. as_id n = es_adminSessionId el \<and> as_expiresAt n \<le> as_expiresAt (session a))
        (admin_sessions (sdb s2))"
proof (rule on_request_cases [OF reachable_inv [OF assms(1,2)] assms(3) r])
  fix b y assume b: "Some a = Some b" "y \<in> set (admin_sessions (sdb s))" "session b = y"
    and live: "session_live (env_settings env) now y" and b': "admin_sessions (sdb s1) = admin_sessions (bump now (as_id y) (sdb s))" "auth_inv env (now, s1)"
  note b = b b'
  have hash: "token_hash y = env_hash env tok"
    using r b(1,3) by (auto simp: on_request_def resolve_def find_Some_iff split: option.splits if_splits prod.splits)
  have inv: "db_inv (env_settings env) now (sdb s1)" "linked (sdb s1) (creds s1)"
    using b(5) by (simp_all add: auth_inv_def)
  let ?y = "y\<lparr>as_lastSeenAt := now\<rparr>"
  have row: "?y \<in> set (admin_sessions (sdb s1))" using b(2,4) by (auto simp: bump_def set_update_where)
  have "as_id ?y \<in> as_id ` set (admin_sessions (sdb s1))" by (rule imageI [OF row])
  then have ne: "as_id y \<noteq> i" using fresh(1) by auto
  obtain adm ids db' seed caps am where
    rot: "rotateAndElevate (env_hash env) (env_settings env) now i j tok' (as_id y) seed caps am (sdb s1)
        = ((adm, el, ids), db')" "in_notAfter seed = Some (as_expiresAt y)" "sdb s2 = db'"
    using u b(1,3) by (auto simp: step_up_def Let_def split: option.splits prod.splits if_splits)
  note ri = rotate_inv [OF inv(1) fresh inv(2) ne rot(1)]
  let ?z = "?y\<lparr>as_revokedAt := Some now\<rparr>"
  have z: "?z \<in> set (admin_sessions db')"
    unfolding ri(4) using row live
    by (force simp: revoke_admin_row_def set_update_where session_live_def)
  have "find (\<lambda>r. token_hash r = token_hash ?z) (admin_sessions db') = Some ?z"
    by (rule find_hash [OF _ z]) (use ri(1) in \<open>simp add: db_inv_defs\<close>)
  then have "fst (resolve (env_hash env) (env_settings env) later bumped tok (sdb s2)) = None"
    by (simp add: resolve_def rot(3) hash session_live_def split: option.split)
  moreover have "adm \<in> set (admin_sessions db')"
    unfolding ri(4) using ri(7) ne by (auto simp: revoke_admin_row_def set_update_where image_iff)
  ultimately show ?thesis
    using ri(3,6) rot(2,3) b(1,3) by (auto simp: list_ex_iff min_opt_def)
qed simp

section \<open>A sign-in followed by a step-up\<close>

definition ex_env :: auth_env where
  "ex_env = \<lparr>env_hash = rev,
     env_settings = \<lparr>absolute_timeout_hours = None, idle_timeout_minutes = None,
        stepup_idle_timeout_minutes = None, stepup_absolute_lifetime_minutes = None\<rparr>,
     env_authz = \<lparr>admin_group_dn = None, operator_group_dn = Some ''CN=Ops'', auditor_group_dn = None,
        bootstrap_admin_group_dn = None\<rparr>,
     env_policy = default_policy\<rparr>"

definition ex_result :: authenticate_result where
  "ex_result = \<lparr>ok = True, reason = None,
     user = Some \<lparr>objectGuid = ''g1'', displayName = None, email = None, distinguishedName = ''CN=Ann'',
        memberOfDns = [''cn=ops'']\<rparr>, groupDns = None\<rparr>"

definition ex_ri :: request_info where
  "ex_ri = \<lparr>ri_ip = None, ri_userAgent = None\<rparr>"

definition ex0 :: auth_state where
  "ex0 = \<lparr>sdb = \<lparr>admin_sessions = [], elevated_sessions = []\<rparr>, creds = cc_empty, backoff = [], audit_log = []\<rparr>"

definition ex1 :: auth_state where
  "ex1 = snd (login ex_env 0 ex_ri (Some \<lparr>dir_id = 1, domain = ''corp'', configured = True\<rparr>) ''ann''
     ex_result ''a1'' ''tok1'' ex0)"

definition ex_caller :: "resolved_actor option \<times> auth_state" where
  "ex_caller = on_request ex_env 1000 True True (Some ''tok1'') False ex1"

definition ex2 :: auth_state where
  "ex2 = snd (step_up ex_env 1000 ex_ri ''pw'' ex_result ''a2'' ''e1'' ''tok2'' (the (fst ex_caller)) (snd ex_caller))"

lemma ex_facts:
  "fst ex_caller = Some (the (fst ex_caller))"
  "as_id ` set (admin_sessions (sdb (snd ex_caller))) = {''a1''}"
  "token_hash ` set (admin_sessions (sdb (snd ex_caller))) = {rev ''tok1''}"
  "elevated_sessions (sdb (snd ex_caller)) = []"
  by code_simp+

lemma ex_start: "auth_start (0, ex0)"
  by (simp add: auth_start_def ex0_def)

lemma ex_reach1: "(auth_step ex_env)\<^sup>*\<^sup>* (0, ex0) (0, ex1)"
proof (rule r_into_rtranclp)
  have "handles ex_env 0 None ex0 ex1"
    unfolding ex1_def by (rule H_login) (simp_all add: ex0_def)
  then show "auth_step ex_env (0, ex0) (0, ex1)"
    by (intro Request [of 0 0 ex_env True None False ex0 None ex0]) (simp_all add: on_request_def)
qed

lemma ex_reach2: "(auth_step ex_env)\<^sup>*\<^sup>* (0, ex0) (1000, ex2)"
proof (rule rtranclp.rtrancl_into_rtrancl [OF ex_reach1])
  have "handles ex_env 1000 (Some (the (fst ex_caller))) (snd ex_caller) ex2"
    unfolding ex2_def by (rule H_step_up) (simp_all add: ex_facts ex_env_def)
  moreover have "on_request ex_env 1000 True True (Some ''tok1'') False ex1 = (Some (the (fst ex_caller)), snd ex_caller)"
    using ex_facts(1) by (metis ex_caller_def prod.collapse)
  ultimately show "auth_step ex_env (0, ex1) (1000, ex2)"
    by (intro Request [of 0 1000 ex_env True "Some ''tok1''" False ex1]) simp_all
qed


theorem cached_password_needs_open_session_witness:
  "list_ex (\<lambda>e. es_id e = ''e1'' \<and> elevated_active 2000 e) (elevated_sessions (sdb ex2))"
proof -
  have "fst (cc_get ''e1'' 2000 (creds ex2)) = Some ''pw''" by code_simp
  from cached_password_needs_open_session [OF ex_start ex_reach2 this] show ?thesis .
qed

theorem step_up_route_needs_open_session_witness:
  "case fst (on_request ex_env 2000 True True (Some ''tok2'') False ex2) of
      None \<Rightarrow> False
    | Some a \<Rightarrow> session_live (env_settings ex_env) 2000 (session a)
        \<and> Write_user_unlock \<in> set (as_capabilities (session a))
        \<and> elevated a \<noteq> None \<and> truthy (elevatedPassword a)"
proof -
  let ?r = "on_request ex_env 2000 True True (Some ''tok2'') False ex2"
  have "policy_guard (Some (Policy (Some Write_user_unlock) True Caller)) None (fst ?r) (snd ?r) =
      (None, snd (policy_guard (Some (Policy (Some Write_user_unlock) True Caller)) None (fst ?r) (snd ?r)))"
    by code_simp
  from step_up_route_needs_open_session [OF _ this] show ?thesis by simp
qed

theorem step_up_replaces_the_session_witness:
  "fst (resolve (env_hash ex_env) (env_settings ex_env) 1001 True ''tok1'' (sdb ex2)) = None
   \<and> list_ex (\<lambda>n. as_id n = ''a2'' \<and> as_expiresAt n \<le> 43200000) (admin_sessions (sdb ex2))"
proof -
  have r: "on_request ex_env 1000 True True (Some ''tok1'') False ex1 = (Some (the (fst ex_caller)), snd ex_caller)"
    using ex_facts(1) by (metis ex_caller_def prod.collapse)
  obtain el sent where u: "step_up ex_env 1000 ex_ri ''pw'' ex_result ''a2'' ''e1'' ''tok2'' (the (fst ex_caller))
      (snd ex_caller) = (Inr (el, sent), ex2)" and el: "es_adminSessionId el = ''a2''"
  proof -
    have "case fst (step_up ex_env 1000 ex_ri ''pw'' ex_result ''a2'' ''e1'' ''tok2'' (the (fst ex_caller))
      (snd ex_caller)) of Inl _ \<Rightarrow> False | Inr (el, sent) \<Rightarrow> es_adminSessionId el = ''a2''" by code_simp
    then show ?thesis using that
      by (cases "step_up ex_env 1000 ex_ri ''pw'' ex_result ''a2'' ''e1'' ''tok2'' (the (fst ex_caller)) (snd ex_caller)")
        (auto simp: ex2_def split: sum.splits)
  qed
  have exp: "as_expiresAt (session (the (fst ex_caller))) = 43200000" by code_simp
  have "fst (resolve (env_hash ex_env) (env_settings ex_env) 1001 True ''tok1'' (sdb ex2)) = None
    \<and> list_ex (\<lambda>n. as_id n = es_adminSessionId el \<and> as_expiresAt n \<le> as_expiresAt (session (the (fst ex_caller))))
        (admin_sessions (sdb ex2))"
    by (rule step_up_replaces_the_session [OF ex_start ex_reach1 _ r u])
      (simp_all add: ex_facts, simp add: ex_env_def)
  then show ?thesis by (simp only: exp el)
qed

end
