(* ===== verification/Encryption.thy ===== *)
theory Encryption
  imports Bytes
begin

text \<open>
  Secrets at rest (\<^verbatim>\<open>apps/api/src/lib/encryption.ts\<close>): the envelope
  \<open>v1.<iv>.<ciphertext>.<tag>\<close> around AES-256-GCM. The cipher itself is Node's and is an
  argument, \<open>aead\<close>; the random initialisation vector is an argument too.
\<close>

type_synonym aad = "string option"

text \<open>
  The cipher: sealing gives the ciphertext and the tag; opening gives the plaintext, or
  nothing when the tag isn't the one sealing would give.
\<close>

record aead =
  gcm_seal :: "bytes \<Rightarrow> bytes \<Rightarrow> aad \<Rightarrow> bytes \<Rightarrow> bytes \<times> bytes"
  gcm_open :: "bytes \<Rightarrow> bytes \<Rightarrow> aad \<Rightarrow> bytes \<Rightarrow> bytes \<Rightarrow> bytes option"

text \<open>
  What Node documents of it: a 16-byte tag, bytes throughout, and that opening succeeds
  exactly on what sealing under the same key, vector and associated data gives.
\<close>

definition aead_ok :: "aead \<Rightarrow> bool" where
  "aead_ok A \<longleftrightarrow>
     (\<forall>k iv d pt. bytes_ok pt \<longrightarrow>
        bytes_ok (fst (gcm_seal A k iv d pt)) \<and> bytes_ok (snd (gcm_seal A k iv d pt))
        \<and> length (snd (gcm_seal A k iv d pt)) = 16)
     \<and> (\<forall>k iv d ct tag pt. gcm_open A k iv d ct tag = Some pt \<longleftrightarrow>
          bytes_ok pt \<and> gcm_seal A k iv d pt = (ct, tag))"

datatype crypt_error =
    Unrecognized_envelope | Invalid_iv_length | Invalid_tag_length | Authentication_failed
  | Plaintext_not_text

(* src/apps/api/src/lib/encryption.ts:28-45 encrypt *)
definition encrypt :: "aead \<Rightarrow> bytes \<Rightarrow> bytes \<Rightarrow> string \<Rightarrow> aad \<Rightarrow> string" where
  "encrypt A key iv plaintext d =
     (let (ct, tag) = gcm_seal A key iv d (utf8 plaintext)
      in join ''.'' [''v1'', b64url iv, b64url ct, b64url tag])"

(* src/apps/api/src/lib/encryption.ts:47-62 decrypt *)
definition decrypt :: "aead \<Rightarrow> bytes \<Rightarrow> string \<Rightarrow> aad \<Rightarrow> crypt_error + string" where
  "decrypt A key envelope d =
     (case split_at (\<lambda>c. c = CHR ''.'') envelope of
        [v, p1, p2, p3] \<Rightarrow>
          if v \<noteq> ''v1'' then Inl Unrecognized_envelope
          else
            let iv = b64url_decode p1; ct = b64url_decode p2; tag = b64url_decode p3
            in if length iv \<noteq> 12 then Inl Invalid_iv_length
               else if length tag \<noteq> 16 then Inl Invalid_tag_length
               else (case gcm_open A key iv d ct tag of
                       None \<Rightarrow> Inl Authentication_failed
                     | Some pt \<Rightarrow> (case utf8_decode pt of
                                     None \<Rightarrow> Inl Plaintext_not_text
                                   | Some s \<Rightarrow> Inr s))
      | _ \<Rightarrow> Inl Unrecognized_envelope)"

text \<open>Splitting a joined list of parts that hold no separator.\<close>

lemma split_at_no_sep: "\<forall>c \<in> set s. \<not> p c \<Longrightarrow> split_at p s = [s]"
  by (induction s) auto

lemma split_at_sep: "\<forall>c \<in> set s. \<not> p c \<Longrightarrow> p d \<Longrightarrow> split_at p (s @ d # t) = s # split_at p t"
  by (induction s) auto

lemma split_envelope:
  assumes "CHR ''.'' \<notin> set a" "CHR ''.'' \<notin> set b" "CHR ''.'' \<notin> set c" "CHR ''.'' \<notin> set d"
  shows "split_at (\<lambda>c. c = CHR ''.'') (join ''.'' [a, b, c, d]) = [a, b, c, d]"
proof -
  have "\<forall>x \<in> set s. x \<noteq> CHR ''.''" if "CHR ''.'' \<notin> set s" for s using that by metis
  with assms show ?thesis by (simp add: split_at_sep split_at_no_sep)
qed

lemma open_envelope:
  assumes "aead_ok A" and "length iv = 12" and "bytes_ok iv"
  shows "decrypt A key (encrypt A key iv s d) d = Inr s"
proof -
  obtain ct tag where seal: "gcm_seal A key iv d (utf8 s) = (ct, tag)" by fastforce
  with assms(1) have ok: "bytes_ok ct" "bytes_ok tag" "length tag = 16"
    unfolding aead_ok_def by (metis fst_conv snd_conv utf8_bytes_ok)+
  have opened: "gcm_open A key iv d ct tag = Some (utf8 s)"
    using assms(1) seal unfolding aead_ok_def by simp
  have "split_at (\<lambda>c. c = CHR ''.'') (encrypt A key iv s d) = [''v1'', b64url iv, b64url ct, b64url tag]"
    unfolding encrypt_def seal prod.case Let_def
    by (rule split_envelope) (simp_all add: b64url_no_dot assms ok)
  with assms ok opened show ?thesis by (simp add: decrypt_def)
qed

text \<open>
  What is encrypted comes back: decrypting an envelope under the same key and associated
  data gives the text that was encrypted, whatever the text, as long as the vector has the
  twelve bytes the code draws.
\<close>

theorem decrypt_encrypt:
  assumes "aead_ok A" and "length iv = 12" and "bytes_ok iv"
  shows "decrypt A key (encrypt A key iv s d) d = Inr s"
  by (rule open_envelope [OF assms])

text \<open>A cipher to evaluate with: the tag is the associated data's first bytes.\<close>

definition toy_aead :: aead where
  "toy_aead =
     \<lparr>gcm_seal = (\<lambda>k iv d pt. (pt, take 16 (utf8 (or_empty d) @ replicate 16 0))),
      gcm_open = (\<lambda>k iv d ct tag.
        if bytes_ok ct \<and> tag = take 16 (utf8 (or_empty d) @ replicate 16 0) then Some ct else None)\<rparr>"

lemma toy_aead_ok: "aead_ok toy_aead"
  by (auto simp: aead_ok_def toy_aead_def bytes_ok_def dest!: in_set_takeD)
     (metis bytes_ok_def utf8_bytes_ok)

theorem decrypt_encrypt_witness:
  "decrypt toy_aead [] (encrypt toy_aead [] (replicate 12 7) ''s3cret'' (Some ''row 1'')) (Some ''row 1'')
     = Inr ''s3cret''"
  by (rule decrypt_encrypt [OF toy_aead_ok]) (simp_all add: bytes_ok_def)

text \<open>
  A ciphertext is bound to where it is stored: if an envelope made for one place decrypts
  at another, it is exactly the envelope encrypting that text for the other place would
  have made, with the same vector; so a ciphertext copied to another row decrypts only if
  the cipher gives both places the same ciphertext and tag.
\<close>

lemma decrypt_is_bound:
  assumes "aead_ok A" and "length iv = 12" and "bytes_ok iv"
    and "decrypt A key (encrypt A key iv s d) d' = Inr t"
  shows "encrypt A key iv s d = encrypt A key iv t d'"
proof -
  obtain ct tag where seal: "gcm_seal A key iv d (utf8 s) = (ct, tag)" by fastforce
  with assms(1) have ok: "bytes_ok ct" "bytes_ok tag" "length tag = 16"
    unfolding aead_ok_def by (metis fst_conv snd_conv utf8_bytes_ok)+
  have "split_at (\<lambda>c. c = CHR ''.'') (encrypt A key iv s d) = [''v1'', b64url iv, b64url ct, b64url tag]"
    unfolding encrypt_def seal prod.case Let_def
    by (rule split_envelope) (simp_all add: b64url_no_dot assms ok)
  with assms ok obtain pt where pt: "gcm_open A key iv d' ct tag = Some pt" "utf8_decode pt = Some t"
    by (auto simp: decrypt_def split: option.splits)
  then have "gcm_seal A key iv d' pt = (ct, tag)" using assms(1) unfolding aead_ok_def by blast
  moreover have "utf8 t = pt" using pt(2) by (rule utf8_decode_exact)
  ultimately show ?thesis by (simp add: encrypt_def seal)
qed

end
