(* ===== verification/HeldPasswords.thy ===== *)
theory HeldPasswords
  imports Encryption
begin

text \<open>
  The passwords a bulk job hands out (\<^verbatim>\<open>apps/api/src/services/heldPasswords.ts\<close>): held
  encrypted, bound to their job and row, for a day at most, and taken once. The table
  \<open>import_passwords\<close> is a list of rows; the cipher, its key and each new vector are arguments.
\<close>

section \<open>The table and its statements\<close>

(* src/packages/shared/src/schemas/bulkJob.ts:597-597 HELD_PASSWORD_HOURS *)
definition HELD_PASSWORD_HOURS :: int where "HELD_PASSWORD_HOURS = 24"

record held_row =
  h_job_id :: nat
  h_row_id :: "nat option"
  password_enc :: string
  h_expires_at :: ms

(* src/apps/api/src/services/heldPasswords.ts:14-14 HELD_FOR *)
definition HELD_FOR :: "ms \<Rightarrow> ms" where
  "HELD_FOR now = now + HELD_PASSWORD_HOURS * 60 * 60 * 1000"

(* src/apps/api/src/services/heldPasswords.ts:16-17 bindingOf *)
definition bindingOf :: "nat \<Rightarrow> nat option \<Rightarrow> string" where
  "bindingOf jobId rowId = ''import_passwords:'' @ dec_nat jobId @ '':''
     @ (case rowId of Some r \<Rightarrow> dec_nat r | None \<Rightarrow> ''shared'')"

(* src/apps/api/src/services/heldPasswords.ts:35-36 passwordsHoldable *)
definition passwordsHoldable :: "ms option \<Rightarrow> bool" where
  "passwordsHoldable results_downloaded_at \<longleftrightarrow> results_downloaded_at = None"

text \<open>
  The row the insert conflicts with: the shared one of the job, or the one of the same row.
\<close>

definition held_conflict :: "nat \<Rightarrow> nat option \<Rightarrow> held_row \<Rightarrow> bool" where
  "held_conflict jobId rowId h \<longleftrightarrow>
     (case rowId of None \<Rightarrow> h_job_id h = jobId \<and> h_row_id h = None | Some r \<Rightarrow> h_row_id h = Some r)"

(* src/apps/api/src/services/heldPasswords.ts:42-59 holdPassword *)
definition holdPassword ::
    "aead \<Rightarrow> bytes \<Rightarrow> bytes \<Rightarrow> ms \<Rightarrow> nat \<Rightarrow> nat option \<Rightarrow> string \<Rightarrow> held_row list \<Rightarrow> held_row list" where
  "holdPassword A key iv now jobId rowId pw held =
     (let enc = encrypt A key iv pw (Some (bindingOf jobId rowId))
      in if \<exists>h \<in> set held. held_conflict jobId rowId h
         then update_where (held_conflict jobId rowId) (\<lambda>h. h\<lparr>password_enc := enc, h_expires_at := HELD_FOR now\<rparr>) held
         else held @ [\<lparr>h_job_id = jobId, h_row_id = rowId, password_enc = enc, h_expires_at = HELD_FOR now\<rparr>])"

(* src/apps/api/src/services/heldPasswords.ts:62-76 heldPassword *)
definition heldPassword ::
    "aead \<Rightarrow> bytes \<Rightarrow> ms \<Rightarrow> nat \<Rightarrow> nat \<Rightarrow> held_row list \<Rightarrow> crypt_error + string option" where
  "heldPassword A key now jobId rowId held =
     (let hs = filter (\<lambda>h. h_job_id h = jobId \<and> (h_row_id h = Some rowId \<or> h_row_id h = None)
                       \<and> h_expires_at h > now) held;
          own = (case find (\<lambda>h. h_row_id h \<noteq> None) hs of Some h \<Rightarrow> Some h
                 | None \<Rightarrow> (case hs of [] \<Rightarrow> None | h # _ \<Rightarrow> Some h))
      in case own of
           None \<Rightarrow> Inr None
         | Some h \<Rightarrow> (case decrypt A key (password_enc h) (Some (bindingOf jobId (h_row_id h))) of
                       Inl e \<Rightarrow> Inl e | Inr p \<Rightarrow> Inr (Some p)))"

record held_summary =
  hs_rows :: "nat list"
  hs_shared :: bool
  hs_firstExpiry :: "ms option"

(* src/apps/api/src/services/heldPasswords.ts:79-95 heldFor *)
definition heldFor :: "ms \<Rightarrow> nat \<Rightarrow> held_row list \<Rightarrow> held_summary" where
  "heldFor now jobId held =
     (let hs = filter (\<lambda>h. h_job_id h = jobId \<and> h_expires_at h > now) held
      in \<lparr>hs_rows = List.map_filter h_row_id hs,
          hs_shared = (\<exists>h \<in> set hs. h_row_id h = None),
          hs_firstExpiry = (if hs = [] then None else Some (Min (set (map h_expires_at hs))))\<rparr>)"

(* src/apps/api/src/services/heldPasswords.ts:98-105 holdFromNow *)
definition holdFromNow :: "ms \<Rightarrow> nat \<Rightarrow> held_row list \<Rightarrow> held_row list" where
  "holdFromNow now jobId held =
     update_where (\<lambda>h. h_job_id h = jobId \<and> h_expires_at h > now) (h_expires_at_update (\<lambda>_. HELD_FOR now)) held"

(* src/apps/api/src/services/heldPasswords.ts:107-111 TakenPasswords *)
record taken_passwords =
  tp_shared :: "string option"
  tp_byRow :: "(nat, string) jsmap"

text \<open>One held row into what was taken: expired ones are skipped, and a row that doesn't decrypt throws.\<close>

definition take_one ::
    "aead \<Rightarrow> bytes \<Rightarrow> ms \<Rightarrow> nat \<Rightarrow> held_row \<Rightarrow> crypt_error + taken_passwords \<Rightarrow> crypt_error + taken_passwords" where
  "take_one A key now jobId h acc =
     (case acc of
        Inl e \<Rightarrow> Inl e
      | Inr t \<Rightarrow>
          if h_expires_at h \<le> now then Inr t
          else case decrypt A key (password_enc h) (Some (bindingOf jobId (h_row_id h))) of
                 Inl e \<Rightarrow> Inl e
               | Inr p \<Rightarrow> (case h_row_id h of
                             None \<Rightarrow> Inr (t\<lparr>tp_shared := Some p\<rparr>)
                           | Some r \<Rightarrow> Inr (t\<lparr>tp_byRow := jm_set r p (tp_byRow t)\<rparr>)))"

text \<open>
  The job's \<open>results_downloaded_at\<close> comes in and goes out; \<open>None\<close> as a result is that they were
  taken already. A password that doesn't decrypt rolls the transaction back.
\<close>

(* src/apps/api/src/services/heldPasswords.ts:118-144 takePasswords *)
definition takePasswords ::
    "aead \<Rightarrow> bytes \<Rightarrow> ms \<Rightarrow> nat \<Rightarrow> ms option \<Rightarrow> held_row list
       \<Rightarrow> (crypt_error + taken_passwords option) \<times> ms option \<times> held_row list" where
  "takePasswords A key now jobId results_downloaded_at held =
     (if results_downloaded_at \<noteq> None then (Inr None, results_downloaded_at, held)
      else case fold (take_one A key now jobId) (filter (\<lambda>h. h_job_id h = jobId) held)
                  (Inr \<lparr>tp_shared = None, tp_byRow = []\<rparr>) of
             Inl e \<Rightarrow> (Inl e, results_downloaded_at, held)
           | Inr t \<Rightarrow> (Inr (Some t), Some now, filter (\<lambda>h. h_job_id h \<noteq> jobId) held))"

(* src/apps/api/src/services/heldPasswords.ts:147-153 purgeExpiredPasswords *)
definition purgeExpiredPasswords :: "ms \<Rightarrow> held_row list \<Rightarrow> nat \<times> held_row list" where
  "purgeExpiredPasswords now held =
     (updated_count (\<lambda>h. h_expires_at h \<le> now) held, filter (\<lambda>h. \<not> h_expires_at h \<le> now) held)"

section \<open>Each ciphertext has one place\<close>

lemma dec_nat_inject [simp]: "dec_nat m = dec_nat n \<longleftrightarrow> m = n"
  by (metis digits_value_dec_nat)

lemma append_sep_inject:
  assumes "c \<notin> set a" "c \<notin> set b" "a @ c # x = b @ c # y"
  shows "a = b \<and> x = y"
  using assms
proof (induction a arbitrary: b)
  case Nil
  then show ?case by (cases b) auto
next
  case (Cons d a)
  then show ?case by (cases b) auto
qed

text \<open>
  No two places share a binding: the associated data of a held password tells its job and
  its row, or that it is the job's shared one, so a ciphertext is bound to one place.
\<close>

theorem bindings_are_distinct:
  "bindingOf j r = bindingOf k s \<longleftrightarrow> j = k \<and> r = s"
proof
  assume "bindingOf j r = bindingOf k s"
  then have eq: "dec_nat j @ CHR '':'' # (case r of Some n \<Rightarrow> dec_nat n | None \<Rightarrow> ''shared'')
      = dec_nat k @ CHR '':'' # (case s of Some n \<Rightarrow> dec_nat n | None \<Rightarrow> ''shared'')"
    by (simp add: bindingOf_def)
  have "CHR '':'' \<notin> set (dec_nat n)" for n
    using dec_nat_digits [of n] by (auto simp: list_all_iff is_digit_def)
  from append_sep_inject [OF this this eq]
  have "j = k" and tail: "(case r of Some n \<Rightarrow> dec_nat n | None \<Rightarrow> ''shared'')
      = (case s of Some n \<Rightarrow> dec_nat n | None \<Rightarrow> ''shared'')" by simp_all
  have "dec_nat n \<noteq> ''shared''" for n
    using dec_nat_digits [of n] by (auto simp: list_all_iff is_digit_def)
  with tail have "r = s" by (cases r; cases s) (auto dest: sym)
  with \<open>j = k\<close> show "j = k \<and> r = s" by simp
qed simp

section \<open>Holding and taking\<close>

lemma take_one_Inl: "fold (take_one A key now j) hs (Inl e) = Inl e"
  by (induction hs) (simp_all add: take_one_def)

lemma take_twice:
  "takePasswords A key now j dl held = (Inr (Some t), dl', held') \<Longrightarrow>
     fst (takePasswords A key later j dl' held'') = Inr None"
  by (auto simp: takePasswords_def split: if_splits sum.splits)

text \<open>
  C17. A job's passwords are handed out once: after a download has taken them, every later
  one finds none, and no row of the job is left in the table.
\<close>

theorem passwords_are_taken_once:
  assumes "takePasswords A key now j dl held = (Inr (Some t), dl', held')"
  shows "fst (takePasswords A key later j dl' held') = Inr None
    \<and> list_all (\<lambda>h. h_job_id h \<noteq> j) held'"
  using assms take_twice [OF assms]
  by (auto simp: takePasswords_def list_all_iff split: if_splits sum.splits)

theorem passwords_are_taken_once_witness:
  "let held = holdPassword toy_aead [] (replicate 12 7) 0 3 None ''pw'' []
   in fst (takePasswords toy_aead [] 10 3 (Some 5) []) = Inr None
      \<and> takePasswords toy_aead [] 5 3 None held = (Inr (Some \<lparr>tp_shared = Some ''pw'', tp_byRow = []\<rparr>), Some 5, [])"
proof -
  have "takePasswords toy_aead [] 5 3 None (holdPassword toy_aead [] (replicate 12 7) 0 3 None ''pw'' [])
      = (Inr (Some \<lparr>tp_shared = Some ''pw'', tp_byRow = []\<rparr>), Some 5, [])"
    by code_simp
  with passwords_are_taken_once [OF this, of 10] show ?thesis by (simp add: Let_def)
qed

text \<open>A row as the service stores it.\<close>

definition sealed :: "aead \<Rightarrow> bytes \<Rightarrow> held_row \<Rightarrow> bool" where
  "sealed A key h \<longleftrightarrow>
     (\<exists>iv pw. length iv = 12 \<and> bytes_ok iv
        \<and> password_enc h = encrypt A key iv pw (Some (bindingOf (h_job_id h) (h_row_id h))))"

lemma decrypt_encrypt_bound:
  "aead_ok A \<Longrightarrow> length iv = 12 \<Longrightarrow> bytes_ok iv \<Longrightarrow> decrypt A key (encrypt A key iv s d) d = Inr s"
  by (rule open_envelope)

lemma sealed_decrypts:
  assumes "aead_ok A" "sealed A key h"
  obtains pw where "decrypt A key (password_enc h) (Some (bindingOf (h_job_id h) (h_row_id h))) = Inr pw"
  using assms by (auto simp: sealed_def decrypt_encrypt_bound)

lemma take_fold_ok:
  assumes ok: "aead_ok A"
    and hs: "\<forall>h \<in> set hs. sealed A key h \<and> h_job_id h = j"
    and r: "\<forall>h \<in> set hs. h_row_id h = Some r \<longrightarrow>
        now < h_expires_at h \<and> decrypt A key (password_enc h) (Some (bindingOf j (Some r))) = Inr pw"
    and some: "jm_get (tp_byRow t) r = Some pw \<or> (\<exists>h \<in> set hs. h_row_id h = Some r)"
  shows "\<exists>t'. fold (take_one A key now j) hs (Inr t) = Inr t' \<and> jm_get (tp_byRow t') r = Some pw"
  using hs r some
proof (induction hs arbitrary: t)
  case (Cons h hs)
  have "sealed A key h" "h_job_id h = j" using Cons.prems(1) by auto
  with ok obtain q where q: "decrypt A key (password_enc h) (Some (bindingOf j (h_row_id h))) = Inr q"
    by (metis sealed_decrypts)
  let ?t = "if h_expires_at h \<le> now then t
    else (case h_row_id h of None \<Rightarrow> t\<lparr>tp_shared := Some q\<rparr> | Some k \<Rightarrow> t\<lparr>tp_byRow := jm_set k q (tp_byRow t)\<rparr>)"
  have one: "take_one A key now j h (Inr t) = Inr ?t"
    using q by (simp add: take_one_def split: option.split)
  have "jm_get (tp_byRow ?t) r = Some pw \<or> (\<exists>g \<in> set hs. h_row_id g = Some r)"
    using Cons.prems(2,3) q by (auto split: option.split)
  then show ?case using Cons.IH [of ?t] Cons.prems(1,2) one by simp
qed simp

text \<open>
  A held password reaches the operator: once held for a row, it is what the job's download
  within the day gets for that row, in a table whose rows the service itself sealed.
\<close>

theorem held_password_reaches_the_download:
  assumes ok: "aead_ok A" "length iv = 12" "bytes_ok iv"
    and held: "\<forall>h \<in> set held. sealed A key h \<and> (h_row_id h = Some r \<longrightarrow> h_job_id h = j)"
    and t: "t < HELD_FOR now"
  shows "case fst (takePasswords A key t j None (holdPassword A key iv now j (Some r) pw held)) of
      Inr (Some taken) \<Rightarrow> jm_get (tp_byRow taken) r = Some pw
    | _ \<Rightarrow> False"
proof -
  let ?new = "holdPassword A key iv now j (Some r) pw held"
  let ?hs = "filter (\<lambda>h. h_job_id h = j) ?new"
  let ?enc = "encrypt A key iv pw (Some (bindingOf j (Some r)))"
  have enc: "decrypt A key ?enc (Some (bindingOf j (Some r))) = Inr pw"
    by (rule decrypt_encrypt_bound [OF ok])
  have mem: "(h \<in> set held \<and> h_row_id h \<noteq> Some r)
      \<or> (h_job_id h = j \<and> h_row_id h = Some r \<and> password_enc h = ?enc \<and> h_expires_at h = HELD_FOR now)"
    if "h \<in> set ?new" for h
    using that held
    by (auto simp: holdPassword_def Let_def held_conflict_def set_update_where split: if_splits)
  have "\<exists>h \<in> set ?hs. h_row_id h = Some r"
  proof (cases "\<exists>h \<in> set held. h_row_id h = Some r")
    case True
    then obtain h where "h \<in> set held" "h_row_id h = Some r" "h_job_id h = j" using held by blast
    then show ?thesis
      by (intro bexI [of _ "h\<lparr>password_enc := ?enc, h_expires_at := HELD_FOR now\<rparr>"])
        (auto simp: holdPassword_def Let_def held_conflict_def set_update_where image_iff)
  next
    case False
    then show ?thesis by (simp add: holdPassword_def Let_def held_conflict_def)
  qed
  moreover have "\<forall>h \<in> set ?hs. sealed A key h \<and> h_job_id h = j"
  proof
    fix h assume "h \<in> set ?hs"
    then have h: "h \<in> set ?new" "h_job_id h = j" by simp_all
    have new: "sealed A key h" if "h_job_id h = j" "h_row_id h = Some r" "password_enc h = ?enc"
      unfolding sealed_def by (intro exI [of _ iv] exI [of _ pw]) (use ok that in simp)
    from mem [OF h(1)] held new have "sealed A key h" by blast
    with h(2) show "sealed A key h \<and> h_job_id h = j" by simp
  qed
  moreover have "\<forall>h \<in> set ?hs. h_row_id h = Some r \<longrightarrow>
      t < h_expires_at h \<and> decrypt A key (password_enc h) (Some (bindingOf j (Some r))) = Inr pw"
    using mem enc t by fastforce
  ultimately obtain t' where "fold (take_one A key t j) ?hs (Inr \<lparr>tp_shared = None, tp_byRow = []\<rparr>) = Inr t'"
      "jm_get (tp_byRow t') r = Some pw"
    using take_fold_ok [OF ok(1), of ?hs key j r t pw "\<lparr>tp_shared = None, tp_byRow = []\<rparr>"] by blast
  then show ?thesis by (simp add: takePasswords_def)
qed

theorem held_password_reaches_the_download_witness:
  "case fst (takePasswords toy_aead [] 5 3 None (holdPassword toy_aead [] (replicate 12 7) 0 3 (Some 8) ''pw'' [])) of
      Inr (Some taken) \<Rightarrow> jm_get (tp_byRow taken) 8 = Some ''pw''
    | _ \<Rightarrow> False"
  by (rule held_password_reaches_the_download [OF toy_aead_ok])
    (simp_all add: bytes_ok_def HELD_FOR_def HELD_PASSWORD_HOURS_def)

end
