(* ===== verification/BulkJobTypes.thy ===== *)
theory BulkJobTypes
  imports Capabilities
begin

text \<open>
  The vocabulary of bulk jobs (\<^verbatim>\<open>packages/shared/src/schemas/bulkJob.ts\<close>): what a job
  does, what reverts it, the states of a job and of its rows, and when a job can be
  reverted. A message to the operator is a constructor of \<open>refusal_message\<close>.
\<close>

section \<open>Actions\<close>

(* src/packages/shared/src/schemas/bulkJob.ts:55-62 BulkJobKind *)
datatype job_kind =
    User_disable | User_enable | User_unlock | User_group_add | User_group_remove | User_update
  | User_move | User_accountExpiry_set | User_passwordMustChange_set
  | User_passwordNeverExpires_clear | User_password_reset
  | User_create
  | User_passwordMustChange_clear | User_passwordNeverExpires_set

(* src/packages/shared/src/schemas/bulkJob.ts:12-24 BULK_JOB_ACTIONS *)
definition BULK_JOB_ACTIONS :: "job_kind list" where
  "BULK_JOB_ACTIONS =
     [User_disable, User_enable, User_unlock, User_group_add, User_group_remove, User_update,
      User_move, User_accountExpiry_set, User_passwordMustChange_set,
      User_passwordNeverExpires_clear, User_password_reset]"

(* src/packages/shared/src/schemas/bulkJob.ts:12-62 BULK_JOB_KINDS *)
fun kind_text :: "job_kind \<Rightarrow> string" where
  "kind_text User_disable = ''user.disable''"
| "kind_text User_enable = ''user.enable''"
| "kind_text User_unlock = ''user.unlock''"
| "kind_text User_group_add = ''user.group.add''"
| "kind_text User_group_remove = ''user.group.remove''"
| "kind_text User_update = ''user.update''"
| "kind_text User_move = ''user.move''"
| "kind_text User_accountExpiry_set = ''user.accountExpiry.set''"
| "kind_text User_passwordMustChange_set = ''user.passwordMustChange.set''"
| "kind_text User_passwordNeverExpires_clear = ''user.passwordNeverExpires.clear''"
| "kind_text User_password_reset = ''user.password.reset''"
| "kind_text User_create = ''user.create''"
| "kind_text User_passwordMustChange_clear = ''user.passwordMustChange.clear''"
| "kind_text User_passwordNeverExpires_set = ''user.passwordNeverExpires.set''"

(* src/packages/shared/src/schemas/bulkJob.ts:49-49 IMPORT_JOB_ACTION *)
definition IMPORT_JOB_ACTION :: job_kind where
  "IMPORT_JOB_ACTION = User_create"

text \<open>The keys of \<open>BULK_REVERT_ACTIONS\<close> in their order, each with the action that reverts it.\<close>

(* src/packages/shared/src/schemas/bulkJob.ts:32-42 BULK_REVERT_ACTIONS *)
definition BULK_REVERT_ACTIONS :: "(job_kind \<times> job_kind) list" where
  "BULK_REVERT_ACTIONS =
     [(User_disable, User_enable),
      (User_enable, User_disable),
      (User_group_add, User_group_remove),
      (User_group_remove, User_group_add),
      (User_update, User_update),
      (User_move, User_move),
      (User_accountExpiry_set, User_accountExpiry_set),
      (User_passwordMustChange_set, User_passwordMustChange_clear),
      (User_passwordNeverExpires_clear, User_passwordNeverExpires_set)]"

(* src/packages/shared/src/schemas/bulkJob.ts:64-65 canRevert *)
definition can_revert :: "job_kind \<Rightarrow> bool" where
  "can_revert action \<longleftrightarrow> map_of BULK_REVERT_ACTIONS action \<noteq> None"

text \<open>\<open>None\<close> is the exception thrown for an action that reverts nothing.\<close>

(* src/packages/shared/src/schemas/bulkJob.ts:68-74 revertedAction *)
definition reverted_action :: "job_kind \<Rightarrow> job_kind option" where
  "reverted_action revert =
     find (\<lambda>a. map_of BULK_REVERT_ACTIONS a = Some revert) (map fst BULK_REVERT_ACTIONS)"

(* src/packages/shared/src/schemas/bulkJob.ts:76-93 bulkJobPath *)
fun bulk_job_path :: "job_kind \<Rightarrow> string option" where
  "bulk_job_path User_disable = Some ''/users/bulk-disable''"
| "bulk_job_path User_enable = Some ''/users/bulk-enable''"
| "bulk_job_path User_unlock = Some ''/users/bulk-unlock''"
| "bulk_job_path User_group_add = Some ''/users/bulk-add-to-groups''"
| "bulk_job_path User_group_remove = Some ''/users/bulk-remove-from-groups''"
| "bulk_job_path User_update = Some ''/users/bulk-update''"
| "bulk_job_path User_move = Some ''/users/bulk-move''"
| "bulk_job_path User_accountExpiry_set = Some ''/users/bulk-account-expiry''"
| "bulk_job_path User_passwordMustChange_set = Some ''/users/bulk-require-password-change''"
| "bulk_job_path User_passwordNeverExpires_clear =
     Some ''/users/bulk-clear-password-never-expires''"
| "bulk_job_path User_password_reset = Some ''/users/bulk-reset-passwords''"
| "bulk_job_path _ = None"

(* src/packages/shared/src/schemas/bulkJob.ts:389-395 BulkAccountOp *)
datatype account_op = Op_move | Op_accountExpiry | Op_mustChangePassword | Op_clearPasswordNeverExpires

(* src/packages/shared/src/schemas/bulkJob.ts:397-403 BULK_ACCOUNT_ACTIONS *)
fun BULK_ACCOUNT_ACTIONS :: "account_op \<Rightarrow> job_kind" where
  "BULK_ACCOUNT_ACTIONS Op_move = User_move"
| "BULK_ACCOUNT_ACTIONS Op_accountExpiry = User_accountExpiry_set"
| "BULK_ACCOUNT_ACTIONS Op_mustChangePassword = User_passwordMustChange_set"
| "BULK_ACCOUNT_ACTIONS Op_clearPasswordNeverExpires = User_passwordNeverExpires_clear"

(* src/packages/shared/src/schemas/bulkJob.ts:405-416 BULK_ACCOUNT_CAPABILITIES *)
fun BULK_ACCOUNT_CAPABILITIES :: "account_op \<Rightarrow> capability" where
  "BULK_ACCOUNT_CAPABILITIES Op_move = Write_user_move"
| "BULK_ACCOUNT_CAPABILITIES Op_accountExpiry = Write_user_enableDisable"
| "BULK_ACCOUNT_CAPABILITIES Op_mustChangePassword = Write_user_resetPassword"
| "BULK_ACCOUNT_CAPABILITIES Op_clearPasswordNeverExpires = Write_user_enableDisable"

(* src/packages/shared/src/schemas/bulkJob.ts:418-434 BULK_JOB_CAPABILITIES *)
fun BULK_JOB_CAPABILITIES :: "job_kind \<Rightarrow> capability" where
  "BULK_JOB_CAPABILITIES User_disable = Write_user_enableDisable"
| "BULK_JOB_CAPABILITIES User_enable = Write_user_enableDisable"
| "BULK_JOB_CAPABILITIES User_unlock = Write_user_unlock"
| "BULK_JOB_CAPABILITIES User_group_add = Write_group_membership"
| "BULK_JOB_CAPABILITIES User_group_remove = Write_group_membership"
| "BULK_JOB_CAPABILITIES User_update = Write_user_attributes"
| "BULK_JOB_CAPABILITIES User_move = BULK_ACCOUNT_CAPABILITIES Op_move"
| "BULK_JOB_CAPABILITIES User_accountExpiry_set = BULK_ACCOUNT_CAPABILITIES Op_accountExpiry"
| "BULK_JOB_CAPABILITIES User_passwordMustChange_set =
     BULK_ACCOUNT_CAPABILITIES Op_mustChangePassword"
| "BULK_JOB_CAPABILITIES User_passwordNeverExpires_clear =
     BULK_ACCOUNT_CAPABILITIES Op_clearPasswordNeverExpires"
| "BULK_JOB_CAPABILITIES User_password_reset = Write_user_resetPassword"
| "BULK_JOB_CAPABILITIES User_create = Write_user_create"
| "BULK_JOB_CAPABILITIES User_passwordMustChange_clear =
     BULK_ACCOUNT_CAPABILITIES Op_mustChangePassword"
| "BULK_JOB_CAPABILITIES User_passwordNeverExpires_set =
     BULK_ACCOUNT_CAPABILITIES Op_clearPasswordNeverExpires"

section \<open>The states of a job and of its rows\<close>

(* src/packages/shared/src/schemas/bulkJob.ts:95-102 BulkJobStatus *)
datatype job_status = Queued | Running | Paused | Finished | Cancelled

(* src/packages/shared/src/schemas/bulkJob.ts:104-109 BulkJobPauseReason *)
datatype pause_reason = Step_up_required | Interrupted | Directory_unavailable

(* src/packages/shared/src/schemas/bulkJob.ts:111-124 BulkJobRowStatus *)
datatype row_status = R_pending | R_running | R_succeeded | R_partial | R_failed | R_skipped

(* src/packages/shared/src/schemas/bulkJob.ts:126-126 MAX_BULK_JOB_ROWS *)
definition MAX_BULK_JOB_ROWS :: nat where "MAX_BULK_JOB_ROWS = 10000"

(* src/packages/shared/src/schemas/bulkJob.ts:521-530 BulkJobCounts *)
record job_counts =
  jc_total :: nat
  jc_pending :: nat
  jc_running :: nat
  jc_succeeded :: nat
  jc_partial :: nat
  jc_failed :: nat
  jc_skipped :: nat

section \<open>When a job can be reverted\<close>

datatype refusal_code = Not_revertible | Job_running | Revert_running | Nothing_to_revert

datatype refusal_message =
    Msg_revert_of_revert
  | Msg_unlock | Msg_import | Msg_password_reset | Msg_not_revertible
  | Msg_job_not_stopped
  | Msg_reverted_already
  | Msg_changed_nothing

(* src/packages/shared/src/schemas/bulkJob.ts:655-661 NOT_REVERTIBLE *)
fun NOT_REVERTIBLE :: "job_kind \<Rightarrow> refusal_message option" where
  "NOT_REVERTIBLE User_unlock = Some Msg_unlock"
| "NOT_REVERTIBLE User_create = Some Msg_import"
| "NOT_REVERTIBLE User_password_reset = Some Msg_password_reset"
| "NOT_REVERTIBLE _ = None"

(* src/packages/shared/src/schemas/bulkJob.ts:663-669 bulkJobStopped *)
definition bulk_job_stopped :: "job_status \<Rightarrow> job_counts \<Rightarrow> bool" where
  "bulk_job_stopped status counts \<longleftrightarrow>
     (status = Finished \<or> status = Cancelled) \<and> jc_running counts = 0"

(* src/packages/shared/src/schemas/bulkJob.ts:671-716 revertRefusal *)
definition revert_refusal ::
    "job_kind \<Rightarrow> nat option \<Rightarrow> job_status \<Rightarrow> job_counts \<Rightarrow> bool \<Rightarrow>
       (refusal_code \<times> refusal_message) option" where
  "revert_refusal action revertsJobId status counts openRevert =
     (if revertsJobId \<noteq> None then Some (Not_revertible, Msg_revert_of_revert)
      else if \<not> can_revert action then
        Some (Not_revertible,
              case NOT_REVERTIBLE action of Some m \<Rightarrow> m | None \<Rightarrow> Msg_not_revertible)
      else if \<not> bulk_job_stopped status counts then Some (Job_running, Msg_job_not_stopped)
      else if openRevert then Some (Revert_running, Msg_reverted_already)
      else if jc_succeeded counts + jc_partial counts = 0 then
        Some (Nothing_to_revert, Msg_changed_nothing)
      else None)"

section \<open>Facts about the tables\<close>

lemmas revert_table_defs = BULK_REVERT_ACTIONS_def can_revert_def reverted_action_def

lemma can_revert_cases:
  "can_revert a \<longleftrightarrow> a \<notin> {User_unlock, User_password_reset, User_create,
                        User_passwordMustChange_clear, User_passwordNeverExpires_set}"
  by (cases a) (simp_all add: revert_table_defs)

lemma revert_table_cases:
  assumes "map_of BULK_REVERT_ACTIONS a = Some r"
  obtains "(a, r) \<in> set BULK_REVERT_ACTIONS"
  using assms map_of_SomeD by fastforce

lemma reverted_action_Some:
  "reverted_action r = Some a \<Longrightarrow> map_of BULK_REVERT_ACTIONS a = Some r"
  by (auto simp: reverted_action_def find_Some_iff)

lemma reverted_action_table [simp]:
  "reverted_action User_enable = Some User_disable"
  "reverted_action User_disable = Some User_enable"
  "reverted_action User_group_remove = Some User_group_add"
  "reverted_action User_group_add = Some User_group_remove"
  "reverted_action User_update = Some User_update"
  "reverted_action User_move = Some User_move"
  "reverted_action User_accountExpiry_set = Some User_accountExpiry_set"
  "reverted_action User_passwordMustChange_clear = Some User_passwordMustChange_set"
  "reverted_action User_passwordNeverExpires_set = Some User_passwordNeverExpires_clear"
  by (simp_all add: reverted_action_def BULK_REVERT_ACTIONS_def)

lemma reverted_action_of_table:
  assumes "map_of BULK_REVERT_ACTIONS a = Some r"
  shows "reverted_action r = Some a"
proof -
  from assms have "(a, r) \<in> set BULK_REVERT_ACTIONS" by (rule revert_table_cases)
  then show ?thesis
    unfolding BULK_REVERT_ACTIONS_def by (simp only: set_simps insert_iff empty_iff) auto
qed

lemma revert_table_capability:
  assumes "map_of BULK_REVERT_ACTIONS a = Some r"
  shows "BULK_JOB_CAPABILITIES r = BULK_JOB_CAPABILITIES a"
proof -
  from assms have "(a, r) \<in> set BULK_REVERT_ACTIONS" by (rule revert_table_cases)
  then show ?thesis
    unfolding BULK_REVERT_ACTIONS_def by (simp only: set_simps insert_iff empty_iff) auto
qed

text \<open>
  Each action that can be reverted has a revert action that names it back: the runner of a
  revert job, which knows only the job's own action, finds the one action it puts back, and
  nothing is found for any other action. The revert takes the same capability as the action.
\<close>

theorem revert_action_names_its_original:
  "(reverted_action r = Some a \<longleftrightarrow> map_of BULK_REVERT_ACTIONS a = Some r)
   \<and> (reverted_action r = Some a \<longrightarrow> BULK_JOB_CAPABILITIES r = BULK_JOB_CAPABILITIES a)"
  using reverted_action_Some reverted_action_of_table revert_table_capability by blast

theorem revert_action_names_its_original_witness:
  "reverted_action User_passwordMustChange_clear = Some User_passwordMustChange_set
   \<and> BULK_JOB_CAPABILITIES User_passwordMustChange_clear = BULK_JOB_CAPABILITIES User_passwordMustChange_set"
  using revert_action_names_its_original
    [of User_passwordMustChange_clear User_passwordMustChange_set]
  by (simp add: BULK_REVERT_ACTIONS_def)

text \<open>
  A job can be reverted exactly when it is no revert itself, its action has a revert
  action, it has stopped with no row still running, no revert of it is open, and at least
  one row succeeded or partly did; and the operator is told the first of these that fails.
\<close>

theorem revert_refusal_none_iff:
  "revert_refusal a rv st c open_rv = None \<longleftrightarrow>
     rv = None \<and> can_revert a \<and> st \<in> {Finished, Cancelled} \<and> jc_running c = 0
     \<and> \<not> open_rv \<and> jc_succeeded c + jc_partial c > 0"
  by (auto simp: revert_refusal_def bulk_job_stopped_def)

end
