(* ===== verification/BulkJobStore.thy ===== *)
theory BulkJobStore
  imports BulkJobTypes HeldPasswords
begin

text \<open>
  The bulk job service's tables and the statements it runs on them
  (\<^verbatim>\<open>apps/api/src/services/bulkJobs/service.ts\<close>, \<^verbatim>\<open>errors.ts\<close>, \<^verbatim>\<open>rowMessages.ts\<close>). The database is a
  record of tables held as lists of rows; a transaction is one function. Each statement takes
  the database's current time; ids and run tokens come in as arguments. Ids are natural
  numbers, as the columns are; \<open>String(id)\<close> is not modelled.
\<close>

section \<open>Errors and messages\<close>

(* src/apps/api/src/services/bulkJobs/errors.ts:5-27 BulkJobRequestError *)
datatype bulk_error =
    E_check_failed | E_group_not_found | E_job_running | E_manager_not_found | E_nothing_to_revert
  | E_not_revertible | E_nothing_to_reset | E_ou_not_found | E_ou_refused | E_preview_mismatch
  | E_passwords_expired | E_protected_unacknowledged | E_results_downloaded | E_revert_running

text \<open>The HTTP status and code of a refusal.\<close>

(* src/apps/api/src/services/bulkJobs/errors.ts:29-58 refuseBulkRequest *)
fun refuseBulkRequest :: "bulk_error \<Rightarrow> nat \<times> string" where
  "refuseBulkRequest E_group_not_found = (404, ''not_found'')"
| "refuseBulkRequest E_manager_not_found = (404, ''not_found'')"
| "refuseBulkRequest E_ou_not_found = (404, ''not_found'')"
| "refuseBulkRequest E_job_running = (409, ''conflict'')"
| "refuseBulkRequest E_preview_mismatch = (409, ''conflict'')"
| "refuseBulkRequest E_results_downloaded = (409, ''conflict'')"
| "refuseBulkRequest E_revert_running = (409, ''conflict'')"
| "refuseBulkRequest E_passwords_expired = (410, ''gone'')"
| "refuseBulkRequest E_check_failed = (422, ''unprocessable_entity'')"
| "refuseBulkRequest E_nothing_to_reset = (422, ''unprocessable_entity'')"
| "refuseBulkRequest E_nothing_to_revert = (422, ''unprocessable_entity'')"
| "refuseBulkRequest E_not_revertible = (422, ''unprocessable_entity'')"
| "refuseBulkRequest E_ou_refused = (422, ''unprocessable_entity'')"
| "refuseBulkRequest E_protected_unacknowledged = (422, ''unprocessable_entity'')"

(* src/apps/api/src/services/bulkJobs/rowMessages.ts:4-18 failureMessage *)
definition failureMessage :: "string \<Rightarrow> string option \<Rightarrow> string" where
  "failureMessage code detail =
     (let reason = (if truthy detail then '': '' @ or_empty detail else [])
      in if code = ''not_found'' then ''No such user in the directory.''
         else if code = ''permission_denied'' then ''The directory refused the change'' @ reason
         else if code = ''directory_unavailable'' then ''No domain controller could be reached.''
         else if code = ''interrupted'' then ''OpenADUC stopped while changing this account. Check it, then retry.''
         else ''The change failed'' @ reason)"

text \<open>A refusal to revert, as the error the service throws.\<close>

fun refusal_error :: "refusal_code \<Rightarrow> bulk_error" where
  "refusal_error Not_revertible = E_not_revertible"
| "refusal_error Job_running = E_job_running"
| "refusal_error Revert_running = E_revert_running"
| "refusal_error Nothing_to_revert = E_nothing_to_revert"

section \<open>The tables\<close>

text \<open>
  A job keeps its operator's columns as one \<open>job_actor\<close>, which is what \<open>actorOf\<close> reads and
  \<open>actorColumns\<close> writes.
\<close>

(* src/apps/api/src/services/bulkJobs/service.ts:66-75 JobActor *)
record job_actor =
  ja_directoryId :: nat
  ja_adminSessionId :: string
  ja_actorUserId :: string
  ja_actorDisplayName :: "string option"
  ja_actorUsername :: string
  ja_sourceIp :: "string option"
  ja_userAgent :: "string option"
  ja_correlationId :: "string option"

(* src/apps/api/src/db/types.ts:215-237 BulkJobsTable *)
record job_rec =
  jb_id :: nat
  jb_actor :: job_actor
  jb_action :: job_kind
  jb_status :: job_status
  jb_pause_reason :: "pause_reason option"
  jb_run_token :: "nat option"
  jb_subject :: "json option"
  jb_reverts_job_id :: "nat option"
  jb_created_at :: ms
  jb_heartbeat_at :: ms
  jb_finished_at :: "ms option"
  jb_results_downloaded_at :: "ms option"

(* src/apps/api/src/db/types.ts:239-259 BulkJobRowsTable *)
record row_rec =
  rw_id :: nat
  rw_job_id :: nat
  rw_ordinal :: nat
  rw_target_id :: "string option"
  rw_after_ordinal :: "nat option"
  rw_target_dn :: "string option"
  rw_target_name :: "string option"
  rw_status :: row_status
  rw_run_token :: "nat option"
  rw_attempts :: nat
  rw_error_code :: "string option"
  rw_error_message :: "string option"
  rw_input :: "json option"
  rw_before :: "json option"
  rw_after :: "json option"
  rw_started_at :: "ms option"
  rw_finished_at :: "ms option"

text \<open>What the model keeps of a job's audit event.\<close>

record bulk_audit =
  ba_action :: string
  ba_ok :: bool
  ba_errorCode :: "string option"
  ba_jobId :: nat
  ba_actor :: job_actor
  ba_system :: bool
  ba_targetId :: "string option"
  ba_reason :: "pause_reason option"
  ba_rows :: "nat option"

record bulk_db =
  jobs :: "job_rec list"
  job_rows :: "row_rec list"
  held :: "held_row list"
  audits :: "bulk_audit list"

(* src/apps/api/src/services/bulkJobs/service.ts:1034-1046 auditBase *)
definition auditBase :: "job_actor \<Rightarrow> nat \<Rightarrow> string \<Rightarrow> bulk_audit" where
  "auditBase actor jobId action =
     \<lparr>ba_action = action, ba_ok = True, ba_errorCode = None, ba_jobId = jobId, ba_actor = actor,
      ba_system = False, ba_targetId = None, ba_reason = None, ba_rows = None\<rparr>"

definition add_audit :: "bulk_audit \<Rightarrow> bulk_db \<Rightarrow> bulk_db" where
  "add_audit a db = db\<lparr>audits := audits db @ [a]\<rparr>"

definition find_job :: "nat \<Rightarrow> bulk_db \<Rightarrow> job_rec option" where
  "find_job i db = find (\<lambda>j. jb_id j = i) (jobs db)"

definition rows_of :: "nat \<Rightarrow> bulk_db \<Rightarrow> row_rec list" where
  "rows_of i db = filter (\<lambda>r. rw_job_id r = i) (job_rows db)"

text \<open>The row statuses a retry runs again, and the job statuses in which a job may still write.\<close>

(* src/apps/api/src/services/bulkJobs/service.ts:95-96 RETRIED *)
definition RETRIED :: "row_status list" where "RETRIED = [R_failed, R_partial]"

(* src/apps/api/src/services/bulkJobs/service.ts:97-98 OPEN *)
definition OPEN :: "job_status list" where "OPEN = [Queued, Running, Paused]"

section \<open>Reading\<close>

definition open_revert :: "bulk_db \<Rightarrow> job_rec \<Rightarrow> bool" where
  "open_revert db v \<longleftrightarrow> jb_status v \<in> set OPEN \<or> (\<exists>r \<in> set (rows_of (jb_id v) db). rw_status r = R_running)"

(* src/apps/api/src/services/bulkJobs/service.ts:118-142 withOpenReverts *)
definition withOpenReverts :: "bulk_db \<Rightarrow> nat list \<Rightarrow> nat option \<Rightarrow> nat list" where
  "withOpenReverts db jobIds ex =
     List.map_filter jb_reverts_job_id
       (filter (\<lambda>v. (case jb_reverts_job_id v of None \<Rightarrow> False | Some i \<Rightarrow> i \<in> set jobIds)
                 \<and> open_revert db v \<and> (case ex of None \<Rightarrow> True | Some e \<Rightarrow> jb_id v \<noteq> e))
         (jobs db))"

(* src/apps/api/src/services/bulkJobs/service.ts:144-145 hasOpenRevert *)
definition hasOpenRevert :: "bulk_db \<Rightarrow> nat \<Rightarrow> nat option \<Rightarrow> bool" where
  "hasOpenRevert db jobId ex \<longleftrightarrow> jobId \<in> set (withOpenReverts db [jobId] ex)"

(* src/apps/api/src/services/bulkJobs/service.ts:1048-1050 emptyCounts *)
definition emptyCounts :: job_counts where
  "emptyCounts = \<lparr>jc_total = 0, jc_pending = 0, jc_running = 0, jc_succeeded = 0, jc_partial = 0,
     jc_failed = 0, jc_skipped = 0\<rparr>"

definition count_row :: "row_rec \<Rightarrow> job_counts \<Rightarrow> job_counts" where
  "count_row r c =
     (let c = c\<lparr>jc_total := jc_total c + 1\<rparr>
      in case rw_status r of
           R_pending \<Rightarrow> c\<lparr>jc_pending := jc_pending c + 1\<rparr>
         | R_running \<Rightarrow> c\<lparr>jc_running := jc_running c + 1\<rparr>
         | R_succeeded \<Rightarrow> c\<lparr>jc_succeeded := jc_succeeded c + 1\<rparr>
         | R_partial \<Rightarrow> c\<lparr>jc_partial := jc_partial c + 1\<rparr>
         | R_failed \<Rightarrow> c\<lparr>jc_failed := jc_failed c + 1\<rparr>
         | R_skipped \<Rightarrow> c\<lparr>jc_skipped := jc_skipped c + 1\<rparr>)"

(* src/apps/api/src/services/bulkJobs/service.ts:987-1005 counts *)
definition counts :: "bulk_db \<Rightarrow> nat \<Rightarrow> job_counts" where
  "counts db jobId = fold count_row (rows_of jobId db) emptyCounts"

(* src/apps/api/src/services/bulkJobs/service.ts:330-333 refusal *)
definition refusal :: "bulk_db \<Rightarrow> job_rec \<Rightarrow> (refusal_code \<times> refusal_message) option" where
  "refusal db job =
     revert_refusal (jb_action job) (jb_reverts_job_id job) (jb_status job) (counts db (jb_id job))
       (hasOpenRevert db (jb_id job) None)"

(* src/apps/api/src/services/bulkJobs/service.ts:441-449 findInDirectory *)
definition findInDirectory :: "bulk_db \<Rightarrow> nat \<Rightarrow> nat \<Rightarrow> job_rec option" where
  "findInDirectory db i directoryId =
     find (\<lambda>j. jb_id j = i \<and> ja_directoryId (jb_actor j) = directoryId) (jobs db)"

(* src/apps/api/src/services/bulkJobs/service.ts:452-461 find *)
definition find_own :: "bulk_db \<Rightarrow> nat \<Rightarrow> nat \<Rightarrow> string \<Rightarrow> job_rec option" where
  "find_own db i directoryId actorUserId =
     find (\<lambda>j. jb_id j = i \<and> ja_directoryId (jb_actor j) = directoryId
             \<and> ja_actorUserId (jb_actor j) = actorUserId) (jobs db)"

text \<open>Newest first, then the highest id: the order \<open>list\<close> and \<open>describe\<close> read jobs in.\<close>

definition newest_first :: "job_rec list \<Rightarrow> job_rec list" where
  "newest_first js = rev (sort_key (\<lambda>j. jb_created_at j) (sort_key (\<lambda>j. jb_id j) js))"

record revert_of =
  ro_jobId :: nat
  ro_actorDisplayName :: "string option"
  ro_createdAt :: ms
  ro_status :: job_status

record bulk_job =
  bj_job :: job_rec
  bj_counts :: job_counts
  bj_revertible :: bool
  bj_revertedBy :: "revert_of option"

(* src/apps/api/src/services/bulkJobs/service.ts:937-985 describe *)
definition describe_job :: "bulk_db \<Rightarrow> job_rec \<Rightarrow> bulk_job" where
  "describe_job db j =
     \<lparr>bj_job = j,
      bj_counts = counts db (jb_id j),
      bj_revertible = (refusal db j = None),
      bj_revertedBy =
        (case newest_first (filter (\<lambda>v. jb_reverts_job_id v = Some (jb_id j)) (jobs db)) of
           [] \<Rightarrow> None
         | v # _ \<Rightarrow> Some \<lparr>ro_jobId = jb_id v, ro_actorDisplayName = ja_actorDisplayName (jb_actor v),
                          ro_createdAt = jb_created_at v, ro_status = jb_status v\<rparr>)\<rparr>"

(* src/apps/api/src/services/bulkJobs/service.ts:463-474 list *)
definition list_jobs :: "bulk_db \<Rightarrow> nat \<Rightarrow> string \<Rightarrow> nat \<Rightarrow> bulk_job list" where
  "list_jobs db directoryId actorUserId limit =
     map (describe_job db) (take limit (newest_first
       (filter (\<lambda>j. ja_directoryId (jb_actor j) = directoryId \<and> ja_actorUserId (jb_actor j) = actorUserId)
         (jobs db))))"

(* src/apps/api/src/services/bulkJobs/service.ts:476-483 describeOne *)
definition describeOne :: "bulk_db \<Rightarrow> nat \<Rightarrow> bulk_job option" where
  "describeOne db i = map_option (describe_job db) (find_job i db)"

(* src/apps/api/src/services/bulkJobs/service.ts:486-501 summaries *)
definition summaries :: "bulk_db \<Rightarrow> nat list \<Rightarrow> (nat, bulk_job) jsmap" where
  "summaries db jobIds =
     map (\<lambda>j. (jb_id j, describe_job db j)) (filter (\<lambda>j. jb_id j \<in> set jobIds) (jobs db))"

(* src/apps/api/src/services/bulkJobs/service.ts:503-514 rows *)
definition rows_by_status :: "bulk_db \<Rightarrow> nat \<Rightarrow> row_status option \<Rightarrow> row_rec list" where
  "rows_by_status db jobId status =
     sort_key rw_ordinal
       (filter (\<lambda>r. rw_job_id r = jobId \<and> (case status of None \<Rightarrow> True | Some s \<Rightarrow> rw_status r = s)) (job_rows db))"

section \<open>Storing a job\<close>

text \<open>
  The unique index \<open>bulk_jobs_one_open_revert_uq\<close>: no two jobs not yet stopped revert the same
  job.
\<close>

(* src/apps/api/migrations/20261024000005_bulk_job_reverts_idx.ts:12-16 INDEXES *)
definition violates_open_revert :: "nat option \<Rightarrow> nat \<Rightarrow> bulk_db \<Rightarrow> bool" where
  "violates_open_revert reverts jobId db \<longleftrightarrow>
     reverts \<noteq> None \<and> (\<exists>j \<in> set (jobs db). jb_id j \<noteq> jobId \<and> jb_reverts_job_id j = reverts \<and> jb_status j \<in> set OPEN)"

record cached_user =
  cu_provider_id :: nat
  cu_object_guid :: string
  cu_distinguished_name :: string
  cu_display_name :: "string option"
  cu_sam_account_name :: "string option"

(* src/apps/api/src/services/bulkJobs/handlers.ts:110-119 BulkJobRowInput *)
record row_input =
  ri_targetId :: "string option"
  ri_targetName :: "string option"
  ri_input :: "json option"
  ri_after :: "nat option"

text \<open>What storing a job can throw: a refusal of its guard, the index, or the audit log.\<close>

datatype insert_error = Refused bulk_error | Unique_violation | Audit_failed

text \<open>
  What the caller of \<open>insert\<close> gives beside the rows: for a revert, the job it reverts and its
  guard; the secret every row uses, with what encrypting it takes; and what else to store.
\<close>

record insert_request =
  ir_revert :: "(nat \<times> (bulk_db \<Rightarrow> bulk_error option)) option"
  ir_secret :: "(aead \<times> bytes \<times> bytes \<times> string) option"
  ir_stored :: "(nat \<Rightarrow> bulk_db \<Rightarrow> bulk_db) option"

definition stored_row :: "cached_user list \<Rightarrow> nat \<Rightarrow> nat \<Rightarrow> nat \<Rightarrow> row_input \<Rightarrow> row_rec" where
  "stored_row cache rowId jobId ordinal r =
     (let u = (case ri_targetId r of None \<Rightarrow> None | Some g \<Rightarrow> find (\<lambda>u. cu_object_guid u = g) cache)
      in \<lparr>rw_id = rowId, rw_job_id = jobId, rw_ordinal = ordinal, rw_target_id = ri_targetId r,
          rw_after_ordinal = ri_after r,
          rw_target_dn = map_option cu_distinguished_name u,
          rw_target_name = (case u of
              Some u \<Rightarrow> (case cu_display_name u of Some n \<Rightarrow> Some n | None \<Rightarrow> cu_sam_account_name u)
            | None \<Rightarrow> ri_targetName r),
          rw_status = R_pending, rw_run_token = None, rw_attempts = 0,
          rw_error_code = None, rw_error_message = None, rw_input = ri_input r,
          rw_before = None, rw_after = None, rw_started_at = None, rw_finished_at = None\<rparr>)"

fun stored_rows :: "cached_user list \<Rightarrow> nat \<Rightarrow> nat \<Rightarrow> nat \<Rightarrow> row_input list \<Rightarrow> row_rec list" where
  "stored_rows cache rowId jobId ordinal [] = []"
| "stored_rows cache rowId jobId ordinal (r # rs) =
     stored_row cache rowId jobId ordinal r # stored_rows cache (Suc rowId) jobId (Suc ordinal) rs"

definition new_job :: "nat \<Rightarrow> ms \<Rightarrow> job_actor \<Rightarrow> job_kind \<Rightarrow> json option \<Rightarrow> nat option \<Rightarrow> job_rec" where
  "new_job newId now actor action subject reverts =
     \<lparr>jb_id = newId, jb_actor = actor, jb_action = action, jb_status = Queued,
      jb_pause_reason = None, jb_run_token = None, jb_subject = subject, jb_reverts_job_id = reverts,
      jb_created_at = now, jb_heartbeat_at = now, jb_finished_at = None, jb_results_downloaded_at = None\<rparr>"

text \<open>Deleting a job, with its rows and held passwords (the foreign keys cascade).\<close>

definition delete_job :: "nat \<Rightarrow> bulk_db \<Rightarrow> bulk_db" where
  "delete_job i db = db\<lparr>jobs := filter (\<lambda>j. jb_id j \<noteq> i) (jobs db),
     job_rows := filter (\<lambda>r. rw_job_id r \<noteq> i) (job_rows db),
     held := filter (\<lambda>h. h_job_id h \<noteq> i) (held db)\<rparr>"

text \<open>
  The transaction, then the audit event: a job that can't be audited (\<open>audited\<close> false) is
  deleted again. The caller starts a run of the job on \<open>Inr\<close>. The rows are inserted in chunks,
  which is one insertion here.
\<close>

(* src/apps/api/src/services/bulkJobs/service.ts:342-438 insert *)
definition insert_job ::
    "nat \<Rightarrow> nat \<Rightarrow> ms \<Rightarrow> bool \<Rightarrow> cached_user list \<Rightarrow> job_actor \<Rightarrow> job_kind \<Rightarrow> json option \<Rightarrow> row_input list
       \<Rightarrow> insert_request \<Rightarrow> bulk_db \<Rightarrow> (insert_error + nat) \<times> bulk_db" where
  "insert_job newId firstRow now audited cache actor action subject rws req db =
     (case (case ir_revert req of None \<Rightarrow> None | Some (_, guard) \<Rightarrow> guard db) of
        Some e \<Rightarrow> (Inl (Refused e), db)
      | None \<Rightarrow>
          let reverts = map_option fst (ir_revert req)
          in if violates_open_revert reverts newId db then (Inl Unique_violation, db)
             else
               let mine = filter (\<lambda>u. cu_provider_id u = ja_directoryId actor) cache;
                   db1 = db\<lparr>jobs := jobs db @ [new_job newId now actor action subject reverts],
                            job_rows := job_rows db @ stored_rows mine firstRow newId 0 rws\<rparr>;
                   db2 = (case ir_secret req of None \<Rightarrow> db1
                          | Some (A, key, iv, pw) \<Rightarrow>
                              db1\<lparr>held := holdPassword A key iv now newId None pw (held db1)\<rparr>);
                   db3 = (case ir_stored req of None \<Rightarrow> db2 | Some f \<Rightarrow> f newId db2)
               in if audited then (Inr newId, add_audit (auditBase actor newId ''bulk.create'') db3)
                  else (Inl Audit_failed, delete_job newId db3))"

section \<open>Continuing, retrying, cancelling\<close>

text \<open>
  \<open>record\<close>'s audit event isn't caught: when it fails (\<open>audited\<close> false) the request fails after
  its statement has run, and no run is started. A run is started on \<open>Done True\<close>.
\<close>

datatype op_result = Op_refused bulk_error | Op_audit_failed | Done bool

(* src/apps/api/src/services/bulkJobs/service.ts:922-935 record *)
definition record_op :: "bool \<Rightarrow> job_actor \<Rightarrow> nat \<Rightarrow> string \<Rightarrow> nat option \<Rightarrow> bulk_db \<Rightarrow> op_result \<times> bulk_db" where
  "record_op audited actor jobId action n db =
     (if audited then (Done True, add_audit ((auditBase actor jobId action)\<lparr>ba_rows := n\<rparr>) db)
      else (Op_audit_failed, db))"

(* src/apps/api/src/services/bulkJobs/service.ts:517-533 resume *)
definition resume :: "ms \<Rightarrow> bool \<Rightarrow> nat \<Rightarrow> job_actor \<Rightarrow> bulk_db \<Rightarrow> op_result \<times> bulk_db" where
  "resume now audited jobId actor db =
     (let p = (\<lambda>j. jb_id j = jobId \<and> jb_status j = Paused);
          f = (\<lambda>j. j\<lparr>jb_actor := actor, jb_status := Queued, jb_heartbeat_at := now, jb_pause_reason := None\<rparr>)
      in if updated_count p (jobs db) = 0 then (Done False, db)
         else record_op audited actor jobId ''bulk.resume'' None (db\<lparr>jobs := update_where p f (jobs db)\<rparr>))"

definition retryable_row :: "nat \<Rightarrow> row_rec \<Rightarrow> bool" where
  "retryable_row jobId r \<longleftrightarrow> rw_job_id r = jobId \<and> rw_status r \<in> set RETRIED"

text \<open>How many rows were put back, or the refusal; the transaction rolls back on a refusal.\<close>

(* src/apps/api/src/services/bulkJobs/service.ts:544-582 retryRows *)
definition retryRows :: "ms \<Rightarrow> job_rec \<Rightarrow> job_actor \<Rightarrow> bulk_db \<Rightarrow> (bulk_error + nat) \<times> bulk_db" where
  "retryRows now job actor db =
     (let jobId = jb_id job;
          reverted = (case jb_reverts_job_id job of Some i \<Rightarrow> i | None \<Rightarrow> jobId)
      in if hasOpenRevert db reverted (Some jobId) then (Inl E_revert_running, db)
         else
           let p = (\<lambda>j. jb_id j = jobId \<and> jb_status j \<in> {Paused, Finished, Cancelled}
                      \<and> (\<exists>r \<in> set (job_rows db). retryable_row jobId r));
               f = (\<lambda>j. j\<lparr>jb_actor := actor, jb_status := Queued, jb_heartbeat_at := now,
                          jb_pause_reason := None, jb_finished_at := None\<rparr>)
           in if updated_count p (jobs db) = 0 then (Inr 0, db)
              else if violates_open_revert (jb_reverts_job_id job) jobId db then (Inl E_revert_running, db)
              else (Inr (updated_count (retryable_row jobId) (job_rows db)),
                    db\<lparr>jobs := update_where p f (jobs db),
                       job_rows := update_where (retryable_row jobId)
                         (\<lambda>r. r\<lparr>rw_status := R_pending, rw_error_code := None, rw_error_message := None,
                               rw_finished_at := None\<rparr>) (job_rows db)\<rparr>))"

(* src/apps/api/src/services/bulkJobs/service.ts:536-542 retry *)
definition retry :: "ms \<Rightarrow> bool \<Rightarrow> job_rec \<Rightarrow> job_actor \<Rightarrow> bulk_db \<Rightarrow> op_result \<times> bulk_db" where
  "retry now audited job actor db =
     (case retryRows now job actor db of
        (Inl e, db) \<Rightarrow> (Op_refused e, db)
      | (Inr n, db) \<Rightarrow>
          if n = 0 then (Done False, db)
          else record_op audited actor (jb_id job) ''bulk.retry'' (Some n) db)"

(* src/apps/api/src/services/bulkJobs/service.ts:585-606 cancel *)
definition cancel :: "ms \<Rightarrow> bool \<Rightarrow> nat \<Rightarrow> job_actor \<Rightarrow> bulk_db \<Rightarrow> op_result \<times> bulk_db" where
  "cancel now audited jobId actor db =
     (let p = (\<lambda>j. jb_id j = jobId \<and> jb_status j \<in> {Queued, Running, Paused});
          f = (\<lambda>j. j\<lparr>jb_status := Cancelled, jb_pause_reason := None, jb_run_token := None,
                     jb_finished_at := Some now\<rparr>);
          q = (\<lambda>r. rw_job_id r = jobId \<and> rw_status r = R_pending)
      in if updated_count p (jobs db) = 0 then (Done False, db)
         else
           let skipped = updated_count q (job_rows db);
               db = db\<lparr>jobs := update_where p f (jobs db),
                       job_rows := update_where q (rw_status_update (\<lambda>_. R_skipped)) (job_rows db)\<rparr>;
               db = db\<lparr>held := HeldPasswords.holdFromNow now jobId (held db)\<rparr>
           in record_op audited actor jobId ''bulk.cancel'' (Some skipped) db)"

section \<open>A run's statements\<close>

(* src/apps/api/src/services/bulkJobs/service.ts:894-907 interruptRows *)
definition interruptRows :: "ms \<Rightarrow> nat \<Rightarrow> nat option \<Rightarrow> bulk_db \<Rightarrow> bulk_db" where
  "interruptRows now jobId token db =
     db\<lparr>job_rows := update_where
          (\<lambda>r. rw_job_id r = jobId \<and> rw_status r = R_running
             \<and> (case token of None \<Rightarrow> True | Some t \<Rightarrow> rw_run_token r = Some t))
          (\<lambda>r. r\<lparr>rw_status := R_failed, rw_error_code := Some ''interrupted'',
                rw_error_message := Some (failureMessage ''interrupted'' None), rw_finished_at := Some now\<rparr>)
          (job_rows db)\<rparr>"

text \<open>A failure to audit a pause is only logged.\<close>

(* src/apps/api/src/services/bulkJobs/service.ts:909-920 recordPause *)
definition recordPause :: "bool \<Rightarrow> job_rec \<Rightarrow> pause_reason \<Rightarrow> bulk_db \<Rightarrow> bulk_db" where
  "recordPause audited job reason db =
     (if audited then
        add_audit ((auditBase (jb_actor job) (jb_id job) ''bulk.pause'')
          \<lparr>ba_system := True, ba_reason := Some reason\<rparr>) db
      else db)"

(* src/apps/api/src/services/bulkJobs/service.ts:89-89 STALE_AFTER *)
definition stale :: "ms \<Rightarrow> job_rec \<Rightarrow> bool" where
  "stale now j \<longleftrightarrow> jb_status j \<in> {Queued, Running} \<and> jb_heartbeat_at j < now - 60000"

(* src/apps/api/src/services/bulkJobs/service.ts:612-628 recoverStale *)
definition recoverStale :: "ms \<Rightarrow> bool \<Rightarrow> bulk_db \<Rightarrow> bulk_db" where
  "recoverStale now audited db =
     (let f = (\<lambda>j. j\<lparr>jb_status := Paused, jb_pause_reason := Some Interrupted, jb_run_token := None\<rparr>);
          lost = map f (filter (stale now) (jobs db));
          db = db\<lparr>jobs := update_where (stale now) f (jobs db)\<rparr>
      in fold (\<lambda>j db. recordPause audited j Interrupted (interruptRows now (jb_id j) None db)) lost db)"

text \<open>The claim at the head of a run: the job, marked running for this token.\<close>

(* src/apps/api/src/services/bulkJobs/service.ts:654-662 run *)
definition claim_job :: "ms \<Rightarrow> nat \<Rightarrow> nat \<Rightarrow> bulk_db \<Rightarrow> job_rec option \<times> bulk_db" where
  "claim_job now jobId token db =
     (let p = (\<lambda>j. jb_id j = jobId \<and> jb_status j = Queued);
          f = (\<lambda>j. j\<lparr>jb_status := Running, jb_run_token := Some token, jb_heartbeat_at := now\<rparr>)
      in (map_option f (find p (jobs db)), db\<lparr>jobs := update_where p f (jobs db)\<rparr>))"

(* src/apps/api/src/services/bulkJobs/service.ts:664-673 run *)
definition heartbeat :: "ms \<Rightarrow> nat \<Rightarrow> nat \<Rightarrow> bulk_db \<Rightarrow> bulk_db" where
  "heartbeat now jobId token db =
     db\<lparr>jobs := update_where (\<lambda>j. jb_id j = jobId \<and> jb_run_token j = Some token)
          (jb_heartbeat_at_update (\<lambda>_. now)) (jobs db)\<rparr>"

text \<open>The job is running for this token.\<close>

definition holds_job :: "nat \<Rightarrow> nat \<Rightarrow> bulk_db \<Rightarrow> bool" where
  "holds_job jobId token db \<longleftrightarrow>
     (\<exists>j \<in> set (jobs db). jb_id j = jobId \<and> jb_status j = Running \<and> jb_run_token j = Some token)"

text \<open>A pending row whose predecessor, if it has one, has finished.\<close>

definition claimable :: "nat \<Rightarrow> bulk_db \<Rightarrow> row_rec \<Rightarrow> bool" where
  "claimable jobId db r \<longleftrightarrow>
     rw_job_id r = jobId \<and> rw_status r = R_pending
     \<and> \<not> (\<exists>p \<in> set (rows_of jobId db). rw_after_ordinal r = Some (rw_ordinal p)
            \<and> rw_status p \<in> {R_pending, R_running})"

text \<open>
  The claim is one statement: the claimable row of the lowest ordinal, marked running for this
  token. (\<open>skip locked\<close> lets concurrent claims pass each other by; here they run one by one.)
\<close>

(* src/apps/api/src/services/bulkJobs/service.ts:765-786 claimRow *)
definition claimRow :: "ms \<Rightarrow> nat \<Rightarrow> nat \<Rightarrow> bulk_db \<Rightarrow> row_rec option \<times> bulk_db" where
  "claimRow now jobId token db =
     (if \<not> holds_job jobId token db then (None, db)
      else case sort_key rw_ordinal (filter (claimable jobId db) (job_rows db)) of
             [] \<Rightarrow> (None, db)
           | r # _ \<Rightarrow>
               let f = (\<lambda>r. r\<lparr>rw_status := R_running, rw_run_token := Some token,
                              rw_attempts := rw_attempts r + 1, rw_started_at := Some now\<rparr>)
               in (Some (f r), db\<lparr>job_rows := update_where (\<lambda>x. rw_id x = rw_id r) f (job_rows db)\<rparr>))"

(* src/apps/api/src/services/bulkJobs/service.ts:789-801 waiting *)
definition waiting :: "nat \<Rightarrow> nat \<Rightarrow> bulk_db \<Rightarrow> bool" where
  "waiting jobId token db \<longleftrightarrow>
     holds_job jobId token db \<and> (\<exists>r \<in> set (rows_of jobId db). rw_status r = R_pending)"

section \<open>A row's outcome\<close>

record ok_outcome =
  oo_unchanged :: bool
  oo_reason :: "(string \<times> string) option"
  oo_before :: "json option"
  oo_after :: "json option"
  oo_targetDn :: "string option"
  oo_targetId :: "string option"

record failed_outcome =
  fo_errorCode :: string
  fo_errorMessage :: "string option"
  fo_before :: "json option"
  fo_after :: "json option"
  fo_targetDn :: "string option"
  fo_targetId :: "string option"
  fo_message :: "string option"
  fo_partial :: bool
  fo_audited :: bool

(* src/apps/api/src/services/bulkJobs/handlers.ts:81-108 BulkRowOutcome *)
datatype row_outcome = Ok_row ok_outcome | Failed_row failed_outcome

text \<open>
  What running a handler comes to: it returns, or it throws, \<open>DirectoryUnavailableError\<close> or
  something else, with a failure already audited or not.
\<close>

datatype handler_result = Returned row_outcome | Threw_unavailable bool | Threw_other bool

definition thrown_outcome :: "string \<Rightarrow> bool \<Rightarrow> row_outcome" where
  "thrown_outcome code audited =
     Failed_row \<lparr>fo_errorCode = code, fo_errorMessage = None, fo_before = None, fo_after = None,
       fo_targetDn = None, fo_targetId = None, fo_message = None, fo_partial = False, fo_audited = audited\<rparr>"

text \<open>The outcome to record, or none when the row goes back to wait for the job to continue.\<close>

(* src/apps/api/src/services/bulkJobs/service.ts:822-850 runRow *)
fun outcome_of :: "handler_result \<Rightarrow> row_outcome option" where
  "outcome_of (Returned out) = Some out"
| "outcome_of (Threw_unavailable audited) =
     (if audited then Some (thrown_outcome ''directory_unavailable'' True) else None)"
| "outcome_of (Threw_other audited) = Some (thrown_outcome ''internal_error'' audited)"

text \<open>Why the row's run says the job should pause.\<close>

(* src/apps/api/src/services/bulkJobs/service.ts:834-854 runRow *)
definition pause_of :: "handler_result \<Rightarrow> pause_reason option" where
  "pause_of res =
     (case outcome_of res of
        None \<Rightarrow> Some Directory_unavailable
      | Some (Failed_row f) \<Rightarrow>
          if fo_errorCode f = ''directory_unavailable'' then Some Directory_unavailable else None
      | Some (Ok_row _) \<Rightarrow> None)"

text \<open>A row this run holds by its token: what its writes match.\<close>

definition token_row :: "nat \<Rightarrow> nat \<Rightarrow> row_rec \<Rightarrow> bool" where
  "token_row rowId token r \<longleftrightarrow> rw_id r = rowId \<and> rw_run_token r = Some token"

definition release_row :: "nat \<Rightarrow> nat \<Rightarrow> bulk_db \<Rightarrow> bulk_db" where
  "release_row rowId token db =
     db\<lparr>job_rows := update_where (token_row rowId token) (rw_status_update (\<lambda>_. R_pending)) (job_rows db)\<rparr>"

(* src/apps/api/src/services/bulkJobs/service.ts:869-890 runRow *)
definition settled_row :: "ms \<Rightarrow> row_outcome \<Rightarrow> row_rec \<Rightarrow> row_rec" where
  "settled_row now out r =
     (case out of
        Ok_row k \<Rightarrow>
          r\<lparr>rw_status := (if oo_unchanged k then R_skipped else R_succeeded),
            rw_error_code := map_option fst (oo_reason k),
            rw_error_message := map_option snd (oo_reason k),
            rw_before := oo_before k, rw_after := oo_after k,
            rw_target_dn := (if truthy (oo_targetDn k) then oo_targetDn k else rw_target_dn r),
            rw_target_id := (if truthy (oo_targetId k) then oo_targetId k else rw_target_id r),
            rw_finished_at := Some now\<rparr>
      | Failed_row k \<Rightarrow>
          r\<lparr>rw_status := (if fo_partial k then R_partial else R_failed),
            rw_error_code := Some (fo_errorCode k),
            rw_error_message := (case fo_message k of Some m \<Rightarrow> Some m
               | None \<Rightarrow> Some (failureMessage (fo_errorCode k) (fo_errorMessage k))),
            rw_before := fo_before k, rw_after := fo_after k,
            rw_target_dn := (if truthy (fo_targetDn k) then fo_targetDn k else rw_target_dn r),
            rw_target_id := (if truthy (fo_targetId k) then fo_targetId k else rw_target_id r),
            rw_finished_at := Some now\<rparr>)"

definition settle_row :: "ms \<Rightarrow> nat \<Rightarrow> nat \<Rightarrow> row_outcome \<Rightarrow> bulk_db \<Rightarrow> bulk_db" where
  "settle_row now rowId token out db =
     db\<lparr>job_rows := update_where (token_row rowId token) (settled_row now out) (job_rows db)\<rparr>"

definition audit_row :: "job_rec \<Rightarrow> row_rec \<Rightarrow> row_outcome \<Rightarrow> bulk_db \<Rightarrow> bulk_db" where
  "audit_row job r out db =
     (case out of
        Failed_row k \<Rightarrow>
          if fo_audited k then db
          else add_audit ((auditBase (jb_actor job) (jb_id job) (kind_text (jb_action job)))
                 \<lparr>ba_ok := False, ba_errorCode := Some (fo_errorCode k),
                  ba_targetId := (case fo_targetId k of Some t \<Rightarrow> Some t | None \<Rightarrow> rw_target_id r)\<rparr>) db
      | Ok_row _ \<Rightarrow> db)"

text \<open>
  One row's end: what its handler came to is recorded, and the pause it asks for is told
  (\<open>audited\<close>: the audit log took the event; it is only logged otherwise).
\<close>

(* src/apps/api/src/services/bulkJobs/service.ts:808-891 runRow *)
definition finish_row ::
    "ms \<Rightarrow> bool \<Rightarrow> job_rec \<Rightarrow> row_rec \<Rightarrow> nat \<Rightarrow> handler_result \<Rightarrow> bulk_db \<Rightarrow> pause_reason option \<times> bulk_db" where
  "finish_row now audited job r token res db =
     (pause_of res,
      case outcome_of res of
        None \<Rightarrow> release_row (rw_id r) token db
      | Some out \<Rightarrow>
          settle_row now (rw_id r) token out (if audited then audit_row job r out db else db))"

text \<open>The end of a run.\<close>

(* src/apps/api/src/services/bulkJobs/service.ts:719-745 settle *)
definition settle :: "ms \<Rightarrow> bool \<Rightarrow> job_rec \<Rightarrow> nat \<Rightarrow> pause_reason option \<Rightarrow> bulk_db \<Rightarrow> bulk_db" where
  "settle now audited job token pause db =
     (let p = (\<lambda>j. jb_id j = jb_id job \<and> jb_run_token j = Some token \<and> jb_status j = Running)
      in if updated_count p (jobs db) = 0 then db
         else case pause of
           Some reason \<Rightarrow>
             recordPause audited job reason (interruptRows now (jb_id job) (Some token)
               (db\<lparr>jobs := update_where p (\<lambda>j. j\<lparr>jb_status := Paused, jb_pause_reason := Some reason,
                       jb_run_token := None\<rparr>) (jobs db)\<rparr>))
         | None \<Rightarrow>
             db\<lparr>jobs := update_where p (\<lambda>j. j\<lparr>jb_status := Finished, jb_run_token := None,
                       jb_finished_at := Some now\<rparr>) (jobs db),
                held := HeldPasswords.holdFromNow now (jb_id job) (held db)\<rparr>)"

end
