(* ===== verification/BulkJobRuns.thy ===== *)
theory BulkJobRuns
  imports BulkJobStore
begin

text \<open>
  Bulk jobs as they run (\<open>BulkJobService\<close> in
  \<^verbatim>\<open>apps/api/src/services/bulkJobs/service.ts\<close>): the runs a process has going, each with its
  four workers, beside the operators' requests, the sweep and a crash of the process. The
  statements of \<^theory_text>\<open>BulkJobStore\<close> are the atomic steps; between two of them anything else may
  happen. Run tokens are numbers, each fresh one the next.
\<close>

section \<open>Runs and their workers\<close>

text \<open>
  Where a worker stands: about to ask for credentials; about to claim a row with them; asking
  whether rows are left; writing a row; done.
\<close>

datatype worker = W_ready | W_claiming | W_checking | W_row row_rec | W_gone

record run =
  rn_job :: job_rec
  rn_token :: nat
  rn_workers :: "worker list"
  rn_pause :: "pause_reason option"

(* src/apps/api/src/services/bulkJobs/service.ts:86-86 ROW_CONCURRENCY *)
definition ROW_CONCURRENCY :: nat where "ROW_CONCURRENCY = 4"

text \<open>The state: the database, the runs going by job, the kicks not yet taken, the next token.\<close>

(* src/apps/api/src/services/bulkJobs/service.ts:178-181 BulkJobService *)
record bulk_sys =
  sy_db :: bulk_db
  sy_runs :: "(nat, run) jsmap"
  sy_kicks :: "nat list"
  sy_next :: nat
  sy_stopping :: bool

(* src/apps/api/src/services/bulkJobs/service.ts:639-651 kick *)
definition kick :: "nat \<Rightarrow> bulk_sys \<Rightarrow> bulk_sys" where
  "kick i s = (if sy_stopping s then s else s\<lparr>sy_kicks := sy_kicks s @ [i]\<rparr>)"

text \<open>A request's outcome: a run is started when it went through.\<close>

definition after_op :: "nat \<Rightarrow> op_result \<times> bulk_db \<Rightarrow> bulk_sys \<Rightarrow> bulk_sys" where
  "after_op i r s =
     (let s = s\<lparr>sy_db := snd r\<rparr> in if fst r = Done True then kick i s else s)"

definition set_worker :: "nat \<Rightarrow> worker \<Rightarrow> run \<Rightarrow> run" where
  "set_worker w p R = R\<lparr>rn_workers := (rn_workers R)[w := p]\<rparr>"

text \<open>
  One step of a run, on the database and the run. A worker that leaves its row (\<open>Fails\<close>) has
  thrown: the others are told to pause.
\<close>

(* src/apps/api/src/services/bulkJobs/service.ts:676-709 run *)
inductive run_step :: "ms \<Rightarrow> bool \<Rightarrow> bulk_db \<times> run \<Rightarrow> bulk_db \<times> run \<Rightarrow> bool"
  for now :: ms and stopping :: bool where
  Leaves: "w < length (rn_workers R) \<Longrightarrow> rn_workers R ! w = W_ready \<Longrightarrow> rn_pause R \<noteq> None \<or> stopping \<Longrightarrow>
    run_step now stopping (db, R) (db, set_worker w W_gone R)"
| No_credentials: "w < length (rn_workers R) \<Longrightarrow> rn_workers R ! w = W_ready \<Longrightarrow> rn_pause R = None \<Longrightarrow>
    run_step now stopping (db, R) (db, (set_worker w W_gone R)\<lparr>rn_pause := Some Step_up_required\<rparr>)"
| Authorised: "w < length (rn_workers R) \<Longrightarrow> rn_workers R ! w = W_ready \<Longrightarrow> rn_pause R = None \<Longrightarrow>
    run_step now stopping (db, R) (db, set_worker w W_claiming R)"
| Gives_way: "w < length (rn_workers R) \<Longrightarrow> rn_workers R ! w = W_claiming \<Longrightarrow> rn_pause R \<noteq> None \<Longrightarrow>
    run_step now stopping (db, R) (db, set_worker w W_gone R)"
| Claims: "w < length (rn_workers R) \<Longrightarrow> rn_workers R ! w = W_claiming \<Longrightarrow> rn_pause R = None \<Longrightarrow>
    claimRow now (jb_id (rn_job R)) (rn_token R) db = (Some r, db') \<Longrightarrow>
    run_step now stopping (db, R) (db', set_worker w (W_row r) R)"
| Finds_none: "w < length (rn_workers R) \<Longrightarrow> rn_workers R ! w = W_claiming \<Longrightarrow> rn_pause R = None \<Longrightarrow>
    fst (claimRow now (jb_id (rn_job R)) (rn_token R) db) = None \<Longrightarrow>
    run_step now stopping (db, R) (db, set_worker w W_checking R)"
| Waits: "w < length (rn_workers R) \<Longrightarrow> rn_workers R ! w = W_checking \<Longrightarrow>
    waiting (jb_id (rn_job R)) (rn_token R) db \<Longrightarrow>
    run_step now stopping (db, R) (db, set_worker w W_ready R)"
| Is_done: "w < length (rn_workers R) \<Longrightarrow> rn_workers R ! w = W_checking \<Longrightarrow>
    \<not> waiting (jb_id (rn_job R)) (rn_token R) db \<Longrightarrow>
    run_step now stopping (db, R) (db, set_worker w W_gone R)"
| Ends_row: "w < length (rn_workers R) \<Longrightarrow> rn_workers R ! w = W_row r \<Longrightarrow>
    finish_row now audited (rn_job R) r (rn_token R) res db = (p, db') \<Longrightarrow>
    run_step now stopping (db, R)
      (db', (set_worker w W_ready R)\<lparr>rn_pause := (case p of Some x \<Rightarrow> Some x | None \<Rightarrow> rn_pause R)\<rparr>)"
| Fails: "w < length (rn_workers R) \<Longrightarrow> rn_workers R ! w \<noteq> W_gone \<Longrightarrow>
    run_step now stopping (db, R) (db, (set_worker w W_gone R)\<lparr>rn_pause := Some Interrupted\<rparr>)"
| Heartbeat: "run_step now stopping (db, R) (heartbeat now (jb_id (rn_job R)) (rn_token R) db, R)"

text \<open>
  The steps of the system. A run starts when a kick's turn comes and no run of the job is
  going in the process; it settles once every worker is done.
\<close>

definition start_run :: "job_rec \<Rightarrow> nat \<Rightarrow> run" where
  "start_run j token = \<lparr>rn_job = j, rn_token = token, rn_workers = replicate ROW_CONCURRENCY W_ready, rn_pause = None\<rparr>"

(* src/apps/api/src/services/bulkJobs/service.ts:184-218 BulkJobService *)
inductive sys_step :: "bulk_sys \<Rightarrow> bulk_sys \<Rightarrow> bool" where
  S_insert: "\<forall>j \<in> set (jobs (sy_db s)). jb_id j \<noteq> newId \<and> jb_reverts_job_id j \<noteq> Some newId \<Longrightarrow>
    \<forall>r \<in> set (job_rows (sy_db s)). rw_id r < firstRow \<and> rw_job_id r \<noteq> newId \<Longrightarrow> ir_stored req = None \<Longrightarrow>
    jm_get (sy_runs s) newId = None \<Longrightarrow>
    insert_job newId firstRow now audited cache actor action subject rws req (sy_db s) = (Inr i, db') \<Longrightarrow>
    sys_step s (kick i (s\<lparr>sy_db := db'\<rparr>))"
| S_resume: "sys_step s (after_op i (resume now audited i actor (sy_db s)) s)"
| S_retry: "find_job (jb_id j) (sy_db s) = Some stored \<Longrightarrow> jb_reverts_job_id stored = jb_reverts_job_id j \<Longrightarrow>
    sys_step s (after_op (jb_id j) (retry now audited j actor (sy_db s)) s)"
| S_cancel: "sys_step s (s\<lparr>sy_db := snd (cancel now audited i actor (sy_db s))\<rparr>)"
| S_sweep: "sys_step s (s\<lparr>sy_db := recoverStale now audited (sy_db s)\<rparr>)"
| S_start: "i \<in> set (sy_kicks s) \<Longrightarrow> jm_get (sy_runs s) i = None \<Longrightarrow>
    claim_job now i (sy_next s) (sy_db s) = (Some j, db') \<Longrightarrow>
    sys_step s (s\<lparr>sy_db := db', sy_runs := jm_set i (start_run j (sy_next s)) (sy_runs s),
      sy_kicks := remove1 i (sy_kicks s), sy_next := Suc (sy_next s)\<rparr>)"
| S_start_none: "i \<in> set (sy_kicks s) \<Longrightarrow> jm_get (sy_runs s) i = None \<Longrightarrow>
    fst (claim_job now i (sy_next s) (sy_db s)) = None \<Longrightarrow>
    sys_step s (s\<lparr>sy_kicks := remove1 i (sy_kicks s)\<rparr>)"
| S_run: "jm_get (sy_runs s) i = Some R \<Longrightarrow> run_step now (sy_stopping s) (sy_db s, R) (db', R') \<Longrightarrow>
    sys_step s (s\<lparr>sy_db := db', sy_runs := jm_set i R' (sy_runs s)\<rparr>)"
| S_settle: "jm_get (sy_runs s) i = Some R \<Longrightarrow> \<forall>p \<in> set (rn_workers R). p = W_gone \<Longrightarrow>
    pause = (if rn_pause R = None \<and> sy_stopping s then Some Interrupted else rn_pause R) \<Longrightarrow>
    sys_step s (s\<lparr>sy_db := settle now audited (rn_job R) (rn_token R) pause (sy_db s),
      sy_runs := jm_delete i (sy_runs s)\<rparr>)"
| S_stop: "sys_step s (s\<lparr>sy_stopping := True\<rparr>)"
| S_crash: "sys_step s (s\<lparr>sy_runs := [], sy_kicks := [], sy_stopping := False\<rparr>)"

inductive_cases run_stepE: "run_step now stopping (db, R) (db', R')"
inductive_cases sys_stepE: "sys_step s t"

definition sys_start :: "bulk_sys \<Rightarrow> bool" where
  "sys_start s \<longleftrightarrow> jobs (sy_db s) = [] \<and> job_rows (sy_db s) = [] \<and> sy_runs s = [] \<and> sy_kicks s = []"

section \<open>What holds of the tables\<close>

text \<open>Keys are keys, and the columns of a job agree with its status.\<close>

definition job_fields_ok :: "job_rec \<Rightarrow> bool" where
  "job_fields_ok j \<longleftrightarrow>
     (jb_run_token j \<noteq> None \<longleftrightarrow> jb_status j = Running)
     \<and> (jb_pause_reason j \<noteq> None \<longleftrightarrow> jb_status j = Paused)
     \<and> (jb_finished_at j \<noteq> None \<longleftrightarrow> jb_status j \<in> {Finished, Cancelled})"

definition tables_ok :: "bulk_db \<Rightarrow> bool" where
  "tables_ok db \<longleftrightarrow>
     distinct (map jb_id (jobs db)) \<and> distinct (map rw_id (job_rows db)) \<and> list_all job_fields_ok (jobs db)"

text \<open>At most one job not yet stopped reverts another.\<close>

definition one_open_revert :: "bulk_db \<Rightarrow> bool" where
  "one_open_revert db \<longleftrightarrow>
     (\<forall>j \<in> set (jobs db). \<forall>k \<in> set (jobs db).
        jb_status j \<in> set OPEN \<longrightarrow> jb_status k \<in> set OPEN \<longrightarrow>
        jb_reverts_job_id j \<noteq> None \<longrightarrow> jb_reverts_job_id j = jb_reverts_job_id k \<longrightarrow> jb_id j = jb_id k)"

text \<open>A finished job has no row left to run.\<close>

definition finished_ok :: "bulk_db \<Rightarrow> bool" where
  "finished_ok db \<longleftrightarrow>
     (\<forall>j \<in> set (jobs db). jb_status j = Finished \<longrightarrow>
        (\<forall>r \<in> set (job_rows db). rw_job_id r = jb_id j \<longrightarrow> rw_status r \<noteq> R_pending))"

text \<open>Run tokens are numbers given out already.\<close>

definition tokens_ok :: "nat \<Rightarrow> bulk_db \<Rightarrow> bool" where
  "tokens_ok n db \<longleftrightarrow>
     (\<forall>j \<in> set (jobs db). \<forall>t. jb_run_token j = Some t \<longrightarrow> t < n)
     \<and> (\<forall>r \<in> set (job_rows db). \<forall>t. rw_run_token r = Some t \<longrightarrow> t < n)"

section \<open>What holds of a run\<close>

fun held_row_id :: "worker \<Rightarrow> nat option" where
  "held_row_id (W_row r) = Some (rw_id r)"
| "held_row_id _ = None"

definition held_ids :: "run \<Rightarrow> nat list" where
  "held_ids R = List.map_filter held_row_id (rn_workers R)"

definition row_key :: "row_rec \<Rightarrow> nat \<times> nat" where
  "row_key r = (rw_id r, rw_job_id r)"

text \<open>
  While a run has its job: each row a worker writes is marked running for it, no other row is
  unless the run is pausing, and a worker only leaves for good with no row left pending or
  because the process is stopping (\<open>halt\<close>).
\<close>

definition run_ok :: "bool \<Rightarrow> nat \<Rightarrow> run \<Rightarrow> bulk_db \<Rightarrow> bool" where
  "run_ok halt i R db \<longleftrightarrow>
     jb_id (rn_job R) = i \<and> rn_workers R \<noteq> [] \<and> distinct (held_ids R)
     \<and> (\<forall>j \<in> set (jobs db). jb_id j = i \<longrightarrow> jb_status j \<noteq> Finished)
     \<and> (\<forall>k \<in> set (held_ids R). (k, i) \<in> row_key ` set (job_rows db))
     \<and> (holds_job i (rn_token R) db \<longrightarrow>
          (\<forall>k \<in> set (held_ids R). \<exists>x \<in> set (job_rows db). rw_job_id x = i \<and> rw_id x = k \<and> rw_status x = R_running
              \<and> rw_run_token x = Some (rn_token R))
          \<and> (rn_pause R = None \<longrightarrow>
               (\<forall>x \<in> set (job_rows db). rw_job_id x = i \<longrightarrow> rw_status x = R_running \<longrightarrow>
                  rw_run_token x = Some (rn_token R) \<longrightarrow> rw_id x \<in> set (held_ids R))
               \<and> (W_gone \<in> set (rn_workers R) \<longrightarrow> \<not> halt \<longrightarrow>
                    (\<forall>x \<in> set (job_rows db). rw_job_id x = i \<longrightarrow> rw_status x \<noteq> R_pending))))"

section \<open>Statements on one job leave the others alone\<close>

definition jobs_of :: "nat \<Rightarrow> bulk_db \<Rightarrow> job_rec list" where
  "jobs_of i db = filter (\<lambda>j. jb_id j = i) (jobs db)"

lemma holds_job_of: "holds_job i t db \<longleftrightarrow>
    (\<exists>j \<in> set (jobs_of i db). jb_status j = Running \<and> jb_run_token j = Some t)"
  by (auto simp: holds_job_def jobs_of_def)

lemma filter_update_where_other:
  "(\<And>r. r \<in> set rs \<Longrightarrow> p r \<Longrightarrow> \<not> P r \<and> \<not> P (f r)) \<Longrightarrow> filter P (update_where p f rs) = filter P rs"
  by (induction rs) auto

text \<open>A statement that touches only job \<open>i\<close> and rows of it, and no keys.\<close>

definition touches :: "nat \<Rightarrow> bulk_db \<Rightarrow> bulk_db \<Rightarrow> bool" where
  "touches i db db' \<longleftrightarrow>
     map jb_id (jobs db') = map jb_id (jobs db)
     \<and> map row_key (job_rows db') = map row_key (job_rows db)
     \<and> (\<forall>k. k \<noteq> i \<longrightarrow> jobs_of k db' = jobs_of k db \<and> rows_of k db' = rows_of k db)"

lemma touchesI:
  assumes "jobs db' = update_where p f (jobs db)" "job_rows db' = update_where q g (job_rows db)"
    and "\<And>j. j \<in> set (jobs db) \<Longrightarrow> p j \<Longrightarrow> jb_id j = i" "\<And>r. r \<in> set (job_rows db) \<Longrightarrow> q r \<Longrightarrow> rw_job_id r = i"
    and "\<And>j. jb_id (f j) = jb_id j" "\<And>r. row_key (g r) = row_key r"
  shows "touches i db db'"
proof -
  have "rw_job_id (g r) = rw_job_id r" for r using assms(6) [of r] by (simp add: row_key_def)
  then show ?thesis
    using assms by (auto simp: touches_def jobs_of_def rows_of_def map_update_where
        intro!: filter_update_where_other)
qed

lemma touches_refl [simp]: "touches i db db"
  by (simp add: touches_def)

lemma touches_trans: "touches i db db1 \<Longrightarrow> touches i db1 db2 \<Longrightarrow> touches i db db2"
  by (auto simp: touches_def)

text \<open>The parts of the database a run's invariant doesn't read.\<close>

lemma other_tables [simp]:
  "jobs (add_audit a db) = jobs db" "job_rows (add_audit a db) = job_rows db"
  "jobs (recordPause b j x db) = jobs db" "job_rows (recordPause b j x db) = job_rows db"
  "jobs (audit_row j r out db) = jobs db" "job_rows (audit_row j r out db) = job_rows db"
  by (simp_all add: add_audit_def recordPause_def audit_row_def split: row_outcome.split)

lemma run_ok_same_job:
  assumes "run_ok halt i R db" "jobs_of i db' = jobs_of i db" "rows_of i db' = rows_of i db"
    and "row_key ` set (job_rows db) \<subseteq> row_key ` set (job_rows db')"
  shows "run_ok halt i R db'"
proof -
  have j: "(\<forall>j \<in> set (jobs d). jb_id j = i \<longrightarrow> jb_status j \<noteq> Finished) \<longleftrightarrow>
      (\<forall>j \<in> set (jobs_of i d). jb_status j \<noteq> Finished)" for d
    by (auto simp: jobs_of_def)
  have rall: "(\<forall>x \<in> set (job_rows d). rw_job_id x = i \<longrightarrow> P x) \<longleftrightarrow> (\<forall>x \<in> set (rows_of i d). P x)" for d P
    by (auto simp: rows_of_def)
  have rex: "(\<exists>x \<in> set (job_rows d). rw_job_id x = i \<and> P x) \<longleftrightarrow> (\<exists>x \<in> set (rows_of i d). P x)" for d P
    by (auto simp: rows_of_def)
  show ?thesis
    using assms(1,4) unfolding run_ok_def j rall rex holds_job_of assms(2,3) by blast
qed

lemma run_ok_other:
  assumes "run_ok halt k R db" "touches i db db'" "k \<noteq> i"
  shows "run_ok halt k R db'"
proof (rule run_ok_same_job [OF assms(1)])
  have "set (map row_key (job_rows db')) = set (map row_key (job_rows db))"
    using assms(2) by (simp only: touches_def)
  then show "row_key ` set (job_rows db) \<subseteq> row_key ` set (job_rows db')" by simp
qed (use assms in \<open>auto simp: touches_def\<close>)

lemma run_ok_lost:
  assumes "run_ok halt i R db" "\<forall>j \<in> set (jobs db'). jb_id j = i \<longrightarrow> jb_status j \<notin> {Running, Finished}"
    and "row_key ` set (job_rows db) \<subseteq> row_key ` set (job_rows db')"
  shows "run_ok halt i R db'"
  using assms unfolding run_ok_def by (auto simp: holds_job_def)

section \<open>What the statements keep of the tables\<close>

definition bulk_inv :: "nat \<Rightarrow> bulk_db \<Rightarrow> bool" where
  "bulk_inv n db \<longleftrightarrow> tables_ok db \<and> one_open_revert db \<and> finished_ok db \<and> tokens_ok n db"

lemma bulk_inv_fields:
  "jobs db' = jobs db \<Longrightarrow> job_rows db' = job_rows db \<Longrightarrow> bulk_inv n db' = bulk_inv n db"
  by (simp add: bulk_inv_def tables_ok_def one_open_revert_def finished_ok_def tokens_ok_def)

lemma row_key_maps: "(\<And>r. row_key (g r) = row_key r) \<Longrightarrow> rw_id (g r) = rw_id r \<and> rw_job_id (g r) = rw_job_id r"
  by (auto simp: row_key_def)

lemma bulk_inv_update:
  assumes inv: "bulk_inv n db" "n \<le> m"
    and db': "jobs db' = update_where p f (jobs db)" "job_rows db' = update_where q g (job_rows db)"
    and keys: "\<And>j. jb_id (f j) = jb_id j" "\<And>r. row_key (g r) = row_key r"
    and ok: "\<And>j. j \<in> set (jobs db) \<Longrightarrow> p j \<Longrightarrow> job_fields_ok j \<Longrightarrow> job_fields_ok (f j)"
    and tok: "\<And>j t. j \<in> set (jobs db) \<Longrightarrow> p j \<Longrightarrow> jb_run_token (f j) = Some t \<Longrightarrow> t < m"
      "\<And>r t. r \<in> set (job_rows db) \<Longrightarrow> q r \<Longrightarrow> rw_run_token (g r) = Some t \<Longrightarrow> t < m"
    and one: "one_open_revert db'" and fin: "finished_ok db'"
  shows "bulk_inv m db'"
proof -
  have "tables_ok db'"
    using inv(1) keys ok row_key_maps [of g]
    by (auto simp: bulk_inv_def tables_ok_def db' map_update_where list_all_iff set_update_where)
  moreover have "tokens_ok m db'"
    using inv tok by (fastforce simp: bulk_inv_def tokens_ok_def db' set_update_where split: if_splits)
  ultimately show ?thesis using one fin by (simp add: bulk_inv_def)
qed

lemma one_open_keep:
  assumes "one_open_revert db" "jobs db' = update_where p f (jobs db)"
    and "\<And>j. jb_id (f j) = jb_id j" "\<And>j. jb_reverts_job_id (f j) = jb_reverts_job_id j"
    and "\<And>j. j \<in> set (jobs db) \<Longrightarrow> p j \<Longrightarrow> jb_status (f j) \<in> set OPEN \<Longrightarrow> jb_status j \<in> set OPEN"
  shows "one_open_revert db'"
  unfolding one_open_revert_def assms(2) set_update_where
proof (intro ballI impI)
  fix x y
  assume x: "x \<in> (\<lambda>r. if p r then f r else r) ` set (jobs db)" and y: "y \<in> (\<lambda>r. if p r then f r else r) ` set (jobs db)"
    and o: "jb_status x \<in> set OPEN" "jb_status y \<in> set OPEN"
    and r: "jb_reverts_job_id x \<noteq> None" "jb_reverts_job_id x = jb_reverts_job_id y"
  obtain j where j: "j \<in> set (jobs db)" "x = (if p j then f j else j)" using x by auto
  obtain k where k: "k \<in> set (jobs db)" "y = (if p k then f k else k)" using y by auto
  have "jb_status j \<in> set OPEN" using j o(1) assms(5) [OF j(1)] by (cases "p j") simp_all
  moreover have "jb_status k \<in> set OPEN" using k o(2) assms(5) [OF k(1)] by (cases "p k") simp_all
  moreover have "jb_reverts_job_id j = jb_reverts_job_id x" "jb_reverts_job_id k = jb_reverts_job_id y"
    "jb_id x = jb_id j" "jb_id y = jb_id k"
    using j k assms(3,4) by simp_all
  ultimately show "jb_id x = jb_id y" using assms(1) j(1) k(1) r unfolding one_open_revert_def by metis
qed

lemma finished_keep:
  assumes "finished_ok db" "jobs db' = update_where p f (jobs db)" "job_rows db' = update_where q g (job_rows db)"
    and "\<And>j. jb_id (f j) = jb_id j" "\<And>r. row_key (g r) = row_key r"
    and "\<And>j. j \<in> set (jobs db) \<Longrightarrow> p j \<Longrightarrow> jb_status (f j) \<noteq> Finished"
    and "\<And>r. r \<in> set (job_rows db) \<Longrightarrow> q r \<Longrightarrow> rw_status (g r) \<noteq> R_pending"
  shows "finished_ok db'"
  unfolding finished_ok_def assms(2,3) set_update_where
proof (intro ballI impI)
  fix x y
  assume x: "x \<in> (\<lambda>r. if p r then f r else r) ` set (jobs db)" and y: "y \<in> (\<lambda>r. if q r then g r else r) ` set (job_rows db)"
    and fin: "jb_status x = Finished" and id: "rw_job_id y = jb_id x"
  obtain j where j: "j \<in> set (jobs db)" "x = (if p j then f j else j)" using x by auto
  obtain r where r: "r \<in> set (job_rows db)" "y = (if q r then g r else r)" using y by auto
  have "\<not> p j" using j fin assms(6) [OF j(1)] by auto
  with j have x: "x = j" by simp
  show "rw_status y \<noteq> R_pending"
  proof (cases "q r")
    case True
    then show ?thesis using r assms(7) by simp
  next
    case False
    then show ?thesis using r x j fin id assms(1) unfolding finished_ok_def by auto
  qed
qed

lemmas statement_simps = resume_def record_op_def Let_def settle_def claim_job_def heartbeat_def
  interruptRows_def

lemma no_update: "updated_count p rs = 0 \<Longrightarrow> update_where p f rs = rs"
  by (simp add: updated_count_0 update_where_none)

lemma update_where_False [simp]: "update_where (\<lambda>_. False) f rs = rs"
  by (simp add: update_where_none)

text \<open>Continuing.\<close>

lemma resume_db:
  obtains f where "jobs (snd (resume now audited i actor db)) =
      update_where (\<lambda>j. jb_id j = i \<and> jb_status j = Paused) f (jobs db)"
    "job_rows (snd (resume now audited i actor db)) = job_rows db"
    "f = (\<lambda>j. j\<lparr>jb_actor := actor, jb_status := Queued, jb_heartbeat_at := now, jb_pause_reason := None\<rparr>)"
  by (rule that [OF _ _ refl]) (auto simp: resume_def record_op_def Let_def no_update)

lemma resume_keeps:
  assumes "bulk_inv n db"
  shows "bulk_inv n (snd (resume now audited i actor db))" "touches i db (snd (resume now audited i actor db))"
    and "snd (resume now audited i actor db) = db
      \<or> (\<forall>j \<in> set (jobs (snd (resume now audited i actor db))). jb_id j = i \<longrightarrow> jb_status j \<notin> {Running, Finished})"
proof -
  let ?db = "snd (resume now audited i actor db)"
  obtain f where f: "jobs ?db = update_where (\<lambda>j. jb_id j = i \<and> jb_status j = Paused) f (jobs db)"
    "job_rows ?db = job_rows db"
    "f = (\<lambda>j. j\<lparr>jb_actor := actor, jb_status := Queued, jb_heartbeat_at := now, jb_pause_reason := None\<rparr>)"
    by (rule resume_db)
  have rows: "job_rows ?db = update_where (\<lambda>_. False) id (job_rows db)" by (simp add: f(2))
  show "touches i db ?db" by (rule touchesI [OF f(1) rows]) (auto simp: f(3))
  have "one_open_revert ?db"
    by (rule one_open_keep [OF _ f(1)]) (use assms in \<open>auto simp: f(3) bulk_inv_def OPEN_def\<close>)
  moreover have "finished_ok ?db"
    by (rule finished_keep [OF _ f(1) rows]) (use assms in \<open>auto simp: f(3) bulk_inv_def\<close>)
  ultimately show "bulk_inv n ?db"
    using assms
    by (intro bulk_inv_update [OF assms order_refl f(1) rows])
      (auto simp: f(3) job_fields_ok_def bulk_inv_def tokens_ok_def)
  show "?db = db \<or> (\<forall>j \<in> set (jobs ?db). jb_id j = i \<longrightarrow> jb_status j \<notin> {Running, Finished})"
  proof (cases "updated_count (\<lambda>j. jb_id j = i \<and> jb_status j = Paused) (jobs db) = 0")
    case True
    then show ?thesis by (simp add: resume_def Let_def)
  next
    case False
    have "distinct (map jb_id (jobs db))" using assms by (simp add: bulk_inv_def tables_ok_def)
    note all = hit_all_after [OF this False, of f "\<lambda>j. jb_status j = Queued"]
    have "jb_status j = Queued" if "j \<in> set (jobs ?db)" "jb_id j = i" for j
      using all [of j] that unfolding f(1) by (simp add: f(3))
    then show ?thesis by (metis insertE job_status.distinct(1) job_status.distinct(5) singletonD)
  qed
qed

lemma ids_distinct: "bulk_inv n db \<Longrightarrow> distinct (map jb_id (jobs db))"
  by (simp add: bulk_inv_def tables_ok_def)

lemma inv_parts:
  "bulk_inv n db \<Longrightarrow> one_open_revert db" "bulk_inv n db \<Longrightarrow> finished_ok db"
  "bulk_inv n db \<Longrightarrow> j \<in> set (jobs db) \<Longrightarrow> job_fields_ok j"
  "bulk_inv n db \<Longrightarrow> j \<in> set (jobs db) \<Longrightarrow> jb_run_token j = Some t \<Longrightarrow> t < n"
  "bulk_inv n db \<Longrightarrow> r \<in> set (job_rows db) \<Longrightarrow> rw_run_token r = Some t \<Longrightarrow> t < n"
  by (auto simp: bulk_inv_def tables_ok_def tokens_ok_def list_all_iff)

text \<open>A job not running and not finished: what a request leaves of the job it went through for.\<close>

definition out_of_run :: "nat \<Rightarrow> bulk_db \<Rightarrow> bool" where
  "out_of_run i db \<longleftrightarrow> (\<forall>j \<in> set (jobs db). jb_id j = i \<longrightarrow> jb_status j \<notin> {Running, Finished})"

text \<open>Cancelling.\<close>

lemma cancel_keeps:
  assumes inv: "bulk_inv n db"
  shows "bulk_inv n (snd (cancel now audited i actor db))" "touches i db (snd (cancel now audited i actor db))"
    and "snd (cancel now audited i actor db) = db \<or> out_of_run i (snd (cancel now audited i actor db))"
proof -
  let ?db = "snd (cancel now audited i actor db)"
  let ?p = "\<lambda>j. jb_id j = i \<and> jb_status j \<in> {Queued, Running, Paused}"
  let ?f = "\<lambda>j. j\<lparr>jb_status := Cancelled, jb_pause_reason := None, jb_run_token := None, jb_finished_at := Some now\<rparr>"
  let ?q = "\<lambda>r. rw_job_id r = i \<and> rw_status r = R_pending"
  let ?g = "rw_status_update (\<lambda>_. R_skipped)"
  have "bulk_inv n ?db \<and> touches i db ?db \<and> (?db = db \<or> out_of_run i ?db)"
  proof (cases "updated_count ?p (jobs db) = 0")
    case True
    then show ?thesis using inv by (simp add: cancel_def)
  next
    case False
    then have j: "jobs ?db = update_where ?p ?f (jobs db)" and r: "job_rows ?db = update_where ?q ?g (job_rows db)"
      by (simp_all add: cancel_def record_op_def Let_def)
    have "touches i db ?db" by (rule touchesI [OF j r]) (auto simp: row_key_def)
    moreover have "bulk_inv n ?db"
    proof (rule bulk_inv_update [OF inv order_refl j r])
      show "one_open_revert ?db"
        by (rule one_open_keep [OF inv_parts(1) [OF inv] j]) (auto simp: OPEN_def)
      show "finished_ok ?db"
        by (rule finished_keep [OF inv_parts(2) [OF inv] j r]) (auto simp: row_key_def)
    qed (use inv_parts(5) [OF inv] in \<open>auto simp: row_key_def job_fields_ok_def\<close>)
    moreover have "jb_status x = Cancelled" if "x \<in> set (jobs ?db)" "jb_id x = i" for x
      using hit_all_after [OF ids_distinct [OF inv] False, of ?f "\<lambda>j. jb_status j = Cancelled" x] that
      unfolding j by simp
    then have "out_of_run i ?db" by (auto simp: out_of_run_def)
    ultimately show ?thesis by blast
  qed
  then show "bulk_inv n ?db" "touches i db ?db" "?db = db \<or> out_of_run i ?db" by blast+
qed

text \<open>Retrying.\<close>

lemma retry_db:
  "snd (retry now audited j actor db) =
     (let r = retryRows now j actor db
      in case fst r of
           Inl _ \<Rightarrow> snd r
         | Inr n \<Rightarrow> if n = 0 \<or> \<not> audited then snd r
                    else add_audit ((auditBase actor (jb_id j) ''bulk.retry'')\<lparr>ba_rows := Some n\<rparr>) (snd r))"
  by (simp add: retry_def record_op_def Let_def split_beta split: sum.split)

lemma retryRows_keeps:
  assumes inv: "bulk_inv n db" and st: "find_job (jb_id j) db = Some stored"
    "jb_reverts_job_id stored = jb_reverts_job_id j"
  shows "bulk_inv n (snd (retryRows now j actor db)) \<and> touches (jb_id j) db (snd (retryRows now j actor db))
    \<and> (case fst (retryRows now j actor db) of
         Inr (Suc m) \<Rightarrow> out_of_run (jb_id j) (snd (retryRows now j actor db))
       | _ \<Rightarrow> snd (retryRows now j actor db) = db)"
proof -
  let ?i = "jb_id j" and ?db = "snd (retryRows now j actor db)"
  let ?p = "\<lambda>k. jb_id k = ?i \<and> jb_status k \<in> {Paused, Finished, Cancelled}
      \<and> (\<exists>r \<in> set (job_rows db). retryable_row ?i r)"
  let ?f = "\<lambda>k. k\<lparr>jb_actor := actor, jb_status := Queued, jb_heartbeat_at := now, jb_pause_reason := None,
      jb_finished_at := None\<rparr>"
  let ?g = "\<lambda>r. r\<lparr>rw_status := R_pending, rw_error_code := None, rw_error_message := None, rw_finished_at := None\<rparr>"
  show ?thesis
  proof (cases "fst (retryRows now j actor db)")
    case (Inl e)
    then have "?db = db" by (auto simp: retryRows_def Let_def split: if_splits)
    then show ?thesis using inv Inl by simp
  next
    case (Inr m)
    show ?thesis
    proof (cases "m = 0")
      case True
      then have "?db = db" using Inr
        by (auto simp: retryRows_def Let_def updated_count_0 split: if_splits)
      then show ?thesis using inv Inr True by simp
    next
    case False
    then have c: "updated_count ?p (jobs db) \<noteq> 0" "\<not> violates_open_revert (jb_reverts_job_id j) ?i db"
      and jj: "jobs ?db = update_where ?p ?f (jobs db)"
      and rr: "job_rows ?db = update_where (retryable_row ?i) ?g (job_rows db)"
      using Inr by (simp_all add: retryRows_def Let_def split: if_splits)
    have stored: "stored \<in> set (jobs db)" "jb_id stored = ?i"
      using st(1) by (auto simp: find_job_def find_Some_iff)
    have uniq: "k = stored" if "k \<in> set (jobs db)" "jb_id k = ?i" for k
      using distinct_key_eq [OF ids_distinct [OF inv] that(1) stored(1)] that(2) stored(2) by simp
    have queued: "jb_status x = Queued" if "x \<in> set (jobs ?db)" "jb_id x = ?i" for x
      using hit_all_after [OF ids_distinct [OF inv] c(1), of ?f "\<lambda>j. jb_status j = Queued" x] that
      unfolding jj by simp
    have t: "touches ?i db ?db" by (rule touchesI [OF jj rr]) (auto simp: row_key_def retryable_row_def)
    have one: "one_open_revert ?db"
      unfolding one_open_revert_def
    proof (intro ballI impI)
      fix x y
      assume xy: "x \<in> set (jobs ?db)" "y \<in> set (jobs ?db)" "jb_status x \<in> set OPEN" "jb_status y \<in> set OPEN"
        "jb_reverts_job_id x \<noteq> None" "jb_reverts_job_id x = jb_reverts_job_id y"
      have old: "z \<in> set (jobs db)" if "z \<in> set (jobs ?db)" "jb_id z \<noteq> ?i" for z
        using that unfolding jj by (auto simp: set_update_where split: if_splits)
      have rev: "jb_reverts_job_id z = jb_reverts_job_id j" if "z \<in> set (jobs ?db)" "jb_id z = ?i" for z
        using that uniq st(2) unfolding jj by (auto simp: set_update_where split: if_splits)
      have no: "\<not> (jb_status z \<in> set OPEN \<and> jb_reverts_job_id z = jb_reverts_job_id j)"
        if "z \<in> set (jobs db)" "jb_id z \<noteq> ?i" "jb_reverts_job_id j \<noteq> None" for z
        using c(2) that by (auto simp: violates_open_revert_def)
      show "jb_id x = jb_id y"
      proof (cases "jb_id x = ?i"; cases "jb_id y = ?i")
        assume "jb_id x \<noteq> ?i" "jb_id y \<noteq> ?i"
        with xy old inv_parts(1) [OF inv] show ?thesis unfolding one_open_revert_def by metis
      next
        assume "jb_id x = ?i" "jb_id y \<noteq> ?i"
        with xy old [of y] rev [of x] no [of y] show ?thesis by metis
      next
        assume "jb_id x \<noteq> ?i" "jb_id y = ?i"
        with xy old [of x] rev [of y] no [of x] show ?thesis by metis
      qed simp
    qed
    have fin: "finished_ok ?db"
      unfolding finished_ok_def
    proof (intro ballI impI)
      fix x r assume x: "x \<in> set (jobs ?db)" "jb_status x = Finished" and r: "r \<in> set (job_rows ?db)" "rw_job_id r = jb_id x"
      have ne: "jb_id x \<noteq> ?i" using queued x by force
      then have "x \<in> set (jobs db)" using x unfolding jj by (auto simp: set_update_where split: if_splits)
      moreover have "r \<in> set (job_rows db)"
        using r ne unfolding rr by (auto simp: set_update_where retryable_row_def split: if_splits)
      ultimately show "rw_status r \<noteq> R_pending" using inv_parts(2) [OF inv] x r by (auto simp: finished_ok_def)
    qed
    have "bulk_inv n ?db"
      by (rule bulk_inv_update [OF inv order_refl jj rr])
        (use one fin inv_parts(4,5) [OF inv] in \<open>auto simp: row_key_def job_fields_ok_def\<close>)
    moreover have "out_of_run ?i ?db" using queued by (auto simp: out_of_run_def)
    ultimately show ?thesis using t Inr False by (cases m) simp_all
    qed
  qed
qed

lemma audit_keeps [simp]:
  "bulk_inv n (add_audit e d) = bulk_inv n d"
  "touches i d0 (add_audit e d) = touches i d0 d"
  "out_of_run i (add_audit e d) = out_of_run i d"
  by (rule bulk_inv_fields; simp) (simp_all add: out_of_run_def touches_def jobs_of_def rows_of_def)

lemma retry_keeps:
  assumes inv: "bulk_inv n db" and st: "find_job (jb_id j) db = Some stored"
    "jb_reverts_job_id stored = jb_reverts_job_id j"
  shows "bulk_inv n (snd (retry now audited j actor db))" "touches (jb_id j) db (snd (retry now audited j actor db))"
    and "snd (retry now audited j actor db) = db \<or> out_of_run (jb_id j) (snd (retry now audited j actor db))"
proof -
  note k = retryRows_keeps [OF inv st, of now actor]
  have "bulk_inv n (snd (retry now audited j actor db)) \<and> touches (jb_id j) db (snd (retry now audited j actor db))
    \<and> (snd (retry now audited j actor db) = db \<or> out_of_run (jb_id j) (snd (retry now audited j actor db)))"
  proof (cases "fst (retryRows now j actor db)")
    case (Inl e)
    then show ?thesis using k inv by (simp add: retry_db Let_def)
  next
    case (Inr m)
    then show ?thesis using k inv by (cases m) (simp_all add: retry_db Let_def)
  qed
  then show "bulk_inv n (snd (retry now audited j actor db))" "touches (jb_id j) db (snd (retry now audited j actor db))"
    "snd (retry now audited j actor db) = db \<or> out_of_run (jb_id j) (snd (retry now audited j actor db))"
    by blast+
qed

text \<open>The sweep.\<close>

definition interrupted :: "ms \<Rightarrow> row_rec \<Rightarrow> row_rec" where
  "interrupted now r = r\<lparr>rw_status := R_failed, rw_error_code := Some ''interrupted'',
     rw_error_message := Some (failureMessage ''interrupted'' None), rw_finished_at := Some now\<rparr>"

lemma interrupted_simps [simp]:
  "rw_status (interrupted now r) = R_failed" "row_key (interrupted now r) = row_key r"
  "rw_job_id (interrupted now r) = rw_job_id r" "rw_run_token (interrupted now r) = rw_run_token r"
  "rw_id (interrupted now r) = rw_id r"
  by (simp_all add: interrupted_def row_key_def)

lemma interruptRows_fields [simp]:
  "jobs (interruptRows now i t db) = jobs db"
  "job_rows (interruptRows now i t db) = update_where
     (\<lambda>r. rw_job_id r = i \<and> rw_status r = R_running \<and> (case t of None \<Rightarrow> True | Some t \<Rightarrow> rw_run_token r = Some t))
     (interrupted now) (job_rows db)"
  by (simp_all add: interruptRows_def interrupted_def [abs_def])

lemma sweep_rows:
  "jobs (fold (\<lambda>j db. recordPause audited j Interrupted (interruptRows now (jb_id j) None db)) js db) = jobs db
   \<and> job_rows (fold (\<lambda>j db. recordPause audited j Interrupted (interruptRows now (jb_id j) None db)) js db) =
      update_where (\<lambda>r. rw_status r = R_running \<and> rw_job_id r \<in> jb_id ` set js) (interrupted now) (job_rows db)"
proof (induction js arbitrary: db)
  case Nil
  then show ?case by (simp add: update_where_none)
next
  case (Cons j js)
  show ?case using Cons.IH [of "recordPause audited j Interrupted (interruptRows now (jb_id j) None db)"]
    by (auto simp: update_where_def)
qed

lemma recoverStale_db:
  shows "jobs (recoverStale now audited db) = update_where (stale now)
      (\<lambda>j. j\<lparr>jb_status := Paused, jb_pause_reason := Some Interrupted, jb_run_token := None\<rparr>) (jobs db)"
    and "job_rows (recoverStale now audited db) = update_where
      (\<lambda>r. rw_status r = R_running \<and> rw_job_id r \<in> jb_id ` set (filter (stale now) (jobs db)))
      (interrupted now) (job_rows db)"
  by (simp_all add: recoverStale_def Let_def sweep_rows image_image)

lemma sweep_keeps:
  assumes inv: "bulk_inv n db"
  shows "bulk_inv n (recoverStale now audited db)"
proof -
  note j = recoverStale_db(1) [of now audited db] and r = recoverStale_db(2) [of now audited db]
  show ?thesis
  proof (rule bulk_inv_update [OF inv order_refl j r])
    show "one_open_revert (recoverStale now audited db)"
      by (rule one_open_keep [OF inv_parts(1) [OF inv] j]) (auto simp: OPEN_def stale_def)
    show "finished_ok (recoverStale now audited db)"
      by (rule finished_keep [OF inv_parts(2) [OF inv] j r]) auto
  qed (use inv_parts(5) [OF inv] in \<open>auto simp: job_fields_ok_def stale_def\<close>)
qed

lemma sweep_run:
  assumes inv: "bulk_inv n db" and R: "run_ok halt i R db"
  shows "run_ok halt i R (recoverStale now audited db)"
proof -
  let ?db = "recoverStale now audited db"
  note j = recoverStale_db(1) [of now audited db] and r = recoverStale_db(2) [of now audited db]
  have "map row_key (job_rows ?db) = map row_key (job_rows db)" unfolding r by (rule map_update_where) simp
  then have "set (map row_key (job_rows ?db)) = set (map row_key (job_rows db))" by simp
  then have keys: "row_key ` set (job_rows db) \<subseteq> row_key ` set (job_rows ?db)" by simp
  show ?thesis
  proof (cases "\<exists>x \<in> set (jobs db). jb_id x = i \<and> stale now x")
    case True
    then obtain x where x: "x \<in> set (jobs db)" "jb_id x = i" "stale now x" by blast
    have "jb_status y \<notin> {Running, Finished}" if y: "y \<in> set (jobs ?db)" "jb_id y = i" for y
    proof -
      obtain z where z: "z \<in> set (jobs db)" "y = (if stale now z then z\<lparr>jb_status := Paused,
          jb_pause_reason := Some Interrupted, jb_run_token := None\<rparr> else z)"
        using y(1) unfolding j by (auto simp: set_update_where)
      then have "jb_id z = i" using y(2) by (simp split: if_splits)
      then have "z = x" using distinct_key_eq [OF ids_distinct [OF inv] z(1) x(1)] x(2) by simp
      then show ?thesis using z(2) x(3) by simp
    qed
    then show ?thesis by (intro run_ok_lost [OF R _ keys]) blast
  next
    case False
    have "jobs_of i ?db = jobs_of i db"
      unfolding jobs_of_def j by (rule filter_update_where_other) (use False in auto)
    moreover have "rows_of i ?db = rows_of i db"
      unfolding rows_of_def r by (rule filter_update_where_other) (use False in auto)
    ultimately show ?thesis by (rule run_ok_same_job [OF R _ _ keys])
  qed
qed

text \<open>Storing a job.\<close>

lemma stored_rows_mem:
  "r \<in> set (stored_rows cache k i m rs) \<Longrightarrow> rw_job_id r = i \<and> k \<le> rw_id r \<and> rw_status r = R_pending
     \<and> rw_run_token r = None"
  by (induction rs arbitrary: k m) (fastforce simp: stored_row_def Let_def)+

lemma stored_rows_distinct: "distinct (map rw_id (stored_rows cache k i m rs))"
proof (induction rs arbitrary: k m)
  case (Cons r rs)
  have "k \<notin> rw_id ` set (stored_rows cache (Suc k) i (Suc m) rs)"
    using stored_rows_mem by fastforce
  then show ?case using Cons by (simp add: stored_row_def Let_def)
qed simp

lemma insert_db:
  assumes "insert_job newId k now audited cache actor action subject rws req db = (Inr i, db')" "ir_stored req = None"
  obtains v c where "i = newId" "jobs db' = jobs db @ [new_job newId now actor action subject v]"
    "job_rows db' = job_rows db @ stored_rows c k newId 0 rws" "\<not> violates_open_revert v newId db"
proof -
  let ?v = "map_option fst (ir_revert req)"
  let ?c = "filter (\<lambda>u. cu_provider_id u = ja_directoryId actor) cache"
  have "i = newId \<and> jobs db' = jobs db @ [new_job newId now actor action subject ?v]
    \<and> job_rows db' = job_rows db @ stored_rows ?c k newId 0 rws \<and> \<not> violates_open_revert ?v newId db"
    using assms
    by (cases "ir_secret req") (auto simp: insert_job_def Let_def split: option.splits if_splits)
  then show ?thesis using that by blast
qed

lemma insert_keeps:
  assumes inv: "bulk_inv n db"
    and fresh: "\<forall>j \<in> set (jobs db). jb_id j \<noteq> newId \<and> jb_reverts_job_id j \<noteq> Some newId"
      "\<forall>r \<in> set (job_rows db). rw_id r < k \<and> rw_job_id r \<noteq> newId"
    and ins: "insert_job newId k now audited cache actor action subject rws req db = (Inr i, db')" "ir_stored req = None"
  shows "bulk_inv n db'" "i = newId"
    and "run_ok halt m R db \<Longrightarrow> m \<noteq> newId \<Longrightarrow> run_ok halt m R db'"
proof -
  obtain v c where i: "i = newId" and j: "jobs db' = jobs db @ [new_job newId now actor action subject v]"
    and r: "job_rows db' = job_rows db @ stored_rows c k newId 0 rws" and v: "\<not> violates_open_revert v newId db"
    using insert_db [OF ins] .
  let ?new = "new_job newId now actor action subject v"
  have new: "jb_id ?new = newId" "jb_status ?new = Queued" "jb_run_token ?new = None" "job_fields_ok ?new"
    "jb_reverts_job_id ?new = v"
    by (simp_all add: new_job_def job_fields_ok_def)
  note mem = stored_rows_mem [where cache = c and k = k and i = newId and m = 0 and rs = rws]
  have "rw_id ` set (job_rows db) \<inter> rw_id ` set (stored_rows c k newId 0 rws) = {}"
    using fresh(2) mem by fastforce
  then have "tables_ok db'"
    using inv fresh new by (auto simp: bulk_inv_def tables_ok_def j r stored_rows_distinct)
  moreover have "tokens_ok n db'"
    unfolding tokens_ok_def j r
    using inv_parts(4,5) [OF inv] new(3) mem by (auto dest: mem)
  moreover have "one_open_revert db'"
    unfolding one_open_revert_def
  proof (intro ballI impI)
    fix x y
    assume xy: "x \<in> set (jobs db')" "y \<in> set (jobs db')" "jb_status x \<in> set OPEN" "jb_status y \<in> set OPEN"
      "jb_reverts_job_id x \<noteq> None" "jb_reverts_job_id x = jb_reverts_job_id y"
    have no: "\<not> (jb_status z \<in> set OPEN \<and> jb_reverts_job_id z = v)" if "z \<in> set (jobs db)" "v \<noteq> None" for z
      using v fresh(1) that by (auto simp: violates_open_revert_def)
    have old: "z \<in> set (jobs db)" if "z \<in> set (jobs db')" "z \<noteq> ?new" for z
      using that unfolding j by simp
    show "jb_id x = jb_id y"
    proof (cases "x = ?new"; cases "y = ?new")
      assume n: "x \<noteq> ?new" "y \<noteq> ?new"
      show ?thesis
        using inv_parts(1) [OF inv] old [OF xy(1) n(1)] old [OF xy(2) n(2)] xy(3-6)
        unfolding one_open_revert_def by blast
    next
      assume n: "x = ?new" "y \<noteq> ?new"
      then have "jb_reverts_job_id y = v" "v \<noteq> None" using xy(5,6) new(5) by auto
      with no [OF old [OF xy(2) n(2)]] xy(4) show ?thesis by blast
    next
      assume n: "x \<noteq> ?new" "y = ?new"
      then have "jb_reverts_job_id x = v" "v \<noteq> None" using xy(5,6) new(5) by auto
      with no [OF old [OF xy(1) n(1)]] xy(3) show ?thesis by blast
    qed simp
  qed
  moreover have "finished_ok db'"
    unfolding finished_ok_def
  proof (intro ballI impI)
    fix x y assume x: "x \<in> set (jobs db')" "jb_status x = Finished" and y: "y \<in> set (job_rows db')" "rw_job_id y = jb_id x"
    have "x \<in> set (jobs db)" using x new by (auto simp: j)
    moreover have "y \<in> set (job_rows db)" using y mem [of y] fresh(1) \<open>x \<in> set (jobs db)\<close> by (auto simp: r)
    ultimately show "rw_status y \<noteq> R_pending" using inv_parts(2) [OF inv] x y by (auto simp: finished_ok_def)
  qed
  ultimately show "bulk_inv n db'" by (simp add: bulk_inv_def)
  show "i = newId" by (fact i)
  show "run_ok halt m R db'" if "run_ok halt m R db" "m \<noteq> newId"
  proof (rule run_ok_same_job [OF that(1)])
    show "jobs_of m db' = jobs_of m db" using that(2) new by (simp add: jobs_of_def j)
    have "filter (\<lambda>r. rw_job_id r = m) (stored_rows c k newId 0 rws) = []"
      using that(2) by (auto simp: filter_empty_conv dest: mem)
    then show "rows_of m db' = rows_of m db" by (simp add: rows_of_def r)
  qed (auto simp: r)
qed

text \<open>Starting a run.\<close>

lemma claim_job_keeps:
  assumes inv: "bulk_inv n db" and c: "claim_job now i n db = (Some j, db')"
  shows "bulk_inv (Suc n) db'" "touches i db db'" "run_ok halt i (start_run j n) db'" "jb_id j = i"
proof -
  let ?p = "\<lambda>j. jb_id j = i \<and> jb_status j = Queued"
  let ?f = "\<lambda>j. j\<lparr>jb_status := Running, jb_run_token := Some n, jb_heartbeat_at := now\<rparr>"
  have jj: "jobs db' = update_where ?p ?f (jobs db)" and rr: "job_rows db' = update_where (\<lambda>_. False) id (job_rows db)"
    and f: "map_option ?f (find ?p (jobs db)) = Some j"
    using c by (auto simp: claim_job_def Let_def)
  obtain j0 where j0: "j0 \<in> set (jobs db)" "jb_id j0 = i" "jb_status j0 = Queued" "j = ?f j0"
    using f by (auto dest: find_mem)
  show "jb_id j = i" using j0 by simp
  show "touches i db db'" by (rule touchesI [OF jj rr]) auto
  show "bulk_inv (Suc n) db'"
  proof (rule bulk_inv_update [OF inv _ jj rr])
    show "one_open_revert db'"
      by (rule one_open_keep [OF inv_parts(1) [OF inv] jj]) (auto simp: OPEN_def)
    show "finished_ok db'"
      by (rule finished_keep [OF inv_parts(2) [OF inv] jj rr]) auto
  qed (auto simp: job_fields_ok_def)
  have "updated_count ?p (jobs db) \<noteq> 0" using j0 by (auto simp: updated_count_0)
  from hit_all_after [OF ids_distinct [OF inv] this, of ?f "\<lambda>j. jb_status j = Running"]
  have "jb_status x = Running" if "x \<in> set (jobs db')" "jb_id x = i" for x
    using that unfolding jj by simp
  moreover have "rw_run_token x \<noteq> Some n" if "x \<in> set (job_rows db')" for x
    using inv_parts(5) [OF inv, of x n] that by (auto simp: rr)
  ultimately show "run_ok halt i (start_run j n) db'"
    using j0 by (auto simp: run_ok_def start_run_def ROW_CONCURRENCY_def held_ids_def map_filter_simps numeral_eq_Suc)
qed

text \<open>A run's heartbeat.\<close>

lemma heartbeat_keeps:
  assumes inv: "bulk_inv n db"
  shows "bulk_inv n (heartbeat now i t db)" "touches i db (heartbeat now i t db)"
    and "run_ok halt i R db \<Longrightarrow> run_ok halt i R (heartbeat now i t db)"
proof -
  let ?p = "\<lambda>j. jb_id j = i \<and> jb_run_token j = Some t" and ?f = "jb_heartbeat_at_update (\<lambda>_. now)"
  let ?db = "heartbeat now i t db"
  have jj: "jobs ?db = update_where ?p ?f (jobs db)" and rr: "job_rows ?db = update_where (\<lambda>_. False) id (job_rows db)"
    by (simp_all add: heartbeat_def)
  show "touches i db ?db" by (rule touchesI [OF jj rr]) auto
  show "bulk_inv n ?db"
  proof (rule bulk_inv_update [OF inv _ jj rr])
    show "one_open_revert ?db" by (rule one_open_keep [OF inv_parts(1) [OF inv] jj]) auto
    show "finished_ok ?db"
      unfolding finished_ok_def jj rr using inv_parts(2) [OF inv]
      by (auto simp: finished_ok_def set_update_where split: if_splits)
  qed (use inv_parts(4) [OF inv] in \<open>auto simp: job_fields_ok_def\<close>)
  have hold: "holds_job i t' ?db = holds_job i t' db" for t'
    unfolding holds_job_def jj by (rule bex_update_where) simp
  have fin: "(\<forall>j \<in> set (jobs ?db). jb_id j = i \<longrightarrow> jb_status j \<noteq> Finished) =
      (\<forall>j \<in> set (jobs db). jb_id j = i \<longrightarrow> jb_status j \<noteq> Finished)"
    unfolding jj by (rule ball_update_where) simp
  have "job_rows ?db = job_rows db" by (simp add: rr)
  then show "run_ok halt i R db \<Longrightarrow> run_ok halt i R ?db" unfolding run_ok_def hold fin by simp
qed

text \<open>Claiming a row.\<close>

definition claimed :: "ms \<Rightarrow> nat \<Rightarrow> row_rec \<Rightarrow> row_rec" where
  "claimed now t r = r\<lparr>rw_status := R_running, rw_run_token := Some t, rw_attempts := rw_attempts r + 1,
     rw_started_at := Some now\<rparr>"

lemma claimed_simps [simp]:
  "rw_status (claimed now t r) = R_running" "rw_run_token (claimed now t r) = Some t"
  "row_key (claimed now t r) = row_key r" "rw_id (claimed now t r) = rw_id r"
  "rw_job_id (claimed now t r) = rw_job_id r"
  by (simp_all add: claimed_def row_key_def)

lemma claimRow_Some:
  assumes "claimRow now i t db = (Some r, db')"
  obtains r0 where "holds_job i t db" "r0 \<in> set (job_rows db)" "claimable i db r0" "r = claimed now t r0"
    "db' = db\<lparr>job_rows := update_where (\<lambda>x. rw_id x = rw_id r0) (claimed now t) (job_rows db)\<rparr>"
    "\<And>x. x \<in> set (job_rows db) \<Longrightarrow> claimable i db x \<Longrightarrow> rw_ordinal r0 \<le> rw_ordinal x"
proof -
  have h: "holds_job i t db" using assms by (auto simp: claimRow_def split: if_splits)
  obtain r0 rs where srt: "sort_key rw_ordinal (filter (claimable i db) (job_rows db)) = r0 # rs"
    using assms h by (cases "sort_key rw_ordinal (filter (claimable i db) (job_rows db))") (auto simp: claimRow_def)
  have mem: "set (r0 # rs) = set (filter (claimable i db) (job_rows db))" using srt by (metis set_sort)
  have "sorted (map rw_ordinal (r0 # rs))" using srt by (metis sorted_sort_key)
  then have least: "rw_ordinal r0 \<le> rw_ordinal x" if "x \<in> set (r0 # rs)" for x using that by auto
  show ?thesis
  proof (rule that [OF h])
    show "r0 \<in> set (job_rows db)" "claimable i db r0" using mem by auto
    show "r = claimed now t r0" "db' = db\<lparr>job_rows := update_where (\<lambda>x. rw_id x = rw_id r0) (claimed now t) (job_rows db)\<rparr>"
      using assms h srt by (simp_all add: claimRow_def Let_def claimed_def [abs_def])
    show "\<And>x. x \<in> set (job_rows db) \<Longrightarrow> claimable i db x \<Longrightarrow> rw_ordinal r0 \<le> rw_ordinal x"
      using least mem by auto
  qed
qed

lemma claim_keeps:
  assumes inv: "bulk_inv n db" and c: "claimRow now i t db = (Some r, db')" and t: "t < n"
  shows "bulk_inv n db'" "touches i db db'"
proof -
  obtain r0 where r0: "r0 \<in> set (job_rows db)" "claimable i db r0"
    "db' = db\<lparr>job_rows := update_where (\<lambda>x. rw_id x = rw_id r0) (claimed now t) (job_rows db)\<rparr>"
    using claimRow_Some [OF c] by metis
  have jj: "jobs db' = update_where (\<lambda>_. False) id (jobs db)"
    and rr: "job_rows db' = update_where (\<lambda>x. rw_id x = rw_id r0) (claimed now t) (job_rows db)"
    using r0(3) by simp_all
  have dist: "distinct (map rw_id (job_rows db))" using inv by (simp add: bulk_inv_def tables_ok_def)
  have same: "x = r0" if "x \<in> set (job_rows db)" "rw_id x = rw_id r0" for x
    by (rule distinct_key_eq [OF dist that(1) r0(1) that(2)])
  show "touches i db db'"
    by (rule touchesI [OF jj rr]) (use same r0(2) in \<open>auto simp: claimable_def\<close>)
  show "bulk_inv n db'"
  proof (rule bulk_inv_update [OF inv order_refl jj rr])
    show "one_open_revert db'" by (rule one_open_keep [OF inv_parts(1) [OF inv] jj]) auto
    show "finished_ok db'" by (rule finished_keep [OF inv_parts(2) [OF inv] jj rr]) auto
  qed (use t in auto)
qed

section \<open>What the steps of a run keep of it\<close>

definition held_at :: "worker \<Rightarrow> nat list" where
  "held_at p = (case held_row_id p of None \<Rightarrow> [] | Some k \<Rightarrow> [k])"

lemma held_at_simps [simp]:
  "held_at W_ready = []" "held_at W_claiming = []" "held_at W_checking = []" "held_at W_gone = []"
  "held_at (W_row r) = [rw_id r]"
  by (simp_all add: held_at_def)

lemma held_ids_alt: "held_ids R = concat (map held_at (rn_workers R))"
proof -
  have "List.map_filter held_row_id ws = concat (map held_at ws)" for ws
    by (induction ws) (auto simp: map_filter_simps held_at_def split: option.split)
  then show ?thesis by (simp add: held_ids_def)
qed

lemma workers_split:
  assumes "w < length (rn_workers R)"
  obtains A B where "rn_workers R = A @ (rn_workers R ! w) # B"
    "\<And>p. rn_workers (set_worker w p R) = A @ p # B"
    "held_ids R = concat (map held_at A) @ held_at (rn_workers R ! w) @ concat (map held_at B)"
    "\<And>p. held_ids (set_worker w p R) = concat (map held_at A) @ held_at p @ concat (map held_at B)"
proof (rule that [of "take w (rn_workers R)" "drop (Suc w) (rn_workers R)"])
  show ws: "rn_workers R = take w (rn_workers R) @ (rn_workers R ! w) # drop (Suc w) (rn_workers R)"
    using assms by (rule id_take_nth_drop)
  show up: "rn_workers (set_worker w p R) = take w (rn_workers R) @ p # drop (Suc w) (rn_workers R)" for p
    using assms by (simp add: set_worker_def upd_conv_take_nth_drop)
  have "concat (map held_at (rn_workers R)) = concat (map held_at
      (take w (rn_workers R) @ (rn_workers R ! w) # drop (Suc w) (rn_workers R)))"
    using ws by simp
  then show "held_ids R = concat (map held_at (take w (rn_workers R))) @ held_at (rn_workers R ! w)
      @ concat (map held_at (drop (Suc w) (rn_workers R)))"
    by (simp only: held_ids_alt) simp
  show "held_ids (set_worker w p R) = concat (map held_at (take w (rn_workers R))) @ held_at p
      @ concat (map held_at (drop (Suc w) (rn_workers R)))" for p
    by (simp only: held_ids_alt up) simp
qed

lemma set_worker_fields [simp]:
  "rn_job (set_worker w p R) = rn_job R" "rn_token (set_worker w p R) = rn_token R"
  "rn_pause (set_worker w p R) = rn_pause R"
  "(rn_workers (set_worker w p R) = []) = (rn_workers R = [])"
  by (simp_all add: set_worker_def)

text \<open>
  A worker that holds no row moves on without one: fine if it doesn't leave, or leaves a run
  that is pausing or has no row pending.
\<close>

lemma move_keeps:
  assumes R: "run_ok halt i R db" and w: "w < length (rn_workers R)" "held_at (rn_workers R ! w) = []" "held_at p = []"
    and pause: "rn_pause R \<noteq> None \<longrightarrow> pz \<noteq> None"
    and leave: "p = W_gone \<Longrightarrow> pz = None \<Longrightarrow> \<not> halt \<Longrightarrow> holds_job i (rn_token R) db \<Longrightarrow>
        \<forall>x \<in> set (job_rows db). rw_job_id x = i \<longrightarrow> rw_status x \<noteq> R_pending"
  shows "run_ok halt i ((set_worker w p R)\<lparr>rn_pause := pz\<rparr>) db"
proof -
  obtain A B where s: "rn_workers R = A @ (rn_workers R ! w) # B" "\<And>p. rn_workers (set_worker w p R) = A @ p # B"
      "held_ids R = concat (map held_at A) @ held_at (rn_workers R ! w) @ concat (map held_at B)"
      "\<And>p. held_ids (set_worker w p R) = concat (map held_at A) @ held_at p @ concat (map held_at B)"
    using workers_split [OF w(1)] by metis
  have h: "held_ids ((set_worker w p R)\<lparr>rn_pause := pz\<rparr>) = held_ids R"
    using s(3) s(4) [of p] w(2,3) by (simp add: held_ids_def)
  have g: "p \<noteq> W_gone \<Longrightarrow> W_gone \<in> set (rn_workers (set_worker w p R)) \<Longrightarrow> W_gone \<in> set (rn_workers R)"
    using s(1) s(2) [of p] by (metis in_set_conv_decomp set_ConsD Un_iff set_append list.set_intros(2))
  show ?thesis
    using R pause leave g unfolding run_ok_def h by (auto simp: s(2))
qed

text \<open>A worker that leaves because it failed: the run pauses, and its row stays as it is.\<close>

lemma fail_keeps:
  assumes R: "run_ok halt i R db" and w: "w < length (rn_workers R)"
  shows "run_ok halt i ((set_worker w W_gone R)\<lparr>rn_pause := Some x\<rparr>) db"
proof -
  obtain A B where s: "held_ids R = concat (map held_at A) @ held_at (rn_workers R ! w) @ concat (map held_at B)"
      "\<And>p. held_ids (set_worker w p R) = concat (map held_at A) @ held_at p @ concat (map held_at B)"
    using workers_split [OF w] by metis
  have h: "held_ids ((set_worker w W_gone R)\<lparr>rn_pause := Some x\<rparr>) = concat (map held_at A) @ concat (map held_at B)"
    using s(2) [of W_gone] by (simp add: held_ids_def)
  have sub: "set (concat (map held_at A) @ concat (map held_at B)) \<subseteq> set (held_ids R)"
    "distinct (held_ids R) \<Longrightarrow> distinct (concat (map held_at A) @ concat (map held_at B))"
    unfolding s(1) by auto
  show ?thesis using R sub unfolding run_ok_def h by auto
qed

lemma claim_run:
  assumes inv: "bulk_inv n db" and R: "run_ok halt i R db" and w: "w < length (rn_workers R)" "rn_workers R ! w = W_claiming"
    and c: "claimRow now i (rn_token R) db = (Some r, db')"
  shows "run_ok halt i (set_worker w (W_row r) R) db'"
proof -
  let ?t = "rn_token R"
  obtain r0 where hold: "holds_job i ?t db" and r0: "r0 \<in> set (job_rows db)" "claimable i db r0" "r = claimed now ?t r0"
      and db': "db' = db\<lparr>job_rows := update_where (\<lambda>x. rw_id x = rw_id r0) (claimed now ?t) (job_rows db)\<rparr>"
    using claimRow_Some [OF c] by metis
  have dist: "distinct (map rw_id (job_rows db))" using inv by (simp add: bulk_inv_def tables_ok_def)
  have same: "x = r0" if "x \<in> set (job_rows db)" "rw_id x = rw_id r0" for x
    by (rule distinct_key_eq [OF dist that(1) r0(1) that(2)])
  have p0: "rw_job_id r0 = i" "rw_status r0 = R_pending" using r0(2) by (simp_all add: claimable_def)
  have mem: "x \<in> set (job_rows db') \<longleftrightarrow> x = claimed now ?t r0 \<or> (x \<in> set (job_rows db) \<and> rw_id x \<noteq> rw_id r0)" for x
    using same r0(1) by (auto simp: db' set_update_where image_iff)
  obtain A B where s: "rn_workers R = A @ (rn_workers R ! w) # B" "\<And>p. rn_workers (set_worker w p R) = A @ p # B"
      "held_ids R = concat (map held_at A) @ held_at (rn_workers R ! w) @ concat (map held_at B)"
      "\<And>p. held_ids (set_worker w p R) = concat (map held_at A) @ held_at p @ concat (map held_at B)"
    using workers_split [OF w(1)] by metis
  have B: "\<exists>x \<in> set (job_rows db). rw_job_id x = i \<and> rw_id x = k \<and> rw_status x = R_running \<and> rw_run_token x = Some ?t"
    if "k \<in> set (held_ids R)" for k
    using R hold that unfolding run_ok_def by blast
  have new: "rw_id r0 \<notin> set (held_ids R)" using B same p0(2) by force
  have ids: "set (held_ids (set_worker w (W_row r) R)) = insert (rw_id r0) (set (held_ids R))"
    "distinct (held_ids (set_worker w (W_row r) R))"
    using R new unfolding run_ok_def s(3) s(4) w(2) by (auto simp: r0(3))
  have hold': "holds_job i ?t db' = holds_job i ?t db" "jobs db' = jobs db" by (simp_all add: holds_job_def db')
  have "map row_key (job_rows db') = map row_key (job_rows db)"
    unfolding db' by (simp add: map_update_where)
  then have "set (map row_key (job_rows db')) = set (map row_key (job_rows db))" by simp
  then have keys: "row_key ` set (job_rows db') = row_key ` set (job_rows db)" by simp
  have gone: "W_gone \<in> set (rn_workers (set_worker w (W_row r) R)) \<Longrightarrow> W_gone \<in> set (rn_workers R)"
    using s(1) s(2) [of "W_row r"] by (metis Un_iff list.set_intros(2) set_ConsD set_append worker.distinct(19))
  have key0: "(rw_id r0, i) \<in> row_key ` set (job_rows db)" using r0(1) p0(1) by (force simp: row_key_def)
  show ?thesis
    unfolding run_ok_def hold' keys set_worker_fields ids(1)
  proof (intro conjI impI ballI ids(2))
    show "jb_id (rn_job R) = i" "rn_workers R \<noteq> []" using R by (simp_all add: run_ok_def)
    show "jb_status j \<noteq> Finished" if "j \<in> set (jobs db)" "jb_id j = i" for j
      using R that by (simp add: run_ok_def)
    show "(k, i) \<in> row_key ` set (job_rows db)" if "k \<in> insert (rw_id r0) (set (held_ids R))" for k
      using R that key0 by (auto simp: run_ok_def)
    show "\<exists>x \<in> set (job_rows db'). rw_job_id x = i \<and> rw_id x = k \<and> rw_status x = R_running \<and> rw_run_token x = Some ?t"
      if "k \<in> insert (rw_id r0) (set (held_ids R))" for k
    proof (cases "k = rw_id r0")
      case True
      then show ?thesis using p0(1) by (intro bexI [of _ "claimed now ?t r0"]) (simp_all add: mem)
    next
      case False
      with that B obtain x where "x \<in> set (job_rows db)" "rw_job_id x = i" "rw_id x = k" "rw_status x = R_running"
          "rw_run_token x = Some ?t" by blast
      with False show ?thesis by (intro bexI [of _ x]) (simp_all add: mem)
    qed
    show "rw_id x \<in> insert (rw_id r0) (set (held_ids R))"
      if "rn_pause R = None" "x \<in> set (job_rows db')" "rw_job_id x = i" "rw_status x = R_running" "rw_run_token x = Some ?t" for x
      using R hold that unfolding run_ok_def by (auto simp: mem)
    show "rw_status x \<noteq> R_pending"
      if "rn_pause R = None" "\<not> halt" "W_gone \<in> set (rn_workers (set_worker w (W_row r) R))" "x \<in> set (job_rows db')" "rw_job_id x = i" for x
      using R hold that gone unfolding run_ok_def by (auto simp: mem)
  qed
qed

text \<open>Ending a row.\<close>

definition ended :: "ms \<Rightarrow> handler_result \<Rightarrow> row_rec \<Rightarrow> row_rec" where
  "ended now res r =
     (case outcome_of res of None \<Rightarrow> r\<lparr>rw_status := R_pending\<rparr> | Some out \<Rightarrow> settled_row now out r)"

lemma ended_simps [simp]:
  "row_key (ended now res r) = row_key r" "rw_run_token (ended now res r) = rw_run_token r"
  "rw_id (ended now res r) = rw_id r" "rw_job_id (ended now res r) = rw_job_id r"
  "rw_status (ended now res r) \<noteq> R_running"
  by (auto simp: ended_def settled_row_def row_key_def split: option.split row_outcome.split)

lemma ended_pending: "rw_status (ended now res r) = R_pending \<longleftrightarrow> outcome_of res = None"
  by (auto simp: ended_def settled_row_def split: option.split row_outcome.split)

lemma finish_db:
  assumes "finish_row now audited job r t res db = (p, db')"
  shows "jobs db' = jobs db"
    and "job_rows db' = update_where (token_row (rw_id r) t) (ended now res) (job_rows db)"
    and "p = pause_of res"
  using assms
  by (auto simp: finish_row_def release_row_def settle_row_def ended_def [abs_def] split: option.splits)

lemma finish_keeps:
  assumes inv: "bulk_inv n db" and R: "run_ok halt i R db" and w: "w < length (rn_workers R)" "rn_workers R ! w = W_row r"
    and f: "finish_row now audited (rn_job R) r (rn_token R) res db = (p, db')"
    and q: "q = (case p of Some x \<Rightarrow> Some x | None \<Rightarrow> rn_pause R)"
  shows "bulk_inv n db'" "touches i db db'" "run_ok halt i ((set_worker w W_ready R)\<lparr>rn_pause := q\<rparr>) db'"
proof -
  let ?t = "rn_token R" and ?k = "rw_id r"
  let ?R = "(set_worker w W_ready R)\<lparr>rn_pause := q\<rparr>"
  note d = finish_db [OF f]
  have jj: "jobs db' = update_where (\<lambda>_. False) id (jobs db)" using d(1) by simp
  note rr = d(2)
  obtain A B where s: "rn_workers R = A @ (rn_workers R ! w) # B" "\<And>p. rn_workers (set_worker w p R) = A @ p # B"
      "held_ids R = concat (map held_at A) @ held_at (rn_workers R ! w) @ concat (map held_at B)"
      "\<And>p. held_ids (set_worker w p R) = concat (map held_at A) @ held_at p @ concat (map held_at B)"
    using workers_split [OF w(1)] by metis
  have dist: "distinct (map rw_id (job_rows db))" using inv by (simp add: bulk_inv_def tables_ok_def)
  have kin: "?k \<in> set (held_ids R)" using s(3) w(2) by simp
  then have "(?k, i) \<in> row_key ` set (job_rows db)" using R by (simp add: run_ok_def)
  then obtain x0 where x0: "x0 \<in> set (job_rows db)" "rw_id x0 = ?k" "rw_job_id x0 = i" by (auto simp: row_key_def)
  have mine: "rw_job_id x = i" if "x \<in> set (job_rows db)" "token_row ?k ?t x" for x
    using distinct_key_eq [OF dist that(1) x0(1)] that(2) x0 by (simp add: token_row_def)
  show t: "touches i db db'" by (rule touchesI [OF jj rr]) (use mine in auto)
  have not_fin: "jb_status j \<noteq> Finished" if "j \<in> set (jobs db)" "jb_id j = i" for j
    using R that by (simp add: run_ok_def)
  show "bulk_inv n db'"
  proof (rule bulk_inv_update [OF inv order_refl jj rr])
    show "one_open_revert db'" by (rule one_open_keep [OF inv_parts(1) [OF inv] jj]) auto
    show "finished_ok db'"
      unfolding finished_ok_def d(1)
    proof (intro ballI impI)
      fix j x assume j: "j \<in> set (jobs db)" "jb_status j = Finished" and x: "x \<in> set (job_rows db')" "rw_job_id x = jb_id j"
      obtain y where y: "y \<in> set (job_rows db)" "x = (if token_row ?k ?t y then ended now res y else y)"
        using x(1) by (auto simp: rr set_update_where)
      have "\<not> token_row ?k ?t y"
      proof
        assume h: "token_row ?k ?t y"
        then have "jb_id j = i" using mine [OF y(1) h] y(2) x(2) by simp
        then show False using not_fin j by blast
      qed
      then show "rw_status x \<noteq> R_pending" using y inv_parts(2) [OF inv] j x(2) by (auto simp: finished_ok_def)
    qed
  qed (use inv_parts(5) [OF inv] in auto)
  have ids: "held_ids ?R = concat (map held_at A) @ concat (map held_at B)"
    using s(4) [of W_ready] by (simp add: held_ids_def)
  have idset: "set (held_ids ?R) = set (held_ids R) - {?k}" "distinct (held_ids ?R)"
    using R unfolding ids run_ok_def s(3) w(2) by auto
  have "set (map row_key (job_rows db')) = set (map row_key (job_rows db))"
    using t by (simp only: touches_def)
  then have keys: "row_key ` set (job_rows db') = row_key ` set (job_rows db)" by simp
  have gone: "W_gone \<in> set (rn_workers ?R) \<Longrightarrow> W_gone \<in> set (rn_workers R)"
    using s(1) s(2) [of W_ready] by (simp, metis in_set_conv_decomp set_ConsD Un_iff set_append list.set_intros(2))
  have hold: "holds_job i ?t db' = holds_job i ?t db" by (simp add: holds_job_def d(1))
  have no_pause: "rn_pause R = None \<and> outcome_of res \<noteq> None" if "q = None"
    using that q d(3) by (auto simp: pause_of_def split: option.splits row_outcome.splits if_splits)
  show "run_ok halt i ?R db'"
    unfolding run_ok_def d(1) keys
  proof (intro conjI impI ballI idset(2))
    show "jb_id (rn_job ?R) = i" "rn_workers ?R \<noteq> []" using R by (simp_all add: run_ok_def)
    show "jb_status j \<noteq> Finished" if "j \<in> set (jobs db)" "jb_id j = i" for j using not_fin that .
    show "(k, i) \<in> row_key ` set (job_rows db)" if "k \<in> set (held_ids ?R)" for k
      using R that idset(1) by (simp add: run_ok_def)
  next
    fix k assume h: "holds_job i (rn_token ?R) db'" and k: "k \<in> set (held_ids ?R)"
    then have "k \<in> set (held_ids R)" "k \<noteq> ?k" using idset(1) by auto
    moreover have "holds_job i ?t db" using h hold by simp
    ultimately obtain x where "x \<in> set (job_rows db)" "rw_job_id x = i" "rw_id x = k" "rw_status x = R_running"
        "rw_run_token x = Some ?t"
      using R unfolding run_ok_def by blast
    with \<open>k \<noteq> ?k\<close> show "\<exists>x \<in> set (job_rows db'). rw_job_id x = i \<and> rw_id x = k \<and> rw_status x = R_running
        \<and> rw_run_token x = Some (rn_token ?R)"
      by (intro bexI [of _ x]) (auto simp: rr set_update_where token_row_def image_iff intro!: bexI [of _ x])
  next
    fix x assume h: "holds_job i (rn_token ?R) db'" and z: "rn_pause ?R = None" and x: "x \<in> set (job_rows db')" "rw_job_id x = i"
      "rw_status x = R_running" "rw_run_token x = Some (rn_token ?R)"
    obtain y where y: "y \<in> set (job_rows db)" "x = (if token_row ?k ?t y then ended now res y else y)"
      using x(1) by (auto simp: rr set_update_where)
    then have "\<not> token_row ?k ?t y" "x = y" using x(3) by (auto split: if_splits)
    moreover have "rw_id y \<in> set (held_ids R)"
      using R h hold no_pause z x y(1) \<open>x = y\<close> unfolding run_ok_def by auto
    ultimately show "rw_id x \<in> set (held_ids ?R)" using x(4) by (auto simp: idset(1) token_row_def)
  next
    fix x assume h: "holds_job i (rn_token ?R) db'" and z: "rn_pause ?R = None" and g: "W_gone \<in> set (rn_workers ?R)" "\<not> halt"
      and x: "x \<in> set (job_rows db')" "rw_job_id x = i"
    obtain y where y: "y \<in> set (job_rows db)" "x = (if token_row ?k ?t y then ended now res y else y)"
      using x(1) by (auto simp: rr set_update_where)
    show "rw_status x \<noteq> R_pending"
    proof (cases "token_row ?k ?t y")
      case True
      then show ?thesis using y(2) no_pause z by (simp add: ended_pending)
    next
      case False
      then show ?thesis using R h hold no_pause z gone [OF g(1)] g(2) x y unfolding run_ok_def by auto
    qed
  qed
qed

text \<open>Settling: only a run whose every worker is done does.\<close>

lemma settle_keeps:
  assumes inv: "bulk_inv n db" and R: "run_ok halt i R db" and gone: "\<forall>p \<in> set (rn_workers R). p = W_gone"
    and pz: "pause = None \<Longrightarrow> rn_pause R = None \<and> \<not> halt"
  shows "bulk_inv n (settle now audited (rn_job R) (rn_token R) pause db)"
    and "touches i db (settle now audited (rn_job R) (rn_token R) pause db)"
proof -
  let ?t = "rn_token R" and ?db = "settle now audited (rn_job R) (rn_token R) pause db"
  let ?p = "\<lambda>j. jb_id j = i \<and> jb_run_token j = Some ?t \<and> jb_status j = Running"
  have id: "jb_id (rn_job R) = i" using R by (simp add: run_ok_def)
  have "bulk_inv n ?db \<and> touches i db ?db"
  proof (cases "updated_count ?p (jobs db) = 0")
    case True
    then show ?thesis using inv by (simp add: settle_def id)
  next
    case hit: False
    show ?thesis
    proof (cases pause)
      case None
      let ?f = "\<lambda>j. j\<lparr>jb_status := Finished, jb_run_token := None, jb_finished_at := Some now\<rparr>"
      have jj: "jobs ?db = update_where ?p ?f (jobs db)" and rr: "job_rows ?db = update_where (\<lambda>_. False) id (job_rows db)"
        using hit None by (simp_all add: settle_def id)
      have "holds_job i ?t db" using hit by (auto simp: updated_count_0 holds_job_def)
      moreover have "W_gone \<in> set (rn_workers R)" using gone R by (cases "rn_workers R") (auto simp: run_ok_def)
      ultimately have none: "rw_status x \<noteq> R_pending" if "x \<in> set (job_rows db)" "rw_job_id x = i" for x
        using R pz [OF None] that unfolding run_ok_def by simp
      have "finished_ok ?db"
        unfolding finished_ok_def
      proof (intro ballI impI)
        fix j x assume j: "j \<in> set (jobs ?db)" "jb_status j = Finished" and x: "x \<in> set (job_rows ?db)" "rw_job_id x = jb_id j"
        obtain k where k: "k \<in> set (jobs db)" "j = (if ?p k then ?f k else k)" using j(1) by (auto simp: jj set_update_where)
        show "rw_status x \<noteq> R_pending"
        proof (cases "?p k")
          case True
          then show ?thesis using k x none by (simp add: rr)
        next
          case False
          then show ?thesis using k j(2) x inv_parts(2) [OF inv] by (auto simp: rr finished_ok_def)
        qed
      qed
      moreover have "one_open_revert ?db"
        by (rule one_open_keep [OF inv_parts(1) [OF inv] jj]) (auto simp: OPEN_def)
      ultimately have "bulk_inv n ?db"
        by (intro bulk_inv_update [OF inv order_refl jj rr]) (auto simp: job_fields_ok_def)
      moreover have "touches i db ?db" by (rule touchesI [OF jj rr]) auto
      ultimately show ?thesis ..
    next
      case (Some x)
      let ?f = "\<lambda>j. j\<lparr>jb_status := Paused, jb_pause_reason := Some x, jb_run_token := None\<rparr>"
      let ?q = "\<lambda>r. rw_job_id r = i \<and> rw_status r = R_running \<and> rw_run_token r = Some ?t"
      have jj: "jobs ?db = update_where ?p ?f (jobs db)"
        and rr: "job_rows ?db = update_where ?q (interrupted now) (job_rows db)"
        using hit Some by (simp_all add: settle_def id)
      have "one_open_revert ?db"
        by (rule one_open_keep [OF inv_parts(1) [OF inv] jj]) (auto simp: OPEN_def)
      moreover have "finished_ok ?db"
        by (rule finished_keep [OF inv_parts(2) [OF inv] jj rr]) auto
      ultimately have "bulk_inv n ?db"
        by (intro bulk_inv_update [OF inv order_refl jj rr])
          (use inv_parts(5) [OF inv] in \<open>auto simp: job_fields_ok_def\<close>)
      moreover have "touches i db ?db" by (rule touchesI [OF jj rr]) auto
      ultimately show ?thesis ..
    qed
  qed
  then show "bulk_inv n ?db" "touches i db ?db" by blast+
qed

section \<open>What holds in every state\<close>

definition sys_inv :: "bulk_sys \<Rightarrow> bool" where
  "sys_inv s \<longleftrightarrow>
     bulk_inv (sy_next s) (sy_db s)
     \<and> (\<forall>i R. jm_get (sy_runs s) i = Some R \<longrightarrow> run_ok (sy_stopping s) i R (sy_db s) \<and> rn_token R < sy_next s)"

lemma sys_inv_fields [simp]:
  "sys_inv (s\<lparr>sy_kicks := ks\<rparr>) = sys_inv s" "sys_inv (kick i s) = sys_inv s"
  by (simp_all add: sys_inv_def kick_def)

text \<open>A request on one job: the runs of the others go on, and its own has lost the job.\<close>

lemma request_keeps:
  assumes inv: "sys_inv s" and k: "bulk_inv (sy_next s) db'" "touches i (sy_db s) db'"
    and l: "db' = sy_db s \<or> out_of_run i db'"
  shows "sys_inv (s\<lparr>sy_db := db'\<rparr>)"
proof -
  have "set (map row_key (job_rows db')) = set (map row_key (job_rows (sy_db s)))"
    using k(2) by (simp only: touches_def)
  then have keys: "row_key ` set (job_rows (sy_db s)) \<subseteq> row_key ` set (job_rows db')" by simp
  have "run_ok halt m R db'" if "run_ok halt m R (sy_db s)" for halt m R
  proof (cases "m = i")
    case False
    then show ?thesis by (rule run_ok_other [OF that k(2)])
  next
    case True
    then show ?thesis using l that run_ok_lost [OF that _ keys] by (auto simp: out_of_run_def)
  qed
  then show ?thesis using inv k(1) by (simp add: sys_inv_def)
qed

lemma after_op_keeps: "sys_inv (s\<lparr>sy_db := snd r\<rparr>) \<Longrightarrow> sys_inv (after_op i r s)"
  by (simp add: after_op_def Let_def)

text \<open>A step of one run, beside the others.\<close>

lemma run_keeps:
  assumes inv: "sys_inv s" and R: "jm_get (sy_runs s) i = Some R"
    and k: "bulk_inv (sy_next s) db'" "touches i (sy_db s) db'" "run_ok (sy_stopping s) i R' db'" "rn_token R' = rn_token R"
  shows "sys_inv (s\<lparr>sy_db := db', sy_runs := jm_set i R' (sy_runs s)\<rparr>)"
proof -
  have "run_ok (sy_stopping s) m Q db' \<and> rn_token Q < sy_next s" if "jm_get (jm_set i R' (sy_runs s)) m = Some Q" for m Q
  proof (cases "m = i")
    case True
    then show ?thesis using that k(3,4) R inv by (auto simp: sys_inv_def)
  next
    case False
    then have "jm_get (sy_runs s) m = Some Q" using that by simp
    then show ?thesis using inv run_ok_other [OF _ k(2) False] by (auto simp: sys_inv_def)
  qed
  then show ?thesis using k(1) by (simp add: sys_inv_def)
qed

lemma run_step_keeps:
  assumes inv: "bulk_inv n db" and R: "run_ok halt i R db" and t: "rn_token R < n"
    and st: "run_step now halt (db, R) (db', R')"
  shows "bulk_inv n db' \<and> touches i db db' \<and> run_ok halt i R' db' \<and> rn_token R' = rn_token R"
proof -
  have id: "jb_id (rn_job R) = i" using R by (simp add: run_ok_def)
  have none: "\<forall>x \<in> set (job_rows db). rw_job_id x = i \<longrightarrow> rw_status x \<noteq> R_pending"
    if "\<not> waiting i (rn_token R) db" "holds_job i (rn_token R) db"
    using that by (auto simp: waiting_def rows_of_def)
  have same: "(set_worker w p R)\<lparr>rn_pause := rn_pause R\<rparr> = set_worker w p R" for w p
    by (simp add: set_worker_def)
  have move: "run_ok halt i (set_worker w p R) db"
    if "w < length (rn_workers R)" "held_at (rn_workers R ! w) = []" "held_at p = []"
      "p = W_gone \<Longrightarrow> rn_pause R = None \<Longrightarrow> \<not> halt \<Longrightarrow> holds_job i (rn_token R) db \<Longrightarrow>
        \<forall>x \<in> set (job_rows db). rw_job_id x = i \<longrightarrow> rw_status x \<noteq> R_pending" for w p
    using move_keeps [OF R that(1-3), of "rn_pause R"] that(4) by (simp add: same)
  from st show ?thesis
  proof cases
    case (Leaves w)
    then show ?thesis using inv move [of w W_gone] by auto
  next
    case (No_credentials w)
    then show ?thesis using inv move_keeps [OF R, of w W_gone "Some Step_up_required"] by simp
  next
    case (Authorised w)
    then show ?thesis using inv move [of w W_claiming] by simp
  next
    case (Gives_way w)
    then show ?thesis using inv move [of w W_gone] by auto
  next
    case (Claims w r)
    then show ?thesis
      using claim_keeps [OF inv _ t, of now i r db'] claim_run [OF inv R, of w now r db'] by (simp add: id)
  next
    case (Finds_none w)
    then show ?thesis using inv move [of w W_checking] by simp
  next
    case (Waits w)
    then show ?thesis using inv move [of w W_ready] by simp
  next
    case (Is_done w)
    then show ?thesis using inv move [of w W_gone] none by (simp add: id)
  next
    case (Ends_row w r audited res p)
    then show ?thesis using finish_keeps [OF inv R Ends_row(2-4) refl] by simp
  next
    case (Fails w)
    then show ?thesis using inv fail_keeps [OF R] by simp
  next
    case Heartbeat
    then show ?thesis using heartbeat_keeps [OF inv, where now = now and i = i and t = "rn_token R"] R by (simp add: id)
  qed
qed

lemma sys_inv_step:
  assumes inv: "sys_inv s" and st: "sys_step s t"
  shows "sys_inv t"
proof -
  have b: "bulk_inv (sy_next s) (sy_db s)"
    and r: "\<And>i R. jm_get (sy_runs s) i = Some R \<Longrightarrow> run_ok (sy_stopping s) i R (sy_db s) \<and> rn_token R < sy_next s"
    using inv by (simp_all add: sys_inv_def)
  from st show ?thesis
  proof cases
    case (S_insert newId firstRow req now audited cache actor action subject rws i db')
    note k = insert_keeps [OF b S_insert(2,3,6,4)]
    have "run_ok (sy_stopping s) m R db'" if "jm_get (sy_runs s) m = Some R" for m R
    proof -
      have "m \<noteq> newId" using that S_insert(5) by auto
      then show ?thesis using k(3) r [OF that] by blast
    qed
    then have "sys_inv (s\<lparr>sy_db := db'\<rparr>)" using k(1) r by (simp add: sys_inv_def)
    then show ?thesis using S_insert(1) by simp
  next
    case (S_resume i now audited actor)
    show ?thesis unfolding S_resume
      using resume_keeps [OF b, where now = now and audited = audited and i = i and actor = actor]
      by (intro after_op_keeps request_keeps [OF inv]) (auto simp: out_of_run_def)
  next
    case (S_retry j stored now audited actor)
    show ?thesis unfolding S_retry
      by (intro after_op_keeps request_keeps [OF inv]) (use retry_keeps [OF b S_retry(2,3), where now = now and audited = audited and actor = actor] in auto)
  next
    case (S_cancel now audited i actor)
    show ?thesis unfolding S_cancel
      by (intro request_keeps [OF inv]) (use cancel_keeps [OF b, where now = now and audited = audited and i = i and actor = actor] in auto)
  next
    case (S_sweep now audited)
    then show ?thesis using sweep_keeps [OF b] sweep_run [OF b] r by (simp add: sys_inv_def)
  next
    case (S_start i now j db')
    note k = claim_job_keeps [OF b S_start(4)]
    have "run_ok (sy_stopping s) m R db' \<and> rn_token R < Suc (sy_next s)"
      if "jm_get (jm_set i (start_run j (sy_next s)) (sy_runs s)) m = Some R" for m R
    proof (cases "m = i")
      case True
      then show ?thesis using that k(3) by (auto simp: start_run_def)
    next
      case False
      then have "jm_get (sy_runs s) m = Some R" using that by simp
      from r [OF this] show ?thesis using run_ok_other [OF _ k(2) False] by auto
    qed
    then show ?thesis using k(1) S_start(1) by (simp add: sys_inv_def)
  next
    case (S_start_none i now)
    then show ?thesis using inv by simp
  next
    case (S_run i R now db' R')
    have "run_ok (sy_stopping s) i R (sy_db s)" "rn_token R < sy_next s" using r [OF S_run(2)] by simp_all
    from run_step_keeps [OF b this S_run(3)] show ?thesis
      unfolding S_run(1) by (intro run_keeps [OF inv S_run(2)]) auto
  next
    case (S_settle i R pause now audited)
    have R: "run_ok (sy_stopping s) i R (sy_db s)" using r [OF S_settle(2)] by simp
    have k: "bulk_inv (sy_next s) (settle now audited (rn_job R) (rn_token R) pause (sy_db s))"
      "touches i (sy_db s) (settle now audited (rn_job R) (rn_token R) pause (sy_db s))"
    proof -
      have "pause = None \<Longrightarrow> rn_pause R = None \<and> \<not> sy_stopping s"
        using S_settle(4) by (simp split: if_splits)
      note keeps = settle_keeps [OF b R S_settle(3) this]
      show "bulk_inv (sy_next s) (settle now audited (rn_job R) (rn_token R) pause (sy_db s))"
        "touches i (sy_db s) (settle now audited (rn_job R) (rn_token R) pause (sy_db s))"
        by (rule keeps; assumption)+
    qed
    have "run_ok (sy_stopping s) m Q (settle now audited (rn_job R) (rn_token R) pause (sy_db s)) \<and> rn_token Q < sy_next s"
      if "jm_get (jm_delete i (sy_runs s)) m = Some Q" for m Q
    proof -
      have m: "m \<noteq> i" "jm_get (sy_runs s) m = Some Q" using that by (auto split: if_splits)
      from r [OF m(2)] show ?thesis using run_ok_other [OF _ k(2) m(1)] by blast
    qed
    then show ?thesis using k(1) S_settle(1) by (simp add: sys_inv_def)
  next
    case S_stop
    have "run_ok True i R (sy_db s) \<and> rn_token R < sy_next s" if "jm_get (sy_runs s) i = Some R" for i R
      using r [OF that] by (simp add: run_ok_def)
    then show ?thesis using S_stop b by (simp add: sys_inv_def)
  next
    case S_crash
    then show ?thesis using b by (simp add: sys_inv_def)
  qed
qed

lemma sys_inv_start: "sys_start s \<Longrightarrow> sys_inv s"
  by (simp add: sys_start_def sys_inv_def bulk_inv_def tables_ok_def one_open_revert_def finished_ok_def
      tokens_ok_def)

interpretation bulk: transition_system sys_start sys_step sys_inv
  by unfold_locales (auto simp: sys_inv_start intro: sys_inv_step)

lemma reachable_sys_inv: "sys_start x \<Longrightarrow> sys_step\<^sup>*\<^sup>* x s \<Longrightarrow> sys_inv s"
  by (rule bulk.inv_reachable)

end
