(* ===== verification/BulkJobClaims.thy ===== *)
theory BulkJobClaims
  imports BulkJobRuns
begin

text \<open>
  What the service promises of bulk jobs, in every state their runs, the operators' requests,
  the sweep and crashes reach; and three places where the code does less than its comments say.
\<close>

section \<open>The tables\<close>

text \<open>
  C2. A job's columns agree with its status in every reachable state: it has a run token exactly
  while running, a pause reason exactly while paused, and an end exactly once finished or
  cancelled.
\<close>

theorem job_columns_agree:
  assumes "sys_start x" "sys_step\<^sup>*\<^sup>* x s"
  shows "list_all job_fields_ok (jobs (sy_db s))"
  using reachable_sys_inv [OF assms] by (simp add: sys_inv_def bulk_inv_def tables_ok_def)

text \<open>
  C4. At most one revert of a job may be writing: in every reachable state, two jobs that revert
  the same job and haven't stopped are the same job.
\<close>

theorem one_open_revert_at_a_time:
  assumes "sys_start x" "sys_step\<^sup>*\<^sup>* x s"
  shows "\<forall>j \<in> set (jobs (sy_db s)). \<forall>k \<in> set (jobs (sy_db s)).
      jb_status j \<in> {Queued, Running, Paused} \<and> jb_status k \<in> {Queued, Running, Paused}
      \<and> jb_reverts_job_id j \<noteq> None \<and> jb_reverts_job_id j = jb_reverts_job_id k \<longrightarrow> jb_id j = jb_id k"
proof -
  have "one_open_revert (sy_db s)"
    using reachable_sys_inv [OF assms] by (simp add: sys_inv_def bulk_inv_def)
  moreover have "set OPEN = {Queued, Running, Paused}" by (simp add: OPEN_def)
  ultimately show ?thesis unfolding one_open_revert_def by metis
qed

section \<open>Counting rows\<close>

lemma count_row_fields:
  "jc_pending (count_row r c) = jc_pending c + (if rw_status r = R_pending then 1 else 0)"
  "jc_running (count_row r c) = jc_running c + (if rw_status r = R_running then 1 else 0)"
  "jc_total (count_row r c) = jc_total c + 1"
  by (simp_all add: count_row_def Let_def split: row_status.split)

lemma fold_count:
  "jc_pending (fold count_row rs c) = jc_pending c + length (filter (\<lambda>r. rw_status r = R_pending) rs)"
  "jc_running (fold count_row rs c) = jc_running c + length (filter (\<lambda>r. rw_status r = R_running) rs)"
  by (induction rs arbitrary: c) (auto simp: count_row_fields)

lemma counts_pending: "jc_pending (counts db i) = 0 \<longleftrightarrow> (\<forall>r \<in> set (rows_of i db). rw_status r \<noteq> R_pending)"
  by (simp add: counts_def fold_count emptyCounts_def filter_empty_conv)

lemma counts_running: "jc_running (counts db i) = 0 \<longleftrightarrow> (\<forall>r \<in> set (rows_of i db). rw_status r \<noteq> R_running)"
  by (simp add: counts_def fold_count emptyCounts_def filter_empty_conv)

lemma fold_count_sum:
  "jc_total c = jc_pending c + jc_running c + jc_succeeded c + jc_partial c + jc_failed c + jc_skipped c \<Longrightarrow>
   jc_total (fold count_row rs c) = jc_pending (fold count_row rs c) + jc_running (fold count_row rs c)
     + jc_succeeded (fold count_row rs c) + jc_partial (fold count_row rs c) + jc_failed (fold count_row rs c)
     + jc_skipped (fold count_row rs c) \<and> jc_total (fold count_row rs c) = jc_total c + length rs"
proof (induction rs arbitrary: c)
  case (Cons r rs)
  have "jc_total (count_row r c) = jc_pending (count_row r c) + jc_running (count_row r c)
      + jc_succeeded (count_row r c) + jc_partial (count_row r c) + jc_failed (count_row r c) + jc_skipped (count_row r c)"
    using Cons.prems by (simp add: count_row_def Let_def split: row_status.split)
  from Cons.IH [OF this] show ?case by (simp add: count_row_fields)
qed simp

text \<open>
  C3. A job only finishes with nothing left to do: in every reachable state no row of a finished
  job is pending, however its runs were paused, continued, retried or lost.
\<close>

theorem finished_job_has_no_pending_row:
  assumes "sys_start x" "sys_step\<^sup>*\<^sup>* x s"
  shows "list_all (\<lambda>j. jb_status j = Finished \<longrightarrow> jc_pending (counts (sy_db s) (jb_id j)) = 0) (jobs (sy_db s))"
proof -
  have "finished_ok (sy_db s)"
    using reachable_sys_inv [OF assms] by (simp add: sys_inv_def bulk_inv_def)
  then show ?thesis by (auto simp: finished_ok_def list_all_iff counts_pending rows_of_def)
qed

text \<open>A job's counts add up: its total is the number of its rows, and the sum over the statuses.\<close>

theorem counts_add_up:
  "jc_total (counts db i) = length (rows_of i db)
   \<and> jc_total (counts db i) = jc_pending (counts db i) + jc_running (counts db i) + jc_succeeded (counts db i)
      + jc_partial (counts db i) + jc_failed (counts db i) + jc_skipped (counts db i)"
  using fold_count_sum [of emptyCounts "rows_of i db"] by (simp add: counts_def emptyCounts_def)

section \<open>Claiming rows\<close>

text \<open>
  C1. No row is written by two workers: in every reachable state the workers of a run hold
  different rows, and while the run has its job each of them is marked running for it.
\<close>

theorem no_row_has_two_workers:
  assumes "sys_start x" "sys_step\<^sup>*\<^sup>* x s" "jm_get (sy_runs s) i = Some R"
  shows "distinct (held_ids R)
    \<and> (holds_job i (rn_token R) (sy_db s) \<longrightarrow>
        list_all (\<lambda>k. list_ex (\<lambda>r. rw_id r = k \<and> rw_status r = R_running \<and> rw_run_token r = Some (rn_token R))
                        (rows_of i (sy_db s))) (held_ids R))"
proof -
  have R: "run_ok (sy_stopping s) i R (sy_db s)"
    using reachable_sys_inv [OF assms(1,2)] assms(3) by (simp add: sys_inv_def)
  then have "distinct (held_ids R)" by (simp add: run_ok_def)
  moreover have "\<exists>r \<in> set (rows_of i (sy_db s)). rw_id r = k \<and> rw_status r = R_running \<and> rw_run_token r = Some (rn_token R)"
    if "holds_job i (rn_token R) (sy_db s)" "k \<in> set (held_ids R)" for k
    using R that unfolding run_ok_def rows_of_def by fastforce
  ultimately show ?thesis by (auto simp: list_all_iff list_ex_iff)
qed

text \<open>
  Rows are claimed in order: the row a worker claims was pending, no row it waits for is
  still to finish, and no claimable row comes before it.
\<close>

theorem claim_respects_the_order:
  assumes "claimRow now i t db = (Some r, db')"
  shows "list_all (\<lambda>p. rw_after_ordinal r = Some (rw_ordinal p) \<longrightarrow> rw_status p \<notin> {R_pending, R_running})
      (rows_of i db)
    \<and> list_all (\<lambda>q. claimable i db q \<longrightarrow> rw_ordinal r \<le> rw_ordinal q) (job_rows db)"
proof -
  obtain r0 where "claimable i db r0" "r = claimed now t r0"
    "\<And>x. x \<in> set (job_rows db) \<Longrightarrow> claimable i db x \<Longrightarrow> rw_ordinal r0 \<le> rw_ordinal x"
    using claimRow_Some [OF assms] by metis
  then show ?thesis by (auto simp: list_all_iff claimable_def claimed_def)
qed

text \<open>
  A run doesn't wait forever on its own rows: when rows wait for others only along a rank
  (nobody's manager is waiting for them), a run that has its job, with a row pending and none
  running, finds one to claim.
\<close>

theorem some_pending_row_is_claimable:
  assumes "holds_job i t db"
    and rank: "\<forall>r \<in> set (rows_of i db). \<forall>p \<in> set (rows_of i db).
        rw_after_ordinal r = Some (rw_ordinal p) \<longrightarrow> rank (rw_ordinal p) < (rank (rw_ordinal r) :: nat)"
    and "\<exists>r \<in> set (rows_of i db). rw_status r = R_pending"
    and "\<forall>r \<in> set (rows_of i db). rw_status r \<noteq> R_running"
  shows "fst (claimRow now i t db) \<noteq> None"
proof -
  obtain r where r: "r \<in> set (rows_of i db) \<and> rw_status r = R_pending"
    and least: "\<And>q. q \<in> set (rows_of i db) \<and> rw_status q = R_pending \<Longrightarrow> rank (rw_ordinal r) \<le> rank (rw_ordinal q)"
    using assms(3) ex_has_least_nat [of "\<lambda>r. r \<in> set (rows_of i db) \<and> rw_status r = R_pending" _ "\<lambda>r. rank (rw_ordinal r)"]
    by blast
  have "claimable i db r"
    unfolding claimable_def
  proof (intro conjI notI)
    show "rw_job_id r = i" "rw_status r = R_pending" using r by (auto simp: rows_of_def)
    assume "\<exists>p \<in> set (rows_of i db). rw_after_ordinal r = Some (rw_ordinal p) \<and> rw_status p \<in> {R_pending, R_running}"
    then obtain p where p: "p \<in> set (rows_of i db)" "rw_after_ordinal r = Some (rw_ordinal p)"
      "rw_status p \<in> {R_pending, R_running}" by blast
    then have "rw_status p = R_pending" using assms(4) by auto
    with p rank r least [of p] show False by fastforce
  qed
  then have "r \<in> set (filter (claimable i db) (job_rows db))" using r by (auto simp: rows_of_def)
  then have "sort_key rw_ordinal (filter (claimable i db) (job_rows db)) \<noteq> []"
    by (metis empty_iff empty_set set_sort)
  then show ?thesis using assms(1) by (auto simp: claimRow_def Let_def split: list.split)
qed

section \<open>A row left running in a cancelled job\<close>

text \<open>
  A cancelled job with no row to retry, a row still marked running, and no run of it going: what
  a process leaves that ends while a cancelled job's row is in flight.
\<close>

definition left_running :: "nat \<Rightarrow> nat \<Rightarrow> bulk_sys \<Rightarrow> bool" where
  "left_running i k s \<longleftrightarrow>
     list_ex (\<lambda>j. jb_status j = Cancelled) (jobs_of i (sy_db s))
     \<and> list_all (\<lambda>r. rw_status r \<notin> {R_failed, R_partial}) (rows_of i (sy_db s))
     \<and> list_ex (\<lambda>r. rw_id r = k \<and> rw_status r = R_running) (rows_of i (sy_db s))
     \<and> jm_get (sy_runs s) i = None"

lemma left_running_cong:
  "left_running i k s \<Longrightarrow> jobs_of i (sy_db t) = jobs_of i (sy_db s) \<Longrightarrow> rows_of i (sy_db t) = rows_of i (sy_db s)
   \<Longrightarrow> jm_get (sy_runs t) i = None \<Longrightarrow> left_running i k t"
  by (simp add: left_running_def)

lemma left_running_touches:
  "left_running i k s \<Longrightarrow> touches m (sy_db s) (sy_db t) \<Longrightarrow> m \<noteq> i \<Longrightarrow> jm_get (sy_runs t) i = None
   \<Longrightarrow> left_running i k t"
  by (rule left_running_cong) (simp_all add: touches_def)

lemma left_running_job:
  assumes "sys_inv s" "left_running i k s" "j \<in> set (jobs (sy_db s))" "jb_id j = i"
  shows "jb_status j = Cancelled"
proof -
  obtain c where c: "c \<in> set (jobs (sy_db s))" "jb_id c = i" "jb_status c = Cancelled"
    using assms(2) by (auto simp: left_running_def jobs_of_def list_ex_iff)
  have "distinct (map jb_id (jobs (sy_db s)))"
    using assms(1) by (simp add: sys_inv_def bulk_inv_def tables_ok_def)
  from distinct_key_eq [OF this assms(3) c(1)] assms(4) c show ?thesis by simp
qed

lemma left_running_requests:
  assumes inv: "sys_inv s" and l: "left_running i k s"
  shows "snd (resume now audited i actor (sy_db s)) = sy_db s" "fst (resume now audited i actor (sy_db s)) = Done False"
    and "snd (cancel now audited i actor (sy_db s)) = sy_db s"
    and "jb_id j = i \<Longrightarrow> snd (retry now audited j actor (sy_db s)) = sy_db s \<and> fst (retry now audited j actor (sy_db s)) \<noteq> Done True"
    and "claim_job now i n (sy_db s) = (None, sy_db s)"
proof -
  note c = left_running_job [OF inv l]
  have none: "updated_count (\<lambda>j. jb_id j = i \<and> jb_status j \<in> S) (jobs (sy_db s)) = 0" if "Cancelled \<notin> S" for S
    using c that by (auto simp: updated_count_0)
  show "snd (resume now audited i actor (sy_db s)) = sy_db s" "fst (resume now audited i actor (sy_db s)) = Done False"
    using none [of "{Paused}"] by (simp_all add: resume_def Let_def)
  show "snd (cancel now audited i actor (sy_db s)) = sy_db s"
    using none [of "{Queued, Running, Paused}"] by (simp add: cancel_def)
  have "\<not> retryable_row i r" if "r \<in> set (job_rows (sy_db s))" for r
    using l that by (auto simp: left_running_def retryable_row_def RETRIED_def rows_of_def list_all_iff)
  then have "updated_count (\<lambda>j. jb_id j = i \<and> jb_status j \<in> {Paused, Finished, Cancelled}
      \<and> (\<exists>r \<in> set (job_rows (sy_db s)). retryable_row i r)) (jobs (sy_db s)) = 0"
    by (auto simp: updated_count_0)
  then have "snd (retryRows now j actor (sy_db s)) = sy_db s
      \<and> (case fst (retryRows now j actor (sy_db s)) of Inl _ \<Rightarrow> True | Inr m \<Rightarrow> m = 0)" if "jb_id j = i" for j
    using that by (simp add: retryRows_def Let_def)
  note rows = this
  show "jb_id j = i \<Longrightarrow> snd (retry now audited j actor (sy_db s)) = sy_db s
      \<and> fst (retry now audited j actor (sy_db s)) \<noteq> Done True"
    using rows [of j] by (cases "fst (retryRows now j actor (sy_db s))") (simp_all add: retry_def split_beta)
  have "find (\<lambda>j. jb_id j = i \<and> jb_status j = Queued) (jobs (sy_db s)) = None"
    using c by (auto simp: find_None_iff)
  moreover have "update_where (\<lambda>j. jb_id j = i \<and> jb_status j = Queued) f (jobs (sy_db s)) = jobs (sy_db s)" for f
    by (rule no_update) (use none [of "{Queued}"] in simp)
  ultimately show "claim_job now i n (sy_db s) = (None, sy_db s)" by (simp add: claim_job_def Let_def)
qed

lemma left_running_step:
  assumes inv: "sys_inv s" and l: "left_running i k s" and st: "sys_step s t"
  shows "left_running i k t"
proof -
  have b: "bulk_inv (sy_next s) (sy_db s)" and run: "jm_get (sy_runs s) i = None"
    and r: "\<And>m R. jm_get (sy_runs s) m = Some R \<Longrightarrow> run_ok (sy_stopping s) m R (sy_db s) \<and> rn_token R < sy_next s"
    using inv l by (simp_all add: sys_inv_def left_running_def)
  note q = left_running_requests [OF inv l]
  have kick: "sy_db (kick m u) = sy_db u" "sy_runs (kick m u) = sy_runs u" for m u by (simp_all add: kick_def)
  have op: "sy_db (after_op m x u) = snd x" "sy_runs (after_op m x u) = sy_runs u" for m x u
    by (simp_all add: after_op_def Let_def kick)
  from st show ?thesis
  proof cases
    case (S_insert newId firstRow req now audited cache actor action subject rws m db')
    obtain c v where d: "m = newId" "jobs db' = jobs (sy_db s) @ [new_job newId now actor action subject v]"
        "job_rows db' = job_rows (sy_db s) @ stored_rows c firstRow newId 0 rws"
      using insert_db [OF S_insert(6,4)] by metis
    have "newId \<noteq> i" using l S_insert(2) by (auto simp: left_running_def jobs_of_def list_ex_iff)
    then have "jobs_of i db' = jobs_of i (sy_db s)" "rows_of i db' = rows_of i (sy_db s)"
      using d by (auto simp: jobs_of_def rows_of_def new_job_def filter_empty_conv dest: stored_rows_mem)
    then show ?thesis using S_insert(1) l run by (intro left_running_cong [OF l]) (simp_all add: kick)
  next
    case (S_resume m now audited actor)
    show ?thesis
    proof (cases "m = i")
      case True
      then show ?thesis using q(1) run by (intro left_running_cong [OF l]) (simp_all add: S_resume op)
    next
      case False
      then show ?thesis using resume_keeps(2) [OF b] run
        by (intro left_running_touches [OF l]) (simp_all add: S_resume op)
    qed
  next
    case (S_retry j stored now audited actor)
    show ?thesis
    proof (cases "jb_id j = i")
      case True
      then show ?thesis using q(4) run by (intro left_running_cong [OF l]) (simp_all add: S_retry(1) op)
    next
      case False
      then show ?thesis using retry_keeps(2) [OF b S_retry(2,3)] run
        by (intro left_running_touches [OF l]) (simp_all add: S_retry(1) op)
    qed
  next
    case (S_cancel now audited m actor)
    show ?thesis
    proof (cases "m = i")
      case True
      then show ?thesis using q(3) run by (intro left_running_cong [OF l]) (simp_all add: S_cancel)
    next
      case False
      then show ?thesis using cancel_keeps(2) [OF b] run
        by (intro left_running_touches [OF l]) (simp_all add: S_cancel)
    qed
  next
    case (S_sweep now audited)
    have ns: "\<not> stale now x" if "x \<in> set (jobs (sy_db s))" "jb_id x = i" for x
      using left_running_job [OF inv l that] by (simp add: stale_def)
    have "jobs_of i (recoverStale now audited (sy_db s)) = jobs_of i (sy_db s)"
      unfolding jobs_of_def recoverStale_db(1) by (rule filter_update_where_other) (use ns in auto)
    moreover have "rows_of i (recoverStale now audited (sy_db s)) = rows_of i (sy_db s)"
      unfolding rows_of_def recoverStale_db(2) by (rule filter_update_where_other) (use ns in auto)
    ultimately show ?thesis using S_sweep run by (intro left_running_cong [OF l]) simp_all
  next
    case (S_start m now j db')
    have "m \<noteq> i" using S_start(4) q(5) by auto
    then show ?thesis using claim_job_keeps(2) [OF b S_start(4)] run
      by (intro left_running_touches [OF l]) (simp_all add: S_start(1))
  next
    case (S_start_none m now)
    then show ?thesis using l by (simp add: left_running_def)
  next
    case (S_run m R now db' R')
    have "m \<noteq> i" using S_run(2) run by auto
    moreover have "touches m (sy_db s) db'"
      using run_step_keeps [OF b _ _ S_run(3)] r [OF S_run(2)] by blast
    ultimately show ?thesis using run by (intro left_running_touches [OF l]) (simp_all add: S_run(1))
  next
    case (S_settle m R pause now audited)
    have m: "m \<noteq> i" using S_settle(2) run by auto
    have "pause = None \<Longrightarrow> rn_pause R = None \<and> \<not> sy_stopping s" using S_settle(4) by (simp split: if_splits)
    from settle_keeps(2) [OF b _ S_settle(3) this] r [OF S_settle(2)]
    have "touches m (sy_db s) (settle now audited (rn_job R) (rn_token R) pause (sy_db s))" by blast
    then show ?thesis using m run by (intro left_running_touches [OF l]) (simp_all add: S_settle(1))
  next
    case S_stop
    then show ?thesis using l by (simp add: left_running_def)
  next
    case S_crash
    then show ?thesis using l by (simp add: left_running_def)
  qed
qed

lemma left_running_steps: "sys_step\<^sup>*\<^sup>* s t \<Longrightarrow> sys_inv s \<Longrightarrow> left_running i k s \<Longrightarrow> left_running i k t"
proof (induction rule: rtranclp_induct)
  case (step t u)
  then show ?case using left_running_step bulk.inv_steps [OF step.hyps(1)] by blast
qed

text \<open>
  What stopping a job promises, that its rows in flight finish, isn't kept across a crash: a
  row of a cancelled job that the process left running, in a job with no row to retry, stays
  running whatever happens after, sweeps and requests included, so the job counts as writing
  for good, and is never revertible.
\<close>

theorem row_left_running_in_cancelled_job_stays:
  assumes "sys_start x" "sys_step\<^sup>*\<^sup>* x s" "left_running i k s" "sys_step\<^sup>*\<^sup>* s t"
  shows "jc_running (counts (sy_db t) i) \<noteq> 0 \<and> \<not> bulk_job_stopped Cancelled (counts (sy_db t) i)"
proof -
  have "left_running i k t"
    using left_running_steps [OF assms(4) reachable_sys_inv [OF assms(1,2)] assms(3)] .
  then obtain r where "r \<in> set (rows_of i (sy_db t))" "rw_status r = R_running"
    by (auto simp: left_running_def list_ex_iff)
  then have "jc_running (counts (sy_db t) i) \<noteq> 0" by (auto simp: counts_running)
  then show ?thesis by (simp add: bulk_job_stopped_def)
qed

section \<open>A run of the system\<close>

text \<open>
  A job with one row is stored, its run starts, a worker claims the row; then the job is
  cancelled and the process ends.
\<close>

definition ex_actor :: job_actor where
  "ex_actor = \<lparr>ja_directoryId = 1, ja_adminSessionId = ''a1'', ja_actorUserId = ''g1'',
     ja_actorDisplayName = None, ja_actorUsername = ''ann'', ja_sourceIp = None, ja_userAgent = None,
     ja_correlationId = None\<rparr>"

definition ex_req :: insert_request where
  "ex_req = \<lparr>ir_revert = None, ir_secret = None, ir_stored = None\<rparr>"

definition ex_row :: row_input where
  "ex_row = \<lparr>ri_targetId = Some ''u1'', ri_targetName = None, ri_input = None, ri_after = None\<rparr>"

definition exs0 :: bulk_sys where
  "exs0 = \<lparr>sy_db = \<lparr>jobs = [], job_rows = [], held = [], audits = []\<rparr>, sy_runs = [], sy_kicks = [],
     sy_next = 0, sy_stopping = False\<rparr>"

definition ex_stored :: "row_input list \<Rightarrow> bulk_sys" where
  "ex_stored rws = kick 1 (exs0\<lparr>sy_db := snd (insert_job 1 100 0 True [] ex_actor User_disable None rws ex_req (sy_db exs0))\<rparr>)"

definition ex_started :: "row_input list \<Rightarrow> bulk_sys" where
  "ex_started rws =
     (let s = ex_stored rws; c = claim_job 0 1 (sy_next s) (sy_db s)
      in s\<lparr>sy_db := snd c, sy_runs := jm_set 1 (start_run (the (fst c)) (sy_next s)) (sy_runs s),
           sy_kicks := remove1 1 (sy_kicks s), sy_next := Suc (sy_next s)\<rparr>)"

definition ex_run :: "row_input list \<Rightarrow> run" where
  "ex_run rws = the (jm_get (sy_runs (ex_started rws)) 1)"

definition ex_claiming :: bulk_sys where
  "ex_claiming = (let s = ex_started [ex_row]; R = set_worker 0 W_claiming (ex_run [ex_row])
     in s\<lparr>sy_db := sy_db s, sy_runs := jm_set 1 R (sy_runs s)\<rparr>)"

definition ex_writing :: bulk_sys where
  "ex_writing = (let s = ex_claiming; R = the (jm_get (sy_runs s) 1); c = claimRow 5 1 0 (sy_db s)
     in s\<lparr>sy_db := snd c, sy_runs := jm_set 1 (set_worker 0 (W_row (the (fst c))) R) (sy_runs s)\<rparr>)"

definition ex_cancelled :: bulk_sys where
  "ex_cancelled = ex_writing\<lparr>sy_db := snd (cancel 6 True 1 ex_actor (sy_db ex_writing))\<rparr>"

definition ex_crashed :: bulk_sys where
  "ex_crashed = ex_cancelled\<lparr>sy_runs := [], sy_kicks := [], sy_stopping := False\<rparr>"

lemma exs_start: "sys_start exs0"
  by (simp add: sys_start_def exs0_def)

lemma ex_reach_stored: "sys_step\<^sup>*\<^sup>* exs0 (ex_stored rws)"
proof (rule r_into_rtranclp)
  have "insert_job 1 100 0 True [] ex_actor User_disable None rws ex_req (sy_db exs0) =
      (Inr 1, snd (insert_job 1 100 0 True [] ex_actor User_disable None rws ex_req (sy_db exs0)))"
    by (simp add: insert_job_def ex_req_def violates_open_revert_def Let_def)
  then show "sys_step exs0 (ex_stored rws)"
    unfolding ex_stored_def by (rule S_insert [rotated 4]) (simp_all add: exs0_def ex_req_def)
qed

lemma ex_reach_started: "sys_step\<^sup>*\<^sup>* exs0 (ex_started rws)"
proof (rule rtranclp.rtrancl_into_rtrancl [OF ex_reach_stored])
  let ?s = "ex_stored rws"
  have f: "sy_kicks ?s = [1]" "sy_runs ?s = []" "sy_next ?s = 0"
    "jobs (sy_db ?s) = [new_job 1 0 ex_actor User_disable None None]"
    by (simp_all add: ex_stored_def kick_def exs0_def insert_job_def ex_req_def violates_open_revert_def Let_def)
  have "claim_job 0 1 (sy_next ?s) (sy_db ?s) =
      (Some (the (fst (claim_job 0 1 (sy_next ?s) (sy_db ?s)))), snd (claim_job 0 1 (sy_next ?s) (sy_db ?s)))"
    by (simp add: claim_job_def Let_def f new_job_def)
  then show "sys_step ?s (ex_started rws)"
    unfolding ex_started_def Let_def by (rule S_start [rotated 2]) (simp_all add: f)
qed

lemma ex_run_at: "jm_get (sy_runs (ex_started rws)) 1 = Some (ex_run rws)"
  by (simp add: ex_run_def ex_started_def Let_def)

lemma ex_reach_writing: "sys_step\<^sup>*\<^sup>* exs0 ex_writing"
proof -
  let ?R = "ex_run [ex_row]"
  have "run_step 0 (sy_stopping (ex_started [ex_row])) (sy_db (ex_started [ex_row]), ?R)
      (sy_db (ex_started [ex_row]), set_worker 0 W_claiming ?R)"
    by (rule Authorised) code_simp+
  from S_run [OF ex_run_at this] have "sys_step (ex_started [ex_row]) ex_claiming"
    by (simp add: ex_claiming_def Let_def)
  then have c: "sys_step\<^sup>*\<^sup>* exs0 ex_claiming"
    using ex_reach_started by (rule rtranclp.rtrancl_into_rtrancl [rotated])
  let ?Q = "the (jm_get (sy_runs ex_claiming) 1)" and ?c = "claimRow 5 1 0 (sy_db ex_claiming)"
  have q: "jb_id (rn_job ?Q) = 1" "rn_token ?Q = 0" by code_simp+
  have "run_step 5 (sy_stopping ex_claiming) (sy_db ex_claiming, ?Q) (snd ?c, set_worker 0 (W_row (the (fst ?c))) ?Q)"
    by (rule Claims; (unfold q)?) code_simp+
  moreover have "jm_get (sy_runs ex_claiming) 1 = Some ?Q" by code_simp
  ultimately have "sys_step ex_claiming ex_writing"
    unfolding ex_writing_def Let_def by (intro S_run)
  with c show ?thesis by (rule rtranclp.rtrancl_into_rtrancl)
qed

lemma ex_reach_crashed: "sys_step\<^sup>*\<^sup>* exs0 ex_crashed"
proof -
  have "sys_step ex_writing ex_cancelled" unfolding ex_cancelled_def by (rule S_cancel)
  moreover have "sys_step ex_cancelled ex_crashed" unfolding ex_crashed_def by (rule S_crash)
  ultimately show ?thesis using ex_reach_writing by (meson rtranclp.rtrancl_into_rtrancl)
qed

theorem row_left_running_in_cancelled_job_stays_witness:
  "jc_running (counts (recoverStale 9999999 True (sy_db ex_crashed)) 1) \<noteq> 0
   \<and> \<not> bulk_job_stopped Cancelled (counts (recoverStale 9999999 True (sy_db ex_crashed)) 1)"
proof -
  have "left_running 1 100 ex_crashed" by code_simp
  moreover have "sys_step\<^sup>*\<^sup>* ex_crashed (ex_crashed\<lparr>sy_db := recoverStale 9999999 True (sy_db ex_crashed)\<rparr>)"
    by (rule r_into_rtranclp) (rule S_sweep)
  ultimately show ?thesis
    using row_left_running_in_cancelled_job_stays [OF exs_start ex_reach_crashed] by fastforce
qed

theorem job_columns_agree_witness: "list_all job_fields_ok (jobs (sy_db ex_crashed))"
  by (rule job_columns_agree [OF exs_start ex_reach_crashed])

theorem no_row_has_two_workers_witness:
  "held_ids (the (jm_get (sy_runs ex_writing) 1)) = [100]
   \<and> distinct (held_ids (the (jm_get (sy_runs ex_writing) 1)))"
proof
  show "held_ids (the (jm_get (sy_runs ex_writing) 1)) = [100]" by code_simp
  have "jm_get (sy_runs ex_writing) 1 = Some (the (jm_get (sy_runs ex_writing) 1))" by code_simp
  from no_row_has_two_workers [OF exs_start ex_reach_writing this]
  show "distinct (held_ids (the (jm_get (sy_runs ex_writing) 1)))" ..
qed

text \<open>A revert of the job, stored while the job is queued.\<close>

definition ex_two :: bulk_sys where
  "ex_two = kick 2 (ex_crashed\<lparr>sy_db := snd (insert_job 2 200 9 True [] ex_actor User_enable None [ex_row]
     (ex_req\<lparr>ir_revert := Some (1, \<lambda>_. None)\<rparr>) (sy_db ex_crashed))\<rparr>)"

lemma ex_reach_two: "sys_step\<^sup>*\<^sup>* exs0 ex_two"
proof (rule rtranclp.rtrancl_into_rtrancl [OF ex_reach_crashed])
  have ins: "fst (insert_job 2 200 9 True [] ex_actor User_enable None [ex_row]
     (ex_req\<lparr>ir_revert := Some (1, \<lambda>_. None)\<rparr>) (sy_db ex_crashed)) = Inr 2" by code_simp
  show "sys_step ex_crashed ex_two"
    unfolding ex_two_def
  proof (rule S_insert [rotated 4])
    show "insert_job 2 200 9 True [] ex_actor User_enable None [ex_row]
     (ex_req\<lparr>ir_revert := Some (1, \<lambda>_. None)\<rparr>) (sy_db ex_crashed) = (Inr 2, snd (insert_job 2 200 9 True [] ex_actor User_enable None [ex_row]
     (ex_req\<lparr>ir_revert := Some (1, \<lambda>_. None)\<rparr>) (sy_db ex_crashed)))" using ins by (metis prod.collapse)
    show "\<forall>j \<in> set (jobs (sy_db ex_crashed)). jb_id j \<noteq> 2 \<and> jb_reverts_job_id j \<noteq> Some 2" by code_simp
    show "\<forall>r \<in> set (job_rows (sy_db ex_crashed)). rw_id r < 200 \<and> rw_job_id r \<noteq> 2" by code_simp
    show "jm_get (sy_runs ex_crashed) 2 = None" by code_simp
  qed (simp add: ex_req_def)
qed

theorem one_open_revert_at_a_time_witness:
  "map jb_reverts_job_id (jobs (sy_db ex_two)) = [None, Some 1]
   \<and> list_all (\<lambda>j. list_all (\<lambda>k.
      jb_status j \<in> {Queued, Running, Paused} \<and> jb_status k \<in> {Queued, Running, Paused}
      \<and> jb_reverts_job_id j \<noteq> None \<and> jb_reverts_job_id j = jb_reverts_job_id k \<longrightarrow> jb_id j = jb_id k)
      (jobs (sy_db ex_two))) (jobs (sy_db ex_two))"
proof
  show "map jb_reverts_job_id (jobs (sy_db ex_two)) = [None, Some 1]" by code_simp
qed (unfold list_all_iff, rule one_open_revert_at_a_time [OF exs_start ex_reach_two])

text \<open>A job without rows: each worker finds none, and the run settles.\<close>

lemma drain_worker:
  assumes "sy_runs s = [(i, R)]" "jb_id (rn_job R) = i" "w < length (rn_workers R)" "rn_workers R ! w = W_ready"
    and "rn_pause R = None" "claimRow 0 i (rn_token R) (sy_db s) = (None, sy_db s)"
    and "\<not> waiting i (rn_token R) (sy_db s)"
  shows "sys_step\<^sup>*\<^sup>* s (s\<lparr>sy_runs := [(i, set_worker w W_gone R)]\<rparr>)"
proof -
  have st: "sys_step (s\<lparr>sy_runs := [(i, Q)]\<rparr>) (s\<lparr>sy_runs := [(i, Q')]\<rparr>)"
    if "run_step 0 (sy_stopping s) (sy_db s, Q) (sy_db s, Q')" for Q Q'
    using S_run [of "s\<lparr>sy_runs := [(i, Q)]\<rparr>" i Q 0 "sy_db s" Q'] that by simp
  have "run_step 0 (sy_stopping s) (sy_db s, R) (sy_db s, set_worker w W_claiming R)"
    by (rule Authorised) (use assms in auto)
  note 1 = st [OF this]
  have "run_step 0 (sy_stopping s) (sy_db s, set_worker w W_claiming R)
      (sy_db s, set_worker w W_checking (set_worker w W_claiming R))"
    by (rule Finds_none) (use assms in \<open>auto simp: set_worker_def\<close>)
  then have "run_step 0 (sy_stopping s) (sy_db s, set_worker w W_claiming R) (sy_db s, set_worker w W_checking R)"
    by (simp add: set_worker_def)
  note 2 = st [OF this]
  have "run_step 0 (sy_stopping s) (sy_db s, set_worker w W_checking R)
      (sy_db s, set_worker w W_gone (set_worker w W_checking R))"
    by (rule Is_done) (use assms in \<open>auto simp: set_worker_def\<close>)
  then have "run_step 0 (sy_stopping s) (sy_db s, set_worker w W_checking R) (sy_db s, set_worker w W_gone R)"
    by (simp add: set_worker_def)
  note 3 = st [OF this]
  have "s\<lparr>sy_runs := [(i, R)]\<rparr> = s" using assms(1) by simp
  with 1 2 3 show ?thesis by (metis converse_rtranclp_into_rtranclp rtranclp.rtrancl_refl)
qed

definition ex_drained :: "nat \<Rightarrow> run" where
  "ex_drained n = fold (\<lambda>w R. set_worker w W_gone R) [0..<n] (ex_run [])"

definition ex_finished :: bulk_sys where
  "ex_finished = (let s = (ex_started [])\<lparr>sy_runs := [(1, ex_drained 4)]\<rparr>
     in s\<lparr>sy_db := settle 9 True (rn_job (ex_drained 4)) (rn_token (ex_drained 4)) None (sy_db s),
          sy_runs := jm_delete 1 (sy_runs s)\<rparr>)"

lemma ex_drained_reach: "n \<le> 4 \<Longrightarrow> sys_step\<^sup>*\<^sup>* exs0 ((ex_started [])\<lparr>sy_runs := [(1, ex_drained n)]\<rparr>)"
proof (induction n)
  case 0
  have "(ex_started [])\<lparr>sy_runs := [(1, ex_drained 0)]\<rparr> = ex_started []"
    by (simp add: ex_drained_def ex_run_def ex_started_def ex_stored_def kick_def exs0_def Let_def)
  then show ?case using ex_reach_started by simp
next
  case (Suc n)
  have job: "rn_job (ex_drained m) = rn_job (ex_run [])" "rn_token (ex_drained m) = rn_token (ex_run [])"
    "rn_pause (ex_drained m) = rn_pause (ex_run [])" "length (rn_workers (ex_drained m)) = length (rn_workers (ex_run []))" for m
    by (induction m) (simp_all add: ex_drained_def set_worker_def)
  have at: "w \<ge> m \<Longrightarrow> rn_workers (ex_drained m) ! w = rn_workers (ex_run []) ! w" for m w
    by (induction m) (simp_all add: ex_drained_def set_worker_def)
  have base: "jb_id (rn_job (ex_run [])) = 1" "rn_token (ex_run []) = 0" "rn_pause (ex_run []) = None"
    "rn_workers (ex_run []) = [W_ready, W_ready, W_ready, W_ready]"
    "claimRow 0 1 0 (sy_db (ex_started [])) = (None, sy_db (ex_started []))"
    "\<not> waiting 1 0 (sy_db (ex_started []))" by code_simp+
  have n: "n < 4" using Suc.prems by simp
  have ready: "[W_ready, W_ready, W_ready, W_ready] ! n = W_ready"
    using n by (auto simp: less_Suc_eq numeral_eq_Suc)
  have nxt: "set_worker n W_gone (ex_drained n) = ex_drained (Suc n)" by (simp add: ex_drained_def)
  have "sys_step\<^sup>*\<^sup>* ((ex_started [])\<lparr>sy_runs := [(1, ex_drained n)]\<rparr>)
      (((ex_started [])\<lparr>sy_runs := [(1, ex_drained n)]\<rparr>)\<lparr>sy_runs := [(1, set_worker n W_gone (ex_drained n))]\<rparr>)"
    by (rule drain_worker) (use n ready in \<open>simp_all add: job at base [unfolded One_nat_def] base\<close>)
  then have "sys_step\<^sup>*\<^sup>* ((ex_started [])\<lparr>sy_runs := [(1, ex_drained n)]\<rparr>)
      ((ex_started [])\<lparr>sy_runs := [(1, ex_drained (Suc n))]\<rparr>)" by (simp add: nxt)
  moreover have "sys_step\<^sup>*\<^sup>* exs0 ((ex_started [])\<lparr>sy_runs := [(1, ex_drained n)]\<rparr>)"
    using Suc by simp
  ultimately show ?case by (rule rtranclp_trans [rotated])
qed

lemma ex_reach_finished: "sys_step\<^sup>*\<^sup>* exs0 ex_finished"
proof (rule rtranclp.rtrancl_into_rtrancl [OF ex_drained_reach [OF order_refl]])
  let ?s = "(ex_started [])\<lparr>sy_runs := [(1, ex_drained 4)]\<rparr>"
  have g: "\<forall>p \<in> set (rn_workers (ex_drained 4)). p = W_gone" by code_simp
  have z: "None = (if rn_pause (ex_drained 4) = None \<and> sy_stopping ?s then Some Interrupted else rn_pause (ex_drained 4))"
    by code_simp
  show "sys_step ?s ex_finished"
    unfolding ex_finished_def Let_def by (rule S_settle [OF _ g z]) simp
qed

theorem finished_job_has_no_pending_row_witness:
  "map jb_status (jobs (sy_db ex_finished)) = [Finished]
   \<and> list_all (\<lambda>j. jb_status j = Finished \<longrightarrow> jc_pending (counts (sy_db ex_finished) (jb_id j)) = 0)
       (jobs (sy_db ex_finished))"
proof
  show "map jb_status (jobs (sy_db ex_finished)) = [Finished]" by code_simp
qed (rule finished_job_has_no_pending_row [OF exs_start ex_reach_finished])

theorem claim_respects_the_order_witness:
  "list_all (\<lambda>q. claimable 1 (sy_db ex_claiming) q \<longrightarrow> 0 \<le> rw_ordinal q) (job_rows (sy_db ex_claiming))
   \<and> fst (claimRow 5 1 0 (sy_db ex_claiming)) \<noteq> None"
proof -
  let ?c = "claimRow 5 1 0 (sy_db ex_claiming)"
  have "fst ?c = Some (the (fst ?c))" and o: "rw_ordinal (the (fst ?c)) = 0" by code_simp+
  then have "?c = (Some (the (fst ?c)), snd ?c)" by (metis prod.collapse)
  note c = claim_respects_the_order [OF this, unfolded o]
  have "fst ?c \<noteq> None" by code_simp
  with c show ?thesis by blast
qed

theorem some_pending_row_is_claimable_witness: "fst (claimRow 5 1 0 (sy_db ex_claiming)) \<noteq> None"
  by (rule some_pending_row_is_claimable [where rank = id]) code_simp+

section \<open>A cancelled job with a row to run, and a run that writes after losing its job\<close>

text \<open>
  Cancelling doesn't stop every row: a row in flight whose directory goes away after the job
  was cancelled is put back to pending in the cancelled job, where neither continuing nor
  cancelling again touches it.
\<close>

theorem cancelled_job_can_keep_a_pending_row:
  assumes "bulk_inv n db" "j \<in> set (jobs db)" "jb_status j = Cancelled"
    and "r \<in> set (job_rows db)" "rw_job_id r = jb_id j" "rw_run_token r = Some t"
    and "finish_row now audited job r t (Threw_unavailable False) db = (p, db')"
  shows "jc_pending (counts db' (jb_id j)) \<noteq> 0
    \<and> fst (resume later audited' (jb_id j) actor db') = Done False
    \<and> fst (cancel later audited' (jb_id j) actor db') = Done False"
proof -
  note d = finish_db [OF assms(7)]
  have "ended now (Threw_unavailable False) r \<in> set (job_rows db')"
    using assms(4,6) by (auto simp: d(2) set_update_where token_row_def image_iff)
  then have "jc_pending (counts db' (jb_id j)) \<noteq> 0"
    using assms(5) by (auto simp: counts_pending rows_of_def ended_pending intro!: bexI)
  moreover have "updated_count (\<lambda>x. jb_id x = jb_id j \<and> jb_status x \<in> S) (jobs db') = 0" if "Cancelled \<notin> S" for S
    unfolding updated_count_0 d(1)
  proof (intro ballI notI)
    fix x assume x: "x \<in> set (jobs db)" and hit: "jb_id x = jb_id j \<and> jb_status x \<in> S"
    then have "x = j" using distinct_key_eq [OF ids_distinct [OF assms(1)] x assms(2)] by simp
    with hit assms(3) that show False by simp
  qed
  from this [of "{Paused}"] this [of "{Queued, Running, Paused}"]
  have "fst (resume later audited' (jb_id j) actor db') = Done False" "fst (cancel later audited' (jb_id j) actor db') = Done False"
    by (simp_all add: resume_def cancel_def Let_def)
  ultimately show ?thesis by simp
qed

theorem cancelled_job_can_keep_a_pending_row_witness:
  "jc_pending (counts (snd (finish_row 7 True (rn_job (ex_run [ex_row])) (the (fst (claimRow 5 1 0 (sy_db ex_claiming)))) 0
      (Threw_unavailable False) (sy_db ex_cancelled))) 1) \<noteq> 0"
proof -
  have inv: "bulk_inv (sy_next ex_cancelled) (sy_db ex_cancelled)"
    using reachable_sys_inv [OF exs_start ex_reach_crashed] by (simp add: ex_crashed_def sys_inv_def)
  let ?j = "hd (jobs (sy_db ex_cancelled))" and ?r = "hd (job_rows (sy_db ex_cancelled))"
  have f: "?j \<in> set (jobs (sy_db ex_cancelled))" "jb_status ?j = Cancelled" "?r \<in> set (job_rows (sy_db ex_cancelled))"
    "rw_job_id ?r = jb_id ?j" "rw_run_token ?r = Some 0" "jb_id ?j = 1"
    "?r = the (fst (claimRow 5 1 0 (sy_db ex_claiming)))" by code_simp+
  from cancelled_job_can_keep_a_pending_row [OF inv f(1-5) prod.collapse [symmetric]]
  show ?thesis unfolding f(6,7) by blast
qed

text \<open>
  A run that lost its job to the sweep still writes to its rows: its token is gone from the
  job but not from the row it had in flight, which the sweep failed as interrupted, and the
  result it reports late replaces that.
\<close>

theorem lost_run_still_records_its_row:
  assumes "j \<in> set (jobs db)" "stale now j" "r \<in> set (job_rows db)" "rw_job_id r = jb_id j"
    and "rw_status r = R_running" "rw_run_token r = Some t" "bulk_inv n db"
    and "finish_row later audited job r t (Returned (Ok_row k)) (recoverStale now audited db) = (p, db')"
  shows "\<not> holds_job (jb_id j) t (recoverStale now audited db)
    \<and> list_ex (\<lambda>x. rw_id x = rw_id r \<and> rw_status x = (if oo_unchanged k then R_skipped else R_succeeded)) (job_rows db')"
proof -
  let ?db = "recoverStale now audited db"
  have "jb_status x \<noteq> Running" if "x \<in> set (jobs ?db)" "jb_id x = jb_id j" for x
  proof -
    from that(1) have "x \<in> (\<lambda>y. if stale now y then y\<lparr>jb_status := Paused,
        jb_pause_reason := Some Interrupted, jb_run_token := None\<rparr> else y) ` set (jobs db)"
      unfolding recoverStale_db(1) set_update_where .
    then obtain y where y: "y \<in> set (jobs db)" "x = (if stale now y then y\<lparr>jb_status := Paused,
        jb_pause_reason := Some Interrupted, jb_run_token := None\<rparr> else y)"
      by (rule imageE)
    then have "jb_id y = jb_id j" using that(2) by (simp split: if_splits)
    then have "y = j" using distinct_key_eq [OF ids_distinct [OF assms(7)] y(1) assms(1)] by simp
    then show ?thesis using y(2) assms(2) by simp
  qed
  then have "\<not> holds_job (jb_id j) t ?db" by (auto simp: holds_job_def)
  moreover have "interrupted now r \<in> set (job_rows ?db)"
    using assms(1-5) by (auto simp: recoverStale_db set_update_where image_iff intro!: bexI [of _ r])
  then have "ended later (Returned (Ok_row k)) (interrupted now r) \<in> set (job_rows db')"
    unfolding finish_db(2) [OF assms(8)] using assms(6)
    by (auto simp: set_update_where token_row_def image_iff intro!: bexI [of _ "interrupted now r"])
  moreover have "rw_id (ended later (Returned (Ok_row k)) (interrupted now r)) = rw_id r"
    "rw_status (ended later (Returned (Ok_row k)) (interrupted now r))
       = (if oo_unchanged k then R_skipped else R_succeeded)"
    by (simp_all add: ended_def settled_row_def)
  ultimately show ?thesis unfolding list_ex_iff by blast
qed

theorem lost_run_still_records_its_row_witness:
  "let r = hd (job_rows (sy_db ex_writing));
       k = \<lparr>oo_unchanged = False, oo_reason = None, oo_before = None, oo_after = None, oo_targetDn = None, oo_targetId = None\<rparr>
   in \<not> holds_job 1 0 (recoverStale 99999 True (sy_db ex_writing))
      \<and> list_ex (\<lambda>x. rw_id x = rw_id r \<and> rw_status x = R_succeeded)
          (job_rows (snd (finish_row 100000 True (rn_job (ex_run [ex_row])) r 0 (Returned (Ok_row k))
             (recoverStale 99999 True (sy_db ex_writing)))))"
proof -
  have inv: "bulk_inv (sy_next ex_writing) (sy_db ex_writing)"
    using reachable_sys_inv [OF exs_start ex_reach_writing] by (simp add: sys_inv_def)
  let ?j = "hd (jobs (sy_db ex_writing))" and ?r = "hd (job_rows (sy_db ex_writing))"
  have f: "?j \<in> set (jobs (sy_db ex_writing))" "stale 99999 ?j" "?r \<in> set (job_rows (sy_db ex_writing))"
    "rw_job_id ?r = jb_id ?j" "rw_status ?r = R_running" "rw_run_token ?r = Some 0" "jb_id ?j = 1" by code_simp+
  from lost_run_still_records_its_row [OF f(1-6) inv prod.collapse [symmetric],
      where later = 100000 and audited = True
        and k = "\<lparr>oo_unchanged = False, oo_reason = None, oo_before = None, oo_after = None, oo_targetDn = None, oo_targetId = None\<rparr>"
        and job = "rn_job (ex_run [ex_row])"]
  show ?thesis unfolding f(7) Let_def by simp
qed

end
