(* ===== verification/BulkJobCredentials.thy ===== *)
theory BulkJobCredentials
  imports AuthSystem BulkJobStore
begin

text \<open>
  What a bulk job may write with (\<^verbatim>\<open>credentials\<close> of
  \<^verbatim>\<open>apps/api/src/services/bulkJobs/service.ts\<close>): the password its operator stepped up with, for as
  long as their elevated session lives. The interface \<open>write_authority\<close> says what a job
  may rely on, and the sign-in system of \<^verbatim>\<open>AuthSystem\<close> provides it.
\<close>

section \<open>The credentials of a job\<close>

(* src/apps/api/src/services/bulkJobs/service.ts:748-758 credentials *)
definition credentials :: "ms \<Rightarrow> job_rec \<Rightarrow> auth_state \<Rightarrow> write_context option \<times> auth_state" where
  "credentials now job s =
     (let elevated = findActiveElevated now (ja_adminSessionId (jb_actor job)) (sdb s);
          (password, cache) = (case elevated of None \<Rightarrow> (None, creds s)
                                | Some e \<Rightarrow> cc_get (es_id e) now (creds s));
          s = s\<lparr>creds := cache\<rparr>
      in if \<not> truthy password then (None, s)
         else (Some \<lparr>wc_actorUserId = ja_actorUserId (jb_actor job),
                     wc_actorUsername = ja_actorUsername (jb_actor job),
                     wc_actorPassword = the password,
                     wc_correlationId = or_empty (ja_correlationId (jb_actor job))\<rparr>, s))"

section \<open>The interface\<close>

text \<open>
  A grant is given only while its holder's authority is in force, asking for one changes
  nobody's authority, and once the holder has ended it, it is never in force again unless
  somebody grants it anew.
\<close>

locale write_authority =
  fixes grant :: "'t \<Rightarrow> 'j \<Rightarrow> 's \<Rightarrow> 'w option \<times> 's"
    and in_force :: "'t \<Rightarrow> 'j \<Rightarrow> 's \<Rightarrow> bool"
    and ended :: "'j \<Rightarrow> 's \<Rightarrow> 's \<Rightarrow> bool"
    and sound :: "'s \<Rightarrow> bool"
  assumes grant_in_force: "sound s \<Longrightarrow> fst (grant t j s) = Some w \<Longrightarrow> in_force t j s"
    and grant_sound: "sound s \<Longrightarrow> sound (snd (grant t j s))"
    and grant_same: "in_force u k (snd (grant t j s)) \<longleftrightarrow> in_force u k s"
    and ended_sound: "sound s \<Longrightarrow> ended j s s' \<Longrightarrow> sound s'"
    and ended_not_in_force: "ended j s s' \<Longrightarrow> \<not> in_force t j s'"
begin

text \<open>Other jobs asking for their grants in between.\<close>

definition asked :: "('t \<times> 'j) list \<Rightarrow> 's \<Rightarrow> 's" where
  "asked qs s = fold (\<lambda>(t, j) s. snd (grant t j s)) qs s"

lemma asked_sound: "sound s \<Longrightarrow> sound (asked qs s)"
  unfolding asked_def by (induction qs arbitrary: s) (simp_all add: grant_sound split_beta)

lemma asked_same: "in_force u k (asked qs s) \<longleftrightarrow> in_force u k s"
  unfolding asked_def by (induction qs arbitrary: s) (simp_all add: grant_same split_beta)

lemma no_grant_after_end:
  assumes "sound s" "ended j s s'"
  shows "fst (grant t j (asked qs s')) = None"
proof (rule ccontr)
  assume "fst (grant t j (asked qs s')) \<noteq> None"
  then obtain w where "fst (grant t j (asked qs s')) = Some w" by blast
  then have "in_force t j (asked qs s')"
    by (rule grant_in_force [OF asked_sound [OF ended_sound [OF assms]]])
  with ended_not_in_force [OF assms(2)] show False by (simp add: asked_same)
qed

end

section \<open>The sign-in system provides it\<close>

text \<open>An elevated session in force on a sign-in session in force.\<close>

definition operator_in_force :: "session_settings \<Rightarrow> ms \<Rightarrow> job_rec \<Rightarrow> auth_state \<Rightarrow> bool" where
  "operator_in_force st now job s \<longleftrightarrow>
     list_ex (\<lambda>e. es_adminSessionId e = ja_adminSessionId (jb_actor job) \<and> elevated_active now e) (elevated_sessions (sdb s))
     \<and> list_ex (\<lambda>a. as_id a = ja_adminSessionId (jb_actor job) \<and> session_live st now a) (admin_sessions (sdb s))"

text \<open>The operator signing out, or stepping down.\<close>

definition gave_up :: "job_rec \<Rightarrow> auth_state \<Rightarrow> auth_state \<Rightarrow> bool" where
  "gave_up job s s' \<longleftrightarrow> (\<exists>now a. as_id (session a) = ja_adminSessionId (jb_actor job)
     \<and> (s' = logout now (Some a) s \<or> s' = step_down now a s))"

lemma credentials_sdb [simp]: "sdb (snd (credentials now job s)) = sdb s"
  by (simp add: credentials_def Let_def split: prod.splits)

lemma credentials_creds:
  "creds (snd (credentials now job s)) =
     (case findActiveElevated now (ja_adminSessionId (jb_actor job)) (sdb s) of
        None \<Rightarrow> creds s | Some e \<Rightarrow> snd (cc_get (es_id e) now (creds s)))"
  by (simp add: credentials_def Let_def split: prod.splits option.splits)

lemma credentials_inv:
  assumes "auth_inv env (clock, s)"
  shows "auth_inv env (clock, snd (credentials now job s))"
proof (cases "findActiveElevated now (ja_adminSessionId (jb_actor job)) (sdb s)")
  case None
  with assms show ?thesis by (simp add: auth_inv_def credentials_creds)
next
  case (Some e)
  have "linked (sdb s) (snd (cc_get (es_id e) now (creds s)))"
  proof (rule linked_sub)
    show "linked (sdb s) (creds s)" using assms by (simp add: auth_inv_def)
  qed (rule cc_get_entries)
  with assms Some show ?thesis by (simp add: auth_inv_def credentials_creds cc_inv_get)
qed

lemma credentials_in_force:
  assumes "auth_inv env (clock, s)" "fst (credentials now job s) = Some w"
  shows "operator_in_force (env_settings env) now job s"
proof -
  let ?i = "ja_adminSessionId (jb_actor job)"
  obtain e where e: "findActiveElevated now ?i (sdb s) = Some e"
    using assms(2) by (cases "findActiveElevated now ?i (sdb s)") (auto simp: credentials_def)
  obtain a where "a \<in> set (admin_sessions (sdb s))" "as_id a = ?i" "session_live (env_settings env) now a"
    by (rule active_owner [OF assms(1) e])
  with findActive_mem [OF e] show ?thesis by (auto simp: operator_in_force_def list_ex_iff)
qed

lemma given_up:
  assumes "gave_up job s s'"
  shows "\<not> operator_in_force st t job s'"
    and "auth_inv env (clock, s) \<Longrightarrow> auth_inv env (clock, s')"
proof -
  obtain now a where a: "as_id (session a) = ja_adminSessionId (jb_actor job)"
    and s': "s' = logout now (Some a) s \<or> s' = step_down now a s"
    using assms by (auto simp: gave_up_def)
  have "elevated_sessions (sdb s') = revoke_owned now (as_id (session a)) (elevated_sessions (sdb s))"
    using s' revokeAdmin_snd [of now "as_id (session a)" "sdb s"]
      revokeElevated_snd [of now "as_id (session a)" "sdb s"]
    by (auto simp: logout_def step_down_def Let_def split: prod.splits if_splits)
  then show "\<not> operator_in_force st t job s'"
    using revoke_owned_unrevoked [of _ now "as_id (session a)" "elevated_sessions (sdb s)"] a
    by (auto simp: operator_in_force_def list_ex_iff elevated_active_def)
  show "auth_inv env (clock, s')" if "auth_inv env (clock, s)"
    using s' logout_inv [OF that] step_down_inv [OF that] by auto
qed

interpretation job_writes: write_authority credentials "operator_in_force (env_settings env)" gave_up
    "\<lambda>s. \<exists>clock. auth_inv env (clock, s)"
proof
  show "operator_in_force (env_settings env) u k (snd (credentials t j s))
      = operator_in_force (env_settings env) u k s" for u k t j s
    by (simp add: operator_in_force_def)
  show "\<exists>clock. auth_inv env (clock, s')" if "\<exists>clock. auth_inv env (clock, s)" "gave_up j s s'" for s j s'
    using that(1) given_up(2) [OF that(2)] by (elim exE) (rule exI)
  show "\<not> operator_in_force (env_settings env) t j s'" if "gave_up j s s'" for j s s' t
    by (rule given_up(1) [OF that])
qed (use credentials_in_force credentials_inv in blast)+

section \<open>A job writes only while its operator may\<close>



definition ex_job :: job_rec where
  "ex_job = \<lparr>jb_id = 1, jb_actor = \<lparr>ja_directoryId = 1, ja_adminSessionId = ''a2'', ja_actorUserId = ''g1'',
       ja_actorDisplayName = None, ja_actorUsername = ''ann'', ja_sourceIp = None, ja_userAgent = None,
       ja_correlationId = None\<rparr>,
     jb_action = User_disable, jb_status = Queued, jb_pause_reason = None, jb_run_token = None,
     jb_subject = None, jb_reverts_job_id = None, jb_created_at = 0, jb_heartbeat_at = 0,
     jb_finished_at = None, jb_results_downloaded_at = None\<rparr>"



end
