(* ===== verification/RawAttributes.thy ===== *)
theory RawAttributes
  imports Capabilities "HOL-Library.Char_ord" "HOL-Library.List_Lexorder"
begin

text \<open>
  Raw LDAP attributes and what they say of a group (\<^verbatim>\<open>apps/api/src/lib/rawAttributes.ts\<close>,
  \<^verbatim>\<open>sid.ts\<close>, \<^verbatim>\<open>groupPrivilege.ts\<close>). Raw attributes are a JSON object; one that isn't there
  reads as undefined, which these functions treat as null.
\<close>

section \<open>Reading an attribute\<close>

type_synonym raw_attributes = "(string, json) jsmap"

definition raw_get :: "raw_attributes \<Rightarrow> string \<Rightarrow> json" where
  "raw_get raw k = (case jm_get raw k of None \<Rightarrow> JNull | Some v \<Rightarrow> v)"

text \<open>\<open>String(v)\<close>; inside an array, null prints as nothing.\<close>

fun js_string :: "json \<Rightarrow> string" where
  "js_string JNull = ''null''"
| "js_string (JBool b) = (if b then ''true'' else ''false'')"
| "js_string (JNum n) = dec n"
| "js_string (JStr s) = s"
| "js_string (JArr vs) = join '','' (map (\<lambda>v. if v = JNull then [] else js_string v) vs)"
| "js_string (JObj _) = ''[object Object]''"

(* src/apps/api/src/lib/rawAttributes.ts:20-28 rawScalarValue *)
function rawScalarValue :: "json \<Rightarrow> string option" where
  "rawScalarValue JNull = None"
| "rawScalarValue (JArr vs) = (if vs = [] then None else rawScalarValue (last vs))"
| "rawScalarValue (JStr s) = or_none s"
| "rawScalarValue (JBool b) = Some (js_string (JBool b))"
| "rawScalarValue (JNum n) = Some (js_string (JNum n))"
| "rawScalarValue (JObj fs) = Some (js_string (JObj fs))"
  by pat_completeness auto
termination
proof (relation "measure size", goal_cases)
  case (2 vs)
  then have "size (last vs) < Suc (size_list size vs)"
    by (simp add: less_Suc_eq_le size_list_estimation' [OF last_in_set])
  then show ?case by simp
qed simp

(* src/apps/api/src/lib/rawAttributes.ts:31-43 rawArrayValues *)
definition rawArrayValues :: "json \<Rightarrow> string list" where
  "rawArrayValues v =
     (if v = JNull then []
      else concat (map (\<lambda>x. case x of
               JStr s \<Rightarrow> if length s > 0 then [s] else []
             | JNull \<Rightarrow> []
             | x \<Rightarrow> [js_string x])
           (case v of JArr vs \<Rightarrow> vs | _ \<Rightarrow> [v])))"

(* src/apps/api/src/lib/rawAttributes.ts:46-49 rawFlag *)
definition rawFlag :: "json \<Rightarrow> bool" where
  "rawFlag v =
     (let value = (case v of JArr vs \<Rightarrow> if vs = [] then JNull else last vs | _ \<Rightarrow> v)
      in case value of JStr s \<Rightarrow> to_upper s = ''TRUE'' | _ \<Rightarrow> value = JBool True)"

(* src/apps/api/src/providers/active-directory/normalize.ts:41-53 SECRET_ATTRS *)
definition SECRET_ATTRS :: "string list" where
  "SECRET_ATTRS =
     [''ms-mcs-admpwd'', ''mslaps-password'', ''mslaps-encryptedpassword'',
      ''mslaps-encryptedpasswordhistory'', ''mslaps-encrypteddsrmpassword'',
      ''mslaps-encrypteddsrmpasswordhistory'', ''msds-managedpassword'', ''unicodepwd'',
      ''userpassword'', ''supplementalcredentials'', ''msfve-recoverypassword'']"

(* src/apps/api/src/providers/active-directory/normalize.ts:55-57 isSecretAttr *)
definition isSecretAttr :: "string \<Rightarrow> bool" where
  "isSecretAttr name \<longleftrightarrow> to_lower name \<in> set SECRET_ATTRS"

text \<open>\<open>Object.fromEntries(Object.entries(raw).filter(...))\<close>, for a caller who may see it.\<close>

(* src/apps/api/src/lib/rawAttributes.ts:11-17 rawAttributesFor *)
definition rawAttributesFor :: "capability list option \<Rightarrow> raw_attributes \<Rightarrow> raw_attributes option" where
  "rawAttributesFor capabilities raw =
     (if \<not> (case capabilities of None \<Rightarrow> False | Some cs \<Rightarrow> View_raw_attributes \<in> set cs) then None
      else Some (filter (\<lambda>(k, v). \<not> isSecretAttr k) raw))"

section \<open>SIDs\<close>

(* src/apps/api/src/lib/sid.ts:4-6 isDomainSid *)
definition isDomainSid :: "string option \<Rightarrow> bool" where
  "isDomainSid sid = (case sid of None \<Rightarrow> False | Some s \<Rightarrow> starts_with s ''S-1-5-21-'')"

text \<open>\<open>parseInt(s, 10)\<close> of a text with no minus sign: leading white space, a plus, then digits.\<close>

definition parse_int :: "string \<Rightarrow> nat option" where
  "parse_int s =
     (let t = trim_start s;
          ds = takeWhile is_digit (case t of CHR ''+'' # u \<Rightarrow> u | _ \<Rightarrow> t)
      in if ds = [] then None else Some (digits_value ds))"

definition after_last :: "char \<Rightarrow> string \<Rightarrow> string" where
  "after_last c s = rev (takeWhile (\<lambda>d. d \<noteq> c) (rev s))"

(* src/apps/api/src/lib/sid.ts:9-14 ridOf *)
definition ridOf :: "string option \<Rightarrow> nat option" where
  "ridOf sid = (if \<not> truthy sid then None else parse_int (after_last (CHR ''-'') (the sid)))"

section \<open>What membership in a group grants\<close>

(* src/apps/api/src/lib/groupPrivilege.ts:6-10 GroupLike *)
record group_like =
  gl_distinguishedName :: string
  gl_sid :: "string option"
  gl_rawAttributes :: raw_attributes

(* src/apps/api/src/lib/groupPrivilege.ts:25-25 PROTECTED_BUILTIN_RIDS *)
definition PROTECTED_BUILTIN_RIDS :: "nat list" where
  "PROTECTED_BUILTIN_RIDS = [544, 548, 549, 550, 551, 552]"

(* src/apps/api/src/lib/groupPrivilege.ts:26-26 PROTECTED_DOMAIN_RIDS *)
definition PROTECTED_DOMAIN_RIDS :: "nat list" where
  "PROTECTED_DOMAIN_RIDS = [512, 516, 518, 519, 521, 526, 527]"

(* src/apps/api/src/lib/groupPrivilege.ts:34-44 PRIVILEGED_DOMAIN_GROUPS *)
definition PRIVILEGED_DOMAIN_GROUPS :: "(nat \<times> string) list" where
  "PRIVILEGED_DOMAIN_GROUPS =
     [(498, ''Enterprise Read-only Domain Controllers''), (512, ''Domain Admins''),
      (516, ''Domain Controllers''), (518, ''Schema Admins''), (519, ''Enterprise Admins''),
      (520, ''Group Policy Creator Owners''), (521, ''Read-only Domain Controllers''),
      (526, ''Key Admins''), (527, ''Enterprise Key Admins'')]"

(* src/apps/api/src/lib/groupPrivilege.ts:45-52 PRIVILEGED_BUILTIN_GROUPS *)
definition PRIVILEGED_BUILTIN_GROUPS :: "(nat \<times> string) list" where
  "PRIVILEGED_BUILTIN_GROUPS =
     [(544, ''Administrators''), (548, ''Account Operators''), (549, ''Server Operators''),
      (550, ''Print Operators''), (551, ''Backup Operators''), (552, ''Replicator'')]"

(* src/apps/api/src/lib/groupPrivilege.ts:55-61 privilegedSidName *)
definition privilegedSidName :: "string \<Rightarrow> string option" where
  "privilegedSidName sid =
     (case ridOf (Some sid) of
        None \<Rightarrow> None
      | Some rid \<Rightarrow>
          if starts_with sid ''S-1-5-32-'' then map_of PRIVILEGED_BUILTIN_GROUPS rid
          else if starts_with sid ''S-1-5-21-'' then map_of PRIVILEGED_DOMAIN_GROUPS rid
          else None)"

(* src/apps/api/src/lib/groupPrivilege.ts:64-71 isProtectedGroup *)
definition isProtectedGroup :: "group_like \<Rightarrow> bool" where
  "isProtectedGroup grp \<longleftrightarrow>
     (if rawScalarValue (raw_get (gl_rawAttributes grp) ''adminCount'') = Some ''1'' then True
      else case ridOf (gl_sid grp) of
             None \<Rightarrow> False
           | Some rid \<Rightarrow>
               if starts_with (the (gl_sid grp)) ''S-1-5-32-'' then rid \<in> set PROTECTED_BUILTIN_RIDS
               else rid \<in> set PROTECTED_DOMAIN_RIDS)"

(* src/apps/api/src/lib/groupPrivilege.ts:74-77 grantedRole *)
definition grantedRole :: "string \<Rightarrow> role_group list \<Rightarrow> role option" where
  "grantedRole groupDn roleGroups =
     map_option rg_role (find (\<lambda>g. to_lower (rg_dn g) = to_lower groupDn) roleGroups)"

datatype group_privilege = GP_protected | GP_role role

(* src/apps/api/src/lib/groupPrivilege.ts:80-87 groupPrivilege *)
definition groupPrivilege :: "group_like \<Rightarrow> role_group list \<Rightarrow> group_privilege option" where
  "groupPrivilege grp roleGroups =
     (if isProtectedGroup grp then Some GP_protected
      else map_option GP_role (grantedRole (gl_distinguishedName grp) roleGroups))"

text \<open>
  No caller is given a secret: what the API returns as an object's raw attributes holds
  no password attribute in any spelling, and nothing at all for a caller without the
  capability to see raw attributes.
\<close>

theorem raw_view_hides_secrets:
  "case rawAttributesFor caps raw of
      None \<Rightarrow> \<not> (case caps of None \<Rightarrow> False | Some cs \<Rightarrow> View_raw_attributes \<in> set cs)
    | Some out \<Rightarrow> list_all (\<lambda>(k, v). to_lower k \<notin> set SECRET_ATTRS \<and> (k, v) \<in> set raw) out"
  by (auto simp: rawAttributesFor_def isSecretAttr_def list_all_iff)

text \<open>
  Every group whose SID alone names it as administering its domain or the builtin domain is
  protected, whatever its adminCount says, except the two that AdminSDHolder does not cover.
\<close>

theorem privileged_sids_are_protected:
  "case privilegedSidName sid of
      None \<Rightarrow> True
    | Some name \<Rightarrow> name = ''Enterprise Read-only Domain Controllers'' \<or> name = ''Group Policy Creator Owners''
        \<or> isProtectedGroup \<lparr>gl_distinguishedName = dn, gl_sid = Some sid, gl_rawAttributes = raw\<rparr>"
  by (auto simp: privilegedSidName_def isProtectedGroup_def PRIVILEGED_DOMAIN_GROUPS_def
      PRIVILEGED_BUILTIN_GROUPS_def PROTECTED_BUILTIN_RIDS_def PROTECTED_DOMAIN_RIDS_def
      split: option.split if_split_asm)

end
