(* ===== verification/DistinguishedNames.thy ===== *)
theory DistinguishedNames
  imports Bytes
begin

text \<open>
  Distinguished names: building and parsing them (\<^verbatim>\<open>packages/shared/src/dn.ts\<close>), the parent and
  the leaf of one (\<^verbatim>\<open>apps/api/src/providers/active-directory/normalize.ts\<close>), and how one is shown
  (\<^verbatim>\<open>apps/web/src/design/lib/dn.ts\<close>). A DN whose hex escapes stand for text outside the
  represented range does not parse here.
\<close>

abbreviation backslash :: char where "backslash \<equiv> CHR 0x5C"
abbreviation quote :: char where "quote \<equiv> CHR 0x22"

section \<open>Escaping\<close>

definition rdn_special :: "char \<Rightarrow> bool" where
  "rdn_special c \<longleftrightarrow> c \<in> set ([CHR '','', CHR ''+'', quote, backslash, CHR ''<'', CHR ''>'', CHR '';'', CHR ''='', CHR 0x00])"

(* src/packages/shared/src/dn.ts:10-19 escapeRdnValueRfc *)
definition escapeRdnValueRfc :: "string \<Rightarrow> string" where
  "escapeRdnValueRfc value =
     (if value = [] then value
      else
        let out = concat (map (\<lambda>c. if rdn_special c then [backslash, c] else [c]) value);
            out = (if starts_with out ''#'' \<or> starts_with out '' '' then backslash # out else out)
        in if length out > 1 \<and> ends_with out '' '' \<and> \<not> ends_with out [backslash, CHR '' '']
           then butlast out @ [backslash, CHR '' ''] else out)"

(* src/packages/shared/src/dn.ts:22-24 childDn *)
definition childDn :: "string \<Rightarrow> string \<Rightarrow> string \<Rightarrow> string" where
  "childDn attr value parent = attr @ ''='' @ escapeRdnValueRfc value @ '','' @ parent"

section \<open>Parsing\<close>

(* src/packages/shared/src/dn.ts:26-30 Rdn *)
record rdn =
  rdn_type :: string
  rdn_value :: string

text \<open>\<open>^(?:[A-Za-z][A-Za-z0-9-]*|\d+(?:\.\d+)*)$\<close>.\<close>

(* src/packages/shared/src/dn.ts:32-32 ATTRIBUTE_TYPE *)
definition ATTRIBUTE_TYPE :: "string \<Rightarrow> bool" where
  "ATTRIBUTE_TYPE t \<longleftrightarrow>
     (case t of
        [] \<Rightarrow> False
      | c # cs \<Rightarrow>
          (is_ascii_letter c \<and> list_all (\<lambda>d. is_ascii_letter d \<or> is_digit d \<or> d = CHR ''-'') cs)
          \<or> list_all (\<lambda>part. part \<noteq> [] \<and> list_all is_digit part) (split_at (\<lambda>d. d = CHR ''.'') t))"

definition hex_value :: "char \<Rightarrow> nat" where
  "hex_value c = (let n = of_char c in if n < 58 then n - 48 else if n < 71 then n - 55 else n - 87)"

text \<open>Bytes collected from hex escapes go to the value as the text they encode.\<close>

definition flush :: "string \<Rightarrow> bytes \<Rightarrow> string option" where
  "flush value bs = (if bs = [] then Some value else map_option ((@) value) (utf8_decode bs))"

text \<open>
  The loop over an RDN's value: the unescaped value, and what follows the comma that ends it;
  \<open>None\<close> when it isn't one, or when bytes don't decode.
\<close>

(* src/packages/shared/src/dn.ts:57-84 parseRdns *)
fun scan_value :: "string \<Rightarrow> bytes \<Rightarrow> string \<Rightarrow> (string \<times> string option) option" where
  "scan_value value bs [] = map_option (\<lambda>v. (v, None)) (flush value bs)"
| "scan_value value bs (c # s) =
     (if c = CHR '','' then map_option (\<lambda>v. (v, Some s)) (flush value bs)
      else if c = backslash then
        (case s of
           [] \<Rightarrow> None
         | [d] \<Rightarrow> (case flush value bs of None \<Rightarrow> None | Some v \<Rightarrow> scan_value (v @ [d]) [] [])
         | d # e # t \<Rightarrow>
             if is_hex d \<and> is_hex e then scan_value value (bs @ [16 * hex_value d + hex_value e]) t
             else (case flush value bs of None \<Rightarrow> None | Some v \<Rightarrow> scan_value (v @ [d]) [] (e # t)))
      else if c \<in> set [quote, CHR '';'', CHR ''<'', CHR ''>''] then None
      else (case flush value bs of None \<Rightarrow> None | Some v \<Rightarrow> scan_value (v @ [c]) [] s))"

declare scan_value.simps(2) [simp del]

lemma scan_comma [simp]: "scan_value w bs (CHR '','' # s) = map_option (\<lambda>v. (v, Some s)) (flush w bs)"
  by (simp add: scan_value.simps(2))

lemma scan_lone [simp]: "scan_value w bs [backslash] = None"
  by (simp add: scan_value.simps(2))

lemma scan_escape:
  "scan_value w bs (backslash # d # t) =
     (if t \<noteq> [] \<and> is_hex d \<and> is_hex (hd t)
      then scan_value w (bs @ [16 * hex_value d + hex_value (hd t)]) (tl t)
      else (case flush w bs of None \<Rightarrow> None | Some v \<Rightarrow> scan_value (v @ [d]) [] t))"
  by (cases t) (simp_all add: scan_value.simps(2) [of w bs backslash] split: option.split)

lemma scan_plain:
  assumes "c \<noteq> CHR '',''" "c \<noteq> backslash"
  shows "scan_value w bs (c # s) =
     (if c \<in> set [quote, CHR '';'', CHR ''<'', CHR ''>''] then None
      else (case flush w bs of None \<Rightarrow> None | Some v \<Rightarrow> scan_value (v @ [c]) [] s))"
  using assms by (simp add: scan_value.simps(2) [of w bs c])

lemma scan_shorter: "scan_value w bs s = Some (v, Some r) \<Longrightarrow> length r < length s"
proof (induction "length s" arbitrary: w bs s rule: less_induct)
  case less
  then obtain c t where s: "s = c # t" by (cases s) auto
  have shorter: "length r < length s" if "scan_value w' bs' u = Some (v, Some r)" "length u < length s" for w' bs' u
    using less.hyps [OF that(2,1)] that(2) by simp
  consider "c = CHR '',''" | "c = backslash" | "c \<noteq> CHR '',''" "c \<noteq> backslash" by blast
  then show ?case
  proof cases
    case 1
    with less.prems s show ?thesis by auto
  next
    case 2
    with less.prems s obtain d u where t: "t = d # u" by (cases t) auto
    show ?thesis
    proof (cases "u \<noteq> [] \<and> is_hex d \<and> is_hex (hd u)")
      case True
      with less.prems s 2 t have "scan_value w (bs @ [16 * hex_value d + hex_value (hd u)]) (tl u) = Some (v, Some r)"
        by (simp add: scan_escape)
      then show ?thesis by (rule shorter) (simp add: s t)
    next
      case False
      with less.prems s 2 t obtain x where "scan_value (x @ [d]) [] u = Some (v, Some r)"
        by (auto simp: scan_escape split: option.splits)
      then show ?thesis by (rule shorter) (simp add: s t)
    qed
  next
    case 3
    with less.prems s obtain x where "scan_value (x @ [c]) [] t = Some (v, Some r)"
      by (auto simp: scan_plain split: if_splits option.splits)
    then show ?thesis by (rule shorter) (simp add: s)
  qed
qed

lemma parse_shorter:
  "dropWhile p s = c # r \<Longrightarrow> scan_value [] [] r = Some (v, Some t) \<Longrightarrow> length t < length s"
  using scan_shorter [of "[]" "[]" r v t] length_dropWhile_le [of p s] by simp

(* src/packages/shared/src/dn.ts:49-93 parseRdns *)
function parse_rdns :: "string \<Rightarrow> rdn list option" where
  "parse_rdns s =
     (case dropWhile (\<lambda>c. c \<noteq> CHR ''='') s of
        [] \<Rightarrow> None
      | _ # r \<Rightarrow>
          let type = trim (takeWhile (\<lambda>c. c \<noteq> CHR ''='') s)
          in if \<not> ATTRIBUTE_TYPE type then None
             else (case scan_value [] [] r of
                 None \<Rightarrow> None
               | Some (value, rest) \<Rightarrow>
                   let value = trim value
                   in if value = [] then None
                      else (case rest of
                          None \<Rightarrow> Some [\<lparr>rdn_type = type, rdn_value = value\<rparr>]
                        | Some t \<Rightarrow> map_option ((#) \<lparr>rdn_type = type, rdn_value = value\<rparr>) (parse_rdns t))))"
  by pat_completeness auto
termination
proof (relation "measure length", goal_cases)
  case 1
  then show ?case by simp
next
  case 2
  then show ?case by (auto intro: parse_shorter)
qed

declare parse_rdns.simps [simp del]

(* src/packages/shared/src/dn.ts:40-47 parseDn *)
definition parseDn :: "string \<Rightarrow> rdn list option" where
  "parseDn dn = (if trim dn = [] then None else parse_rdns dn)"

(* src/packages/shared/src/dn.ts:95-95 rdnKey *)
definition rdnKey :: "rdn \<Rightarrow> string" where
  "rdnKey r = to_lower (rdn_type r) @ ''='' @ to_lower (rdn_value r)"

(* src/packages/shared/src/dn.ts:98-104 isDnWithin *)
definition isDnWithin :: "string \<Rightarrow> string \<Rightarrow> bool" where
  "isDnWithin dn base \<longleftrightarrow>
     (case (parseDn dn, parseDn base) of
        (Some inner, Some outer) \<Rightarrow>
          length outer \<le> length inner
          \<and> list_all2 (\<lambda>r b. rdnKey r = rdnKey b) (drop (length inner - length outer) inner) outer
      | _ \<Rightarrow> False)"

section \<open>The parent and the leaf\<close>

fun split_head :: "string \<Rightarrow> string \<times> string option" where
  "split_head [] = ([], None)"
| "split_head (c # s) =
     (if c = backslash then
        (case s of [] \<Rightarrow> ([c], None) | d # t \<Rightarrow> apfst (\<lambda>h. c # d # h) (split_head t))
      else if c = CHR '','' then ([], Some s)
      else apfst ((#) c) (split_head s))"

(* src/apps/api/src/providers/active-directory/normalize.ts:428-442 splitDnHead *)
definition splitDnHead :: "string \<Rightarrow> string \<times> string option" where
  "splitDnHead dn =
     (case split_head dn of (h, r) \<Rightarrow> (trim h, case r of None \<Rightarrow> None | Some t \<Rightarrow> or_none (trim t)))"

(* src/apps/api/src/providers/active-directory/normalize.ts:445-447 parentDn *)
definition parentDn :: "string \<Rightarrow> string option" where
  "parentDn dn = snd (splitDnHead dn)"

(* src/apps/api/src/providers/active-directory/normalize.ts:450-452 leafRdn *)
definition leafRdn :: "string \<Rightarrow> string" where
  "leafRdn dn = fst (splitDnHead dn)"

(* src/apps/api/src/providers/active-directory/normalize.ts:455-460 leafRdnValue *)
definition leafRdnValue :: "string \<Rightarrow> string option" where
  "leafRdnValue dn =
     (case dropWhile (\<lambda>c. c \<noteq> CHR ''='') (fst (splitDnHead dn)) of
        [] \<Rightarrow> None | _ # v \<Rightarrow> or_none (trim v))"

section \<open>How a DN is shown\<close>

(* src/apps/web/src/design/lib/dn.ts:8-21 rdns *)
fun rdns_from :: "string \<Rightarrow> string \<Rightarrow> string list" where
  "rdns_from cur [] = [trim cur]"
| "rdns_from cur (c # s) =
     (if c = backslash \<and> s \<noteq> [] then rdns_from (cur @ [hd s]) (tl s)
      else if c = CHR '','' then trim cur # rdns_from [] s
      else rdns_from (cur @ [c]) s)"

(* src/apps/web/src/design/lib/dn.ts:8-21 rdns *)
definition rdns :: "string \<Rightarrow> string list" where
  "rdns dn = rdns_from [] dn"

definition after_eq :: "string \<Rightarrow> string" where
  "after_eq r = (case dropWhile (\<lambda>c. c \<noteq> CHR ''='') r of [] \<Rightarrow> r | _ # v \<Rightarrow> v)"

(* src/apps/web/src/design/lib/dn.ts:28-37 dnPath *)
definition dnPath :: "string list \<Rightarrow> string \<Rightarrow> string" where
  "dnPath rdnList separator =
     (let isDc = (\<lambda>r. starts_with (to_lower r) ''dc='');
          domain = join ''.'' (map after_eq (filter isDc rdnList));
          containers = rev (map after_eq (filter (\<lambda>r. \<not> isDc r) rdnList))
      in join separator (filter (\<lambda>s. s \<noteq> []) (domain # containers)))"

(* src/apps/web/src/design/lib/dn.ts:43-46 dnName *)
definition dnName :: "string \<Rightarrow> string" where
  "dnName dn = after_eq (hd (rdns dn))"

section \<open>What was built is what is read\<close>

lemma trim_no_space: "\<forall>c \<in> set s. \<not> is_space c \<Longrightarrow> trim s = s"
proof -
  assume s: "\<forall>c \<in> set s. \<not> is_space c"
  have "dropWhile is_space t = t" if "\<forall>c \<in> set t. \<not> is_space c" for t
    using that by (cases t) simp_all
  from this [of s] this [of "rev s"] s show ?thesis by (simp add: trim_def trim_start_def trim_end_def)
qed

lemma trim_ends:
  assumes "trim s = s" "s \<noteq> []"
  shows "\<not> is_space (hd s)" "\<not> is_space (last s)"
proof -
  have start: "trim_start s = s"
  proof -
    have "length (trim s) \<le> length (trim_start s)"
      by (simp add: trim_def trim_end_def length_dropWhile_le [THEN order_trans])
    moreover have "length (trim_start s) \<le> length s" by (simp add: trim_start_def length_dropWhile_le)
    ultimately have "length (trim_start s) = length s" using assms(1) by simp
    then have "length (takeWhile is_space s) = 0"
      by (metis add_cancel_left_left length_append takeWhile_dropWhile_id trim_start_def)
    then show ?thesis by (metis append_Nil length_0_conv takeWhile_dropWhile_id trim_start_def)
  qed
  show "\<not> is_space (hd s)"
    using start assms(2) by (metis dropWhile_eq_Nil_conv hd_dropWhile trim_start_def)
  have "trim_end s = s" using assms(1) start by (simp add: trim_def)
  then have "dropWhile is_space (rev s) = rev s" by (simp add: trim_end_def rev_swap)
  then have "\<not> is_space (hd (rev s))" using assms(2) by (metis dropWhile_eq_Nil_conv hd_dropWhile rev_is_Nil_conv)
  then show "\<not> is_space (last s)" by (simp add: hd_rev)
qed

lemma split_at_chars: "c \<in> set s \<Longrightarrow> p c \<or> (\<exists>t \<in> set (split_at p s). c \<in> set t)"
  by (induction s) (auto split: list.splits)

lemma attribute_type_chars:
  assumes "ATTRIBUTE_TYPE a" "c \<in> set a"
  shows "is_ascii_letter c \<or> is_digit c \<or> c = CHR ''-'' \<or> c = CHR ''.''"
  using assms split_at_chars [of c a "\<lambda>d. d = CHR ''.''"]
  by (cases a) (auto simp: ATTRIBUTE_TYPE_def list_all_iff)

lemma attribute_type_plain:
  assumes "ATTRIBUTE_TYPE a"
  shows "CHR ''='' \<notin> set a" "backslash \<notin> set a" "CHR '','' \<notin> set a" "trim a = a" "a \<noteq> []"
proof -
  have no: "\<not> (is_ascii_letter c \<or> is_digit c \<or> c = CHR ''-'' \<or> c = CHR ''.'')"
    if "c = CHR ''='' \<or> c = backslash \<or> c = CHR '',''" for c
    using that by (auto simp: is_ascii_letter_def is_digit_def)
  show "CHR ''='' \<notin> set a" "backslash \<notin> set a" "CHR '','' \<notin> set a"
    using attribute_type_chars [OF assms] no by blast+
  have "\<not> is_space c" if "is_ascii_letter c \<or> is_digit c \<or> c = CHR ''-'' \<or> c = CHR ''.''" for c
    using that by (auto simp: is_ascii_letter_def is_digit_def is_space_def Let_def)
  then show "trim a = a" using attribute_type_chars [OF assms] by (intro trim_no_space) blast
  show "a \<noteq> []" using assms by (auto simp: ATTRIBUTE_TYPE_def)
qed

definition escaped :: "string \<Rightarrow> string" where
  "escaped value = concat (map (\<lambda>c. if rdn_special c then [backslash, c] else [c]) value)"

lemma escaped_simps [simp]:
  "escaped [] = []" "escaped (c # s) = (if rdn_special c then [backslash, c] else [c]) @ escaped s"
  "escaped (s @ t) = escaped s @ escaped t"
  by (simp_all add: escaped_def)

lemma special_not_hex: "rdn_special c \<Longrightarrow> \<not> is_hex c"
  by (auto simp: rdn_special_def is_hex_def)

lemma escape_trimmed:
  assumes "v \<noteq> []" "trim v = v"
  shows "escapeRdnValueRfc v = (if hd v = CHR ''#'' then [backslash] else []) @ escaped v"
proof -
  note ends = trim_ends [OF assms(2,1)]
  have space: "is_space (CHR '' '')" by (simp add: is_space_def)
  obtain u c where v: "v = u @ [c]" using assms(1) by (metis append_butlast_last_id)
  have last: "\<not> ends_with (x @ escaped v) '' ''" for x
    using ends(2) space by (auto simp: v ends_with_def split: if_splits)
  have first: "starts_with (escaped v) '' '' = False" "starts_with (escaped v) ''#'' = (hd v = CHR ''#'')"
    using ends(1) space assms(1) by (cases v; auto simp: starts_with_def rdn_special_def)+
  from last [of "[]"] last [of "[backslash]"] first assms(1) show ?thesis
    by (simp add: escapeRdnValueRfc_def Let_def flip: escaped_def)
qed

lemma scan_escaped: "scan_value w [] (escaped v @ s) = scan_value (w @ v) [] s"
proof (induction v arbitrary: w)
  case Nil
  then show ?case by simp
next
  case (Cons c v)
  show ?case
  proof (cases "rdn_special c")
    case True
    with Cons show ?thesis by (simp add: scan_escape special_not_hex flush_def)
  next
    case False
    then have "c \<noteq> CHR '',''" "c \<noteq> backslash" "c \<notin> set [quote, CHR '';'', CHR ''<'', CHR ''>'']"
      by (auto simp: rdn_special_def)
    with False Cons show ?thesis by (simp add: scan_plain flush_def)
  qed
qed

lemma scan_child:
  assumes "v \<noteq> []" "trim v = v"
  shows "scan_value [] [] (escapeRdnValueRfc v @ '','' @ p) = Some (v, Some p)"
proof (cases "hd v = CHR ''#''")
  case True
  with assms(1) obtain u where v: "v = CHR ''#'' # u" by (cases v) auto
  have "\<not> rdn_special (CHR ''#'')" "\<not> is_hex (CHR ''#'')" by (simp_all add: rdn_special_def is_hex_def)
  then have "escapeRdnValueRfc v @ '','' @ p = backslash # CHR ''#'' # (escaped u @ '','' @ p)"
    using escape_trimmed [OF assms] True v by simp
  then show ?thesis
    using scan_escaped [of "''#''" u "'','' @ p"] \<open>\<not> is_hex (CHR ''#'')\<close> by (simp add: scan_escape flush_def v)
next
  case False
  then show ?thesis using scan_escaped [of "[]" v "'','' @ p"] escape_trimmed [OF assms] by (simp add: flush_def)
qed

lemma parse_child:
  assumes "ATTRIBUTE_TYPE a" "v \<noteq> []" "trim v = v"
  shows "parse_rdns (childDn a v p) = map_option ((#) \<lparr>rdn_type = a, rdn_value = v\<rparr>) (parse_rdns p)"
proof -
  note a = attribute_type_plain [OF assms(1)]
  have "\<And>c. c \<in> set a \<Longrightarrow> c \<noteq> CHR ''=''" using a(1) by blast
  then have "takeWhile (\<lambda>c. c \<noteq> CHR ''='') (childDn a v p) = a"
    "dropWhile (\<lambda>c. c \<noteq> CHR ''='') (childDn a v p) = CHR ''='' # escapeRdnValueRfc v @ '','' @ p"
    by (simp_all add: childDn_def takeWhile_append dropWhile_append)
  then show ?thesis
    using assms scan_child [OF assms(2,3), of p] a(4)
    by (subst parse_rdns.simps) (simp add: Let_def)
qed

lemma parse_blank: "trim p = [] \<Longrightarrow> parse_rdns p = None"
proof -
  assume p: "trim p = []"
  have "\<forall>c \<in> set p. is_space c"
  proof (rule ccontr)
    assume "\<not> (\<forall>c \<in> set p. is_space c)"
    then have d: "dropWhile is_space p \<noteq> []" by (auto simp: dropWhile_eq_Nil_conv)
    then have "\<not> is_space (hd (dropWhile is_space p))" by (rule hd_dropWhile)
    with d obtain c s where "dropWhile is_space p = c # s" "\<not> is_space c" by (cases "dropWhile is_space p") auto
    with p show False by (simp add: trim_def trim_start_def trim_end_def dropWhile_append split: if_splits)
  qed
  moreover have "\<not> is_space (CHR ''='')" by (simp add: is_space_def)
  ultimately have "dropWhile (\<lambda>c. c \<noteq> CHR ''='') p = []" by (auto simp: dropWhile_eq_Nil_conv)
  then show "parse_rdns p = None" by (subst parse_rdns.simps) (simp only: list.case)
qed

lemma parseDn_eq: "parseDn dn = parse_rdns dn"
  by (simp add: parseDn_def parse_blank)

text \<open>The parent of a child.\<close>

lemma split_head_plain: "\<lbrakk>backslash \<notin> set a; CHR '','' \<notin> set a\<rbrakk> \<Longrightarrow> split_head (a @ s) = apfst ((@) a) (split_head s)"
  by (induction a) (auto simp: apfst_def map_prod_def split_beta)

lemma split_head_escaped: "split_head (escaped v @ s) = apfst ((@) (escaped v)) (split_head s)"
proof (induction v)
  case Nil
  then show ?case by (simp add: apfst_def map_prod_def split_beta)
next
  case (Cons c v)
  show ?case
  proof (cases "rdn_special c")
    case True
    with Cons show ?thesis by (simp add: apfst_def map_prod_def split: prod.splits)
  next
    case False
    then have "c \<noteq> CHR '',''" "c \<noteq> backslash" by (auto simp: rdn_special_def)
    with False Cons show ?thesis by (simp add: apfst_def map_prod_def split: prod.splits)
  qed
qed

lemma split_head_child:
  assumes "v \<noteq> []" "trim v = v"
  shows "snd (split_head (escapeRdnValueRfc v @ '','' @ p)) = Some p"
proof (cases "hd v = CHR ''#''")
  case True
  with assms(1) obtain u where v: "v = CHR ''#'' # u" by (cases v) auto
  have "\<not> rdn_special (CHR ''#'')" by (simp add: rdn_special_def)
  then have "escapeRdnValueRfc v @ '','' @ p = backslash # CHR ''#'' # (escaped u @ '','' @ p)"
    using escape_trimmed [OF assms] True v by simp
  then show ?thesis using split_head_escaped [of u "'','' @ p"] by (simp add: apfst_def map_prod_def split: prod.splits)
next
  case False
  then show ?thesis using split_head_escaped [of v "'','' @ p"] escape_trimmed [OF assms] by simp
qed

lemma parent_of_child:
  assumes "ATTRIBUTE_TYPE a" "v \<noteq> []" "trim v = v" "trim p = p" "p \<noteq> []"
  shows "parentDn (childDn a v p) = Some p"
proof -
  note a = attribute_type_plain [OF assms(1)]
  have "snd (split_head (childDn a v p)) = Some p"
    using split_head_plain [of "a @ ''=''" "escapeRdnValueRfc v @ '','' @ p"] a split_head_child [OF assms(2,3), of p]
    by (simp add: childDn_def)
  then show ?thesis using assms(4,5) by (simp add: parentDn_def splitDnHead_def split_beta)
qed

text \<open>How a child is shown.\<close>

lemma rdns_plain:
  "\<lbrakk>backslash \<notin> set a; CHR '','' \<notin> set a\<rbrakk> \<Longrightarrow> rdns_from cur (a @ s) = rdns_from (cur @ a) s"
  by (induction a arbitrary: cur) auto

lemma rdns_escaped: "rdns_from cur (escaped v @ s) = rdns_from (cur @ v) s"
proof (induction v arbitrary: cur)
  case Nil
  then show ?case by simp
next
  case (Cons c v)
  show ?case
  proof (cases "rdn_special c")
    case True
    with Cons show ?thesis by simp
  next
    case False
    then have "c \<noteq> CHR '',''" "c \<noteq> backslash" by (auto simp: rdn_special_def)
    with False Cons show ?thesis by simp
  qed
qed

lemma rdns_child:
  assumes "v \<noteq> []" "trim v = v"
  shows "rdns_from cur (escapeRdnValueRfc v @ '','' @ p) = trim (cur @ v) # rdns_from [] p"
proof (cases "hd v = CHR ''#''")
  case True
  with assms(1) obtain u where v: "v = CHR ''#'' # u" by (cases v) auto
  have "\<not> rdn_special (CHR ''#'')" by (simp add: rdn_special_def)
  then have "escapeRdnValueRfc v @ '','' @ p = backslash # CHR ''#'' # (escaped u @ '','' @ p)"
    using escape_trimmed [OF assms] True v by simp
  then show ?thesis using rdns_escaped [of "cur @ ''#''" u "'','' @ p"] by (simp add: v)
next
  case False
  then show ?thesis using rdns_escaped [of cur v "'','' @ p"] escape_trimmed [OF assms] by simp
qed

lemma trim_between: "s \<noteq> [] \<Longrightarrow> \<not> is_space (hd s) \<Longrightarrow> \<not> is_space (last s) \<Longrightarrow> trim s = s"
proof -
  assume s: "s \<noteq> []" "\<not> is_space (hd s)" "\<not> is_space (last s)"
  then have "dropWhile is_space s = s" by (cases s) auto
  moreover from s have "dropWhile is_space (rev s) = rev s" by (cases s rule: rev_cases) auto
  ultimately show "trim s = s" by (simp add: trim_def trim_start_def trim_end_def)
qed

lemma dnName_child:
  assumes "ATTRIBUTE_TYPE a" "v \<noteq> []" "trim v = v"
  shows "dnName (childDn a v p) = v"
proof -
  note a = attribute_type_plain [OF assms(1)] and v = trim_ends [OF assms(3,2)]
  have "rdns (childDn a v p) = trim ((a @ ''='') @ v) # rdns_from [] p"
    using rdns_plain [of "a @ ''=''" "[]" "escapeRdnValueRfc v @ '','' @ p"] a rdns_child [OF assms(2,3), of "a @ ''=''" p]
    by (simp add: rdns_def childDn_def)
  moreover have "trim ((a @ ''='') @ v) = (a @ ''='') @ v"
    using trim_ends [OF a(4,5)] a(5) v assms(2) by (intro trim_between) simp_all
  moreover have "dropWhile (\<lambda>c. c \<noteq> CHR ''='') ((a @ ''='') @ v) = CHR ''='' # v"
    using a(1) by (induction a) auto
  ultimately show ?thesis by (simp add: dnName_def after_eq_def)
qed

text \<open>
  C19. Whatever text an operator gives a new object, its DN says that and nothing more: for a
  value as the forms send it (trimmed, not empty), with commas, quotes, backslashes or anything
  else in it, the DN built for it under a parent parses to that one RDN, unescaped, in front
  of the parent's; its parent is the parent given, and it is shown by the value given.
\<close>

theorem child_dn_reads_back:
  assumes "ATTRIBUTE_TYPE a" "v \<noteq> []" "trim v = v" "trim p = p" "p \<noteq> []"
  shows "parseDn (childDn a v p) = map_option ((#) \<lparr>rdn_type = a, rdn_value = v\<rparr>) (parseDn p)
    \<and> parentDn (childDn a v p) = Some p \<and> dnName (childDn a v p) = v"
  using parse_child [OF assms(1-3)] parent_of_child [OF assms] dnName_child [OF assms(1-3)]
  by (simp add: parseDn_eq)

theorem child_dn_reads_back_witness:
  "parseDn (childDn ''CN'' ''# Smith, John=OU '' ''OU=Staff,DC=corp'') \<noteq> None
   \<and> parseDn (childDn ''CN'' ''#Smith, John=OU'' ''OU=Staff,DC=corp'')
     = Some [\<lparr>rdn_type = ''CN'', rdn_value = ''#Smith, John=OU''\<rparr>,
             \<lparr>rdn_type = ''OU'', rdn_value = ''Staff''\<rparr>, \<lparr>rdn_type = ''DC'', rdn_value = ''corp''\<rparr>]"
proof -
  have "ATTRIBUTE_TYPE ''CN''" "trim ''#Smith, John=OU'' = ''#Smith, John=OU''"
    "trim ''OU=Staff,DC=corp'' = ''OU=Staff,DC=corp''" by code_simp+
  moreover have "parseDn ''OU=Staff,DC=corp'' = Some [\<lparr>rdn_type = ''OU'', rdn_value = ''Staff''\<rparr>,
      \<lparr>rdn_type = ''DC'', rdn_value = ''corp''\<rparr>]"
    "parseDn (childDn ''CN'' ''# Smith, John=OU '' ''OU=Staff,DC=corp'') \<noteq> None" by code_simp+
  ultimately show ?thesis
    using child_dn_reads_back [of "''CN''" "''#Smith, John=OU''" "''OU=Staff,DC=corp''"] by simp
qed

lemma within_iff:
  "isDnWithin dn base \<longleftrightarrow> (\<exists>inner outer pre. parseDn dn = Some (pre @ inner) \<and> parseDn base = Some outer
     \<and> map rdnKey inner = map rdnKey outer)"
proof -
  have *: "list_all2 (\<lambda>r b. rdnKey r = rdnKey b) xs ys \<longleftrightarrow> map rdnKey xs = map rdnKey ys" for xs ys
    by (induction xs arbitrary: ys) (auto simp: list_all2_Cons1 Cons_eq_map_conv)
  show ?thesis
  proof
    assume "isDnWithin dn base"
    then obtain i ou where i: "parseDn dn = Some i" "parseDn base = Some ou" "length ou \<le> length i"
        "map rdnKey (drop (length i - length ou) i) = map rdnKey ou"
      by (auto simp: isDnWithin_def * split: option.splits)
    then show "\<exists>inner outer pre. parseDn dn = Some (pre @ inner) \<and> parseDn base = Some outer
        \<and> map rdnKey inner = map rdnKey outer"
      by (intro exI [of _ "drop (length i - length ou) i"] exI [of _ ou] exI [of _ "take (length i - length ou) i"]) simp
  next
    assume "\<exists>inner outer pre. parseDn dn = Some (pre @ inner) \<and> parseDn base = Some outer
        \<and> map rdnKey inner = map rdnKey outer"
    then obtain inner ou pre where "parseDn dn = Some (pre @ inner)" "parseDn base = Some ou"
        "map rdnKey inner = map rdnKey ou" by blast
    moreover from this(3) have "length inner = length ou" by (metis length_map)
    ultimately show "isDnWithin dn base" by (simp add: isDnWithin_def *)
  qed
qed

text \<open>
  A new object lands inside the subtree its parent is in, whatever it is called: no value
  moves it out of a base its parent is within, and nothing is within a base unless it parses.
\<close>

theorem child_stays_within_base:
  assumes "ATTRIBUTE_TYPE a" "v \<noteq> []" "trim v = v" "isDnWithin p base"
  shows "isDnWithin (childDn a v p) base \<and> isDnWithin p p
    \<and> (isDnWithin base upper \<longrightarrow> isDnWithin (childDn a v p) upper)"
proof -
  obtain inner ou pre where p: "parseDn p = Some (pre @ inner)" "parseDn base = Some ou"
      "map rdnKey inner = map rdnKey ou"
    using assms(4) by (auto simp: within_iff)
  have child: "parseDn (childDn a v p) = Some ((\<lparr>rdn_type = a, rdn_value = v\<rparr> # pre) @ inner)"
    using parse_child [OF assms(1-3), of p] p(1) by (simp add: parseDn_eq)
  have "isDnWithin (childDn a v p) upper" if abv: "isDnWithin base upper"
  proof -
    obtain inner' ou' pre' where b: "ou = pre' @ inner'" "parseDn upper = Some ou'" "map rdnKey inner' = map rdnKey ou'"
      using abv p(2) by (auto simp: within_iff)
    let ?k = "length pre'"
    have "map rdnKey (drop ?k inner) = map rdnKey ou'" using p(3) b(1,3) by (simp add: drop_map [symmetric])
    moreover have "parseDn (childDn a v p) = Some ((\<lparr>rdn_type = a, rdn_value = v\<rparr> # pre @ take ?k inner) @ drop ?k inner)"
      using child by simp
    ultimately show ?thesis using b(2) unfolding within_iff by blast
  qed
  moreover have "isDnWithin (childDn a v p) base" unfolding within_iff using child p by blast
  moreover have "isDnWithin p p" unfolding within_iff using p(1) by (metis append_Nil)
  ultimately show ?thesis by blast
qed

theorem child_stays_within_base_witness:
  "isDnWithin (childDn ''CN'' ''x,DC=other'' ''OU=Staff,DC=corp'') ''dc=CORP''"
proof -
  have "ATTRIBUTE_TYPE ''CN''" "trim ''x,DC=other'' = ''x,DC=other''" "isDnWithin ''OU=Staff,DC=corp'' ''dc=CORP''"
    by code_simp+
  with child_stays_within_base [of "''CN''" "''x,DC=other''" "''OU=Staff,DC=corp''" "''dc=CORP''"]
  show ?thesis by simp
qed

end
