(* ===== verification/DirectoryCache.thy ===== *)
theory DirectoryCache
  imports RawAttributes DistinguishedNames
begin

text \<open>
  The cache of the directory in the database: users, groups, computers, OUs and who is in which
  group (\<^verbatim>\<open>services/userCache.ts\<close>, \<^verbatim>\<open>groupCache.ts\<close>, \<^verbatim>\<open>computerCache.ts\<close>, \<^verbatim>\<open>ouCache.ts\<close>,
  \<^verbatim>\<open>userLiveRefresh.ts\<close>). Tables are lists of rows; an insert takes the id the sequence gives it.
  GUIDs are compared as they are written, which is in lower case wherever they come from. The
  database's \<open>lower\<close> is taken to be the language's.
\<close>

section \<open>What the directory returns\<close>

(* src/apps/api/src/providers/types.ts:43-107 DirectoryUser *)
record directory_user =
  du_objectGuid :: string
  du_sid :: "string option"
  du_distinguishedName :: string
  du_samAccountName :: "string option"
  du_userPrincipalName :: "string option"
  du_displayName :: "string option"
  du_givenName :: "string option"
  du_surname :: "string option"
  du_email :: "string option"
  du_phone :: "string option"
  du_mobile :: "string option"
  du_title :: "string option"
  du_department :: "string option"
  du_office :: "string option"
  du_managerDn :: "string option"
  du_enabled :: bool
  du_locked :: bool
  du_lockedAt :: "ms option"
  du_resultantPsoDn :: "string option"
  du_passwordNeverExpires :: bool
  du_passwordLastSetAt :: "ms option"
  du_passwordExpiresAt :: "ms option"
  du_passwordExpiryComputed :: bool
  du_passwordMustChange :: bool
  du_accountExpiresAt :: "ms option"
  du_lastLogonAt :: "ms option"
  du_lastBadPasswordAt :: "ms option"
  du_badPasswordCount :: "int option"
  du_createdAtSource :: "ms option"
  du_modifiedAtSource :: "ms option"
  du_memberOfDns :: "string list"
  du_rawAttributes :: raw_attributes

(* src/apps/api/src/providers/types.ts:114-125 DirectoryOu *)
record directory_ou =
  do_distinguishedName :: string
  do_name :: string
  do_parentDn :: "string option"
  do_rawAttributes :: raw_attributes

(* src/apps/api/src/providers/types.ts:127-142 DirectoryGroup *)
record directory_group =
  dg_objectGuid :: string
  dg_sid :: "string option"
  dg_distinguishedName :: string
  dg_samAccountName :: "string option"
  dg_name :: "string option"
  dg_description :: "string option"
  dg_email :: "string option"
  dg_groupType :: "string option"
  dg_groupScope :: "string option"
  dg_memberDns :: "string list"
  dg_memberOfDns :: "string list"
  dg_rawAttributes :: raw_attributes

(* src/apps/api/src/providers/types.ts:231-257 DirectoryComputer *)
record directory_computer =
  dc_objectGuid :: string
  dc_sid :: "string option"
  dc_distinguishedName :: string
  dc_samAccountName :: "string option"
  dc_name :: "string option"
  dc_dnsHostName :: "string option"
  dc_operatingSystem :: "string option"
  dc_operatingSystemVersion :: "string option"
  dc_description :: "string option"
  dc_managedByDn :: "string option"
  dc_enabled :: bool
  dc_lastLogonAt :: "ms option"
  dc_passwordLastSetAt :: "ms option"
  dc_memberOfDns :: "string list"
  dc_createdAtSource :: "ms option"
  dc_modifiedAtSource :: "ms option"
  dc_rawAttributes :: raw_attributes

section \<open>The tables\<close>

(* src/apps/api/src/db/types.ts:44-80 UserCacheRecordsTable *)
record user_row =
  uc_id :: nat
  uc_provider_id :: nat
  uc_object_guid :: string
  uc_sid :: "string option"
  uc_distinguished_name :: string
  uc_sam_account_name :: "string option"
  uc_user_principal_name :: "string option"
  uc_display_name :: "string option"
  uc_given_name :: "string option"
  uc_surname :: "string option"
  uc_email :: "string option"
  uc_phone :: "string option"
  uc_mobile :: "string option"
  uc_title :: "string option"
  uc_department :: "string option"
  uc_manager_dn :: "string option"
  uc_office :: "string option"
  uc_office_read :: bool
  uc_enabled :: bool
  uc_locked :: bool
  uc_password_never_expires :: bool
  uc_password_last_set_at :: "ms option"
  uc_password_expires_at :: "ms option"
  uc_password_must_change :: bool
  uc_password_expiry_computed :: bool
  uc_account_expires_at :: "ms option"
  uc_last_logon_at :: "ms option"
  uc_created_at_source :: "ms option"
  uc_modified_at_source :: "ms option"
  uc_synced_at :: "ms option"
  uc_live_refreshed_at :: "ms option"
  uc_stale_at :: "ms option"
  uc_deleted_at :: "ms option"
  uc_raw_attributes_json :: raw_attributes

(* src/apps/api/src/db/types.ts:82-97 GroupCacheRecordsTable *)
record group_row =
  gc_id :: nat
  gc_provider_id :: nat
  gc_object_guid :: string
  gc_sid :: "string option"
  gc_distinguished_name :: string
  gc_sam_account_name :: "string option"
  gc_name :: "string option"
  gc_description :: "string option"
  gc_group_type :: "string option"
  gc_group_scope :: "string option"
  gc_synced_at :: "ms option"
  gc_stale_at :: "ms option"
  gc_deleted_at :: "ms option"
  gc_raw_attributes_json :: raw_attributes

(* src/apps/api/src/db/types.ts:99-121 ComputerCacheRecordsTable *)
record computer_row =
  pc_id :: nat
  pc_provider_id :: nat
  pc_object_guid :: string
  pc_sid :: "string option"
  pc_distinguished_name :: string
  pc_sam_account_name :: "string option"
  pc_name :: "string option"
  pc_dns_host_name :: "string option"
  pc_operating_system :: "string option"
  pc_operating_system_version :: "string option"
  pc_description :: "string option"
  pc_managed_by_dn :: "string option"
  pc_enabled :: bool
  pc_last_logon_at :: "ms option"
  pc_password_last_set_at :: "ms option"
  pc_created_at_source :: "ms option"
  pc_modified_at_source :: "ms option"
  pc_synced_at :: "ms option"
  pc_stale_at :: "ms option"
  pc_deleted_at :: "ms option"
  pc_raw_attributes_json :: raw_attributes

(* src/apps/api/src/db/types.ts:162-172 DirectoryOusTable *)
record ou_row =
  oc_id :: nat
  oc_provider_id :: nat
  oc_distinguished_name :: string
  oc_name :: string
  oc_parent_dn :: "string option"
  oc_synced_at :: "ms option"
  oc_stale_at :: "ms option"
  oc_deleted_at :: "ms option"
  oc_raw_attributes_json :: raw_attributes

(* src/apps/api/src/db/types.ts:174-180 UserGroupMembershipsTable *)
record user_membership =
  um_provider_id :: nat
  um_user_object_guid :: string
  um_group_object_guid :: string
  um_direct :: bool
  um_synced_at :: ms

(* src/apps/api/src/db/types.ts:182-187 GroupGroupMembershipsTable *)
record group_membership =
  gm_provider_id :: nat
  gm_group_object_guid :: string
  gm_member_group_object_guid :: string
  gm_synced_at :: ms

record cache_db =
  users :: "user_row list"
  groups :: "group_row list"
  computers :: "computer_row list"
  ous :: "ou_row list"
  user_memberships :: "user_membership list"
  group_memberships :: "group_membership list"

text \<open>
  \<open>INSERT ... ON CONFLICT (key) DO UPDATE\<close>: the row with the new row's key is updated from the
  new one, or the new one is added.
\<close>

definition upsert :: "('r \<Rightarrow> 'k) \<Rightarrow> ('r \<Rightarrow> 'r \<Rightarrow> 'r) \<Rightarrow> 'r \<Rightarrow> 'r list \<Rightarrow> 'r list" where
  "upsert k merge new rows =
     (if \<exists>r \<in> set rows. k r = k new then update_where (\<lambda>r. k r = k new) (merge new) rows
      else rows @ [new])"

text \<open>\<open>INSERT ... ON CONFLICT DO NOTHING\<close> of several rows.\<close>

fun insert_new :: "('r \<Rightarrow> 'k) \<Rightarrow> 'r list \<Rightarrow> 'r list \<Rightarrow> 'r list" where
  "insert_new k [] rows = rows"
| "insert_new k (r # rs) rows =
     insert_new k rs (if \<exists>x \<in> set rows. k x = k r then rows else rows @ [r])"

text \<open>JSON for a \<open>jsonb\<close> column: NULs dropped from every string value.\<close>

fun without_nul :: "json \<Rightarrow> json" where
  "without_nul (JStr s) = JStr (filter (\<lambda>c. c \<noteq> CHR 0x00) s)"
| "without_nul (JArr vs) = JArr (map without_nul vs)"
| "without_nul (JObj fs) = JObj (map (\<lambda>(k, v). (k, without_nul v)) fs)"
| "without_nul v = v"

(* src/apps/api/src/lib/jsonbSafe.ts:12-16 stringifyForJsonb *)
definition stringifyForJsonb :: "raw_attributes \<Rightarrow> raw_attributes" where
  "stringifyForJsonb raw = map (\<lambda>(k, v). (k, without_nul v)) raw"

(* src/apps/api/src/lib/sqlSets.ts:9-11 uuidNotIn *)
definition uuidNotIn :: "string \<Rightarrow> string list \<Rightarrow> bool" where
  "uuidNotIn column ids \<longleftrightarrow> column \<notin> set ids"

section \<open>Users\<close>

datatype upsert_source = Sync | Live_refresh

definition user_key :: "user_row \<Rightarrow> nat \<times> string" where
  "user_key r = (uc_provider_id r, uc_object_guid r)"

definition user_values :: "nat \<Rightarrow> directory_user \<Rightarrow> upsert_source \<Rightarrow> ms \<Rightarrow> nat \<Rightarrow> user_row" where
  "user_values providerId user source now newId =
     \<lparr>uc_id = newId,
       uc_provider_id = providerId,
       uc_object_guid = du_objectGuid user,
       uc_sid = du_sid user,
       uc_distinguished_name = du_distinguishedName user,
       uc_sam_account_name = du_samAccountName user,
       uc_user_principal_name = du_userPrincipalName user,
       uc_display_name = du_displayName user,
       uc_given_name = du_givenName user,
       uc_surname = du_surname user,
       uc_email = du_email user,
       uc_phone = du_phone user,
       uc_mobile = du_mobile user,
       uc_title = du_title user,
       uc_department = du_department user,
       uc_manager_dn = du_managerDn user,
       uc_office = du_office user,
       uc_office_read = True,
       uc_enabled = du_enabled user,
       uc_locked = du_locked user,
       uc_password_never_expires = du_passwordNeverExpires user,
       uc_password_last_set_at = du_passwordLastSetAt user,
       uc_password_expires_at = du_passwordExpiresAt user,
       uc_password_must_change = du_passwordMustChange user,
       uc_password_expiry_computed = du_passwordExpiryComputed user,
       uc_account_expires_at = du_accountExpiresAt user,
       uc_last_logon_at = du_lastLogonAt user,
       uc_created_at_source = du_createdAtSource user,
       uc_modified_at_source = du_modifiedAtSource user,
       uc_synced_at = Some now,
       uc_live_refreshed_at = (if source = Live_refresh then Some now else None),
       uc_stale_at = None,
       uc_deleted_at = None,
       uc_raw_attributes_json = stringifyForJsonb (du_rawAttributes user)\<rparr>"

text \<open>A sync keeps the time of a live refresh; a live refresh sets it.\<close>

(* src/apps/api/src/services/userCache.ts:21-112 upsertUser *)
definition upsertUser ::
    "nat \<Rightarrow> directory_user \<Rightarrow> upsert_source \<Rightarrow> ms \<Rightarrow> nat \<Rightarrow> cache_db \<Rightarrow> (nat \<times> ms) \<times> cache_db" where
  "upsertUser providerId user source now newId db =
     (let new = user_values providerId user source now newId;
          merge = (\<lambda>new old. new\<lparr>uc_id := uc_id old,
             uc_live_refreshed_at := (if source = Live_refresh then uc_live_refreshed_at new
                                      else uc_live_refreshed_at old)\<rparr>);
          rows = upsert user_key merge new (users db)
      in ((case find (\<lambda>r. user_key r = user_key new) (users db) of None \<Rightarrow> newId | Some old \<Rightarrow> uc_id old, now),
          db\<lparr>users := rows\<rparr>))"

(* src/apps/api/src/services/userCache.ts:120-140 forgetDeletedUsers *)
definition forgetDeletedUsers :: "ms \<Rightarrow> nat \<Rightarrow> string list \<Rightarrow> cache_db \<Rightarrow> cache_db" where
  "forgetDeletedUsers now providerId objectGuids db =
     (if objectGuids = [] then db
      else db\<lparr>users := update_where (\<lambda>r. uc_provider_id r = providerId \<and> uc_object_guid r \<in> set objectGuids
                                        \<and> uc_deleted_at r = None)
                          (uc_deleted_at_update (\<lambda>_. Some now)) (users db),
             user_memberships := filter (\<lambda>m. \<not> (um_provider_id m = providerId
                                        \<and> um_user_object_guid m \<in> set objectGuids)) (user_memberships db)\<rparr>)"

(* src/apps/api/src/services/userCache.ts:146-159 markUsersStale *)
definition markUsersStale :: "ms \<Rightarrow> nat \<Rightarrow> string list \<Rightarrow> cache_db \<Rightarrow> cache_db" where
  "markUsersStale now providerId seen db =
     db\<lparr>users := update_where (\<lambda>r. uc_provider_id r = providerId \<and> uc_stale_at r = None
                                   \<and> (seen = [] \<or> uuidNotIn (uc_object_guid r) seen))
                   (uc_stale_at_update (\<lambda>_. Some now)) (users db)\<rparr>"

(* src/apps/api/src/services/userCache.ts:166-180 clearLockedExcept *)
definition clearLockedExcept :: "nat \<Rightarrow> string list \<Rightarrow> ms \<Rightarrow> cache_db \<Rightarrow> nat \<times> cache_db" where
  "clearLockedExcept providerId stillLocked now db =
     (let p = (\<lambda>r. uc_provider_id r = providerId \<and> uc_locked r
                   \<and> (stillLocked = [] \<or> uuidNotIn (uc_object_guid r) stillLocked))
      in (updated_count p (users db),
          db\<lparr>users := update_where p (\<lambda>r. r\<lparr>uc_locked := False, uc_live_refreshed_at := Some now\<rparr>)
                        (users db)\<rparr>))"

text \<open>An attribute's values, one or several.\<close>

(* src/apps/api/src/services/userCache.ts:187-194 rawValuesArray *)
definition rawValuesArray :: "raw_attributes \<Rightarrow> string \<Rightarrow> json list" where
  "rawValuesArray raw attribute =
     (case jm_get raw attribute of Some (JArr vs) \<Rightarrow> vs | Some v \<Rightarrow> [v] | None \<Rightarrow> [])"

(* src/apps/api/src/services/userCache.ts:197-199 memberOfArray *)
definition memberOfArray :: "raw_attributes \<Rightarrow> json list" where
  "memberOfArray raw = rawValuesArray raw ''memberOf''"

text \<open>
  \<open>lower(value) = lower(dn)\<close> on an element as text, with SQL's unknown for null. An element that
  is an array or an object, which no LDAP attribute holds, is no DN.
\<close>

fun names_dn :: "json \<Rightarrow> string \<Rightarrow> bool option" where
  "names_dn JNull dn = None"
| "names_dn (JStr s) dn = Some (to_lower s = to_lower dn)"
| "names_dn (JBool b) dn = Some (js_string (JBool b) = to_lower dn)"
| "names_dn (JNum n) dn = Some (dec n = to_lower dn)"
| "names_dn _ dn = Some False"

definition lists_dn :: "json list \<Rightarrow> string \<Rightarrow> bool" where
  "lists_dn vs dn \<longleftrightarrow> (\<exists>v \<in> set vs. names_dn v dn = Some True)"

(* src/apps/api/src/services/userCache.ts:202-220 cachedMembersOf *)
definition cachedMembersOf :: "nat \<Rightarrow> string \<Rightarrow> cache_db \<Rightarrow> string list" where
  "cachedMembersOf providerId groupDn db =
     map uc_object_guid (filter (\<lambda>r. uc_provider_id r = providerId \<and> uc_deleted_at r = None
        \<and> lists_dn (memberOfArray (uc_raw_attributes_json r)) groupDn) (users db))"

datatype find_by = By_id string | By_dn string

(* src/apps/api/src/services/userCache.ts:223-238 findCachedUser *)
definition findCachedUser :: "nat \<Rightarrow> find_by \<Rightarrow> cache_db \<Rightarrow> user_row option" where
  "findCachedUser providerId by db =
     find (\<lambda>r. uc_provider_id r = providerId \<and> uc_deleted_at r = None
             \<and> (case by of By_id i \<Rightarrow> uc_object_guid r = i
                         | By_dn dn \<Rightarrow> to_lower (uc_distinguished_name r) = to_lower dn)) (users db)"

(* src/apps/api/src/services/userCache.ts:241-246 cachedUserName *)
definition cachedUserName :: "user_row \<Rightarrow> string \<Rightarrow> string" where
  "cachedUserName user fallback =
     (case uc_display_name user of Some n \<Rightarrow> n
      | None \<Rightarrow> (case uc_sam_account_name user of Some n \<Rightarrow> n | None \<Rightarrow> fallback))"

section \<open>Groups\<close>

definition group_key :: "group_row \<Rightarrow> nat \<times> string" where
  "group_key r = (gc_provider_id r, gc_object_guid r)"

definition group_values :: "nat \<Rightarrow> directory_group \<Rightarrow> ms \<Rightarrow> nat \<Rightarrow> group_row" where
  "group_values providerId grp now newId =
     \<lparr>gc_id = newId,
       gc_provider_id = providerId,
       gc_object_guid = dg_objectGuid grp,
       gc_sid = dg_sid grp,
       gc_distinguished_name = dg_distinguishedName grp,
       gc_sam_account_name = dg_samAccountName grp,
       gc_name = dg_name grp,
       gc_description = dg_description grp,
       gc_group_type = dg_groupType grp,
       gc_group_scope = dg_groupScope grp,
       gc_synced_at = Some now,
       gc_stale_at = None,
       gc_deleted_at = None,
       gc_raw_attributes_json = stringifyForJsonb (dg_rawAttributes grp)\<rparr>"

(* src/apps/api/src/services/groupCache.ts:14-53 upsertGroup *)
definition upsertGroup :: "nat \<Rightarrow> directory_group \<Rightarrow> ms \<Rightarrow> nat \<Rightarrow> cache_db \<Rightarrow> cache_db" where
  "upsertGroup providerId grp now newId db =
     db\<lparr>groups := upsert group_key (\<lambda>new old. new\<lparr>gc_id := gc_id old\<rparr>)
                    (group_values providerId grp now newId) (groups db)\<rparr>"

(* src/apps/api/src/services/groupCache.ts:59-81 markGroupsStale *)
definition markGroupsStale :: "ms \<Rightarrow> nat \<Rightarrow> string list \<Rightarrow> cache_db \<Rightarrow> cache_db" where
  "markGroupsStale now providerId seenGuids db =
     db\<lparr>groups := update_where (\<lambda>r. gc_provider_id r = providerId \<and> gc_stale_at r = None
                                   \<and> (seenGuids = [] \<or> uuidNotIn (gc_object_guid r) seenGuids))
                    (gc_stale_at_update (\<lambda>_. Some now)) (groups db)\<rparr>"

definition gm_key :: "group_membership \<Rightarrow> nat \<times> string \<times> string" where
  "gm_key m = (gm_provider_id m, gm_group_object_guid m, gm_member_group_object_guid m)"

definition um_key :: "user_membership \<Rightarrow> nat \<times> string \<times> string" where
  "um_key m = (um_provider_id m, um_user_object_guid m, um_group_object_guid m)"

(* src/apps/api/src/services/groupCache.ts:88-125 reconcileNestedGroups *)
definition reconcileNestedGroups :: "nat \<Rightarrow> string \<Rightarrow> string list \<Rightarrow> ms \<Rightarrow> cache_db \<Rightarrow> cache_db" where
  "reconcileNestedGroups providerId groupObjectGuid memberDns now db =
     (let dnsLower = map to_lower memberDns;
          nested = filter (\<lambda>g. gc_provider_id g = providerId \<and> gc_deleted_at g = None
                            \<and> to_lower (gc_distinguished_name g) \<in> set dnsLower) (groups db);
          kept = filter (\<lambda>m. \<not> (gm_provider_id m = providerId \<and> gm_group_object_guid m = groupObjectGuid))
                   (group_memberships db)
      in db\<lparr>group_memberships := insert_new gm_key
            (map (\<lambda>g. \<lparr>gm_provider_id = providerId, gm_group_object_guid = groupObjectGuid,
                        gm_member_group_object_guid = gc_object_guid g, gm_synced_at = now\<rparr>) nested) kept\<rparr>)"

text \<open>Removing a DN from an attribute that lists it; a null in the list goes too.\<close>

(* src/apps/api/src/services/groupCache.ts:174-196 dropRawValue *)
definition dropRawValue :: "string \<Rightarrow> string \<Rightarrow> raw_attributes \<Rightarrow> raw_attributes" where
  "dropRawValue attribute dn raw =
     (let values = rawValuesArray raw attribute
      in if lists_dn values dn
         then jm_set attribute (JArr (filter (\<lambda>v. names_dn v dn = Some False) values)) raw
         else raw)"

(* src/apps/api/src/services/groupCache.ts:134-171 forgetDeletedGroup *)
definition forgetDeletedGroup :: "ms \<Rightarrow> nat \<Rightarrow> string \<Rightarrow> string \<Rightarrow> cache_db \<Rightarrow> cache_db" where
  "forgetDeletedGroup now providerId objectGuid distinguishedName db =
     db\<lparr>users := update_where (\<lambda>r. uc_provider_id r = providerId)
                   (uc_raw_attributes_json_update (dropRawValue ''memberOf'' distinguishedName)) (users db),
        computers := update_where (\<lambda>r. pc_provider_id r = providerId)
                   (pc_raw_attributes_json_update (dropRawValue ''memberOf'' distinguishedName)) (computers db),
        groups := update_where (\<lambda>r. gc_provider_id r = providerId \<and> gc_object_guid r = objectGuid)
                   (gc_deleted_at_update (\<lambda>_. Some now))
                   (update_where (\<lambda>r. gc_provider_id r = providerId)
                     (gc_raw_attributes_json_update (dropRawValue ''member'' distinguishedName
                        \<circ> dropRawValue ''memberOf'' distinguishedName)) (groups db)),
        user_memberships := filter (\<lambda>m. \<not> (um_provider_id m = providerId \<and> um_group_object_guid m = objectGuid))
                   (user_memberships db),
        group_memberships := filter (\<lambda>m. \<not> (gm_provider_id m = providerId
                     \<and> (gm_group_object_guid m = objectGuid \<or> gm_member_group_object_guid m = objectGuid)))
                   (group_memberships db)\<rparr>"

(* src/apps/api/src/services/groupCache.ts:198-205 CachedGroup *)
record cached_group =
  cg_id :: string
  cg_distinguishedName :: string
  cg_name :: string
  cg_sid :: "string option"
  cg_rawAttributes :: raw_attributes

datatype find_groups = By_ids "string list" | By_dns "string list"

(* src/apps/api/src/services/groupCache.ts:218-242 findCachedGroups *)
definition findCachedGroups :: "nat \<Rightarrow> find_groups \<Rightarrow> cache_db \<Rightarrow> cached_group list" where
  "findCachedGroups providerId by db =
     map (\<lambda>r. \<lparr>cg_id = gc_object_guid r, cg_distinguishedName = gc_distinguished_name r,
              cg_name = (case gc_name r of Some n \<Rightarrow> n
                         | None \<Rightarrow> (case leafRdnValue (gc_distinguished_name r) of Some n \<Rightarrow> n
                                   | None \<Rightarrow> gc_distinguished_name r)),
              cg_sid = gc_sid r, cg_rawAttributes = gc_raw_attributes_json r\<rparr>)
       (filter (\<lambda>r. gc_provider_id r = providerId \<and> gc_deleted_at r = None
                  \<and> (case by of By_ids ids \<Rightarrow> gc_object_guid r \<in> set ids
                              | By_dns dns \<Rightarrow> to_lower (gc_distinguished_name r) \<in> set (map to_lower dns)))
          (groups db))"

(* src/apps/api/src/services/groupCache.ts:208-215 findCachedGroupsById *)
definition findCachedGroupsById :: "nat \<Rightarrow> string list \<Rightarrow> cache_db \<Rightarrow> (string, cached_group) jsmap" where
  "findCachedGroupsById providerId ids db =
     fold (\<lambda>g m. jm_set (to_lower (cg_id g)) g m) (findCachedGroups providerId (By_ids ids) db) []"

section \<open>Computers\<close>

definition computer_key :: "computer_row \<Rightarrow> nat \<times> string" where
  "computer_key r = (pc_provider_id r, pc_object_guid r)"

definition computer_values :: "nat \<Rightarrow> directory_computer \<Rightarrow> ms \<Rightarrow> nat \<Rightarrow> computer_row" where
  "computer_values providerId computer now newId =
     \<lparr>pc_id = newId,
       pc_provider_id = providerId,
       pc_object_guid = dc_objectGuid computer,
       pc_sid = dc_sid computer,
       pc_distinguished_name = dc_distinguishedName computer,
       pc_sam_account_name = dc_samAccountName computer,
       pc_name = dc_name computer,
       pc_dns_host_name = dc_dnsHostName computer,
       pc_operating_system = dc_operatingSystem computer,
       pc_operating_system_version = dc_operatingSystemVersion computer,
       pc_description = dc_description computer,
       pc_managed_by_dn = dc_managedByDn computer,
       pc_enabled = dc_enabled computer,
       pc_last_logon_at = dc_lastLogonAt computer,
       pc_password_last_set_at = dc_passwordLastSetAt computer,
       pc_created_at_source = dc_createdAtSource computer,
       pc_modified_at_source = dc_modifiedAtSource computer,
       pc_synced_at = Some now,
       pc_stale_at = None,
       pc_deleted_at = None,
       pc_raw_attributes_json = stringifyForJsonb (dc_rawAttributes computer)\<rparr>"

(* src/apps/api/src/services/computerCache.ts:12-69 upsertComputer *)
definition upsertComputer :: "nat \<Rightarrow> directory_computer \<Rightarrow> ms \<Rightarrow> nat \<Rightarrow> cache_db \<Rightarrow> cache_db" where
  "upsertComputer providerId computer now newId db =
     db\<lparr>computers := upsert computer_key (\<lambda>new old. new\<lparr>pc_id := pc_id old\<rparr>)
                    (computer_values providerId computer now newId) (computers db)\<rparr>"

(* src/apps/api/src/services/computerCache.ts:75-97 markComputersStale *)
definition markComputersStale :: "ms \<Rightarrow> nat \<Rightarrow> string list \<Rightarrow> cache_db \<Rightarrow> cache_db" where
  "markComputersStale now providerId seenGuids db =
     db\<lparr>computers := update_where (\<lambda>r. pc_provider_id r = providerId \<and> pc_stale_at r = None
                                   \<and> (seenGuids = [] \<or> uuidNotIn (pc_object_guid r) seenGuids))
                    (pc_stale_at_update (\<lambda>_. Some now)) (computers db)\<rparr>"

section \<open>OUs\<close>

definition ou_key :: "ou_row \<Rightarrow> nat \<times> string" where
  "ou_key r = (oc_provider_id r, to_lower (oc_distinguished_name r))"

(* src/apps/api/src/services/ouCache.ts:15-32 upsertOu *)
definition upsertOu :: "nat \<Rightarrow> directory_ou \<Rightarrow> ms \<Rightarrow> nat \<Rightarrow> cache_db \<Rightarrow> cache_db" where
  "upsertOu providerId ou now newId db =
     db\<lparr>ous := upsert ou_key (\<lambda>new old. new\<lparr>oc_id := oc_id old\<rparr>)
                \<lparr>oc_id = newId, oc_provider_id = providerId,
                 oc_distinguished_name = do_distinguishedName ou, oc_name = do_name ou,
                 oc_parent_dn = do_parentDn ou, oc_synced_at = Some now, oc_stale_at = None,
                 oc_deleted_at = None, oc_raw_attributes_json = stringifyForJsonb (do_rawAttributes ou)\<rparr> (ous db)\<rparr>"

(* src/apps/api/src/services/ouCache.ts:34-56 markOusStale *)
definition markOusStale :: "ms \<Rightarrow> nat \<Rightarrow> string list \<Rightarrow> cache_db \<Rightarrow> cache_db" where
  "markOusStale now providerId seenDnsLower db =
     db\<lparr>ous := update_where (\<lambda>r. oc_provider_id r = providerId \<and> oc_stale_at r = None
                                \<and> (seenDnsLower = [] \<or> to_lower (oc_distinguished_name r) \<notin> set seenDnsLower))
                 (oc_stale_at_update (\<lambda>_. Some now)) (ous db)\<rparr>"

(* src/apps/api/src/services/ouCache.ts:65-115 rebuildMemberships *)
definition rebuildMemberships :: "nat \<Rightarrow> ms \<Rightarrow> cache_db \<Rightarrow> nat \<times> cache_db" where
  "rebuildMemberships providerId now db =
     (let otherUsers = filter (\<lambda>m. um_provider_id m \<noteq> providerId) (user_memberships db);
          otherGroups = filter (\<lambda>m. gm_provider_id m \<noteq> providerId) (group_memberships db);
          live = filter (\<lambda>g. gc_provider_id g = providerId \<and> gc_deleted_at g = None) (groups db);
          us = insert_new um_key
            (concat (map (\<lambda>u. concat (map (\<lambda>v.
                map (\<lambda>g. \<lparr>um_provider_id = providerId, um_user_object_guid = uc_object_guid u,
                            um_group_object_guid = gc_object_guid g, um_direct = True, um_synced_at = now\<rparr>)
                  (filter (\<lambda>g. names_dn v (gc_distinguished_name g) = Some True) live))
              (memberOfArray (uc_raw_attributes_json u))))
              (filter (\<lambda>u. uc_provider_id u = providerId \<and> uc_deleted_at u = None) (users db)))) otherUsers;
          gs = insert_new gm_key
            (concat (map (\<lambda>g. concat (map (\<lambda>v.
                map (\<lambda>m. \<lparr>gm_provider_id = providerId, gm_group_object_guid = gc_object_guid g,
                            gm_member_group_object_guid = gc_object_guid m, gm_synced_at = now\<rparr>)
                  (filter (\<lambda>m. names_dn v (gc_distinguished_name m) = Some True) live))
              (rawValuesArray (gc_raw_attributes_json g) ''member''))) live)) otherGroups
      in ((length us - length otherUsers) + (length gs - length otherGroups),
          db\<lparr>user_memberships := us, group_memberships := gs\<rparr>))"

(* src/apps/api/src/services/ouCache.ts:117-121 CachedOu *)
record cached_ou =
  co_distinguished_name :: string
  co_name :: string
  co_raw_attributes_json :: raw_attributes

(* src/apps/api/src/services/ouCache.ts:129-143 findCachedOu *)
definition findCachedOu :: "nat \<Rightarrow> string \<Rightarrow> cache_db \<Rightarrow> cached_ou option" where
  "findCachedOu providerId dn db =
     map_option (\<lambda>r. \<lparr>co_distinguished_name = oc_distinguished_name r, co_name = oc_name r,
                      co_raw_attributes_json = oc_raw_attributes_json r\<rparr>)
       (find (\<lambda>r. oc_provider_id r = providerId \<and> oc_deleted_at r = None \<and> oc_stale_at r = None
               \<and> to_lower (oc_distinguished_name r) = to_lower dn) (ous db))"

text \<open>\<open>^OU=Domain Controllers(,DC=[^,]+)+$\<close>, in any case.\<close>

(* src/apps/api/src/services/ouCache.ts:146-146 DOMAIN_CONTROLLERS *)
definition DOMAIN_CONTROLLERS :: "string \<Rightarrow> bool" where
  "DOMAIN_CONTROLLERS dn \<longleftrightarrow>
     (case split_at (\<lambda>c. c = CHR '','') (to_lower dn) of
        [] \<Rightarrow> False
      | first # parts \<Rightarrow> first = ''ou=domain controllers'' \<and> parts \<noteq> []
          \<and> list_all (\<lambda>p. starts_with p ''dc='' \<and> length p > 3) parts)"

text \<open>The refusal's message names the OU.\<close>

datatype ou_refusal = System_ou string

(* src/apps/api/src/services/ouCache.ts:155-160 userMoveRefusal *)
definition userMoveRefusal :: "cached_ou \<Rightarrow> ou_refusal option" where
  "userMoveRefusal ou =
     (if rawFlag (raw_get (co_raw_attributes_json ou) ''isCriticalSystemObject'')
         \<or> DOMAIN_CONTROLLERS (co_distinguished_name ou)
      then Some (System_ou (co_name ou))
      else None)"

section \<open>A user read live\<close>

text \<open>What AD answered for the user: gone, or as read.\<close>

(* src/apps/api/src/services/userLiveRefresh.ts:25-42 refresh *)
definition refresh :: "nat \<Rightarrow> string \<Rightarrow> directory_user option \<Rightarrow> ms \<Rightarrow> nat \<Rightarrow> cache_db \<Rightarrow> directory_user option \<times> cache_db" where
  "refresh providerId objectGuid live now newId db =
     (case live of
        None \<Rightarrow> (None, forgetDeletedUsers now providerId [objectGuid] db)
      | Some user \<Rightarrow> (Some user, snd (upsertUser providerId user Live_refresh now newId db)))"

(* src/apps/api/src/services/userLiveRefresh.ts:56-101 reconcileDirectMemberships *)
definition reconcileDirectMemberships :: "nat \<Rightarrow> string \<Rightarrow> string list \<Rightarrow> ms \<Rightarrow> cache_db \<Rightarrow> cache_db" where
  "reconcileDirectMemberships providerId userObjectGuid memberOfDns now db =
     (let dnsLower = map to_lower memberOfDns;
          grps = filter (\<lambda>g. gc_provider_id g = providerId
                          \<and> to_lower (gc_distinguished_name g) \<in> set dnsLower) (groups db);
          kept = filter (\<lambda>m. \<not> (um_provider_id m = providerId \<and> um_user_object_guid m = userObjectGuid
                                \<and> um_direct m)) (user_memberships db)
      in db\<lparr>user_memberships := fold (\<lambda>g rows. upsert um_key
              (\<lambda>new old. old\<lparr>um_direct := True, um_synced_at := now\<rparr>)
              \<lparr>um_provider_id = providerId, um_user_object_guid = userObjectGuid,
               um_group_object_guid = gc_object_guid g, um_direct = True, um_synced_at = now\<rparr> rows)
            grps kept\<rparr>)"

end
