(* ===== verification/BulkAttributes.thy ===== *)
theory BulkAttributes
  imports DirectoryCache Countries
begin

text \<open>
  The attributes a bulk edit changes, how each is read, compared, written and kept in a job's
  row (\<^verbatim>\<open>apps/api/src/services/bulkAttributes.ts\<close>). The source's table of twelve fields, each with
  its functions, is a function on the field here, by cases. A value undefined in the source
  is \<open>None\<close>.
\<close>

section \<open>Fields and values\<close>

(* src/packages/shared/src/schemas/bulkJob.ts:225-239 BulkAttributeField *)
datatype attr_field =
    F_title | F_department | F_company | F_office | F_manager | F_description | F_streetAddress
  | F_postOfficeBox | F_l | F_st | F_postalCode | F_country

(* src/packages/shared/src/schemas/bulkJob.ts:225-238 BULK_ATTRIBUTE_FIELDS *)
definition BULK_ATTRIBUTE_FIELDS :: "attr_field list" where
  "BULK_ATTRIBUTE_FIELDS =
     [F_title, F_department, F_company, F_office, F_manager, F_description, F_streetAddress,
      F_postOfficeBox, F_l, F_st, F_postalCode, F_country]"

(* src/apps/api/src/services/bulkAttributes.ts:23-27 Country *)
record country =
  ct_c :: "string option"
  ct_co :: "string option"
  ct_countryCode :: "string option"

(* src/apps/api/src/services/bulkAttributes.ts:30-43 FieldValues *)
datatype attr_value = AV_text "string option" | AV_boxes "string list" | AV_country country

type_synonym attr_values = "attr_field \<Rightarrow> attr_value option"

(* src/apps/api/src/services/bulkAttributes.ts:49-52 ResolvedChanges *)
record resolved_changes =
  rc_values :: attr_values
  rc_managerName :: "string option"

text \<open>The LDAP name a text field is kept under, and that of the manager's in a row.\<close>

fun attribute :: "attr_field \<Rightarrow> string" where
  "attribute F_title = ''title''"
| "attribute F_department = ''department''"
| "attribute F_company = ''company''"
| "attribute F_office = ''physicalDeliveryOfficeName''"
| "attribute F_manager = ''managerDn''"
| "attribute F_description = ''description''"
| "attribute F_streetAddress = ''streetAddress''"
| "attribute F_postOfficeBox = ''postOfficeBox''"
| "attribute F_l = ''l''"
| "attribute F_st = ''st''"
| "attribute F_postalCode = ''postalCode''"
| "attribute F_country = ''countryCode''"

(* src/apps/api/src/services/bulkAttributes.ts:73-76 text *)
definition text_value :: "json \<Rightarrow> string option" where
  "text_value v =
     (let t = map_option trim (rawScalarValue v) in if truthy t then t else None)"

fun json_opt :: "string option \<Rightarrow> json" where
  "json_opt None = JNull"
| "json_opt (Some s) = JStr s"

(* src/apps/api/src/services/bulkAttributes.ts:78-78 COUNTRY_NONE *)
definition COUNTRY_NONE :: string where "COUNTRY_NONE = ''0''"

(* src/apps/api/src/services/bulkAttributes.ts:97-100 country *)
definition country_of :: "json \<Rightarrow> json \<Rightarrow> json \<Rightarrow> country" where
  "country_of c co countryCode =
     (let code = text_value countryCode
      in \<lparr>ct_c = text_value c, ct_co = text_value co,
          ct_countryCode = (if code = Some COUNTRY_NONE then None else code)\<rparr>)"

(* src/apps/api/src/services/bulkAttributes.ts:102-106 poBoxes *)
definition poBoxes :: "json \<Rightarrow> string list" where
  "poBoxes v = sort (filter (\<lambda>x. length x > 0) (map trim (rawArrayValues v)))"

text \<open>\<open>live\<close> of each field.\<close>

(* src/apps/api/src/services/bulkAttributes.ts:81-164 FIELDS *)
fun field_live :: "attr_field \<Rightarrow> directory_user \<Rightarrow> attr_value" where
  "field_live F_title u = AV_text (text_value (json_opt (du_title u)))"
| "field_live F_department u = AV_text (text_value (json_opt (du_department u)))"
| "field_live F_office u = AV_text (text_value (json_opt (du_office u)))"
| "field_live F_manager u = AV_text (text_value (json_opt (du_managerDn u)))"
| "field_live F_postOfficeBox u = AV_boxes (poBoxes (raw_get (du_rawAttributes u) ''postOfficeBox''))"
| "field_live F_country u = AV_country (country_of (raw_get (du_rawAttributes u) ''c'')
     (raw_get (du_rawAttributes u) ''co'') (raw_get (du_rawAttributes u) ''countryCode''))"
| "field_live f u = AV_text (text_value (raw_get (du_rawAttributes u) (attribute f)))"

text \<open>\<open>cached\<close> of each field: the office only when the cache has read it.\<close>

(* src/apps/api/src/services/bulkAttributes.ts:81-164 FIELDS *)
fun field_cached :: "attr_field \<Rightarrow> user_row \<Rightarrow> attr_value option" where
  "field_cached F_title u = Some (AV_text (text_value (json_opt (uc_title u))))"
| "field_cached F_department u = Some (AV_text (text_value (json_opt (uc_department u))))"
| "field_cached F_office u =
     (if uc_office_read u then Some (AV_text (text_value (json_opt (uc_office u)))) else None)"
| "field_cached F_manager u = Some (AV_text (text_value (json_opt (uc_manager_dn u))))"
| "field_cached F_postOfficeBox u =
     Some (AV_boxes (poBoxes (raw_get (uc_raw_attributes_json u) ''postOfficeBox'')))"
| "field_cached F_country u = Some (AV_country (country_of (raw_get (uc_raw_attributes_json u) ''c'')
     (raw_get (uc_raw_attributes_json u) ''co'') (raw_get (uc_raw_attributes_json u) ''countryCode'')))"
| "field_cached f u = Some (AV_text (text_value (raw_get (uc_raw_attributes_json u) (attribute f))))"

text \<open>
  \<open>same\<close> of each field: the manager in any case, the country by code and number. A value of
  another field's kind, which the source's types rule out, is never the same.
\<close>

(* src/apps/api/src/services/bulkAttributes.ts:81-164 FIELDS *)
definition field_same :: "attr_field \<Rightarrow> attr_value \<Rightarrow> attr_value \<Rightarrow> bool" where
  "field_same f x y \<longleftrightarrow>
     (case (x, y) of
        (AV_text a, AV_text b) \<Rightarrow>
          if f = F_manager then map_option to_lower a = map_option to_lower b else a = b
      | (AV_boxes a, AV_boxes b) \<Rightarrow> a = b
      | (AV_country a, AV_country b) \<Rightarrow> ct_c a = ct_c b \<and> ct_countryCode a = ct_countryCode b
      | _ \<Rightarrow> False)"

text \<open>The country as its three attributes.\<close>

definition country_attributes :: "country \<Rightarrow> (string, json) jsmap" where
  "country_attributes v =
     [(''c'', json_opt (ct_c v)), (''co'', json_opt (ct_co v)),
      (''countryCode'', JStr (case ct_countryCode v of None \<Rightarrow> COUNTRY_NONE | Some n \<Rightarrow> n))]"

text \<open>\<open>patch\<close> and \<open>snapshot\<close> of each field.\<close>

(* src/apps/api/src/services/bulkAttributes.ts:81-164 FIELDS *)
fun field_patch :: "attr_field \<Rightarrow> attr_value \<Rightarrow> (string, json) jsmap" where
  "field_patch f (AV_text v) = [(attribute f, json_opt v)]"
| "field_patch _ (AV_boxes vs) = [(''postOfficeBox'', if length vs > 0 then JArr (map JStr vs) else JNull)]"
| "field_patch _ (AV_country v) = country_attributes v"

(* src/apps/api/src/services/bulkAttributes.ts:81-164 FIELDS *)
fun field_snapshot :: "attr_field \<Rightarrow> attr_value \<Rightarrow> (string, json) jsmap" where
  "field_snapshot f (AV_text v) = [(attribute f, json_opt v)]"
| "field_snapshot _ (AV_boxes vs) = [(''postOfficeBox'', JArr (map JStr vs))]"
| "field_snapshot _ (AV_country v) = country_attributes v"

(* src/apps/api/src/services/bulkAttributes.ts:81-164 FIELDS *)
definition field_fromSnapshot :: "attr_field \<Rightarrow> (string, json) jsmap \<Rightarrow> attr_value option" where
  "field_fromSnapshot f s =
     (if jm_get s (attribute f) = None then None
      else Some (case f of
          F_postOfficeBox \<Rightarrow> AV_boxes (poBoxes (raw_get s ''postOfficeBox''))
        | F_country \<Rightarrow> AV_country (country_of (raw_get s ''c'') (raw_get s ''co'') (raw_get s ''countryCode''))
        | _ \<Rightarrow> AV_text (text_value (raw_get s (attribute f)))))"

(* src/apps/api/src/services/bulkAttributes.ts:81-164 FIELDS *)
fun field_display :: "attr_field \<Rightarrow> attr_value \<Rightarrow> (string \<Rightarrow> string) \<Rightarrow> string option" where
  "field_display f (AV_text v) managerName = (if f = F_manager then map_option managerName v else v)"
| "field_display _ (AV_boxes vs) _ = (if length vs > 0 then Some (join '', '' vs) else None)"
| "field_display _ (AV_country v) _ = (case ct_co v of None \<Rightarrow> ct_c v | Some n \<Rightarrow> Some n)"

section \<open>What an edit changes\<close>

(* src/apps/api/src/services/bulkAttributes.ts:168-169 named *)
definition named :: "(attr_field \<Rightarrow> 'v option) \<Rightarrow> attr_field list" where
  "named changes = filter (\<lambda>f. changes f \<noteq> None) BULK_ATTRIBUTE_FIELDS"

(* src/apps/api/src/services/bulkAttributes.ts:172-174 liveValues *)
definition liveValues :: "directory_user \<Rightarrow> attr_values" where
  "liveValues user f = Some (field_live f user)"

(* src/apps/api/src/services/bulkAttributes.ts:177-179 cachedValues *)
definition cachedValues :: "user_row \<Rightarrow> attr_values" where
  "cachedValues user f = field_cached f user"

(* src/apps/api/src/services/bulkAttributes.ts:181-185 FieldChange *)
record field_change =
  fc_field :: attr_field
  fc_before :: attr_value
  fc_after :: attr_value

(* src/apps/api/src/services/bulkAttributes.ts:191-204 fieldChanges *)
definition fieldChanges :: "attr_values \<Rightarrow> attr_values \<Rightarrow> field_change list \<times> attr_field list" where
  "fieldChanges values changes =
     (concat (map (\<lambda>f. case values f of
          None \<Rightarrow> []
        | Some before \<Rightarrow>
            (if field_same f before (the (changes f)) then []
             else [\<lparr>fc_field = f, fc_before = before, fc_after = the (changes f)\<rparr>])) (named changes)),
      filter (\<lambda>f. values f = None) (named changes))"

text \<open>\<open>Object.assign({}, ...objects)\<close>.\<close>

definition object_assign :: "(string, json) jsmap list \<Rightarrow> (string, json) jsmap" where
  "object_assign os = fold (\<lambda>obj out. fold (\<lambda>(k, v). jm_set k v) obj out) os []"

(* src/apps/api/src/services/bulkAttributes.ts:207-209 patchFor *)
definition patchFor :: "field_change list \<Rightarrow> (string, json) jsmap" where
  "patchFor changes = object_assign (map (\<lambda>c. field_patch (fc_field c) (fc_after c)) changes)"

(* src/apps/api/src/services/bulkAttributes.ts:212-219 snapshotValues *)
definition snapshotValues :: "(string, json) jsmap \<Rightarrow> attr_values" where
  "snapshotValues snapshot f = field_fromSnapshot f snapshot"

(* src/apps/api/src/services/bulkAttributes.ts:222-223 sameValue *)
definition sameValue :: "attr_field \<Rightarrow> attr_value \<Rightarrow> attr_value \<Rightarrow> bool" where
  "sameValue f a b = field_same f a b"

(* src/apps/api/src/services/bulkAttributes.ts:226-230 shownValue *)
definition shownValue :: "attr_field \<Rightarrow> attr_value \<Rightarrow> (string \<Rightarrow> string) \<Rightarrow> string option" where
  "shownValue f value managerName = field_display f value managerName"

(* src/apps/api/src/services/bulkAttributes.ts:233-241 rowSnapshots *)
definition rowSnapshots :: "field_change list \<Rightarrow> (string, json) jsmap \<times> (string, json) jsmap" where
  "rowSnapshots changes =
     (object_assign (map (\<lambda>c. field_snapshot (fc_field c) (fc_before c)) changes),
      object_assign (map (\<lambda>c. field_snapshot (fc_field c) (fc_after c)) changes))"

(* src/apps/api/src/services/bulkAttributes.ts:284-285 ownManager *)
definition ownManager :: "string \<Rightarrow> resolved_changes \<Rightarrow> bool" where
  "ownManager userDn changes \<longleftrightarrow>
     (case rc_values changes F_manager of
        Some (AV_text (Some m)) \<Rightarrow> m \<noteq> [] \<and> to_lower m = to_lower userDn
      | _ \<Rightarrow> False)"

(* src/apps/api/src/services/bulkAttributes.ts:288-295 changesSubject *)
definition changesSubject :: "resolved_changes \<Rightarrow> (attr_field \<times> string option) list" where
  "changesSubject changes =
     map (\<lambda>f. (f, field_display f (the (rc_values changes f)) (\<lambda>_. or_empty (rc_managerName changes))))
       (named (rc_values changes))"

section \<open>Values as they are compared\<close>

text \<open>What the fields hold when read: trimmed, not empty, PO boxes in order, no country numbered 0.\<close>

lemma trim_end_Cons: "\<not> is_space c \<Longrightarrow> \<exists>u. trim_end (c # s) = c # u"
  by (simp add: trim_end_def dropWhile_append) (metis rev_rev_ident)

lemma trim_idem [simp]: "trim (trim s) = trim s"
proof (cases "dropWhile is_space s")
  case Nil
  then show ?thesis unfolding trim_def trim_start_def Nil by simp
next
  case (Cons c t)
  then have c: "\<not> is_space c" by (metis hd_dropWhile list.sel(1) list.simps(3))
  then obtain u where u: "trim_end (c # t) = c # u" using trim_end_Cons by blast
  have "trim_end (trim_end (c # t)) = trim_end (c # t)" by (simp add: trim_end_def)
  then show ?thesis using c u by (simp add: trim_def trim_start_def Cons)
qed

definition text_ok :: "string option \<Rightarrow> bool" where
  "text_ok v \<longleftrightarrow> (case v of None \<Rightarrow> True | Some t \<Rightarrow> t \<noteq> [] \<and> trim t = t)"

fun kind_ok :: "attr_field \<Rightarrow> attr_value \<Rightarrow> bool" where
  "kind_ok f (AV_text _) \<longleftrightarrow> f \<noteq> F_postOfficeBox \<and> f \<noteq> F_country"
| "kind_ok f (AV_boxes _) \<longleftrightarrow> f = F_postOfficeBox"
| "kind_ok f (AV_country _) \<longleftrightarrow> f = F_country"

fun value_ok :: "attr_value \<Rightarrow> bool" where
  "value_ok (AV_text v) \<longleftrightarrow> text_ok v"
| "value_ok (AV_boxes vs) \<longleftrightarrow> sorted vs \<and> list_all (\<lambda>x. x \<noteq> [] \<and> trim x = x) vs"
| "value_ok (AV_country v) \<longleftrightarrow> text_ok (ct_c v) \<and> text_ok (ct_co v) \<and> text_ok (ct_countryCode v)
     \<and> ct_countryCode v \<noteq> Some COUNTRY_NONE"

lemma text_value_ok [simp]: "text_ok (text_value v)"
  by (simp add: text_value_def text_ok_def Let_def split: option.split)

lemma text_value_json_opt [simp]: "text_ok v \<Longrightarrow> text_value (json_opt v) = v"
  by (cases v) (auto simp: text_value_def text_ok_def Let_def or_none_def)

lemma poBoxes_ok [simp]: "value_ok (AV_boxes (poBoxes v))"
  by (auto simp: poBoxes_def list_all_iff)

lemma poBoxes_JArr [simp]:
  assumes "value_ok (AV_boxes vs)"
  shows "poBoxes (JArr (map JStr vs)) = vs"
proof -
  have all: "\<forall>x \<in> set vs. x \<noteq> [] \<and> trim x = x" and "sorted vs" using assms by (simp_all add: list_all_iff)
  have "rawArrayValues (JArr (map JStr vs)) = vs"
    using all by (induction vs) (simp_all add: rawArrayValues_def)
  moreover have "map trim vs = vs" using all by (simp add: map_idI)
  moreover have "filter (\<lambda>x. length x > 0) vs = vs" using all by (simp add: filter_id_conv)
  ultimately show ?thesis using \<open>sorted vs\<close> by (simp add: poBoxes_def sorted_sort_id)
qed

lemma country_of_ok [simp]: "value_ok (AV_country (country_of c co n))"
  by (simp add: country_of_def Let_def) (simp add: text_ok_def)

lemma live_ok: "kind_ok f (field_live f u)" "value_ok (field_live f u)"
  by (cases f; simp del: value_ok.simps(2,3))+

lemma json_opt_code [simp]:
  assumes "text_ok n" "n \<noteq> Some COUNTRY_NONE"
  shows "text_value (JStr (case n of None \<Rightarrow> COUNTRY_NONE | Some m \<Rightarrow> m)) = (case n of None \<Rightarrow> Some COUNTRY_NONE | Some m \<Rightarrow> n)"
proof (cases n)
  case None
  have "text_value (JStr COUNTRY_NONE) = Some COUNTRY_NONE" by code_simp
  with None show ?thesis by simp
next
  case (Some m)
  with assms(1) text_value_json_opt [of n] show ?thesis by simp
qed

text \<open>A field reads back from a row what was kept of it there.\<close>

lemma fromSnapshot_snapshot:
  assumes "kind_ok f v" "value_ok v"
  shows "field_fromSnapshot f (field_snapshot f v) = Some v"
proof (cases v)
  case (AV_text t)
  with assms show ?thesis by (cases f) (simp_all add: field_fromSnapshot_def raw_get_def)
next
  case (AV_boxes vs)
  with assms show ?thesis by (simp add: field_fromSnapshot_def raw_get_def del: value_ok.simps)
next
  case (AV_country c)
  with assms show ?thesis
    by (cases c) (auto simp: field_fromSnapshot_def raw_get_def country_attributes_def country_of_def Let_def split: option.split)
qed

section \<open>What a row keeps of several fields\<close>

text \<open>The attributes a field is kept under: no two fields share one.\<close>

definition keys_of :: "attr_field \<Rightarrow> string list" where
  "keys_of f = (if f = F_country then [''c'', ''co'', ''countryCode''] else [attribute f])"

lemma keys_disjoint: "k \<in> set (keys_of f) \<Longrightarrow> k \<in> set (keys_of g) \<Longrightarrow> f = g"
  by (cases f; cases g; simp add: keys_of_def)

lemma snapshot_keys: "kind_ok f v \<Longrightarrow> map fst (field_snapshot f v) = keys_of f"
  by (cases v) (auto simp: keys_of_def country_attributes_def)

lemma fold_set_get:
  "distinct (map fst xs) \<Longrightarrow> jm_get (fold (\<lambda>(k, v). jm_set k v) xs m) k = (case jm_get xs k of None \<Rightarrow> jm_get m k | Some v \<Rightarrow> Some v)"
  by (induction xs arbitrary: m) (auto split: option.split simp: map_of_eq_None_iff image_iff dest: map_of_SomeD)

lemma fromSnapshot_cong:
  assumes "\<And>k. k \<in> set (keys_of f) \<Longrightarrow> jm_get s k = jm_get t k"
  shows "field_fromSnapshot f s = field_fromSnapshot f t"
  using assms by (cases f) (simp_all add: field_fromSnapshot_def raw_get_def keys_of_def)

text \<open>
  Merging the snapshots of a list of changes, one per field: a field's attributes are those of
  its own change.
\<close>

lemma merged_get:
  assumes "distinct (map fc_field cs)" "\<forall>c \<in> set cs. kind_ok (fc_field c) (g c)" "k \<in> set (keys_of f)"
  shows "jm_get (fold (\<lambda>obj out. fold (\<lambda>(k, v). jm_set k v) obj out)
            (map (\<lambda>c. field_snapshot (fc_field c) (g c)) cs) m) k
       = (case find (\<lambda>c. fc_field c = f) cs of
            Some c \<Rightarrow> jm_get (field_snapshot f (g c)) k | None \<Rightarrow> jm_get m k)"
  using assms(1,2)
proof (induction cs arbitrary: m)
  case Nil
  then show ?case by simp
next
  case (Cons c cs)
  have keys: "map fst (field_snapshot (fc_field c) (g c)) = keys_of (fc_field c)"
    using Cons.prems(2) by (intro snapshot_keys) simp
  have dist: "distinct (map fst (field_snapshot (fc_field c) (g c)))"
    unfolding keys by (simp add: keys_of_def)
  let ?m = "fold (\<lambda>(k, v). jm_set k v) (field_snapshot (fc_field c) (g c)) m"
  have here: "jm_get ?m k = (if fc_field c = f then jm_get (field_snapshot f (g c)) k else jm_get m k)"
  proof (cases "fc_field c = f")
    case True
    then have "k \<in> fst ` set (field_snapshot f (g c))" using keys assms(3) by (metis list.set_map)
    then obtain v where "jm_get (field_snapshot f (g c)) k = Some v"
      by (metis map_of_eq_None_iff not_None_eq)
    with True show ?thesis by (simp add: fold_set_get [OF dist [unfolded True]])
  next
    case False
    then have "k \<notin> set (keys_of (fc_field c))" using assms(3) keys_disjoint by blast
    then have "jm_get (field_snapshot (fc_field c) (g c)) k = None"
      using keys by (metis list.set_map map_of_eq_None_iff)
    with False show ?thesis by (simp add: fold_set_get [OF dist])
  qed
  have "find (\<lambda>d. fc_field d = f) cs = None" if "fc_field c = f"
    using Cons.prems(1) that by (force simp: find_None_iff image_iff)
  then show ?case using Cons here by (cases "fc_field c = f") (simp_all split: option.split)
qed

lemma merged_value:
  assumes "distinct (map fc_field cs)" "\<forall>c \<in> set cs. kind_ok (fc_field c) (g c) \<and> value_ok (g c)"
  shows "snapshotValues (object_assign (map (\<lambda>c. field_snapshot (fc_field c) (g c)) cs)) f
       = map_option g (find (\<lambda>c. fc_field c = f) cs)"
proof -
  have kinds: "\<forall>c \<in> set cs. kind_ok (fc_field c) (g c)" using assms(2) by blast
  note get = merged_get [OF assms(1) kinds, of _ f "[]"]
  show ?thesis
  proof (cases "find (\<lambda>c. fc_field c = f) cs")
    case None
    have "attribute f \<in> set (keys_of f)" by (simp add: keys_of_def)
    from get [OF this] None show ?thesis
      by (simp add: snapshotValues_def object_assign_def field_fromSnapshot_def)
  next
    case (Some c)
    then have c: "c \<in> set cs" "fc_field c = f" by (auto simp: find_Some_iff)
    have "field_fromSnapshot f (object_assign (map (\<lambda>c. field_snapshot (fc_field c) (g c)) cs))
        = field_fromSnapshot f (field_snapshot f (g c))"
      by (rule fromSnapshot_cong) (simp add: object_assign_def get Some)
    also have "\<dots> = Some (g c)" by (rule fromSnapshot_snapshot) (use assms(2) c in auto)
    finally show ?thesis using Some by (simp add: snapshotValues_def)
  qed
qed

section \<open>What an edit changes, and taking it back\<close>

text \<open>The value an edit sets a field to, when that changes it.\<close>

definition changed_to :: "attr_values \<Rightarrow> attr_values \<Rightarrow> attr_values" where
  "changed_to values changes f =
     (case (values f, changes f) of
        (Some b, Some a) \<Rightarrow> if field_same f b a then None else Some a
      | _ \<Rightarrow> None)"

lemma fields_distinct [simp]: "distinct BULK_ATTRIBUTE_FIELDS" "f \<in> set BULK_ATTRIBUTE_FIELDS"
  by (simp_all add: BULK_ATTRIBUTE_FIELDS_def) (cases f; simp)

lemma fieldChanges_eq:
  "fst (fieldChanges values changes) =
     map (\<lambda>f. \<lparr>fc_field = f, fc_before = the (values f), fc_after = the (changes f)\<rparr>)
       (named (changed_to values changes))"
proof -
  have "concat (map (\<lambda>f. case values f of None \<Rightarrow> []
        | Some before \<Rightarrow> if field_same f before (the (changes f)) then []
             else [\<lparr>fc_field = f, fc_before = before, fc_after = the (changes f)\<rparr>]) (filter (\<lambda>f. changes f \<noteq> None) fs))
    = map (\<lambda>f. \<lparr>fc_field = f, fc_before = the (values f), fc_after = the (changes f)\<rparr>)
       (filter (\<lambda>f. changed_to values changes f \<noteq> None) fs)" for fs
    by (induction fs) (auto simp: changed_to_def split: option.split)
  then show ?thesis by (simp add: fieldChanges_def named_def)
qed

lemma find_changed:
  "find (\<lambda>c. fc_field c = f) (fst (fieldChanges values changes)) =
     (if changed_to values changes f = None then None
      else Some \<lparr>fc_field = f, fc_before = the (values f), fc_after = the (changes f)\<rparr>)"
proof -
  have "find (\<lambda>c. fc_field c = f) (map (\<lambda>f. \<lparr>fc_field = f, fc_before = b f, fc_after = a f\<rparr>) fs)
      = (if f \<in> set fs then Some \<lparr>fc_field = f, fc_before = b f, fc_after = a f\<rparr> else None)" for b a fs
    by (induction fs) auto
  then show ?thesis by (simp add: fieldChanges_eq named_def)
qed

lemma changes_distinct: "distinct (map fc_field (fst (fieldChanges values changes)))"
  by (simp add: fieldChanges_eq named_def comp_def)

lemma kept_values:
  "snapshotValues (fst (rowSnapshots (fst (fieldChanges (liveValues u) changes)))) f =
     (if changed_to (liveValues u) changes f = None then None else liveValues u f)"
proof -
  let ?cs = "fst (fieldChanges (liveValues u) changes)"
  have "\<forall>c \<in> set ?cs. kind_ok (fc_field c) (fc_before c) \<and> value_ok (fc_before c)"
    by (auto simp: fieldChanges_eq liveValues_def live_ok)
  from merged_value [OF changes_distinct this] show ?thesis
    by (auto simp: rowSnapshots_def find_changed liveValues_def)
qed

text \<open>
  A bulk edit's row keeps exactly what it overwrote: read back from the row, a field has the
  value the user had live if the edit changed it, and is not there if the edit left it alone,
  whatever the edit sets.
\<close>

theorem row_keeps_what_it_overwrote:
  "snapshotValues (fst (rowSnapshots (fst (fieldChanges (liveValues u) changes)))) f =
     (if changed_to (liveValues u) changes f = None then None else liveValues u f)"
  by (rule kept_values)

text \<open>
  C18. Reverting an edit puts back exactly what it changed: comparing the user as the edit left
  them with what the row kept gives the edit's own changes, each turned round, and no field
  that isn't known.
\<close>

theorem reverting_an_edit_turns_it_round:
  "fieldChanges (liveValues u ++ changed_to (liveValues u) changes)
      (snapshotValues (fst (rowSnapshots (fst (fieldChanges (liveValues u) changes)))))
    = (map (\<lambda>c. \<lparr>fc_field = fc_field c, fc_before = fc_after c, fc_after = fc_before c\<rparr>)
         (fst (fieldChanges (liveValues u) changes)), [])"
proof -
  let ?edit = "changed_to (liveValues u) changes" and ?left = "liveValues u ++ changed_to (liveValues u) changes"
  define kept where "kept = snapshotValues (fst (rowSnapshots (fst (fieldChanges (liveValues u) changes))))"
  have kept: "kept = (\<lambda>f. if ?edit f = None then None else liveValues u f)"
    unfolding kept_def by (rule ext) (rule kept_values)
  have edit: "?edit f = Some v \<Longrightarrow> changes f = Some v \<and> \<not> field_same f (field_live f u) v" for f v
    by (auto simp: changed_to_def liveValues_def split: option.splits if_splits)
  have sym: "field_same f a b = field_same f b a" for f a b
    by (auto simp: field_same_def split: attr_value.split)
  have again: "(changed_to ?left kept f = None) = (?edit f = None)" for f
  proof (cases "?edit f")
    case None
    then show ?thesis by (simp add: changed_to_def [of ?left] kept split: option.split)
  next
    case (Some v)
    with edit [OF Some] show ?thesis
      by (simp add: changed_to_def [of ?left] kept liveValues_def sym [of f v])
  qed
  have "fst (fieldChanges ?left kept) =
      map (\<lambda>c. \<lparr>fc_field = fc_field c, fc_before = fc_after c, fc_after = fc_before c\<rparr>)
        (fst (fieldChanges (liveValues u) changes))"
    unfolding fieldChanges_eq named_def again
    using edit by (auto simp: kept liveValues_def map_add_def)
  moreover have "snd (fieldChanges ?left kept) = []"
    by (auto simp: fieldChanges_def liveValues_def map_add_def filter_empty_conv split: option.split)
  ultimately show ?thesis by (simp add: kept_def prod_eq_iff)
qed

end
