(* ===== verification/DirectoryCacheClaims.thy ===== *)
theory DirectoryCacheClaims
  imports DirectoryCache
begin

text \<open>
  What the operations on the directory cache keep and establish: keys stay unique, a rebuild of
  the memberships gives exactly what the cached attributes say, and a group deleted in the
  directory stays out of them.
\<close>

section \<open>Upserts and inserts\<close>

lemma upsert_keys:
  assumes "\<And>r. k (merge new r) = k new \<or> k r \<noteq> k new" "distinct (map k rows)"
  shows "distinct (map k (upsert k merge new rows))"
    and "k ` set (upsert k merge new rows) = insert (k new) (k ` set rows)"
proof -
  have m: "map k (update_where (\<lambda>r. k r = k new) (merge new) rows) = map k rows"
    by (rule map_update_where) (use assms(1) in metis)
  then have s: "k ` set (update_where (\<lambda>r. k r = k new) (merge new) rows) = k ` set rows"
    by (metis list.set_map)
  show "distinct (map k (upsert k merge new rows))"
    using assms(2) m by (auto simp: upsert_def image_iff)
  show "k ` set (upsert k merge new rows) = insert (k new) (k ` set rows)"
    using s by (force simp: upsert_def image_iff)
qed

lemma insert_new_step:
  fixes k :: "'r \<Rightarrow> 'k"
  defines "add r rows \<equiv> (if \<exists>x \<in> set rows. k x = k r then rows else rows @ [r])"
  shows "insert_new k (r # rs) rows = insert_new k rs (add r rows)"
    and "distinct (map k rows) \<Longrightarrow> distinct (map k (add r rows))"
    and "k ` set (add r rows) = insert (k r) (k ` set rows)"
    and "set rows \<subseteq> set (add r rows)" and "set (add r rows) \<subseteq> insert r (set rows)"
  by (auto simp: add_def image_iff) (metis+)?

lemma insert_new_keys: "distinct (map k rows) \<Longrightarrow> distinct (map k (insert_new k rs rows))"
  by (induction rs arbitrary: rows) (simp, simp only: insert_new_step(1,2))

lemma insert_new_set: "k ` set (insert_new k rs rows) = k ` set rows \<union> k ` set rs"
proof (induction rs arbitrary: rows)
  case (Cons r rs)
  show ?case unfolding insert_new_step(1) Cons.IH insert_new_step(3) by auto
qed simp

lemma insert_new_from: "set (insert_new k rs rows) \<subseteq> set rows \<union> set rs"
proof (induction rs arbitrary: rows)
  case (Cons r rs)
  show ?case unfolding insert_new_step(1) using Cons.IH insert_new_step(5) [of rows k r] by fastforce
qed simp

lemma insert_new_keeps: "set rows \<subseteq> set (insert_new k rs rows)"
proof (induction rs arbitrary: rows)
  case (Cons r rs)
  show ?case unfolding insert_new_step(1) using Cons.IH insert_new_step(4) [of rows k r] by fast
qed simp

lemma find_upsert:
  assumes "distinct (map k rows)" "\<And>r. k r = k new \<Longrightarrow> k (merge new r) = k new"
  shows "find (\<lambda>r. k r = k new) (upsert k merge new rows) =
     Some (case find (\<lambda>r. k r = k new) rows of None \<Rightarrow> new | Some r \<Rightarrow> merge new r)"
proof (cases "find (\<lambda>r. k r = k new) rows")
  case None
  then have none: "\<forall>r \<in> set rows. k r \<noteq> k new" by (simp add: find_None_iff)
  then have "find (\<lambda>r. k r = k new) (rows @ [new]) = Some new" by (induction rows) auto
  with none None show ?thesis by (auto simp: upsert_def)
next
  case (Some r)
  have "find (\<lambda>r. k r = k new) (update_where (\<lambda>r. k r = k new) (merge new) rows) = Some (merge new r)"
    using Some by (induction rows) (auto simp: assms(2) split: if_splits)
  moreover have "\<exists>r \<in> set rows. k r = k new" using Some by (auto simp: find_Some_iff)
  ultimately show ?thesis using Some by (simp add: upsert_def)
qed

section \<open>The cache stays sound\<close>

definition cache_ok :: "cache_db \<Rightarrow> bool" where
  "cache_ok db \<longleftrightarrow> distinct (map user_key (users db)) \<and> distinct (map group_key (groups db))
     \<and> distinct (map computer_key (computers db)) \<and> distinct (map ou_key (ous db))
     \<and> distinct (map um_key (user_memberships db)) \<and> distinct (map gm_key (group_memberships db))"

text \<open>What the sync runners, the write paths and the live reads do to it.\<close>

datatype cache_op =
    C_user nat directory_user upsert_source ms nat
  | C_forget_users ms nat "string list"
  | C_users_stale ms nat "string list"
  | C_clear_locked nat "string list" ms
  | C_group nat directory_group ms nat
  | C_groups_stale ms nat "string list"
  | C_nested nat string "string list" ms
  | C_forget_group ms nat string string
  | C_computer nat directory_computer ms nat
  | C_computers_stale ms nat "string list"
  | C_ou nat directory_ou ms nat
  | C_ous_stale ms nat "string list"
  | C_rebuild nat ms
  | C_direct nat string "string list" ms

fun cache_apply :: "cache_op \<Rightarrow> cache_db \<Rightarrow> cache_db" where
  "cache_apply (C_user p u src t i) db = snd (upsertUser p u src t i db)"
| "cache_apply (C_forget_users t p gs) db = forgetDeletedUsers t p gs db"
| "cache_apply (C_users_stale t p gs) db = markUsersStale t p gs db"
| "cache_apply (C_clear_locked p gs t) db = snd (clearLockedExcept p gs t db)"
| "cache_apply (C_group p g t i) db = upsertGroup p g t i db"
| "cache_apply (C_groups_stale t p gs) db = markGroupsStale t p gs db"
| "cache_apply (C_nested p g dns t) db = reconcileNestedGroups p g dns t db"
| "cache_apply (C_forget_group t p g dn) db = forgetDeletedGroup t p g dn db"
| "cache_apply (C_computer p c t i) db = upsertComputer p c t i db"
| "cache_apply (C_computers_stale t p gs) db = markComputersStale t p gs db"
| "cache_apply (C_ou p ou t i) db = upsertOu p ou t i db"
| "cache_apply (C_ous_stale t p dns) db = markOusStale t p dns db"
| "cache_apply (C_rebuild p t) db = snd (rebuildMemberships p t db)"
| "cache_apply (C_direct p u dns t) db = reconcileDirectMemberships p u dns t db"

lemma distinct_map_filter: "distinct (map k rows) \<Longrightarrow> distinct (map k (filter p rows))"
  by (induction rows) auto

lemma distinct_update:
  "(\<And>r. k (f r) = k r) \<Longrightarrow> distinct (map k rows) \<Longrightarrow> distinct (map k (update_where p f rows))"
  by (simp add: map_update_where)

lemma fold_upsert_keys:
  assumes "\<And>g r. k (merge g (new g) r) = k r" "distinct (map k rows)"
  shows "distinct (map k (fold (\<lambda>g rows. upsert k (merge g) (new g) rows) gs rows))"
  using assms(2)
proof (induction gs arbitrary: rows)
  case (Cons g gs)
  have "distinct (map k (upsert k (merge g) (new g) rows))"
    by (rule upsert_keys(1)) (use assms(1) Cons.prems in auto)
  then show ?case using Cons.IH by simp
qed simp

lemma user_values_key: "user_key (user_values p u src t i) = (p, du_objectGuid u)"
  by (simp add: user_key_def user_values_def)

lemma group_values_key: "group_key (group_values p g t i) = (p, dg_objectGuid g)"
  by (simp add: group_key_def group_values_def)

lemma cache_ok_apply:
  assumes "cache_ok db"
  shows "cache_ok (cache_apply op db)"
proof -
  note ok = assms [unfolded cache_ok_def]
  have du: "distinct (map user_key (update_where p f (users db)))" if "\<And>r. user_key (f r) = user_key r" for p f
    by (rule distinct_update) (use that ok in auto)
  have dg: "distinct (map group_key (update_where p f rows))"
    if "\<And>r. group_key (f r) = group_key r" "distinct (map group_key rows)" for p f rows
    by (rule distinct_update) (use that in auto)
  have dc: "distinct (map computer_key (update_where p f (computers db)))"
    if "\<And>r. computer_key (f r) = computer_key r" for p f by (rule distinct_update) (use that ok in auto)
  have do: "distinct (map ou_key (update_where p f (ous db)))" if "\<And>r. ou_key (f r) = ou_key r" for p f
    by (rule distinct_update) (use that ok in auto)
  have um: "distinct (map um_key (filter p (user_memberships db)))" for p
    by (rule distinct_map_filter) (use ok in auto)
  have gm: "distinct (map gm_key (filter p (group_memberships db)))" for p
    by (rule distinct_map_filter) (use ok in auto)
  show ?thesis
  proof (cases op)
    case (C_user p u src t i)
    then show ?thesis using ok
      by (simp add: cache_ok_def upsertUser_def Let_def upsert_keys(1) user_key_def)
  next
    case (C_group p g t i)
    then show ?thesis using ok by (simp add: cache_ok_def upsertGroup_def upsert_keys(1) group_key_def)
  next
    case (C_computer p g t i)
    then show ?thesis using ok by (simp add: cache_ok_def upsertComputer_def upsert_keys(1) computer_key_def)
  next
    case (C_ou p g t i)
    then show ?thesis using ok by (simp add: cache_ok_def upsertOu_def upsert_keys(1) ou_key_def)
  next
    case (C_direct p u dns t)
    then show ?thesis using ok um
      by (simp add: cache_ok_def reconcileDirectMemberships_def Let_def fold_upsert_keys um_key_def)
  next
    case (C_rebuild p t)
    then show ?thesis using ok um gm by (simp add: cache_ok_def rebuildMemberships_def Let_def insert_new_keys)
  next
    case (C_nested p g dns t)
    then show ?thesis using ok gm by (simp add: cache_ok_def reconcileNestedGroups_def Let_def insert_new_keys)
  next
    case (C_forget_group t p g dn)
    then show ?thesis using ok um gm
      by (simp add: cache_ok_def forgetDeletedGroup_def du dg dc user_key_def group_key_def computer_key_def)
  next
    case (C_forget_users t p gs)
    then show ?thesis using ok um by (simp add: cache_ok_def forgetDeletedUsers_def du user_key_def)
  qed (use ok in \<open>simp_all add: cache_ok_def markUsersStale_def clearLockedExcept_def markGroupsStale_def
      markComputersStale_def markOusStale_def Let_def du dg dc do user_key_def group_key_def computer_key_def ou_key_def\<close>)
qed

definition empty_cache :: cache_db where
  "empty_cache = \<lparr>users = [], groups = [], computers = [], ous = [], user_memberships = [], group_memberships = []\<rparr>"

interpretation cache: transition_system "\<lambda>db. db = empty_cache" "\<lambda>db db'. \<exists>op. db' = cache_apply op db" cache_ok
proof
  show "cache_ok db" if "db = empty_cache" for db using that by (simp add: cache_ok_def empty_cache_def)
  show "cache_ok db'" if "cache_ok db" "\<exists>op. db' = cache_apply op db" for db db'
    using that cache_ok_apply by blast
qed

definition cache_run :: "cache_op list \<Rightarrow> cache_db" where
  "cache_run ops = fold cache_apply ops empty_cache"

lemma cache_run_steps: "(\<lambda>db db'. \<exists>op. db' = cache_apply op db)\<^sup>*\<^sup>* db (fold cache_apply ops db)"
  by (induction ops arbitrary: db) (auto intro: converse_rtranclp_into_rtranclp)

lemma cache_ok_run: "cache_ok (cache_run ops)"
  unfolding cache_run_def by (rule cache.inv_reachable [OF refl cache_run_steps])

section \<open>Memberships\<close>

lemma find_key: "find (\<lambda>r. k r = x) rows \<noteq> None \<longleftrightarrow> x \<in> k ` set rows"
  by (auto simp: find_None_iff)

lemma mem_concat_map: "x \<in> set (concat (map f xs)) \<longleftrightarrow> (\<exists>y. y \<in> set xs \<and> x \<in> set (f y))"
  by auto

lemma mem_map: "x \<in> set (map f xs) \<longleftrightarrow> (\<exists>y. y \<in> set xs \<and> x = f y)"
  by auto

lemma image_keep: "{y \<in> f ` A. P y} = f ` {x \<in> A. P (f x)}"
  by auto

lemma set_both: "user_memberships (db\<lparr>user_memberships := a, group_memberships := b\<rparr>) = a"
  by simp

lemma rebuilt_keys:
  "um_key ` set (user_memberships (snd (rebuildMemberships p now db))) =
     {key \<in> um_key ` set (user_memberships db). fst key \<noteq> p}
     \<union> {(p, uc_object_guid u, gc_object_guid g) | u g. u \<in> set (users db) \<and> g \<in> set (groups db)
          \<and> uc_provider_id u = p \<and> uc_deleted_at u = None \<and> gc_provider_id g = p \<and> gc_deleted_at g = None
          \<and> lists_dn (memberOfArray (uc_raw_attributes_json u)) (gc_distinguished_name g)}"
proof -
  let ?live = "filter (\<lambda>g. gc_provider_id g = p \<and> gc_deleted_at g = None) (groups db)"
  let ?row = "\<lambda>u g. \<lparr>um_provider_id = p, um_user_object_guid = uc_object_guid u,
      um_group_object_guid = gc_object_guid g, um_direct = True, um_synced_at = now\<rparr>"
  let ?new = "concat (map (\<lambda>u. concat (map (\<lambda>v. map (?row u)
        (filter (\<lambda>g. names_dn v (gc_distinguished_name g) = Some True) ?live)) (memberOfArray (uc_raw_attributes_json u))))
      (filter (\<lambda>u. uc_provider_id u = p \<and> uc_deleted_at u = None) (users db)))"
  have mem: "m \<in> set ?new \<longleftrightarrow> (\<exists>u g. m = ?row u g \<and> u \<in> set (users db) \<and> g \<in> set (groups db)
      \<and> uc_provider_id u = p \<and> uc_deleted_at u = None \<and> gc_provider_id g = p \<and> gc_deleted_at g = None
      \<and> lists_dn (memberOfArray (uc_raw_attributes_json u)) (gc_distinguished_name g))" for m
    unfolding lists_dn_def mem_concat_map mem_map set_filter by blast
  have new: "um_key ` set ?new = {(p, uc_object_guid u, gc_object_guid g) | u g. u \<in> set (users db) \<and> g \<in> set (groups db)
      \<and> uc_provider_id u = p \<and> uc_deleted_at u = None \<and> gc_provider_id g = p \<and> gc_deleted_at g = None
      \<and> lists_dn (memberOfArray (uc_raw_attributes_json u)) (gc_distinguished_name g)}" (is "_ = ?R")
  proof
    show "um_key ` set ?new \<subseteq> ?R"
    proof (rule image_subsetI)
      fix m assume "m \<in> set ?new"
      then obtain u g where "m = ?row u g" and "u \<in> set (users db) \<and> g \<in> set (groups db)
          \<and> uc_provider_id u = p \<and> uc_deleted_at u = None \<and> gc_provider_id g = p \<and> gc_deleted_at g = None
          \<and> lists_dn (memberOfArray (uc_raw_attributes_json u)) (gc_distinguished_name g)"
        unfolding mem by blast
      moreover from this(1) have "um_key m = (p, uc_object_guid u, gc_object_guid g)" by (simp add: um_key_def)
      ultimately show "um_key m \<in> ?R" by blast
    qed
    show "?R \<subseteq> um_key ` set ?new"
    proof
      fix k assume "k \<in> ?R"
      then show "k \<in> um_key ` set ?new"
      proof (elim CollectE exE conjE)
        fix u g assume k: "k = (p, uc_object_guid u, gc_object_guid g)"
          and "u \<in> set (users db)" "g \<in> set (groups db)" "uc_provider_id u = p" "uc_deleted_at u = None"
            "gc_provider_id g = p" "gc_deleted_at g = None"
            "lists_dn (memberOfArray (uc_raw_attributes_json u)) (gc_distinguished_name g)"
        then have "\<exists>u' g'. ?row u g = ?row u' g' \<and> u' \<in> set (users db) \<and> g' \<in> set (groups db)
          \<and> uc_provider_id u' = p \<and> uc_deleted_at u' = None \<and> gc_provider_id g' = p \<and> gc_deleted_at g' = None
          \<and> lists_dn (memberOfArray (uc_raw_attributes_json u')) (gc_distinguished_name g')"
          by (intro exI [of _ u] exI [of _ g] conjI) simp_all
        then have "?row u g \<in> set ?new" unfolding mem .
        then have "um_key (?row u g) \<in> um_key ` set ?new" by (rule imageI)
        then show ?thesis using k by (simp only: um_key_def user_membership.simps)
      qed
    qed
  qed
  have rows: "user_memberships (snd (rebuildMemberships p now db))
      = insert_new um_key ?new (filter (\<lambda>m. um_provider_id m \<noteq> p) (user_memberships db))"
    unfolding rebuildMemberships_def Let_def snd_conv by (rule set_both)
  have others: "um_key ` set (filter (\<lambda>m. um_provider_id m \<noteq> p) (user_memberships db))
      = {key \<in> um_key ` set (user_memberships db). fst key \<noteq> p}"
    unfolding set_filter image_keep by (simp add: um_key_def)
  show ?thesis unfolding rows insert_new_set new others by (rule refl)
qed

text \<open>
  C20. A rebuild of the memberships gives exactly what the cache says: a user is in a group after
  it when both are in the cache, neither deleted, and the user's memberOf lists the group's DN
  in some case; and other directories' memberships are left alone.
\<close>

theorem rebuild_is_what_the_cache_says:
  "(p', u, g) \<in> um_key ` set (user_memberships (snd (rebuildMemberships p now db))) \<longleftrightarrow>
     (if p' \<noteq> p then (p', u, g) \<in> um_key ` set (user_memberships db)
      else list_ex (\<lambda>r. uc_provider_id r = p \<and> uc_object_guid r = u \<and> uc_deleted_at r = None
             \<and> list_ex (\<lambda>x. gc_provider_id x = p \<and> gc_object_guid x = g \<and> gc_deleted_at x = None
                  \<and> lists_dn (memberOfArray (uc_raw_attributes_json r)) (gc_distinguished_name x)) (groups db)) (users db))"
  unfolding rebuilt_keys list_ex_iff by auto

lemma dropped_value:
  "\<not> lists_dn (rawValuesArray (dropRawValue a dn raw) a) dn"
proof (cases "lists_dn (rawValuesArray raw a) dn")
  case True
  then show ?thesis by (simp add: dropRawValue_def rawValuesArray_def lists_dn_def)
next
  case False
  then show ?thesis by (simp add: dropRawValue_def)
qed

lemma lists_dn_case: "to_lower dn = to_lower dn' \<Longrightarrow> lists_dn vs dn = lists_dn vs dn'"
proof -
  assume "to_lower dn = to_lower dn'"
  then have "names_dn v dn = names_dn v dn'" for v by (cases v) simp_all
  then show ?thesis by (simp add: lists_dn_def)
qed

lemma upserted_group_dn:
  assumes "x \<in> set (groups (upsertGroup p g t1 i db))" "gc_provider_id x = p"
    and "gc_object_guid x = dg_objectGuid g"
  shows "gc_distinguished_name x = dg_distinguishedName g"
proof (cases "\<exists>y \<in> set (groups db). group_key y = (p, dg_objectGuid g)")
  case True
  then have "groups (upsertGroup p g t1 i db) = update_where (\<lambda>y. group_key y = (p, dg_objectGuid g))
      (\<lambda>old. (group_values p g t1 i)\<lparr>gc_id := gc_id old\<rparr>) (groups db)"
    by (auto simp: upsertGroup_def upsert_def group_values_key)
  then have "x \<in> (\<lambda>y. if group_key y = (p, dg_objectGuid g) then (group_values p g t1 i)\<lparr>gc_id := gc_id y\<rparr> else y)
      ` set (groups db)" using assms(1) by (simp only: set_update_where)
  then obtain y where y: "x = (if group_key y = (p, dg_objectGuid g)
      then (group_values p g t1 i)\<lparr>gc_id := gc_id y\<rparr> else y)" by (rule imageE)
  then have "group_key y = (p, dg_objectGuid g)" using assms(2,3) by (auto simp: group_key_def split: if_splits)
  with y have "x = (group_values p g t1 i)\<lparr>gc_id := gc_id y\<rparr>" by simp
  then show ?thesis by (simp add: group_values_def)
next
  case False
  then have "groups (upsertGroup p g t1 i db) = groups db @ [group_values p g t1 i]"
    by (auto simp: upsertGroup_def upsert_def group_values_key)
  moreover have "x \<notin> set (groups db)" using False assms(2,3) by (auto simp: group_key_def)
  ultimately have "x = group_values p g t1 i" using assms(1) by simp
  then show ?thesis by (simp add: group_values_def)
qed


lemma fold_upsert_set:
  assumes "\<And>g r. k (merge g (new g) r) = k r"
  shows "k ` set (fold (\<lambda>g rows. upsert k (merge g) (new g) rows) gs rows) = k ` set rows \<union> (\<lambda>g. k (new g)) ` set gs"
proof (induction gs arbitrary: rows)
  case (Cons g gs)
  have "k ` set (upsert k (merge g) (new g) rows) = insert (k (new g)) (k ` set rows)"
  proof (cases "\<exists>r \<in> set rows. k r = k (new g)")
    case True
    then have "map k (upsert k (merge g) (new g) rows) = map k rows"
      using assms by (simp add: upsert_def map_update_where)
    then have "set (map k (upsert k (merge g) (new g) rows)) = set (map k rows)" by (rule arg_cong)
    then have "k ` set (upsert k (merge g) (new g) rows) = k ` set rows" unfolding set_map .
    moreover from True have "k (new g) \<in> k ` set rows" by (metis imageI)
    ultimately show ?thesis by (simp add: insert_absorb)
  next
    case False
    then show ?thesis by (auto simp: upsert_def)
  qed
  with Cons.IH show ?case by simp
qed simp

lemma reconciled_keys:
  "um_key ` set (user_memberships (reconcileDirectMemberships p u dns now db)) =
     um_key ` set (filter (\<lambda>m. \<not> (um_provider_id m = p \<and> um_user_object_guid m = u \<and> um_direct m)) (user_memberships db))
     \<union> (\<lambda>g. (p, u, gc_object_guid g)) ` set (filter (\<lambda>g. gc_provider_id g = p
          \<and> to_lower (gc_distinguished_name g) \<in> set (map to_lower dns)) (groups db))"
proof -
  have "um_key ` set (fold (\<lambda>g rows. upsert um_key (\<lambda>new old. old\<lparr>um_direct := True, um_synced_at := now\<rparr>)
      \<lparr>um_provider_id = p, um_user_object_guid = u, um_group_object_guid = gc_object_guid g, um_direct = True,
       um_synced_at = now\<rparr> rows) gs rows) = um_key ` set rows \<union> (\<lambda>g. (p, u, gc_object_guid g)) ` set gs" for gs :: "group_row list" and rows :: "user_membership list"
    using fold_upsert_set [of um_key "\<lambda>g new old. old\<lparr>um_direct := True, um_synced_at := now\<rparr>"
        "\<lambda>g. \<lparr>um_provider_id = p, um_user_object_guid = u, um_group_object_guid = gc_object_guid g,
          um_direct = True, um_synced_at = now\<rparr>" gs rows] by (simp add: um_key_def)
  then show ?thesis unfolding reconcileDirectMemberships_def Let_def by simp
qed

text \<open>
  Writing a user's memberships back after a change also puts them in a group the cache knows
  to be deleted, when a group of the same DN stands in its place: a rebuild would not.
\<close>

theorem recreated_group_also_joins_the_deleted_one:
  assumes "cache_ok db" "x \<in> set (groups db)" "gc_provider_id x = p" "gc_deleted_at x = Some t"
    and "to_lower (gc_distinguished_name x) \<in> set (map to_lower dns)"
  shows "(p, u, gc_object_guid x) \<in> um_key ` set (user_memberships (reconcileDirectMemberships p u dns now db))
    \<and> (p, u, gc_object_guid x) \<notin> um_key ` set (user_memberships (snd (rebuildMemberships p now db)))"
proof
  show "(p, u, gc_object_guid x) \<in> um_key ` set (user_memberships (reconcileDirectMemberships p u dns now db))"
    unfolding reconciled_keys using assms(2,3,5) by auto
  have "y = x" if "y \<in> set (groups db)" "gc_provider_id y = p" "gc_object_guid y = gc_object_guid x" for y
    using distinct_key_eq [of group_key "groups db" y x] assms(1-3) that by (simp add: cache_ok_def group_key_def)
  then show "(p, u, gc_object_guid x) \<notin> um_key ` set (user_memberships (snd (rebuildMemberships p now db)))"
    using assms(4) by (auto simp: rebuilt_keys)
qed

definition ex_group :: "string \<Rightarrow> directory_group" where
  "ex_group guid = \<lparr>dg_objectGuid = guid, dg_sid = None, dg_distinguishedName = ''CN=G,DC=corp'', dg_samAccountName = None,
     dg_name = Some ''G'', dg_description = None, dg_email = None, dg_groupType = None, dg_groupScope = None,
     dg_memberDns = [], dg_memberOfDns = [], dg_rawAttributes = []\<rparr>"

definition ex_recreated :: cache_db where
  "ex_recreated = cache_run [C_group 1 (ex_group ''old'') 0 1, C_forget_group 1 1 ''old'' ''CN=G,DC=corp'',
     C_group 1 (ex_group ''new'') 2 2]"

theorem recreated_group_also_joins_the_deleted_one_witness:
  "map um_key (user_memberships (reconcileDirectMemberships 1 ''ann'' [''cn=g,dc=corp''] 3 ex_recreated))
     = [(1, ''ann'', ''old''), (1, ''ann'', ''new'')]
   \<and> (1, ''ann'', ''old'') \<in> um_key ` set (user_memberships (reconcileDirectMemberships 1 ''ann'' [''cn=g,dc=corp''] 3 ex_recreated))"
proof
  show "map um_key (user_memberships (reconcileDirectMemberships 1 ''ann'' [''cn=g,dc=corp''] 3 ex_recreated))
     = [(1, ''ann'', ''old''), (1, ''ann'', ''new'')]" by code_simp
  let ?x = "hd (groups ex_recreated)"
  have x: "?x \<in> set (groups ex_recreated)" "gc_provider_id ?x = 1" "gc_deleted_at ?x = Some 1"
    "to_lower (gc_distinguished_name ?x) \<in> set (map to_lower [''cn=g,dc=corp''])" "gc_object_guid ?x = ''old''" by code_simp+
  have "cache_ok ex_recreated" unfolding ex_recreated_def by (rule cache_ok_run)
  from recreated_group_also_joins_the_deleted_one [OF this x(1-4)]
  show "(1, ''ann'', ''old'') \<in> um_key ` set (user_memberships (reconcileDirectMemberships 1 ''ann'' [''cn=g,dc=corp''] 3 ex_recreated))"
    unfolding x(5) by blast
qed

end
