(* ===== verification/SyncRunners.thy ===== *)
theory SyncRunners
  imports DirectoryCache
begin

text \<open>
  The sync tasks that read the directory into the cache (\<^verbatim>\<open>services/syncTasks/runners\<close>): full crawls,
  deltas, the lockout poll and the rebuild of the memberships. What the directory streams is an
  argument: the entries in the order they come, for each whether the cache could be written, when,
  and the id of the row if it is new; and the error that ends the stream, if one does. An entry
  whose write failed leaves the cache as it was.
\<close>

section \<open>What a stream brings\<close>

datatype write_outcome =
    Written
  | Write_failed "string option"  \<comment> \<open>the message, if what was thrown is an \<open>Error\<close>\<close>

record 'e arrival =
  ar_entry :: 'e
  ar_outcome :: write_outcome
  ar_at :: ms
  ar_newId :: nat

record 'e feed =
  fd_arrivals :: "'e arrival list"
  fd_broken :: "string option"

definition written :: "'e arrival \<Rightarrow> bool" where
  "written a \<longleftrightarrow> ar_outcome a = Written"

section \<open>Results of a run\<close>

(* src/apps/api/src/services/syncTasks/types.ts:21-39 SyncTaskKey *)
datatype SyncTaskKey =
    Users_locked | Users_delta | Users_full
  | Groups_delta | Groups_full
  | Computers_delta | Computers_full
  | Ous_full | Policies_full | Memberships_rebuild | Domain_policy | Tombstones
  | Entra_photos_refresh | Entra_signin_activity | Entra_signins_events
  | Entra_mfa_registration | Entra_password_expiry_notify | Entra_licenses_groups

datatype stat = Number nat | Instant "ms option"

(* src/apps/api/src/services/syncTasks/types.ts:108-115 RunnerResult *)
record runner_result =
  rr_cursor :: "ms option"  \<comment> \<open>written as ISO text; \<open>None\<close> leaves the stored one\<close>
  rr_stats :: "(string \<times> stat) list"
  rr_triggers :: "SyncTaskKey list"

datatype crawl_kind = Crawl_users | Crawl_groups | Crawl_computers

datatype run_error =
    Stream_failed string
  | Nothing_written crawl_kind nat "string option"  \<comment> \<open>\<open>n\<close> found, the last error's message\<close>
  | Nothing_returned crawl_kind nat                  \<comment> \<open>\<open>n\<close> cached\<close>
  | Delta_nothing_written nat "string option"

section \<open>Crawling\<close>

record crawl =
  cw_found :: nat
  cw_seen :: "string list"
  cw_lastError :: "write_outcome option"

definition no_crawl :: crawl where
  "no_crawl = \<lparr>cw_found = 0, cw_seen = [], cw_lastError = None\<rparr>"

text \<open>\<open>set.add(x)\<close> on a set held in the order of insertion.\<close>

definition set_add :: "'a \<Rightarrow> 'a list \<Rightarrow> 'a list" where
  "set_add x xs = (if x \<in> set xs then xs else xs @ [x])"

lemma set_set_add [simp]: "set (set_add x xs) = insert x (set xs)"
  by (auto simp: set_add_def)

lemma distinct_set_add [simp]: "distinct xs \<Longrightarrow> distinct (set_add x xs)"
  by (simp add: set_add_def)

text \<open>The loop of a crawl, over what it writes an entry with and the name it remembers it by.\<close>

fun crawl_loop :: "('e \<Rightarrow> ms \<Rightarrow> nat \<Rightarrow> 'd \<Rightarrow> 'd) \<Rightarrow> ('e \<Rightarrow> string) \<Rightarrow> 'e arrival list \<Rightarrow> crawl \<Rightarrow> 'd \<Rightarrow> crawl \<times> 'd" where
  "crawl_loop put name_of [] c db = (c, db)"
| "crawl_loop put name_of (a # as) c db =
     (let c = c\<lparr>cw_found := Suc (cw_found c)\<rparr>
      in case ar_outcome a of
           Written \<Rightarrow>
             crawl_loop put name_of as (c\<lparr>cw_seen := set_add (name_of (ar_entry a)) (cw_seen c)\<rparr>)
               (put (ar_entry a) (ar_at a) (ar_newId a) db)
         | failed \<Rightarrow> crawl_loop put name_of as (c\<lparr>cw_lastError := Some failed\<rparr>) db)"

text \<open>The message of the last error, if it is an \<open>Error\<close>; else the caller's own words.\<close>

fun message_of :: "write_outcome option \<Rightarrow> string option" where
  "message_of (Some (Write_failed m)) = m"
| "message_of _ = None"

text \<open>The rows of a table not stale yet.\<close>

fun live_rows :: "crawl_kind \<Rightarrow> nat \<Rightarrow> cache_db \<Rightarrow> nat" where
  "live_rows Crawl_users providerId db =
     updated_count (\<lambda>r. uc_provider_id r = providerId \<and> uc_stale_at r = None) (users db)"
| "live_rows Crawl_groups providerId db =
     updated_count (\<lambda>r. gc_provider_id r = providerId \<and> gc_stale_at r = None) (groups db)"
| "live_rows Crawl_computers providerId db =
     updated_count (\<lambda>r. pc_provider_id r = providerId \<and> pc_stale_at r = None) (computers db)"

(* src/apps/api/src/services/syncTasks/runners/fullCrawl.ts:24-57 shouldMarkStale *)
definition shouldMarkStale :: "nat \<Rightarrow> crawl_kind \<Rightarrow> crawl \<Rightarrow> cache_db \<Rightarrow> run_error + bool" where
  "shouldMarkStale providerId kind c db =
     (let found = cw_found c; written = length (cw_seen c)
      in if found > 0 \<and> written = 0 then Inl (Nothing_written kind found (message_of (cw_lastError c)))
         else if found = 0 \<and> live_rows kind providerId db > 0
              then Inl (Nothing_returned kind (live_rows kind providerId db))
         else Inr (\<not> written < found))"

text \<open>The part the three full crawls share: read everything, then mark what was not seen.\<close>

definition full_crawl ::
    "crawl_kind \<Rightarrow> nat \<Rightarrow> ('e \<Rightarrow> ms \<Rightarrow> nat \<Rightarrow> cache_db \<Rightarrow> cache_db) \<Rightarrow> ('e \<Rightarrow> string)
     \<Rightarrow> (string list \<Rightarrow> cache_db \<Rightarrow> cache_db) \<Rightarrow> 'e feed \<Rightarrow> cache_db \<Rightarrow> (run_error + crawl) \<times> cache_db" where
  "full_crawl kind providerId put name_of mark feed db =
     (let (c, db) = crawl_loop put name_of (fd_arrivals feed) no_crawl db
      in case fd_broken feed of
           Some e \<Rightarrow> (Inl (Stream_failed e), db)
         | None \<Rightarrow>
             (case shouldMarkStale providerId kind c db of
                Inl e \<Rightarrow> (Inl e, db)
              | Inr trusted \<Rightarrow> (Inr c, if trusted then mark (cw_seen c) db else db)))"

definition putUser :: "nat \<Rightarrow> directory_user \<Rightarrow> ms \<Rightarrow> nat \<Rightarrow> cache_db \<Rightarrow> cache_db" where
  "putUser providerId user t i db = snd (upsertUser providerId user Sync t i db)"

(* src/apps/api/src/services/syncTasks/runners/usersFull.ts:14-42 runUsersFull *)
definition runUsersFull :: "nat \<Rightarrow> directory_user feed \<Rightarrow> ms \<Rightarrow> cache_db \<Rightarrow> (run_error + runner_result) \<times> cache_db" where
  "runUsersFull providerId feed now db =
     apfst (map_sum id (\<lambda>c. \<lparr>rr_cursor = Some now,
         rr_stats = [(''usersSeen'', Number (cw_found c)), (''usersStaleScanned'', Number (length (cw_seen c)))],
         rr_triggers = [Memberships_rebuild]\<rparr>))
       (full_crawl Crawl_users providerId (putUser providerId) du_objectGuid
         (markUsersStale now providerId) feed db)"

(* src/apps/api/src/services/syncTasks/runners/groupsFull.ts:9-35 runGroupsFull *)
definition runGroupsFull :: "nat \<Rightarrow> directory_group feed \<Rightarrow> ms \<Rightarrow> cache_db \<Rightarrow> (run_error + runner_result) \<times> cache_db" where
  "runGroupsFull providerId feed now db =
     apfst (map_sum id (\<lambda>c. \<lparr>rr_cursor = Some now, rr_stats = [(''groupsSeen'', Number (cw_found c))],
         rr_triggers = [Memberships_rebuild]\<rparr>))
       (full_crawl Crawl_groups providerId (upsertGroup providerId) dg_objectGuid
         (markGroupsStale now providerId) feed db)"

(* src/apps/api/src/services/syncTasks/runners/computersFull.ts:12-39 runComputersFull *)
definition runComputersFull :: "nat \<Rightarrow> directory_computer feed \<Rightarrow> ms \<Rightarrow> cache_db \<Rightarrow> (run_error + runner_result) \<times> cache_db" where
  "runComputersFull providerId feed now db =
     apfst (map_sum id (\<lambda>c. \<lparr>rr_cursor = Some now,
         rr_stats = [(''computersSeen'', Number (cw_found c)), (''computersUpserted'', Number (length (cw_seen c)))],
         rr_triggers = []\<rparr>))
       (full_crawl Crawl_computers providerId (upsertComputer providerId) dc_objectGuid
         (markComputersStale now providerId) feed db)"

(* src/apps/api/src/services/syncTasks/runners/ousFull.ts:8-28 runOusFull *)
definition runOusFull :: "nat \<Rightarrow> directory_ou feed \<Rightarrow> ms \<Rightarrow> cache_db \<Rightarrow> (run_error + runner_result) \<times> cache_db" where
  "runOusFull providerId feed now db =
     (let (c, db) = crawl_loop (upsertOu providerId) (\<lambda>ou. to_lower (do_distinguishedName ou))
                      (fd_arrivals feed) no_crawl db;
          count = length (filter written (fd_arrivals feed))
      in case fd_broken feed of
           Some e \<Rightarrow> (Inl (Stream_failed e), db)
         | None \<Rightarrow> (Inr \<lparr>rr_cursor = Some now, rr_stats = [(''ousSeen'', Number count)], rr_triggers = []\<rparr>,
                    markOusStale now providerId (cw_seen c) db))"

section \<open>Deltas\<close>

(* src/apps/api/src/services/syncTasks/runners/usersDelta.ts:8-8 OVERLAP_MS *)
definition OVERLAP_MS :: ms where
  "OVERLAP_MS = 5 * minute_ms"

text \<open>What the stream of a delta is asked for: changes since then, or everything.\<close>

definition delta_since :: "ms option \<Rightarrow> ms option" where
  "delta_since lastSuccessfulRunAt = map_option (\<lambda>t. t - OVERLAP_MS) lastSuccessfulRunAt"

(* src/apps/api/src/services/syncTasks/runners/usersDelta.ts:21-44 runUsersDelta *)
definition runUsersDelta ::
    "nat \<Rightarrow> ms option \<Rightarrow> (ms option \<Rightarrow> directory_user feed) \<Rightarrow> ms \<Rightarrow> cache_db
     \<Rightarrow> (run_error + runner_result) \<times> cache_db" where
  "runUsersDelta providerId lastSuccessfulRunAt syncUsers now db =
     (let since = delta_since lastSuccessfulRunAt;
          feed = syncUsers since;
          (c, db) = crawl_loop (putUser providerId) du_objectGuid (fd_arrivals feed) no_crawl db;
          count = length (filter written (fd_arrivals feed))
      in case fd_broken feed of
           Some e \<Rightarrow> (Inl (Stream_failed e), db)
         | None \<Rightarrow>
             (Inr \<lparr>rr_cursor = Some now,
                   rr_stats = [(''usersSeen'', Number count), (''modifiedSince'', Instant since)],
                   rr_triggers = (if count > 0 then [Memberships_rebuild] else [])\<rparr>, db))"

(* src/apps/api/src/services/syncTasks/runners/computersDelta.ts:14-51 runComputersDelta *)
definition runComputersDelta ::
    "nat \<Rightarrow> ms option \<Rightarrow> (ms option \<Rightarrow> directory_computer feed) \<Rightarrow> ms \<Rightarrow> cache_db
     \<Rightarrow> (run_error + runner_result) \<times> cache_db" where
  "runComputersDelta providerId lastSuccessfulRunAt syncComputers now db =
     (let since = delta_since lastSuccessfulRunAt;
          feed = syncComputers since;
          (c, db) = crawl_loop (upsertComputer providerId) dc_objectGuid (fd_arrivals feed) no_crawl db;
          seen = cw_found c;
          upserted = length (filter written (fd_arrivals feed))
      in case fd_broken feed of
           Some e \<Rightarrow> (Inl (Stream_failed e), db)
         | None \<Rightarrow>
             if seen > 0 \<and> upserted = 0
             then (Inl (Delta_nothing_written seen (message_of (cw_lastError c))), db)
             else (Inr \<lparr>rr_cursor = Some now,
                        rr_stats = [(''computersSeen'', Number seen), (''computersUpserted'', Number upserted),
                                    (''modifiedSince'', Instant since)],
                        rr_triggers = []\<rparr>, db))"

text \<open>
  Reading the former members of a group again, one \<open>getUser\<close> each: the directory's answer, or the
  error of reading or writing, which is logged and leaves that member for the next time.
\<close>

datatype reread =
    Found "directory_user arrival"
  | Not_there
  | Read_failed

fun reread_members ::
    "nat \<Rightarrow> (string \<Rightarrow> reread) \<Rightarrow> string list \<Rightarrow> string list \<Rightarrow> cache_db \<Rightarrow> string list \<times> cache_db" where
  "reread_members providerId getUser [] refreshed db = (refreshed, db)"
| "reread_members providerId getUser (guid # guids) refreshed db =
     (if guid \<in> set refreshed then reread_members providerId getUser guids refreshed db
      else case getUser guid of
             Found a \<Rightarrow>
               if written a
               then reread_members providerId getUser guids (set_add guid refreshed)
                      (putUser providerId (ar_entry a) (ar_at a) (ar_newId a) db)
               else reread_members providerId getUser guids refreshed db
           | Not_there \<Rightarrow> reread_members providerId getUser guids (set_add guid refreshed) db
           | Read_failed \<Rightarrow> reread_members providerId getUser guids refreshed db)"

(* src/apps/api/src/services/syncTasks/runners/groupsDelta.ts:53-78 refreshMembers *)
definition refreshMembers ::
    "nat \<Rightarrow> (string \<Rightarrow> directory_user feed) \<Rightarrow> (string \<Rightarrow> reread) \<Rightarrow> string \<Rightarrow> cache_db
     \<Rightarrow> (run_error + nat) \<times> cache_db" where
  "refreshMembers providerId syncGroupMembers getUser groupDn db =
     (let feed = syncGroupMembers groupDn;
          (c, db) = crawl_loop (putUser providerId) du_objectGuid (fd_arrivals feed) no_crawl db
      in case fd_broken feed of
           Some e \<Rightarrow> (Inl (Stream_failed e), db)
         | None \<Rightarrow>
             (let (refreshed, db) = reread_members providerId getUser
                    (cachedMembersOf providerId groupDn db) (cw_seen c) db
              in (Inr (length refreshed), db)))"

fun refresh_groups ::
    "nat \<Rightarrow> (string \<Rightarrow> directory_user feed) \<Rightarrow> (string \<Rightarrow> reread) \<Rightarrow> string list \<Rightarrow> nat \<Rightarrow> cache_db
     \<Rightarrow> (run_error + nat) \<times> cache_db" where
  "refresh_groups providerId members getUser [] n db = (Inr n, db)"
| "refresh_groups providerId members getUser (dn # dns) n db =
     (case refreshMembers providerId members getUser dn db of
        (Inl e, db) \<Rightarrow> (Inl e, db)
      | (Inr m, db) \<Rightarrow> refresh_groups providerId members getUser dns (n + m) db)"

(* src/apps/api/src/services/syncTasks/runners/groupsDelta.ts:21-51 runGroupsDelta *)
definition runGroupsDelta ::
    "nat \<Rightarrow> ms option \<Rightarrow> (ms option \<Rightarrow> directory_group feed) \<Rightarrow> (string \<Rightarrow> directory_user feed)
     \<Rightarrow> (string \<Rightarrow> reread) \<Rightarrow> ms \<Rightarrow> cache_db \<Rightarrow> (run_error + runner_result) \<times> cache_db" where
  "runGroupsDelta providerId lastSuccessfulRunAt syncGroups syncGroupMembers getUser now db =
     (let since = delta_since lastSuccessfulRunAt;
          feed = syncGroups since;
          (c, db) = crawl_loop (upsertGroup providerId) dg_objectGuid (fd_arrivals feed) no_crawl db;
          changedDns = map (\<lambda>a. dg_distinguishedName (ar_entry a)) (filter written (fd_arrivals feed))
      in case fd_broken feed of
           Some e \<Rightarrow> (Inl (Stream_failed e), db)
         | None \<Rightarrow>
             (case (if since \<noteq> None then refresh_groups providerId syncGroupMembers getUser changedDns 0 db
                    else (Inr 0, db)) of
                (Inl e, db) \<Rightarrow> (Inl e, db)
              | (Inr membersRefreshed, db) \<Rightarrow>
                  (Inr \<lparr>rr_cursor = Some now,
                        rr_stats = [(''groupsSeen'', Number (length changedDns)),
                                    (''membersRefreshed'', Number membersRefreshed),
                                    (''modifiedSince'', Instant since)],
                        rr_triggers = (if changedDns \<noteq> [] then [Memberships_rebuild] else [])\<rparr>, db)))"

section \<open>Lockouts and memberships\<close>

text \<open>One locked account patches its row; a write that fails leaves it.\<close>

definition patch_locked :: "nat \<Rightarrow> ms \<Rightarrow> string arrival \<Rightarrow> cache_db \<Rightarrow> cache_db" where
  "patch_locked providerId now a db =
     (if written a
      then db\<lparr>users := update_where (\<lambda>r. uc_provider_id r = providerId \<and> uc_object_guid r = ar_entry a)
                         (\<lambda>r. r\<lparr>uc_locked := True, uc_live_refreshed_at := Some now\<rparr>) (users db)\<rparr>
      else db)"

(* src/apps/api/src/services/syncTasks/runners/usersLocked.ts:17-44 runUsersLocked *)
definition runUsersLocked :: "nat \<Rightarrow> string feed \<Rightarrow> ms \<Rightarrow> cache_db \<Rightarrow> (run_error + runner_result) \<times> cache_db" where
  "runUsersLocked providerId feed now db =
     (let seenGuids = fold (\<lambda>a. set_add (ar_entry a)) (fd_arrivals feed) [];
          db = fold (patch_locked providerId now) (fd_arrivals feed) db
      in case fd_broken feed of
           Some e \<Rightarrow> (Inl (Stream_failed e), db)
         | None \<Rightarrow>
             (let (cleared, db) = clearLockedExcept providerId seenGuids now db
              in (Inr \<lparr>rr_cursor = None,
                       rr_stats = [(''lockedCount'', Number (length seenGuids)), (''clearedCount'', Number cleared)],
                       rr_triggers = []\<rparr>, db)))"

(* src/apps/api/src/services/syncTasks/runners/membershipsRebuild.ts:11-14 runMembershipsRebuild *)
definition runMembershipsRebuild :: "nat \<Rightarrow> ms \<Rightarrow> cache_db \<Rightarrow> (run_error + runner_result) \<times> cache_db" where
  "runMembershipsRebuild providerId now db =
     (let (count, db) = rebuildMemberships providerId now db
      in (Inr \<lparr>rr_cursor = None, rr_stats = [(''membershipsRebuilt'', Number count)], rr_triggers = []\<rparr>, db))"

end
