(* ===== verification/SyncRunnerClaims.thy ===== *)
theory SyncRunnerClaims
  imports SyncRunners DirectoryCacheClaims
begin

text \<open>
  What the sync tasks promise. A full crawl marks as stale only what a complete crawl, every write
  of which went through, did not bring: \<open>cached_kind\<close> is what that needs of a kind of object, and
  users, groups and computers provide it. The crawl of the OUs and two of the deltas lack the same
  care.
\<close>

section \<open>The crawl loop\<close>

definition names :: "('e \<Rightarrow> string) \<Rightarrow> 'e arrival list \<Rightarrow> string list" where
  "names name_of as = map (\<lambda>a. name_of (ar_entry a)) (filter written as)"

lemma names_simps [simp]:
  "names f [] = []"
  "names f (a # as) = (if written a then f (ar_entry a) # names f as else names f as)"
  by (simp_all add: names_def)

lemma loop_found: "cw_found (fst (crawl_loop put f as c db)) = cw_found c + length as"
  by (induction put f as c db rule: crawl_loop.induct) (auto simp: Let_def split: write_outcome.splits)

lemma loop_seen: "set (cw_seen (fst (crawl_loop put f as c db))) = set (cw_seen c) \<union> set (names f as)"
  by (induction put f as c db rule: crawl_loop.induct)
    (auto simp: Let_def written_def split: write_outcome.splits)

lemma loop_seen_distinct:
  "distinct (cw_seen c) \<Longrightarrow> distinct (cw_seen (fst (crawl_loop put f as c db)))"
  by (induction put f as c db rule: crawl_loop.induct) (auto simp: Let_def split: write_outcome.splits)

lemma loop_unwritten: "filter written as = [] \<Longrightarrow> snd (crawl_loop put f as c db) = db"
  by (induction put f as c db rule: crawl_loop.induct)
    (auto simp: Let_def written_def split: write_outcome.splits if_splits)

lemma loop_same_db:
  "snd (crawl_loop put f as c db) = snd (crawl_loop put f as c' db)"
  by (induction as arbitrary: c c' db) (simp_all add: Let_def split: write_outcome.splits)

lemma no_crawl_simps [simp]: "cw_found no_crawl = 0" "cw_seen no_crawl = []" "cw_lastError no_crawl = None"
  by (simp_all add: no_crawl_def)

definition crawled :: "('e \<Rightarrow> ms \<Rightarrow> nat \<Rightarrow> 'd \<Rightarrow> 'd) \<Rightarrow> ('e \<Rightarrow> string) \<Rightarrow> 'e arrival list \<Rightarrow> 'd \<Rightarrow> crawl \<times> 'd" where
  "crawled put f as db = crawl_loop put f as no_crawl db"

lemma crawled_seen: "set (cw_seen (fst (crawled put f as db))) = set (names f as)"
  by (simp add: crawled_def loop_seen)

lemma crawled_size: "length (cw_seen (fst (crawled put f as db))) = card (set (names f as))"
  using loop_seen_distinct [of no_crawl put f as db]
  by (simp add: crawled_def loop_seen flip: distinct_card)

text \<open>A crawl saw as many objects as it wrote when every write went through and none came twice.\<close>

definition trusted :: "('e \<Rightarrow> string) \<Rightarrow> 'e arrival list \<Rightarrow> bool" where
  "trusted f as \<longleftrightarrow> list_all written as \<and> distinct (map (\<lambda>a. f (ar_entry a)) as)"

text \<open>A crawl that can be trusted to have seen everything.\<close>

definition sound_crawl :: "('e \<Rightarrow> string) \<Rightarrow> 'e feed \<Rightarrow> bool" where
  "sound_crawl f feed \<longleftrightarrow> fd_broken feed = None \<and> fd_arrivals feed \<noteq> [] \<and> trusted f (fd_arrivals feed)"

lemma card_names: "card (set (names f as)) \<le> length as"
  unfolding names_def by (metis card_length length_filter_le length_map order_trans)

lemma trusted_iff: "trusted f as \<longleftrightarrow> card (set (names f as)) = length as"
proof
  assume "trusted f as"
  then show "card (set (names f as)) = length as"
    using distinct_card [of "map (\<lambda>a. f (ar_entry a)) as"] by (simp add: trusted_def names_def list_all_iff)
next
  assume c: "card (set (names f as)) = length as"
  have "card (set (names f as)) \<le> length (names f as)" by (rule card_length)
  with c have l: "length (filter written as) = length as"
    by (metis length_filter_le length_map names_def order_antisym)
  have a: "list_all written as"
  proof (rule ccontr)
    assume "\<not> list_all written as"
    then obtain x where "x \<in> set as" "\<not> written x" by (auto simp: list_all_iff)
    from length_filter_less [of x as written, OF this] l show False by simp
  qed
  then have "names f as = map (\<lambda>a. f (ar_entry a)) as" by (simp add: names_def list_all_iff)
  with c have "distinct (map (\<lambda>a. f (ar_entry a)) as)" by (metis card_distinct length_map)
  with a show "trusted f as" by (simp add: trusted_def)
qed

section \<open>Full crawls\<close>

text \<open>
  What a crawl needs of a kind of object: writing one makes it live, marking keeps live exactly the
  names given, and the count the crawl asks for is that of the live ones.
\<close>

locale cached_kind =
  fixes name_of :: "'e \<Rightarrow> string"
    and put :: "'e \<Rightarrow> ms \<Rightarrow> nat \<Rightarrow> cache_db \<Rightarrow> cache_db"
    and mark :: "string list \<Rightarrow> cache_db \<Rightarrow> cache_db"
    and live :: "cache_db \<Rightarrow> string \<Rightarrow> bool"
    and kind :: crawl_kind
    and providerId :: nat
  assumes live_put: "live (put e t i db) g \<longleftrightarrow> g = name_of e \<or> live db g"
    and live_mark: "live (mark seen db) g \<longleftrightarrow> live db g \<and> g \<in> set seen"
    and no_live_rows: "live_rows kind providerId db = 0 \<longleftrightarrow> (\<forall>g. \<not> live db g)"
begin

lemma live_loop: "live (snd (crawl_loop put name_of as c db)) g \<longleftrightarrow> g \<in> set (names name_of as) \<or> live db g"
  by (induction as arbitrary: c db) (auto simp: Let_def live_put written_def split: write_outcome.splits)

lemma full_crawl_live:
  "live (snd (full_crawl kind providerId put name_of mark feed db)) g \<longleftrightarrow>
     g \<in> set (names name_of (fd_arrivals feed)) \<or> (live db g \<and> \<not> sound_crawl name_of feed)"
proof -
  let ?as = "fd_arrivals feed"
  obtain c db' where l: "crawl_loop put name_of ?as no_crawl db = (c, db')" by (metis surj_pair)
  then have c: "c = fst (crawl_loop put name_of ?as no_crawl db)" "db' = snd (crawl_loop put name_of ?as no_crawl db)"
    by simp_all
  have seen: "set (cw_seen c) = set (names name_of ?as)" and found: "cw_found c = length ?as"
    and size: "length (cw_seen c) = card (set (names name_of ?as))"
    using crawled_seen [of put name_of ?as db] crawled_size [of put name_of ?as db]
    by (simp_all add: c(1) crawled_def loop_found)
  have live: "live db' g \<longleftrightarrow> g \<in> set (names name_of ?as) \<or> live db g" by (simp add: c(2) live_loop)
  show ?thesis
  proof (cases "fd_broken feed")
    case (Some e)
    then show ?thesis using live by (simp add: full_crawl_def l sound_crawl_def)
  next
    case None
    have empty: "live_rows kind providerId db' = 0 \<Longrightarrow> ?as = [] \<Longrightarrow> \<not> live db g"
      using no_live_rows [of db'] c(2) by simp
    have none: "cw_seen c = [] \<Longrightarrow> card (set (names name_of ?as)) = 0" using seen by simp
    have le: "card (set (names name_of ?as)) \<le> length ?as" by (rule card_names)
    from None live le show ?thesis
      using empty none live_mark [of "cw_seen c" db' g]
      by (auto simp: full_crawl_def l shouldMarkStale_def Let_def found size seen trusted_iff sound_crawl_def)
  qed
qed

end

text \<open>The rows of a key that are not stale, after an upsert and after marking.\<close>

lemma bex_upsert:
  assumes "k new = (p, n)" "\<And>old. k (merge new old) = k new" "\<And>old. Q (merge new old)" "Q new"
  shows "(\<exists>r \<in> set (upsert k merge new rows). k r = (p, g) \<and> Q r) \<longleftrightarrow> g = n \<or> (\<exists>r \<in> set rows. k r = (p, g) \<and> Q r)"
proof (cases "\<exists>r \<in> set rows. k r = k new")
  case True
  then obtain r0 where r0: "r0 \<in> set rows" "k r0 = k new" by blast
  have set: "set (upsert k merge new rows) = (\<lambda>r. if k r = k new then merge new r else r) ` set rows"
    using True by (simp add: upsert_def set_update_where)
  show ?thesis
  proof (cases "g = n")
    case True
    have "merge new r0 \<in> set (upsert k merge new rows)" unfolding set by (rule image_eqI [OF _ r0(1)]) (simp add: r0)
    with True assms show ?thesis by metis
  next
    case False
    then have "(if k r = k new then merge new r else r) = r \<or> k r \<noteq> (p, g)" for r using assms(1) by simp
    then show ?thesis using False assms(1,2) unfolding set by (auto split: if_splits)
  qed
next
  case False
  then show ?thesis using assms by (auto simp: upsert_def)
qed

lemma bex_marked:
  assumes "\<And>r. k (f r) = k r" "\<And>r. \<not> Q (f r)" "\<And>r. k r = x \<Longrightarrow> Q r \<Longrightarrow> sel r \<longleftrightarrow> \<not> keep"
  shows "(\<exists>r \<in> set (update_where sel f rows). k r = x \<and> Q r) \<longleftrightarrow> (\<exists>r \<in> set rows. k r = x \<and> Q r) \<and> keep"
  using assms by (auto simp: set_update_where)

lemma bex_flagged:
  assumes "\<And>r. k (f r) = k r" "\<And>r. Q (f r)" "\<And>r. k r = x \<Longrightarrow> sel r \<longleftrightarrow> hit"
  shows "(\<exists>r \<in> set (update_where sel f rows). k r = x \<and> Q r) \<longleftrightarrow> (\<exists>r \<in> set rows. k r = x \<and> (hit \<or> Q r))"
proof -
  have "k (if sel r then f r else r) = x \<and> Q (if sel r then f r else r) \<longleftrightarrow> k r = x \<and> (hit \<or> Q r)" for r
    using assms by auto
  then show ?thesis unfolding set_update_where bex_simps by simp
qed

lemma no_rows_left:
  assumes "\<And>r. P r \<longleftrightarrow> (\<exists>g. k r = (p, g)) \<and> Q r"
  shows "updated_count P rows = 0 \<longleftrightarrow> (\<forall>g. \<not> (\<exists>r \<in> set rows. k r = (p, g) \<and> Q r))"
  using assms by (auto simp: updated_count_0)

definition userLive :: "nat \<Rightarrow> cache_db \<Rightarrow> string \<Rightarrow> bool" where
  "userLive p db g \<longleftrightarrow> (\<exists>r \<in> set (users db). user_key r = (p, g) \<and> uc_stale_at r = None)"

definition groupLive :: "nat \<Rightarrow> cache_db \<Rightarrow> string \<Rightarrow> bool" where
  "groupLive p db g \<longleftrightarrow> (\<exists>r \<in> set (groups db). group_key r = (p, g) \<and> gc_stale_at r = None)"

definition computerLive :: "nat \<Rightarrow> cache_db \<Rightarrow> string \<Rightarrow> bool" where
  "computerLive p db g \<longleftrightarrow> (\<exists>r \<in> set (computers db). computer_key r = (p, g) \<and> pc_stale_at r = None)"

definition ouLive :: "nat \<Rightarrow> cache_db \<Rightarrow> string \<Rightarrow> bool" where
  "ouLive p db dn \<longleftrightarrow> (\<exists>r \<in> set (ous db). ou_key r = (p, dn) \<and> oc_stale_at r = None)"

lemma putUser_live: "userLive p (putUser p u t i db) g \<longleftrightarrow> g = du_objectGuid u \<or> userLive p db g"
proof -
  have "users (putUser p u t i db) = upsert user_key (\<lambda>new old. new\<lparr>uc_id := uc_id old, uc_live_refreshed_at := uc_live_refreshed_at old\<rparr>)
      (user_values p u Sync t i) (users db)"
    by (simp add: putUser_def upsertUser_def Let_def)
  then show ?thesis unfolding userLive_def by (simp only:) (rule bex_upsert; simp add: user_key_def user_values_def)
qed

lemma upsertGroup_live: "groupLive p (upsertGroup p u t i db) g \<longleftrightarrow> g = dg_objectGuid u \<or> groupLive p db g"
proof -
  have "groups (upsertGroup p u t i db) = upsert group_key (\<lambda>new old. new\<lparr>gc_id := gc_id old\<rparr>)
      (group_values p u t i) (groups db)"
    by (simp add: upsertGroup_def)
  then show ?thesis unfolding groupLive_def by (simp only:) (rule bex_upsert; simp add: group_key_def group_values_def)
qed

lemma upsertComputer_live: "computerLive p (upsertComputer p u t i db) g \<longleftrightarrow> g = dc_objectGuid u \<or> computerLive p db g"
proof -
  have "computers (upsertComputer p u t i db) = upsert computer_key (\<lambda>new old. new\<lparr>pc_id := pc_id old\<rparr>)
      (computer_values p u t i) (computers db)"
    by (simp add: upsertComputer_def)
  then show ?thesis unfolding computerLive_def by (simp only:) (rule bex_upsert; simp add: computer_key_def computer_values_def)
qed

lemma upsertOu_live: "ouLive p (upsertOu p u t i db) g \<longleftrightarrow> g = to_lower (do_distinguishedName u) \<or> ouLive p db g"
proof -
  obtain new where "ous (upsertOu p u t i db) = upsert ou_key (\<lambda>new old. new\<lparr>oc_id := oc_id old\<rparr>) new (ous db)"
    "ou_key new = (p, to_lower (do_distinguishedName u))" "oc_stale_at new = None"
    by (simp add: upsertOu_def ou_key_def)
  then show ?thesis unfolding ouLive_def by (simp only:) (rule bex_upsert; simp add: ou_key_def)
qed

lemma markOusStale_live: "ouLive p (markOusStale t p seen db) g \<longleftrightarrow> ouLive p db g \<and> g \<in> set seen"
proof -
  have "ous (markOusStale t p seen db) = update_where (\<lambda>r. oc_provider_id r = p \<and> oc_stale_at r = None
      \<and> (seen = [] \<or> to_lower (oc_distinguished_name r) \<notin> set seen)) (oc_stale_at_update (\<lambda>_. Some t)) (ous db)"
    by (simp add: markOusStale_def)
  then show ?thesis unfolding ouLive_def by (simp only:) (rule bex_marked; auto simp: ou_key_def)
qed

interpretation users_crawl: cached_kind du_objectGuid "putUser p" "markUsersStale t p" "userLive p" Crawl_users p for p t
proof
  show "userLive p (putUser p e s i db) g = (g = du_objectGuid e \<or> userLive p db g)" for e s i db g
    by (rule putUser_live)
  show "userLive p (markUsersStale t p seen db) g = (userLive p db g \<and> g \<in> set seen)" for seen db g
  proof -
    have "users (markUsersStale t p seen db) = update_where (\<lambda>r. uc_provider_id r = p \<and> uc_stale_at r = None
        \<and> (seen = [] \<or> uuidNotIn (uc_object_guid r) seen)) (uc_stale_at_update (\<lambda>_. Some t)) (users db)"
      by (simp add: markUsersStale_def)
    then show ?thesis unfolding userLive_def by (simp only:) (rule bex_marked; auto simp: user_key_def uuidNotIn_def)
  qed
  show "(live_rows Crawl_users p db = 0) = (\<forall>g. \<not> userLive p db g)" for db
    unfolding userLive_def live_rows.simps by (rule no_rows_left) (auto simp: user_key_def)
qed

interpretation groups_crawl: cached_kind dg_objectGuid "upsertGroup p" "markGroupsStale t p" "groupLive p" Crawl_groups p for p t
proof
  show "groupLive p (upsertGroup p e s i db) g = (g = dg_objectGuid e \<or> groupLive p db g)" for e s i db g
    by (rule upsertGroup_live)
  show "groupLive p (markGroupsStale t p seen db) g = (groupLive p db g \<and> g \<in> set seen)" for seen db g
  proof -
    have "groups (markGroupsStale t p seen db) = update_where (\<lambda>r. gc_provider_id r = p \<and> gc_stale_at r = None
        \<and> (seen = [] \<or> uuidNotIn (gc_object_guid r) seen)) (gc_stale_at_update (\<lambda>_. Some t)) (groups db)"
      by (simp add: markGroupsStale_def)
    then show ?thesis unfolding groupLive_def by (simp only:) (rule bex_marked; auto simp: group_key_def uuidNotIn_def)
  qed
  show "(live_rows Crawl_groups p db = 0) = (\<forall>g. \<not> groupLive p db g)" for db
    unfolding groupLive_def live_rows.simps by (rule no_rows_left) (auto simp: group_key_def)
qed

interpretation computers_crawl:
  cached_kind dc_objectGuid "upsertComputer p" "markComputersStale t p" "computerLive p" Crawl_computers p for p t
proof
  show "computerLive p (upsertComputer p e s i db) g = (g = dc_objectGuid e \<or> computerLive p db g)" for e s i db g
    by (rule upsertComputer_live)
  show "computerLive p (markComputersStale t p seen db) g = (computerLive p db g \<and> g \<in> set seen)" for seen db g
  proof -
    have "computers (markComputersStale t p seen db) = update_where (\<lambda>r. pc_provider_id r = p \<and> pc_stale_at r = None
        \<and> (seen = [] \<or> uuidNotIn (pc_object_guid r) seen)) (pc_stale_at_update (\<lambda>_. Some t)) (computers db)"
      by (simp add: markComputersStale_def)
    then show ?thesis unfolding computerLive_def by (simp only:) (rule bex_marked; auto simp: computer_key_def uuidNotIn_def)
  qed
  show "(live_rows Crawl_computers p db = 0) = (\<forall>g. \<not> computerLive p db g)" for db
    unfolding computerLive_def live_rows.simps by (rule no_rows_left) (auto simp: computer_key_def)
qed


section \<open>The crawl of the OUs\<close>

lemma ou_loop_live:
  "ouLive p (snd (crawl_loop (upsertOu p) (\<lambda>ou. to_lower (do_distinguishedName ou)) as c db)) dn \<longleftrightarrow>
     dn \<in> set (names (\<lambda>ou. to_lower (do_distinguishedName ou)) as) \<or> ouLive p db dn"
  by (induction as arbitrary: c db)
    (auto simp: Let_def upsertOu_live written_def split: write_outcome.splits)

lemma runOusFull_live:
  "ouLive p (snd (runOusFull p feed now db)) dn \<longleftrightarrow>
     dn \<in> set (names (\<lambda>ou. to_lower (do_distinguishedName ou)) (fd_arrivals feed))
     \<or> (ouLive p db dn \<and> fd_broken feed \<noteq> None)"
proof -
  let ?f = "\<lambda>ou. to_lower (do_distinguishedName ou)"
  obtain c db' where l: "crawl_loop (upsertOu p) ?f (fd_arrivals feed) no_crawl db = (c, db')" by (metis surj_pair)
  have "set (cw_seen c) = set (names ?f (fd_arrivals feed))"
    using crawled_seen [of "upsertOu p" ?f "fd_arrivals feed" db] by (simp add: crawled_def l)
  moreover have "ouLive p db' dn \<longleftrightarrow> dn \<in> set (names ?f (fd_arrivals feed)) \<or> ouLive p db dn"
    using ou_loop_live [of p "fd_arrivals feed" no_crawl db dn] by (simp add: l)
  ultimately show ?thesis
    by (auto simp: runOusFull_def l markOusStale_live split: option.splits)
qed

lemma findCachedOu_live: "findCachedOu p dn db \<noteq> None \<Longrightarrow> ouLive p db (to_lower dn)"
  by (auto simp: findCachedOu_def find_Some_iff ouLive_def ou_key_def)

text \<open>
  The crawl of the OUs takes an OU it could not save for gone: the directory listed it, its
  write failed, the run succeeds, and from then on the OU is not found in the cache.
\<close>

theorem unsaved_ou_is_taken_for_gone:
  assumes "fd_broken feed = None" "a \<in> set (fd_arrivals feed)"
    and "to_lower (do_distinguishedName (ar_entry a))
           \<notin> set (names (\<lambda>ou. to_lower (do_distinguishedName ou)) (fd_arrivals feed))"
  shows "findCachedOu p (do_distinguishedName (ar_entry a)) (snd (runOusFull p feed now db)) = None
    \<and> projr (fst (runOusFull p feed now db)) = \<lparr>rr_cursor = Some now,
        rr_stats = [(''ousSeen'', Number (length (filter written (fd_arrivals feed))))], rr_triggers = []\<rparr>"
proof
  have "\<not> ouLive p (snd (runOusFull p feed now db)) (to_lower (do_distinguishedName (ar_entry a)))"
    using assms by (simp add: runOusFull_live)
  then show "findCachedOu p (do_distinguishedName (ar_entry a)) (snd (runOusFull p feed now db)) = None"
    using findCachedOu_live by blast
  show "projr (fst (runOusFull p feed now db)) = \<lparr>rr_cursor = Some now,
        rr_stats = [(''ousSeen'', Number (length (filter written (fd_arrivals feed))))], rr_triggers = []\<rparr>"
    using assms(1) by (simp add: runOusFull_def case_prod_beta)
qed

definition ex_ou_arrival :: "string \<Rightarrow> write_outcome \<Rightarrow> directory_ou arrival" where
  "ex_ou_arrival n w = \<lparr>ar_entry = \<lparr>do_distinguishedName = ''OU='' @ n @ '',DC=corp'', do_name = n,
      do_parentDn = None, do_rawAttributes = []\<rparr>, ar_outcome = w, ar_at = 5, ar_newId = 7\<rparr>"

definition ex_ou_feed :: "directory_ou feed" where
  "ex_ou_feed = \<lparr>fd_arrivals = [ex_ou_arrival ''A'' Written, ex_ou_arrival ''B'' (Write_failed None)],
     fd_broken = None\<rparr>"

definition ex_ou_cache :: cache_db where
  "ex_ou_cache = snd (runOusFull 1 \<lparr>fd_arrivals = [ex_ou_arrival ''B'' Written], fd_broken = None\<rparr> 3 empty_cache)"

theorem unsaved_ou_is_taken_for_gone_witness:
  "findCachedOu 1 ''OU=B,DC=corp'' ex_ou_cache \<noteq> None
   \<and> findCachedOu 1 ''OU=B,DC=corp'' (snd (runOusFull 1 ex_ou_feed 9 ex_ou_cache)) = None"
proof
  show "findCachedOu 1 ''OU=B,DC=corp'' ex_ou_cache \<noteq> None" by code_simp
  have "do_distinguishedName (ar_entry (ex_ou_arrival ''B'' (Write_failed None))) = ''OU=B,DC=corp''"
    by (simp add: ex_ou_arrival_def)
  moreover have "fd_broken ex_ou_feed = None"
    "ex_ou_arrival ''B'' (Write_failed None) \<in> set (fd_arrivals ex_ou_feed)"
    "to_lower (do_distinguishedName (ar_entry (ex_ou_arrival ''B'' (Write_failed None))))
           \<notin> set (names (\<lambda>ou. to_lower (do_distinguishedName ou)) (fd_arrivals ex_ou_feed))"
    by (simp add: ex_ou_feed_def, simp add: ex_ou_feed_def, code_simp)
  ultimately show "findCachedOu 1 ''OU=B,DC=corp'' (snd (runOusFull 1 ex_ou_feed 9 ex_ou_cache)) = None"
    using unsaved_ou_is_taken_for_gone [of ex_ou_feed "ex_ou_arrival ''B'' (Write_failed None)" 1 9] by simp
qed

section \<open>Deltas that save nothing\<close>

text \<open>
  When not one entry of a delta could be saved, the delta of the computers fails, so the next
  one asks for the same changes again; the delta of the users succeeds, leaves the cache as it was
  and asks for no rebuild.
\<close>

theorem users_delta_hides_failed_writes:
  assumes "fd_broken (syncUsers (delta_since lastRun)) = None" "fd_broken (syncComputers (delta_since lastRun)) = None"
    and "filter written (fd_arrivals (syncUsers (delta_since lastRun))) = []"
    and "filter written (fd_arrivals (syncComputers (delta_since lastRun))) = []"
    and "fd_arrivals (syncComputers (delta_since lastRun)) \<noteq> []"
  shows "runUsersDelta p lastRun syncUsers now db =
      (Inr \<lparr>rr_cursor = Some now, rr_stats = [(''usersSeen'', Number 0), (''modifiedSince'', Instant (delta_since lastRun))],
            rr_triggers = []\<rparr>, db)
    \<and> (\<exists>m. runComputersDelta p lastRun syncComputers now db =
          (Inl (Delta_nothing_written (length (fd_arrivals (syncComputers (delta_since lastRun)))) m), db))"
  using assms loop_unwritten [OF assms(3), of "putUser p" du_objectGuid no_crawl db]
    loop_unwritten [OF assms(4), of "upsertComputer p" dc_objectGuid no_crawl db]
  by (simp add: runUsersDelta_def runComputersDelta_def Let_def case_prod_beta loop_found)

definition ex_computer :: directory_computer where
  "ex_computer = \<lparr>dc_objectGuid = ''pc'', dc_sid = None, dc_distinguishedName = ''CN=PC,DC=corp'',
     dc_samAccountName = Some ''PC$'', dc_name = Some ''PC'', dc_dnsHostName = None, dc_operatingSystem = None,
     dc_operatingSystemVersion = None, dc_description = None, dc_managedByDn = None, dc_enabled = True,
     dc_lastLogonAt = None, dc_passwordLastSetAt = None, dc_memberOfDns = [], dc_createdAtSource = None,
     dc_modifiedAtSource = None, dc_rawAttributes = []\<rparr>"

definition ex_lost_computers :: "directory_computer feed" where
  "ex_lost_computers = \<lparr>fd_arrivals = [\<lparr>ar_entry = ex_computer, ar_outcome = Write_failed (Some ''no table''),
      ar_at = 1, ar_newId = 1\<rparr>], fd_broken = None\<rparr>"

theorem users_delta_hides_failed_writes_witness:
  "\<exists>m. runComputersDelta 1 None (\<lambda>_. ex_lost_computers) 2 empty_cache = (Inl (Delta_nothing_written 1 m), empty_cache)"
  using users_delta_hides_failed_writes [of "\<lambda>_. \<lparr>fd_arrivals = [], fd_broken = None\<rparr>" None
      "\<lambda>_. ex_lost_computers" 1 2 empty_cache]
  by (simp add: written_def ex_lost_computers_def)

section \<open>Lockouts\<close>

definition userLocked :: "nat \<Rightarrow> cache_db \<Rightarrow> string \<Rightarrow> bool" where
  "userLocked p db g \<longleftrightarrow> (\<exists>r \<in> set (users db). user_key r = (p, g) \<and> uc_locked r)"

definition userKnown :: "nat \<Rightarrow> cache_db \<Rightarrow> string \<Rightarrow> bool" where
  "userKnown p db g \<longleftrightarrow> (\<exists>r \<in> set (users db). user_key r = (p, g))"

lemma patch_locked: "userLocked p (patch_locked p now a db) g \<longleftrightarrow>
    userLocked p db g \<or> (userKnown p db g \<and> written a \<and> g = ar_entry a)"
proof -
  let ?f = "\<lambda>r. r\<lparr>uc_locked := True, uc_live_refreshed_at := Some now\<rparr>"
  have "users (patch_locked p now a db) = update_where
      (\<lambda>r. written a \<and> uc_provider_id r = p \<and> uc_object_guid r = ar_entry a) ?f (users db)"
    by (simp add: patch_locked_def update_where_none)
  moreover have "(\<exists>r \<in> set (update_where (\<lambda>r. written a \<and> uc_provider_id r = p \<and> uc_object_guid r = ar_entry a) ?f (users db)).
      user_key r = (p, g) \<and> uc_locked r) \<longleftrightarrow> (\<exists>r \<in> set (users db). user_key r = (p, g) \<and> ((written a \<and> g = ar_entry a) \<or> uc_locked r))"
    by (rule bex_flagged) (auto simp: user_key_def)
  ultimately show ?thesis unfolding userLocked_def userKnown_def by (simp only:) blast
qed

lemma patch_known: "userKnown p (patch_locked p now a db) g \<longleftrightarrow> userKnown p db g"
  unfolding userKnown_def patch_locked_def by (simp add: bex_update_where user_key_def)

lemma patches_known: "userKnown p (fold (patch_locked p now) as db) g \<longleftrightarrow> userKnown p db g"
  by (induction as arbitrary: db) (simp_all add: patch_known)

lemma patches_locked: "userLocked p (fold (patch_locked p now) as db) g \<longleftrightarrow>
     userLocked p db g \<or> (userKnown p db g \<and> g \<in> set (names id as))"
proof (induction as arbitrary: db)
  case (Cons a as)
  have "userLocked p (fold (patch_locked p now) (a # as) db) g \<longleftrightarrow> userLocked p (patch_locked p now a db) g
      \<or> (userKnown p (patch_locked p now a db) g \<and> g \<in> set (names id as))"
    using Cons.IH [of "patch_locked p now a db"] by (simp only: fold_simps)
  also have "\<dots> \<longleftrightarrow> userLocked p db g \<or> (userKnown p db g \<and> g \<in> set (names id (a # as)))"
    unfolding patch_locked patch_known names_simps by auto
  finally show ?case .
qed simp

lemma clearLockedExcept_locked:
  "userLocked p (snd (clearLockedExcept p seen now db)) g \<longleftrightarrow> userLocked p db g \<and> g \<in> set seen"
proof -
  have "users (snd (clearLockedExcept p seen now db)) = update_where
      (\<lambda>r. uc_provider_id r = p \<and> uc_locked r \<and> (seen = [] \<or> uuidNotIn (uc_object_guid r) seen))
      (\<lambda>r. r\<lparr>uc_locked := False, uc_live_refreshed_at := Some now\<rparr>) (users db)"
    by (simp add: clearLockedExcept_def Let_def)
  then show ?thesis unfolding userLocked_def
    by (simp only:) (rule bex_marked; auto simp: user_key_def uuidNotIn_def)
qed

lemma fold_set_add: "set (fold (\<lambda>a. set_add (f a)) as xs) = f ` set as \<union> set xs"
  by (induction as arbitrary: xs) auto

text \<open>
  After a lockout poll that was not cut short, a cached user is shown as locked exactly when
  the directory listed the account and the cache had or got the flag; one cut short takes no
  flag away.
\<close>

theorem locked_users_follow_the_directory:
  "userLocked p (snd (runUsersLocked p feed now db)) g \<longleftrightarrow>
     (userLocked p db g \<or> (userKnown p db g \<and> g \<in> set (names id (fd_arrivals feed))))
     \<and> (if fd_broken feed = None then g \<in> ar_entry ` set (fd_arrivals feed) else True)"
proof (cases "fd_broken feed")
  case None
  then show ?thesis
    using clearLockedExcept_locked [of p _ now "fold (patch_locked p now) (fd_arrivals feed) db" g]
    by (simp add: runUsersLocked_def Let_def case_prod_beta patches_locked fold_set_add)
next
  case (Some e)
  then show ?thesis by (simp add: runUsersLocked_def Let_def patches_locked)
qed

end
