(* ===== verification/Calendar.thy ===== *)
theory Calendar
  imports JsText
begin

text \<open>
  JavaScript dates. An instant is a number of milliseconds since the epoch; local time is a fixed
  number of milliseconds ahead of it (\<open>tz\<close>), so a change of the clocks in spring and autumn is not
  represented. Days, years and months are those of the language's specification: the Gregorian
  calendar, months from 0, out-of-range months and dates carried over.
\<close>

section \<open>Years\<close>

text \<open>The day a year starts on.\<close>

definition year_start :: "int \<Rightarrow> int" where
  "year_start y = 365 * (y - 1970) + (y - 1969) div 4 - (y - 1901) div 100 + (y - 1601) div 400"

definition is_leap :: "int \<Rightarrow> bool" where
  "is_leap y \<longleftrightarrow> y mod 4 = 0 \<and> (y mod 100 \<noteq> 0 \<or> y mod 400 = 0)"

definition year_length :: "int \<Rightarrow> int" where
  "year_length y = (if is_leap y then 366 else 365)"

lemma div_step:
  fixes x k :: int
  assumes "k > 1"
  shows "(x + 1) div k = x div k + (if (x + 1) mod k = 0 then 1 else 0)"
proof -
  have x: "x = k * (x div k) + x mod k" by simp
  have r: "0 \<le> x mod k" "x mod k < k" using assms by simp_all
  show ?thesis
  proof (cases "x mod k + 1 = k")
    case True
    moreover have "k * (x div k + 1) = k * (x div k) + k" by (simp add: algebra_simps)
    ultimately have "x + 1 = k * (x div k + 1) + 0" using x by linarith
    then have "(x + 1) div k = x div k + 1" "(x + 1) mod k = 0"
      using int_div_pos_eq [of "x + 1" k "x div k + 1" 0] int_mod_pos_eq [of "x + 1" k "x div k + 1" 0] assms by simp_all
    then show ?thesis by simp
  next
    case False
    have "x + 1 = k * (x div k) + (x mod k + 1)" using x by simp
    moreover have "x mod k + 1 < k" "0 \<le> x mod k + 1" using False r by auto
    ultimately have "(x + 1) div k = x div k" "(x + 1) mod k = x mod k + 1"
      using int_div_pos_eq [of "x + 1" k "x div k" "x mod k + 1"] int_mod_pos_eq [of "x + 1" k "x div k" "x mod k + 1"]
      by simp_all
    then show ?thesis using r by simp
  qed
qed

lemma leap_count:
  fixes y a b c :: int
  assumes "r \<Longrightarrow> q" "q \<Longrightarrow> p"
  shows "365 * (y + 1 - 1970) + (a + (if p then 1 else 0)) - (b + (if q then 1 else 0)) + (c + (if r then 1 else 0))
    = 365 * (y - 1970) + a - b + c + (if p \<and> (\<not> q \<or> r) then 366 else 365)"
  using assms by (cases p; cases q; cases r) simp_all

lemma year_start_step: "year_start (y + 1) = year_start y + year_length y"
proof -
  have d: "(y + 1 - n) div k = (y - n) div k + (if y mod k = 0 then 1 else 0)"
    if "k > 1" "(1 - n) mod k = 0" for n k :: int
  proof -
    have "(y - n + 1) mod k = (y + (1 - n)) mod k" by (simp add: algebra_simps)
    also have "\<dots> = y mod k" using that(2) by (metis add.right_neutral mod_add_right_eq)
    finally have "(y - n + 1) mod k = y mod k" .
    moreover have "y + 1 - n = y - n + 1" by simp
    ultimately show ?thesis using div_step [OF that(1), of "y - n"] by metis
  qed
  have i: "y mod 400 = 0 \<Longrightarrow> y mod 100 = 0" "y mod 100 = 0 \<Longrightarrow> y mod 4 = 0"
    using dvd_trans [of 100 400 y] dvd_trans [of 4 100 y] by (simp_all only: flip: dvd_eq_mod_eq_0) simp_all
  have d4: "(y + 1 - 1969) div 4 = (y - 1969) div 4 + (if y mod 4 = 0 then 1 else 0)"
    and d100: "(y + 1 - 1901) div 100 = (y - 1901) div 100 + (if y mod 100 = 0 then 1 else 0)"
    and d400: "(y + 1 - 1601) div 400 = (y - 1601) div 400 + (if y mod 400 = 0 then 1 else 0)"
    by (rule d; simp)+
  have "year_start (y + 1) = 365 * (y + 1 - 1970) + ((y - 1969) div 4 + (if y mod 4 = 0 then 1 else 0))
      - ((y - 1901) div 100 + (if y mod 100 = 0 then 1 else 0)) + ((y - 1601) div 400 + (if y mod 400 = 0 then 1 else 0))"
    unfolding year_start_def d4 d100 d400 by (rule refl)
  also have "\<dots> = year_start y + year_length y"
    unfolding year_start_def year_length_def is_leap_def using i by (rule leap_count)
  finally show ?thesis .
qed

lemma year_start_less: "year_start y < year_start (y + 1)"
  by (simp add: year_start_step year_length_def)

lemma year_start_mono: "y \<le> z \<Longrightarrow> year_start y \<le> year_start z"
proof (induction z rule: int_ge_induct)
  case (step i)
  then show ?case using year_start_less [of i] by linarith
qed simp

function year_from :: "int \<Rightarrow> int \<Rightarrow> int" where
  "year_from y day = (if year_start (y + 1) \<le> day then year_from (y + 1) day else y)"
  by pat_completeness auto
termination
proof (relation "measure (\<lambda>(y, day). nat (day - year_start y))")
  fix y day :: int
  assume "year_start (y + 1) \<le> day"
  then show "((y + 1, day), (y, day)) \<in> measure (\<lambda>(y, day). nat (day - year_start y))"
    using year_start_less [of y] by simp
qed simp

declare year_from.simps [simp del]

text \<open>The year a day is in, searched from an estimate that is never too late.\<close>

definition year_of :: "int \<Rightarrow> int" where
  "year_of day = year_from (1970 + (if 0 \<le> day then day div 366 else day div 365 - 1)) day"

lemma year_from_in: "year_start y \<le> day \<Longrightarrow>
    year_start (year_from y day) \<le> day \<and> day < year_start (year_from y day + 1)"
proof (induction y day rule: year_from.induct)
  case (1 y day)
  then show ?case by (subst year_from.simps, subst (2) year_from.simps) auto
qed

lemma div_bounds:
  fixes x k :: int
  assumes "k > 0"
  shows "k * (x div k) \<le> x" "x < k * (x div k) + k"
  using mult_div_mod_eq [of k x] pos_mod_sign [OF assms, of x] pos_mod_bound [OF assms, of x] by linarith+

lemma year_start_near:
  "k < 0 \<Longrightarrow> year_start (1970 + k) \<le> 365 * k + 1"
  "0 \<le> k \<Longrightarrow> year_start (1970 + k) \<le> 366 * k"
proof -
  define a b c where "a = (k + 1) div 4" and "b = (k + 69) div 100" and "c = (k + 369) div 400"
  have "1970 + k - 1969 = k + 1" "1970 + k - 1901 = k + 69" "1970 + k - 1601 = k + 369" "1970 + k - 1970 = k" by simp_all
  then have s: "year_start (1970 + k) = 365 * k + a - b + c"
    unfolding year_start_def a_def b_def c_def by (simp only:)
  have l: "4 * a \<le> k + 1" "k + 69 < 100 * b + 100" "400 * c \<le> k + 369"
    using div_bounds [of 4 "k + 1"] div_bounds [of 100 "k + 69"] div_bounds [of 400 "k + 369"]
    unfolding a_def b_def c_def by simp_all
  show "year_start (1970 + k) \<le> 365 * k + 1" if "k < 0" using s l that by linarith
  show "year_start (1970 + k) \<le> 366 * k" if nn: "0 \<le> k"
  proof -
    consider "k = 0" | "k = 1" | "2 \<le> k" using nn by linarith
    then have "a - b + c \<le> k"
    proof cases
      case 1
      then show ?thesis by (simp add: a_def b_def c_def)
    next
      case 2
      then show ?thesis by (simp add: a_def b_def c_def)
    qed (use l in linarith)
    with s show ?thesis by linarith
  qed
qed

lemma estimate_early: "year_start (1970 + (if 0 \<le> day then day div 366 else day div 365 - 1)) \<le> day"
proof (cases "0 \<le> day")
  case True
  then have "0 \<le> day div 366" by (simp add: pos_imp_zdiv_nonneg_iff)
  from year_start_near(2) [OF this] div_bounds(1) [of 366 day] True show ?thesis by simp
next
  case False
  then have "day div 365 < 0" by (simp add: pos_imp_zdiv_neg_iff)
  then have "day div 365 - 1 < 0" by simp
  from year_start_near(1) [OF this] div_bounds(1) [of 365 day] False show ?thesis by simp
qed

lemma year_of_in: "year_start (year_of day) \<le> day" "day < year_start (year_of day + 1)"
  using year_from_in [OF estimate_early [of day]] by (simp_all add: year_of_def)

lemma year_of_unique: "year_start y \<le> day \<Longrightarrow> day < year_start (y + 1) \<Longrightarrow> year_of day = y"
  using year_of_in [of day] year_start_mono [of "y + 1" "year_of day"] year_start_mono [of "year_of day + 1" y]
  by linarith

section \<open>Months and dates\<close>

text \<open>The day of the year a month starts on, for months 0 to 12.\<close>

definition month_start :: "int \<Rightarrow> int \<Rightarrow> int" where
  "month_start y m = (if is_leap y then [0, 31, 60, 91, 121, 152, 182, 213, 244, 274, 305, 335, 366]
                      else [0, 31, 59, 90, 120, 151, 181, 212, 243, 273, 304, 334, 365]) ! nat m"

text \<open>The day of a year, month and date (\<open>MakeDay\<close>).\<close>

definition make_day :: "int \<Rightarrow> int \<Rightarrow> int \<Rightarrow> int" where
  "make_day y m date = (let ym = y + m div 12; mn = m mod 12 in year_start ym + month_start ym mn + date - 1)"

definition month_of :: "int \<Rightarrow> int" where
  "month_of day = (let y = year_of day; d = day - year_start y
     in int (length (filter (\<lambda>m. month_start y m \<le> d) [1, 2, 3, 4, 5, 6, 7, 8, 9, 10, 11])))"

definition date_of :: "int \<Rightarrow> int" where
  "date_of day = day - make_day (year_of day) (month_of day) 0"

text \<open>Day 0 was a Thursday.\<close>

definition weekday_of :: "int \<Rightarrow> int" where
  "weekday_of day = (day + 4) mod 7"

lemma month_of_range: "0 \<le> month_of day" "month_of day \<le> 11"
  unfolding month_of_def Let_def
  using length_filter_le [of _ "[1 :: int, 2, 3, 4, 5, 6, 7, 8, 9, 10, 11]"] by (auto intro: order_trans)

lemma make_day_date: "make_day (year_of day) (month_of day) (date_of day) = day"
  by (simp add: date_of_def make_day_def Let_def)

lemma date_of_pos: "1 \<le> date_of day"
proof -
  let ?y = "year_of day" let ?d = "day - year_start ?y"
  have d: "0 \<le> ?d" using year_of_in(1) by simp
  have "month_start ?y (month_of day) \<le> ?d"
    using d unfolding month_of_def month_start_def Let_def by (auto split: if_splits)
  then show ?thesis using month_of_range [of day] by (simp add: date_of_def make_day_def Let_def)
qed

section \<open>Local time\<close>

definition local_day :: "ms \<Rightarrow> ms \<Rightarrow> int" where
  "local_day tz t = (t + tz) div day_ms"

definition time_of_day :: "ms \<Rightarrow> ms \<Rightarrow> ms" where
  "time_of_day tz t = (t + tz) mod day_ms"

definition instant :: "ms \<Rightarrow> int \<Rightarrow> ms \<Rightarrow> ms" where
  "instant tz day time = day * day_ms + time - tz"

text \<open>The hours, minutes and seconds of a time.\<close>

definition clock :: "ms \<Rightarrow> ms \<Rightarrow> ms" where
  "clock tz t = time_of_day tz t div 1000 * 1000"

text \<open>\<open>d.setHours(h, m, s, 0)\<close>, \<open>d.setDate(n)\<close>, \<open>d.setMonth(n)\<close>, \<open>new Date(y, m, d, h, m, s, 0)\<close>.\<close>

definition set_hours :: "ms \<Rightarrow> ms \<Rightarrow> ms \<Rightarrow> ms" where
  "set_hours tz t time = instant tz (local_day tz t) time"

definition set_date :: "ms \<Rightarrow> ms \<Rightarrow> int \<Rightarrow> ms" where
  "set_date tz t n = (let d = local_day tz t in instant tz (make_day (year_of d) (month_of d) n) (time_of_day tz t))"

definition set_month :: "ms \<Rightarrow> ms \<Rightarrow> int \<Rightarrow> ms" where
  "set_month tz t n = (let d = local_day tz t in instant tz (make_day (year_of d) n (date_of d)) (time_of_day tz t))"

definition new_date :: "ms \<Rightarrow> int \<Rightarrow> int \<Rightarrow> int \<Rightarrow> ms \<Rightarrow> ms" where
  "new_date tz y m d time = instant tz (make_day y m d) time"

abbreviation get_date :: "ms \<Rightarrow> ms \<Rightarrow> int" where "get_date tz t \<equiv> date_of (local_day tz t)"
abbreviation get_day :: "ms \<Rightarrow> ms \<Rightarrow> int" where "get_day tz t \<equiv> weekday_of (local_day tz t)"
abbreviation get_month :: "ms \<Rightarrow> ms \<Rightarrow> int" where "get_month tz t \<equiv> month_of (local_day tz t)"
abbreviation get_full_year :: "ms \<Rightarrow> ms \<Rightarrow> int" where "get_full_year tz t \<equiv> year_of (local_day tz t)"

lemma make_day_shift: "make_day y m (d + n) = make_day y m d + n"
  by (simp add: make_day_def Let_def)

lemma instant_local: "instant tz (local_day tz t) (time_of_day tz t) = t"
  by (simp add: instant_def local_day_def time_of_day_def)

lemma local_instant:
  "0 \<le> time \<Longrightarrow> time < day_ms \<Longrightarrow> local_day tz (instant tz day time) = day"
  "0 \<le> time \<Longrightarrow> time < day_ms \<Longrightarrow> time_of_day tz (instant tz day time) = time"
  by (simp_all add: instant_def local_day_def time_of_day_def)

lemma clock_range: "0 \<le> clock tz t" "clock tz t < day_ms"
  unfolding clock_def time_of_day_def
  using div_bounds(1) [of 1000 "(t + tz) mod day_ms"] pos_mod_bound [of day_ms "t + tz"]
  by (simp_all add: pos_imp_zdiv_nonneg_iff mult.commute)

lemma set_date_shift: "set_date tz t (get_date tz t + n) = t + n * day_ms"
proof -
  have "set_date tz t (get_date tz t + n) = instant tz (local_day tz t) (time_of_day tz t) + n * day_ms"
    unfolding set_date_def Let_def make_day_shift make_day_date by (simp add: instant_def)
  then show ?thesis by (simp add: instant_local)
qed

lemma local_day_shift: "local_day tz (t + n * day_ms) = local_day tz t + n"
proof -
  have "t + n * day_ms + tz = (t + tz) + n * day_ms" by simp
  then show ?thesis unfolding local_day_def by simp
qed

lemma time_of_day_shift: "time_of_day tz (t + n * day_ms) = time_of_day tz t"
proof -
  have "t + n * day_ms + tz = (t + tz) + n * day_ms" by simp
  then show ?thesis unfolding time_of_day_def by (metis mod_mult_self1)
qed

lemma set_hours_local:
  "0 \<le> time \<Longrightarrow> time < day_ms \<Longrightarrow> local_day tz (set_hours tz t time) = local_day tz t"
  "0 \<le> time \<Longrightarrow> time < day_ms \<Longrightarrow> time_of_day tz (set_hours tz t time) = time"
  by (simp_all add: set_hours_def local_instant)

lemma set_hours_near:
  assumes "0 \<le> time" "time < day_ms"
  shows "set_hours tz t time < t + day_ms" "t < set_hours tz t time + day_ms"
proof -
  have "t = local_day tz t * day_ms + time_of_day tz t - tz" using instant_local [of tz t] by (simp add: instant_def)
  moreover have "0 \<le> time_of_day tz t" "time_of_day tz t < day_ms" by (simp_all add: time_of_day_def)
  ultimately show "set_hours tz t time < t + day_ms" "t < set_hours tz t time + day_ms"
    using assms by (simp_all add: set_hours_def instant_def)
qed

end
