(* ===== verification/TaskSchedule.thy ===== *)
theory TaskSchedule
  imports Calendar SyncRunners
begin

text \<open>
  When a sync task is due (\<^verbatim>\<open>services/syncTasks/scheduler.ts\<close>) and when the task list says it will be
  (\<^verbatim>\<open>services/syncTasks/service.ts\<close>). The cron library is a parameter: the last slot at or before an
  instant and the next one after it, \<open>None\<close> where it throws.
\<close>

(* src/apps/api/src/services/syncTasks/types.ts:51-51 ScheduleKind *)
datatype ScheduleKind = Interval | Hourly | Daily | Weekly | Monthly | Cron

text \<open>A monthly day: \<open>1\<close> to \<open>28\<close> or \<open>last\<close>.\<close>

(* src/apps/api/src/services/syncTasks/types.ts:73-78 isMonthlyDay *)
definition isMonthlyDay :: "string \<Rightarrow> bool" where
  "isMonthlyDay v \<longleftrightarrow> v = ''last''
     \<or> (v \<noteq> [] \<and> list_all is_digit v \<and> 1 \<le> digits_value v \<and> digits_value v \<le> 28)"

text \<open>Why a run failed: what its runner threw, or the watchdog's minutes.\<close>

datatype task_error = Runner_threw run_error | Watchdog nat

datatype task_status = T_running | T_succeeded | T_failed

(* src/apps/api/src/services/syncTasks/service.ts:37-52 SyncTaskRow *)
record SyncTaskRow =
  st_taskKey :: SyncTaskKey
  st_enabled :: bool
  st_scheduleKind :: ScheduleKind
  st_intervalMinutes :: int
  st_anchorAt :: "ms option"
  st_monthlyDay :: "string option"
  st_cronExpr :: "string option"
  st_lastStartedAt :: "ms option"
  st_lastFinishedAt :: "ms option"
  st_lastStatus :: "task_status option"
  st_lastError :: "task_error option"
  st_lastCursor :: "ms option"
  st_lastStats :: "(string \<times> stat) list option"
  st_consecutiveFailures :: nat

section \<open>The last slot\<close>

(* src/apps/api/src/services/syncTasks/scheduler.ts:668-672 addMonths *)
definition addMonths :: "ms \<Rightarrow> ms \<Rightarrow> int \<Rightarrow> ms" where
  "addMonths tz d months = set_month tz d (get_month tz d + months)"

(* src/apps/api/src/services/syncTasks/service.ts:626-629 lastDayOfMonth *)
definition lastDayOfMonth :: "int \<Rightarrow> int \<Rightarrow> int" where
  "lastDayOfMonth year month = date_of (make_day year (month + 1) 0)"

(* src/apps/api/src/services/syncTasks/scheduler.ts:661-666 monthlySlotForMonth *)
definition monthlySlotForMonth :: "ms \<Rightarrow> ms \<Rightarrow> string \<Rightarrow> ms \<Rightarrow> ms" where
  "monthlySlotForMonth tz monthMarker monthlyDay time =
     (let year = get_full_year tz monthMarker;
          month = get_month tz monthMarker;
          day = (if monthlyDay = ''last'' then lastDayOfMonth year month else int (digits_value monthlyDay))
      in new_date tz year month day (clock tz time))"

(* src/apps/api/src/services/syncTasks/scheduler.ts:624-659 mostRecentSlot *)
definition mostRecentSlot :: "ms \<Rightarrow> ms \<Rightarrow> ms \<Rightarrow> ScheduleKind \<Rightarrow> string option \<Rightarrow> ms option" where
  "mostRecentSlot tz now anchor kind monthlyDay =
     (if kind = Daily then
        (let today = set_hours tz now (clock tz anchor)
         in Some (if today \<le> now then today else set_date tz today (get_date tz today - 1)))
      else if kind = Weekly then
        (let target = get_day tz anchor;
             slot = set_hours tz now (clock tz anchor);
             delta = (get_day tz slot - target + 7) mod 7;
             slot = set_date tz slot (get_date tz slot - delta)
         in Some (if slot > now then set_date tz slot (get_date tz slot - 7) else slot))
      else case monthlyDay of
             None \<Rightarrow> None
           | Some md \<Rightarrow>
               (let slot = monthlySlotForMonth tz now md anchor
                in Some (if slot > now then monthlySlotForMonth tz (addMonths tz now (-1)) md anchor else slot)))"

text \<open>\<open>date?.getTime() ?? 0\<close>.\<close>

definition started_ms :: "ms option \<Rightarrow> ms" where
  "started_ms d = (case d of None \<Rightarrow> 0 | Some t \<Rightarrow> t)"

(* src/apps/api/src/services/syncTasks/scheduler.ts:576-621 isDueNow *)
definition isDueNow :: "(string \<Rightarrow> ms \<Rightarrow> ms option) \<Rightarrow> ms \<Rightarrow> SyncTaskRow \<Rightarrow> ms \<Rightarrow> bool" where
  "isDueNow previousCronSlot tz row now =
     (let last = started_ms (st_lastStartedAt row);
          since = (\<lambda>slot. case slot of None \<Rightarrow> False | Some s \<Rightarrow> \<not> s > now \<and> last < s)
      in case st_scheduleKind row of
           Daily \<Rightarrow>
             (case st_anchorAt row of None \<Rightarrow> False | Some anchor \<Rightarrow> since (mostRecentSlot tz now anchor Daily None))
         | Weekly \<Rightarrow>
             (case st_anchorAt row of None \<Rightarrow> False | Some anchor \<Rightarrow> since (mostRecentSlot tz now anchor Weekly None))
         | Monthly \<Rightarrow>
             (case (st_anchorAt row, st_monthlyDay row) of
                (Some anchor, Some md) \<Rightarrow> md \<noteq> [] \<and> since (mostRecentSlot tz now anchor Monthly (Some md))
              | _ \<Rightarrow> False)
         | Cron \<Rightarrow>
             (case st_cronExpr row of
                Some e \<Rightarrow> e \<noteq> [] \<and> (case previousCronSlot e now of None \<Rightarrow> False | Some s \<Rightarrow> last < s)
              | None \<Rightarrow> False)
         | _ \<Rightarrow>
             (let intervalMs = st_intervalMinutes row * minute_ms
              in if intervalMs \<le> 0 then False
                 else case st_anchorAt row of
                        None \<Rightarrow> last = 0 \<or> now - last \<ge> intervalMs
                      | Some anchorMs \<Rightarrow>
                          \<not> now < anchorMs \<and> last < anchorMs + (now - anchorMs) div intervalMs * intervalMs))"

section \<open>The next slot\<close>

(* src/apps/api/src/services/syncTasks/service.ts:594-598 todayAt *)
definition todayAt :: "ms \<Rightarrow> ms \<Rightarrow> ms \<Rightarrow> ms" where
  "todayAt tz now time = set_hours tz now (clock tz time)"

(* src/apps/api/src/services/syncTasks/service.ts:631-635 addDays *)
definition addDays :: "ms \<Rightarrow> ms \<Rightarrow> int \<Rightarrow> ms" where
  "addDays tz d days = set_date tz d (get_date tz d + days)"

(* src/apps/api/src/services/syncTasks/service.ts:601-611 nextWeekdayAt *)
definition nextWeekdayAt :: "ms \<Rightarrow> ms \<Rightarrow> int \<Rightarrow> ms \<Rightarrow> ms" where
  "nextWeekdayAt tz now weekday time =
     (let candidate = set_hours tz now (clock tz time);
          delta = (weekday - get_day tz candidate + 7) mod 7
      in if delta = 0 \<and> candidate \<le> now then set_date tz candidate (get_date tz candidate + 7)
         else set_date tz candidate (get_date tz candidate + delta))"

text \<open>Whether the task started at a slot or after it.\<close>

definition started_by :: "ms option \<Rightarrow> ms \<Rightarrow> bool" where
  "started_by lastStartedAt slot \<longleftrightarrow> (case lastStartedAt of None \<Rightarrow> False | Some t \<Rightarrow> t \<ge> slot)"

(* src/apps/api/src/services/syncTasks/service.ts:515-585 computeNextDueAt *)
definition computeNextDueAt :: "(string \<Rightarrow> ms \<Rightarrow> ms option) \<Rightarrow> ms \<Rightarrow> SyncTaskRow \<Rightarrow> ms \<Rightarrow> ms option" where
  "computeNextDueAt nextCronSlot tz row now =
     (let last = st_lastStartedAt row
      in case st_scheduleKind row of
           Daily \<Rightarrow> map_option (\<lambda>anchor.
             let slot = todayAt tz now anchor
             in if slot \<le> now \<or> started_by last slot then addDays tz slot 1 else slot) (st_anchorAt row)
         | Weekly \<Rightarrow> map_option (\<lambda>anchor.
             let slot = nextWeekdayAt tz now (get_day tz anchor) anchor
             in if started_by last slot then addDays tz slot 7 else slot) (st_anchorAt row)
         | Monthly \<Rightarrow>
             (case (st_anchorAt row, st_monthlyDay row) of
                (Some anchor, Some md) \<Rightarrow>
                  if md = [] then None
                  else (let slot = monthlySlotForMonth tz now md anchor
                        in Some (if slot \<le> now \<or> started_by last slot
                                 then monthlySlotForMonth tz (addMonths tz slot 1) md anchor else slot))
              | _ \<Rightarrow> None)
         | Cron \<Rightarrow> (case st_cronExpr row of Some e \<Rightarrow> if e = [] then None else nextCronSlot e now | None \<Rightarrow> None)
         | _ \<Rightarrow>
             (let intervalMs = st_intervalMinutes row * minute_ms
              in if intervalMs \<le> 0 then None
                 else case st_anchorAt row of
                        None \<Rightarrow> Some (case last of None \<Rightarrow> now | Some t \<Rightarrow> t + intervalMs)
                      | Some anchorMs \<Rightarrow>
                          (let elapsedFromAnchor = max 0 (now - anchorMs);
                               nextSlotIdx = - ((- elapsedFromAnchor) div intervalMs);
                               candidate = anchorMs + nextSlotIdx * intervalMs
                           in Some (if started_by last candidate then candidate + intervalMs else candidate))))"

end
