(* ===== verification/TaskScheduleClaims.thy ===== *)
theory TaskScheduleClaims
  imports TaskSchedule
begin

text \<open>
  What the schedule promises: the slots of daily and weekly tasks are the latest that fit, a task
  that has just started is not due, and at the time the task list shows as next a task is due. The
  months' arithmetic carries a 31st over into the month after.
\<close>

lemma daily_slot:
  "mostRecentSlot tz now anchor Daily md = Some s \<Longrightarrow>
     s \<le> now \<and> now < s + day_ms \<and> time_of_day tz s = clock tz anchor"
proof -
  assume a: "mostRecentSlot tz now anchor Daily md = Some s"
  let ?t = "set_hours tz now (clock tz anchor)"
  have near: "?t < now + day_ms" "now < ?t + day_ms" by (rule set_hours_near [OF clock_range])+
  have t: "time_of_day tz ?t = clock tz anchor" by (rule set_hours_local(2) [OF clock_range])
  have s: "s = (if ?t \<le> now then ?t else ?t - day_ms)"
    using a set_date_shift [of tz ?t "-1"] by (simp add: mostRecentSlot_def Let_def split: if_splits)
  then show ?thesis using near t time_of_day_shift [of tz ?t "-1"] by (auto split: if_splits)
qed

lemma week_mod:
  fixes x y :: int
  shows "(x - (x mod 7 - y mod 7 + 7) mod 7) mod 7 = y mod 7" "(x + (y mod 7 - x mod 7 + 7) mod 7) mod 7 = y mod 7"
proof -
  have d: "7 * (x div 7) + x mod 7 = x" by simp
  have l: "7 * q + r = z \<Longrightarrow> z - (r - m + 7) = m + 7 * (q - 1)" "7 * q + r = z \<Longrightarrow> z + (m - r + 7) = m + 7 * (q + 1)"
    for q r z m :: int by simp_all
  have "(x - (x mod 7 - y mod 7 + 7) mod 7) mod 7 = (x - (x mod 7 - y mod 7 + 7)) mod 7" by (rule mod_diff_right_eq)
  also have "x - (x mod 7 - y mod 7 + 7) = y mod 7 + 7 * (x div 7 - 1)" by (rule l(1) [OF d])
  finally show "(x - (x mod 7 - y mod 7 + 7) mod 7) mod 7 = y mod 7" by (metis mod_mult_self2 mod_mod_trivial)
  have "(x + (y mod 7 - x mod 7 + 7) mod 7) mod 7 = (x + (y mod 7 - x mod 7 + 7)) mod 7" by (rule mod_add_right_eq)
  also have "x + (y mod 7 - x mod 7 + 7) = y mod 7 + 7 * (x div 7 + 1)" by (rule l(2) [OF d])
  finally show "(x + (y mod 7 - x mod 7 + 7) mod 7) mod 7 = y mod 7" by (metis mod_mult_self2 mod_mod_trivial)
qed

lemma weekday_back: "weekday_of (d - (weekday_of d - weekday_of e + 7) mod 7) = weekday_of e"
  using week_mod(1) [of "d + 4" "e + 4"] by (simp add: weekday_of_def algebra_simps)

lemma weekday_forward: "weekday_of (d + (weekday_of e - weekday_of d + 7) mod 7) = weekday_of e"
  using week_mod(2) [of "d + 4" "e + 4"] by (simp add: weekday_of_def algebra_simps)

lemma weekday_week: "weekday_of (d + -7) = weekday_of d" "weekday_of (d + 7) = weekday_of d"
  using mod_mult_self2 [of "d + 4" 7 "-1"] mod_mult_self2 [of "d + 4" 7 1] by (simp_all add: weekday_of_def add_ac)

lemma set_date_back: "set_date tz t (get_date tz t - n) = t - n * day_ms"
  using set_date_shift [of tz t "- n"] by simp

lemma weekly_slot:
  assumes "mostRecentSlot tz now anchor Weekly md = Some s"
  shows "s \<le> now" "now < s + 7 * day_ms" "time_of_day tz s = clock tz anchor" "get_day tz s = get_day tz anchor"
proof -
  define t where "t = set_hours tz now (clock tz anchor)"
  define d where "d = (get_day tz t - get_day tz anchor + 7) mod 7"
  define r where "r = t - d * day_ms"
  have near: "t < now + day_ms" "now < t + day_ms" unfolding t_def by (rule set_hours_near [OF clock_range])+
  have t: "time_of_day tz t = clock tz anchor" unfolding t_def by (rule set_hours_local(2) [OF clock_range])
  have d: "0 \<le> d" "d < 7" unfolding d_def by simp_all
  have s: "s = (if r > now then r - 7 * day_ms else r)"
    using assms unfolding mostRecentSlot_def Let_def t_def [symmetric] d_def [symmetric] set_date_back r_def
    by simp
  have r: "r = t + (- d) * day_ms" "r - 7 * day_ms = r + (- 7) * day_ms" by (simp_all add: r_def)
  have rw: "get_day tz r = get_day tz anchor"
  proof -
    have "weekday_of (local_day tz t - d) = get_day tz anchor" unfolding d_def by (rule weekday_back)
    then show ?thesis using local_day_shift [of tz t "- d"] by (simp add: r(1))
  qed
  have rt: "time_of_day tz r = clock tz anchor" using time_of_day_shift [of tz t "- d"] t by (simp add: r(1))
  have "get_day tz (r - 7 * day_ms) = get_day tz anchor" "time_of_day tz (r - 7 * day_ms) = clock tz anchor"
    unfolding r(2) local_day_shift time_of_day_shift using rw rt weekday_week(1) by simp_all
  with rw rt show "time_of_day tz s = clock tz anchor" "get_day tz s = get_day tz anchor" by (simp_all add: s)
  have "d * day_ms \<le> 6 * day_ms" "0 \<le> d * day_ms" using d by simp_all
  then show "s \<le> now" "now < s + 7 * day_ms" using near by (auto simp: s r_def)
qed

text \<open>
  The slot a daily or weekly task is measured against is the last instant no later than now
  with the anchor's time of day, and for a weekly task its weekday.
\<close>

lemma last_slot_is_the_latest_that_fits:
  "(\<exists>s. mostRecentSlot tz now anchor Daily md = Some s \<and> s \<le> now \<and> now < s + day_ms
      \<and> time_of_day tz s = clock tz anchor)
   \<and> (\<exists>s. mostRecentSlot tz now anchor Weekly md = Some s \<and> s \<le> now \<and> now < s + 7 * day_ms
      \<and> time_of_day tz s = clock tz anchor \<and> get_day tz s = get_day tz anchor)"
proof
  obtain s where "mostRecentSlot tz now anchor Daily md = Some s" by (simp add: mostRecentSlot_def Let_def)
  with daily_slot [OF this] show "\<exists>s. mostRecentSlot tz now anchor Daily md = Some s \<and> s \<le> now \<and> now < s + day_ms
      \<and> time_of_day tz s = clock tz anchor" by blast
  obtain s where "mostRecentSlot tz now anchor Weekly md = Some s" by (simp add: mostRecentSlot_def Let_def)
  with weekly_slot [OF this] show "\<exists>s. mostRecentSlot tz now anchor Weekly md = Some s \<and> s \<le> now \<and> now < s + 7 * day_ms
      \<and> time_of_day tz s = clock tz anchor \<and> get_day tz s = get_day tz anchor" by blast
qed

section \<open>A task that has started\<close>

text \<open>
  A task that has just been started is not due, whatever its schedule.
\<close>

theorem started_task_is_not_due:
  assumes "\<And>e s. cron e now = Some s \<Longrightarrow> s \<le> now" "0 < now" "st_lastStartedAt row = Some now"
  shows "\<not> isDueNow cron tz row now"
proof -
  have interval: "a + (now - a) div (i * minute_ms) * (i * minute_ms) \<le> now" if "i * minute_ms > 0" for a i
    using div_bounds(1) [OF that, of "now - a"] by (simp add: mult.commute)
  show ?thesis
    using assms interval
    by (cases "st_scheduleKind row")
      (auto simp: isDueNow_def Let_def started_ms_def not_less split: option.splits dest: assms(1))
qed

definition ex_task :: "ScheduleKind \<Rightarrow> ms option \<Rightarrow> ms option \<Rightarrow> SyncTaskRow" where
  "ex_task kind anchor lastRun = \<lparr>st_taskKey = Users_full, st_enabled = True, st_scheduleKind = kind,
     st_intervalMinutes = 60, st_anchorAt = anchor, st_monthlyDay = Some ''last'', st_cronExpr = None,
     st_lastStartedAt = lastRun, st_lastFinishedAt = None, st_lastStatus = None, st_lastError = None,
     st_lastCursor = None, st_lastStats = None, st_consecutiveFailures = 0\<rparr>"

theorem started_task_is_not_due_witness:
  "\<not> isDueNow (\<lambda>e t. Some (t - 5)) 0 (ex_task Weekly (Some 7) (Some 1000000000000)) 1000000000000
   \<and> isDueNow (\<lambda>e t. Some (t - 5)) 0 (ex_task Weekly (Some 7) None) 1000000000000"
proof
  show "\<not> isDueNow (\<lambda>e t. Some (t - 5)) 0 (ex_task Weekly (Some 7) (Some 1000000000000)) 1000000000000"
    by (rule started_task_is_not_due) (simp_all add: ex_task_def)
  show "isDueNow (\<lambda>e t. Some (t - 5)) 0 (ex_task Weekly (Some 7) None) 1000000000000"
    by code_simp
qed

section \<open>The time the list shows\<close>

lemma set_hours_same: "time_of_day tz s = clock tz anchor \<Longrightarrow> set_hours tz s (clock tz anchor) = s"
  using instant_local [of tz s] by (simp add: set_hours_def)

lemma slot_at_itself:
  "time_of_day tz s = clock tz anchor \<Longrightarrow> mostRecentSlot tz s anchor Daily md = Some s"
  "time_of_day tz s = clock tz anchor \<Longrightarrow> get_day tz s = get_day tz anchor \<Longrightarrow>
     mostRecentSlot tz s anchor Weekly md = Some s"
  using set_date_back [of tz s 0] by (simp_all add: mostRecentSlot_def Let_def set_hours_same)

lemma nextWeekdayAt_slot:
  "now < nextWeekdayAt tz now (get_day tz anchor) anchor"
  "time_of_day tz (nextWeekdayAt tz now (get_day tz anchor) anchor) = clock tz anchor"
  "get_day tz (nextWeekdayAt tz now (get_day tz anchor) anchor) = get_day tz anchor"
proof -
  define t where "t = set_hours tz now (clock tz anchor)"
  define d where "d = (get_day tz anchor - get_day tz t + 7) mod 7"
  define n where "n = (if d = 0 \<and> t \<le> now then 7 else d)"
  have near: "t < now + day_ms" "now < t + day_ms" unfolding t_def by (rule set_hours_near [OF clock_range])+
  have t: "time_of_day tz t = clock tz anchor" unfolding t_def by (rule set_hours_local(2) [OF clock_range])
  have "nextWeekdayAt tz now (get_day tz anchor) anchor
      = (if d = 0 \<and> t \<le> now then set_date tz t (get_date tz t + 7) else set_date tz t (get_date tz t + d))"
    unfolding nextWeekdayAt_def Let_def t_def [symmetric] d_def [symmetric] by (rule refl)
  then have next_at: "nextWeekdayAt tz now (get_day tz anchor) anchor = t + n * day_ms"
    unfolding set_date_shift n_def by simp
  have d: "0 \<le> d" unfolding d_def by simp
  show "now < nextWeekdayAt tz now (get_day tz anchor) anchor"
  proof (cases "d = 0")
    case True
    then show ?thesis using near by (auto simp: next_at n_def)
  next
    case False
    then have "1 \<le> d" using d by linarith
    then have "day_ms \<le> d * day_ms" by simp
    then show ?thesis using near False by (simp add: next_at n_def)
  qed
  show "time_of_day tz (nextWeekdayAt tz now (get_day tz anchor) anchor) = clock tz anchor"
    unfolding next_at time_of_day_shift by (rule t)
  have f: "weekday_of (local_day tz t + d) = get_day tz anchor" unfolding d_def by (rule weekday_forward)
  then show "get_day tz (nextWeekdayAt tz now (get_day tz anchor) anchor) = get_day tz anchor"
    unfolding next_at local_day_shift n_def using weekday_week(2) [of "local_day tz t"] by (cases "d = 0") auto
qed

lemma due_at_slot:
  assumes "started_ms (st_lastStartedAt row) < s" "time_of_day tz s = clock tz anchor" "st_anchorAt row = Some anchor"
  shows "st_scheduleKind row = Daily \<Longrightarrow> isDueNow cron tz row s"
    "st_scheduleKind row = Weekly \<Longrightarrow> get_day tz s = get_day tz anchor \<Longrightarrow> isDueNow cron tz row s"
  using assms slot_at_itself [OF assms(2)] by (simp_all add: isDueNow_def)

lemma not_started_by: "started_ms lastRun \<le> now \<Longrightarrow> 0 < now \<Longrightarrow> now < s \<Longrightarrow> \<not> started_by lastRun s"
  by (simp add: started_by_def started_ms_def split: option.splits)

lemma div_ceiling: "0 < (i :: int) \<Longrightarrow> e \<le> - ((- e) div i) * i"
  using div_bounds(1) [of i "- e"] by (simp add: mult.commute)

lemma addDays_shift: "addDays tz t n = t + n * day_ms"
  unfolding addDays_def by (rule set_date_shift)

lemma interval_due:
  assumes "st_scheduleKind row = Interval \<or> st_scheduleKind row = Hourly"
    and "computeNextDueAt cn tz row now = Some d" "0 < now" "started_ms (st_lastStartedAt row) \<le> now"
  shows "isDueNow cp tz row d"
proof -
  let ?i = "st_intervalMinutes row * minute_ms" let ?l = "st_lastStartedAt row"
  have i: "0 < ?i" using assms(1,2) by (auto simp: computeNextDueAt_def Let_def split: if_splits)
  show ?thesis
  proof (cases "st_anchorAt row")
    case None
    then have "d = (case ?l of None \<Rightarrow> now | Some t \<Rightarrow> t + ?i)"
      using assms(1,2) i by (auto simp: computeNextDueAt_def Let_def)
    then show ?thesis using assms(1) i None
      by (auto simp: isDueNow_def Let_def started_ms_def split: option.splits)
  next
    case (Some a)
    define q where "q = - ((- max 0 (now - a)) div ?i)"
    have d: "d = (if started_by ?l (a + q * ?i) then a + (q + 1) * ?i else a + q * ?i)"
      using assms(1,2) i Some by (auto simp: computeNextDueAt_def Let_def q_def algebra_simps)
    have e: "max 0 (now - a) \<le> q * ?i"
      unfolding q_def by (rule div_ceiling [OF i])
    have "\<exists>k. d = a + k * ?i \<and> a \<le> d \<and> started_ms ?l < d"
    proof (cases "started_by ?l (a + q * ?i)")
      case True
      then show ?thesis using d e i assms(4) by (intro exI [of _ "q + 1"]) (auto simp: distrib_right)
    next
      case False
      then have "started_ms ?l < a + q * ?i" using e assms(3)
        by (auto simp: started_by_def started_ms_def not_le split: option.splits)
      with False show ?thesis using d e by (intro exI [of _ q]) auto
    qed
    then obtain k where k: "d = a + k * ?i" "a \<le> d" "started_ms ?l < d" by blast
    then have "(d - a) div ?i * ?i = d - a" using i by simp
    then show ?thesis using assms(1) i Some k(2,3) by (auto simp: isDueNow_def Let_def)
  qed
qed

text \<open>
  C40. At the time the task list shows as the next one, the scheduler finds the task due, for every
  schedule by interval, day or week.
\<close>

theorem task_is_due_when_shown:
  assumes "computeNextDueAt nextCron tz row now = Some d" "0 < now" "started_ms (st_lastStartedAt row) \<le> now"
    and "st_scheduleKind row \<noteq> Monthly" "st_scheduleKind row \<noteq> Cron"
  shows "isDueNow prevCron tz row d"
proof (cases "st_scheduleKind row")
  case Daily
  then obtain a where a: "st_anchorAt row = Some a" using assms(1) by (auto simp: computeNextDueAt_def)
  let ?t = "todayAt tz now a"
  have t: "time_of_day tz ?t = clock tz a" "now < ?t + day_ms"
    unfolding todayAt_def by (rule set_hours_local(2) [OF clock_range], rule set_hours_near [OF clock_range])
  have "d = (if ?t \<le> now \<or> started_by (st_lastStartedAt row) ?t then ?t + 1 * day_ms else ?t)"
    using assms(1) Daily a by (auto simp: computeNextDueAt_def Let_def addDays_shift split: if_splits)
  then have "now < d" "time_of_day tz d = clock tz a"
    using t time_of_day_shift [of tz ?t 1] not_started_by [OF assms(3,2), of ?t] by (auto split: if_splits)
  then show ?thesis using due_at_slot(1) [of row d tz a] a Daily assms(3) by simp
next
  case Weekly
  then obtain a where a: "st_anchorAt row = Some a" using assms(1) by (auto simp: computeNextDueAt_def)
  let ?t = "nextWeekdayAt tz now (get_day tz a) a"
  have "d = ?t" using assms(1) Weekly a not_started_by [OF assms(3,2) nextWeekdayAt_slot(1)]
    by (simp add: computeNextDueAt_def Let_def)
  with nextWeekdayAt_slot(1) [of now tz a] nextWeekdayAt_slot(2,3) [of tz now a] assms(3)
  have "started_ms (st_lastStartedAt row) < d" "time_of_day tz d = clock tz a" "get_day tz d = get_day tz a" by simp_all
  then show ?thesis using due_at_slot(2) a Weekly by blast
qed (use assms interval_due in auto)

theorem task_is_due_when_shown_witness:
  "computeNextDueAt (\<lambda>_ _. None) 0 (ex_task Weekly (Some 7000) (Some 999999000000)) 1000000000000 = Some 1000339207000
   \<and> isDueNow (\<lambda>_ _. None) 0 (ex_task Weekly (Some 7000) (Some 999999000000)) 1000339207000"
proof
  show c: "computeNextDueAt (\<lambda>_ _. None) 0 (ex_task Weekly (Some 7000) (Some 999999000000)) 1000000000000 = Some 1000339207000"
    by code_simp
  show "isDueNow (\<lambda>_ _. None) 0 (ex_task Weekly (Some 7000) (Some 999999000000)) 1000339207000"
    by (rule task_is_due_when_shown [OF c]) (simp_all add: ex_task_def started_ms_def)
qed

section \<open>Months\<close>

text \<open>
  A month is skipped where the one after is shorter: on 31 January the task list shows 31 March
  as the next last day of a month, and a slot missed at the end of February is made up on 28 March
  but not on the 29th, 30th or 31st.
\<close>

theorem short_month_is_skipped:
  "computeNextDueAt (\<lambda>_ _. None) 0 (ex_task Monthly (Some 7200000) None) (new_date 0 2026 0 31 (12 * hour_ms))
     = Some (new_date 0 2026 2 31 (2 * hour_ms))
   \<and> isDueNow (\<lambda>_ _. None) 0 (ex_task Monthly (Some (23 * hour_ms)) (Some (new_date 0 2026 0 31 (23 * hour_ms))))
       (new_date 0 2026 2 28 (12 * hour_ms))
   \<and> \<not> isDueNow (\<lambda>_ _. None) 0 (ex_task Monthly (Some (23 * hour_ms)) (Some (new_date 0 2026 0 31 (23 * hour_ms))))
       (new_date 0 2026 2 30 (12 * hour_ms))"
  by (intro conjI; code_simp)

end
