(* ===== verification/SyncTasks.thy ===== *)
theory SyncTasks
  imports TaskSchedule
begin

text \<open>
  The sync tasks of a directory and the history of their runs (\<^verbatim>\<open>services/syncTasks/registry.ts\<close>,
  \<^verbatim>\<open>services/syncTasks/service.ts\<close>). A statement on the tables is a function; the statements of one
  method that are not in a transaction are composed as the method composes them.
\<close>

section \<open>The registry\<close>

text \<open>The key of a task as the database and the routes write it.\<close>

fun key_name :: "SyncTaskKey \<Rightarrow> string" where
  "key_name Users_locked = ''users.locked''"
| "key_name Users_delta = ''users.delta''"
| "key_name Groups_delta = ''groups.delta''"
| "key_name Computers_delta = ''computers.delta''"
| "key_name Memberships_rebuild = ''memberships.rebuild''"
| "key_name Domain_policy = ''domain.policy''"
| "key_name Users_full = ''users.full''"
| "key_name Groups_full = ''groups.full''"
| "key_name Computers_full = ''computers.full''"
| "key_name Ous_full = ''ous.full''"
| "key_name Policies_full = ''policies.full''"
| "key_name Tombstones = ''tombstones''"
| "key_name Entra_photos_refresh = ''entra.photos.refresh''"
| "key_name Entra_signin_activity = ''entra.signin.activity''"
| "key_name Entra_signins_events = ''entra.signins.events''"
| "key_name Entra_mfa_registration = ''entra.mfa.registration''"
| "key_name Entra_password_expiry_notify = ''entra.password-expiry.notify''"
| "key_name Entra_licenses_groups = ''entra.licenses.groups''"

(* src/apps/api/src/services/syncTasks/types.ts:134-161 TaskDefinition *)
record TaskDefinition =
  td_label :: string
  td_defaultIntervalMinutes :: nat
  td_priority :: nat
  td_seedByDefault :: bool
  td_watchdogMinutes :: nat
  td_notifyAfterFailures :: nat
  td_needsAdSync :: bool  \<comment> \<open>\<open>requires?.adSync !== false\<close>\<close>
  td_needsEntra :: bool   \<comment> \<open>\<open>requires?.entra\<close>\<close>

definition task_def :: "string \<Rightarrow> nat \<Rightarrow> nat \<Rightarrow> bool \<Rightarrow> nat \<Rightarrow> nat \<Rightarrow> bool \<Rightarrow> TaskDefinition" where
  "task_def label interval priority seed watchdog notify entra =
     \<lparr>td_label = label, td_defaultIntervalMinutes = interval, td_priority = priority, td_seedByDefault = seed,
      td_watchdogMinutes = watchdog, td_notifyAfterFailures = notify, td_needsAdSync = True, td_needsEntra = entra\<rparr>"

(* src/apps/api/src/services/syncTasks/registry.ts:29-233 TASK_REGISTRY *)
fun TASK_REGISTRY :: "SyncTaskKey \<Rightarrow> TaskDefinition" where
  "TASK_REGISTRY Users_locked = task_def ''Locked users'' 5 10 True 5 6 False"
| "TASK_REGISTRY Users_delta = task_def ''User changes'' 15 20 True 15 4 False"
| "TASK_REGISTRY Groups_delta = task_def ''Group changes'' 30 25 True 15 4 False"
| "TASK_REGISTRY Computers_delta = task_def ''Computer changes'' 30 27 True 15 4 False"
| "TASK_REGISTRY Memberships_rebuild = task_def ''Memberships'' 30 30 True 10 4 False"
| "TASK_REGISTRY Domain_policy = task_def ''Domain policy'' 360 40 True 5 3 False"
| "TASK_REGISTRY Users_full = task_def ''Users (full sync)'' 1440 50 True 60 2 False"
| "TASK_REGISTRY Groups_full = task_def ''Groups (full sync)'' 1440 55 True 60 2 False"
| "TASK_REGISTRY Computers_full = task_def ''Computers (full sync)'' 1440 57 True 60 2 False"
| "TASK_REGISTRY Ous_full = task_def ''OUs'' 10080 60 True 30 2 False"
| "TASK_REGISTRY Policies_full = task_def ''Group Policies'' 1440 62 True 15 2 False"
| "TASK_REGISTRY Tombstones = task_def ''Tombstones'' 1440 70 False 30 3 False"
| "TASK_REGISTRY Entra_photos_refresh = task_def ''Photos (Graph)'' 1440 80 True 30 3 True"
| "TASK_REGISTRY Entra_signin_activity = task_def ''Sign-in activity (Graph)'' 360 82 True 30 3 True"
| "TASK_REGISTRY Entra_signins_events = task_def ''Sign-in events (Graph)'' 15 83 True 20 4 True"
| "TASK_REGISTRY Entra_mfa_registration = task_def ''MFA registration (Graph)'' 10080 84 True 30 2 True"
| "TASK_REGISTRY Entra_password_expiry_notify = task_def ''Password-expiry notifications'' 1440 85 True 10 3 True"
| "TASK_REGISTRY Entra_licenses_groups = task_def ''Licensed groups (Graph)'' 60 86 True 10 6 True"

(* src/apps/api/src/services/syncTasks/registry.ts:235-235 TASK_KEYS *)
definition TASK_KEYS :: "SyncTaskKey list" where
  "TASK_KEYS = [Users_locked, Users_delta, Groups_delta, Computers_delta, Memberships_rebuild, Domain_policy, Users_full, Groups_full, Computers_full, Ous_full, Policies_full, Tombstones, Entra_photos_refresh, Entra_signin_activity, Entra_signins_events, Entra_mfa_registration, Entra_password_expiry_notify, Entra_licenses_groups]"

text \<open>A known key, read from its name.\<close>

(* src/apps/api/src/services/syncTasks/registry.ts:237-239 isKnownTaskKey *)
definition isKnownTaskKey :: "string \<Rightarrow> SyncTaskKey option" where
  "isKnownTaskKey key = find (\<lambda>k. key_name k = key) TASK_KEYS"

(* src/apps/api/src/services/syncTasks/registry.ts:256-262 tasksToSeed *)
definition tasksToSeed :: "bool \<Rightarrow> SyncTaskKey list" where
  "tasksToSeed hasEntra =
     filter (\<lambda>k. td_seedByDefault (TASK_REGISTRY k) \<and> (td_needsEntra (TASK_REGISTRY k) \<longrightarrow> hasEntra)) TASK_KEYS"

(* src/apps/api/src/services/syncTasks/registry.ts:266-268 ENTRA_TASK_KEYS *)
definition ENTRA_TASK_KEYS :: "SyncTaskKey list" where
  "ENTRA_TASK_KEYS = filter (\<lambda>k. td_needsEntra (TASK_REGISTRY k)) TASK_KEYS"

section \<open>The tables\<close>

datatype run_trigger = Forced | Cadence

record task_row =
  tk_provider_id :: nat
  tk_task_key :: string
  tk_enabled :: bool
  tk_schedule_kind :: ScheduleKind
  tk_interval_minutes :: "int option"
  tk_anchor_at :: "ms option"
  tk_monthly_day :: "string option"
  tk_cron_expr :: "string option"
  tk_last_started_at :: "ms option"
  tk_last_finished_at :: "ms option"
  tk_last_status :: "task_status option"
  tk_last_error :: "task_error option"
  tk_last_cursor :: "ms option"
  tk_last_stats_json :: "(string \<times> stat) list option"
  tk_consecutive_failures :: nat
  tk_updated_at :: ms

record run_row =
  rn_id :: nat
  rn_provider_id :: nat
  rn_task_key :: string
  rn_status :: task_status
  rn_started_at :: ms
  rn_finished_at :: "ms option"
  rn_duration_ms :: "ms option"
  rn_error :: "task_error option"
  rn_stats_json :: "(string \<times> stat) list option"
  rn_trigger :: run_trigger

record task_db =
  tasks :: "task_row list"
  task_runs :: "run_row list"
  next_run_id :: nat

definition is_task :: "nat \<Rightarrow> string \<Rightarrow> task_row \<Rightarrow> bool" where
  "is_task providerId taskKey r \<longleftrightarrow> tk_provider_id r = providerId \<and> tk_task_key r = taskKey"

definition new_task :: "nat \<Rightarrow> string \<Rightarrow> ms \<Rightarrow> task_row" where
  "new_task providerId key now =
     \<lparr>tk_provider_id = providerId, tk_task_key = key, tk_enabled = True, tk_schedule_kind = Interval,
      tk_interval_minutes = None, tk_anchor_at = None, tk_monthly_day = None, tk_cron_expr = None,
      tk_last_started_at = None, tk_last_finished_at = None, tk_last_status = None, tk_last_error = None,
      tk_last_cursor = None, tk_last_stats_json = None, tk_consecutive_failures = 0, tk_updated_at = now\<rparr>"

section \<open>The service\<close>

(* src/apps/api/src/services/syncTasks/service.ts:95-123 ensureSeeded *)
definition ensureSeeded :: "nat \<Rightarrow> bool \<Rightarrow> ms \<Rightarrow> task_db \<Rightarrow> task_db" where
  "ensureSeeded providerId hasEntra now db =
     (let existingKeys = map tk_task_key (filter (\<lambda>r. tk_provider_id r = providerId) (tasks db));
          toInsert = map (\<lambda>k. new_task providerId (key_name k) now)
                       (filter (\<lambda>k. key_name k \<notin> set existingKeys) (tasksToSeed hasEntra))
      in db\<lparr>tasks := tasks db @ toInsert\<rparr>)"

(* src/apps/api/src/services/syncTasks/service.ts:131-138 removeTasks *)
definition removeTasks :: "nat \<Rightarrow> SyncTaskKey list \<Rightarrow> task_db \<Rightarrow> task_db" where
  "removeTasks providerId keys db =
     (if keys = [] then db
      else db\<lparr>tasks := filter (\<lambda>r. \<not> (tk_provider_id r = providerId \<and> tk_task_key r \<in> set (map key_name keys)))
                         (tasks db)\<rparr>)"

definition row_view :: "task_row \<Rightarrow> SyncTaskKey \<Rightarrow> SyncTaskRow" where
  "row_view row key =
     \<lparr>st_taskKey = key,
      st_enabled = tk_enabled row,
      st_scheduleKind = tk_schedule_kind row,
      st_intervalMinutes = (case tk_interval_minutes row of
                              None \<Rightarrow> int (td_defaultIntervalMinutes (TASK_REGISTRY key)) | Some n \<Rightarrow> n),
      st_anchorAt = tk_anchor_at row,
      st_monthlyDay = tk_monthly_day row,
      st_cronExpr = tk_cron_expr row,
      st_lastStartedAt = tk_last_started_at row,
      st_lastFinishedAt = tk_last_finished_at row,
      st_lastStatus = tk_last_status row,
      st_lastError = tk_last_error row,
      st_lastCursor = tk_last_cursor row,
      st_lastStats = tk_last_stats_json row,
      st_consecutiveFailures = tk_consecutive_failures row\<rparr>"

(* src/apps/api/src/services/syncTasks/service.ts:197-228 listAllEnabled *)
definition listAllEnabled :: "task_db \<Rightarrow> (nat \<times> SyncTaskRow) list" where
  "listAllEnabled db =
     concat (map (\<lambda>row. case isKnownTaskKey (tk_task_key row) of
                          None \<Rightarrow> [] | Some key \<Rightarrow> [(tk_provider_id row, row_view row key)])
       (filter tk_enabled (tasks db)))"

text \<open>A task as the list shows it: the row, what the registry adds, and when it is due next.\<close>

(* src/apps/api/src/services/syncTasks/service.ts:9-35 SyncTaskSummary *)
record SyncTaskSummary =
  sm_row :: SyncTaskRow
  sm_label :: string
  sm_defaultIntervalMinutes :: nat
  sm_intervalIsOverride :: bool
  sm_priority :: nat
  sm_nextDueAt :: "ms option"

text \<open>No two tasks have the same priority, so the order by key of the ties is never asked for.\<close>

(* src/apps/api/src/services/syncTasks/service.ts:141-194 listForDirectory *)
definition listForDirectory ::
    "(string \<Rightarrow> ms \<Rightarrow> ms option) \<Rightarrow> ms \<Rightarrow> ms \<Rightarrow> nat \<Rightarrow> task_db \<Rightarrow> SyncTaskSummary list" where
  "listForDirectory nextCronSlot tz now providerId db =
     sort_key sm_priority (concat (map (\<lambda>row. case isKnownTaskKey (tk_task_key row) of
         None \<Rightarrow> []
       | Some key \<Rightarrow>
           [\<lparr>sm_row = row_view row key,
             sm_label = td_label (TASK_REGISTRY key),
             sm_defaultIntervalMinutes = td_defaultIntervalMinutes (TASK_REGISTRY key),
             sm_intervalIsOverride = (tk_interval_minutes row \<noteq> None),
             sm_priority = td_priority (TASK_REGISTRY key),
             sm_nextDueAt = computeNextDueAt nextCronSlot tz (row_view row key) now\<rparr>])
       (filter (\<lambda>r. tk_provider_id r = providerId) (tasks db))))"

text \<open>What an operator changes; \<open>None\<close> leaves a field as it is, \<open>Some None\<close> clears it.\<close>

(* src/apps/api/src/services/syncTasks/service.ts:54-65 SyncTaskPatch *)
record SyncTaskPatch =
  pa_enabled :: "bool option"
  pa_scheduleKind :: "ScheduleKind option"
  pa_intervalMinutes :: "int option option"
  pa_anchorAt :: "ms option option"
  pa_monthlyDay :: "string option option"
  pa_cronExpr :: "string option option"

definition patched :: "'a option \<Rightarrow> 'a \<Rightarrow> 'a" where
  "patched p old = (case p of None \<Rightarrow> old | Some v \<Rightarrow> v)"

definition patch_row :: "SyncTaskPatch \<Rightarrow> ms \<Rightarrow> task_row \<Rightarrow> task_row" where
  "patch_row patch now row =
     (let kind = pa_scheduleKind patch;
          switched = (\<lambda>keep. kind \<noteq> None \<and> the kind \<notin> set keep)
      in row\<lparr>tk_updated_at := now,
             tk_enabled := patched (pa_enabled patch) (tk_enabled row),
             tk_anchor_at := patched (pa_anchorAt patch) (tk_anchor_at row),
             tk_schedule_kind := patched kind (tk_schedule_kind row),
             tk_interval_minutes := (if switched [Interval, Hourly] then None
                                     else patched (pa_intervalMinutes patch) (tk_interval_minutes row)),
             tk_monthly_day := patched (pa_monthlyDay patch)
                                 (if switched [Monthly] then None else tk_monthly_day row),
             tk_cron_expr := patched (pa_cronExpr patch)
                               (if switched [Cron] then None else tk_cron_expr row)\<rparr>)"

(* src/apps/api/src/services/syncTasks/service.ts:230-267 update *)
definition update ::
    "(string \<Rightarrow> ms \<Rightarrow> ms option) \<Rightarrow> ms \<Rightarrow> ms \<Rightarrow> nat \<Rightarrow> SyncTaskKey \<Rightarrow> SyncTaskPatch \<Rightarrow> task_db
     \<Rightarrow> SyncTaskSummary option \<times> task_db" where
  "update nextCronSlot tz now providerId key patch db =
     (let db = db\<lparr>tasks := update_where (is_task providerId (key_name key)) (patch_row patch now) (tasks db)\<rparr>
      in (find (\<lambda>s. st_taskKey (sm_row s) = key) (listForDirectory nextCronSlot tz now providerId db), db))"

(* src/apps/api/src/services/syncTasks/service.ts:270-292 resetStuck *)
definition resetStuck :: "nat \<Rightarrow> SyncTaskKey \<Rightarrow> task_error \<Rightarrow> ms \<Rightarrow> task_db \<Rightarrow> task_db" where
  "resetStuck providerId key reason now db =
     db\<lparr>tasks := update_where (\<lambda>r. is_task providerId (key_name key) r \<and> tk_last_status r = Some T_running)
                   (\<lambda>r. r\<lparr>tk_last_status := Some T_failed, tk_last_error := Some reason,
                          tk_last_finished_at := Some now, tk_updated_at := now\<rparr>) (tasks db),
        task_runs := update_where (\<lambda>r. rn_provider_id r = providerId \<and> rn_task_key r = key_name key
                                      \<and> rn_status r = T_running)
                   (\<lambda>r. r\<lparr>rn_status := T_failed, rn_error := Some reason, rn_finished_at := Some now\<rparr>)
                   (task_runs db)\<rparr>"

definition newest_of :: "ms list \<Rightarrow> ms option" where
  "newest_of ts = (if ts = [] then None else Some (Max (set ts)))"

(* src/apps/api/src/services/syncTasks/service.ts:298-310 lastSuccessfulFinishAt *)
definition lastSuccessfulFinishAt :: "nat \<Rightarrow> SyncTaskKey list \<Rightarrow> task_db \<Rightarrow> ms option" where
  "lastSuccessfulFinishAt providerId keys db =
     newest_of (concat (map (\<lambda>r. case rn_finished_at r of None \<Rightarrow> [] | Some t \<Rightarrow> [t])
       (filter (\<lambda>r. rn_provider_id r = providerId \<and> rn_task_key r \<in> set (map key_name keys)
                    \<and> rn_status r = T_succeeded) (task_runs db))))"

(* src/apps/api/src/services/syncTasks/service.ts:318-327 lastSuccessfulStartAt *)
definition lastSuccessfulStartAt :: "nat \<Rightarrow> SyncTaskKey \<Rightarrow> task_db \<Rightarrow> ms option" where
  "lastSuccessfulStartAt providerId key db =
     newest_of (map rn_started_at (filter (\<lambda>r. rn_provider_id r = providerId \<and> rn_task_key r = key_name key
                                             \<and> rn_status r = T_succeeded) (task_runs db)))"

(* src/apps/api/src/services/syncTasks/service.ts:335-365 markStarted *)
definition markStarted :: "nat \<Rightarrow> SyncTaskKey \<Rightarrow> run_trigger \<Rightarrow> ms \<Rightarrow> task_db \<Rightarrow> (nat \<times> ms) \<times> task_db" where
  "markStarted providerId key trigger startedAt db =
     (let runId = next_run_id db
      in ((runId, startedAt),
          db\<lparr>tasks := update_where (is_task providerId (key_name key))
                 (\<lambda>r. r\<lparr>tk_last_started_at := Some startedAt, tk_last_finished_at := None,
                        tk_last_status := Some T_running, tk_last_error := None, tk_updated_at := startedAt\<rparr>)
                 (tasks db),
             task_runs := task_runs db @
               [\<lparr>rn_id = runId, rn_provider_id = providerId, rn_task_key = key_name key, rn_status = T_running,
                 rn_started_at = startedAt, rn_finished_at = None, rn_duration_ms = None, rn_error = None,
                 rn_stats_json = None, rn_trigger = trigger\<rparr>],
             next_run_id := Suc runId\<rparr>))"

(* src/apps/api/src/services/syncTasks/service.ts:68-74 MarkFinishedResult *)
record MarkFinishedResult =
  mf_consecutiveFailures :: nat
  mf_recovered :: bool
  mf_crossedThreshold :: bool
  mf_threshold :: nat

text \<open>How a run ended: its result, or its error.\<close>

datatype run_end =
    Ended_ok "ms option" "(string \<times> stat) list"  \<comment> \<open>the cursor, unless left as it was, and the statistics\<close>
  | Ended_failed task_error

(* src/apps/api/src/services/syncTasks/service.ts:367-450 markFinished *)
definition markFinished ::
    "nat \<Rightarrow> SyncTaskKey \<Rightarrow> run_end \<Rightarrow> (nat \<times> ms) option \<Rightarrow> ms \<Rightarrow> task_db \<Rightarrow> MarkFinishedResult \<times> task_db" where
  "markFinished providerId key result started finishedAt db =
     (let before = find (is_task providerId (key_name key)) (tasks db);
          previousFailures = (case before of None \<Rightarrow> 0 | Some r \<Rightarrow> tk_consecutive_failures r);
          threshold = td_notifyAfterFailures (TASK_REGISTRY key);
          ok = (case result of Ended_ok _ _ \<Rightarrow> True | _ \<Rightarrow> False);
          nextFailures = (if ok then 0 else previousFailures + 1);
          recovered = (ok \<and> previousFailures > 0);
          crossedThreshold = (\<not> ok \<and> previousFailures < threshold \<and> nextFailures \<ge> threshold);
          status = (if ok then T_succeeded else T_failed);
          error = (case result of Ended_failed e \<Rightarrow> Some e | _ \<Rightarrow> None);
          db = db\<lparr>tasks := update_where (is_task providerId (key_name key))
                 (\<lambda>r. r\<lparr>tk_last_finished_at := Some finishedAt, tk_last_status := Some status,
                        tk_last_error := error, tk_consecutive_failures := nextFailures,
                        tk_updated_at := finishedAt,
                        tk_last_cursor := (case result of Ended_ok (Some c) _ \<Rightarrow> Some c | _ \<Rightarrow> tk_last_cursor r),
                        tk_last_stats_json := (case result of Ended_ok _ st \<Rightarrow> Some st | _ \<Rightarrow> tk_last_stats_json r)\<rparr>)
                 (tasks db)\<rparr>;
          db = (case started of
                  None \<Rightarrow> db
                | Some (runId, startedAt) \<Rightarrow>
                    db\<lparr>task_runs := update_where (\<lambda>r. rn_id r = runId)
                       (\<lambda>r. r\<lparr>rn_status := status, rn_finished_at := Some finishedAt,
                              rn_duration_ms := Some (max 0 (finishedAt - startedAt)), rn_error := error,
                              rn_stats_json := (case result of Ended_ok _ st \<Rightarrow> Some st | _ \<Rightarrow> None)\<rparr>)
                       (task_runs db)\<rparr>)
      in (\<lparr>mf_consecutiveFailures = nextFailures, mf_recovered = recovered,
           mf_crossedThreshold = crossedThreshold, mf_threshold = threshold\<rparr>, db))"

(* src/apps/api/src/services/syncTasks/service.ts:455-484 listRecentRuns *)
definition listRecentRuns :: "nat \<Rightarrow> SyncTaskKey \<Rightarrow> nat \<Rightarrow> task_db \<Rightarrow> run_row list" where
  "listRecentRuns providerId key limit db =
     take (min (max 1 limit) 200)
       (rev (sort_key rn_started_at (filter (\<lambda>r. rn_provider_id r = providerId \<and> rn_task_key r = key_name key)
                                      (task_runs db))))"

end
