(* ===== verification/Scheduler.thy ===== *)
theory Scheduler
  imports SyncTasks
begin

text \<open>
  The scheduler of the sync tasks (\<^verbatim>\<open>services/syncTasks/scheduler.ts\<close>). Several API processes share the
  database and its advisory locks, one per directory; each has its own sets of what is in flight
  and what an operator asked for. A run is an activity that goes through the phases of
  \<open>runTask\<close>; between two of its awaits anything else may happen.
\<close>

section \<open>A process\<close>

record process =
  inFlight :: "(nat \<times> SyncTaskKey) list"
  inFlightByDirectory :: "nat list"
  forced :: "nat \<Rightarrow> SyncTaskKey list"

definition idle_process :: process where
  "idle_process = \<lparr>inFlight = [], inFlightByDirectory = [], forced = (\<lambda>_. [])\<rparr>"

(* src/apps/api/src/services/syncTasks/scheduler.ts:100-110 triggerNow *)
definition triggerNow :: "nat \<Rightarrow> SyncTaskKey \<Rightarrow> process \<Rightarrow> process" where
  "triggerNow providerId key s =
     s\<lparr>forced := (forced s)(providerId := set_add key (forced s providerId))\<rparr>"

section \<open>Picking\<close>

record candidate =
  ca_taskKey :: SyncTaskKey
  ca_priority :: nat
  ca_forced :: bool

(* src/apps/api/src/services/syncTasks/scheduler.ts:279-307 pickDueTasks *)
fun pickDueTasks ::
    "(nat \<Rightarrow> SyncTaskKey list) \<Rightarrow> (SyncTaskRow \<Rightarrow> bool) \<Rightarrow> (nat \<times> SyncTaskRow) list
     \<Rightarrow> (nat \<times> candidate) list \<Rightarrow> (nat \<times> candidate) list" where
  "pickDueTasks asked due [] candidates = candidates"
| "pickDueTasks asked due ((providerId, row) # rest) candidates =
     (let isForced = st_taskKey row \<in> set (asked providerId);
          new = \<lparr>ca_taskKey = st_taskKey row, ca_priority = td_priority (TASK_REGISTRY (st_taskKey row)),
                 ca_forced = isForced\<rparr>
      in if \<not> isForced \<and> \<not> due row then pickDueTasks asked due rest candidates
         else (let better = (case jm_get candidates providerId of
                 None \<Rightarrow> True
               | Some existing \<Rightarrow>
                   (isForced \<and> \<not> ca_forced existing)
                   \<or> (isForced = ca_forced existing \<and> ca_priority new < ca_priority existing))
               in pickDueTasks asked due rest
                    (if better then jm_set providerId new candidates else candidates)))"

text \<open>What a tick knows of a directory and its Entra integration.\<close>

record directory_state =
  ds_id :: nat
  ds_configured :: bool
  ds_hasSyncBind :: bool  \<comment> \<open>\<open>syncBindUpn\<close> and \<open>hasSyncBindPassword\<close>\<close>
  ds_hasEntra :: bool     \<comment> \<open>an integration that is enabled and has a client secret\<close>

text \<open>Whether a task of a directory has what it needs.\<close>

definition runnable :: "directory_state list \<Rightarrow> nat \<Rightarrow> SyncTaskKey \<Rightarrow> bool" where
  "runnable directories providerId key =
     (case find (\<lambda>d. ds_id d = providerId) directories of
        None \<Rightarrow> False
      | Some d \<Rightarrow> ds_configured d
          \<and> (td_needsAdSync (TASK_REGISTRY key) \<longrightarrow> ds_hasSyncBind d)
          \<and> (td_needsEntra (TASK_REGISTRY key) \<longrightarrow> ds_hasEntra d))"

(* src/apps/api/src/services/syncTasks/scheduler.ts:316-326 runTask *)
definition claimTask :: "nat \<Rightarrow> SyncTaskKey \<Rightarrow> process \<Rightarrow> process option" where
  "claimTask providerId key s =
     (if (providerId, key) \<in> set (inFlight s) then None
      else if providerId \<in> set (inFlightByDirectory s) then None
      else Some (s\<lparr>inFlight := set_add (providerId, key) (inFlight s),
                   inFlightByDirectory := set_add providerId (inFlightByDirectory s)\<rparr>))"

(* src/apps/api/src/services/syncTasks/scheduler.ts:350-356 runTask *)
definition releaseTask :: "nat \<Rightarrow> SyncTaskKey \<Rightarrow> process \<Rightarrow> process" where
  "releaseTask providerId key s =
     s\<lparr>inFlight := filter (\<lambda>x. x \<noteq> (providerId, key)) (inFlight s),
       inFlightByDirectory := filter (\<lambda>p. p \<noteq> providerId) (inFlightByDirectory s)\<rparr>"

text \<open>The runs a tick starts, in the order of the candidates.\<close>

fun startDue ::
    "directory_state list \<Rightarrow> (nat \<times> candidate) list \<Rightarrow> process \<Rightarrow> (nat \<times> SyncTaskKey) list \<times> process" where
  "startDue directories [] s = ([], s)"
| "startDue directories ((providerId, c) # rest) s =
     (if providerId \<in> set (inFlightByDirectory s) \<or> \<not> runnable directories providerId (ca_taskKey c)
      then startDue directories rest s
      else case claimTask providerId (ca_taskKey c) s of
             None \<Rightarrow> startDue directories rest s
           | Some s \<Rightarrow> (let (runs, s) = startDue directories rest s in ((providerId, ca_taskKey c) # runs, s)))"

text \<open>
  The rows the watchdog resets: running for longer than it allows and not this process's own.
\<close>

definition stuck :: "process \<Rightarrow> ms \<Rightarrow> nat \<times> SyncTaskRow \<Rightarrow> bool" where
  "stuck s now pr \<longleftrightarrow> (case pr of (providerId, row) \<Rightarrow>
     st_lastStatus row = Some T_running
     \<and> (providerId, st_taskKey row) \<notin> set (inFlight s)
     \<and> started_ms (st_lastStartedAt row) \<noteq> 0
     \<and> now - started_ms (st_lastStartedAt row) > int (td_watchdogMinutes (TASK_REGISTRY (st_taskKey row))) * minute_ms)"

definition seedAll :: "directory_state list \<Rightarrow> ms \<Rightarrow> task_db \<Rightarrow> task_db" where
  "seedAll directories now db =
     fold (\<lambda>d. if ds_configured d then ensureSeeded (ds_id d) (ds_hasEntra d) now else id) directories db"

definition watchdog :: "process \<Rightarrow> ms \<Rightarrow> task_db \<Rightarrow> task_db" where
  "watchdog s now db =
     fold (\<lambda>pr. if stuck s now pr
                then resetStuck (fst pr) (st_taskKey (snd pr))
                       (Watchdog (td_watchdogMinutes (TASK_REGISTRY (st_taskKey (snd pr))))) now
                else id) (listAllEnabled db) db"

text \<open>A tick, when nothing fails and nothing happens between its awaits.\<close>

(* src/apps/api/src/services/syncTasks/scheduler.ts:157-238 tick *)
definition tick ::
    "(string \<Rightarrow> ms \<Rightarrow> ms option) \<Rightarrow> ms \<Rightarrow> directory_state list \<Rightarrow> ms \<Rightarrow> process \<Rightarrow> task_db
     \<Rightarrow> (nat \<times> SyncTaskKey) list \<times> process \<times> task_db" where
  "tick cron tz directories now s db =
     (let db = seedAll directories now db;
          allEnabled = listAllEnabled db;
          db = watchdog s now db;
          dueByDirectory = pickDueTasks (forced s) (\<lambda>row. isDueNow cron tz row now) allEnabled [];
          (runs, s) = startDue directories dueByDirectory s
      in (runs, s, db))"

section \<open>Runs\<close>

datatype phase =
    Claimed                 \<comment> \<open>waiting for a connection and the lock\<close>
  | Locked                  \<comment> \<open>in \<open>runTaskInProcess\<close>, before \<open>markStarted\<close>\<close>
  | Running "nat \<times> ms"      \<comment> \<open>the runner is at work; its history row and start\<close>
  | Released                \<comment> \<open>done and released in memory, the lock not yet\<close>

record activity =
  ac_id :: nat
  ac_process :: nat
  ac_providerId :: nat
  ac_taskKey :: SyncTaskKey
  ac_trigger :: run_trigger
  ac_phase :: phase

record cluster =
  processes :: "nat \<Rightarrow> process"
  lock_of :: "nat \<Rightarrow> nat option"  \<comment> \<open>a directory's advisory lock: the activity whose connection holds it\<close>
  activities :: "activity list"
  next_activity :: nat
  cl_db :: task_db

definition at_process :: "nat \<Rightarrow> (process \<Rightarrow> process) \<Rightarrow> cluster \<Rightarrow> cluster" where
  "at_process i f c = c\<lparr>processes := (processes c)(i := f (processes c i))\<rparr>"

definition set_phase :: "nat \<Rightarrow> phase \<Rightarrow> cluster \<Rightarrow> cluster" where
  "set_phase i ph c = c\<lparr>activities := update_where (\<lambda>a. ac_id a = i) (ac_phase_update (\<lambda>_. ph)) (activities c)\<rparr>"

definition drop_activity :: "nat \<Rightarrow> cluster \<Rightarrow> cluster" where
  "drop_activity i c = c\<lparr>activities := filter (\<lambda>a. ac_id a \<noteq> i) (activities c)\<rparr>"

definition add_activity :: "nat \<Rightarrow> nat \<Rightarrow> SyncTaskKey \<Rightarrow> cluster \<Rightarrow> cluster" where
  "add_activity i providerId key c =
     c\<lparr>activities := activities c @ [\<lparr>ac_id = next_activity c, ac_process = i, ac_providerId = providerId,
          ac_taskKey = key, ac_trigger = Cadence, ac_phase = Claimed\<rparr>],
       next_activity := Suc (next_activity c)\<rparr>"

text \<open>A process claims a task and starts its run, or is turned away.\<close>

definition begin_run :: "nat \<Rightarrow> nat \<Rightarrow> SyncTaskKey \<Rightarrow> cluster \<Rightarrow> cluster" where
  "begin_run i providerId key c =
     (case claimTask providerId key (processes c i) of
        None \<Rightarrow> c
      | Some s \<Rightarrow> add_activity i providerId key (at_process i (\<lambda>_. s) c))"

text \<open>Nothing to run on: no connection, or the lock is another run's.\<close>

definition turn_away :: "activity \<Rightarrow> cluster \<Rightarrow> cluster" where
  "turn_away a c =
     drop_activity (ac_id a) (at_process (ac_process a) (releaseTask (ac_providerId a) (ac_taskKey a)) c)"

(* src/apps/api/src/services/syncTasks/scheduler.ts:327-349 runTask *)
definition take_lock :: "activity \<Rightarrow> cluster \<Rightarrow> cluster" where
  "take_lock a c = set_phase (ac_id a) Locked (c\<lparr>lock_of := (lock_of c)(ac_providerId a := Some (ac_id a))\<rparr>)"

text \<open>
  The start of \<open>runTaskInProcess\<close>: whether the run was asked for is read, and the wish cleared.
  Without credentials or the integration the run is over.
\<close>

definition clear_wish :: "activity \<Rightarrow> process \<Rightarrow> process" where
  "clear_wish a s = s\<lparr>forced := (forced s)(ac_providerId a :=
                        filter (\<lambda>k. k \<noteq> ac_taskKey a) (forced s (ac_providerId a)))\<rparr>"

definition release_run :: "activity \<Rightarrow> SyncTaskKey list \<Rightarrow> cluster \<Rightarrow> cluster" where
  "release_run a triggers c =
     set_phase (ac_id a) Released
       (at_process (ac_process a) (\<lambda>s. fold (triggerNow (ac_providerId a)) triggers
          (releaseTask (ac_providerId a) (ac_taskKey a) s)) c)"

(* src/apps/api/src/services/syncTasks/scheduler.ts:359-430 runTaskInProcess *)
definition start_run :: "activity \<Rightarrow> directory_state list \<Rightarrow> ms \<Rightarrow> cluster \<Rightarrow> cluster" where
  "start_run a directories now c =
     (let wished = ac_taskKey a \<in> set (forced (processes c (ac_process a)) (ac_providerId a));
          c = at_process (ac_process a) (clear_wish a) c
      in if \<not> runnable directories (ac_providerId a) (ac_taskKey a) then release_run a [] c
         else (let (started, db) = markStarted (ac_providerId a) (ac_taskKey a)
                                     (if wished then Forced else Cadence) now (cl_db c)
               in set_phase (ac_id a) (Running started) (c\<lparr>cl_db := db\<rparr>)))"

text \<open>
  The end of a run: what its runner gave or threw, whether that could be recorded, and the tasks
  the runner asked for, none if it threw.
\<close>

(* src/apps/api/src/services/syncTasks/scheduler.ts:454-503 runTaskInProcess *)
definition finish_run :: "activity \<Rightarrow> nat \<times> ms \<Rightarrow> run_end \<Rightarrow> SyncTaskKey list \<Rightarrow> bool \<Rightarrow> ms \<Rightarrow> cluster \<Rightarrow> cluster" where
  "finish_run a started result triggers recorded now c =
     (let c = (if recorded
               then c\<lparr>cl_db := snd (markFinished (ac_providerId a) (ac_taskKey a) result (Some started) now (cl_db c))\<rparr>
               else c)
      in release_run a triggers c)"

definition unlock :: "activity \<Rightarrow> cluster \<Rightarrow> cluster" where
  "unlock a c = drop_activity (ac_id a) (c\<lparr>lock_of := (lock_of c)(ac_providerId a := None)\<rparr>)"

text \<open>A process dies: its connections close, and with them its locks.\<close>

definition crash :: "nat \<Rightarrow> cluster \<Rightarrow> cluster" where
  "crash i c =
     c\<lparr>processes := (processes c)(i := idle_process),
       lock_of := (\<lambda>p. case lock_of c p of
                        None \<Rightarrow> None
                      | Some x \<Rightarrow> if \<exists>a \<in> set (activities c). ac_id a = x \<and> ac_process a = i then None else Some x),
       activities := filter (\<lambda>a. ac_process a \<noteq> i) (activities c)\<rparr>"

definition initial_cluster :: "cluster \<Rightarrow> bool" where
  "initial_cluster c \<longleftrightarrow> processes c = (\<lambda>_. idle_process) \<and> lock_of c = (\<lambda>_. None) \<and> activities c = []"

inductive cluster_step :: "cluster \<Rightarrow> cluster \<Rightarrow> bool" where
  Trigger: "cluster_step c (at_process i (triggerNow p k) c)"
| Seed: "cluster_step c (c\<lparr>cl_db := ensureSeeded p e now (cl_db c)\<rparr>)"
| Reset: "cluster_step c (c\<lparr>cl_db := resetStuck p k (Watchdog n) now (cl_db c)\<rparr>)"
| Edit: "cluster_step c (c\<lparr>cl_db := snd (update cron tz now p k patch (cl_db c))\<rparr>)"
| Remove: "cluster_step c (c\<lparr>cl_db := removeTasks p ks (cl_db c)\<rparr>)"
| Begin: "cluster_step c (begin_run i p k c)"
| Turned_away: "a \<in> set (activities c) \<Longrightarrow> ac_phase a = Claimed \<Longrightarrow> cluster_step c (turn_away a c)"
| Lock: "a \<in> set (activities c) \<Longrightarrow> ac_phase a = Claimed \<Longrightarrow> lock_of c (ac_providerId a) = None \<Longrightarrow>
    cluster_step c (take_lock a c)"
| Start: "a \<in> set (activities c) \<Longrightarrow> ac_phase a = Locked \<Longrightarrow> cluster_step c (start_run a ds now c)"
| Start_failed: "a \<in> set (activities c) \<Longrightarrow> ac_phase a = Locked \<Longrightarrow>
    cluster_step c (release_run a [] (c\<lparr>cl_db := snd (markFinished (ac_providerId a) (ac_taskKey a)
      (Ended_failed e) None now (cl_db c))\<rparr>))"
| Finish: "a \<in> set (activities c) \<Longrightarrow> ac_phase a = Running started \<Longrightarrow>
    cluster_step c (finish_run a started result triggers recorded now c)"
| Unlock: "a \<in> set (activities c) \<Longrightarrow> ac_phase a = Released \<Longrightarrow> cluster_step c (unlock a c)"
| Crash: "cluster_step c (crash i c)"

text \<open>What a finished run tells the operator's channels.\<close>

datatype sync_event =
    Task_recovered nat SyncTaskKey nat                    \<comment> \<open>\<open>previousFailures\<close>\<close>
  | Task_failed nat SyncTaskKey task_error nat
  | Task_failed_threshold nat SyncTaskKey task_error nat nat

(* src/apps/api/src/services/syncTasks/scheduler.ts:505-560 fireNotifications *)
definition fireNotifications :: "nat \<Rightarrow> SyncTaskKey \<Rightarrow> MarkFinishedResult \<Rightarrow> task_error option \<Rightarrow> sync_event list" where
  "fireNotifications providerId key result error =
     (if mf_recovered result then [Task_recovered providerId key (mf_consecutiveFailures result)] else [])
     @ (case error of
          None \<Rightarrow> []
        | Some e \<Rightarrow> Task_failed providerId key e (mf_consecutiveFailures result)
            # (if mf_crossedThreshold result
               then [Task_failed_threshold providerId key e (mf_consecutiveFailures result) (mf_threshold result)]
               else []))"

end
