(* ===== verification/SchedulerClaims.thy ===== *)
theory SchedulerClaims
  imports Scheduler
begin

text \<open>
  What the scheduler promises. Over every interleaving of several processes, their crashes
  included, no two runs of a directory are at work at once, and a directory is claimed in a process
  exactly while a run of it is there. A tick picks what an operator asked for first, then by
  priority; a wish that cannot be granted keeps the directory from running anything else.
\<close>

section \<open>The invariant of the runs\<close>

text \<open>An advisory lock is held by the run of its directory that is past waiting for it.\<close>

definition locks_ok :: "activity set \<Rightarrow> (nat \<Rightarrow> nat option) \<Rightarrow> bool" where
  "locks_ok S lock \<longleftrightarrow> (\<forall>p x. lock p = Some x \<longleftrightarrow>
     (\<exists>a \<in> S. ac_id a = x \<and> ac_providerId a = p \<and> ac_phase a \<noteq> Claimed))"

definition unreleased :: "activity set \<Rightarrow> nat \<Rightarrow> activity set" where
  "unreleased S i = {a \<in> S. ac_process a = i \<and> ac_phase a \<noteq> Released}"

text \<open>What a process holds in memory is what its runs claim, one for each directory.\<close>

definition claims_of :: "activity set \<Rightarrow> process \<Rightarrow> bool" where
  "claims_of U s \<longleftrightarrow> set (inFlightByDirectory s) = ac_providerId ` U
     \<and> set (inFlight s) = (\<lambda>a. (ac_providerId a, ac_taskKey a)) ` U \<and> inj_on ac_providerId U"

definition claims_ok :: "activity set \<Rightarrow> (nat \<Rightarrow> process) \<Rightarrow> bool" where
  "claims_ok S procs \<longleftrightarrow> (\<forall>i. claims_of (unreleased S i) (procs i))"

definition cluster_inv :: "cluster \<Rightarrow> bool" where
  "cluster_inv c \<longleftrightarrow> distinct (map ac_id (activities c))
     \<and> (\<forall>a \<in> set (activities c). ac_id a < next_activity c)
     \<and> locks_ok (set (activities c)) (lock_of c)
     \<and> claims_ok (set (activities c)) (processes c)"

lemma update_where_one:
  assumes "distinct (map k xs)" "x \<in> set xs"
  shows "set (update_where (\<lambda>y. k y = k x) f xs) = insert (f x) {y \<in> set xs. k y \<noteq> k x}"
proof -
  have "y = x" if "y \<in> set xs" "k y = k x" for y using distinct_key_eq [OF assms(1) that(1) assms(2) that(2)] .
  then show ?thesis using assms(2) by (auto simp: set_update_where)
qed

text \<open>A run changes its phase, or goes: the other runs stay.\<close>

lemma split_activity:
  assumes "cluster_inv c" "a \<in> set (activities c)"
  obtains R where "set (activities c) = insert a R" "\<forall>b \<in> R. ac_id b \<noteq> ac_id a"
    and "\<And>ph c'. activities c' = activities c \<Longrightarrow>
           set (activities (set_phase (ac_id a) ph c')) = insert (a\<lparr>ac_phase := ph\<rparr>) R"
    and "\<And>c'. activities c' = activities c \<Longrightarrow> set (activities (drop_activity (ac_id a) c')) = R"
proof
  let ?R = "{b \<in> set (activities c). ac_id b \<noteq> ac_id a}"
  have d: "distinct (map ac_id (activities c))" using assms(1) by (simp add: cluster_inv_def)
  show "set (activities c) = insert a ?R"
    using assms(2) distinct_key_eq [OF d] by auto
  show "set (activities (set_phase (ac_id a) ph c')) = insert (a\<lparr>ac_phase := ph\<rparr>) ?R"
    if "activities c' = activities c" for ph c'
    using update_where_one [OF d assms(2), of "ac_phase_update (\<lambda>_. ph)"] that by (simp add: set_phase_def)
  show "set (activities (drop_activity (ac_id a) c')) = ?R" if "activities c' = activities c" for c'
    using that by (auto simp: drop_activity_def)
qed simp

lemma unreleased_insert:
  "unreleased (insert a R) i = (if ac_process a = i \<and> ac_phase a \<noteq> Released then insert a (unreleased R i) else unreleased R i)"
  by (auto simp: unreleased_def)

lemma locks_keep:
  assumes "locks_ok (insert a R) lock" "ac_id a' = ac_id a" "ac_providerId a' = ac_providerId a"
    and "ac_phase a' \<noteq> Claimed \<longleftrightarrow> ac_phase a \<noteq> Claimed"
  shows "locks_ok (insert a' R) lock"
  using assms by (simp add: locks_ok_def)

lemma locks_take:
  assumes "locks_ok (insert a R) lock" "\<forall>b \<in> R. ac_id b \<noteq> ac_id a" "lock (ac_providerId a) = None"
    and "ac_id a' = ac_id a" "ac_providerId a' = ac_providerId a" "ac_phase a = Claimed" "ac_phase a' \<noteq> Claimed"
  shows "locks_ok (insert a' R) (lock(ac_providerId a := Some (ac_id a)))"
  unfolding locks_ok_def
proof (intro allI)
  fix p x
  have old: "lock p = Some x \<longleftrightarrow> (\<exists>b \<in> R. ac_id b = x \<and> ac_providerId b = p \<and> ac_phase b \<noteq> Claimed)" for p x
    using assms(1,6) by (simp add: locks_ok_def)
  have "\<not> (\<exists>b \<in> R. ac_providerId b = ac_providerId a \<and> ac_phase b \<noteq> Claimed)"
    using old [of "ac_providerId a"] assms(3) by (metis option.distinct(1))
  then show "(lock(ac_providerId a := Some (ac_id a))) p = Some x \<longleftrightarrow>
      (\<exists>b \<in> insert a' R. ac_id b = x \<and> ac_providerId b = p \<and> ac_phase b \<noteq> Claimed)"
    using old [of p x] assms(4,5,7) by (cases "p = ac_providerId a") auto
qed

lemma locks_drop:
  assumes "locks_ok (insert a R) lock" "ac_phase a = Claimed"
  shows "locks_ok R lock"
  using assms by (simp add: locks_ok_def)

lemma locks_free:
  assumes "locks_ok (insert a R) lock" "\<forall>b \<in> R. ac_id b \<noteq> ac_id a" "ac_phase a \<noteq> Claimed"
  shows "locks_ok R (lock(ac_providerId a := None))"
  unfolding locks_ok_def
proof (intro allI)
  fix p x
  have old: "lock p = Some x \<longleftrightarrow> (\<exists>b \<in> insert a R. ac_id b = x \<and> ac_providerId b = p \<and> ac_phase b \<noteq> Claimed)" for p x
    using assms(1) by (simp add: locks_ok_def)
  have "lock (ac_providerId a) = Some (ac_id a)" using old assms(3) by auto
  then have "\<not> (\<exists>b \<in> R. ac_providerId b = ac_providerId a \<and> ac_phase b \<noteq> Claimed)"
    using old assms(2) by (metis insertI2 option.inject)
  then show "(lock(ac_providerId a := None)) p = Some x \<longleftrightarrow>
      (\<exists>b \<in> R. ac_id b = x \<and> ac_providerId b = p \<and> ac_phase b \<noteq> Claimed)"
    using old [of p x] by (cases "p = ac_providerId a") auto
qed

lemma claims_of_swap:
  assumes "claims_of (insert a U) s" "a \<notin> U" "a' \<notin> U" "ac_providerId a' = ac_providerId a" "ac_taskKey a' = ac_taskKey a"
  shows "claims_of (insert a' U) s"
  using assms by (simp add: claims_of_def inj_on_insert)

lemma claims_of_release:
  assumes "claims_of (insert a U) s" "a \<notin> U"
  shows "claims_of U (releaseTask (ac_providerId a) (ac_taskKey a) s)"
proof -
  have "ac_providerId a \<notin> ac_providerId ` U" using assms by (simp add: claims_of_def inj_on_insert)
  then have "\<forall>b \<in> U. ac_providerId b \<noteq> ac_providerId a" by (metis imageI)
  then show ?thesis using assms unfolding claims_of_def releaseTask_def by auto
qed

lemma claims_of_claim:
  assumes "claims_of U s" "claimTask (ac_providerId a) (ac_taskKey a) s = Some s'"
  shows "claims_of (insert a U) s'"
  using assms by (auto simp: claims_of_def claimTask_def inj_on_insert split: if_splits)

lemma claims_of_same: "inFlight s' = inFlight s \<Longrightarrow> inFlightByDirectory s' = inFlightByDirectory s \<Longrightarrow>
    claims_of U s' = claims_of U s"
  by (simp add: claims_of_def)

lemma not_unreleased: "a \<notin> R \<Longrightarrow> a \<notin> unreleased R i"
  by (simp add: unreleased_def)

lemma claims_keep:
  assumes "claims_ok (insert a R) procs" "a \<notin> R" "a' \<notin> R"
    and "ac_process a' = ac_process a" "ac_providerId a' = ac_providerId a" "ac_taskKey a' = ac_taskKey a"
    and "ac_phase a' \<noteq> Released \<longleftrightarrow> ac_phase a \<noteq> Released"
  shows "claims_ok (insert a' R) procs"
  unfolding claims_ok_def unreleased_insert
proof
  fix i
  have "claims_of (unreleased (insert a R) i) (procs i)" using assms(1) by (simp add: claims_ok_def)
  then show "claims_of (if ac_process a' = i \<and> ac_phase a' \<noteq> Released then insert a' (unreleased R i)
      else unreleased R i) (procs i)"
    using claims_of_swap [of a "unreleased R i" "procs i" a'] not_unreleased [OF assms(2)] not_unreleased [OF assms(3)] assms(4-)
    by (cases "ac_process a = i"; cases "ac_phase a = Released") (simp_all add: unreleased_insert)
qed

lemma claims_release:
  assumes "claims_ok (insert a R) procs" "a \<notin> R" "ac_phase a \<noteq> Released"
    and "inFlight s = inFlight (releaseTask (ac_providerId a) (ac_taskKey a) (procs (ac_process a)))"
    and "inFlightByDirectory s = inFlightByDirectory (releaseTask (ac_providerId a) (ac_taskKey a) (procs (ac_process a)))"
  shows "claims_ok R (procs(ac_process a := s))"
  unfolding claims_ok_def
proof
  fix i
  have c: "claims_of (unreleased (insert a R) i) (procs i)" using assms(1) by (simp add: claims_ok_def)
  show "claims_of (unreleased R i) ((procs(ac_process a := s)) i)"
  proof (cases "i = ac_process a")
    case True
    then have "claims_of (insert a (unreleased R i)) (procs i)" using c assms(3) by (simp add: unreleased_insert)
    from claims_of_release [OF this not_unreleased [OF assms(2)]] True show ?thesis
      using claims_of_same [OF assms(4,5)] by simp
  next
    case False
    then show ?thesis using c by (simp add: unreleased_insert)
  qed
qed

lemma claims_released: "ac_phase a = Released \<Longrightarrow> claims_ok (insert a R) procs = claims_ok R procs"
  by (simp add: claims_ok_def unreleased_insert)

lemma claims_process:
  assumes "claims_ok S procs" "inFlight s = inFlight (procs i)" "inFlightByDirectory s = inFlightByDirectory (procs i)"
  shows "claims_ok S (procs(i := s))"
  using assms claims_of_same [OF assms(2,3)] by (simp add: claims_ok_def)

lemma claims_add:
  assumes "claims_ok S procs" "claimTask (ac_providerId a) (ac_taskKey a) (procs (ac_process a)) = Some s"
    and "ac_phase a \<noteq> Released"
  shows "claims_ok (insert a S) (procs(ac_process a := s))"
  unfolding claims_ok_def
proof
  fix i
  have "claims_of (unreleased S i) (procs i)" using assms(1) by (simp add: claims_ok_def)
  then show "claims_of (unreleased (insert a S) i) ((procs(ac_process a := s)) i)"
    using claims_of_claim [of "unreleased S (ac_process a)" "procs (ac_process a)" a s] assms(2,3)
    by (cases "i = ac_process a") (simp_all add: unreleased_insert)
qed

lemma triggers_claims [simp]:
  "inFlight (fold (triggerNow p) ks s) = inFlight s"
  "inFlightByDirectory (fold (triggerNow p) ks s) = inFlightByDirectory s"
  by (induction ks arbitrary: s) (simp_all add: triggerNow_def)

section \<open>Every step keeps it\<close>

lemma release_run_inv:
  assumes "cluster_inv c" "a \<in> set (activities c)" "ac_phase a \<noteq> Released" "ac_phase a \<noteq> Claimed"
    and "activities c' = activities c" "lock_of c' = lock_of c" "next_activity c' = next_activity c"
    and "\<And>i. inFlight (processes c' i) = inFlight (processes c i)"
    and "\<And>i. inFlightByDirectory (processes c' i) = inFlightByDirectory (processes c i)"
  shows "cluster_inv (release_run a ks c')"
proof -
  obtain R where R: "set (activities c) = insert a R" "\<forall>b \<in> R. ac_id b \<noteq> ac_id a"
    and ph: "\<And>ph c'. activities c' = activities c \<Longrightarrow> set (activities (set_phase (ac_id a) ph c')) = insert (a\<lparr>ac_phase := ph\<rparr>) R"
    using split_activity [OF assms(1,2)] by metis
  let ?a = "a\<lparr>ac_phase := Released\<rparr>"
  let ?p = "\<lambda>s. fold (triggerNow (ac_providerId a)) ks (releaseTask (ac_providerId a) (ac_taskKey a) s)"
  have acts: "set (activities (release_run a ks c')) = insert ?a R"
    unfolding release_run_def by (rule ph) (simp add: at_process_def assms(5))
  have ids: "map ac_id (activities (release_run a ks c')) = map ac_id (activities c)"
    by (simp add: release_run_def set_phase_def at_process_def map_update_where assms(5))
  have nR: "a \<notin> R" using R(2) by blast
  have procs: "processes (release_run a ks c') = (processes c')(ac_process a := ?p (processes c' (ac_process a)))"
    and lock: "lock_of (release_run a ks c') = lock_of c" and nx: "next_activity (release_run a ks c') = next_activity c"
    using assms(6,7) by (simp_all add: release_run_def set_phase_def at_process_def)
  have cl: "claims_ok (insert a R) (processes c')"
    using assms(1) R(1) claims_of_same [OF assms(8,9)] by (simp add: cluster_inv_def claims_ok_def)
  have "claims_ok R (processes (release_run a ks c'))"
    unfolding procs by (rule claims_release [OF cl nR assms(3)]) simp_all
  then have "claims_ok (insert ?a R) (processes (release_run a ks c'))" by (simp add: claims_released)
  moreover have "locks_ok (insert ?a R) (lock_of c)"
    using locks_keep [of a R "lock_of c" ?a] assms(1,4) R(1) by (simp add: cluster_inv_def)
  moreover have "\<forall>b \<in> insert ?a R. ac_id b < next_activity c" using assms(1) R(1) by (simp add: cluster_inv_def)
  ultimately show ?thesis using assms(1) unfolding cluster_inv_def acts ids lock nx by simp
qed

lemma cluster_inv_db: "cluster_inv (c\<lparr>cl_db := d\<rparr>) = cluster_inv c"
  by (simp add: cluster_inv_def)

lemma begin_run_inv:
  assumes "cluster_inv c"
  shows "cluster_inv (begin_run i p k c)"
proof (cases "claimTask p k (processes c i)")
  case None
  then show ?thesis using assms by (simp add: begin_run_def)
next
  case (Some s)
  let ?a = "\<lparr>ac_id = next_activity c, ac_process = i, ac_providerId = p, ac_taskKey = k, ac_trigger = Cadence, ac_phase = Claimed\<rparr>"
  have b: "activities (begin_run i p k c) = activities c @ [?a]"
    "lock_of (begin_run i p k c) = lock_of c" "processes (begin_run i p k c) = (processes c)(i := s)"
    "next_activity (begin_run i p k c) = Suc (next_activity c)"
    using Some by (simp_all add: begin_run_def add_activity_def at_process_def)
  have "next_activity c \<notin> ac_id ` set (activities c)" using assms by (auto simp: cluster_inv_def)
  moreover have "\<forall>b \<in> insert ?a (set (activities c)). ac_id b < Suc (next_activity c)"
    using assms by (auto simp: cluster_inv_def less_Suc_eq)
  moreover have "locks_ok (insert ?a (set (activities c))) (lock_of c)" using assms by (simp add: cluster_inv_def locks_ok_def)
  moreover have "claims_ok (insert ?a (set (activities c))) ((processes c)(i := s))"
    using claims_add [of "set (activities c)" "processes c" ?a s] assms Some by (simp add: cluster_inv_def)
  ultimately show ?thesis using assms unfolding cluster_inv_def b by simp
qed

lemma turn_away_inv:
  assumes "cluster_inv c" "a \<in> set (activities c)" "ac_phase a = Claimed"
  shows "cluster_inv (turn_away a c)"
proof -
  obtain R where R: "set (activities c) = insert a R" "\<forall>b \<in> R. ac_id b \<noteq> ac_id a"
    and d: "\<And>c'. activities c' = activities c \<Longrightarrow> set (activities (drop_activity (ac_id a) c')) = R"
    using split_activity [OF assms(1,2)] by metis
  have acts: "set (activities (turn_away a c)) = R" unfolding turn_away_def by (rule d) (simp add: at_process_def)
  have ids: "distinct (map ac_id (activities (turn_away a c)))"
    using assms(1) by (simp add: turn_away_def drop_activity_def at_process_def cluster_inv_def distinct_map_filter)
  have rest: "lock_of (turn_away a c) = lock_of c" "next_activity (turn_away a c) = next_activity c"
    "processes (turn_away a c) = (processes c)(ac_process a := releaseTask (ac_providerId a) (ac_taskKey a) (processes c (ac_process a)))"
    by (simp_all add: turn_away_def drop_activity_def at_process_def)
  have "locks_ok R (lock_of c)" by (rule locks_drop [of a]) (use assms R in \<open>simp_all add: cluster_inv_def\<close>)
  moreover have "claims_ok R (processes (turn_away a c))"
    unfolding rest by (rule claims_release [of a]) (use assms R in \<open>auto simp: cluster_inv_def\<close>)
  moreover have "\<forall>b \<in> R. ac_id b < next_activity c" using assms(1) R(1) by (simp add: cluster_inv_def)
  ultimately show ?thesis using ids unfolding cluster_inv_def acts rest by simp
qed

lemma take_lock_inv:
  assumes "cluster_inv c" "a \<in> set (activities c)" "ac_phase a = Claimed" "lock_of c (ac_providerId a) = None"
  shows "cluster_inv (take_lock a c)"
proof -
  obtain R where R: "set (activities c) = insert a R" "\<forall>b \<in> R. ac_id b \<noteq> ac_id a"
    and ph: "\<And>ph c'. activities c' = activities c \<Longrightarrow> set (activities (set_phase (ac_id a) ph c')) = insert (a\<lparr>ac_phase := ph\<rparr>) R"
    using split_activity [OF assms(1,2)] by metis
  let ?a = "a\<lparr>ac_phase := Locked\<rparr>"
  have acts: "set (activities (take_lock a c)) = insert ?a R" unfolding take_lock_def by (rule ph) simp
  have rest: "lock_of (take_lock a c) = (lock_of c)(ac_providerId a := Some (ac_id a))"
    "next_activity (take_lock a c) = next_activity c" "processes (take_lock a c) = processes c"
    "map ac_id (activities (take_lock a c)) = map ac_id (activities c)"
    by (simp_all add: take_lock_def set_phase_def map_update_where)
  have nR: "a \<notin> R" "?a \<notin> R" using R(2) by auto
  have "locks_ok (insert ?a R) ((lock_of c)(ac_providerId a := Some (ac_id a)))"
    by (rule locks_take [of a]) (use assms R in \<open>simp_all add: cluster_inv_def\<close>)
  moreover have "claims_ok (insert ?a R) (processes c)"
    by (rule claims_keep [OF _ nR]) (use assms R in \<open>simp_all add: cluster_inv_def\<close>)
  moreover have "\<forall>b \<in> insert ?a R. ac_id b < next_activity c" using assms(1) R(1) by (simp add: cluster_inv_def)
  ultimately show ?thesis using assms(1) unfolding cluster_inv_def acts rest by simp
qed

lemma unlock_inv:
  assumes "cluster_inv c" "a \<in> set (activities c)" "ac_phase a = Released"
  shows "cluster_inv (unlock a c)"
proof -
  obtain R where R: "set (activities c) = insert a R" "\<forall>b \<in> R. ac_id b \<noteq> ac_id a"
    and d: "\<And>c'. activities c' = activities c \<Longrightarrow> set (activities (drop_activity (ac_id a) c')) = R"
    using split_activity [OF assms(1,2)] by metis
  have acts: "set (activities (unlock a c)) = R" unfolding unlock_def by (rule d) simp
  have ids: "distinct (map ac_id (activities (unlock a c)))"
    using assms(1) by (simp add: unlock_def drop_activity_def cluster_inv_def distinct_map_filter)
  have rest: "lock_of (unlock a c) = (lock_of c)(ac_providerId a := None)" "next_activity (unlock a c) = next_activity c"
    "processes (unlock a c) = processes c" by (simp_all add: unlock_def drop_activity_def)
  have "locks_ok R ((lock_of c)(ac_providerId a := None))"
    by (rule locks_free [OF _ R(2)]) (use assms R in \<open>simp_all add: cluster_inv_def\<close>)
  moreover have "claims_ok R (processes c)" using assms R(1) by (simp add: cluster_inv_def claims_released)
  moreover have "\<forall>b \<in> R. ac_id b < next_activity c" using assms(1) R(1) by (simp add: cluster_inv_def)
  ultimately show ?thesis using ids unfolding cluster_inv_def acts rest by simp
qed

lemma start_run_inv:
  assumes "cluster_inv c" "a \<in> set (activities c)" "ac_phase a = Locked"
  shows "cluster_inv (start_run a ds now c)"
proof (cases "runnable ds (ac_providerId a) (ac_taskKey a)")
  case False
  then have "start_run a ds now c = release_run a [] (at_process (ac_process a) (clear_wish a) c)"
    by (simp add: start_run_def Let_def)
  then show ?thesis
    using release_run_inv [OF assms(1,2), of "at_process (ac_process a) (clear_wish a) c" "[]"] assms(3)
    by (simp add: at_process_def clear_wish_def)
next
  case True
  obtain R where R: "set (activities c) = insert a R" "\<forall>b \<in> R. ac_id b \<noteq> ac_id a"
    and ph: "\<And>ph c'. activities c' = activities c \<Longrightarrow> set (activities (set_phase (ac_id a) ph c')) = insert (a\<lparr>ac_phase := ph\<rparr>) R"
    using split_activity [OF assms(1,2)] by metis
  let ?c = "at_process (ac_process a) (clear_wish a) c"
  obtain st db where st: "start_run a ds now c = set_phase (ac_id a) (Running st) (?c\<lparr>cl_db := db\<rparr>)"
    using True by (simp add: start_run_def Let_def case_prod_beta)
  let ?a = "a\<lparr>ac_phase := Running st\<rparr>"
  have acts: "set (activities (start_run a ds now c)) = insert ?a R" unfolding st by (rule ph) (simp add: at_process_def)
  have rest: "lock_of (start_run a ds now c) = lock_of c" "next_activity (start_run a ds now c) = next_activity c"
    "processes (start_run a ds now c) = (processes c)(ac_process a := clear_wish a (processes c (ac_process a)))"
    "map ac_id (activities (start_run a ds now c)) = map ac_id (activities c)"
    by (simp_all add: st set_phase_def at_process_def map_update_where)
  have nR: "a \<notin> R" "?a \<notin> R" using R(2) by auto
  have "locks_ok (insert ?a R) (lock_of c)"
    by (rule locks_keep [of a]) (use assms R in \<open>simp_all add: cluster_inv_def\<close>)
  moreover have "claims_ok (insert ?a R) (processes c)"
    by (rule claims_keep [OF _ nR]) (use assms R in \<open>simp_all add: cluster_inv_def\<close>)
  then have "claims_ok (insert ?a R) (processes (start_run a ds now c))"
    unfolding rest by (rule claims_process) (simp_all add: clear_wish_def)
  moreover have "\<forall>b \<in> insert ?a R. ac_id b < next_activity c" using assms(1) R(1) by (simp add: cluster_inv_def)
  ultimately show ?thesis using assms(1) unfolding cluster_inv_def acts rest by simp
qed

lemma crash_inv:
  assumes "cluster_inv c"
  shows "cluster_inv (crash i c)"
proof -
  let ?S = "set (activities c)" and ?S' = "{a \<in> set (activities c). ac_process a \<noteq> i}"
  have d: "a = b" if "a \<in> ?S" "b \<in> ?S" "ac_id a = ac_id b" for a b
    using assms that distinct_key_eq [of ac_id "activities c" a b] by (simp add: cluster_inv_def)
  have l: "lock_of c p = Some x \<longleftrightarrow> (\<exists>a \<in> ?S. ac_id a = x \<and> ac_providerId a = p \<and> ac_phase a \<noteq> Claimed)" for p x
    using assms by (simp add: cluster_inv_def locks_ok_def)
  have "locks_ok ?S' (lock_of (crash i c))"
    unfolding locks_ok_def
  proof (intro allI)
    fix p x
    have "lock_of (crash i c) p = Some x \<longleftrightarrow> lock_of c p = Some x \<and> \<not> (\<exists>a \<in> ?S. ac_id a = x \<and> ac_process a = i)"
      by (auto simp: crash_def split: option.splits)
    also have "\<dots> \<longleftrightarrow> (\<exists>a \<in> ?S'. ac_id a = x \<and> ac_providerId a = p \<and> ac_phase a \<noteq> Claimed)"
      unfolding l using d by blast
    finally show "lock_of (crash i c) p = Some x \<longleftrightarrow>
        (\<exists>a \<in> ?S'. ac_id a = x \<and> ac_providerId a = p \<and> ac_phase a \<noteq> Claimed)" .
  qed
  moreover have "claims_ok ?S' (processes (crash i c))"
    unfolding claims_ok_def
  proof
    fix j
    have "unreleased ?S' j = (if j = i then {} else unreleased ?S j)" by (auto simp: unreleased_def)
    then show "claims_of (unreleased ?S' j) (processes (crash i c) j)"
      using assms by (simp add: crash_def cluster_inv_def claims_ok_def claims_of_def idle_process_def)
  qed
  moreover have "distinct (map ac_id (activities (crash i c)))" "next_activity (crash i c) = next_activity c"
    "set (activities (crash i c)) = ?S'"
    using assms by (auto simp: crash_def cluster_inv_def distinct_map_filter)
  ultimately show ?thesis using assms by (simp add: cluster_inv_def)
qed

lemma cluster_step_inv:
  assumes "cluster_step c c'" "cluster_inv c"
  shows "cluster_inv c'"
  using assms
proof (induction rule: cluster_step.induct)
  case (Trigger c i p k)
  then show ?case using claims_process [of "set (activities c)" "processes c" "triggerNow p k (processes c i)" i]
    by (simp add: cluster_inv_def at_process_def triggerNow_def)
next
  case (Start_failed a c e now)
  then show ?case using release_run_inv [of c a "c\<lparr>cl_db := snd (markFinished (ac_providerId a) (ac_taskKey a) (Ended_failed e) None now (cl_db c))\<rparr>" "[]"]
    by simp
next
  case (Finish a c started result triggers recorded now)
  show ?case unfolding finish_run_def Let_def
    by (rule release_run_inv [of c]) (use Finish in auto)
qed (simp_all add: cluster_inv_db begin_run_inv turn_away_inv take_lock_inv start_run_inv unlock_inv crash_inv)

interpretation cluster: transition_system initial_cluster cluster_step cluster_inv
proof
  show "cluster_inv c" if "initial_cluster c" for c
    using that by (simp add: initial_cluster_def cluster_inv_def locks_ok_def claims_ok_def claims_of_def
        unreleased_def idle_process_def)
  show "cluster_inv c'" if "cluster_inv c" "cluster_step c c'" for c c'
    by (rule cluster_step_inv [OF that(2,1)])
qed

section \<open>One run of a directory at a time\<close>

text \<open>
  C38. Over any number of API processes, in any order of their steps and with crashes, no two runs
  of the same directory are ever past the lock at once.
\<close>

theorem one_run_per_directory:
  assumes "initial_cluster c0" "cluster_step\<^sup>*\<^sup>* c0 c"
    and "a \<in> set (activities c)" "ac_phase a \<noteq> Claimed" "b \<in> set (activities c)" "ac_phase b \<noteq> Claimed"
    and "ac_providerId a = ac_providerId b"
  shows "a = b"
proof -
  have inv: "cluster_inv c" by (rule cluster.inv_reachable [OF assms(1,2)])
  then have "lock_of c (ac_providerId a) = Some (ac_id a)" "lock_of c (ac_providerId b) = Some (ac_id b)"
    using assms(3-6) by (auto simp: cluster_inv_def locks_ok_def)
  then have "ac_id a = ac_id b" using assms(7) by simp
  then show ?thesis using inv assms(3,5) distinct_key_eq [of ac_id] by (auto simp: cluster_inv_def)
qed

definition ex_start :: cluster where
  "ex_start = \<lparr>processes = (\<lambda>_. idle_process), lock_of = (\<lambda>_. None), activities = [], next_activity = 0,
     cl_db = \<lparr>tasks = [new_task 1 ''users.full'' 0, new_task 1 ''entra.licenses.groups'' 0], task_runs = [], next_run_id = 1\<rparr>\<rparr>"

definition ex_activity :: "nat \<Rightarrow> phase \<Rightarrow> activity" where
  "ex_activity i ph = \<lparr>ac_id = i, ac_process = i, ac_providerId = 1, ac_taskKey = Users_full,
     ac_trigger = Cadence, ac_phase = ph\<rparr>"

definition ex_two :: cluster where
  "ex_two = take_lock (ex_activity 0 Claimed) (begin_run 1 1 Users_full (begin_run 0 1 Users_full ex_start))"

lemma ex_two_reachable: "cluster_step\<^sup>*\<^sup>* ex_start ex_two"
proof -
  let ?c = "begin_run 1 1 Users_full (begin_run 0 1 Users_full ex_start)"
  have "activities ?c = [ex_activity 0 Claimed, ex_activity 1 Claimed]" "lock_of ?c = (\<lambda>_. None)"
    by (simp_all add: begin_run_def claimTask_def add_activity_def at_process_def ex_start_def idle_process_def
        ex_activity_def)
  then have "cluster_step ?c ex_two" unfolding ex_two_def by (intro Lock) (simp_all add: ex_activity_def)
  moreover have "cluster_step (begin_run 0 1 Users_full ex_start) ?c" by (rule Begin)
  moreover have "cluster_step ex_start (begin_run 0 1 Users_full ex_start)" by (rule Begin)
  ultimately show ?thesis by (meson rtranclp.rtrancl_into_rtrancl rtranclp.rtrancl_refl)
qed

lemma ex_two_activities: "activities ex_two = [ex_activity 0 Locked, ex_activity 1 Claimed]"
  by (simp add: ex_two_def take_lock_def set_phase_def begin_run_def claimTask_def add_activity_def at_process_def
      ex_start_def idle_process_def ex_activity_def)

lemma ex_start_initial: "initial_cluster ex_start"
  by (simp add: initial_cluster_def ex_start_def)

theorem one_run_per_directory_witness:
  "list_ex (\<lambda>a. ac_phase a \<noteq> Claimed) (activities ex_two) \<and> length (activities ex_two) = 2
   \<and> \<not> list_ex (\<lambda>b. ac_id b = 1 \<and> ac_phase b \<noteq> Claimed) (activities ex_two)"
proof -
  have "ex_activity 0 Locked = b" if "b \<in> set (activities ex_two)" "ac_phase b \<noteq> Claimed" for b
    by (rule one_run_per_directory [OF ex_start_initial ex_two_reachable])
      (use that in \<open>auto simp: ex_two_activities ex_activity_def\<close>)
  then have "\<not> list_ex (\<lambda>b. ac_id b = 1 \<and> ac_phase b \<noteq> Claimed) (activities ex_two)"
    by (force simp: list_ex_iff ex_activity_def)
  then show ?thesis by (simp add: ex_two_activities ex_activity_def)
qed

text \<open>
  A process holds a directory as busy exactly while a run of it, not yet released, is there: no
  claim is left behind whatever way a run ends.
\<close>

theorem claims_are_of_live_runs:
  assumes "initial_cluster c0" "cluster_step\<^sup>*\<^sup>* c0 c"
  shows "p \<in> set (inFlightByDirectory (processes c i)) \<longleftrightarrow>
    list_ex (\<lambda>a. ac_process a = i \<and> ac_providerId a = p \<and> ac_phase a \<noteq> Released) (activities c)"
proof -
  have "claims_of (unreleased (set (activities c)) i) (processes c i)"
    using cluster.inv_reachable [OF assms] by (simp add: cluster_inv_def claims_ok_def)
  then show ?thesis by (auto simp: claims_of_def unreleased_def list_ex_iff)
qed

theorem claims_are_of_live_runs_witness:
  "1 \<in> set (inFlightByDirectory (processes ex_two 0)) \<and> 2 \<notin> set (inFlightByDirectory (processes ex_two 0))"
  unfolding claims_are_of_live_runs [OF ex_start_initial ex_two_reachable]
  by (simp add: ex_two_activities ex_activity_def)

section \<open>What a tick picks\<close>

definition candidate_of :: "(nat \<Rightarrow> SyncTaskKey list) \<Rightarrow> nat \<Rightarrow> SyncTaskRow \<Rightarrow> candidate" where
  "candidate_of asked p row = \<lparr>ca_taskKey = st_taskKey row, ca_priority = td_priority (TASK_REGISTRY (st_taskKey row)),
     ca_forced = (st_taskKey row \<in> set (asked p))\<rparr>"

text \<open>A candidate goes before another: asked for, or of a smaller priority number.\<close>

definition before :: "candidate \<Rightarrow> candidate \<Rightarrow> bool" where
  "before c d \<longleftrightarrow> (ca_forced c \<and> \<not> ca_forced d) \<or> (ca_forced c = ca_forced d \<and> ca_priority c < ca_priority d)"

definition eligible :: "(nat \<Rightarrow> SyncTaskKey list) \<Rightarrow> (SyncTaskRow \<Rightarrow> bool) \<Rightarrow> nat \<Rightarrow> SyncTaskRow \<Rightarrow> bool" where
  "eligible asked due p row \<longleftrightarrow> st_taskKey row \<in> set (asked p) \<or> due row"

text \<open>What is left at the end for a directory: the best of what it started with and its eligible rows.\<close>

definition best_of :: "candidate option \<Rightarrow> candidate list \<Rightarrow> candidate option" where
  "best_of c cs = fold (\<lambda>d best. case best of None \<Rightarrow> Some d | Some e \<Rightarrow> if before d e then Some d else best) cs c"

lemma pick_best_of:
  "jm_get (pickDueTasks asked due rows cs) p =
     best_of (jm_get cs p) (map (candidate_of asked p) (map snd (filter (\<lambda>(q, row). q = p \<and> eligible asked due p row) rows)))"
proof (induction rows arbitrary: cs)
  case (Cons pr rest)
  obtain q row where pr: "pr = (q, row)" by (metis surj_pair)
  show ?case
  proof (cases "eligible asked due q row")
    case False
    then have "pickDueTasks asked due ((q, row) # rest) cs = pickDueTasks asked due rest cs"
      by (simp add: Let_def eligible_def)
    with False show ?thesis using Cons.IH [of cs] by (auto simp: pr)
  next
    case True
    let ?n = "candidate_of asked q row"
    let ?cs = "if (case jm_get cs q of None \<Rightarrow> True | Some e \<Rightarrow> before ?n e) then jm_set q ?n cs else cs"
    have step: "pickDueTasks asked due ((q, row) # rest) cs = pickDueTasks asked due rest ?cs"
      using True by (auto simp: Let_def eligible_def before_def candidate_of_def split: option.splits)
    show ?thesis unfolding pr step Cons.IH [of ?cs] using True
      by (auto simp: best_of_def split: option.splits)
  qed
qed (simp add: best_of_def)

lemma best_of_some:
  "best_of None (d # ds) = best_of (Some d) ds"
  by (simp add: best_of_def)

lemma best_of_is_best:
  "best_of (Some c) cs = Some e \<Longrightarrow> e \<in> insert c (set cs) \<and> \<not> before c e \<and> list_all (\<lambda>d. \<not> before d e) cs"
proof (induction cs arbitrary: c)
  case (Cons d ds)
  then have "best_of (if before d c then Some d else Some c) ds = Some e" by (simp add: best_of_def)
  with Cons.IH [of d] Cons.IH [of c] show ?case by (cases "before d c") (auto simp: before_def)
qed (simp add: best_of_def before_def)

lemma best_of_exists: "best_of (Some c) cs \<noteq> None"
  by (induction cs arbitrary: c) (auto simp: best_of_def)

text \<open>
  C39. A tick picks for a directory one of its tasks that is asked for or due, none goes before it,
  and it picks one whenever there is one.
\<close>

theorem tick_picks_the_first_in_line:
  assumes "(p, row) \<in> set rows" "eligible asked due p row"
  shows "\<exists>row'. (p, row') \<in> set rows \<and> eligible asked due p row'
     \<and> jm_get (pickDueTasks asked due rows []) p = Some (candidate_of asked p row')
     \<and> \<not> before (candidate_of asked p row) (candidate_of asked p row')"
proof -
  let ?rs = "map snd (filter (\<lambda>(q, row). q = p \<and> eligible asked due p row) rows)"
  have mem: "r \<in> set ?rs \<longleftrightarrow> (p, r) \<in> set rows \<and> eligible asked due p r" for r by force
  then have row: "row \<in> set ?rs" using assms by simp
  then obtain d ds where ds: "?rs = d # ds" by (cases ?rs) auto
  have pick: "jm_get (pickDueTasks asked due rows []) p = best_of (Some (candidate_of asked p d)) (map (candidate_of asked p) ds)"
    unfolding pick_best_of ds by (simp add: best_of_some)
  then obtain e where e: "jm_get (pickDueTasks asked due rows []) p = Some e" using best_of_exists by (metis option.exhaust)
  with pick best_of_is_best [of "candidate_of asked p d" "map (candidate_of asked p) ds" e]
  have b: "e \<in> candidate_of asked p ` set ?rs" "\<forall>r \<in> set ?rs. \<not> before (candidate_of asked p r) e"
    unfolding ds by (auto simp: list_all_iff)
  then show ?thesis using e mem row by blast
qed

definition ex_db :: task_db where
  "ex_db = \<lparr>tasks = [new_task 1 ''users.full'' 0, new_task 1 ''entra.licenses.groups'' 0], task_runs = [], next_run_id = 1\<rparr>"

definition ex_row :: "SyncTaskKey \<Rightarrow> SyncTaskRow" where
  "ex_row k = row_view (new_task 1 (key_name k) 0) k"

lemma ex_enabled: "listAllEnabled ex_db = [(1, ex_row Users_full), (1, ex_row Entra_licenses_groups)]"
  by (simp add: listAllEnabled_def ex_db_def new_task_def isKnownTaskKey_def TASK_KEYS_def ex_row_def)

theorem tick_picks_the_first_in_line_witness:
  "\<exists>row'. jm_get (pickDueTasks (\<lambda>_. []) (\<lambda>_. True) (listAllEnabled ex_db) []) 1 = Some (candidate_of (\<lambda>_. []) 1 row')
     \<and> \<not> before (candidate_of (\<lambda>_. []) 1 (ex_row Users_full)) (candidate_of (\<lambda>_. []) 1 row')"
  using tick_picks_the_first_in_line [of 1 "ex_row Users_full" "listAllEnabled ex_db" "\<lambda>_. []" "\<lambda>_. True"]
  by (auto simp: ex_enabled eligible_def)

section \<open>A wish that cannot be granted\<close>

lemma pick_wf: "jm_wf cs \<Longrightarrow> jm_wf (pickDueTasks asked due rows cs)"
  by (induction rows arbitrary: cs) (auto simp: Let_def split: prod.splits)

lemma startDue_runs:
  "(p, k) \<in> set (fst (startDue ds cs s)) \<Longrightarrow> \<exists>c. (p, c) \<in> set cs \<and> ca_taskKey c = k \<and> runnable ds p k"
  "forced (snd (startDue ds cs s)) = forced s"
  by (induction ds cs s rule: startDue.induct)
    (auto simp: case_prod_beta claimTask_def Let_def split: if_splits option.splits)

text \<open>
  A task an operator asked for that cannot run, as one of Entra's where the integration has
  been disabled, keeps its directory from running any task: every tick picks it, starts nothing,
  and leaves the wish standing for the next one.
\<close>

theorem ungranted_wish_starves_the_directory:
  assumes "forced s p = [k]" "\<not> runnable ds p k"
    and "(p, row) \<in> set (listAllEnabled (seedAll ds now db))" "st_taskKey row = k"
  shows "filter (\<lambda>r. fst r = p) (fst (tick cron tz ds now s db)) = []
    \<and> forced (fst (snd (tick cron tz ds now s db))) p = [k]"
proof
  let ?rows = "listAllEnabled (seedAll ds now db)" and ?due = "\<lambda>row. isDueNow cron tz row now"
  let ?cs = "pickDueTasks (forced s) ?due ?rows []"
  have tick: "fst (tick cron tz ds now s db) = fst (startDue ds ?cs s)"
    "fst (snd (tick cron tz ds now s db)) = snd (startDue ds ?cs s)" by (simp_all add: tick_def Let_def case_prod_beta)
  have "best_of None (map (candidate_of (forced s) p) (map snd (filter (\<lambda>(q, row). q = p \<and> eligible (forced s) ?due p row) ?rows)))
      = jm_get ?cs p" by (simp add: pick_best_of)
  have "k' = k" if run: "(p, k') \<in> set (fst (startDue ds ?cs s))" for k'
  proof -
    obtain c where c: "(p, c) \<in> set ?cs" "ca_taskKey c = k'" using startDue_runs(1) [OF run] by blast
    have "jm_wf ?cs" by (rule pick_wf) simp
    with c(1) have got: "jm_get ?cs p = Some c" by (simp add: jm_get_in)
    let ?rs = "map snd (filter (\<lambda>(q, row). q = p \<and> eligible (forced s) ?due p row) ?rows)"
    have mem: "r \<in> set ?rs \<longleftrightarrow> (p, r) \<in> set ?rows \<and> eligible (forced s) ?due p r" for r by force
    have row: "row \<in> set ?rs" by (rule mem [THEN iffD2]) (use assms in \<open>simp add: eligible_def\<close>)
    then obtain d rs where rs: "?rs = d # rs" by (cases ?rs) auto
    have "best_of (Some (candidate_of (forced s) p d)) (map (candidate_of (forced s) p) rs) = Some c"
      using got unfolding pick_best_of rs by (simp add: best_of_some)
    from best_of_is_best [OF this]
    have b: "c \<in> candidate_of (forced s) p ` set ?rs" "\<forall>r \<in> set ?rs. \<not> before (candidate_of (forced s) p r) c"
      unfolding rs by (auto simp: list_all_iff)
    then have "ca_forced c" using row assms(1,4) by (auto simp: before_def candidate_of_def)
    with b(1) assms(1) have "ca_taskKey c = k" by (auto simp: candidate_of_def)
    with c(2) show ?thesis by simp
  qed
  then have "p \<noteq> fst r" if "r \<in> set (fst (startDue ds ?cs s))" for r
    using that startDue_runs(1) [of p k ds ?cs s] assms(2) by (metis prod.collapse)
  then show "filter (\<lambda>r. fst r = p) (fst (tick cron tz ds now s db)) = []" unfolding tick by (auto simp: filter_empty_conv)
  show "forced (fst (snd (tick cron tz ds now s db))) p = [k]" unfolding tick by (simp add: startDue_runs(2) assms(1))
qed

definition ex_directory :: directory_state where
  "ex_directory = \<lparr>ds_id = 1, ds_configured = True, ds_hasSyncBind = True, ds_hasEntra = False\<rparr>"

definition ex_wishing :: process where
  "ex_wishing = triggerNow 1 Entra_licenses_groups idle_process"

theorem ungranted_wish_starves_the_directory_witness:
  "fst (tick (\<lambda>_ _. None) 0 [ex_directory] 1000 idle_process ex_db) = [(1, Users_locked)]
   \<and> filter (\<lambda>r. fst r = 1) (fst (tick (\<lambda>_ _. None) 0 [ex_directory] 1000 ex_wishing ex_db)) = []"
proof
  show "fst (tick (\<lambda>_ _. None) 0 [ex_directory] 1000 idle_process ex_db) = [(1, Users_locked)]" by code_simp
  show "filter (\<lambda>r. fst r = 1) (fst (tick (\<lambda>_ _. None) 0 [ex_directory] 1000 ex_wishing ex_db)) = []"
  proof (rule conjunct1 [OF ungranted_wish_starves_the_directory])
    show "forced ex_wishing 1 = [Entra_licenses_groups]" by (simp add: ex_wishing_def triggerNow_def set_add_def idle_process_def)
    show "\<not> runnable [ex_directory] 1 Entra_licenses_groups" by (simp add: runnable_def ex_directory_def task_def_def)
    show "(1, ex_row Entra_licenses_groups) \<in> set (listAllEnabled (seedAll [ex_directory] 1000 ex_db))"
      using ex_enabled by (simp add: seedAll_def ensureSeeded_def listAllEnabled_def ex_directory_def)
    show "st_taskKey (ex_row Entra_licenses_groups) = Entra_licenses_groups" by (simp add: ex_row_def row_view_def)
  qed
qed

section \<open>Failures in a row\<close>

lemma find_update_where:
  assumes "\<And>r. P (f r) = P r"
  shows "find P (update_where P f rs) = map_option f (find P rs)"
  using assms by (induction rs) auto

lemma is_task_simps [simp]:
  "is_task p k (tk_last_finished_at_update a r) = is_task p k r"
  "is_task p k (tk_last_status_update b r) = is_task p k r"
  "is_task p k (tk_last_error_update c r) = is_task p k r"
  "is_task p k (tk_consecutive_failures_update d r) = is_task p k r"
  "is_task p k (tk_updated_at_update e r) = is_task p k r"
  "is_task p k (tk_last_cursor_update f r) = is_task p k r"
  "is_task p k (tk_last_stats_json_update g r) = is_task p k r"
  by (simp_all add: is_task_def)

lemma markFinished_failures:
  assumes "find (is_task p (key_name k)) (tasks db) = Some r"
  shows "\<exists>r'. find (is_task p (key_name k)) (tasks (snd (markFinished p k res st t db))) = Some r'
    \<and> tk_consecutive_failures r' = (case res of Ended_ok _ _ \<Rightarrow> 0 | _ \<Rightarrow> tk_consecutive_failures r + 1)"
  using assms by (cases res; cases st) (auto simp: markFinished_def Let_def find_update_where case_prod_beta)

text \<open>A number of runs that all fail, and which of them raises the alert.\<close>

fun failing_runs :: "nat \<Rightarrow> SyncTaskKey \<Rightarrow> task_error list \<Rightarrow> ms \<Rightarrow> task_db \<Rightarrow> bool list" where
  "failing_runs p k [] now db = []"
| "failing_runs p k (e # es) now db =
     (let (result, db) = markFinished p k (Ended_failed e) None now db
      in mf_crossedThreshold result # failing_runs p k es now db)"

lemma failing_runs_alerts:
  assumes "find (is_task p (key_name k)) (tasks db) = Some r"
  shows "failing_runs p k es now db =
    map (\<lambda>i. tk_consecutive_failures r + i + 1 = td_notifyAfterFailures (TASK_REGISTRY k)) [0..<length es]"
  using assms
proof (induction es arbitrary: db r)
  case (Cons e es)
  let ?n = "td_notifyAfterFailures (TASK_REGISTRY k)"
  obtain r' where r': "find (is_task p (key_name k)) (tasks (snd (markFinished p k (Ended_failed e) None now db))) = Some r'"
    "tk_consecutive_failures r' = tk_consecutive_failures r + 1"
    using markFinished_failures [OF Cons.prems, of "Ended_failed e" None now] by auto
  have f: "mf_crossedThreshold (fst (markFinished p k (Ended_failed e) None now db)) \<longleftrightarrow> tk_consecutive_failures r + 1 = ?n"
    using Cons.prems by (auto simp: markFinished_def Let_def)
  have "[0..<length (e # es)] = 0 # map Suc [0..<length es]" by (simp add: upt_conv_Cons map_Suc_upt del: upt_Suc)
  then show ?case using f Cons.IH [OF r'(1)] r'(2) by (simp add: case_prod_beta Let_def)
qed simp

text \<open>
  After a run that succeeded, the alert of a task is raised by exactly one of the failures that
  follow in a row: the one that brings their number to the task's threshold.
\<close>

theorem alert_is_raised_once:
  assumes "find (is_task p (key_name k)) (tasks db) = Some r"
  shows "failing_runs p k es now (snd (markFinished p k (Ended_ok cursor stats) started t db)) =
    map (\<lambda>i. i + 1 = td_notifyAfterFailures (TASK_REGISTRY k)) [0..<length es]"
proof -
  obtain r' where "find (is_task p (key_name k)) (tasks (snd (markFinished p k (Ended_ok cursor stats) started t db))) = Some r'"
    "tk_consecutive_failures r' = 0"
    using markFinished_failures [OF assms, of "Ended_ok cursor stats" started t] by auto
  from failing_runs_alerts [OF this(1)] this(2) show ?thesis by simp
qed

theorem alert_is_raised_once_witness:
  "failing_runs 1 Users_full [Watchdog 60, Watchdog 60, Watchdog 60] 9
     (snd (markFinished 1 Users_full (Ended_ok None []) None 5 ex_db)) = [False, True, False]"
proof -
  have f: "find (is_task 1 (key_name Users_full)) (tasks ex_db) = Some (new_task 1 ''users.full'' 0)"
    by (simp add: ex_db_def is_task_def new_task_def)
  show ?thesis unfolding alert_is_raised_once [OF f] by (simp add: task_def_def upt_rec)
qed

section \<open>Where the next delta begins\<close>

text \<open>
  A run that succeeds moves the start of the next delta to its own start, not its end; one that
  fails leaves it, so that what changed meanwhile is asked for again.
\<close>

theorem next_delta_begins_at_the_last_start:
  assumes "list_all (\<lambda>r. rn_id r < next_run_id db \<and> rn_started_at r \<le> t) (task_runs db)"
  shows "lastSuccessfulStartAt p k (snd (markFinished p k (Ended_ok cursor stats)
           (Some (fst (markStarted p k trigger t db))) t' (snd (markStarted p k trigger t db)))) = Some t
    \<and> lastSuccessfulStartAt p k (snd (markFinished p k (Ended_failed e)
           (Some (fst (markStarted p k trigger t db))) t' (snd (markStarted p k trigger t db))))
        = lastSuccessfulStartAt p k db"
proof
  let ?new = "\<lparr>rn_id = next_run_id db, rn_provider_id = p, rn_task_key = key_name k, rn_status = T_running,
                 rn_started_at = t, rn_finished_at = None, rn_duration_ms = None, rn_error = None,
                 rn_stats_json = None, rn_trigger = trigger\<rparr>"
  have old: "update_where (\<lambda>r. rn_id r = next_run_id db) f (task_runs db) = task_runs db" for f
    by (rule update_where_none) (use assms in \<open>auto simp: list_all_iff\<close>)
  have app: "update_where P f (xs @ ys) = update_where P f xs @ update_where P f ys" for P f and xs ys :: "run_row list"
    by (simp add: update_where_def)
  have le: "x \<le> t" if "x \<in> rn_started_at ` {r \<in> set (task_runs db). Q r}" for x Q
    using assms that by (auto simp: list_all_iff)
  have "Max (insert t (rn_started_at ` {r \<in> set (task_runs db). Q r})) = t" for Q
    by (rule Max_eqI) (use le in auto)
  then show "lastSuccessfulStartAt p k (snd (markFinished p k (Ended_ok cursor stats)
           (Some (fst (markStarted p k trigger t db))) t' (snd (markStarted p k trigger t db)))) = Some t"
    by (simp add: lastSuccessfulStartAt_def markFinished_def markStarted_def Let_def app old newest_of_def)
  show "lastSuccessfulStartAt p k (snd (markFinished p k (Ended_failed e)
           (Some (fst (markStarted p k trigger t db))) t' (snd (markStarted p k trigger t db))))
        = lastSuccessfulStartAt p k db"
    by (simp add: lastSuccessfulStartAt_def markFinished_def markStarted_def Let_def app old)
qed

theorem next_delta_begins_at_the_last_start_witness:
  "lastSuccessfulStartAt 1 Users_delta (snd (markFinished 1 Users_delta (Ended_ok None [])
     (Some (fst (markStarted 1 Users_delta Forced 100 ex_db))) 900 (snd (markStarted 1 Users_delta Forced 100 ex_db)))) = Some 100"
  by (rule conjunct1 [OF next_delta_begins_at_the_last_start]) (simp add: ex_db_def)

end
