(* ===== verification/AdCodec.thy ===== *)
theory AdCodec
  imports RawAttributes DistinguishedNames "HOL-Library.Word"
begin

unbundle bit_operations_syntax

text \<open>
  The conversions of the Active Directory provider
  (\<^verbatim>\<open>providers/active-directory/utils.ts\<close>): GUIDs and SIDs between their bytes and their text,
  FILETIMEs and policy durations, the account-control bits, the escapes of a search filter and of
  a DN, and the encoding of a password. A thrown error is \<open>None\<close> where the caller sees no more of it
  than that. Integers that the code holds as \<open>bigint\<close> are unbounded; what it applies a bitwise operator
  to is taken to 32 bits first, as the language does.
\<close>

section \<open>Numbers as text\<close>

text \<open>
  The whole number a text writes, as \<open>BigInt(s)\<close> reads it and, on such a text, \<open>Number(s)\<close>: white
  space around it, an empty text for 0, digits with an optional sign, or a prefixed hexadecimal,
  octal or binary literal. Fractions and exponents, which \<open>Number\<close> reads too, are not represented.
\<close>

definition digit_value :: "char \<Rightarrow> nat" where
  "digit_value c = (let n = of_char c in if n < 58 then n - 48 else if n < 91 then n - 55 else n - 87)"

definition digits_in :: "nat \<Rightarrow> string \<Rightarrow> bool" where
  "digits_in base s \<longleftrightarrow> s \<noteq> [] \<and> list_all (\<lambda>c. is_hex c \<and> digit_value c < base) s"

definition value_in :: "nat \<Rightarrow> string \<Rightarrow> nat" where
  "value_in base s = foldl (\<lambda>n c. base * n + digit_value c) 0 s"

definition literal_base :: "char \<Rightarrow> nat option" where
  "literal_base c =
     (if c \<in> {CHR ''x'', CHR ''X''} then Some 16 else if c \<in> {CHR ''o'', CHR ''O''} then Some 8
      else if c \<in> {CHR ''b'', CHR ''B''} then Some 2 else None)"

definition decimal :: "string \<Rightarrow> int option" where
  "decimal s = (if s \<noteq> [] \<and> list_all is_digit s then Some (int (digits_value s)) else None)"

definition whole_number :: "string \<Rightarrow> int option" where
  "whole_number s =
     (case trim s of
        [] \<Rightarrow> Some 0
      | c # t \<Rightarrow>
          if c = CHR ''-'' then map_option uminus (decimal t)
          else if c = CHR ''+'' then decimal t
          else (case if c = CHR ''0'' \<and> t \<noteq> [] then literal_base (hd t) else None of
              None \<Rightarrow> decimal (c # t)
            | Some base \<Rightarrow> if digits_in base (tl t) then Some (int (value_in base (tl t))) else None))"

text \<open>\<open>Number.parseInt(s, 10)\<close>: white space, a sign, and the digits that follow; \<open>None\<close> for NaN.\<close>

definition parseInt :: "string \<Rightarrow> int option" where
  "parseInt s =
     (let t = trim_start s;
          neg = (case t of c # _ \<Rightarrow> c = CHR ''-'' | [] \<Rightarrow> False);
          u = (case t of c # v \<Rightarrow> if c = CHR ''-'' \<or> c = CHR ''+'' then v else t | [] \<Rightarrow> []);
          ds = takeWhile is_digit u
      in if ds = [] then None
         else Some (if neg then - int (digits_value ds) else int (digits_value ds)))"

text \<open>The operand of a bitwise operator: the number to 32 bits, NaN as 0.\<close>

definition to_int32 :: "int option \<Rightarrow> 32 word" where
  "to_int32 n = (case n of None \<Rightarrow> 0 | Some i \<Rightarrow> word_of_int i)"

text \<open>A byte in two hexadecimal digits (\<open>toString(16).padStart(2, '0')\<close>).\<close>

definition hex_digit :: "nat \<Rightarrow> char" where
  "hex_digit n = char_of (if n < 10 then 48 + n else 87 + n)"

definition hex2 :: "nat \<Rightarrow> string" where
  "hex2 b = [hex_digit (b div 16), hex_digit (b mod 16)]"

text \<open>\<open>Buffer.from(s, 'hex')\<close> on a text of hexadecimal digits, an even number of them.\<close>

fun of_hex :: "string \<Rightarrow> bytes" where
  "of_hex (a # b # s) = (16 * digit_value a + digit_value b) # of_hex s"
| "of_hex _ = []"

section \<open>objectGUID\<close>

(* src/apps/api/src/providers/active-directory/utils.ts:25-38 objectGuidToString *)
definition objectGuidToString :: "bytes \<Rightarrow> string option" where
  "objectGuidToString buf =
     (if length buf \<noteq> 16 then None
      else let hex = (\<lambda>i. hex2 (buf ! i));
               a = hex 3 @ hex 2 @ hex 1 @ hex 0;
               b = hex 5 @ hex 4;
               c = hex 7 @ hex 6;
               d = hex 8 @ hex 9;
               e = hex 10 @ hex 11 @ hex 12 @ hex 13 @ hex 14 @ hex 15
           in Some (a @ ''-'' @ b @ ''-'' @ c @ ''-'' @ d @ ''-'' @ e))"

(* src/apps/api/src/providers/active-directory/utils.ts:44-69 objectGuidFromString *)
definition objectGuidFromString :: "string \<Rightarrow> bytes option" where
  "objectGuidFromString uuid =
     (let clean = filter (\<lambda>c. c \<noteq> CHR ''-'') uuid
      in if length clean \<noteq> 32 \<or> (\<exists>c \<in> set clean. \<not> is_hex c) then None
         else let bytes = of_hex clean
              in Some (map ((!) bytes) [3, 2, 1, 0, 5, 4, 7, 6, 8, 9, 10, 11, 12, 13, 14, 15]))"

(* src/apps/api/src/providers/active-directory/utils.ts:72-78 bufferToLdapFilterValue *)
definition bufferToLdapFilterValue :: "bytes \<Rightarrow> string" where
  "bufferToLdapFilterValue buf = concat (map (\<lambda>b. backslash # hex2 b) buf)"

section \<open>objectSid\<close>

text \<open>\<open>buf.readUInt32LE(offset)\<close> of the first four bytes.\<close>

definition uint32_le :: "bytes \<Rightarrow> nat" where
  "uint32_le bs = bs ! 0 + 256 * (bs ! 1 + 256 * (bs ! 2 + 256 * bs ! 3))"

(* src/apps/api/src/providers/active-directory/utils.ts:91-116 sidToString *)
definition sidToString :: "bytes \<Rightarrow> string option" where
  "sidToString buf =
     (if length buf < 8 then None
      else let revision = buf ! 0; subAuthCount = buf ! 1
           in if length buf \<noteq> 8 + subAuthCount * 4 then None
              else let identifierAuthority = foldl (\<lambda>a b. a * 256 + b) 0 (take 6 (drop 2 buf));
                       subAuths = map (\<lambda>i. dec_nat (uint32_le (drop (8 + i * 4) buf))) [0..<subAuthCount]
                   in Some (''S-'' @ dec_nat revision @ ''-'' @ dec_nat identifierAuthority
                            @ (if subAuths \<noteq> [] then ''-'' @ join ''-'' subAuths else [])))"

section \<open>FILETIME\<close>

text \<open>
  What these functions take: null or undefined, the text of an LDAP attribute, or a number
  (\<open>V_fraction\<close>: one that isn't whole, which \<open>BigInt\<close> throws on).
\<close>

datatype ldap_number = V_missing | V_text string | V_number int | V_fraction

(* src/apps/api/src/providers/active-directory/utils.ts:122-122 FILETIME_TO_UNIX_EPOCH_DIFF_MS *)
definition FILETIME_TO_UNIX_EPOCH_DIFF_MS :: int where
  "FILETIME_TO_UNIX_EPOCH_DIFF_MS = 11644473600000"

(* src/apps/api/src/providers/active-directory/utils.ts:124-124 FILETIME_MAX *)
definition FILETIME_MAX :: int where
  "FILETIME_MAX = 0x7fffffffffffffff"

definition to_big :: "ldap_number \<Rightarrow> int option" where
  "to_big v = (case v of V_missing \<Rightarrow> None | V_text s \<Rightarrow> whole_number s | V_number i \<Rightarrow> Some i | V_fraction \<Rightarrow> None)"

text \<open>
  The division rounds towards zero, and both operands are positive. The date is never out of
  JavaScript's range: see the bounds below.
\<close>

(* src/apps/api/src/providers/active-directory/utils.ts:130-145 filetimeToDate *)
definition filetimeToDate :: "ldap_number \<Rightarrow> ms option" where
  "filetimeToDate v =
     (if v = V_missing \<or> v = V_text '''' \<or> v = V_text ''0'' then None
      else case to_big v of
          None \<Rightarrow> None
        | Some big \<Rightarrow>
            if big \<le> 0 \<or> FILETIME_MAX \<le> big then None
            else Some (big div 10000 - FILETIME_TO_UNIX_EPOCH_DIFF_MS))"

(* src/apps/api/src/providers/active-directory/utils.ts:148-150 dateToFiletime *)
definition dateToFiletime :: "ms \<Rightarrow> string" where
  "dateToFiletime date = dec ((date + FILETIME_TO_UNIX_EPOCH_DIFF_MS) * 10000)"

(* src/apps/api/src/providers/active-directory/utils.ts:153-153 FILETIME_NEVER *)
definition FILETIME_NEVER :: string where
  "FILETIME_NEVER = dec FILETIME_MAX"

(* src/apps/api/src/providers/active-directory/utils.ts:187-187 AD_DURATION_NEVER *)
definition AD_DURATION_NEVER :: int where
  "AD_DURATION_NEVER = - (2 ^ 63)"

abbreviation MAX_SAFE_INTEGER :: int where "MAX_SAFE_INTEGER \<equiv> 9007199254740991"

(* src/apps/api/src/providers/active-directory/utils.ts:202-217 adDurationToMs *)
definition adDurationToMs :: "ldap_number \<Rightarrow> ms option" where
  "adDurationToMs v =
     (if v = V_missing \<or> v = V_text '''' then None
      else case to_big v of
          None \<Rightarrow> None
        | Some big \<Rightarrow>
            if big = 0 \<or> big = AD_DURATION_NEVER then Some 0
            else let duration = \<bar>big\<bar> div 10000
                 in if MAX_SAFE_INTEGER < duration then None else Some duration)"

(* src/apps/api/src/providers/active-directory/utils.ts:224-226 lockoutTimeToDate *)
definition lockoutTimeToDate :: "ldap_number \<Rightarrow> ms option" where
  "lockoutTimeToDate v = filetimeToDate v"

(* src/apps/api/src/providers/active-directory/utils.ts:238-247 isLocked *)
definition isLocked :: "ldap_number \<Rightarrow> bool" where
  "isLocked lockoutTime =
     (if lockoutTime = V_missing \<or> lockoutTime = V_text '''' then False
      else if lockoutTime = V_text ''0'' \<or> lockoutTime = V_number 0 then False
      else case to_big lockoutTime of
          None \<Rightarrow> False
        | Some big \<Rightarrow> 0 < big \<and> big < FILETIME_MAX)"

section \<open>userAccountControl\<close>

(* src/apps/api/src/providers/active-directory/utils.ts:158-165 UAC *)
abbreviation UAC_ACCOUNTDISABLE :: "32 word" where "UAC_ACCOUNTDISABLE \<equiv> 0x0002"
abbreviation UAC_LOCKOUT :: "32 word" where "UAC_LOCKOUT \<equiv> 0x0010"
abbreviation UAC_PASSWD_NOTREQD :: "32 word" where "UAC_PASSWD_NOTREQD \<equiv> 0x0020"
abbreviation UAC_DONT_EXPIRE_PASSWORD :: "32 word" where "UAC_DONT_EXPIRE_PASSWORD \<equiv> 0x10000"
abbreviation UAC_PASSWORD_EXPIRED :: "32 word" where "UAC_PASSWORD_EXPIRED \<equiv> 0x800000"
abbreviation UAC_NORMAL_ACCOUNT :: "32 word" where "UAC_NORMAL_ACCOUNT \<equiv> 0x0200"

(* src/apps/api/src/providers/active-directory/utils.ts:167-172 AccountControlState *)
record account_control =
  ac_enabled :: bool
  ac_passwordNeverExpires :: bool
  ac_passwordExpired :: bool
  ac_passwordNotRequired :: bool

text \<open>The state a value's bits name.\<close>

definition control_state :: "32 word \<Rightarrow> account_control" where
  "control_state uac =
     \<lparr>ac_enabled = (uac AND UAC_ACCOUNTDISABLE = 0),
      ac_passwordNeverExpires = (uac AND UAC_DONT_EXPIRE_PASSWORD \<noteq> 0),
      ac_passwordExpired = (uac AND UAC_PASSWORD_EXPIRED \<noteq> 0),
      ac_passwordNotRequired = (uac AND UAC_PASSWD_NOTREQD \<noteq> 0)\<rparr>"

text \<open>A text is read by \<open>parseInt\<close>; a number that isn't whole loses its fraction, which no caller gives.\<close>

(* src/apps/api/src/providers/active-directory/utils.ts:174-185 parseUserAccountControl *)
definition parseUserAccountControl :: "ldap_number \<Rightarrow> account_control" where
  "parseUserAccountControl v =
     control_state (to_int32 (case v of V_text s \<Rightarrow> parseInt s | V_number i \<Rightarrow> Some i | _ \<Rightarrow> Some 0))"

section \<open>Escapes\<close>

definition filter_special :: "char \<Rightarrow> bool" where
  "filter_special c \<longleftrightarrow> c \<in> {backslash, CHR ''*'', CHR ''('', CHR '')'', CHR 0x00}"

(* src/apps/api/src/providers/active-directory/utils.ts:255-267 escapeLdapFilter *)
definition escapeLdapFilter :: "string \<Rightarrow> string" where
  "escapeLdapFilter input =
     concat (map (\<lambda>ch. if filter_special ch then backslash # hex2 (of_char ch) else [ch]) input)"

definition dn_special :: "char \<Rightarrow> bool" where
  "dn_special c \<longleftrightarrow> c \<in> {CHR '','', CHR ''+'', quote, backslash, CHR ''<'', CHR ''>'', CHR '';'', CHR ''=''}"

(* src/apps/api/src/providers/active-directory/utils.ts:274-286 escapeDnValue *)
definition escapeDnValue :: "string \<Rightarrow> string" where
  "escapeDnValue input =
     (if input = [] then input
      else let out = concat (map (\<lambda>ch. if dn_special ch then [backslash, ch] else [ch]) input);
               out = (if starts_with out ''#'' \<or> starts_with out '' '' then backslash # out else out)
           in if ends_with out '' '' then butlast out @ [backslash, CHR '' ''] else out)"

section \<open>Passwords\<close>

text \<open>UTF-16 in little-endian: a code unit of the represented range has a high byte of 0.\<close>

definition utf16le :: "string \<Rightarrow> bytes" where
  "utf16le s = concat (map (\<lambda>c. [of_char c, 0]) s)"

(* src/apps/api/src/providers/active-directory/utils.ts:295-298 encodeUnicodePassword *)
definition encodeUnicodePassword :: "string \<Rightarrow> bytes" where
  "encodeUnicodePassword plaintext = utf16le (quote # plaintext @ [quote])"

(* src/apps/api/src/providers/active-directory/utils.ts:306-308 defaultComputerPassword *)
definition defaultComputerPassword :: "string \<Rightarrow> string" where
  "defaultComputerPassword samAccountName =
     take 14 (to_lower (if ends_with samAccountName ''$'' then butlast samAccountName else samAccountName))"

end
