(* ===== verification/AdCodecClaims.thy ===== *)
theory AdCodecClaims
  imports AdCodec
begin

text \<open>
  What the provider's conversions keep: the bytes of a GUID and of a SID, a date through a
  FILETIME, a value inside a search filter. The interface \<open>codec\<close> is what a writer and a reader of
  one format promise each other; it is interpreted for GUIDs, FILETIMEs and filter values.
\<close>

locale codec =
  fixes enc :: "'a \<Rightarrow> 'b option" and dec :: "'b \<Rightarrow> 'a option" and ok :: "'a \<Rightarrow> bool"
  assumes enc_ok: "ok x \<Longrightarrow> enc x \<noteq> None"
    and dec_enc: "ok x \<Longrightarrow> enc x = Some y \<Longrightarrow> dec y = Some x"
begin

lemma enc_inj: "ok x \<Longrightarrow> ok z \<Longrightarrow> enc x = enc z \<Longrightarrow> x = z"
  using enc_ok dec_enc by (metis option.exhaust option.inject)

lemma round: "ok x \<Longrightarrow> Option.bind (enc x) dec = Some x"
  using enc_ok dec_enc by (metis bind.bind_lunit option.exhaust)

end

section \<open>Hexadecimal\<close>

lemma small_nat: "n < (16::nat) \<Longrightarrow> n \<in> set [0..<16]"
  by simp

lemma hex_digit_all: "list_all (\<lambda>n. digit_value (hex_digit n) = n \<and> is_hex (hex_digit n)
    \<and> lower_char (hex_digit n) = hex_digit n) [0..<16]"
  by (simp add: upt_rec hex_digit_def digit_value_def is_hex_def lower_char_def)

lemma hex_digit_simps [simp]:
  assumes "n < 16"
  shows "digit_value (hex_digit n) = n" "is_hex (hex_digit n)" "hex_digit n \<noteq> CHR ''-''"
    "lower_char (hex_digit n) = hex_digit n"
proof -
  show hex: "digit_value (hex_digit n) = n" "is_hex (hex_digit n)" "lower_char (hex_digit n) = hex_digit n"
    using hex_digit_all small_nat [OF assms] unfolding list_all_iff by blast+
  have "\<not> is_hex (CHR ''-'')" by (simp add: is_hex_def)
  with hex(2) show "hex_digit n \<noteq> CHR ''-''" by metis
qed

lemma hex2_simps [simp]:
  assumes "b < 256"
  shows "filter (\<lambda>c. c \<noteq> CHR ''-'') (hex2 b) = hex2 b" "list_all is_hex (hex2 b)"
  using assms by (simp_all add: hex2_def)

lemma length_hex2 [simp]: "length (hex2 b) = 2"
  by (simp add: hex2_def)

lemma of_hex_hex2 [simp]: "b < 256 \<Longrightarrow> of_hex (hex2 b @ s) = b # of_hex s"
  by (simp add: hex2_def)

lemma of_hex_concat: "bytes_ok bs \<Longrightarrow> of_hex (concat (map hex2 bs)) = bs"
  by (induction bs) simp_all

lemma is_hex_cases:
  assumes "is_hex c"
  shows "hex_digit (digit_value c) = lower_char c" "digit_value c < 16"
proof -
  let ?n = "of_char c :: nat"
  have c: "c = char_of ?n" by simp
  from assms consider "48 \<le> ?n" "?n \<le> 57" | "65 \<le> ?n" "?n \<le> 70" | "97 \<le> ?n" "?n \<le> 102"
    by (auto simp: is_hex_def Let_def)
  then have "hex_digit (digit_value c) = lower_char c \<and> digit_value c < 16"
  proof cases
    case 1
    then have "char_of (48 + (?n - 48)) = c" "?n - 48 < 10" using c by (simp_all add: le_add_diff_inverse)
    with 1 show ?thesis by (simp add: hex_digit_def digit_value_def lower_char_def Let_def)
  next
    case 2
    then have "87 + (?n - 55) = ?n + 32" "\<not> ?n - 55 < 10" "?n - 55 < 16" by simp_all
    moreover have "digit_value c = ?n - 55" "lower_char c = char_of (?n + 32)"
      using 2 by (simp_all add: digit_value_def lower_char_def Let_def)
    ultimately show ?thesis by (simp add: hex_digit_def)
  next
    case 3
    then have "87 + (?n - 87) = ?n" "\<not> ?n - 87 < 10" "?n - 87 < 16" by simp_all
    moreover have "digit_value c = ?n - 87" "lower_char c = c"
      using 3 by (simp_all add: digit_value_def lower_char_def Let_def)
    ultimately show ?thesis by (simp add: hex_digit_def)
  qed
  then show "hex_digit (digit_value c) = lower_char c" "digit_value c < 16" by simp_all
qed

lemma hex2_pair:
  assumes "is_hex a" "is_hex b"
  shows "hex2 (16 * digit_value a + digit_value b) = [lower_char a, lower_char b]"
  using is_hex_cases [OF assms(1)] is_hex_cases [OF assms(2)] by (simp add: hex2_def)

lemma of_hex_back:
  "list_all is_hex s \<Longrightarrow> even (length s) \<Longrightarrow>
     concat (map hex2 (of_hex s)) = to_lower s \<and> bytes_ok (of_hex s) \<and> 2 * length (of_hex s) = length s"
proof (induction s rule: of_hex.induct)
  case (1 a b s)
  then show ?case
    using is_hex_cases(2) [of a] is_hex_cases(2) [of b] by (simp add: hex2_pair)
qed simp_all

section \<open>GUIDs\<close>

definition guid_ok :: "bytes \<Rightarrow> bool" where
  "guid_ok buf \<longleftrightarrow> bytes_ok buf \<and> length buf = 16"

text \<open>The bytes in the order their text has them: the first three groups reversed.\<close>

definition guid_shuffle :: "bytes \<Rightarrow> bytes" where
  "guid_shuffle b = map ((!) b) [3, 2, 1, 0, 5, 4, 7, 6, 8, 9, 10, 11, 12, 13, 14, 15]"

lemma list_16:
  assumes "length (b :: 'a list) = 16"
  obtains b0 b1 b2 b3 b4 b5 b6 b7 b8 b9 b10 b11 b12 b13 b14 b15
  where "b = [b0, b1, b2, b3, b4, b5, b6, b7, b8, b9, b10, b11, b12, b13, b14, b15]"
proof -
  have upt: "[0..<16] = [0, 1, 2, 3, 4, 5, 6, 7, 8, 9, 10, 11, 12, 13, 14, 15 :: nat]" by code_simp
  have "b = map ((!) b) [0..<16]" using assms by (metis map_nth)
  also have "\<dots> = [b ! 0, b ! 1, b ! 2, b ! 3, b ! 4, b ! 5, b ! 6, b ! 7, b ! 8, b ! 9, b ! 10, b ! 11,
      b ! 12, b ! 13, b ! 14, b ! 15]" by (simp only: upt list.map)
  finally show thesis by (rule that)
qed

lemma guid_shuffle_twice: "length b = 16 \<Longrightarrow> guid_shuffle (guid_shuffle b) = b"
  by (erule list_16) (simp add: guid_shuffle_def)

lemma guid_shuffle_ok: "guid_ok b \<Longrightarrow> guid_ok (guid_shuffle b)"
  unfolding guid_ok_def by (elim conjE, erule list_16) (simp add: guid_shuffle_def)

lemma guid_text:
  assumes "guid_ok b"
  obtains s where "objectGuidToString b = Some s"
    "filter (\<lambda>c. c \<noteq> CHR ''-'') s = concat (map hex2 (guid_shuffle b))"
  using assms unfolding guid_ok_def
  by (elim conjE, elim list_16) (simp add: objectGuidToString_def guid_shuffle_def)

lemma concat_hex2_hex: "bytes_ok b \<Longrightarrow> list_all is_hex (concat (map hex2 b))"
  by (induction b) simp_all

lemma length_concat_hex2: "length (concat (map hex2 b)) = 2 * length b"
  by (induction b) simp_all

lemma guid_round:
  assumes "guid_ok b" "objectGuidToString b = Some s"
  shows "objectGuidFromString s = Some b"
proof -
  from guid_text [OF assms(1)] assms(2)
  have s: "filter (\<lambda>c. c \<noteq> CHR ''-'') s = concat (map hex2 (guid_shuffle b))" by (metis option.inject)
  have ok: "bytes_ok (guid_shuffle b)" "length (guid_shuffle b) = 16"
    using guid_shuffle_ok [OF assms(1)] by (simp_all add: guid_ok_def)
  have "list_all is_hex (filter (\<lambda>c. c \<noteq> CHR ''-'') s)" unfolding s by (rule concat_hex2_hex [OF ok(1)])
  then have "\<not> (\<exists>c \<in> set (filter (\<lambda>c. c \<noteq> CHR ''-'') s). \<not> is_hex c)" by (simp add: list_all_iff)
  moreover have "length (filter (\<lambda>c. c \<noteq> CHR ''-'') s) = 32"
    unfolding s length_concat_hex2 by (simp add: ok)
  ultimately have "objectGuidFromString s = Some (guid_shuffle (of_hex (filter (\<lambda>c. c \<noteq> CHR ''-'') s)))"
    unfolding objectGuidFromString_def guid_shuffle_def Let_def by (simp only: simp_thms if_False)
  also have "\<dots> = Some b"
    unfolding s using of_hex_concat [OF ok(1)] guid_shuffle_twice assms(1) by (simp add: guid_ok_def)
  finally show ?thesis .
qed

lemma guid_from_text:
  assumes "objectGuidFromString u = Some b"
  obtains s where "guid_ok b" "objectGuidToString b = Some s"
    "filter (\<lambda>c. c \<noteq> CHR ''-'') s = to_lower (filter (\<lambda>c. c \<noteq> CHR ''-'') u)"
proof -
  let ?clean = "filter (\<lambda>c. c \<noteq> CHR ''-'') u"
  from assms have c: "length ?clean = 32" "list_all is_hex ?clean" and b: "b = guid_shuffle (of_hex ?clean)"
    unfolding objectGuidFromString_def guid_shuffle_def Let_def list_all_iff by (auto split: if_splits)
  from of_hex_back [OF c(2)] c(1) have h: "concat (map hex2 (of_hex ?clean)) = to_lower ?clean"
      "guid_ok (of_hex ?clean)" by (simp_all add: guid_ok_def)
  then have ok: "guid_ok b" using b guid_shuffle_ok by simp
  from guid_text [OF this] obtain s where s: "objectGuidToString b = Some s"
      "filter (\<lambda>c. c \<noteq> CHR ''-'') s = concat (map hex2 (guid_shuffle b))" .
  have "guid_shuffle b = of_hex ?clean" using b h(2) guid_shuffle_twice by (simp add: guid_ok_def)
  with s h(1) have "filter (\<lambda>c. c \<noteq> CHR ''-'') s = to_lower ?clean" by simp
  with ok s(1) show thesis by (rule that)
qed

interpretation guid: codec objectGuidToString objectGuidFromString guid_ok
proof unfold_locales
  fix b assume "guid_ok b"
  then show "objectGuidToString b \<noteq> None" by (metis guid_text option.discI)
next
  fix b s assume "guid_ok b" "objectGuidToString b = Some s"
  then show "objectGuidFromString s = Some b" by (rule guid_round)
qed

text \<open> C36. C0.
  GUIDs survive the way to their text and back. The text of sixteen bytes reads back to those
  bytes, whatever they are. And a text that is accepted stands for bytes whose own text is the same up to
  case and dashes; anything else is refused, so that a search for an object by its GUID asks for
  that object and no other.
\<close>

theorem guids_survive_their_text:
  "(bytes_ok buf \<and> length buf = 16 \<longrightarrow> Option.bind (objectGuidToString buf) objectGuidFromString = Some buf)
   \<and> (objectGuidFromString u = Some b \<longrightarrow>
        map_option (filter (\<lambda>c. c \<noteq> CHR ''-'')) (objectGuidToString b)
          = Some (to_lower (filter (\<lambda>c. c \<noteq> CHR ''-'') u)))"
proof (intro conjI impI)
  assume "bytes_ok buf \<and> length buf = 16"
  then show "Option.bind (objectGuidToString buf) objectGuidFromString = Some buf"
    using guid.round [of buf] by (simp add: guid_ok_def)
next
  assume "objectGuidFromString u = Some b"
  then show "map_option (filter (\<lambda>c. c \<noteq> CHR ''-'')) (objectGuidToString b)
      = Some (to_lower (filter (\<lambda>c. c \<noteq> CHR ''-'') u))"
    by (rule guid_from_text) simp
qed

theorem guids_survive_their_text_witness:
  "Option.bind (objectGuidToString [0..<16]) objectGuidFromString = Some [0..<16]"
proof -
  have "bytes_ok [0..<16]" by (simp add: bytes_ok_def)
  then show ?thesis using guids_survive_their_text [of "[0..<16]"] by simp
qed

section \<open>Numbers\<close>

lemma not_digits: "list_all (\<lambda>c. \<not> is_digit c) ''-+xXoObB''"
  by (simp add: is_digit_def)

lemma digit_plain: "is_digit c \<Longrightarrow> \<not> is_space c" "is_digit c \<Longrightarrow> c \<noteq> CHR ''-''" "is_digit c \<Longrightarrow> c \<noteq> CHR ''+''"
    "is_digit c \<Longrightarrow> literal_base c = None"
proof -
  assume c: "is_digit c"
  then show "\<not> is_space c" by (auto simp: is_digit_def is_space_def Let_def)
  from c not_digits have no: "c \<notin> set ''-+xXoObB''" unfolding list_all_iff by blast
  then show "c \<noteq> CHR ''-''" "c \<noteq> CHR ''+''" unfolding list.set by blast+
  from no show "literal_base c = None" unfolding literal_base_def list.set by (simp only: insert_iff empty_iff) simp
qed

lemma decimal_dec_nat [simp]: "decimal (dec_nat n) = Some (int n)"
  by (simp add: decimal_def dec_nat_digits)

lemma dec_nat_trim: "trim (dec_nat n) = dec_nat n" "trim (CHR ''-'' # dec_nat n) = CHR ''-'' # dec_nat n"
  using dec_nat_digits [of n] digit_plain(1)
  by (auto intro!: trim_no_space simp: list_all_iff is_space_def)

lemma whole_number_digits:
  assumes "list_all is_digit s" "s \<noteq> []"
  shows "whole_number s = decimal s"
proof -
  from assms obtain c t where s: "s = c # t" "is_digit c" "list_all is_digit t" by (cases s) auto
  have "trim s = s" using assms(1) digit_plain(1) by (auto intro!: trim_no_space simp: list_all_iff)
  with s show ?thesis
    using digit_plain(4) by (cases t) (simp_all add: whole_number_def digit_plain)
qed

lemma whole_number_dec [simp]: "whole_number (dec i) = Some i"
proof (cases "i < 0")
  case True
  then have "dec i = CHR ''-'' # dec_nat (nat (- i))" by (simp add: dec_def)
  with True show ?thesis using dec_nat_trim(2) by (simp add: whole_number_def)
next
  case False
  then have "dec i = dec_nat (nat i)" by (simp add: dec_def)
  with False show ?thesis using whole_number_digits [OF dec_nat_digits dec_nat_nonempty] by simp
qed

lemma dec_inj: "dec i = dec j \<longleftrightarrow> i = j"
  by (metis option.inject whole_number_dec)

lemma dec_0: "dec 0 = ''0''"
  by code_simp

lemma dec_not_empty [simp]: "dec i \<noteq> []"
  by (simp add: dec_def)

lemma dec_is_0: "dec i = ''0'' \<longleftrightarrow> i = 0"
  using dec_inj [of i 0] by (simp add: dec_0)

section \<open>Times and durations\<close>

text \<open>A date a FILETIME can stand for: after its epoch, and before the value that says never.\<close>

definition filetime_date :: "ms \<Rightarrow> bool" where
  "filetime_date t \<longleftrightarrow> 0 < t + FILETIME_TO_UNIX_EPOCH_DIFF_MS
     \<and> (t + FILETIME_TO_UNIX_EPOCH_DIFF_MS) * 10000 < FILETIME_MAX"

lemma filetime_written:
  "filetimeToDate (V_text (dateToFiletime t)) = (if filetime_date t then Some t else None)"
  by (auto simp: filetimeToDate_def dateToFiletime_def filetime_date_def to_big_def dec_is_0 FILETIME_MAX_def)

lemma filetime_bounds:
  assumes "filetimeToDate v = Some t"
  shows "- 11644473600000 \<le> t \<and> t \<le> 910692730085477"
proof -
  from assms obtain big where "0 < big" "big < FILETIME_MAX" "t = big div 10000 - FILETIME_TO_UNIX_EPOCH_DIFF_MS"
    by (simp add: filetimeToDate_def not_le split: if_splits option.splits) metis
  moreover from this(1,2) have "0 \<le> big div 10000" "big div 10000 \<le> FILETIME_MAX div 10000"
    by (simp_all add: zdiv_mono1)
  ultimately show ?thesis by (simp add: FILETIME_MAX_def FILETIME_TO_UNIX_EPOCH_DIFF_MS_def)
qed

interpretation filetime: codec "\<lambda>t. Some (dateToFiletime t)" "\<lambda>s. filetimeToDate (V_text s)" filetime_date
  by unfold_locales (auto simp: filetime_written)

text \<open> C0.
  A date written as a FILETIME reads back as itself when it lies after 1601 and before the value
  that says never, and as no date otherwise; what is read is always within the range of a
  JavaScript date and of its exact integers, so no attribute gives an invalid date. The value written for an
  account that never expires reads as no date.
\<close>

theorem filetimes_read_back:
  "filetimeToDate (V_text (dateToFiletime t))
     = (if 0 < t + 11644473600000 \<and> (t + 11644473600000) * 10000 < 2 ^ 63 - 1 then Some t else None)
   \<and> pred_option (\<lambda>d. \<bar>d\<bar> \<le> 8640000000000000 \<and> \<bar>d\<bar> \<le> MAX_SAFE_INTEGER) (filetimeToDate v)
   \<and> filetimeToDate (V_text FILETIME_NEVER) = None"
proof (intro conjI)
  show "filetimeToDate (V_text (dateToFiletime t))
     = (if 0 < t + 11644473600000 \<and> (t + 11644473600000) * 10000 < 2 ^ 63 - 1 then Some t else None)"
    unfolding filetime_written filetime_date_def FILETIME_MAX_def FILETIME_TO_UNIX_EPOCH_DIFF_MS_def by simp
  show "pred_option (\<lambda>d. \<bar>d\<bar> \<le> 8640000000000000 \<and> \<bar>d\<bar> \<le> MAX_SAFE_INTEGER) (filetimeToDate v)"
    using filetime_bounds [of v] by (cases "filetimeToDate v") auto
  show "filetimeToDate (V_text FILETIME_NEVER) = None"
    by (simp add: filetimeToDate_def FILETIME_NEVER_def to_big_def)
qed

lemma durations_fit:
  assumes "- (2 ^ 63) \<le> i" "i < 2 ^ 63"
  shows "adDurationToMs (V_text (dec i)) = Some (if i = - (2 ^ 63) then 0 else \<bar>i\<bar> div 10000)"
proof -
  have "\<bar>i\<bar> \<le> 2 ^ 63" using assms by simp
  then have "\<bar>i\<bar> div 10000 \<le> 2 ^ 63 div 10000" by (rule zdiv_mono1) simp
  then show ?thesis by (auto simp: adDurationToMs_def to_big_def AD_DURATION_NEVER_def Let_def)
qed

lemma locked_iff_date: "isLocked v \<longleftrightarrow> lockoutTimeToDate v \<noteq> None"
  by (auto simp: isLocked_def lockoutTimeToDate_def filetimeToDate_def to_big_def dec_is_0
      split: option.splits ldap_number.splits)

section \<open>Values in a search filter\<close>

text \<open>How a server reads an assertion value (RFC 4515): an escape is two hexadecimal digits.\<close>

fun filter_value :: "string \<Rightarrow> string option" where
  "filter_value [] = Some []"
| "filter_value (c # s) =
     (if c = backslash then
        (case s of
           a # b # t \<Rightarrow>
             if is_hex a \<and> is_hex b
             then map_option ((#) (char_of (16 * digit_value a + digit_value b))) (filter_value t) else None
         | _ \<Rightarrow> None)
      else if filter_special c then None
      else map_option ((#) c) (filter_value s))"

lemma filter_value_escape: "b < 256 \<Longrightarrow>
    filter_value (backslash # hex2 b @ s) = map_option ((#) (char_of b)) (filter_value s)"
  by (simp add: hex2_def)

lemma escaped_filter_Cons: "escapeLdapFilter (c # s) =
    (if filter_special c then backslash # hex2 (of_char c) else [c]) @ escapeLdapFilter s"
  by (simp add: escapeLdapFilter_def)

lemma backslash_special: "filter_special backslash"
  by (simp add: filter_special_def)

lemma filter_value_escaped: "filter_value (escapeLdapFilter s) = Some s"
proof (induction s)
  case Nil
  show ?case by (simp add: escapeLdapFilter_def)
next
  case (Cons c s)
  show ?case
  proof (cases "filter_special c")
    case True
    with Cons show ?thesis by (simp add: escaped_filter_Cons filter_value_escape of_char_less_256 del: filter_value.simps(2))
  next
    case False
    with Cons backslash_special show ?thesis by (auto simp: escaped_filter_Cons)
  qed
qed

lemma filter_value_plain: "filter_value s = Some t \<Longrightarrow> set s \<inter> {CHR ''*'', CHR ''('', CHR '')'', CHR 0x00} = {}"
proof (induction s arbitrary: t rule: filter_value.induct)
  case (2 c s)
  have no: "d \<notin> {CHR ''*'', CHR ''('', CHR '')'', CHR 0x00}" if "is_hex d" for d
    using that by (auto simp: is_hex_def)
  show ?case
  proof (cases "c = backslash")
    case True
    with "2.prems" obtain a b u v where "s = a # b # u" "is_hex a" "is_hex b" "filter_value u = Some v"
      by (auto split: list.splits if_splits)
    with True "2.IH"(1) [of a "b # u" b u v] no [of a] no [of b] show ?thesis by auto
  next
    case False
    with "2.prems" obtain v where "\<not> filter_special c" "filter_value s = Some v" by (auto split: if_splits)
    with False "2.IH"(2) [of v] show ?thesis by (auto simp: filter_special_def)
  qed
qed simp

interpretation filter_text: codec "\<lambda>s. Some (escapeLdapFilter s)" filter_value "\<lambda>_. True"
  by unfold_locales (auto simp: filter_value_escaped)

text \<open> C0.
  Nothing typed into a search can change the filter around it: an escaped value holds none of the
  characters a filter is made of, a server reads it back as exactly the value it was given, and
  two values never give the same text.
\<close>

theorem escaped_value_stays_a_value:
  "filter_value (escapeLdapFilter s) = Some s
   \<and> set (escapeLdapFilter s) \<inter> {CHR ''*'', CHR ''('', CHR '')'', CHR 0x00} = {}
   \<and> (escapeLdapFilter s = escapeLdapFilter t) = (s = t)"
proof (intro conjI)
  show "filter_value (escapeLdapFilter s) = Some s" by (rule filter_value_escaped)
  then show "set (escapeLdapFilter s) \<inter> {CHR ''*'', CHR ''('', CHR '')'', CHR 0x00} = {}"
    by (rule filter_value_plain)
  show "(escapeLdapFilter s = escapeLdapFilter t) = (s = t)" using filter_text.enc_inj [of s t] by auto
qed

section \<open>SIDs\<close>

lemma split_at_none: "list_all (\<lambda>c. \<not> p c) s \<Longrightarrow> split_at p s = [s]"
  by (induction s) simp_all

lemma split_at_first: "list_all (\<lambda>c. \<not> p c) s \<Longrightarrow> p c \<Longrightarrow> split_at p (s @ c # t) = s # split_at p t"
  by (induction s) simp_all

lemma split_join: "list_all (list_all (\<lambda>c. \<not> p c)) ss \<Longrightarrow> ss \<noteq> [] \<Longrightarrow> p c \<Longrightarrow> split_at p (join [c] ss) = ss"
proof (induction ss)
  case (Cons s ss)
  then show ?case by (cases ss) (simp_all add: split_at_none split_at_first)
qed simp

lemma digits_no_dash: "list_all (\<lambda>c. \<not> c = CHR ''-'') (dec_nat n)"
  using dec_nat_digits [of n] digit_plain(2) by (auto simp: list_all_iff)

lemma big_endian_inj:
  "length as = length bs \<Longrightarrow> bytes_ok as \<Longrightarrow> bytes_ok bs \<Longrightarrow>
     foldl (\<lambda>a b. a * 256 + b) m as = foldl (\<lambda>a b. a * 256 + b) n bs \<Longrightarrow> m = n \<and> as = bs"
proof (induction as bs arbitrary: m n rule: list_induct2)
  case (Cons a as b bs)
  from Cons.IH [of "m * 256 + a" "n * 256 + b"] Cons.prems
  have eq: "m * 256 + a = n * 256 + b" "as = bs" by simp_all
  moreover from eq(1) Cons.prems have "m = n" "a = b"
    using pack_div [of a 256 m] pack_div [of b 256 n] pack_mod [of a 256 m] pack_mod [of b 256 n] by simp_all
  ultimately show ?case by simp
qed simp

lemma uint32_inj:
  assumes "bytes_ok [a0, a1, a2, a3]" "bytes_ok [b0, b1, b2, b3]"
    "uint32_le [a0, a1, a2, a3] = uint32_le [b0, b1, b2, b3]"
  shows "[a0, a1, a2, a3] = [b0, b1, b2, b3]"
  using assms big_endian_inj [of "[a3, a2, a1, a0]" "[b3, b2, b1, b0]" 0 0]
  by (simp add: uint32_le_def algebra_simps)

definition sid_parts :: "bytes \<Rightarrow> string list" where
  "sid_parts buf = [''S'', dec_nat (buf ! 0), dec_nat (foldl (\<lambda>a b. a * 256 + b) 0 (take 6 (drop 2 buf)))]
     @ map (\<lambda>i. dec_nat (uint32_le (drop (8 + i * 4) buf))) [0..<buf ! 1]"

lemma join_Cons: "ss \<noteq> [] \<Longrightarrow> join sep (s # ss) = s @ sep @ join sep ss"
  by (cases ss) simp_all

lemma sid_text:
  assumes "sidToString buf = Some s"
  shows "length buf = 8 + buf ! 1 * 4" "split_at (\<lambda>c. c = CHR ''-'') s = sid_parts buf"
proof -
  from assms show len: "length buf = 8 + buf ! 1 * 4"
    by (simp add: sidToString_def Let_def split: if_splits)
  have "s = join ''-'' (sid_parts buf)"
    using assms by (auto simp: sidToString_def sid_parts_def Let_def join_Cons split: if_splits)
  moreover have "list_all (list_all (\<lambda>c. \<not> c = CHR ''-'')) (sid_parts buf)"
    using digits_no_dash by (simp add: sid_parts_def list_all_iff)
  moreover have "sid_parts buf \<noteq> []" by (simp add: sid_parts_def)
  ultimately show "split_at (\<lambda>c. c = CHR ''-'') s = sid_parts buf"
    using split_join [of "\<lambda>c. c = CHR ''-''" "sid_parts buf" "CHR ''-''"] by simp
qed

lemma quads_inj:
  assumes "length as = n * 4" "length bs = n * 4" "bytes_ok as" "bytes_ok bs"
    "\<And>i. i < n \<Longrightarrow> uint32_le (drop (i * 4) as) = uint32_le (drop (i * 4) bs)"
  shows "as = bs"
  using assms
proof (induction n arbitrary: as bs)
  case (Suc n)
  have four: "\<exists>x0 x1 x2 x3 xs'. xs = x0 # x1 # x2 # x3 # xs' \<and> length xs' = n * 4"
    if "length xs = Suc (Suc (Suc (Suc (n * 4))))" for xs :: bytes
    using that by (auto simp: length_Suc_conv)
  from Suc.prems four [of as] obtain a0 a1 a2 a3 as'
    where as: "as = a0 # a1 # a2 # a3 # as'" "length as' = n * 4" by auto
  from Suc.prems four [of bs] obtain b0 b1 b2 b3 bs'
    where bs: "bs = b0 # b1 # b2 # b3 # bs'" "length bs' = n * 4" by auto
  have low: "uint32_le (x0 # x1 # x2 # x3 # xs) = uint32_le [x0, x1, x2, x3]" for x0 x1 x2 x3 xs
    by (simp add: uint32_le_def)
  have "as' = bs'"
  proof (rule Suc.IH [OF as(2) bs(2)])
    show "bytes_ok as'" "bytes_ok bs'" using Suc.prems as bs by simp_all
    show "uint32_le (drop (i * 4) as') = uint32_le (drop (i * 4) bs')" if "i < n" for i
    proof -
      have skip: "drop (4 + k) (x0 # x1 # x2 # x3 # xs) = drop k xs" for k x0 x1 x2 x3 and xs :: bytes
        by (simp add: eval_nat_numeral)
      from Suc.prems(5) [of "Suc i"] that skip show ?thesis by (simp add: as(1) bs(1))
    qed
  qed
  moreover have "[a0, a1, a2, a3] = [b0, b1, b2, b3]"
  proof (rule uint32_inj)
    show "bytes_ok [a0, a1, a2, a3]" "bytes_ok [b0, b1, b2, b3]" using Suc.prems(3,4) as bs by simp_all
    have "uint32_le as = uint32_le bs" using Suc.prems(5) [of 0] by simp
    then show "uint32_le [a0, a1, a2, a3] = uint32_le [b0, b1, b2, b3]"
      unfolding as(1) bs(1) low [of a0 a1 a2 a3 as'] low [of b0 b1 b2 b3 bs'] .
  qed
  ultimately show ?case using as bs by simp
qed simp

lemma sid_text_inj:
  assumes "sidToString as = Some s" "sidToString bs = Some s" "bytes_ok as" "bytes_ok bs"
  shows "as = bs"
proof -
  note a = sid_text [OF assms(1)] and b = sid_text [OF assms(2)]
  from a(2) b(2) have parts: "sid_parts as = sid_parts bs" by simp
  then have "length (sid_parts as) = length (sid_parts bs)" by simp
  then have count: "as ! 1 = bs ! 1" by (simp add: sid_parts_def)
  from parts have rev: "as ! 0 = bs ! 0"
    and auth: "foldl (\<lambda>a b. a * 256 + b) 0 (take 6 (drop 2 as)) = foldl (\<lambda>a b. a * 256 + b) 0 (take 6 (drop 2 bs))"
    and map: "map (\<lambda>i. dec_nat (uint32_le (drop (8 + i * 4) as))) [0..<bs ! 1]
      = map (\<lambda>i. dec_nat (uint32_le (drop (8 + i * 4) bs))) [0..<bs ! 1]"
    using count by (simp_all add: sid_parts_def dec_nat_inj)
  have subs: "uint32_le (drop (8 + i * 4) as) = uint32_le (drop (8 + i * 4) bs)" if "i < bs ! 1" for i
    using map that unfolding map_eq_conv by (simp add: dec_nat_inj)
  have bytes: "bytes_ok (take n (drop m as))" "bytes_ok (take n (drop m bs))" for n m
    using assms(3,4) unfolding bytes_ok_def by (meson in_set_dropD in_set_takeD)+
  have "take 6 (drop 2 as) = take 6 (drop 2 bs)"
    using big_endian_inj [OF _ bytes(1) bytes(2) auth] a(1) b(1) by simp
  moreover have "drop 8 as = drop 8 bs"
  proof (rule quads_inj [of _ "bs ! 1"])
    show "length (drop 8 as) = bs ! 1 * 4" "length (drop 8 bs) = bs ! 1 * 4" using a(1) b(1) count by simp_all
    show "bytes_ok (drop 8 as)" "bytes_ok (drop 8 bs)"
      using assms(3,4) unfolding bytes_ok_def by (meson in_set_dropD)+
    show "uint32_le (drop (i * 4) (drop 8 as)) = uint32_le (drop (i * 4) (drop 8 bs))" if "i < bs ! 1" for i
      using subs [OF that] by (simp add: add.commute)
  qed
  moreover have "take 2 as = take 2 bs"
  proof -
    have two: "take 2 xs = [xs ! 0, xs ! 1]" if "8 \<le> length xs" for xs :: bytes
      using that by (cases xs; cases "tl xs") (auto simp: numeral_2_eq_2)
    have "8 \<le> length as" "8 \<le> length bs" using a(1) b(1) by simp_all
    with two rev count show ?thesis by simp
  qed
  moreover have "xs = take 2 xs @ take 6 (drop 2 xs) @ drop 8 xs" for xs :: bytes
  proof -
    have "drop 8 xs = drop 6 (drop 2 xs)" by simp
    then show ?thesis by (metis append_take_drop_id)
  qed
  ultimately show ?thesis by metis
qed

section \<open>Values in a DN\<close>

text \<open>A lone space gets both the escape of a leading and that of a trailing one.\<close>

lemma escapes_of_a_lone_space: "escapeDnValue '' '' = [backslash, backslash, CHR '' '']"
  by (simp add: escapeDnValue_def dn_special_def starts_with_def ends_with_def)

lemma default_password_length: "length (defaultComputerPassword s) \<le> 14"
  by (simp add: defaultComputerPassword_def)

end
