(* ===== verification/AdEntries.thy ===== *)
theory AdEntries
  imports AdCodec DirectoryCache Calendar
begin

unbundle bit_operations_syntax

text \<open>
  How an LDAP entry becomes the object the rest of the program works with
  (\<^verbatim>\<open>providers/active-directory/normalize.ts\<close>). An entry is its DN and its attributes as the LDAP
  client returns them: text, or a buffer for the attributes asked for as binary, one or several. A
  buffer whose text is outside the represented range reads as null here; none of the attributes
  read as text comes as a buffer. A function that throws returns \<open>Inl\<close> with what was missing.
\<close>

section \<open>Entries\<close>

datatype ldap_elem = Text string | Blob bytes

datatype ldap_value = One ldap_elem | Many "ldap_elem list"

record entry =
  en_dn :: string
  en_attrs :: "(string, ldap_value) jsmap"

abbreviation attr :: "entry \<Rightarrow> string \<Rightarrow> ldap_value option" where
  "attr e k \<equiv> jm_get (en_attrs e) k"

datatype entry_error = Missing_objectGUID | Missing_distinguishedName | Bad_guid | Bad_sid

(* src/apps/api/src/providers/active-directory/normalize.ts:27-35 BINARY_ATTRS *)
definition BINARY_ATTRS :: "string list" where
  "BINARY_ATTRS =
     [''objectGUID'', ''objectSid'', ''thumbnailPhoto'', ''jpegPhoto'', ''msExchBlockedSendersHash'',
      ''msExchSafeSendersHash'', ''msExchSafeRecipientsHash'']"

(* src/apps/api/src/providers/active-directory/normalize.ts:64-87 SKIP_RAW_ATTRS *)
definition SKIP_RAW_ATTRS :: "string list" where
  "SKIP_RAW_ATTRS =
     [''physicalDeliveryOfficeName'', ''url'', ''msExchCoManagedObjectsBL'', ''mS-DS-ConsistencyGuid'', ''dn'',
      ''wWWHomePage'', ''msExchExtensionCustomAttribute1'', ''carLicense'', ''loginShell'',
      ''msDS-SupportedEncryptionTypes'', ''postalAddress'', ''preferredLanguage'', ''extensionAttribute1'',
      ''managedObjects'']"

(* src/apps/api/src/providers/active-directory/normalize.ts:90-92 omitFromRaw *)
definition omitFromRaw :: "string \<Rightarrow> bool" where
  "omitFromRaw name \<longleftrightarrow> name \<in> set SKIP_RAW_ATTRS \<or> isSecretAttr name"

fun elem_text :: "ldap_elem \<Rightarrow> string option" where
  "elem_text (Text s) = Some s"
| "elem_text (Blob b) = utf8_decode b"

(* src/apps/api/src/providers/active-directory/normalize.ts:242-250 asString *)
definition asString :: "ldap_value option \<Rightarrow> string option" where
  "asString v =
     (case v of
        None \<Rightarrow> None
      | Some (Many vs) \<Rightarrow> if vs = [] then None else elem_text (last vs)
      | Some (One x) \<Rightarrow> elem_text x)"

(* src/apps/api/src/providers/active-directory/normalize.ts:252-257 asStringArray *)
definition asStringArray :: "ldap_value option \<Rightarrow> string list" where
  "asStringArray v =
     (case v of
        None \<Rightarrow> []
      | Some (Many vs) \<Rightarrow> List.map_filter elem_text vs
      | Some (One x) \<Rightarrow> if truthy (elem_text x) then [the (elem_text x)] else [])"

(* src/apps/api/src/providers/active-directory/normalize.ts:259-264 asBuffer *)
definition asBuffer :: "ldap_value option \<Rightarrow> bytes option" where
  "asBuffer v =
     (case v of
        None \<Rightarrow> None
      | Some (Many vs) \<Rightarrow> (case vs of Blob b # _ \<Rightarrow> Some b | _ \<Rightarrow> None)
      | Some (One x) \<Rightarrow> (case x of Blob b \<Rightarrow> Some b | _ \<Rightarrow> None))"

fun elem_json :: "ldap_elem \<Rightarrow> json option" where
  "elem_json (Text s) = Some (JStr s)"
| "elem_json (Blob b) = None"

(* src/apps/api/src/providers/active-directory/normalize.ts:274-282 stripBuffers *)
definition stripBuffers :: "ldap_value \<Rightarrow> json option" where
  "stripBuffers v =
     (case v of
        One x \<Rightarrow> elem_json x
      | Many vs \<Rightarrow> let cleaned = List.map_filter elem_json vs in if cleaned = [] then None else Some (JArr cleaned))"

text \<open>The loop every normalizer has: the attributes kept as they came. The DN is an attribute of the entry too.\<close>

definition raw_view :: "entry \<Rightarrow> raw_attributes" where
  "raw_view e = List.map_filter
     (\<lambda>(k, v). if k \<in> set BINARY_ATTRS then None
               else if omitFromRaw k then None
               else map_option (Pair k) (stripBuffers v))
     ((''dn'', One (Text (en_dn e))) # en_attrs e)"

text \<open>
  The text of a GeneralizedTime begins with fourteen digits. The date they write is read as Node
  does: a day past the end of a short month runs into the next, and the end of a day may be
  written as hour 24.
\<close>

definition num_at :: "nat \<Rightarrow> nat \<Rightarrow> string \<Rightarrow> int" where
  "num_at i n s = int (digits_value (take n (drop i s)))"

(* src/apps/api/src/providers/active-directory/normalize.ts:288-297 parseGeneralizedTime *)
definition parseGeneralizedTime :: "ldap_value option \<Rightarrow> ms option" where
  "parseGeneralizedTime v =
     (case asString v of
        None \<Rightarrow> None
      | Some s \<Rightarrow>
          if length s < 14 \<or> \<not> list_all is_digit (take 14 s) then None
          else let y = num_at 0 4 s; m = num_at 4 2 s; d = num_at 6 2 s;
                   h = num_at 8 2 s; mi = num_at 10 2 s; se = num_at 12 2 s
               in if 1 \<le> m \<and> m \<le> 12 \<and> 1 \<le> d \<and> d \<le> 31 \<and> mi \<le> 59 \<and> se \<le> 59
                     \<and> (h \<le> 23 \<or> (h = 24 \<and> mi = 0 \<and> se = 0))
                  then Some (new_date 0 y (m - 1) d (h * hour_ms + mi * minute_ms + se * 1000))
                  else None)"

text \<open>\<open>YYYYMMDDhhmmss.0Z\<close>, in UTC.\<close>

definition pad2 :: "int \<Rightarrow> string" where
  "pad2 n = (if length (dec n) < 2 then CHR ''0'' # dec n else dec n)"

(* src/apps/api/src/providers/active-directory/provider.ts:3028-3040 formatGeneralizedTime *)
definition formatGeneralizedTime :: "ms \<Rightarrow> string" where
  "formatGeneralizedTime date =
     (let time = time_of_day 0 date
      in dec (get_full_year 0 date) @ pad2 (get_month 0 date + 1) @ pad2 (get_date 0 date)
         @ pad2 (time div hour_ms) @ pad2 (time mod hour_ms div minute_ms) @ pad2 (time mod minute_ms div 1000)
         @ ''.0Z'')"

(* src/apps/api/src/providers/active-directory/normalize.ts:742-746 parseIntOrNull *)
definition parseIntOrNull :: "string option \<Rightarrow> int option" where
  "parseIntOrNull s = Option.bind s parseInt"

definition of_text :: "string option \<Rightarrow> ldap_number" where
  "of_text s = (case s of None \<Rightarrow> V_missing | Some t \<Rightarrow> V_text t)"

definition is_true_text :: "string option \<Rightarrow> bool" where
  "is_true_text s \<longleftrightarrow> (case s of None \<Rightarrow> False | Some t \<Rightarrow> to_upper t = ''TRUE'')"

definition or_else :: "'a option \<Rightarrow> 'a option \<Rightarrow> 'a option" where
  "or_else a b = (case a of None \<Rightarrow> b | Some x \<Rightarrow> Some x)"

(* src/apps/api/src/providers/types.ts:34-41 DirectoryObjectRef *)
record directory_object_ref =
  ref_objectGuid :: string
  ref_distinguishedName :: string
  ref_name :: string
  ref_isOu :: bool
  ref_isCriticalSystemObject :: bool

(* src/apps/api/src/providers/active-directory/normalize.ts:308-320 normalizeObjectRef *)
definition normalizeObjectRef :: "entry \<Rightarrow> entry_error + directory_object_ref option" where
  "normalizeObjectRef e =
     (case asBuffer (attr e ''objectGUID'') of
        None \<Rightarrow> Inr None
      | Some guidBuf \<Rightarrow>
          let dn = (case asString (attr e ''distinguishedName'') of None \<Rightarrow> en_dn e | Some d \<Rightarrow> d);
              classes = map to_lower (asStringArray (attr e ''objectClass''))
          in case objectGuidToString guidBuf of
               None \<Rightarrow> Inl Bad_guid
             | Some guid \<Rightarrow> Inr (Some
                 \<lparr>ref_objectGuid = guid,
                  ref_distinguishedName = dn,
                  ref_name = the (or_else (asString (attr e ''displayName''))
                                  (or_else (asString (attr e ''name'')) (or_else (leafRdnValue dn) (Some dn)))),
                  ref_isOu = (''organizationalunit'' \<in> set classes),
                  ref_isCriticalSystemObject = is_true_text (asString (attr e ''isCriticalSystemObject''))\<rparr>))"

text \<open>The GUID and DN an entry has to have, in the order the normalizers look; and its SID.\<close>

definition object_identity :: "entry \<Rightarrow> entry_error + (string \<times> string)" where
  "object_identity e =
     (case asBuffer (attr e ''objectGUID'') of
        None \<Rightarrow> Inl Missing_objectGUID
      | Some guidBuf \<Rightarrow>
          if \<not> truthy (asString (attr e ''distinguishedName'')) then Inl Missing_distinguishedName
          else case objectGuidToString guidBuf of
              None \<Rightarrow> Inl Bad_guid
            | Some guid \<Rightarrow> Inr (guid, the (asString (attr e ''distinguishedName''))))"

definition object_sid :: "entry \<Rightarrow> entry_error + string option" where
  "object_sid e =
     (case asBuffer (attr e ''objectSid'') of
        None \<Rightarrow> Inr None
      | Some sidBuf \<Rightarrow> (case sidToString sidBuf of None \<Rightarrow> Inl Bad_sid | Some sid \<Rightarrow> Inr (Some sid)))"

definition or_throw :: "'e + 'a \<Rightarrow> ('a \<Rightarrow> 'e + 'b) \<Rightarrow> 'e + 'b" where
  "or_throw r f = (case r of Inl e \<Rightarrow> Inl e | Inr x \<Rightarrow> f x)"

section \<open>Users and OUs\<close>

abbreviation UF_LOCKOUT :: "32 word" where "UF_LOCKOUT \<equiv> 0x10"

text \<open>Whether an account is locked now: the computed bit when the directory gave it, else its lockout time.\<close>

(* src/apps/api/src/providers/active-directory/normalize.ts:336-337 lockedNow *)
definition lockedNow :: "entry \<Rightarrow> bool" where
  "lockedNow e =
     (case asString (attr e ''msDS-User-Account-Control-Computed'') of
        Some computedUac \<Rightarrow> to_int32 (whole_number computedUac) AND UF_LOCKOUT \<noteq> 0
      | None \<Rightarrow> isLocked (of_text (asString (attr e ''lockoutTime''))))"

(* src/apps/api/src/providers/active-directory/normalize.ts:322-396 normalizeUser *)
definition normalizeUser :: "entry \<Rightarrow> entry_error + directory_user" where
  "normalizeUser e =
     or_throw (object_identity e) (\<lambda>(guid, dn). or_throw (object_sid e) (\<lambda>sid.
       let uac = parseUserAccountControl (of_text (asString (attr e ''userAccountControl'')))
       in Inr
         \<lparr>du_objectGuid = guid,
          du_sid = sid,
          du_distinguishedName = dn,
          du_samAccountName = asString (attr e ''sAMAccountName''),
          du_userPrincipalName = asString (attr e ''userPrincipalName''),
          du_displayName = asString (attr e ''displayName''),
          du_givenName = asString (attr e ''givenName''),
          du_surname = asString (attr e ''sn''),
          du_email = asString (attr e ''mail''),
          du_phone = asString (attr e ''telephoneNumber''),
          du_mobile = asString (attr e ''mobile''),
          du_title = asString (attr e ''title''),
          du_department = asString (attr e ''department''),
          du_office = asString (attr e ''physicalDeliveryOfficeName''),
          du_managerDn = asString (attr e ''manager''),
          du_enabled = ac_enabled uac,
          du_locked = lockedNow e,
          du_lockedAt = filetimeToDate (of_text (asString (attr e ''lockoutTime''))),
          du_resultantPsoDn = asString (attr e ''msDS-ResultantPSO''),
          du_passwordNeverExpires = ac_passwordNeverExpires uac,
          du_passwordLastSetAt = filetimeToDate (of_text (asString (attr e ''pwdLastSet''))),
          du_passwordExpiresAt = filetimeToDate (of_text (asString (attr e ''msDS-UserPasswordExpiryTimeComputed''))),
          du_passwordExpiryComputed = (attr e ''msDS-UserPasswordExpiryTimeComputed'' \<noteq> None),
          du_passwordMustChange = (asString (attr e ''pwdLastSet'') = Some ''0''),
          du_accountExpiresAt = filetimeToDate (of_text (asString (attr e ''accountExpires''))),
          du_lastLogonAt = filetimeToDate (of_text (asString (attr e ''lastLogonTimestamp''))),
          du_lastBadPasswordAt = filetimeToDate (of_text (asString (attr e ''badPasswordTime''))),
          du_badPasswordCount = parseIntOrNull (asString (attr e ''badPwdCount'')),
          du_createdAtSource = parseGeneralizedTime (attr e ''whenCreated''),
          du_modifiedAtSource = parseGeneralizedTime (attr e ''whenChanged''),
          du_memberOfDns = asStringArray (attr e ''memberOf''),
          du_rawAttributes = raw_view e\<rparr>))"

(* src/apps/api/src/providers/active-directory/normalize.ts:398-422 normalizeOu *)
definition normalizeOu :: "entry \<Rightarrow> entry_error + directory_ou" where
  "normalizeOu e =
     (if \<not> truthy (asString (attr e ''distinguishedName'')) then Inl Missing_distinguishedName
      else let dn = the (asString (attr e ''distinguishedName''))
           in Inr
             \<lparr>do_distinguishedName = dn,
              do_name = the (or_else (asString (attr e ''ou''))
                             (or_else (asString (attr e ''name'')) (or_else (leafRdnValue dn) (Some dn)))),
              do_parentDn = parentDn dn,
              do_rawAttributes = raw_view e\<rparr>)"

section \<open>Deleted objects\<close>

text \<open>
  \<open>DEL:\<close> and a GUID after a line feed, or after the three characters that escape one, at the very
  end, in any case.
\<close>

definition deleted_suffix :: "string \<Rightarrow> bool" where
  "deleted_suffix s \<longleftrightarrow>
     (let rest = (case s of
            c # t \<Rightarrow> if c = CHR 0x0A then Some t
                     else if c = backslash \<and> to_lower (take 2 t) = ''0a'' then Some (drop 2 t) else None
          | [] \<Rightarrow> None)
      in case rest of
           None \<Rightarrow> False
         | Some t \<Rightarrow> to_lower (take 4 t) = ''del:'' \<and> drop 4 t \<noteq> []
                     \<and> list_all (\<lambda>c. is_hex c \<or> c = CHR ''-'') (drop 4 t))"

fun strip_deleted :: "string \<Rightarrow> string" where
  "strip_deleted [] = []"
| "strip_deleted (c # s) = (if deleted_suffix (c # s) then [] else c # strip_deleted s)"

(* src/apps/api/src/providers/active-directory/normalize.ts:476-479 stripDeletedSuffix *)
definition stripDeletedSuffix :: "string option \<Rightarrow> string option" where
  "stripDeletedSuffix cn = map_option strip_deleted cn"

(* src/apps/api/src/providers/types.ts:828-846 DirectoryDeletedUser *)
record directory_deleted_user =
  ddu_objectGuid :: string
  ddu_cn :: "string option"
  ddu_samAccountName :: "string option"
  ddu_userPrincipalName :: "string option"
  ddu_displayName :: "string option"
  ddu_email :: "string option"
  ddu_deletedDn :: string
  ddu_lastKnownParent :: "string option"
  ddu_deletedAt :: "ms option"
  ddu_recycled :: bool
  ddu_rawAttributes :: raw_attributes

(* src/apps/api/src/providers/active-directory/normalize.ts:481-520 normalizeDeletedUser *)
definition normalizeDeletedUser :: "entry \<Rightarrow> entry_error + directory_deleted_user" where
  "normalizeDeletedUser e =
     or_throw (object_identity e) (\<lambda>(guid, dn). Inr
       \<lparr>ddu_objectGuid = guid,
        ddu_cn = stripDeletedSuffix (asString (attr e ''cn'')),
        ddu_samAccountName = asString (attr e ''sAMAccountName''),
        ddu_userPrincipalName = asString (attr e ''userPrincipalName''),
        ddu_displayName = asString (attr e ''displayName''),
        ddu_email = asString (attr e ''mail''),
        ddu_deletedDn = dn,
        ddu_lastKnownParent = asString (attr e ''lastKnownParent''),
        ddu_deletedAt = parseGeneralizedTime (attr e ''whenChanged''),
        ddu_recycled = is_true_text (asString (attr e ''isRecycled'')),
        ddu_rawAttributes = raw_view e\<rparr>)"

(* src/apps/api/src/providers/types.ts:267-278 DirectoryDeletedComputer *)
record directory_deleted_computer =
  ddc_objectGuid :: string
  ddc_cn :: "string option"
  ddc_samAccountName :: "string option"
  ddc_dnsHostName :: "string option"
  ddc_operatingSystem :: "string option"
  ddc_deletedDn :: string
  ddc_lastKnownParent :: "string option"
  ddc_deletedAt :: "ms option"
  ddc_recycled :: bool
  ddc_rawAttributes :: raw_attributes

(* src/apps/api/src/providers/active-directory/normalize.ts:567-601 normalizeDeletedComputer *)
definition normalizeDeletedComputer :: "entry \<Rightarrow> entry_error + directory_deleted_computer" where
  "normalizeDeletedComputer e =
     or_throw (object_identity e) (\<lambda>(guid, dn). Inr
       \<lparr>ddc_objectGuid = guid,
        ddc_cn = stripDeletedSuffix (asString (attr e ''cn'')),
        ddc_samAccountName = asString (attr e ''sAMAccountName''),
        ddc_dnsHostName = asString (attr e ''dNSHostName''),
        ddc_operatingSystem = asString (attr e ''operatingSystem''),
        ddc_deletedDn = dn,
        ddc_lastKnownParent = asString (attr e ''lastKnownParent''),
        ddc_deletedAt = parseGeneralizedTime (attr e ''whenChanged''),
        ddc_recycled = is_true_text (asString (attr e ''isRecycled'')),
        ddc_rawAttributes = raw_view e\<rparr>)"

section \<open>Computers and groups\<close>

(* src/apps/api/src/providers/active-directory/normalize.ts:522-565 normalizeComputer *)
definition normalizeComputer :: "entry \<Rightarrow> entry_error + directory_computer" where
  "normalizeComputer e =
     or_throw (object_identity e) (\<lambda>(guid, dn). or_throw (object_sid e) (\<lambda>sid.
       let uac = parseUserAccountControl (of_text (asString (attr e ''userAccountControl'')))
       in Inr
         \<lparr>dc_objectGuid = guid,
          dc_sid = sid,
          dc_distinguishedName = dn,
          dc_samAccountName = asString (attr e ''sAMAccountName''),
          dc_name = or_else (asString (attr e ''cn'')) (asString (attr e ''name'')),
          dc_dnsHostName = asString (attr e ''dNSHostName''),
          dc_operatingSystem = asString (attr e ''operatingSystem''),
          dc_operatingSystemVersion = asString (attr e ''operatingSystemVersion''),
          dc_description = asString (attr e ''description''),
          dc_managedByDn = asString (attr e ''managedBy''),
          dc_enabled = ac_enabled uac,
          dc_lastLogonAt = filetimeToDate (of_text (asString (attr e ''lastLogonTimestamp''))),
          dc_passwordLastSetAt = filetimeToDate (of_text (asString (attr e ''pwdLastSet''))),
          dc_memberOfDns = asStringArray (attr e ''memberOf''),
          dc_createdAtSource = parseGeneralizedTime (attr e ''whenCreated''),
          dc_modifiedAtSource = parseGeneralizedTime (attr e ''whenChanged''),
          dc_rawAttributes = raw_view e\<rparr>))"

datatype group_scope = Scope_builtin | Scope_global | Scope_domain_local | Scope_universal

text \<open>The bits of groupType, a signed 32-bit integer: the security bit is its sign.\<close>

(* src/apps/api/src/providers/active-directory/normalize.ts:605-611 GROUP_TYPE *)
fun scope_bit :: "group_scope \<Rightarrow> 32 word" where
  "scope_bit Scope_builtin = 0x1"
| "scope_bit Scope_global = 0x2"
| "scope_bit Scope_domain_local = 0x4"
| "scope_bit Scope_universal = 0x8"

abbreviation GROUP_TYPE_security :: "32 word" where "GROUP_TYPE_security \<equiv> 0x80000000"

text \<open>What a new group is created with: its scope is one of the last three. The number the code passes on is the signed one.\<close>

(* src/apps/api/src/providers/active-directory/normalize.ts:614-616 groupTypeValue *)
definition groupTypeValue :: "group_scope \<Rightarrow> string \<Rightarrow> int" where
  "groupTypeValue scope type = sint (scope_bit scope OR (if type = ''security'' then GROUP_TYPE_security else 0))"

(* src/apps/api/src/providers/active-directory/normalize.ts:629-641 groupType *)
definition group_type_and_scope :: "string option \<Rightarrow> string option \<times> string option" where
  "group_type_and_scope groupTypeRaw =
     (case Option.bind groupTypeRaw parseInt of
        None \<Rightarrow> (None, None)
      | Some gt \<Rightarrow>
          let w = to_int32 (Some gt)
          in (Some (if w AND GROUP_TYPE_security \<noteq> 0 then ''security'' else ''distribution''),
              if w AND scope_bit Scope_global \<noteq> 0 then Some ''global''
              else if w AND scope_bit Scope_domain_local \<noteq> 0 then Some ''domain-local''
              else if w AND scope_bit Scope_universal \<noteq> 0 then Some ''universal''
              else None))"

(* src/apps/api/src/providers/active-directory/normalize.ts:618-669 normalizeGroup *)
definition normalizeGroup :: "entry \<Rightarrow> entry_error + directory_group" where
  "normalizeGroup e =
     or_throw (object_identity e) (\<lambda>(guid, dn). or_throw (object_sid e) (\<lambda>sid.
       let (groupType, groupScope) = group_type_and_scope (asString (attr e ''groupType''))
       in Inr
         \<lparr>dg_objectGuid = guid,
          dg_sid = sid,
          dg_distinguishedName = dn,
          dg_samAccountName = asString (attr e ''sAMAccountName''),
          dg_name = or_else (asString (attr e ''displayName'')) (asString (attr e ''cn'')),
          dg_description = asString (attr e ''description''),
          dg_email = asString (attr e ''mail''),
          dg_groupType = groupType,
          dg_groupScope = groupScope,
          dg_memberDns = asStringArray (attr e ''member''),
          dg_memberOfDns = asStringArray (attr e ''memberOf''),
          dg_rawAttributes = raw_view e\<rparr>))"

section \<open>Group policies\<close>

text \<open>\<open>value.match(/\\[[^\\]]+\\]/g)\<close>: what is between brackets, a bracket with nothing in it passed over.\<close>

function bracket_runs :: "string \<Rightarrow> string list" where
  "bracket_runs [] = []"
| "bracket_runs (c # s) =
     (let body = takeWhile (\<lambda>d. d \<noteq> CHR '']'') s; rest = dropWhile (\<lambda>d. d \<noteq> CHR '']'') s
      in if c = CHR ''['' \<and> body \<noteq> [] \<and> rest \<noteq> [] then body # bracket_runs (tl rest) else bracket_runs s)"
  by pat_completeness auto
termination
proof (relation "measure length", goal_cases)
  case (2 c s body rest)
  have "length (dropWhile (\<lambda>d. d \<noteq> CHR '']'') s) \<le> length s" by (rule length_dropWhile_le)
  with 2 show ?case by simp
qed simp_all

text \<open>The first brace with hexadecimal digits and dashes up to its closing one.\<close>

fun brace_guid :: "string \<Rightarrow> string option" where
  "brace_guid [] = None"
| "brace_guid (c # s) =
     (let body = takeWhile (\<lambda>d. is_hex d \<or> d = CHR ''-'') s; rest = dropWhile (\<lambda>d. is_hex d \<or> d = CHR ''-'') s
      in if c = CHR ''{'' \<and> body \<noteq> [] \<and> rest \<noteq> [] \<and> hd rest = CHR ''}''
         then Some (CHR ''{'' # body @ ''}'') else brace_guid s)"

(* src/apps/api/src/providers/active-directory/normalize.ts:760-770 parseExtensionList *)
definition parseExtensionList :: "string option \<Rightarrow> string list" where
  "parseExtensionList value =
     (case value of
        None \<Rightarrow> []
      | Some v \<Rightarrow> map to_upper (List.map_filter brace_guid (bracket_runs v)))"

(* src/apps/api/src/providers/types.ts:214-229 DirectoryGroupPolicyLink *)
record gp_link =
  gl_scopeDn :: string
  gl_gpoDn :: string
  gl_gpoGuid :: string
  gl_order :: nat
  gl_flagsRaw :: int
  gl_enabled :: bool
  gl_enforced :: bool

text \<open>The GUID a GPO's DN begins with: \<open>/^CN=(\\{[^,}]+\\})/i\<close>.\<close>

definition gpo_cn :: "string \<Rightarrow> string option" where
  "gpo_cn dn =
     (let body = takeWhile (\<lambda>c. c \<noteq> CHR '','' \<and> c \<noteq> CHR ''}'') (drop 4 dn);
          rest = dropWhile (\<lambda>c. c \<noteq> CHR '','' \<and> c \<noteq> CHR ''}'') (drop 4 dn)
      in if to_lower (take 4 dn) = ''cn={'' \<and> body \<noteq> [] \<and> rest \<noteq> [] \<and> hd rest = CHR ''}''
         then Some (CHR ''{'' # body @ ''}'') else None)"

definition gp_link_of :: "string \<Rightarrow> nat \<Rightarrow> string \<Rightarrow> gp_link option" where
  "gp_link_of scopeDn idx run =
     (let inner = (if to_lower (take 7 run) = ''ldap://'' then drop 7 run else run)
      in if CHR '';'' \<notin> set inner then None
         else let after = after_last (CHR '';'') inner;
                  gpoDn = trim (take (length inner - length after - 1) inner)
              in case parseInt after of
                   None \<Rightarrow> None
                 | Some flagsRaw \<Rightarrow>
                     if gpoDn = [] then None
                     else map_option (\<lambda>cn.
                       \<lparr>gl_scopeDn = scopeDn, gl_gpoDn = gpoDn, gl_gpoGuid = to_upper cn, gl_order = idx,
                        gl_flagsRaw = flagsRaw,
                        gl_enabled = (to_int32 (Some flagsRaw) AND 1 = 0),
                        gl_enforced = (to_int32 (Some flagsRaw) AND 2 \<noteq> 0)\<rparr>) (gpo_cn gpoDn))"

(* src/apps/api/src/providers/active-directory/normalize.ts:784-813 parseGpLinkValue *)
definition parseGpLinkValue :: "string \<Rightarrow> string option \<Rightarrow> gp_link list" where
  "parseGpLinkValue scopeDn gpLinkValue =
     (case gpLinkValue of
        None \<Rightarrow> []
      | Some v \<Rightarrow> let runs = bracket_runs v
                  in List.map_filter (\<lambda>(idx, run). gp_link_of scopeDn idx run) (enumerate 0 runs))"

(* src/apps/api/src/providers/types.ts:164-204 DirectoryGroupPolicy *)
record directory_group_policy =
  gp_objectGuid :: string
  gp_gpoGuid :: string
  gp_distinguishedName :: string
  gp_displayName :: "string option"
  gp_fileSysPath :: "string option"
  gp_functionalityVersion :: "int option"
  gp_versionNumberRaw :: "int option"
  gp_userVersion :: "nat option"
  gp_computerVersion :: "nat option"
  gp_flagsRaw :: "int option"
  gp_userPolicyEnabled :: bool
  gp_computerPolicyEnabled :: bool
  gp_wmiFilterRef :: "string option"
  gp_computerExtensionGuids :: "string list"
  gp_userExtensionGuids :: "string list"
  gp_createdAtSource :: "ms option"
  gp_modifiedAtSource :: "ms option"
  gp_rawAttributes :: raw_attributes

definition user_version :: "int \<Rightarrow> nat" where
  "user_version v = unat (drop_bit 16 (to_int32 (Some v)) AND 0xffff)"

definition computer_version :: "int \<Rightarrow> nat" where
  "computer_version v = unat (to_int32 (Some v) AND 0xffff)"

(* src/apps/api/src/providers/active-directory/normalize.ts:677-740 normalizeGroupPolicy *)
definition normalizeGroupPolicy :: "entry \<Rightarrow> entry_error + directory_group_policy" where
  "normalizeGroupPolicy e =
     or_throw (object_identity e) (\<lambda>(guid, dn).
       let cn = asString (attr e ''cn'');
           gpoGuid = (if truthy cn then (if starts_with (the cn) ''{'' then the cn else CHR ''{'' # the cn @ ''}'') else []);
           versionRaw = parseIntOrNull (asString (attr e ''versionNumber''));
           flagsRaw = parseIntOrNull (asString (attr e ''flags''))
       in Inr
         \<lparr>gp_objectGuid = guid,
          gp_gpoGuid = gpoGuid,
          gp_distinguishedName = dn,
          gp_displayName = asString (attr e ''displayName''),
          gp_fileSysPath = asString (attr e ''gPCFileSysPath''),
          gp_functionalityVersion = parseIntOrNull (asString (attr e ''gPCFunctionalityVersion'')),
          gp_versionNumberRaw = versionRaw,
          gp_userVersion = map_option user_version versionRaw,
          gp_computerVersion = map_option computer_version versionRaw,
          gp_flagsRaw = flagsRaw,
          gp_userPolicyEnabled = (case flagsRaw of None \<Rightarrow> True | Some f \<Rightarrow> to_int32 (Some f) AND 1 = 0),
          gp_computerPolicyEnabled = (case flagsRaw of None \<Rightarrow> True | Some f \<Rightarrow> to_int32 (Some f) AND 2 = 0),
          gp_wmiFilterRef = asString (attr e ''gPCWQLFilter''),
          gp_computerExtensionGuids = parseExtensionList (asString (attr e ''gPCMachineExtensionNames'')),
          gp_userExtensionGuids = parseExtensionList (asString (attr e ''gPCUserExtensionNames'')),
          gp_createdAtSource = parseGeneralizedTime (attr e ''whenCreated''),
          gp_modifiedAtSource = parseGeneralizedTime (attr e ''whenChanged''),
          gp_rawAttributes = raw_view e\<rparr>)"

end
