(* ===== verification/AdEntriesClaims.thy ===== *)
theory AdEntriesClaims
  imports AdEntries AdCodecClaims
begin

unbundle bit_operations_syntax

text \<open>
  What the normalizers promise: no secret and no binary value in what is kept raw, dates and group
  types that survive being written and read, the name of a deleted object, links of group policies.
\<close>

section \<open>The raw view\<close>

definition raw_safe :: "raw_attributes \<Rightarrow> bool" where
  "raw_safe raw \<longleftrightarrow> list_all (\<lambda>(k, v). \<not> isSecretAttr k \<and> k \<notin> set BINARY_ATTRS \<and> k \<notin> set SKIP_RAW_ATTRS) raw"

lemma map_filter_all: "(\<And>x y. f x = Some y \<Longrightarrow> P y) \<Longrightarrow> list_all P (List.map_filter f xs)"
  by (induction xs) (auto simp: List.map_filter_simps split: option.split)

lemma raw_view_safe: "raw_safe (raw_view e)"
  unfolding raw_safe_def raw_view_def
  by (rule map_filter_all) (auto simp: omitFromRaw_def split: if_splits)

definition holds_raw :: "('a \<Rightarrow> raw_attributes) \<Rightarrow> entry_error + 'a \<Rightarrow> bool" where
  "holds_raw raw r = (case r of Inl _ \<Rightarrow> True | Inr x \<Rightarrow> raw_safe (raw x))"

lemma holds_raw_simps [simp]: "holds_raw raw (Inl e)" "holds_raw raw (Inr x) = raw_safe (raw x)"
  by (simp_all add: holds_raw_def)

lemma or_throw_simps [simp]: "or_throw (Inl e) f = Inl e" "or_throw (Inr x) f = f x"
  by (simp_all add: or_throw_def)

lemma holds_raw_throw: "(\<And>x. holds_raw raw (f x)) \<Longrightarrow> holds_raw raw (or_throw r f)"
  by (cases r) simp_all

lemma raw_kept:
  "holds_raw du_rawAttributes (normalizeUser e)"
  "holds_raw dg_rawAttributes (normalizeGroup e)"
  "holds_raw dc_rawAttributes (normalizeComputer e)"
  "holds_raw do_rawAttributes (normalizeOu e)"
  "holds_raw ddu_rawAttributes (normalizeDeletedUser e)"
  "holds_raw ddc_rawAttributes (normalizeDeletedComputer e)"
  "holds_raw gp_rawAttributes (normalizeGroupPolicy e)"
  unfolding normalizeUser_def normalizeGroup_def normalizeComputer_def normalizeOu_def
    normalizeDeletedUser_def normalizeDeletedComputer_def normalizeGroupPolicy_def Let_def split_def
  by (rule holds_raw_throw | simp add: raw_view_safe)+


section \<open>Numbers written and read\<close>

lemma take_digits: "list_all is_digit s \<Longrightarrow> takeWhile is_digit s = s"
  by (induction s) simp_all

lemma is_digit_first:
  assumes "list_all is_digit s" "s \<noteq> []"
  shows "trim_start s = s" "hd s \<noteq> CHR ''-''" "hd s \<noteq> CHR ''+''"
  using assms digit_plain by (cases s; simp add: trim_start_def)+

lemma parseInt_digits:
  assumes "list_all is_digit s" "s \<noteq> []"
  shows "parseInt s = Some (int (digits_value s))" "parseInt (CHR ''-'' # s) = Some (- int (digits_value s))"
proof -
  have "\<not> is_space (CHR ''-'')" by (simp add: is_space_def)
  then have minus: "trim_start (CHR ''-'' # s) = CHR ''-'' # s" by (simp add: trim_start_def)
  show "parseInt s = Some (int (digits_value s))"
    using is_digit_first [OF assms] assms
    by (cases s) (simp_all add: parseInt_def Let_def take_digits)
  show "parseInt (CHR ''-'' # s) = Some (- int (digits_value s))"
    using minus assms by (simp add: parseInt_def take_digits)
qed

lemma parseInt_dec [simp]: "parseInt (dec i) = Some i"
  using parseInt_digits [OF dec_nat_digits dec_nat_nonempty] by (simp add: dec_def)

section \<open>Group types\<close>

fun scope_name :: "group_scope \<Rightarrow> string option" where
  "scope_name Scope_builtin = None"
| "scope_name Scope_global = Some ''global''"
| "scope_name Scope_domain_local = Some ''domain-local''"
| "scope_name Scope_universal = Some ''universal''"

lemma to_int32_sint [simp]: "to_int32 (Some (sint (w :: 32 word))) = w"
  by (simp add: to_int32_def)

lemma group_type_reads_back:
  "group_type_and_scope (Some (dec (groupTypeValue scope type)))
     = (Some (if type = ''security'' then ''security'' else ''distribution''), scope_name scope)"
proof -
  let ?w = "scope_bit scope OR (if type = ''security'' then GROUP_TYPE_security else 0)"
  have "group_type_and_scope (Some (dec (groupTypeValue scope type)))
      = (Some (if ?w AND GROUP_TYPE_security \<noteq> 0 then ''security'' else ''distribution''),
         if ?w AND scope_bit Scope_global \<noteq> 0 then Some ''global''
         else if ?w AND scope_bit Scope_domain_local \<noteq> 0 then Some ''domain-local''
         else if ?w AND scope_bit Scope_universal \<noteq> 0 then Some ''universal'' else None)"
    by (simp add: group_type_and_scope_def groupTypeValue_def del: scope_bit.simps)
  also have "\<dots> = (Some (if type = ''security'' then ''security'' else ''distribution''), scope_name scope)"
    by (cases scope) simp_all
  finally show ?thesis .
qed

lemma group_reads_back:
  assumes "normalizeGroup e = Inr g" "attr e ''groupType'' = Some (One (Text (dec (groupTypeValue scope type))))"
  shows "dg_groupType g = Some (if type = ''security'' then ''security'' else ''distribution'')"
    "dg_groupScope g = scope_name scope"
  using assms by (auto simp: normalizeGroup_def or_throw_def asString_def group_type_reads_back
      split: sum.splits prod.splits)

section \<open>The versions of a group policy\<close>

lemma policy_versions:
  assumes "u < 2 ^ 16" "c < 2 ^ 16" "v = int (u * 2 ^ 16 + c) \<or> v = int (u * 2 ^ 16 + c) - 2 ^ 32"
  shows "user_version v = u" "computer_version v = c"
proof -
  have "(word_of_int (i - 2 ^ 32) :: 32 word) = word_of_int i" for i
    by (simp add: word_of_int_eq_iff take_bit_eq_mod)
  then have "to_int32 (Some v) = word_of_nat (u * 2 ^ 16 + c)"
    using assms(3) by (auto simp: to_int32_def simp del: of_nat_add of_nat_mult)
  moreover have below: "u * 2 ^ 16 + c < 2 ^ 32" using pack_below [OF assms(1,2)] by simp
  ultimately have w: "unat (to_int32 (Some v)) = u * 2 ^ 16 + c"
    by (simp add: unsigned_of_nat take_bit_eq_mod del: of_nat_add of_nat_mult)
  have mask: "unat (x AND 0xffff) = unat x mod 2 ^ 16" for x :: "32 word"
  proof -
    have "(0xffff :: 32 word) = mask 16" by (simp add: mask_eq_exp_minus_1)
    then have "x AND 0xffff = take_bit 16 x" by (simp only: take_bit_eq_mask)
    then have "unat (x AND 0xffff) = take_bit 16 (unat x)" by (simp only: unsigned_take_bit_eq)
    then show ?thesis by (simp only: take_bit_eq_mod)
  qed
  show "computer_version v = c" unfolding computer_version_def mask w by (rule pack_mod [OF assms(2)])
  have "unat (drop_bit 16 (to_int32 (Some v))) = u"
    unfolding unsigned_drop_bit_eq w using assms(2) below by (simp add: take_bit_eq_mod drop_bit_eq_div)
  then show "user_version v = u" unfolding user_version_def mask using assms(1) by simp
qed

section \<open>Names of deleted objects\<close>

lemma is_hex_no_lf: "list_all (\<lambda>c. is_hex c \<or> c = CHR ''-'') s \<Longrightarrow> CHR 0x0A \<notin> set s"
  by (auto simp: list_all_iff is_hex_def)

lemma lower_lf: "CHR 0x0A \<in> set s \<Longrightarrow> CHR 0x0A \<in> set (to_lower s)"
proof -
  assume "CHR 0x0A \<in> set s"
  then have "lower_char (CHR 0x0A) \<in> set (to_lower s)" by (simp add: to_lower_def)
  moreover have "lower_char (CHR 0x0A) = CHR 0x0A" by code_simp
  ultimately show ?thesis by simp
qed

lemma no_lf_parts: "CHR 0x0A \<notin> set (to_lower (take n t)) \<Longrightarrow> CHR 0x0A \<notin> set (drop n t) \<Longrightarrow> CHR 0x0A \<notin> set t"
  using lower_lf by (metis Un_iff append_take_drop_id set_append)

lemma deleted_suffix_lf:
  assumes "deleted_suffix s"
  shows "CHR 0x0A \<notin> set (tl s)"
proof -
  have del: "CHR 0x0A \<notin> set t" if "to_lower (take 4 t) = ''del:''"
      "list_all (\<lambda>c. is_hex c \<or> c = CHR ''-'') (drop 4 t)" for t
    by (rule no_lf_parts [of 4]) (simp_all add: that is_hex_no_lf)
  from assms obtain c t where s: "s = c # t"
      "(c = CHR 0x0A \<and> CHR 0x0A \<notin> set t) \<or> (to_lower (take 2 t) = ''0a'' \<and> CHR 0x0A \<notin> set (drop 2 t))"
    using del by (cases s) (auto simp: deleted_suffix_def Let_def split: if_splits)
  then show ?thesis using no_lf_parts [of 2 t] by auto
qed

lemma lower_del: "to_lower ''DEL:'' = ''del:''"
  by code_simp

lemma strip_deleted_name:
  assumes "g \<noteq> []" "list_all (\<lambda>c. is_hex c \<or> c = CHR ''-'') g"
  shows "strip_deleted (cn @ CHR 0x0A # ''DEL:'' @ g) = cn"
proof (induction cn)
  case Nil
  have "deleted_suffix (CHR 0x0A # ''DEL:'' @ g)" using assms lower_del by (simp add: deleted_suffix_def)
  then show ?case by simp
next
  case (Cons c cn)
  have "CHR 0x0A \<in> set (tl (c # cn @ CHR 0x0A # ''DEL:'' @ g))" by simp
  then have "\<not> deleted_suffix (c # cn @ CHR 0x0A # ''DEL:'' @ g)" using deleted_suffix_lf by blast
  with Cons show ?case by simp
qed

section \<open>Dates\<close>

lemma date_of_le: "date_of day \<le> 31"
proof -
  let ?y = "year_of day" let ?d = "day - year_start ?y"
  have d: "0 \<le> ?d" "?d < year_length ?y" using year_of_in [of day] year_start_step [of ?y] by simp_all
  have "?d < month_start ?y (month_of day) + 31"
    using d unfolding month_of_def month_start_def Let_def year_length_def by (auto split: if_splits)
  then show ?thesis using month_of_range [of day] by (simp add: date_of_def make_day_def Let_def)
qed

lemma length_dec_nat: "length (dec_nat n) = (if n < 10 then 1 else Suc (length (dec_nat (n div 10))))"
  by (subst dec_nat.simps) simp

lemma dec_two:
  assumes "0 \<le> n" "n < 100"
  shows "length (pad2 n) = 2" "list_all is_digit (pad2 n)" "digits_value (pad2 n) = nat n"
proof -
  have zero: "is_digit (CHR ''0'')" "digits_value (CHR ''0'' # s) = digits_value s" for s
    by (simp_all add: is_digit_def digits_value_def)
  have "length (dec_nat (nat n)) \<le> 2" using assms by (simp add: length_dec_nat [of "nat n"] length_dec_nat [of "nat n div 10"])
  then show "length (pad2 n) = 2" using assms by (simp add: pad2_def dec_def length_dec_nat [of "nat n"])
  show "list_all is_digit (pad2 n)" "digits_value (pad2 n) = nat n"
    using assms dec_nat_digits zero by (simp_all add: pad2_def dec_def)
qed

lemma dec_year:
  assumes "1000 \<le> n" "n < 10000"
  shows "length (dec n) = 4" "list_all is_digit (dec n)" "digits_value (dec n) = nat n"
proof -
  have dec: "dec n = dec_nat (nat n)" using assms by (simp add: dec_def)
  let ?m = "nat n"
  have "1000 \<le> ?m" "?m < 10000" using assms by simp_all
  then have "\<not> ?m < 10" "\<not> ?m div 10 < 10" "\<not> ?m div 10 div 10 < 10" "?m div 10 div 10 div 10 < 10"
    by (simp_all add: div_mult2_eq [symmetric] less_mult_imp_div_less not_less less_eq_div_iff_mult_less_eq)
  then show "length (dec n) = 4"
    unfolding dec by (simp add: length_dec_nat [of ?m] length_dec_nat [of "?m div 10"]
        length_dec_nat [of "?m div 10 div 10"] length_dec_nat [of "?m div 10 div 10 div 10"])
  show "list_all is_digit (dec n)" "digits_value (dec n) = nat n" unfolding dec by (simp_all add: dec_nat_digits)
qed

lemma read_date:
  assumes "length a = 4" "length b = 2" "length c = 2" "length d = 2" "length e = 2" "length f = 2"
  shows "num_at 0 4 (a @ b @ c @ d @ e @ f @ z) = int (digits_value a)"
    "num_at 4 2 (a @ b @ c @ d @ e @ f @ z) = int (digits_value b)"
    "num_at 6 2 (a @ b @ c @ d @ e @ f @ z) = int (digits_value c)"
    "num_at 8 2 (a @ b @ c @ d @ e @ f @ z) = int (digits_value d)"
    "num_at 10 2 (a @ b @ c @ d @ e @ f @ z) = int (digits_value e)"
    "num_at 12 2 (a @ b @ c @ d @ e @ f @ z) = int (digits_value f)"
    "take 14 (a @ b @ c @ d @ e @ f @ z) = a @ b @ c @ d @ e @ f"
    "14 \<le> length (a @ b @ c @ d @ e @ f @ z)"
  using assms by (simp_all add: num_at_def)

lemma time_parts:
  fixes t :: int
  assumes "0 \<le> t" "t < day_ms"
  shows "t div hour_ms * hour_ms + t mod hour_ms div minute_ms * minute_ms + t mod minute_ms div 1000 * 1000 = t div 1000 * 1000"
    "0 \<le> t div hour_ms" "t div hour_ms \<le> 23" "0 \<le> t mod hour_ms div minute_ms" "t mod hour_ms div minute_ms \<le> 59"
    "0 \<le> t mod minute_ms div 1000" "t mod minute_ms div 1000 \<le> 59"
proof -
  have 1: "t div hour_ms * hour_ms + t mod hour_ms = t" by simp
  have 2: "t mod hour_ms div minute_ms * minute_ms + t mod minute_ms = t mod hour_ms"
  proof -
    have "t mod hour_ms mod minute_ms = t mod minute_ms" by (rule mod_mod_cancel) simp
    then show ?thesis by (metis div_mult_mod_eq)
  qed
  have 3: "t mod minute_ms div 1000 * 1000 + t mod 1000 = t mod minute_ms"
  proof -
    have "t mod minute_ms mod 1000 = t mod 1000" by (rule mod_mod_cancel) simp
    then show ?thesis by (metis div_mult_mod_eq)
  qed
  have 4: "t div 1000 * 1000 + t mod 1000 = t" by simp
  show "t div hour_ms * hour_ms + t mod hour_ms div minute_ms * minute_ms + t mod minute_ms div 1000 * 1000 = t div 1000 * 1000"
    using 1 2 3 4 by linarith
  show "0 \<le> t div hour_ms" using assms by (simp add: pos_imp_zdiv_nonneg_iff)
  show "t div hour_ms \<le> 23" using div_bounds [of hour_ms t] assms by linarith
  show "0 \<le> t mod hour_ms div minute_ms" "0 \<le> t mod minute_ms div 1000" by (simp_all add: pos_imp_zdiv_nonneg_iff)
  have "t mod hour_ms < hour_ms" "t mod minute_ms < minute_ms" by simp_all
  then show "t mod hour_ms div minute_ms \<le> 59" "t mod minute_ms div 1000 \<le> 59"
    using div_bounds [of minute_ms "t mod hour_ms"] div_bounds [of 1000 "t mod minute_ms"] by linarith+
qed

lemma written_date:
  fixes y m d h mi se :: int
  assumes y: "1000 \<le> y" "y \<le> 9999" and m: "1 \<le> m" "m \<le> 12" and d: "1 \<le> d" "d \<le> 31"
    and h: "0 \<le> h" "h \<le> 23" and mi: "0 \<le> mi" "mi \<le> 59" and se: "0 \<le> se" "se \<le> 59"
  shows "parseGeneralizedTime (Some (One (Text (dec y @ pad2 m @ pad2 d @ pad2 h @ pad2 mi @ pad2 se @ z))))
    = Some (new_date 0 y (m - 1) d (h * hour_ms + mi * minute_ms + se * 1000))"
proof -
  have r: "y < 10000" "0 \<le> m" "m < 100" "0 \<le> d" "d < 100" "h < 100" "mi < 100" "se < 100"
    using assms by linarith+
  note y4 = dec_year [OF y(1) r(1)] and m2 = dec_two [OF r(2,3)] and d2 = dec_two [OF r(4,5)]
    and h2 = dec_two [OF h(1) r(6)] and mi2 = dec_two [OF mi(1) r(7)] and s2 = dec_two [OF se(1) r(8)]
  let ?text = "dec y @ pad2 m @ pad2 d @ pad2 h @ pad2 mi @ pad2 se @ z"
  note read = read_date [OF y4(1) m2(1) d2(1) h2(1) mi2(1) s2(1), of z]
  have nums: "num_at 0 4 ?text = y" "num_at 4 2 ?text = m" "num_at 6 2 ?text = d"
      "num_at 8 2 ?text = h" "num_at 10 2 ?text = mi" "num_at 12 2 ?text = se"
    unfolding read y4(3) m2(3) d2(3) h2(3) mi2(3) s2(3) using assms by simp_all
  have digits: "list_all is_digit (take 14 ?text)"
    unfolding read(7) list_all_append using y4(2) m2(2) d2(2) h2(2) mi2(2) s2(2) by blast
  have long: "\<not> length ?text < 14" using read(8) by linarith
  have str: "asString (Some (One (Text ?text))) = Some ?text" by (simp add: asString_def)
  show ?thesis
    unfolding parseGeneralizedTime_def Let_def str option.case nums using m d h mi se digits long by simp
qed

lemma generalized_time_reads_back:
  assumes "1000 \<le> get_full_year 0 t" "get_full_year 0 t \<le> 9999"
  shows "parseGeneralizedTime (Some (One (Text (formatGeneralizedTime t)))) = Some (t div 1000 * 1000)"
proof -
  let ?day = "local_day 0 t" let ?time = "time_of_day 0 t"
  let ?y = "get_full_year 0 t" let ?m = "get_month 0 t + 1" let ?d = "get_date 0 t"
  let ?h = "?time div hour_ms" let ?mi = "?time mod hour_ms div minute_ms" let ?s = "?time mod minute_ms div 1000"
  have time: "0 \<le> ?time" "?time < day_ms" by (simp_all add: time_of_day_def)
  note parts = time_parts [OF time]
  have m: "1 \<le> ?m" "?m \<le> 12" using month_of_range [of ?day] by simp_all
  have d: "1 \<le> ?d" "?d \<le> 31" by (rule date_of_pos, rule date_of_le)
  have "formatGeneralizedTime t = dec ?y @ pad2 ?m @ pad2 ?d @ pad2 ?h @ pad2 ?mi @ pad2 ?s @ ''.0Z''"
    by (simp add: formatGeneralizedTime_def Let_def)
  then have "parseGeneralizedTime (Some (One (Text (formatGeneralizedTime t))))
      = Some (new_date 0 ?y (?m - 1) ?d (?h * hour_ms + ?mi * minute_ms + ?s * 1000))"
    by (simp only: written_date [OF assms m d parts(2-7)])
  also have "new_date 0 ?y (?m - 1) ?d (?h * hour_ms + ?mi * minute_ms + ?s * 1000) = t div 1000 * 1000"
  proof -
    have "make_day ?y (?m - 1) ?d = ?day" using make_day_date [of ?day] by simp
    moreover have "?day * day_ms + ?time div 1000 * 1000 = t div 1000 * 1000"
    proof -
      have "t = 1000 * (?day * 86400) + ?time" using instant_local [of 0 t] by (simp add: instant_def)
      then have "t div 1000 = ?day * 86400 + ?time div 1000" by (metis div_mult_self4 zero_neq_numeral add.commute)
      then show ?thesis by simp
    qed
    ultimately show ?thesis unfolding new_date_def instant_def parts(1) by simp
  qed
  finally show ?thesis .
qed

section \<open>Links of group policies\<close>

text \<open>One link as the directory writes it, of a GPO's DN and the link's flags.\<close>

definition link_run :: "string \<times> int \<Rightarrow> string" where
  "link_run l = ''LDAP://'' @ fst l @ CHR '';'' # dec (snd l)"

definition link_text :: "string \<times> int \<Rightarrow> string" where
  "link_text l = CHR ''['' # link_run l @ '']''"

definition link_ok :: "string \<times> int \<Rightarrow> bool" where
  "link_ok l \<longleftrightarrow> gpo_cn (fst l) \<noteq> None \<and> trim (fst l) = fst l \<and> CHR '']'' \<notin> set (fst l)"

definition link_read :: "string \<Rightarrow> nat \<Rightarrow> string \<times> int \<Rightarrow> gp_link" where
  "link_read scopeDn i l =
     \<lparr>gl_scopeDn = scopeDn, gl_gpoDn = fst l, gl_gpoGuid = to_upper (the (gpo_cn (fst l))), gl_order = i,
      gl_flagsRaw = snd l, gl_enabled = even (snd l), gl_enforced = odd (snd l div 2)\<rparr>"

lemma takeWhile_upto: "c \<notin> set s \<Longrightarrow> takeWhile (\<lambda>d. d \<noteq> c) (s @ c # t) = s"
    "c \<notin> set s \<Longrightarrow> dropWhile (\<lambda>d. d \<noteq> c) (s @ c # t) = c # t"
  by (induction s) auto

lemma bracket_run: "CHR '']'' \<notin> set s \<Longrightarrow> s \<noteq> [] \<Longrightarrow>
    bracket_runs (CHR ''['' # s @ CHR '']'' # t) = s # bracket_runs t"
  by (simp add: takeWhile_upto Let_def)

declare bracket_runs.simps(2) [simp del]

lemma dec_chars: "c \<in> set (dec i) \<Longrightarrow> is_digit c \<or> c = CHR ''-''"
  using dec_nat_digits by (auto simp: dec_def list_all_iff split: if_splits)

lemma dec_lacks: "CHR '']'' \<notin> set (dec i)" "CHR '';'' \<notin> set (dec i)"
  using dec_chars [of "CHR '']''" i] dec_chars [of "CHR '';''" i] by (auto simp: is_digit_def)

lemma after_last_append: "c \<notin> set t \<Longrightarrow> after_last c (s @ c # t) = t"
  using takeWhile_upto(1) [of c "rev t" "rev s"] by (simp add: after_last_def)

lemma low_bits:
  "to_int32 (Some i) AND 1 = 0 \<longleftrightarrow> even i" "to_int32 (Some i) AND 2 = 0 \<longleftrightarrow> even (i div 2)"
proof -
  have bit: "bit (to_int32 (Some i)) n = bit i n" if "n < 32" for n
    using that by (simp add: to_int32_def bit_word_of_int_iff)
  have "to_int32 (Some i) AND push_bit n 1 = 0 \<longleftrightarrow> \<not> bit (to_int32 (Some i)) n" for n
    using bit_iff_and_push_bit_not_eq_0 [of "to_int32 (Some i)" n] by blast
  from this [of 0] this [of 1] bit [of 0] bit [of 1]
  show "to_int32 (Some i) AND 1 = 0 \<longleftrightarrow> even i" "to_int32 (Some i) AND 2 = 0 \<longleftrightarrow> even (i div 2)"
    by (simp_all add: bit_0 bit_Suc)
qed

lemma gp_link_read:
  assumes "link_ok l"
  shows "gp_link_of scopeDn i (link_run l) = Some (link_read scopeDn i l)"
proof -
  let ?run = "link_run l" let ?inner = "fst l @ CHR '';'' # dec (snd l)"
  have inner: "(if to_lower (take 7 ?run) = ''ldap://'' then drop 7 ?run else ?run) = ?inner"
  proof -
    have "take 7 ?run = ''LDAP://''" "drop 7 ?run = ?inner" by (simp_all add: link_run_def)
    moreover have "to_lower ''LDAP://'' = ''ldap://''" by code_simp
    ultimately show ?thesis by simp
  qed
  have after: "after_last (CHR '';'') ?inner = dec (snd l)" by (rule after_last_append) (rule dec_lacks)
  from assms obtain cn where cn: "gpo_cn (fst l) = Some cn" "trim (fst l) = fst l" by (auto simp: link_ok_def)
  then have "fst l \<noteq> []" by (auto simp: gpo_cn_def)
  with cn show ?thesis
    unfolding gp_link_of_def Let_def inner after parseInt_dec link_read_def option.case low_bits by simp
qed

lemma runs_of_links: "list_all link_ok ls \<Longrightarrow> bracket_runs (concat (map link_text ls)) = map link_run ls"
proof (induction ls)
  case (Cons l ls)
  have "CHR '']'' \<notin> set (link_run l)" "link_run l \<noteq> []"
    using Cons.prems dec_lacks(1) by (simp_all add: link_ok_def link_run_def)
  then have "bracket_runs (CHR ''['' # link_run l @ CHR '']'' # concat (map link_text ls))
      = link_run l # bracket_runs (concat (map link_text ls))" by (rule bracket_run)
  moreover have "concat (map link_text (l # ls)) = CHR ''['' # link_run l @ CHR '']'' # concat (map link_text ls)"
    by (simp add: link_text_def [of l])
  ultimately show ?case using Cons by simp
qed simp

lemma links_read_from:
  "list_all link_ok ls \<Longrightarrow>
     List.map_filter (\<lambda>(i, run). gp_link_of scopeDn i run) (enumerate n (map link_run ls))
     = map (\<lambda>(i, l). link_read scopeDn i l) (enumerate n ls)"
  by (induction ls arbitrary: n) (simp_all add: gp_link_read List.map_filter_simps)

text \<open> C0.
  The links of a scope are read as the directory wrote them: every one, in the order of their
  precedence, with the GPO it points to, whether it is enabled (the lowest bit of its flags clear) and
  whether it is enforced (the next bit set).
\<close>

theorem policy_links_are_read_in_order:
  assumes "list_all link_ok ls"
  shows "parseGpLinkValue scopeDn (Some (concat (map link_text ls)))
    = map (\<lambda>(i, l). link_read scopeDn i l) (enumerate 0 ls)"
  using links_read_from [OF assms, of scopeDn 0] by (simp add: parseGpLinkValue_def runs_of_links [OF assms])

theorem policy_links_are_read_in_order_witness:
  "map (\<lambda>l. (gl_gpoGuid l, gl_enabled l, gl_enforced l))
     (parseGpLinkValue ''DC=x'' (Some (concat (map link_text [(''cn={1a},DC=x'', 0), (''CN={2b},DC=x'', 3)]))))
   = [(''{1A}'', True, False), (''{2B}'', False, True)]"
proof -
  have "list_all link_ok [(''cn={1a},DC=x'', 0), (''CN={2b},DC=x'', 3)]" by code_simp
  then show ?thesis unfolding policy_links_are_read_in_order [OF \<open>list_all link_ok _\<close>] by code_simp
qed

end
