(* ===== verification/AdClient.thy ===== *)
theory AdClient
  imports AdEntries
begin

text \<open>
  Talking to the directory: the LDAP client as the provider sees it, which errors mean that a
  server can't be reached, trying the configured servers in turn
  (\<^verbatim>\<open>providers/active-directory/client.ts\<close>), the provider's binds, and reading a large group's
  members in ranges (\<^verbatim>\<open>memberRange.ts\<close>).

  The LDAP client is a library, and the directory behind it is shared with others: both are
  parameters. A connection is a record of functions over a state \<open>'d\<close> of whatever is behind it; each
  call may fail and may leave another state. Closing a connection changes nothing here.
\<close>

section \<open>Calls that may throw\<close>

datatype err_class =
    Busy_error | Unavailable_error | Insufficient_access | Already_exists | Constraint_violation
  | Unwilling_to_perform | Not_allowed_on_non_leaf | No_such_object | Invalid_credentials | Other_result
  | Directory_unavailable | Step_up_bind_failed | Plain_error | Not_an_error

text \<open>An error's class, its \<open>code\<close> when that is a text, and its message; or what an \<open>AggregateError\<close> gathers.\<close>

datatype ldap_err = Err err_class "string option" string | Aggregate "ldap_err list"

text \<open>
  What an asynchronous call comes to: it throws, it returns, or it has not ended with the fuel its
  loop was given.
\<close>

datatype 'a outcome = Threw ldap_err | Gave 'a | Unfinished

type_synonym ('d, 'a) io = "'d \<Rightarrow> 'a outcome \<times> 'd"

definition io_return :: "'a \<Rightarrow> ('d, 'a) io" where
  "io_return x d = (Gave x, d)"

definition io_throw :: "ldap_err \<Rightarrow> ('d, 'a) io" where
  "io_throw e d = (Threw e, d)"

definition io_then :: "('d, 'a) io \<Rightarrow> ('a \<Rightarrow> ('d, 'b) io) \<Rightarrow> ('d, 'b) io" where
  "io_then m f d =
     (case m d of (Threw e, d') \<Rightarrow> (Threw e, d') | (Unfinished, d') \<Rightarrow> (Unfinished, d') | (Gave x, d') \<Rightarrow> f x d')"

text \<open>\<open>try { m } catch (err) { h(err) }\<close>.\<close>

definition io_catch :: "('d, 'a) io \<Rightarrow> (ldap_err \<Rightarrow> ('d, 'a) io) \<Rightarrow> ('d, 'a) io" where
  "io_catch m h d = (case m d of (Threw e, d') \<Rightarrow> h e d' | (Unfinished, d') \<Rightarrow> (Unfinished, d') | (Gave x, d') \<Rightarrow> (Gave x, d'))"

text \<open>A thrown exception of this process rather than the directory's.\<close>

definition io_lift :: "entry_error + 'a \<Rightarrow> ('d, 'a) io" where
  "io_lift r = (case r of Inl _ \<Rightarrow> io_throw (Err Plain_error None ''malformed entry'') | Inr x \<Rightarrow> io_return x)"

section \<open>The client\<close>

datatype search_scope = Scope_base | Scope_one | Scope_sub

datatype search_filter = Filter_text string | Guid_is bytes | Any_guid "bytes list"

record search =
  sr_base :: string
  sr_scope :: search_scope
  sr_filter :: search_filter
  sr_attributes :: "string list"
  sr_deleted :: bool

datatype change_op = Change_add | Change_delete | Change_replace

record change =
  ch_operation :: change_op
  ch_type :: string
  ch_values :: "ldap_elem list"

record 'd conn =
  cn_startTLS :: "('d, unit) io"
  cn_bind :: "string \<Rightarrow> string \<Rightarrow> ('d, unit) io"
  cn_search :: "search \<Rightarrow> ('d, entry list) io"
  cn_modify :: "string \<Rightarrow> change list \<Rightarrow> bool \<Rightarrow> ('d, unit) io"
  cn_modifyDN :: "string \<Rightarrow> string \<Rightarrow> ('d, unit) io"
  cn_add :: "string \<Rightarrow> (string, string list) jsmap \<Rightarrow> ('d, unit) io"
  cn_del :: "string \<Rightarrow> bool \<Rightarrow> ('d, unit) io"

definition replace_with :: "string \<Rightarrow> ldap_elem list \<Rightarrow> change" where
  "replace_with type values = \<lparr>ch_operation = Change_replace, ch_type = type, ch_values = values\<rparr>"

section \<open>Reaching a server\<close>

datatype tls_mode = Mode_ldaps | Mode_starttls

datatype url_scheme = Scheme_ldap | Scheme_ldaps

text \<open>\<open>/^(ldaps?):\\/\\/[^/\\s]+/i\<close> on the trimmed URL.\<close>

(* src/packages/shared/src/ldapTransport.ts:9-12 ldapUrlScheme *)
definition ldapUrlScheme :: "string \<Rightarrow> url_scheme option" where
  "ldapUrlScheme url =
     (let u = to_lower (trim url);
          host = (\<lambda>s. case s of [] \<Rightarrow> False | c # _ \<Rightarrow> c \<noteq> CHR ''/'' \<and> \<not> is_space c)
      in if starts_with u ''ldap://'' \<and> host (drop 7 u) then Some Scheme_ldap
         else if starts_with u ''ldaps://'' \<and> host (drop 8 u) then Some Scheme_ldaps
         else None)"

datatype transport_problem =
  No_urls | Not_an_ldap_url string | Ldap_url_under_ldaps string | Ldaps_url_under_starttls string

fun url_problem :: "tls_mode \<Rightarrow> string list \<Rightarrow> transport_problem option" where
  "url_problem mode [] = None"
| "url_problem mode (url # urls) =
     (case ldapUrlScheme url of
        None \<Rightarrow> Some (Not_an_ldap_url url)
      | Some scheme \<Rightarrow>
          if mode = Mode_ldaps \<and> scheme = Scheme_ldap then Some (Ldap_url_under_ldaps url)
          else if mode = Mode_starttls \<and> scheme = Scheme_ldaps then Some (Ldaps_url_under_starttls url)
          else url_problem mode urls)"

(* src/packages/shared/src/ldapTransport.ts:19-34 ldapTransportProblem *)
definition ldapTransportProblem :: "string list \<Rightarrow> tls_mode \<Rightarrow> transport_problem option" where
  "ldapTransportProblem urls mode = (if urls = [] then Some No_urls else url_problem mode urls)"

datatype transport = Tls | Starttls

(* src/apps/api/src/providers/active-directory/client.ts:22-24 transportFor *)
definition transportFor :: "string \<Rightarrow> tls_mode \<Rightarrow> transport" where
  "transportFor url mode = (if mode = Mode_starttls \<and> ldapUrlScheme url = Some Scheme_ldap then Starttls else Tls)"

(* src/apps/api/src/providers/active-directory/client.ts:108-118 NETWORK_ERROR_CODES *)
definition NETWORK_ERROR_CODES :: "string list" where
  "NETWORK_ERROR_CODES =
     [''ECONNREFUSED'', ''ECONNRESET'', ''ECONNABORTED'', ''ETIMEDOUT'', ''EHOSTUNREACH'', ''ENETUNREACH'',
      ''ENOTFOUND'', ''EAI_AGAIN'', ''EPIPE'']"

(* src/apps/api/src/providers/active-directory/client.ts:120-120 CERT_ERROR_CODE *)
definition CERT_ERROR_CODE :: "string \<Rightarrow> bool" where
  "CERT_ERROR_CODE code \<longleftrightarrow>
     list_ex (starts_with code)
       [''ERR_TLS_'', ''ERR_SSL_'', ''UNABLE_TO_'', ''DEPTH_ZERO_'', ''SELF_SIGNED_'', ''CERT_'']"

(* src/apps/api/src/providers/active-directory/client.ts:122-123 LDAPTS_CONNECTION_MESSAGE *)
definition LDAPTS_CONNECTION_MESSAGE :: "string \<Rightarrow> bool" where
  "LDAPTS_CONNECTION_MESSAGE m \<longleftrightarrow>
     m = ''Connection timeout'' \<or> ends_with m ''Operation timed out''
     \<or> starts_with m ''Connection closed before message response''"

definition result_code_error :: "err_class \<Rightarrow> bool" where
  "result_code_error c \<longleftrightarrow>
     c \<in> {Busy_error, Unavailable_error, Insufficient_access, Already_exists, Constraint_violation,
          Unwilling_to_perform, Not_allowed_on_non_leaf, No_such_object, Invalid_credentials, Other_result}"

(* src/apps/api/src/providers/active-directory/client.ts:133-144 isDirectoryUnreachable *)
fun isDirectoryUnreachable :: "ldap_err \<Rightarrow> bool" where
  "isDirectoryUnreachable (Aggregate es) \<longleftrightarrow> list_ex isDirectoryUnreachable es"
| "isDirectoryUnreachable (Err c code m) \<longleftrightarrow>
     (if c = Busy_error \<or> c = Unavailable_error then True
      else if result_code_error c then False
      else if c = Not_an_error then False
      else (case code of None \<Rightarrow> False | Some k \<Rightarrow> k \<in> set NETWORK_ERROR_CODES \<or> CERT_ERROR_CODE k)
           \<or> LDAPTS_CONNECTION_MESSAGE m)"

fun err_name :: "err_class \<Rightarrow> string" where
  "err_name Busy_error = ''BusyError''"
| "err_name Unavailable_error = ''UnavailableError''"
| "err_name Insufficient_access = ''InsufficientAccessError''"
| "err_name Already_exists = ''AlreadyExistsError''"
| "err_name Constraint_violation = ''ConstraintViolationError''"
| "err_name Unwilling_to_perform = ''UnwillingToPerformError''"
| "err_name Not_allowed_on_non_leaf = ''NotAllowedOnNonLeafError''"
| "err_name No_such_object = ''NoSuchObjectError''"
| "err_name Invalid_credentials = ''InvalidCredentialsError''"
| "err_name Other_result = ''ResultCodeError''"
| "err_name Directory_unavailable = ''DirectoryUnavailableError''"
| "err_name Step_up_bind_failed = ''StepUpBindFailedError''"
| "err_name Plain_error = ''Error''"
| "err_name Not_an_error = []"

fun err_message :: "ldap_err \<Rightarrow> string" where
  "err_message (Err c code m) = m"
| "err_message (Aggregate es) = []"

(* src/apps/api/src/providers/active-directory/client.ts:147-157 describeConnectionError *)
fun describeConnectionError :: "ldap_err \<Rightarrow> string" where
  "describeConnectionError (Err c code m) =
     (if c = Not_an_error then m
      else if m \<noteq> [] then m
      else if truthy code then the code
      else err_name c)"
| "describeConnectionError (Aggregate es) =
     (case es of
        Err c code m # _ \<Rightarrow> if c \<noteq> Not_an_error \<and> m \<noteq> [] then m else ''AggregateError''
      | _ \<Rightarrow> ''AggregateError'')"

record client_config =
  cc_ldapUrls :: "string list"
  cc_tlsMode :: tls_mode

text \<open>The error for every server failing: \<open>DirectoryUnavailableError\<close> when the last one was out of reach.\<close>

definition all_failed :: "(string \<times> ldap_err) list \<Rightarrow> ldap_err" where
  "all_failed failures =
     (if failures = [] then Err Plain_error None ''LDAP operation failed against all configured URLs''
      else let lastError = snd (last failures)
           in if isDirectoryUnreachable lastError
              then Err Directory_unavailable None
                (''no domain controller reachable: ''
                 @ join ''; '' (map (\<lambda>(url, e). url @ '': '' @ describeConnectionError e) failures))
              else case lastError of
                  Err Not_an_error _ _ \<Rightarrow> Err Plain_error None ''LDAP operation failed against all configured URLs''
                | e \<Rightarrow> e)"

fun try_servers :: "(string \<Rightarrow> 'd conn) \<Rightarrow> tls_mode \<Rightarrow> ('d conn \<Rightarrow> ('d, 'a) io)
    \<Rightarrow> string list \<Rightarrow> (string \<times> ldap_err) list \<Rightarrow> ('d, 'a) io" where
  "try_servers connect mode fn [] failures d = (Threw (all_failed failures), d)"
| "try_servers connect mode fn (url # urls) failures d =
     (let client = connect url
      in case io_then (if transportFor url mode = Starttls then cn_startTLS client else io_return ())
                 (\<lambda>_. fn client) d of
           (Gave x, d') \<Rightarrow> (Gave x, d')
         | (Unfinished, d') \<Rightarrow> (Unfinished, d')
         | (Threw err, d') \<Rightarrow> try_servers connect mode fn urls (failures @ [(url, err)]) d')"

(* src/apps/api/src/providers/active-directory/client.ts:171-206 withFailover *)
definition withFailover :: "(string \<Rightarrow> 'd conn) \<Rightarrow> client_config \<Rightarrow> ('d conn \<Rightarrow> ('d, 'a) io) \<Rightarrow> ('d, 'a) io" where
  "withFailover connect config fn = try_servers connect (cc_tlsMode config) fn (cc_ldapUrls config) []"

section \<open>Members in ranges\<close>

text \<open>\<open>member;range=0-1499\<close>, or \<open>*\<close> for the end of the last range (\<open>None\<close>).\<close>

definition ranged_member :: "string \<Rightarrow> (nat \<times> nat option) option" where
  "ranged_member key =
     (if to_lower (take 13 key) \<noteq> ''member;range='' then None
      else let t = drop 13 key; a = takeWhile is_digit t; u = dropWhile is_digit t
           in if a = [] \<or> u = [] \<or> hd u \<noteq> CHR ''-'' then None
              else let e = tl u
                   in if e = ''*'' then Some (digits_value a, None)
                      else if e \<noteq> [] \<and> list_all is_digit e then Some (digits_value a, Some (digits_value e))
                      else None)"

definition ranged_key :: "entry \<Rightarrow> (string \<times> nat option) option" where
  "ranged_key e =
     (case List.map_filter (\<lambda>(k, _). map_option (\<lambda>r. (k, snd r)) (ranged_member k))
             ((''dn'', One (Text (en_dn e))) # en_attrs e) of
        [] \<Rightarrow> None | x # _ \<Rightarrow> Some x)"

definition valuesOf :: "ldap_value option \<Rightarrow> ldap_elem list" where
  "valuesOf v = (case v of None \<Rightarrow> [] | Some (One x) \<Rightarrow> [x] | Some (Many xs) \<Rightarrow> xs)"

text \<open>
  The loop reads on until the directory marks the end. It is written with fuel: with none left it
  has not returned.
\<close>

fun more_members :: "nat \<Rightarrow> 'd conn \<Rightarrow> string \<Rightarrow> ldap_elem list \<Rightarrow> nat option \<Rightarrow> ('d, ldap_elem list) io" where
  "more_members fuel client dn members None d = (Gave members, d)"
| "more_members 0 client dn members (Some e) d = (Unfinished, d)"
| "more_members (Suc fuel) client dn members (Some e) d =
     (let start = e + 1
      in io_then (cn_search client
           \<lparr>sr_base = dn, sr_scope = Scope_base, sr_filter = Filter_text ''(objectClass=*)'',
            sr_attributes = [''member;range='' @ dec_nat start @ ''-*''], sr_deleted = False\<rparr>)
         (\<lambda>pages.
           case pages of
             [] \<Rightarrow> io_return members
           | page # _ \<Rightarrow>
               (case ranged_key page of
                  None \<Rightarrow> io_return members
                | Some (key, til) \<Rightarrow>
                    let members' = members @ valuesOf (attr page key)
                    in if (case til of None \<Rightarrow> False | Some n \<Rightarrow> n < start) then io_return members'
                       else more_members fuel client dn members' til)) d)"

(* src/apps/api/src/providers/active-directory/memberRange.ts:18-42 withAllMembers *)
definition withAllMembers :: "nat \<Rightarrow> 'd conn \<Rightarrow> entry \<Rightarrow> ('d, entry) io" where
  "withAllMembers fuel client e =
     (case ranged_key e of
        None \<Rightarrow> io_return e
      | Some (key, til) \<Rightarrow>
          io_then (more_members fuel client (en_dn e) (valuesOf (attr e key)) til)
            (\<lambda>members. io_return
               (e\<lparr>en_attrs := jm_set ''member'' (Many members) (jm_delete key (en_attrs e))\<rparr>)))"

section \<open>The provider's binds and searches\<close>

record provider_config =
  pc_client :: client_config
  pc_baseDn :: string
  pc_serviceAccountUpn :: string
  pc_serviceAccountPassword :: string
  pc_fuel :: nat

datatype failure_reason = Not_found | Permission_denied | Policy_violation | Conflict | Directory_error

(* src/apps/api/src/providers/types.ts:336-342 MutationResult *)
record mutation_result =
  mr_ok :: bool
  mr_before :: "(string \<times> json) list option"
  mr_after :: "(string \<times> json) list option"
  mr_reason :: "failure_reason option"
  mr_errorMessage :: "string option"

definition refused_with :: "failure_reason \<Rightarrow> string \<Rightarrow> mutation_result" where
  "refused_with reason m =
     \<lparr>mr_ok = False, mr_before = None, mr_after = None, mr_reason = Some reason, mr_errorMessage = Some m\<rparr>"

definition done_with :: "(string \<times> json) list \<Rightarrow> (string \<times> json) list \<Rightarrow> mutation_result" where
  "done_with before after =
     \<lparr>mr_ok = True, mr_before = Some before, mr_after = Some after, mr_reason = None, mr_errorMessage = None\<rparr>"

text \<open>
  Run \<open>fn\<close> bound as the operator. \<open>failed\<close> makes a plain failure into what \<open>fn\<close> returns, where that is
  more than a mutation's result.
\<close>

(* src/apps/api/src/providers/active-directory/provider.ts:198-220 asOperator *)
definition asOperator :: "(string \<Rightarrow> 'd conn) \<Rightarrow> provider_config \<Rightarrow> write_context \<Rightarrow> (mutation_result \<Rightarrow> 'a)
    \<Rightarrow> ('d conn \<Rightarrow> ('d, 'a) io) \<Rightarrow> ('d, 'a) io" where
  "asOperator connect p ctx failed fn =
     io_catch
       (withFailover connect (pc_client p) (\<lambda>client.
         io_then
           (io_catch (io_then (cn_bind client (wc_actorUsername ctx) (wc_actorPassword ctx)) (\<lambda>_. io_return None))
             (\<lambda>err. if isDirectoryUnreachable err then io_throw err
                    else io_return (Some (refused_with Permission_denied ''step-up bind failed''))))
           (\<lambda>refused. case refused of Some r \<Rightarrow> io_return (failed r) | None \<Rightarrow> fn client)))
       (\<lambda>err. case err of
           Err Directory_unavailable _ m \<Rightarrow> io_return (failed (refused_with Directory_error m))
         | _ \<Rightarrow> io_throw err)"

(* src/apps/api/src/providers/active-directory/provider.ts:2706-2715 withServiceBind *)
definition withServiceBind :: "(string \<Rightarrow> 'd conn) \<Rightarrow> provider_config \<Rightarrow> ('d conn \<Rightarrow> ('d, 'a) io) \<Rightarrow> ('d, 'a) io" where
  "withServiceBind connect p fn =
     withFailover connect (pc_client p) (\<lambda>client.
       io_then (cn_bind client (pc_serviceAccountUpn p) (pc_serviceAccountPassword p)) (\<lambda>_. fn client))"

(* src/apps/api/src/providers/types.ts:22-26 DirectoryObjectIdentifier *)
datatype object_id = By_objectGuid string | By_distinguishedName string | By_samAccountName string | By_userPrincipalName string

(* src/apps/api/src/providers/active-directory/provider.ts:132-132 USER_FILTER_BASE *)
definition USER_FILTER_BASE :: string where
  "USER_FILTER_BASE = ''(&(objectCategory=person)(objectClass=user)(!(objectClass=computer)))''"

(* src/apps/api/src/providers/active-directory/provider.ts:133-133 GROUP_FILTER_BASE *)
definition GROUP_FILTER_BASE :: string where
  "GROUP_FILTER_BASE = ''(objectClass=group)''"

(* src/apps/api/src/providers/active-directory/provider.ts:137-137 COMPUTER_FILTER_BASE *)
definition COMPUTER_FILTER_BASE :: string where
  "COMPUTER_FILTER_BASE = ''(&(objectCategory=computer)(objectClass=computer))''"

definition filter_for :: "string \<Rightarrow> string \<Rightarrow> string \<Rightarrow> search_filter" where
  "filter_for base attribute value = Filter_text (''(&'' @ base @ ''('' @ attribute @ ''='' @ escapeLdapFilter value @ ''))'')"

text \<open>A GUID that isn't one throws.\<close>

(* src/apps/api/src/providers/active-directory/provider.ts:3009-3026 identifierToFilter *)
fun identifierToFilter :: "object_id \<Rightarrow> string \<Rightarrow> ('d, search_filter) io" where
  "identifierToFilter (By_objectGuid v) base =
     (case objectGuidFromString v of
        None \<Rightarrow> io_throw (Err Plain_error None (''invalid GUID string: '' @ v))
      | Some b \<Rightarrow> io_return (Guid_is b))"
| "identifierToFilter (By_distinguishedName v) base = io_return (filter_for base ''distinguishedName'' v)"
| "identifierToFilter (By_samAccountName v) base = io_return (filter_for base ''sAMAccountName'' v)"
| "identifierToFilter (By_userPrincipalName v) base = io_return (filter_for base ''userPrincipalName'' v)"

definition first_of :: "'a list \<Rightarrow> 'a option" where
  "first_of xs = (case xs of [] \<Rightarrow> None | x # _ \<Rightarrow> Some x)"

(* src/apps/api/src/providers/active-directory/provider.ts:2732-2746 searchOne *)
definition searchOne :: "'d conn \<Rightarrow> string \<Rightarrow> search_filter \<Rightarrow> string list \<Rightarrow> ('d, entry option) io" where
  "searchOne client base f attributes =
     io_then (cn_search client
         \<lparr>sr_base = base, sr_scope = Scope_sub, sr_filter = f, sr_attributes = attributes, sr_deleted = False\<rparr>)
       (\<lambda>es. io_return (first_of es))"

(* src/apps/api/src/providers/active-directory/normalize.ts:116-141 USER_ATTRS *)
definition USER_ATTRS :: "string list" where
  "USER_ATTRS =
     [''objectGUID'', ''objectSid'', ''distinguishedName'', ''sAMAccountName'', ''userPrincipalName'',
      ''displayName'', ''givenName'', ''sn'', ''mail'', ''telephoneNumber'', ''mobile'', ''title'',
      ''department'', ''manager'', ''memberOf'', ''userAccountControl'', ''lockoutTime'', ''pwdLastSet'',
      ''accountExpires'', ''lastLogonTimestamp'', ''badPasswordTime'', ''whenCreated'', ''whenChanged'',
      ''msDS-User-Account-Control-Computed'']"

(* src/apps/api/src/providers/active-directory/normalize.ts:148-153 USER_ATTRS_FULL *)
definition USER_ATTRS_FULL :: "string list" where
  "USER_ATTRS_FULL =
     [''*'', ''msDS-UserPasswordExpiryTimeComputed'', ''msDS-User-Account-Control-Computed'', ''msDS-ResultantPSO'']"

(* src/apps/api/src/providers/active-directory/normalize.ts:168-184 GROUP_ATTRS *)
definition GROUP_ATTRS :: "string list" where
  "GROUP_ATTRS =
     [''objectGUID'', ''objectSid'', ''distinguishedName'', ''sAMAccountName'', ''cn'', ''displayName'',
      ''description'', ''mail'', ''groupType'', ''member'', ''memberOf'', ''isCriticalSystemObject'',
      ''adminCount'', ''whenCreated'', ''whenChanged'']"

(* src/apps/api/src/providers/active-directory/normalize.ts:189-208 COMPUTER_ATTRS *)
definition COMPUTER_ATTRS :: "string list" where
  "COMPUTER_ATTRS =
     [''objectGUID'', ''objectSid'', ''distinguishedName'', ''sAMAccountName'', ''cn'', ''name'',
      ''dNSHostName'', ''operatingSystem'', ''operatingSystemVersion'', ''description'', ''managedBy'',
      ''memberOf'', ''userAccountControl'', ''isCriticalSystemObject'', ''pwdLastSet'',
      ''lastLogonTimestamp'', ''whenCreated'', ''whenChanged'']"

(* src/apps/api/src/providers/active-directory/provider.ts:2748-2755 findUserEntry *)
definition findUserEntry :: "provider_config \<Rightarrow> 'd conn \<Rightarrow> object_id \<Rightarrow> string list \<Rightarrow> ('d, entry option) io" where
  "findUserEntry p client identifier attributes =
     io_then (identifierToFilter identifier USER_FILTER_BASE) (\<lambda>f. searchOne client (pc_baseDn p) f attributes)"

(* src/apps/api/src/providers/active-directory/provider.ts:2757-2765 findGroupEntry *)
definition findGroupEntry :: "provider_config \<Rightarrow> 'd conn \<Rightarrow> object_id \<Rightarrow> string list \<Rightarrow> ('d, entry option) io" where
  "findGroupEntry p client identifier attributes =
     io_then (identifierToFilter identifier GROUP_FILTER_BASE) (\<lambda>f.
     io_then (searchOne client (pc_baseDn p) f attributes) (\<lambda>found.
       case found of
         None \<Rightarrow> io_return None
       | Some e \<Rightarrow> io_then (withAllMembers (pc_fuel p) client e) (\<lambda>e'. io_return (Some e'))))"

(* src/apps/api/src/providers/active-directory/provider.ts:2767-2774 findComputerEntry *)
definition findComputerEntry :: "provider_config \<Rightarrow> 'd conn \<Rightarrow> object_id \<Rightarrow> string list \<Rightarrow> ('d, entry option) io" where
  "findComputerEntry p client identifier attributes =
     io_then (identifierToFilter identifier COMPUTER_FILTER_BASE) (\<lambda>f. searchOne client (pc_baseDn p) f attributes)"

text \<open>The object's GUID, or null when it can't be read.\<close>

(* src/apps/api/src/providers/active-directory/provider.ts:2718-2730 guidOf *)
definition guidOf :: "'d conn \<Rightarrow> string \<Rightarrow> ('d, string option) io" where
  "guidOf client dn =
     io_catch
       (io_then (cn_search client
           \<lparr>sr_base = dn, sr_scope = Scope_base, sr_filter = Filter_text ''(objectClass=*)'',
            sr_attributes = [''objectGUID''], sr_deleted = False\<rparr>) (\<lambda>es.
         case es of
           [] \<Rightarrow> io_return None
         | e # _ \<Rightarrow> io_then (io_lift (normalizeObjectRef e)) (\<lambda>r. io_return (map_option ref_objectGuid r))))
       (\<lambda>_. io_return None)"

end
