(* ===== verification/AdGuards.thy ===== *)
theory AdGuards
  imports AdClient
begin

unbundle bit_operations_syntax

text \<open>
  What must not be written: computers that hold the domain up (\<^verbatim>\<open>lib/computerWrites.ts\<close>), accounts
  (\<^verbatim>\<open>lib/userDeletion.ts\<close>) and groups (\<^verbatim>\<open>lib/groupDeletion.ts\<close>) that must not be deleted. The
  provider asks again on the operator's own bind right before it writes.
\<close>

text \<open>An entry's attributes as JSON; a buffer is neither text nor a flag, as null is.\<close>

definition value_json :: "ldap_value \<Rightarrow> json" where
  "value_json v = (case v of
       One x \<Rightarrow> (case elem_json x of None \<Rightarrow> JNull | Some j \<Rightarrow> j)
     | Many xs \<Rightarrow> JArr (map (\<lambda>x. case elem_json x of None \<Rightarrow> JNull | Some j \<Rightarrow> j) xs))"

definition entry_raw :: "entry \<Rightarrow> raw_attributes" where
  "entry_raw e = map (\<lambda>(k, v). (k, value_json v)) (en_attrs e)"

section \<open>Computers\<close>

abbreviation SERVER_TRUST_ACCOUNT :: "32 word" where "SERVER_TRUST_ACCOUNT \<equiv> 0x2000"
abbreviation PARTIAL_SECRETS_ACCOUNT :: "32 word" where "PARTIAL_SECRETS_ACCOUNT \<equiv> 0x04000000"

datatype computer_block = Domain_controller | Read_only_domain_controller | Critical_computer

(* src/apps/api/src/lib/computerWrites.ts:14-21 computerWriteBlock *)
definition computerWriteBlock :: "raw_attributes \<Rightarrow> computer_block option" where
  "computerWriteBlock raw =
     (let v = (case raw_get raw ''userAccountControl'' of
                 JArr vs \<Rightarrow> if vs = [] then JNull else last vs
               | JNull \<Rightarrow> JNum 0
               | v \<Rightarrow> v);
          uac = to_int32 (parseInt (js_string v))
      in if uac AND SERVER_TRUST_ACCOUNT \<noteq> 0 then Some Domain_controller
         else if uac AND PARTIAL_SECRETS_ACCOUNT \<noteq> 0 then Some Read_only_domain_controller
         else if rawFlag (raw_get raw ''isCriticalSystemObject'') then Some Critical_computer
         else None)"

(* src/apps/api/src/lib/computerWrites.ts:23-32 describeComputerWriteBlock *)
fun describeComputerWriteBlock :: "computer_block \<Rightarrow> string" where
  "describeComputerWriteBlock Domain_controller = ''this is a domain controller''"
| "describeComputerWriteBlock Read_only_domain_controller = ''this is a read-only domain controller''"
| "describeComputerWriteBlock Critical_computer = ''AD marks this computer as a critical system object''"

(* src/apps/api/src/providers/active-directory/provider.ts:3232-3237 protectedComputer *)
definition protectedComputer :: "entry \<Rightarrow> mutation_result option" where
  "protectedComputer e =
     map_option (\<lambda>b. refused_with Policy_violation (describeComputerWriteBlock b)) (computerWriteBlock (entry_raw e))"

section \<open>Accounts\<close>

datatype user_block = Still_enabled | Critical_account | Builtin_account

(* src/apps/api/src/lib/userDeletion.ts:23-29 userDeleteBlockReason *)
definition userDeleteBlockReason :: "bool \<Rightarrow> string option \<Rightarrow> raw_attributes \<Rightarrow> user_block option" where
  "userDeleteBlockReason enabled sid raw =
     (if enabled then Some Still_enabled
      else if rawFlag (raw_get raw ''isCriticalSystemObject'') then Some Critical_account
      else case ridOf sid of
          Some rid \<Rightarrow> if rid < 1000 then Some Builtin_account else None
        | None \<Rightarrow> None)"

(* src/apps/api/src/lib/userDeletion.ts:31-42 describeDeleteBlock *)
fun describeDeleteBlock :: "user_block \<Rightarrow> string" where
  "describeDeleteBlock Still_enabled = ''only disabled accounts can be deleted; disable it first''"
| "describeDeleteBlock Critical_account = ''AD marks this account as a critical system object''"
| "describeDeleteBlock Builtin_account = ''this is one of the accounts AD creates for itself''"

section \<open>Groups\<close>

(* src/apps/api/src/lib/groupDeletion.ts:9-14 GroupDeleteFacts *)
record group_delete_facts =
  gdf_parents :: "group_like list"
  gdf_primaryGroupMembers :: "nat option"

(* src/apps/api/src/lib/groupDeletion.ts:16-24 GroupDeleteBlock *)
datatype group_block =
    Critical_group
  | Builtin_group
  | Protected_group
  | Role_group role
  | Member_of_protected "group_like list"
  | Primary_group nat

(* src/apps/api/src/lib/groupDeletion.ts:35-62 groupDeleteBlock *)
definition groupDeleteBlock :: "group_like \<Rightarrow> group_delete_facts \<Rightarrow> role_group list \<Rightarrow> group_block option" where
  "groupDeleteBlock grp facts roleGroups =
     (let raw = gl_rawAttributes grp
      in if rawFlag (raw_get raw ''isCriticalSystemObject'') then Some Critical_group
         else let groupType = parseInt (or_empty (rawScalarValue (raw_get raw ''groupType'')));
                  rid = ridOf (gl_sid grp)
              in if includes_str (to_lower (gl_distinguishedName grp)) '',cn=builtin,''
                    \<or> to_int32 groupType AND scope_bit Scope_builtin \<noteq> 0
                    \<or> (case rid of None \<Rightarrow> False | Some r \<Rightarrow> r < 1000)
                 then Some Builtin_group
                 else if isProtectedGroup grp then Some Protected_group
                 else case grantedRole (gl_distinguishedName grp) roleGroups of
                     Some role \<Rightarrow> Some (Role_group role)
                   | None \<Rightarrow>
                       let protectedParents = filter isProtectedGroup (gdf_parents facts)
                       in if protectedParents \<noteq> [] then Some (Member_of_protected protectedParents)
                          else case gdf_primaryGroupMembers facts of
                              None \<Rightarrow> None
                            | Some n \<Rightarrow> if n = 0 then None else Some (Primary_group n))"

(* src/apps/api/src/lib/groupDeletion.ts:64-83 describeGroupDeleteBlock *)
fun describeGroupDeleteBlock :: "group_block \<Rightarrow> string" where
  "describeGroupDeleteBlock Critical_group = ''AD marks this group as a critical system object''"
| "describeGroupDeleteBlock Builtin_group = ''this is one of the groups AD creates for itself''"
| "describeGroupDeleteBlock Protected_group = ''this is a protected administrative group (adminCount=1)''"
| "describeGroupDeleteBlock (Role_group role) =
     ''this group grants OpenADUC's ''
     @ (case role of Admin \<Rightarrow> ''admin'' | Operator \<Rightarrow> ''operator'' | Auditor \<Rightarrow> ''auditor'') @ '' role''"
| "describeGroupDeleteBlock (Member_of_protected ps) =
     ''this group is a member of the protected group '' @ join ''; '' (map gl_distinguishedName ps)"
| "describeGroupDeleteBlock (Primary_group n) =
     ''this is the primary group of '' @ dec_nat n @ '' '' @ (if n = 1 then ''account'' else ''accounts'')
     @ ''; give '' @ (if n = 1 then ''it'' else ''them'') @ '' another primary group first''"

end
