(* ===== verification/AdAccountWrites.thy ===== *)
theory AdAccountWrites
  imports AdGuards
begin

unbundle bit_operations_syntax

text \<open>
  The writes of single accounts (\<^verbatim>\<open>providers/active-directory/provider.ts\<close>): unlock, password,
  expiry, the account-control bits, computer reset, attributes, membership of groups and moves. Each
  binds as the operator, finds the account, writes and reads it again.
\<close>

section \<open>Text of a date\<close>

definition padded :: "nat \<Rightarrow> string \<Rightarrow> string" where
  "padded n s = replicate (n - length s) (CHR ''0'') @ s"

text \<open>\<open>toISOString\<close>.\<close>

definition to_iso :: "ms \<Rightarrow> string" where
  "to_iso t =
     (let y = get_full_year 0 t; time = time_of_day 0 t
      in (if 0 \<le> y \<and> y \<le> 9999 then padded 4 (dec y)
          else (if y < 0 then ''-'' else ''+'') @ padded 6 (dec \<bar>y\<bar>))
         @ ''-'' @ pad2 (get_month 0 t + 1) @ ''-'' @ pad2 (get_date 0 t)
         @ ''T'' @ pad2 (time div hour_ms) @ '':'' @ pad2 (time mod hour_ms div minute_ms)
         @ '':'' @ pad2 (time mod minute_ms div 1000) @ ''.'' @ padded 3 (dec (time mod 1000)) @ ''Z'')"

definition iso_json :: "ms option \<Rightarrow> json" where
  "iso_json t = (case t of None \<Rightarrow> JNull | Some i \<Rightarrow> JStr (to_iso i))"

definition text_json :: "string option \<Rightarrow> json" where
  "text_json s = (case s of None \<Rightarrow> JNull | Some t \<Rightarrow> JStr t)"

section \<open>Failures\<close>

definition message_or :: "string \<Rightarrow> ldap_err \<Rightarrow> string" where
  "message_or other err = (case err of Err Not_an_error _ _ \<Rightarrow> other | e \<Rightarrow> err_message e)"

(* src/apps/api/src/providers/active-directory/provider.ts:3310-3322 classifyWriteError *)
definition classifyWriteError :: "ldap_err \<Rightarrow> mutation_result" where
  "classifyWriteError err =
     (let m = message_or ''write failed'' err
      in case err of
           Err c _ _ \<Rightarrow>
             if c = Insufficient_access then refused_with Permission_denied m
             else if c = Already_exists \<or> c = Constraint_violation then refused_with Conflict m
             else if c = Unwilling_to_perform \<or> c = Not_allowed_on_non_leaf then refused_with Policy_violation m
             else refused_with Directory_error m
         | Aggregate _ \<Rightarrow> refused_with Directory_error m)"

definition word_char :: "char \<Rightarrow> bool" where
  "word_char c \<longleftrightarrow> is_ascii_letter c \<or> is_digit c \<or> c = CHR ''_''"

text \<open>\<open>/\\b0*52D\\b|password_restrictions|policy|complexity|length|history/i\<close>.\<close>

definition password_refusal :: "string \<Rightarrow> bool" where
  "password_refusal m \<longleftrightarrow>
     (let l = to_lower m
      in (\<exists>w \<in> set (split_at (\<lambda>c. \<not> word_char c) l). dropWhile (\<lambda>c. c = CHR ''0'') w = ''52d'')
         \<or> list_ex (includes_str l) [''password_restrictions'', ''policy'', ''complexity'', ''length'', ''history''])"

(* src/apps/api/src/providers/active-directory/provider.ts:3297-3304 classifyPasswordError *)
definition classifyPasswordError :: "ldap_err \<Rightarrow> mutation_result" where
  "classifyPasswordError err =
     (let refused = classifyWriteError err
      in if password_refusal (or_empty (mr_errorMessage refused)) then refused\<lparr>mr_reason := Some Policy_violation\<rparr>
         else refused)"

section \<open>Changes\<close>

(* src/apps/api/src/providers/active-directory/provider.ts:3260-3279 passwordChanges *)
definition passwordChanges :: "string \<Rightarrow> bool \<Rightarrow> change list" where
  "passwordChanges password mustChange =
     replace_with ''unicodePwd'' [Blob (encodeUnicodePassword password)]
     # (if mustChange then [replace_with ''pwdLastSet'' [Text ''0'']] else [])"

(* src/apps/api/src/providers/active-directory/provider.ts:3281-3289 accountControlChange *)
definition accountControlChange :: "int \<Rightarrow> change" where
  "accountControlChange uac = replace_with ''userAccountControl'' [Text (dec uac)]"

text \<open>NaN is \<open>None\<close>.\<close>

(* src/apps/api/src/providers/active-directory/provider.ts:3240-3244 userAccountControlOf *)
definition userAccountControlOf :: "entry \<Rightarrow> int option" where
  "userAccountControlOf e =
     (case attr e ''userAccountControl'' of
        None \<Rightarrow> Some 0
      | Some (Many xs) \<Rightarrow>
          if xs = [] then Some 0
          else (case elem_text (last xs) of None \<Rightarrow> None | Some s \<Rightarrow> if s = [] then Some 0 else parseInt s)
      | Some (One x) \<Rightarrow>
          (case elem_text x of None \<Rightarrow> None | Some s \<Rightarrow> if s = [] then Some 0 else parseInt s))"

section \<open>Finding and reading again\<close>

datatype account_kind = Kind_user | Kind_computer

fun kind_name :: "account_kind \<Rightarrow> string" where
  "kind_name Kind_user = ''user''"
| "kind_name Kind_computer = ''computer''"

(* src/apps/api/src/providers/active-directory/provider.ts:860-868 findAccountEntry *)
definition findAccountEntry :: "provider_config \<Rightarrow> 'd conn \<Rightarrow> account_kind \<Rightarrow> object_id \<Rightarrow> ('d, entry option) io" where
  "findAccountEntry p client kind identifier =
     (if kind = Kind_user then findUserEntry p client identifier USER_ATTRS
      else findComputerEntry p client identifier COMPUTER_ATTRS)"

definition dn_of :: "entry \<Rightarrow> string" where
  "dn_of e = (case asString (attr e ''distinguishedName'') of None \<Rightarrow> en_dn e | Some d \<Rightarrow> d)"

text \<open>The account normalized after a write, or none when it isn't found any more.\<close>

definition read_again :: "(entry \<Rightarrow> entry_error + 'a) \<Rightarrow> ('d, entry option) io \<Rightarrow> ('d, 'a option) io" where
  "read_again nf again =
     io_then again (\<lambda>found. case found of
         None \<Rightarrow> io_return None
       | Some e \<Rightarrow> io_then (io_lift (nf e)) (\<lambda>x. io_return (Some x)))"

text \<open>
  The frame the writes of a user share: the user is found and normalized, \<open>write\<close> is run on it, and
  an error is classified.
\<close>

definition on_user :: "(string \<Rightarrow> 'd conn) \<Rightarrow> provider_config \<Rightarrow> write_context \<Rightarrow> object_id \<Rightarrow> string list
    \<Rightarrow> (ldap_err \<Rightarrow> mutation_result) \<Rightarrow> ('d conn \<Rightarrow> entry \<Rightarrow> directory_user \<Rightarrow> ('d, mutation_result) io)
    \<Rightarrow> ('d, mutation_result) io" where
  "on_user connect p ctx userId attributes classify write =
     asOperator connect p ctx id (\<lambda>client.
       io_catch
         (io_then (findUserEntry p client userId attributes) (\<lambda>found. case found of
             None \<Rightarrow> io_return (refused_with Not_found ''user not found'')
           | Some target \<Rightarrow> io_then (io_lift (normalizeUser target)) (write client target)))
         (\<lambda>err. io_return (classify err)))"

section \<open>Unlock, password, expiry\<close>

definition lockout_json :: "entry \<Rightarrow> json" where
  "lockout_json e = (case attr e ''lockoutTime'' of None \<Rightarrow> JStr ''0'' | Some v \<Rightarrow> value_json v)"

(* src/apps/api/src/providers/active-directory/provider.ts:703-748 unlockUser *)
definition unlockUser :: "(string \<Rightarrow> 'd conn) \<Rightarrow> provider_config \<Rightarrow> object_id \<Rightarrow> write_context \<Rightarrow> ('d, mutation_result) io" where
  "unlockUser connect p userId ctx =
     on_user connect p ctx userId USER_ATTRS
       (\<lambda>err. refused_with Directory_error (message_or ''modify failed'' err))
       (\<lambda>client target beforeUser.
         if \<not> du_locked beforeUser then
           io_return (done_with [(''lockoutTime'', lockout_json target)] [(''lockoutTime'', JStr ''0'')])
         else
           io_then (cn_modify client (du_distinguishedName beforeUser) [replace_with ''lockoutTime'' [Text ''0'']] False) (\<lambda>_.
           io_then (read_again normalizeUser (findUserEntry p client userId USER_ATTRS)) (\<lambda>after.
           io_return (done_with
             [(''lockoutTime'', lockout_json target), (''locked'', JBool True)]
             [(''lockoutTime'', JStr ''0''),
              (''locked'', JBool (case after of None \<Rightarrow> False | Some u \<Rightarrow> du_locked u))]))))"

(* src/apps/api/src/providers/types.ts:377-381 ResetPasswordInput *)
record reset_password =
  rp_newPassword :: string
  rp_forceChangeAtNextLogin :: bool
  rp_unlock :: bool

(* src/apps/api/src/providers/active-directory/provider.ts:755-801 resetPassword *)
definition resetPassword :: "(string \<Rightarrow> 'd conn) \<Rightarrow> provider_config \<Rightarrow> object_id \<Rightarrow> reset_password \<Rightarrow> write_context
    \<Rightarrow> ('d, mutation_result) io" where
  "resetPassword connect p userId input ctx =
     on_user connect p ctx userId USER_ATTRS classifyPasswordError
       (\<lambda>client target before.
         let changes = passwordChanges (rp_newPassword input) (rp_forceChangeAtNextLogin input)
               @ (if rp_unlock input then [replace_with ''lockoutTime'' [Text ''0'']] else [])
         in io_then (cn_modify client (du_distinguishedName before) changes False) (\<lambda>_.
            io_then (read_again normalizeUser (findUserEntry p client userId USER_ATTRS)) (\<lambda>after.
            io_return (done_with
              ((''passwordLastSetAt'', iso_json (du_passwordLastSetAt before))
               # (if rp_unlock input then [(''locked'', JBool (du_locked before))] else []))
              ([(''passwordLastSetAt'', iso_json (Option.bind after du_passwordLastSetAt)),
                (''forceChangeAtNextLogin'', JBool (rp_forceChangeAtNextLogin input))]
               @ (if rp_unlock input
                  then [(''locked'', case after of None \<Rightarrow> JNull | Some u \<Rightarrow> JBool (du_locked u))] else []))))))"

(* src/apps/api/src/providers/active-directory/provider.ts:807-840 setAccountExpiry *)
definition setAccountExpiry :: "(string \<Rightarrow> 'd conn) \<Rightarrow> provider_config \<Rightarrow> object_id \<Rightarrow> ms option \<Rightarrow> write_context
    \<Rightarrow> ('d, mutation_result) io" where
  "setAccountExpiry connect p userId expiresAt ctx =
     on_user connect p ctx userId USER_ATTRS classifyWriteError
       (\<lambda>client target before.
         io_then (cn_modify client (du_distinguishedName before)
           [replace_with ''accountExpires''
              [Text (case expiresAt of Some t \<Rightarrow> dateToFiletime t | None \<Rightarrow> FILETIME_NEVER)]] False) (\<lambda>_.
         io_then (read_again normalizeUser (findUserEntry p client userId USER_ATTRS)) (\<lambda>after.
         io_return (done_with
           [(''accountExpiresAt'', iso_json (du_accountExpiresAt before))]
           (case after of None \<Rightarrow> [] | Some u \<Rightarrow> [(''accountExpiresAt'', iso_json (du_accountExpiresAt u))])))))"

(* src/apps/api/src/providers/active-directory/provider.ts:884-923 setPasswordMustChange *)
definition setPasswordMustChange :: "(string \<Rightarrow> 'd conn) \<Rightarrow> provider_config \<Rightarrow> object_id \<Rightarrow> bool \<Rightarrow> write_context
    \<Rightarrow> ('d, mutation_result) io" where
  "setPasswordMustChange connect p userId mustChange ctx =
     on_user connect p ctx userId USER_ATTRS classifyWriteError
       (\<lambda>client target before.
         io_then (cn_modify client (du_distinguishedName before)
           [replace_with ''pwdLastSet'' [Text (if mustChange then ''0'' else ''-1'')]] False) (\<lambda>_.
         io_then (read_again normalizeUser (findUserEntry p client userId USER_ATTRS)) (\<lambda>after.
         io_return (done_with
           [(''passwordMustChange'', JBool (du_passwordMustChange before)),
            (''passwordLastSetAt'', iso_json (du_passwordLastSetAt before))]
           [(''passwordMustChange'', JBool (case after of Some u \<Rightarrow> du_passwordMustChange u | None \<Rightarrow> mustChange)),
            (''passwordLastSetAt'', iso_json (Option.bind after du_passwordLastSetAt))]))))"

section \<open>Account-control bits\<close>

record control_write =
  cw_flag :: "32 word"
  cw_on :: bool
  cw_snapshot :: "32 word \<Rightarrow> (string \<times> json) list"
  cw_refuse :: "entry \<Rightarrow> mutation_result option"

text \<open>The value with the bit set or cleared, as the operators give it: a signed 32-bit number.\<close>

definition next_uac :: "control_write \<Rightarrow> int \<Rightarrow> int" where
  "next_uac w uac =
     sint (if cw_on w then to_int32 (Some uac) OR cw_flag w else to_int32 (Some uac) AND NOT (cw_flag w))"

(* src/apps/api/src/providers/active-directory/provider.ts:943-993 setAccountControlFlag *)
definition setAccountControlFlag :: "(string \<Rightarrow> 'd conn) \<Rightarrow> provider_config \<Rightarrow> account_kind \<Rightarrow> object_id
    \<Rightarrow> write_context \<Rightarrow> control_write \<Rightarrow> ('d, mutation_result) io" where
  "setAccountControlFlag connect p kind identifier ctx w =
     asOperator connect p ctx id (\<lambda>client.
       io_catch
         (io_then (findAccountEntry p client kind identifier) (\<lambda>found. case found of
             None \<Rightarrow> io_return (refused_with Not_found (kind_name kind @ '' not found''))
           | Some target \<Rightarrow>
               (case cw_refuse w target of
                  Some refused \<Rightarrow> io_return refused
                | None \<Rightarrow>
                    let dn = dn_of target
                    in case userAccountControlOf target of
                         None \<Rightarrow> io_return (refused_with Directory_error ''unparseable userAccountControl'')
                       | Some uacNum \<Rightarrow>
                           let nextUac = next_uac w uacNum;
                               before = cw_snapshot w (to_int32 (Some uacNum)) @ [(''userAccountControl'', JNum uacNum)]
                           in if nextUac = uacNum then io_return (done_with before before)
                              else io_then (cn_modify client dn [accountControlChange nextUac] False) (\<lambda>_.
                                   io_then (findAccountEntry p client kind identifier) (\<lambda>afterEntry.
                                   io_return (done_with before
                                     (cw_snapshot w (to_int32 (case afterEntry of
                                          Some e \<Rightarrow> userAccountControlOf e | None \<Rightarrow> Some nextUac))
                                      @ [(''userAccountControl'', JNum nextUac)])))))))
         (\<lambda>err. io_return (classifyWriteError err)))"

definition disable_write :: "account_kind \<Rightarrow> bool \<Rightarrow> control_write" where
  "disable_write kind disable =
     \<lparr>cw_flag = UAC_ACCOUNTDISABLE, cw_on = disable,
      cw_snapshot = (\<lambda>uac. [(''enabled'', JBool (uac AND UAC_ACCOUNTDISABLE = 0))]),
      cw_refuse = (if kind = Kind_computer \<and> disable then protectedComputer else (\<lambda>_. None))\<rparr>"

(* src/apps/api/src/providers/active-directory/provider.ts:870-882 toggleAccountDisable *)
definition toggleAccountDisable :: "(string \<Rightarrow> 'd conn) \<Rightarrow> provider_config \<Rightarrow> account_kind \<Rightarrow> object_id
    \<Rightarrow> write_context \<Rightarrow> bool \<Rightarrow> ('d, mutation_result) io" where
  "toggleAccountDisable connect p kind identifier ctx disable =
     setAccountControlFlag connect p kind identifier ctx (disable_write kind disable)"

(* src/apps/api/src/providers/active-directory/provider.ts:803-805 enableUser *)
definition enableUser :: "(string \<Rightarrow> 'd conn) \<Rightarrow> provider_config \<Rightarrow> object_id \<Rightarrow> write_context \<Rightarrow> ('d, mutation_result) io" where
  "enableUser connect p userId ctx = toggleAccountDisable connect p Kind_user userId ctx False"

(* src/apps/api/src/providers/active-directory/provider.ts:842-844 disableUser *)
definition disableUser :: "(string \<Rightarrow> 'd conn) \<Rightarrow> provider_config \<Rightarrow> object_id \<Rightarrow> write_context \<Rightarrow> ('d, mutation_result) io" where
  "disableUser connect p userId ctx = toggleAccountDisable connect p Kind_user userId ctx True"

(* src/apps/api/src/providers/active-directory/provider.ts:846-851 enableComputer *)
definition enableComputer :: "(string \<Rightarrow> 'd conn) \<Rightarrow> provider_config \<Rightarrow> object_id \<Rightarrow> write_context \<Rightarrow> ('d, mutation_result) io" where
  "enableComputer connect p computerId ctx = toggleAccountDisable connect p Kind_computer computerId ctx False"

(* src/apps/api/src/providers/active-directory/provider.ts:853-858 disableComputer *)
definition disableComputer :: "(string \<Rightarrow> 'd conn) \<Rightarrow> provider_config \<Rightarrow> object_id \<Rightarrow> write_context \<Rightarrow> ('d, mutation_result) io" where
  "disableComputer connect p computerId ctx = toggleAccountDisable connect p Kind_computer computerId ctx True"

(* src/apps/api/src/providers/active-directory/provider.ts:925-935 setPasswordNeverExpires *)
definition setPasswordNeverExpires :: "(string \<Rightarrow> 'd conn) \<Rightarrow> provider_config \<Rightarrow> object_id \<Rightarrow> bool \<Rightarrow> write_context
    \<Rightarrow> ('d, mutation_result) io" where
  "setPasswordNeverExpires connect p userId neverExpires ctx =
     setAccountControlFlag connect p Kind_user userId ctx
       \<lparr>cw_flag = UAC_DONT_EXPIRE_PASSWORD, cw_on = neverExpires,
        cw_snapshot = (\<lambda>uac. [(''passwordNeverExpires'', JBool (uac AND UAC_DONT_EXPIRE_PASSWORD \<noteq> 0))]),
        cw_refuse = (\<lambda>_. None)\<rparr>"

(* src/apps/api/src/providers/active-directory/provider.ts:995-1036 resetComputerAccount *)
definition resetComputerAccount :: "(string \<Rightarrow> 'd conn) \<Rightarrow> provider_config \<Rightarrow> object_id \<Rightarrow> write_context
    \<Rightarrow> ('d, mutation_result) io" where
  "resetComputerAccount connect p computerId ctx =
     asOperator connect p ctx id (\<lambda>client.
       io_catch
         (io_then (findComputerEntry p client computerId COMPUTER_ATTRS) (\<lambda>found. case found of
             None \<Rightarrow> io_return (refused_with Not_found ''computer not found'')
           | Some target \<Rightarrow>
               (case protectedComputer target of
                  Some refused \<Rightarrow> io_return refused
                | None \<Rightarrow>
                    io_then (io_lift (normalizeComputer target)) (\<lambda>before.
                    if \<not> truthy (dc_samAccountName before)
                    then io_return (refused_with Directory_error ''computer has no pre-Windows 2000 name'')
                    else
                      io_then (cn_modify client (dc_distinguishedName before)
                        [replace_with ''unicodePwd''
                           [Blob (encodeUnicodePassword (defaultComputerPassword (the (dc_samAccountName before))))]] False) (\<lambda>_.
                      io_then (read_again normalizeComputer (findComputerEntry p client computerId COMPUTER_ATTRS)) (\<lambda>after.
                      io_return (done_with
                        [(''passwordLastSetAt'', iso_json (dc_passwordLastSetAt before))]
                        [(''passwordLastSetAt'', iso_json (Option.bind after dc_passwordLastSetAt))])))))))
         (\<lambda>err. io_return (classifyWriteError err)))"

section \<open>Attributes\<close>

text \<open>A field of a patch that is there: null, a text or a list. One that is undefined isn't in the map.\<close>

datatype patch_value = P_null | P_text string | P_list "string list"

type_synonym attribute_patch = "(string, patch_value) jsmap"

(* src/apps/api/src/providers/active-directory/provider.ts:3049-3075 PATCH_ATTRIBUTE_MAP *)
definition PATCH_ATTRIBUTE_MAP :: "(string \<times> string) list" where
  "PATCH_ATTRIBUTE_MAP =
     [(''displayName'', ''displayName''), (''givenName'', ''givenName''), (''surname'', ''sn''), (''email'', ''mail''),
      (''phone'', ''telephoneNumber''), (''mobile'', ''mobile''), (''title'', ''title''),
      (''department'', ''department''), (''employeeID'', ''employeeID''), (''employeeNumber'', ''employeeNumber''),
      (''ipPhone'', ''ipPhone''), (''homePhone'', ''homePhone''), (''homePostalAddress'', ''homePostalAddress''),
      (''streetAddress'', ''streetAddress''), (''description'', ''description''), (''company'', ''company''),
      (''c'', ''c''), (''co'', ''co''), (''l'', ''l''), (''st'', ''st''), (''postalCode'', ''postalCode''),
      (''countryCode'', ''countryCode''), (''physicalDeliveryOfficeName'', ''physicalDeliveryOfficeName''),
      (''managerDn'', ''manager'')]"

(* src/apps/api/src/providers/active-directory/provider.ts:3078-3083 PATCH_MULTI_ATTRIBUTE_MAP *)
definition PATCH_MULTI_ATTRIBUTE_MAP :: "(string \<times> string) list" where
  "PATCH_MULTI_ATTRIBUTE_MAP =
     [(''otherMailbox'', ''otherMailbox''), (''otherHomePhone'', ''otherHomePhone''),
      (''otherMobile'', ''otherMobile''), (''postOfficeBox'', ''postOfficeBox'')]"

definition scalar_values :: "patch_value \<Rightarrow> string list" where
  "scalar_values raw = (case raw of P_text s \<Rightarrow> if trim s = [] then [] else [trim s] | _ \<Rightarrow> [])"

definition multi_values :: "patch_value \<Rightarrow> string list" where
  "multi_values raw = (case raw of P_list vs \<Rightarrow> filter (\<lambda>v. v \<noteq> []) (map trim vs) | _ \<Rightarrow> [])"

definition patch_changes :: "(patch_value \<Rightarrow> string list) \<Rightarrow> (string \<times> string) list \<Rightarrow> attribute_patch \<Rightarrow> change list" where
  "patch_changes values names patch =
     List.map_filter (\<lambda>(patchKey, attrName).
       map_option (\<lambda>raw. replace_with attrName (map Text (values raw))) (jm_get patch patchKey)) names"

(* src/apps/api/src/providers/active-directory/provider.ts:3104-3127 buildAttributeChanges *)
definition buildAttributeChanges :: "attribute_patch \<Rightarrow> change list" where
  "buildAttributeChanges patch =
     patch_changes scalar_values PATCH_ATTRIBUTE_MAP patch
     @ patch_changes multi_values PATCH_MULTI_ATTRIBUTE_MAP patch"

(* src/apps/api/src/providers/active-directory/provider.ts:3164-3168 rawAuditScalar *)
definition rawAuditScalar :: "json \<Rightarrow> json" where
  "rawAuditScalar v = text_json (rawScalarValue v)"

(* src/apps/api/src/providers/active-directory/provider.ts:3170-3176 rawAuditArray *)
definition rawAuditArray :: "json \<Rightarrow> json" where
  "rawAuditArray v =
     (if v = JNull then JArr []
      else JArr (map JStr (filter (\<lambda>s. s \<noteq> [])
        (map (\<lambda>x. case x of JStr s \<Rightarrow> s | JNull \<Rightarrow> [] | x \<Rightarrow> js_string x)
          (case v of JArr vs \<Rightarrow> vs | _ \<Rightarrow> [v])))))"

(* src/apps/api/src/providers/active-directory/provider.ts:3130-3162 snapshotForAudit *)
definition snapshotForAudit :: "directory_user \<Rightarrow> (string \<times> json) list" where
  "snapshotForAudit user =
     (let scalar = (\<lambda>k. (k, rawAuditScalar (raw_get (du_rawAttributes user) k)));
          array = (\<lambda>k. (k, rawAuditArray (raw_get (du_rawAttributes user) k)))
      in [(''displayName'', text_json (du_displayName user)), (''givenName'', text_json (du_givenName user)),
          (''surname'', text_json (du_surname user)), (''email'', text_json (du_email user)),
          (''phone'', text_json (du_phone user)), (''mobile'', text_json (du_mobile user)),
          (''title'', text_json (du_title user)), (''department'', text_json (du_department user)),
          scalar ''employeeID'', scalar ''employeeNumber'', scalar ''ipPhone'', scalar ''homePhone'',
          scalar ''homePostalAddress'', scalar ''streetAddress'', scalar ''description'', scalar ''company'',
          scalar ''c'', scalar ''co'', scalar ''l'', scalar ''st'', scalar ''postalCode'', array ''postOfficeBox'',
          scalar ''countryCode'', (''physicalDeliveryOfficeName'', text_json (du_office user)),
          (''managerDn'', text_json (du_managerDn user)), array ''otherMailbox'', array ''otherHomePhone'',
          array ''otherMobile''])"

definition refused_by_message :: "string list \<Rightarrow> ldap_err \<Rightarrow> mutation_result" where
  "refused_by_message authz err =
     (let m = message_or ''modify failed'' err
      in refused_with (if list_ex (includes_str (to_lower m)) authz then Permission_denied else Directory_error) m)"

(* src/apps/api/src/providers/active-directory/provider.ts:1048-1091 updateUserAttributes *)
definition updateUserAttributes :: "(string \<Rightarrow> 'd conn) \<Rightarrow> provider_config \<Rightarrow> object_id \<Rightarrow> attribute_patch
    \<Rightarrow> write_context \<Rightarrow> ('d, mutation_result) io" where
  "updateUserAttributes connect p userId patch ctx =
     on_user connect p ctx userId USER_ATTRS_FULL (refused_by_message [''no write'', ''insuff''])
       (\<lambda>client target before.
         let changes = buildAttributeChanges patch
         in if changes = [] then io_return (done_with (snapshotForAudit before) (snapshotForAudit before))
            else io_then (cn_modify client (du_distinguishedName before) changes False) (\<lambda>_.
                 io_then (read_again normalizeUser (findUserEntry p client userId USER_ATTRS_FULL)) (\<lambda>after.
                 io_return (done_with (snapshotForAudit before)
                   (case after of None \<Rightarrow> [] | Some u \<Rightarrow> snapshotForAudit u)))))"

section \<open>Membership\<close>

datatype member_kind = Member_user | Member_group

(* src/apps/api/src/providers/active-directory/provider.ts:1168-1192 setMember *)
definition setMember :: "'d conn \<Rightarrow> string \<Rightarrow> string \<Rightarrow> bool \<Rightarrow> ('d, bool) io" where
  "setMember client groupDn memberDn member =
     io_then (cn_search client
         \<lparr>sr_base = groupDn, sr_scope = Scope_base,
          sr_filter = Filter_text (''(member='' @ escapeLdapFilter memberDn @ '')''),
          sr_attributes = [''distinguishedName''], sr_deleted = False\<rparr>) (\<lambda>es.
       let wasMember = (es \<noteq> [])
       in if wasMember \<noteq> member
          then io_then (cn_modify client groupDn
                 [\<lparr>ch_operation = (if member then Change_add else Change_delete), ch_type = ''member'',
                   ch_values = [Text memberDn]\<rparr>] False) (\<lambda>_. io_return wasMember)
          else io_return wasMember)"

definition member_name :: "member_kind \<Rightarrow> string" where
  "member_name kind = (if kind = Member_user then ''user'' else ''group'')"

(* src/apps/api/src/providers/active-directory/provider.ts:1129-1165 modifyGroupMembership *)
definition modifyGroupMembership :: "(string \<Rightarrow> 'd conn) \<Rightarrow> provider_config \<Rightarrow> member_kind \<Rightarrow> object_id \<Rightarrow> object_id
    \<Rightarrow> write_context \<Rightarrow> bool \<Rightarrow> ('d, mutation_result) io" where
  "modifyGroupMembership connect p kind memberId groupId ctx add =
     asOperator connect p ctx id (\<lambda>client.
       io_catch
         (io_then (if kind = Member_user then findUserEntry p client memberId [''objectGUID'', ''distinguishedName'']
                   else findGroupEntry p client memberId [''objectGUID'', ''distinguishedName'']) (\<lambda>found. case found of
             None \<Rightarrow> io_return (refused_with Not_found (member_name kind @ '' not found''))
           | Some memberEntry \<Rightarrow>
               io_then (findGroupEntry p client groupId [''objectGUID'', ''distinguishedName'']) (\<lambda>found. case found of
                   None \<Rightarrow> io_return (refused_with Not_found ''group not found'')
                 | Some groupEntry \<Rightarrow>
                     let snapshot = (\<lambda>inGroup.
                           [(''isMember'', JBool inGroup), (''group'', JStr (dn_of groupEntry)),
                            (''member'', JStr (dn_of memberEntry)), (''memberKind'', JStr (member_name kind))])
                     in io_then (setMember client (dn_of groupEntry) (dn_of memberEntry) add) (\<lambda>wasMember.
                        io_return (done_with (snapshot wasMember) (snapshot add))))))
         (\<lambda>err. io_return (classifyWriteError err)))"

(* src/apps/api/src/providers/active-directory/provider.ts:1092-1098 addUserToGroup *)
definition addUserToGroup :: "(string \<Rightarrow> 'd conn) \<Rightarrow> provider_config \<Rightarrow> object_id \<Rightarrow> object_id \<Rightarrow> write_context
    \<Rightarrow> ('d, mutation_result) io" where
  "addUserToGroup connect p userId groupId ctx = modifyGroupMembership connect p Member_user userId groupId ctx True"

(* src/apps/api/src/providers/active-directory/provider.ts:1100-1106 removeUserFromGroup *)
definition removeUserFromGroup :: "(string \<Rightarrow> 'd conn) \<Rightarrow> provider_config \<Rightarrow> object_id \<Rightarrow> object_id \<Rightarrow> write_context
    \<Rightarrow> ('d, mutation_result) io" where
  "removeUserFromGroup connect p userId groupId ctx = modifyGroupMembership connect p Member_user userId groupId ctx False"

(* src/apps/api/src/providers/active-directory/provider.ts:1108-1114 addGroupToGroup *)
definition addGroupToGroup :: "(string \<Rightarrow> 'd conn) \<Rightarrow> provider_config \<Rightarrow> object_id \<Rightarrow> object_id \<Rightarrow> write_context
    \<Rightarrow> ('d, mutation_result) io" where
  "addGroupToGroup connect p memberId groupId ctx = modifyGroupMembership connect p Member_group memberId groupId ctx True"

(* src/apps/api/src/providers/active-directory/provider.ts:1116-1122 removeGroupFromGroup *)
definition removeGroupFromGroup :: "(string \<Rightarrow> 'd conn) \<Rightarrow> provider_config \<Rightarrow> object_id \<Rightarrow> object_id \<Rightarrow> write_context
    \<Rightarrow> ('d, mutation_result) io" where
  "removeGroupFromGroup connect p memberId groupId ctx = modifyGroupMembership connect p Member_group memberId groupId ctx False"

section \<open>Moves\<close>

definition move_snapshot :: "string \<Rightarrow> string option \<Rightarrow> string option \<Rightarrow> (string \<times> json) list" where
  "move_snapshot dn parent parentGuid =
     [(''distinguishedName'', JStr dn), (''parentDn'', text_json parent), (''parentGuid'', text_json parentGuid)]"

(* src/apps/api/src/providers/active-directory/provider.ts:1225-1272 moveAccount *)
definition moveAccount :: "(string \<Rightarrow> 'd conn) \<Rightarrow> provider_config \<Rightarrow> account_kind \<Rightarrow> object_id \<Rightarrow> string
    \<Rightarrow> write_context \<Rightarrow> ('d, mutation_result) io" where
  "moveAccount connect p kind identifier targetOuDn ctx =
     (let trimmedTarget = trim targetOuDn
      in if trimmedTarget = [] then io_return (refused_with Directory_error ''empty target OU'')
         else asOperator connect p ctx id (\<lambda>client.
           io_catch
             (io_then (findAccountEntry p client kind identifier) (\<lambda>found. case found of
                 None \<Rightarrow> io_return (refused_with Not_found (kind_name kind @ '' not found''))
               | Some target \<Rightarrow>
                   (case (if kind = Kind_computer then protectedComputer target else None) of
                      Some refused \<Rightarrow> io_return refused
                    | None \<Rightarrow>
                        let dn = dn_of target; currentParent = parentDn dn
                        in io_then (if truthy currentParent then guidOf client (the currentParent) else io_return None) (\<lambda>parentGuid.
                           if truthy currentParent \<and> to_lower (the currentParent) = to_lower trimmedTarget
                           then io_return (done_with (move_snapshot dn currentParent parentGuid)
                                  (move_snapshot dn currentParent parentGuid))
                           else let newDn = leafRdn dn @ '','' @ trimmedTarget
                                in io_then (cn_modifyDN client dn newDn) (\<lambda>_.
                                   io_then (guidOf client trimmedTarget) (\<lambda>newGuid.
                                   io_return (done_with (move_snapshot dn currentParent parentGuid)
                                     (move_snapshot newDn (Some trimmedTarget) newGuid))))))))
             (\<lambda>err. io_return (classifyWriteError err))))"

(* src/apps/api/src/providers/active-directory/provider.ts:1209-1215 moveUser *)
definition moveUser :: "(string \<Rightarrow> 'd conn) \<Rightarrow> provider_config \<Rightarrow> object_id \<Rightarrow> string \<Rightarrow> write_context
    \<Rightarrow> ('d, mutation_result) io" where
  "moveUser connect p userId targetOuDn ctx = moveAccount connect p Kind_user userId targetOuDn ctx"

(* src/apps/api/src/providers/active-directory/provider.ts:1217-1223 moveComputer *)
definition moveComputer :: "(string \<Rightarrow> 'd conn) \<Rightarrow> provider_config \<Rightarrow> object_id \<Rightarrow> string \<Rightarrow> write_context
    \<Rightarrow> ('d, mutation_result) io" where
  "moveComputer connect p computerId targetOuDn ctx = moveAccount connect p Kind_computer computerId targetOuDn ctx"

end
