(* ===== verification/AdObjectWrites.thy ===== *)
theory AdObjectWrites
  imports AdAccountWrites
begin

unbundle bit_operations_syntax

text \<open>
  The writes that make, rename and delete objects (\<^verbatim>\<open>providers/active-directory/provider.ts\<close>,
  \<^verbatim>\<open>rename.ts\<close>): renaming a person, deleting users and groups, creating users step by step, groups
  and OUs, and bringing a deleted user back.
\<close>

section \<open>Names already taken\<close>

(* src/apps/api/src/providers/active-directory/provider.ts:3246-3246 ClashAttribute *)
datatype clash_attribute = Clash_sam | Clash_upn | Clash_email | Clash_cn

(* src/apps/api/src/providers/active-directory/provider.ts:3247-3252 CLASH_ORDER *)
definition CLASH_ORDER :: "clash_attribute list" where
  "CLASH_ORDER = [Clash_sam, Clash_upn, Clash_email, Clash_cn]"

type_synonym names = "clash_attribute \<Rightarrow> string option"

fun clash_filter :: "clash_attribute \<Rightarrow> string \<Rightarrow> string" where
  "clash_filter Clash_sam v = ''(sAMAccountName='' @ v @ '')''"
| "clash_filter Clash_upn v = ''(userPrincipalName='' @ v @ '')''"
| "clash_filter Clash_email v = ''(|(mail='' @ v @ '')(proxyAddresses=smtp:'' @ v @ ''))''"
| "clash_filter Clash_cn v = ''(cn='' @ v @ '')''"

(* src/apps/api/src/providers/active-directory/provider.ts:2066-2074 resolveDefaultNamingContext *)
definition resolveDefaultNamingContext :: "'d conn \<Rightarrow> ('d, string option) io" where
  "resolveDefaultNamingContext client =
     io_then (cn_search client
         \<lparr>sr_base = [], sr_scope = Scope_base, sr_filter = Filter_text ''(objectClass=*)'',
          sr_attributes = [''defaultNamingContext''], sr_deleted = False\<rparr>)
       (\<lambda>es. io_return (case es of [] \<Rightarrow> None | dse # _ \<Rightarrow> asString (attr dse ''defaultNamingContext'')))"

(* src/apps/api/src/providers/active-directory/provider.ts:2062-2064 domainRoot *)
definition domainRoot :: "provider_config \<Rightarrow> 'd conn \<Rightarrow> ('d, string) io" where
  "domainRoot p client =
     io_then (resolveDefaultNamingContext client)
       (\<lambda>nc. io_return (case nc of None \<Rightarrow> pc_baseDn p | Some d \<Rightarrow> d))"

text \<open>The first entry that isn't the object itself. A GUID of the wrong length throws.\<close>

fun other_than :: "string option \<Rightarrow> entry list \<Rightarrow> entry_error + entry option" where
  "other_than except [] = Inr None"
| "other_than except (e # es) =
     (case attr e ''objectGUID'' of
        Some (One (Blob b)) \<Rightarrow>
          (case objectGuidToString b of
             None \<Rightarrow> Inl Bad_guid
           | Some guid \<Rightarrow> if Some guid = except then other_than except es else Inr (Some e))
      | _ \<Rightarrow> Inr (Some e))"

fun clashes_from :: "provider_config \<Rightarrow> 'd conn \<Rightarrow> string \<Rightarrow> names \<Rightarrow> string option \<Rightarrow> string option
    \<Rightarrow> clash_attribute list \<Rightarrow> (clash_attribute \<times> string option) list \<Rightarrow> ('d, (clash_attribute \<times> string option) list) io" where
  "clashes_from p client root names parent except [] holders = io_return holders"
| "clashes_from p client root names parent except (a # as) holders =
     (case map_option trim (names a) of
        Some (c # v) \<Rightarrow>
          io_then (cn_search client
              \<lparr>sr_base = (if a = Clash_cn then (case parent of None \<Rightarrow> root | Some d \<Rightarrow> d) else root),
               sr_scope = (if a = Clash_cn then Scope_one else Scope_sub),
               sr_filter = Filter_text (clash_filter a (escapeLdapFilter (c # v))),
               sr_attributes = [''objectGUID'', ''distinguishedName''], sr_deleted = False\<rparr>) (\<lambda>es.
          io_then (io_lift (other_than except es)) (\<lambda>other.
            clashes_from p client root names parent except as
              (case other of
                 None \<Rightarrow> holders
               | Some e \<Rightarrow> holders @ [(a, if isDnWithin (en_dn e) (pc_baseDn p) then Some (en_dn e) else None)])))
      | _ \<Rightarrow> clashes_from p client root names parent except as holders)"

(* src/apps/api/src/providers/active-directory/provider.ts:1441-1476 nameClashes *)
definition nameClashes :: "provider_config \<Rightarrow> 'd conn \<Rightarrow> names \<Rightarrow> string option \<Rightarrow> string option
    \<Rightarrow> ('d, (clash_attribute \<times> string option) list) io" where
  "nameClashes p client names parent except =
     io_then (domainRoot p client) (\<lambda>root. clashes_from p client root names parent except CLASH_ORDER [])"

fun clash_label :: "string option \<Rightarrow> clash_attribute \<Rightarrow> string" where
  "clash_label samLabel Clash_sam = (case samLabel of None \<Rightarrow> ''logon name'' | Some l \<Rightarrow> l)"
| "clash_label samLabel Clash_upn = ''UPN''"
| "clash_label samLabel Clash_email = ''email address''"
| "clash_label samLabel Clash_cn = ''name''"

text \<open>The holders come in the order the attributes are asked about, so the first of them is the first held.\<close>

(* src/apps/api/src/providers/active-directory/provider.ts:1479-1499 findNameClash *)
definition findNameClash :: "provider_config \<Rightarrow> 'd conn \<Rightarrow> names \<Rightarrow> string option \<Rightarrow> string option \<Rightarrow> string option
    \<Rightarrow> ('d, string option) io" where
  "findNameClash p client names parent except samLabel =
     io_then (nameClashes p client names parent except) (\<lambda>holders.
       io_return (case holders of
           [] \<Rightarrow> None
         | (a, dn) # _ \<Rightarrow>
             Some (''the '' @ clash_label samLabel a @ '' '' @ [quote] @ trim (or_empty (names a)) @ [quote]
                   @ '' is already used ''
                   @ (if truthy dn then ''by '' @ the dn
                      else if a = Clash_cn then ''in this OU'' else ''elsewhere in the domain''))))"

section \<open>Renaming\<close>

text \<open>A field is undefined, null (clear it) or a text.\<close>

(* src/apps/api/src/providers/types.ts:706-716 UserRenameInput *)
record rename_input =
  ri_givenName :: "string option option"
  ri_surname :: "string option option"
  ri_displayName :: "string option option"
  ri_cn :: "string option option"
  ri_samAccountName :: "string option option"
  ri_userPrincipalName :: "string option option"
  ri_email :: "string option option"
  ri_keepOldEmailAsAlias :: bool

(* src/apps/api/src/providers/active-directory/rename.ts:8-17 RenameCurrent *)
record rename_current =
  rc_givenName :: "string option"
  rc_surname :: "string option"
  rc_displayName :: "string option"
  rc_cn :: "string option"
  rc_samAccountName :: "string option"
  rc_userPrincipalName :: "string option"
  rc_email :: "string option"
  rc_proxyAddresses :: "string list"

(* src/apps/api/src/providers/active-directory/rename.ts:19-28 RenamePlan *)
record rename_plan =
  rpl_attributes :: "(string \<times> string list) list"
  rpl_newCn :: "string option"
  rpl_newSamAccountName :: "string option"
  rpl_newUserPrincipalName :: "string option"
  rpl_newEmail :: "string option"

(* src/apps/api/src/providers/active-directory/rename.ts:108-112 clean *)
definition clean_field :: "string option option \<Rightarrow> string option option" where
  "clean_field v = (case v of Some (Some s) \<Rightarrow> Some (or_none (trim s)) | _ \<Rightarrow> v)"

(* src/apps/api/src/providers/active-directory/rename.ts:98-100 isSmtp *)
definition isSmtp :: "string \<Rightarrow> bool" where
  "isSmtp p \<longleftrightarrow> to_lower (take 5 p) = ''smtp:''"

(* src/apps/api/src/providers/active-directory/rename.ts:81-96 nextProxyAddresses *)
definition nextProxyAddresses :: "string list \<Rightarrow> string option \<Rightarrow> bool \<Rightarrow> string list" where
  "nextProxyAddresses current email keepOldAsAlias =
     (let newLower = map_option to_lower email;
          primary = find (\<lambda>p. starts_with p ''SMTP:'') current;
          rest = filter (\<lambda>p. Some p \<noteq> primary \<and> \<not> (isSmtp p \<and> Some (to_lower (drop 5 p)) = newLower)) current;
          rest = (case primary of
              Some pr \<Rightarrow> if keepOldAsAlias \<and> Some (to_lower (drop 5 pr)) \<noteq> newLower
                         then rest @ [''smtp:'' @ drop 5 pr] else rest
            | None \<Rightarrow> rest)
      in case email of Some e \<Rightarrow> (''SMTP:'' @ e) # rest | None \<Rightarrow> rest)"

(* src/apps/api/src/providers/active-directory/rename.ts:102-106 sameList *)
definition sameList :: "string list \<Rightarrow> string list \<Rightarrow> bool" where
  "sameList a b \<longleftrightarrow> length a = length b \<and> sort a = sort b"

definition changed_field :: "string \<Rightarrow> string option option \<Rightarrow> string option \<Rightarrow> (string \<times> string list) list" where
  "changed_field attrName v current =
     (case clean_field v of
        None \<Rightarrow> []
      | Some new \<Rightarrow> if new = current then [] else [(attrName, case new of None \<Rightarrow> [] | Some s \<Rightarrow> [s])])"

definition new_name :: "string \<Rightarrow> (string \<times> string list) list \<Rightarrow> string option option \<Rightarrow> string option" where
  "new_name attrName attributes v =
     (if map_of attributes attrName = None then None else (case clean_field v of None \<Rightarrow> None | Some s \<Rightarrow> s))"

(* src/apps/api/src/providers/active-directory/rename.ts:38-73 planUserRename *)
definition planUserRename :: "rename_current \<Rightarrow> rename_input \<Rightarrow> rename_plan" where
  "planUserRename current input =
     (let scalars =
            changed_field ''givenName'' (ri_givenName input) (rc_givenName current)
            @ changed_field ''sn'' (ri_surname input) (rc_surname current)
            @ changed_field ''displayName'' (ri_displayName input) (rc_displayName current)
            @ changed_field ''sAMAccountName'' (ri_samAccountName input) (rc_samAccountName current)
            @ changed_field ''userPrincipalName'' (ri_userPrincipalName input) (rc_userPrincipalName current);
          newCn = (case clean_field (ri_cn input) of
              Some (Some cn) \<Rightarrow> if Some cn \<noteq> rc_cn current then Some cn else None | _ \<Rightarrow> None);
          mail = changed_field ''mail'' (ri_email input) (rc_email current);
          email = (case clean_field (ri_email input) of Some e \<Rightarrow> e | None \<Rightarrow> None);
          proxies = nextProxyAddresses (rc_proxyAddresses current) email (ri_keepOldEmailAsAlias input)
      in \<lparr>rpl_attributes = scalars @ mail
            @ (if mail \<noteq> [] \<and> rc_proxyAddresses current \<noteq> [] \<and> \<not> sameList proxies (rc_proxyAddresses current)
               then [(''proxyAddresses'', proxies)] else []),
          rpl_newCn = newCn,
          rpl_newSamAccountName = new_name ''sAMAccountName'' scalars (ri_samAccountName input),
          rpl_newUserPrincipalName = new_name ''userPrincipalName'' scalars (ri_userPrincipalName input),
          rpl_newEmail = (if mail \<noteq> [] then email else None)\<rparr>)"

(* src/apps/api/src/providers/active-directory/provider.ts:3179-3192 renameSnapshot *)
definition renameSnapshot :: "directory_user \<Rightarrow> (string \<times> json) list" where
  "renameSnapshot user =
     [(''distinguishedName'', JStr (du_distinguishedName user)),
      (''cn'', rawAuditScalar (raw_get (du_rawAttributes user) ''cn'')),
      (''givenName'', text_json (du_givenName user)), (''surname'', text_json (du_surname user)),
      (''displayName'', text_json (du_displayName user)), (''samAccountName'', text_json (du_samAccountName user)),
      (''userPrincipalName'', text_json (du_userPrincipalName user)), (''email'', text_json (du_email user)),
      (''proxyAddresses'', rawAuditArray (raw_get (du_rawAttributes user) ''proxyAddresses''))]"

definition rename_changes :: "rename_plan \<Rightarrow> change list" where
  "rename_changes plan =
     map (\<lambda>(type, values). \<lparr>ch_operation = (if values = [] then Change_delete else Change_replace),
                             ch_type = type, ch_values = map Text values\<rparr>) (rpl_attributes plan)"

definition or_null_text :: "string option \<Rightarrow> string" where
  "or_null_text s = (case s of None \<Rightarrow> ''null'' | Some t \<Rightarrow> t)"

definition rename_failure :: "ldap_err \<Rightarrow> bool \<Rightarrow> string \<Rightarrow> mutation_result" where
  "rename_failure err rolledBack dn =
     (let m = message_or ''modify failed'' err
      in (classifyWriteError err)\<lparr>mr_errorMessage := Some (
           if rolledBack then m @ '' (the name change was rolled back)''
           else m @ '' (the object was renamed to '' @ dn
                @ '' but its attributes were not updated, and renaming it back failed)'')\<rparr>)"

(* src/apps/api/src/providers/active-directory/provider.ts:1284-1373 renameUser *)
definition renameUser :: "(string \<Rightarrow> 'd conn) \<Rightarrow> provider_config \<Rightarrow> object_id \<Rightarrow> rename_input \<Rightarrow> write_context
    \<Rightarrow> ('d, mutation_result) io" where
  "renameUser connect p userId input ctx =
     on_user connect p ctx userId USER_ATTRS_FULL classifyWriteError
       (\<lambda>client target user.
         let before = renameSnapshot user;
             plan = planUserRename
               \<lparr>rc_givenName = du_givenName user, rc_surname = du_surname user, rc_displayName = du_displayName user,
                rc_cn = asString (attr target ''cn''), rc_samAccountName = du_samAccountName user,
                rc_userPrincipalName = du_userPrincipalName user, rc_email = du_email user,
                rc_proxyAddresses = asStringArray (attr target ''proxyAddresses'')\<rparr> input
         in if rpl_attributes plan = [] \<and> rpl_newCn plan = None then io_return (done_with before before)
            else
              io_then (findNameClash p client
                  (\<lambda>a. case a of Clash_sam \<Rightarrow> rpl_newSamAccountName plan | Clash_upn \<Rightarrow> rpl_newUserPrincipalName plan
                       | Clash_email \<Rightarrow> rpl_newEmail plan | Clash_cn \<Rightarrow> rpl_newCn plan)
                  (parentDn (du_distinguishedName user)) (Some (du_objectGuid user)) None) (\<lambda>conflict.
              case conflict of
                Some m \<Rightarrow> io_return ((refused_with Conflict m)\<lparr>mr_before := Some before\<rparr>)
              | None \<Rightarrow>
                  let oldDn = du_distinguishedName user; oldRdn = leafRdn oldDn
                  in io_then
                       (case rpl_newCn plan of
                          None \<Rightarrow> io_return oldDn
                        | Some cn \<Rightarrow>
                            let newRdn = ''CN='' @ escapeRdnValueRfc cn
                            in io_then (cn_modifyDN client oldDn newRdn)
                                 (\<lambda>_. io_return (newRdn @ '','' @ or_null_text (parentDn oldDn)))) (\<lambda>dn.
                     io_then
                       (if rename_changes plan = [] then io_return None
                        else io_catch (io_then (cn_modify client dn (rename_changes plan) False) (\<lambda>_. io_return None))
                          (\<lambda>err. if rpl_newCn plan \<noteq> None
                                 then io_then (io_catch (io_then (cn_modifyDN client dn oldRdn) (\<lambda>_. io_return True))
                                                (\<lambda>_. io_return False))
                                        (\<lambda>rolledBack. io_return (Some (rename_failure err rolledBack dn)))
                                 else io_throw err)) (\<lambda>failed.
                     case failed of
                       Some r \<Rightarrow> io_return r
                     | None \<Rightarrow>
                         io_then (read_again normalizeUser (findUserEntry p client userId USER_ATTRS_FULL)) (\<lambda>after.
                         io_return (done_with before (case after of None \<Rightarrow> [] | Some u \<Rightarrow> renameSnapshot u)))))))"

section \<open>Deleting a user\<close>

(* src/apps/api/src/providers/active-directory/provider.ts:3199-3209 deletionSnapshot *)
definition deletionSnapshot :: "directory_user \<Rightarrow> (string \<times> json) list" where
  "deletionSnapshot user =
     snapshotForAudit user
     @ [(''distinguishedName'', JStr (du_distinguishedName user)), (''samAccountName'', text_json (du_samAccountName user)),
        (''userPrincipalName'', text_json (du_userPrincipalName user)), (''sid'', text_json (du_sid user)),
        (''enabled'', JBool (du_enabled user)), (''memberOf'', JArr (map JStr (du_memberOfDns user)))]"

definition deleted_as :: "(string \<times> json) list \<Rightarrow> bool \<Rightarrow> mutation_result \<times> bool option" where
  "deleted_as before treeDelete =
     (done_with before [(''deleted'', JBool True), (''treeDelete'', JBool treeDelete)], Some treeDelete)"

definition tree_refusal :: string where
  "tree_refusal = ''the account contains other objects (e.g. Exchange ActiveSync devices); confirm deleting them too''"

(* src/apps/api/src/providers/active-directory/provider.ts:1384-1431 deleteUser *)
definition deleteUser :: "(string \<Rightarrow> 'd conn) \<Rightarrow> provider_config \<Rightarrow> object_id \<Rightarrow> write_context \<Rightarrow> bool
    \<Rightarrow> ('d, mutation_result \<times> bool option) io" where
  "deleteUser connect p userId ctx allowTreeDelete =
     asOperator connect p ctx (\<lambda>r. (r, None)) (\<lambda>client.
       io_catch
         (io_then (findUserEntry p client userId USER_ATTRS_FULL) (\<lambda>found. case found of
             None \<Rightarrow> io_return (refused_with Not_found ''user not found'', None)
           | Some target \<Rightarrow>
               io_then (io_lift (normalizeUser target)) (\<lambda>user.
               let before = deletionSnapshot user
               in case userDeleteBlockReason (du_enabled user) (du_sid user) (du_rawAttributes user) of
                    Some blocked \<Rightarrow>
                      io_return ((refused_with Policy_violation (describeDeleteBlock blocked))\<lparr>mr_before := Some before\<rparr>, None)
                  | None \<Rightarrow>
                      io_catch
                        (io_then (cn_del client (du_distinguishedName user) False) (\<lambda>_. io_return (deleted_as before False)))
                        (\<lambda>err. case err of
                            Err Not_allowed_on_non_leaf _ _ \<Rightarrow>
                              if \<not> allowTreeDelete
                              then io_return ((refused_with Policy_violation tree_refusal)\<lparr>mr_before := Some before\<rparr>, None)
                              else io_then (cn_del client (du_distinguishedName user) True)
                                     (\<lambda>_. io_return (deleted_as before True))
                          | _ \<Rightarrow> io_throw err))))
         (\<lambda>err. io_return (classifyWriteError err, None)))"

section \<open>Creating a user\<close>

(* src/packages/shared/src/schemas/userCreate.ts:58-58 UserCreateStep *)
datatype create_step = Step_create | Step_password | Step_groups | Step_enable

(* src/packages/shared/src/schemas/userCreate.ts:57-57 USER_CREATE_STEPS *)
definition USER_CREATE_STEPS :: "create_step list" where
  "USER_CREATE_STEPS = [Step_create, Step_password, Step_groups, Step_enable]"

(* src/packages/shared/src/schemas/userCreate.ts:61-63 plannedSteps *)
definition plannedSteps :: "bool \<Rightarrow> bool \<Rightarrow> create_step list" where
  "plannedSteps enabled withGroups =
     filter (\<lambda>s. (s \<noteq> Step_enable \<or> enabled) \<and> (s \<noteq> Step_groups \<or> withGroups)) USER_CREATE_STEPS"

(* src/packages/shared/src/schemas/userCreate.ts:65-70 remainingSteps *)
definition remainingSteps :: "create_step list \<Rightarrow> create_step list \<Rightarrow> create_step list" where
  "remainingSteps planned completed = filter (\<lambda>s. s \<notin> set completed) planned"

(* src/apps/api/src/providers/types.ts:741-764 UserCreateInput *)
record create_input =
  ci_dn :: string
  ci_cn :: string
  ci_samAccountName :: string
  ci_userPrincipalName :: string
  ci_givenName :: string
  ci_surname :: string
  ci_displayName :: string
  ci_mail :: "string option"
  ci_otherMailbox :: "string option"
  ci_mobile :: "string option"
  ci_telephoneNumber :: "string option"
  ci_organisation :: "(string \<times> string) list"
  ci_manager :: "string option"
  ci_initials :: "string option"
  ci_employeeId :: "string option"
  ci_description :: "string option"
  ci_usageLocation :: "string option"

(* src/apps/api/src/providers/types.ts:767-772 UserCreateFinish *)
record create_finish =
  cf_password :: string
  cf_mustChange :: bool
  cf_groups :: "string list"

(* src/apps/api/src/providers/types.ts:775-780 GroupsStepResult *)
record groups_step =
  gs_added :: "string list"
  gs_failed :: "(string \<times> failure_reason \<times> string) list"
  gs_missing :: "string list"

(* src/apps/api/src/providers/types.ts:800-806 AccountFingerprint *)
record account_fingerprint =
  fp_objectGuid :: string
  fp_whenCreated :: "string option"
  fp_usnChanged :: "string option"
  fp_pwdLastSet :: "string option"
  fp_lastLogonTimestamp :: "string option"

(* src/apps/api/src/providers/types.ts:782-793 UserCreateResult *)
record create_result =
  cr_result :: mutation_result
  cr_completed :: "create_step list"
  cr_failedStep :: "create_step option"
  cr_groups :: "groups_step option"
  cr_user :: "directory_user option"
  cr_fingerprint :: "account_fingerprint option"

definition not_created :: "mutation_result \<Rightarrow> create_result" where
  "not_created r =
     \<lparr>cr_result = r, cr_completed = [], cr_failedStep = None, cr_groups = None, cr_user = None, cr_fingerprint = None\<rparr>"

definition plain_ok :: mutation_result where
  "plain_ok = \<lparr>mr_ok = True, mr_before = None, mr_after = None, mr_reason = None, mr_errorMessage = None\<rparr>"

(* src/apps/api/src/providers/active-directory/provider.ts:1858-1878 accountFingerprint *)
definition accountFingerprint :: "provider_config \<Rightarrow> 'd conn \<Rightarrow> object_id \<Rightarrow> ('d, account_fingerprint option) io" where
  "accountFingerprint p client identifier =
     io_then (findUserEntry p client identifier
         [''objectGUID'', ''whenCreated'', ''uSNChanged'', ''pwdLastSet'', ''lastLogonTimestamp'']) (\<lambda>found.
       case found of
         None \<Rightarrow> io_return None
       | Some e \<Rightarrow>
           (case attr e ''objectGUID'' of
              Some (One (Blob b)) \<Rightarrow>
                (case objectGuidToString b of
                   None \<Rightarrow> io_throw (Err Plain_error None ''malformed entry'')
                 | Some guid \<Rightarrow> io_return (Some
                     \<lparr>fp_objectGuid = guid, fp_whenCreated = asString (attr e ''whenCreated''),
                      fp_usnChanged = asString (attr e ''uSNChanged''), fp_pwdLastSet = asString (attr e ''pwdLastSet''),
                      fp_lastLogonTimestamp = asString (attr e ''lastLogonTimestamp'')\<rparr>))
            | _ \<Rightarrow> io_return None))"

(* src/apps/api/src/providers/active-directory/provider.ts:1950-1974 addToGroups *)
fun addToGroups :: "'d conn \<Rightarrow> string \<Rightarrow> string list \<Rightarrow> groups_step \<Rightarrow> ('d, groups_step) io" where
  "addToGroups client dn [] acc = io_return acc"
| "addToGroups client dn (groupDn # groupDns) acc =
     io_then
       (io_catch (io_then (setMember client groupDn dn True) (\<lambda>_. io_return (acc\<lparr>gs_added := gs_added acc @ [groupDn]\<rparr>)))
         (\<lambda>err. case err of
             Err No_such_object _ _ \<Rightarrow> io_return (acc\<lparr>gs_missing := gs_missing acc @ [groupDn]\<rparr>)
           | _ \<Rightarrow> let r = classifyWriteError err
                  in io_return (acc\<lparr>gs_failed := gs_failed acc
                       @ [(groupDn, case mr_reason r of None \<Rightarrow> Directory_error | Some x \<Rightarrow> x,
                           case mr_errorMessage r of None \<Rightarrow> ''refused'' | Some m \<Rightarrow> m)]\<rparr>)))
       (addToGroups client dn groupDns)"

text \<open>The account as the steps left it: what can be read of it.\<close>

definition left_as :: "provider_config \<Rightarrow> 'd conn \<Rightarrow> string \<Rightarrow> create_result \<Rightarrow> ('d, create_result) io" where
  "left_as p client dn r =
     io_then (io_catch (findUserEntry p client (By_distinguishedName dn) USER_ATTRS) (\<lambda>_. io_return None)) (\<lambda>e.
     io_then (io_catch (accountFingerprint p client (By_distinguishedName dn)) (\<lambda>_. io_return None)) (\<lambda>fingerprint.
     io_then (case e of None \<Rightarrow> io_return None
              | Some e \<Rightarrow> io_then (io_lift (normalizeUser e)) (\<lambda>u. io_return (Some u))) (\<lambda>user.
     io_return (r\<lparr>cr_user := user, cr_fingerprint := fingerprint\<rparr>))))"

definition groups_failure :: "groups_step \<Rightarrow> mutation_result" where
  "groups_failure g =
     refused_with (fst (snd (hd (gs_failed g))))
       (join ''; '' (map (\<lambda>(dn, _, m). (case leafRdnValue dn of None \<Rightarrow> dn | Some v \<Rightarrow> v) @ '': '' @ m) (gs_failed g)))"

text \<open>The modify of a step, and nothing for a step that has none.\<close>

definition step_write :: "'d conn \<Rightarrow> string \<Rightarrow> create_finish \<Rightarrow> create_step \<Rightarrow> ('d, unit) io" where
  "step_write client dn finish step =
     (case step of
        Step_password \<Rightarrow>
          cn_modify client dn (passwordChanges (cf_password finish) (cf_mustChange finish)
            @ [accountControlChange (sint (UAC_NORMAL_ACCOUNT OR UAC_ACCOUNTDISABLE))]) False
      | Step_enable \<Rightarrow> cn_modify client dn [accountControlChange (sint UAC_NORMAL_ACCOUNT)] False
      | _ \<Rightarrow> io_return ())"

(* src/apps/api/src/providers/active-directory/provider.ts:1886-1947 runCreateSteps *)
fun runCreateSteps :: "provider_config \<Rightarrow> 'd conn \<Rightarrow> string \<Rightarrow> create_step list \<Rightarrow> create_step list \<Rightarrow> create_finish
    \<Rightarrow> groups_step option \<Rightarrow> ('d, create_result) io" where
  "runCreateSteps p client dn completed [] finish joined =
     left_as p client dn ((not_created plain_ok)\<lparr>cr_completed := completed, cr_groups := joined\<rparr>)"
| "runCreateSteps p client dn completed (step # steps) finish joined =
     (if step \<in> set completed then runCreateSteps p client dn completed steps finish joined
      else if step = Step_groups then
        io_then (addToGroups client dn (cf_groups finish) \<lparr>gs_added = [], gs_failed = [], gs_missing = []\<rparr>) (\<lambda>g.
          if gs_failed g \<noteq> []
          then left_as p client dn ((not_created (groups_failure g))
                 \<lparr>cr_completed := completed, cr_failedStep := Some step, cr_groups := Some g\<rparr>)
          else runCreateSteps p client dn (completed @ [step]) steps finish (Some g))
      else
        io_then (io_catch (io_then (step_write client dn finish step) (\<lambda>_. io_return None)) (\<lambda>err. io_return (Some err))) (\<lambda>failed.
          case failed of
            None \<Rightarrow> runCreateSteps p client dn (completed @ [step]) steps finish joined
          | Some err \<Rightarrow>
              left_as p client dn ((not_created (if step = Step_password then classifyPasswordError err else classifyWriteError err))
                \<lparr>cr_completed := completed, cr_failedStep := Some step, cr_groups := joined\<rparr>)))"

definition optional_attr :: "string \<Rightarrow> string option \<Rightarrow> (string, string list) jsmap \<Rightarrow> (string, string list) jsmap" where
  "optional_attr k v attrs = (if truthy v then jm_set k [the v] attrs else attrs)"

definition create_attributes :: "create_input \<Rightarrow> (string, string list) jsmap" where
  "create_attributes input =
     (let attrs =
            [(''objectClass'', [''top'', ''person'', ''organizationalPerson'', ''user'']),
             (''cn'', [ci_cn input]), (''sAMAccountName'', [ci_samAccountName input]),
             (''userPrincipalName'', [ci_userPrincipalName input]), (''givenName'', [ci_givenName input]),
             (''sn'', [ci_surname input]), (''displayName'', [ci_displayName input]),
             (''userAccountControl'', [dec (sint (UAC_NORMAL_ACCOUNT OR UAC_ACCOUNTDISABLE))])];
          attrs = fold (\<lambda>(k, v). optional_attr k v)
            [(''mail'', ci_mail input), (''otherMailbox'', ci_otherMailbox input), (''mobile'', ci_mobile input),
             (''telephoneNumber'', ci_telephoneNumber input), (''initials'', ci_initials input),
             (''employeeID'', ci_employeeId input), (''description'', ci_description input),
             (''msExchUsageLocation'', ci_usageLocation input)] attrs;
          attrs = fold (\<lambda>(k, v). jm_set k [v]) (ci_organisation input) attrs
      in optional_attr ''manager'' (ci_manager input) attrs)"

definition create_names :: "create_input \<Rightarrow> names" where
  "create_names input a =
     (case a of Clash_sam \<Rightarrow> Some (ci_samAccountName input) | Clash_upn \<Rightarrow> Some (ci_userPrincipalName input)
      | Clash_email \<Rightarrow> ci_mail input | Clash_cn \<Rightarrow> Some (ci_cn input))"

(* src/apps/api/src/providers/active-directory/provider.ts:1767-1822 createUser *)
definition createUser :: "(string \<Rightarrow> 'd conn) \<Rightarrow> provider_config \<Rightarrow> create_input \<Rightarrow> create_step list \<Rightarrow> create_finish
    \<Rightarrow> write_context \<Rightarrow> ('d, create_result) io" where
  "createUser connect p input steps finish ctx =
     asOperator connect p ctx not_created (\<lambda>client.
       io_catch
         (io_then (findNameClash p client (create_names input) (parentDn (ci_dn input)) None None) (\<lambda>clash. case clash of
             Some m \<Rightarrow> io_return (not_created (refused_with Conflict m))
           | None \<Rightarrow>
               io_then (io_catch (io_then (cn_add client (ci_dn input) (create_attributes input)) (\<lambda>_. io_return None))
                         (\<lambda>err. io_return (Some err))) (\<lambda>failed.
               case failed of
                 Some err \<Rightarrow> io_return (not_created (classifyWriteError err))
               | None \<Rightarrow> runCreateSteps p client (ci_dn input) [Step_create] steps finish None)))
         (\<lambda>err. io_return (not_created (classifyWriteError err))))"

(* src/apps/api/src/providers/active-directory/provider.ts:1824-1850 finishUserCreate *)
definition finishUserCreate :: "(string \<Rightarrow> 'd conn) \<Rightarrow> provider_config \<Rightarrow> object_id \<Rightarrow> create_step list \<Rightarrow> create_finish
    \<Rightarrow> write_context \<Rightarrow> ('d, create_result) io" where
  "finishUserCreate connect p userId steps finish ctx =
     asOperator connect p ctx not_created (\<lambda>client.
       io_catch
         (io_then (findUserEntry p client userId USER_ATTRS) (\<lambda>found. case found of
             None \<Rightarrow> io_return (not_created (refused_with Not_found ''user not found''))
           | Some target \<Rightarrow>
               io_then (io_lift (normalizeUser target)) (\<lambda>user.
                 runCreateSteps p client (du_distinguishedName user) [] steps finish None)))
         (\<lambda>err. io_return (not_created (classifyWriteError err))))"

section \<open>Groups\<close>

(* src/apps/api/src/providers/active-directory/provider.ts:3215-3227 groupSnapshot *)
definition groupSnapshot :: "directory_group \<Rightarrow> (string \<times> json) list" where
  "groupSnapshot g =
     [(''distinguishedName'', JStr (dg_distinguishedName g)), (''name'', text_json (dg_name g)),
      (''samAccountName'', text_json (dg_samAccountName g)), (''sid'', text_json (dg_sid g)),
      (''description'', text_json (dg_description g)), (''groupScope'', text_json (dg_groupScope g)),
      (''groupType'', text_json (dg_groupType g)), (''members'', JArr (map JStr (dg_memberDns g))),
      (''memberOf'', JArr (map JStr (dg_memberOfDns g)))]"

(* src/apps/api/src/providers/types.ts:731-739 GroupCreateInput *)
record group_create =
  gci_dn :: string
  gci_cn :: string
  gci_samAccountName :: string
  gci_description :: "string option"
  gci_scope :: group_scope
  gci_type :: string

fun scope_text :: "group_scope \<Rightarrow> string" where
  "scope_text Scope_builtin = ''builtin''"
| "scope_text Scope_global = ''global''"
| "scope_text Scope_domain_local = ''domain-local''"
| "scope_text Scope_universal = ''universal''"

(* src/apps/api/src/providers/active-directory/provider.ts:1723-1765 createGroup *)
definition createGroup :: "(string \<Rightarrow> 'd conn) \<Rightarrow> provider_config \<Rightarrow> group_create \<Rightarrow> write_context
    \<Rightarrow> ('d, mutation_result \<times> directory_group option) io" where
  "createGroup connect p input ctx =
     asOperator connect p ctx (\<lambda>r. (r, None)) (\<lambda>client.
       io_catch
         (io_then (findNameClash p client
             (\<lambda>a. case a of Clash_cn \<Rightarrow> Some (gci_cn input) | Clash_sam \<Rightarrow> Some (gci_samAccountName input) | _ \<Rightarrow> None)
             (parentDn (gci_dn input)) None (Some ''pre-Windows 2000 name'')) (\<lambda>clash. case clash of
             Some m \<Rightarrow> io_return (refused_with Conflict m, None)
           | None \<Rightarrow>
               io_then (cn_add client (gci_dn input) (optional_attr ''description'' (gci_description input)
                 [(''objectClass'', [''top'', ''group'']), (''cn'', [gci_cn input]),
                  (''sAMAccountName'', [gci_samAccountName input]),
                  (''groupType'', [dec (groupTypeValue (gci_scope input) (gci_type input))])])) (\<lambda>_.
               io_then (io_catch (findGroupEntry p client (By_distinguishedName (gci_dn input)) GROUP_ATTRS)
                         (\<lambda>_. io_return None)) (\<lambda>found. case found of
                   None \<Rightarrow> io_return
                     (plain_ok\<lparr>mr_after := Some
                        [(''distinguishedName'', JStr (gci_dn input)), (''cn'', JStr (gci_cn input)),
                         (''samAccountName'', JStr (gci_samAccountName input)),
                         (''description'', text_json (gci_description input)),
                         (''scope'', JStr (scope_text (gci_scope input))), (''type'', JStr (gci_type input))]\<rparr>, None)
                 | Some e \<Rightarrow> io_then (io_lift (normalizeGroup e)) (\<lambda>g.
                     io_return (plain_ok\<lparr>mr_after := Some (groupSnapshot g)\<rparr>, Some g))))))
         (\<lambda>err. io_return (classifyWriteError err, None)))"

definition as_group_like :: "directory_group \<Rightarrow> group_like" where
  "as_group_like g =
     \<lparr>gl_distinguishedName = dg_distinguishedName g, gl_sid = dg_sid g, gl_rawAttributes = dg_rawAttributes g\<rparr>"

text \<open>The parents this bind can read, normalized as they come.\<close>

fun readable_parents :: "'d conn \<Rightarrow> string list \<Rightarrow> group_like list \<Rightarrow> ('d, group_like list) io" where
  "readable_parents client [] acc = io_return acc"
| "readable_parents client (dn # dns) acc =
     io_then (io_catch (io_then (cn_search client
           \<lparr>sr_base = dn, sr_scope = Scope_base, sr_filter = Filter_text GROUP_FILTER_BASE,
            sr_attributes = [''objectGUID'', ''objectSid'', ''distinguishedName'', ''adminCount''],
            sr_deleted = False\<rparr>) (\<lambda>es. io_return (first_of es)))
         (\<lambda>_. io_return None)) (\<lambda>parent.
       case parent of
         None \<Rightarrow> readable_parents client dns acc
       | Some e \<Rightarrow> io_then (io_lift (normalizeGroup e)) (\<lambda>g. readable_parents client dns (acc @ [as_group_like g])))"

(* src/apps/api/src/providers/active-directory/provider.ts:1999-2017 countPrimaryGroupMembers *)
definition countPrimaryGroupMembers :: "provider_config \<Rightarrow> 'd conn \<Rightarrow> directory_group \<Rightarrow> ('d, nat option) io" where
  "countPrimaryGroupMembers p client g =
     (case ridOf (dg_sid g) of
        None \<Rightarrow> io_return (Some 0)
      | Some rid \<Rightarrow>
          if \<not> isDomainSid (dg_sid g) then io_return (Some 0)
          else io_catch
            (io_then (domainRoot p client) (\<lambda>root.
             io_then (cn_search client
                 \<lparr>sr_base = root, sr_scope = Scope_sub,
                  sr_filter = Filter_text (''(primaryGroupID='' @ dec_nat rid @ '')''),
                  sr_attributes = [''distinguishedName''], sr_deleted = False\<rparr>)
               (\<lambda>es. io_return (Some (length es)))))
            (\<lambda>_. io_return None))"

(* src/apps/api/src/providers/active-directory/provider.ts:1980-1996 groupDeleteFacts *)
definition groupDeleteFacts :: "provider_config \<Rightarrow> 'd conn \<Rightarrow> directory_group \<Rightarrow> ('d, group_delete_facts) io" where
  "groupDeleteFacts p client g =
     io_then (readable_parents client (dg_memberOfDns g) []) (\<lambda>parents.
     io_then (countPrimaryGroupMembers p client g) (\<lambda>n.
     io_return \<lparr>gdf_parents = parents, gdf_primaryGroupMembers = n\<rparr>))"

(* src/apps/api/src/providers/active-directory/provider.ts:2024-2056 deleteGroup *)
definition deleteGroup :: "(string \<Rightarrow> 'd conn) \<Rightarrow> provider_config \<Rightarrow> object_id \<Rightarrow> write_context \<Rightarrow> role_group list
    \<Rightarrow> ('d, mutation_result) io" where
  "deleteGroup connect p groupId ctx roleGroups =
     asOperator connect p ctx id (\<lambda>client.
       io_catch
         (io_then (findGroupEntry p client groupId GROUP_ATTRS) (\<lambda>found. case found of
             None \<Rightarrow> io_return (refused_with Not_found ''group not found'')
           | Some e \<Rightarrow>
               io_then (io_lift (normalizeGroup e)) (\<lambda>g.
               io_then (groupDeleteFacts p client g) (\<lambda>facts.
               case groupDeleteBlock (as_group_like g) facts roleGroups of
                 Some block \<Rightarrow>
                   io_return ((refused_with Policy_violation (describeGroupDeleteBlock block))
                     \<lparr>mr_before := Some (groupSnapshot g)\<rparr>)
               | None \<Rightarrow>
                   io_then (cn_del client (dg_distinguishedName g) False) (\<lambda>_.
                     io_return (done_with (groupSnapshot g) [(''deleted'', JBool True)]))))))
         (\<lambda>err. io_return (classifyWriteError err)))"

end
