(* ===== verification/AdReads.thy ===== *)
theory AdReads
  imports AdObjectWrites
begin

unbundle bit_operations_syntax

text \<open>
  What the provider reads (\<^verbatim>\<open>providers/active-directory/provider.ts\<close>): users, groups, computers, group
  policies and their links, who holds a name, the people and objects of an import, and what the schema
  defines. A search's page size and size limit are the client's business and left out; the streams of a
  sync are lists in the model of the runners.
\<close>

(* src/apps/api/src/providers/active-directory/provider.ts:134-134 OU_FILTER_BASE *)
definition OU_FILTER_BASE :: string where
  "OU_FILTER_BASE = ''(objectClass=organizationalUnit)''"

(* src/apps/api/src/providers/active-directory/provider.ts:142-142 GPO_FILTER_BASE *)
definition GPO_FILTER_BASE :: string where
  "GPO_FILTER_BASE = ''(objectClass=groupPolicyContainer)''"

(* src/apps/api/src/providers/active-directory/normalize.ts:299-306 OBJECT_REF_ATTRS *)
definition OBJECT_REF_ATTRS :: "string list" where
  "OBJECT_REF_ATTRS =
     [''objectGUID'', ''distinguishedName'', ''name'', ''displayName'', ''objectClass'', ''isCriticalSystemObject'']"

(* src/apps/api/src/providers/active-directory/normalize.ts:211-211 COMPUTER_ATTRS_FULL *)
definition COMPUTER_ATTRS_FULL :: "string list" where
  "COMPUTER_ATTRS_FULL = [''*'']"

(* src/apps/api/src/providers/active-directory/normalize.ts:218-218 GPO_ATTRS *)
definition GPO_ATTRS :: "string list" where
  "GPO_ATTRS = [''*'']"

(* src/apps/api/src/providers/active-directory/normalize.ts:223-223 GPLINK_SCAN_ATTRS *)
definition GPLINK_SCAN_ATTRS :: "string list" where
  "GPLINK_SCAN_ATTRS = [''distinguishedName'', ''gPLink'']"

definition sub_search :: "string \<Rightarrow> string \<Rightarrow> string list \<Rightarrow> search" where
  "sub_search base f attributes =
     \<lparr>sr_base = base, sr_scope = Scope_sub, sr_filter = Filter_text f, sr_attributes = attributes, sr_deleted = False\<rparr>"

definition base_search :: "string \<Rightarrow> string \<Rightarrow> string list \<Rightarrow> search" where
  "base_search base f attributes =
     \<lparr>sr_base = base, sr_scope = Scope_base, sr_filter = Filter_text f, sr_attributes = attributes, sr_deleted = False\<rparr>"

text \<open>\<open>entries.map(normalize)\<close>, which throws at the first it can't read.\<close>

fun normalize_all :: "(entry \<Rightarrow> entry_error + 'a) \<Rightarrow> entry list \<Rightarrow> entry_error + 'a list" where
  "normalize_all nf [] = Inr []"
| "normalize_all nf (e # es) = or_throw (nf e) (\<lambda>x. or_throw (normalize_all nf es) (\<lambda>xs. Inr (x # xs)))"

(* src/apps/api/src/providers/active-directory/provider.ts:2855-2859 normalizeGroups *)
fun normalizeGroups :: "nat \<Rightarrow> 'd conn \<Rightarrow> entry list \<Rightarrow> ('d, directory_group list) io" where
  "normalizeGroups fuel client [] = io_return []"
| "normalizeGroups fuel client (e # es) =
     io_then (withAllMembers fuel client e) (\<lambda>e'.
     io_then (io_lift (normalizeGroup e')) (\<lambda>g.
     io_then (normalizeGroups fuel client es) (\<lambda>gs. io_return (g # gs))))"

section \<open>Filters\<close>

(* src/apps/api/src/providers/types.ts:285-295 DirectoryUserSearchQuery *)
record user_query =
  uq_text :: "string option"
  uq_enabled :: "bool option"
  uq_locked :: "bool option"
  uq_searchBase :: "string option"

(* src/apps/api/src/providers/types.ts:259-265 DirectoryComputerSearchQuery *)
record computer_query =
  cq_text :: "string option"
  cq_enabled :: "bool option"
  cq_operatingSystem :: "string option"
  cq_searchBase :: "string option"

(* src/apps/api/src/providers/types.ts:297-301 DirectoryGroupSearchQuery *)
record group_query =
  gq_text :: "string option"
  gq_searchBase :: "string option"

definition contains_clause :: "string list \<Rightarrow> string option \<Rightarrow> string list" where
  "contains_clause attributes text =
     (if truthy text
      then [''(|'' @ concat (map (\<lambda>a. ''('' @ a @ ''=*'' @ escapeLdapFilter (the text) @ ''*)'') attributes) @ '')'']
      else [])"

definition enabled_clause :: "bool option \<Rightarrow> string list" where
  "enabled_clause enabled =
     (case enabled of
        Some True \<Rightarrow> [''(!(userAccountControl:1.2.840.113556.1.4.803:=2))'']
      | Some False \<Rightarrow> [''(userAccountControl:1.2.840.113556.1.4.803:=2)'']
      | None \<Rightarrow> [])"

definition all_of :: "string list \<Rightarrow> string" where
  "all_of clauses = (case clauses of [c] \<Rightarrow> c | _ \<Rightarrow> ''(&'' @ concat clauses @ '')'')"

(* src/apps/api/src/providers/active-directory/provider.ts:2793-2816 buildUserFilter *)
definition buildUserFilter :: "user_query \<Rightarrow> string" where
  "buildUserFilter query =
     all_of ([USER_FILTER_BASE]
       @ contains_clause [''displayName'', ''sAMAccountName'', ''userPrincipalName'', ''mail''] (uq_text query)
       @ enabled_clause (uq_enabled query)
       @ (case uq_locked query of
            Some True \<Rightarrow> [''(&(lockoutTime=*)(!(lockoutTime=0)))'']
          | Some False \<Rightarrow> [''(|(!(lockoutTime=*))(lockoutTime=0))'']
          | None \<Rightarrow> []))"

(* src/apps/api/src/providers/active-directory/provider.ts:2776-2791 buildComputerFilter *)
definition buildComputerFilter :: "computer_query \<Rightarrow> string" where
  "buildComputerFilter query =
     all_of ([COMPUTER_FILTER_BASE]
       @ contains_clause [''cn'', ''sAMAccountName'', ''dNSHostName'', ''description''] (cq_text query)
       @ enabled_clause (cq_enabled query)
       @ (if truthy (cq_operatingSystem query)
          then [''(operatingSystem='' @ escapeLdapFilter (the (cq_operatingSystem query)) @ '')''] else []))"

definition any_of_dns :: "string \<Rightarrow> string list \<Rightarrow> string" where
  "any_of_dns base dns =
     ''(&'' @ base @ ''(|'' @ concat (map (\<lambda>dn. ''(distinguishedName='' @ escapeLdapFilter dn @ '')'') dns) @ ''))''"

section \<open>Users, groups and computers\<close>

definition read_one :: "(entry \<Rightarrow> entry_error + 'a) \<Rightarrow> ('d, entry option) io \<Rightarrow> ('d, 'a option) io" where
  "read_one nf m = io_then m (\<lambda>found. case found of
       None \<Rightarrow> io_return None
     | Some e \<Rightarrow> io_then (io_lift (nf e)) (\<lambda>x. io_return (Some x)))"

definition read_all :: "'d conn \<Rightarrow> search \<Rightarrow> (entry \<Rightarrow> entry_error + 'a) \<Rightarrow> ('d, 'a list) io" where
  "read_all client q nf = io_then (cn_search client q) (\<lambda>es. io_lift (normalize_all nf es))"

definition base_of :: "provider_config \<Rightarrow> string option \<Rightarrow> string" where
  "base_of p searchBase = (case searchBase of None \<Rightarrow> pc_baseDn p | Some b \<Rightarrow> b)"

(* src/apps/api/src/providers/active-directory/provider.ts:425-431 findObject *)
definition findObject :: "(string \<Rightarrow> 'd conn) \<Rightarrow> provider_config \<Rightarrow> object_id \<Rightarrow> ('d, directory_object_ref option) io" where
  "findObject connect p identifier =
     withServiceBind connect p (\<lambda>client.
       io_then (identifierToFilter identifier ''(objectClass=*)'') (\<lambda>f.
       io_then (searchOne client (pc_baseDn p) f OBJECT_REF_ATTRS) (\<lambda>found. case found of
           None \<Rightarrow> io_return None
         | Some e \<Rightarrow> io_lift (normalizeObjectRef e))))"

(* src/apps/api/src/providers/active-directory/provider.ts:433-440 getUser *)
definition getUser :: "(string \<Rightarrow> 'd conn) \<Rightarrow> provider_config \<Rightarrow> object_id \<Rightarrow> ('d, directory_user option) io" where
  "getUser connect p identifier =
     withServiceBind connect p (\<lambda>client. read_one normalizeUser (findUserEntry p client identifier USER_ATTRS_FULL))"

(* src/apps/api/src/providers/active-directory/provider.ts:442-455 searchUsers *)
definition searchUsers :: "(string \<Rightarrow> 'd conn) \<Rightarrow> provider_config \<Rightarrow> user_query \<Rightarrow> ('d, directory_user list) io" where
  "searchUsers connect p query =
     withServiceBind connect p (\<lambda>client.
       read_all client (sub_search (base_of p (uq_searchBase query)) (buildUserFilter query) USER_ATTRS) normalizeUser)"

(* src/apps/api/src/providers/active-directory/provider.ts:457-462 getGroup *)
definition getGroup :: "(string \<Rightarrow> 'd conn) \<Rightarrow> provider_config \<Rightarrow> object_id \<Rightarrow> ('d, directory_group option) io" where
  "getGroup connect p identifier =
     withServiceBind connect p (\<lambda>client. read_one normalizeGroup (findGroupEntry p client identifier GROUP_ATTRS))"

(* src/apps/api/src/providers/active-directory/provider.ts:464-478 searchGroups *)
definition searchGroups :: "(string \<Rightarrow> 'd conn) \<Rightarrow> provider_config \<Rightarrow> group_query \<Rightarrow> ('d, directory_group list) io" where
  "searchGroups connect p query =
     withServiceBind connect p (\<lambda>client.
       io_then (cn_search client (sub_search (base_of p (gq_searchBase query))
         (all_of ([GROUP_FILTER_BASE] @ contains_clause [''cn'', ''sAMAccountName'', ''description''] (gq_text query)))
         GROUP_ATTRS)) (normalizeGroups (pc_fuel p) client))"

(* src/apps/api/src/providers/active-directory/provider.ts:480-498 getUserGroups *)
definition getUserGroups :: "(string \<Rightarrow> 'd conn) \<Rightarrow> provider_config \<Rightarrow> object_id \<Rightarrow> ('d, directory_group list) io" where
  "getUserGroups connect p userId =
     withServiceBind connect p (\<lambda>client.
       io_then (read_one normalizeUser (findUserEntry p client userId USER_ATTRS)) (\<lambda>found. case found of
           None \<Rightarrow> io_return []
         | Some user \<Rightarrow>
             if du_memberOfDns user = [] then io_return []
             else io_then (cn_search client (sub_search (pc_baseDn p)
                    (any_of_dns GROUP_FILTER_BASE (du_memberOfDns user)) GROUP_ATTRS)) (normalizeGroups (pc_fuel p) client)))"

definition token_sids :: "ldap_value option \<Rightarrow> entry_error + string list" where
  "token_sids raw =
     (let bs = List.map_filter (\<lambda>x. case x of Blob b \<Rightarrow> Some b | _ \<Rightarrow> None) (valuesOf raw)
      in if list_ex (\<lambda>b. sidToString b = None) bs then Inl Bad_sid else Inr (map (\<lambda>b. the (sidToString b)) bs))"

(* src/apps/api/src/providers/active-directory/provider.ts:500-528 getUserTokenGroups *)
definition getUserTokenGroups :: "(string \<Rightarrow> 'd conn) \<Rightarrow> provider_config \<Rightarrow> object_id
    \<Rightarrow> ('d, (string list \<times> directory_group list) option) io" where
  "getUserTokenGroups connect p userId =
     withServiceBind connect p (\<lambda>client.
       io_then (findUserEntry p client userId [''distinguishedName'']) (\<lambda>found. case found of
           None \<Rightarrow> io_return None
         | Some e \<Rightarrow>
             io_then (cn_search client (base_search (en_dn e) ''(objectClass=*)'' [''tokenGroups''])) (\<lambda>es.
             io_then (io_lift (token_sids (case es of [] \<Rightarrow> None | x # _ \<Rightarrow> attr x ''tokenGroups''))) (\<lambda>sids.
             if sids = [] then io_return None
             else io_then (domainRoot p client) (\<lambda>root.
                  io_then (read_all client (sub_search root
                      (''(&'' @ GROUP_FILTER_BASE @ ''(|'' @ concat (map (\<lambda>sid. ''(objectSid='' @ sid @ '')'') sids) @ ''))'')
                      (filter (\<lambda>a. a \<noteq> ''member'' \<and> a \<noteq> ''memberOf'') GROUP_ATTRS)) normalizeGroup)
                    (\<lambda>gs. io_return (Some (sids, gs))))))))"

(* src/apps/api/src/providers/active-directory/provider.ts:530-547 getGroupMembers *)
definition getGroupMembers :: "(string \<Rightarrow> 'd conn) \<Rightarrow> provider_config \<Rightarrow> object_id \<Rightarrow> ('d, directory_user list) io" where
  "getGroupMembers connect p groupId =
     withServiceBind connect p (\<lambda>client.
       io_then (read_one normalizeGroup (findGroupEntry p client groupId GROUP_ATTRS)) (\<lambda>found. case found of
           None \<Rightarrow> io_return []
         | Some g \<Rightarrow>
             if dg_memberDns g = [] then io_return []
             else read_all client (sub_search (pc_baseDn p) (any_of_dns USER_FILTER_BASE (dg_memberDns g)) USER_ATTRS)
                    normalizeUser))"

(* src/apps/api/src/providers/active-directory/provider.ts:549-554 getComputer *)
definition getComputer :: "(string \<Rightarrow> 'd conn) \<Rightarrow> provider_config \<Rightarrow> object_id \<Rightarrow> ('d, directory_computer option) io" where
  "getComputer connect p identifier =
     withServiceBind connect p (\<lambda>client.
       read_one normalizeComputer (findComputerEntry p client identifier COMPUTER_ATTRS_FULL))"

(* src/apps/api/src/providers/active-directory/provider.ts:556-569 searchComputers *)
definition searchComputers :: "(string \<Rightarrow> 'd conn) \<Rightarrow> provider_config \<Rightarrow> computer_query \<Rightarrow> ('d, directory_computer list) io" where
  "searchComputers connect p query =
     withServiceBind connect p (\<lambda>client.
       read_all client (sub_search (base_of p (cq_searchBase query)) (buildComputerFilter query) COMPUTER_ATTRS)
         normalizeComputer)"

(* src/apps/api/src/providers/active-directory/provider.ts:571-588 getComputerGroups *)
definition getComputerGroups :: "(string \<Rightarrow> 'd conn) \<Rightarrow> provider_config \<Rightarrow> object_id \<Rightarrow> ('d, directory_group list) io" where
  "getComputerGroups connect p computerId =
     withServiceBind connect p (\<lambda>client.
       io_then (read_one normalizeComputer (findComputerEntry p client computerId COMPUTER_ATTRS)) (\<lambda>found. case found of
           None \<Rightarrow> io_return []
         | Some c \<Rightarrow>
             if dc_memberOfDns c = [] then io_return []
             else io_then (cn_search client (sub_search (pc_baseDn p)
                    (any_of_dns GROUP_FILTER_BASE (dc_memberOfDns c)) GROUP_ATTRS)) (normalizeGroups (pc_fuel p) client)))"

section \<open>Group policies\<close>

(* src/apps/api/src/providers/active-directory/provider.ts:596-609 searchGroupPolicies *)
definition searchGroupPolicies :: "(string \<Rightarrow> 'd conn) \<Rightarrow> provider_config \<Rightarrow> ('d, directory_group_policy list) io" where
  "searchGroupPolicies connect p =
     withServiceBind connect p (\<lambda>client.
       read_all client (sub_search (pc_baseDn p) GPO_FILTER_BASE GPO_ATTRS) normalizeGroupPolicy)"

(* src/apps/api/src/providers/active-directory/provider.ts:611-619 getGroupPolicy *)
definition getGroupPolicy :: "(string \<Rightarrow> 'd conn) \<Rightarrow> provider_config \<Rightarrow> object_id
    \<Rightarrow> ('d, directory_group_policy option) io" where
  "getGroupPolicy connect p identifier =
     withServiceBind connect p (\<lambda>client.
       io_then (identifierToFilter identifier GPO_FILTER_BASE) (\<lambda>f.
         read_one normalizeGroupPolicy (searchOne client (pc_baseDn p) f GPO_ATTRS)))"

(* src/apps/api/src/providers/active-directory/provider.ts:629-646 getGroupPolicyLinks *)
definition getGroupPolicyLinks :: "(string \<Rightarrow> 'd conn) \<Rightarrow> provider_config \<Rightarrow> ('d, gp_link list) io" where
  "getGroupPolicyLinks connect p =
     withServiceBind connect p (\<lambda>client.
       io_then (cn_search client (sub_search (pc_baseDn p) ''(gPLink=*)'' GPLINK_SCAN_ATTRS)) (\<lambda>es.
       io_return (concat (map (\<lambda>e. case asString (attr e ''distinguishedName'') of
             Some (c # dn) \<Rightarrow> parseGpLinkValue (c # dn) (asString (attr e ''gPLink'')) | _ \<Rightarrow> []) es))))"

section \<open>Names and people\<close>

text \<open>The clauses fifty at a time. \<open>within\<close> is a filter every entry has to match as well.\<close>

function chunks_of_50 :: "'a list \<Rightarrow> 'a list list" where
  "chunks_of_50 xs = (if xs = [] then [] else take 50 xs # chunks_of_50 (drop 50 xs))"
  by pat_completeness auto
termination by (relation "measure length") auto

declare chunks_of_50.simps [simp del]

fun search_each :: "'d conn \<Rightarrow> search list \<Rightarrow> ('d, entry list) io" where
  "search_each client [] = io_return []"
| "search_each client (q # qs) =
     io_then (cn_search client q) (\<lambda>es. io_then (search_each client qs) (\<lambda>rest. io_return (es @ rest)))"

(* src/apps/api/src/providers/active-directory/provider.ts:1652-1673 searchAny *)
definition searchAny :: "'d conn \<Rightarrow> string \<Rightarrow> search_scope \<Rightarrow> string list \<Rightarrow> string list \<Rightarrow> string option
    \<Rightarrow> ('d, entry list) io" where
  "searchAny client base scope clauses attributes within =
     search_each client (map (\<lambda>part.
       let any = ''(|'' @ concat part @ '')''
       in \<lparr>sr_base = base, sr_scope = scope,
           sr_filter = Filter_text (if truthy within then ''(&'' @ the within @ any @ '')'' else any),
           sr_attributes = attributes, sr_deleted = False\<rparr>) (chunks_of_50 clauses))"

(* src/apps/api/src/providers/active-directory/provider.ts:1501-1510 findNameHolders *)
definition findNameHolders :: "(string \<Rightarrow> 'd conn) \<Rightarrow> provider_config \<Rightarrow> string \<Rightarrow> string option \<Rightarrow> string option
    \<Rightarrow> ('d, string option option \<times> string option option) io" where
  "findNameHolders connect p parent cn sam =
     withServiceBind connect p (\<lambda>client.
       io_then (nameClashes p client (\<lambda>a. case a of Clash_cn \<Rightarrow> cn | Clash_sam \<Rightarrow> sam | _ \<Rightarrow> None) (Some parent) None)
         (\<lambda>holders. io_return (map_of holders Clash_cn, map_of holders Clash_sam)))"

(* src/packages/shared/src/naming.ts:45-48 OuName *)
record ou_name =
  ou_ouDn :: string
  ou_cn :: string

(* src/packages/shared/src/naming.ts:849-857 NamingLookups *)
record naming_lookups =
  nl_samAccountNamePrefixes :: "string list"
  nl_upnLocalPrefixes :: "string list"
  nl_cns :: "ou_name list"
  nl_cnPrefixes :: "ou_name list"

(* src/packages/shared/src/naming.ts:164-170 TakenNames *)
record taken_names =
  tn_samAccountNames :: "string list"
  tn_userPrincipalNames :: "string list"
  tn_mailAddresses :: "string list"
  tn_cns :: "ou_name list"

text \<open>The addresses of an entry: its mail and its SMTP proxies without \<open>smtp:\<close>.\<close>

definition smtp_addresses :: "entry \<Rightarrow> string list" where
  "smtp_addresses e =
     asStringArray (attr e ''mail'') @ map (drop 5) (filter isSmtp (asStringArray (attr e ''proxyAddresses'')))"

definition want_in :: "string \<Rightarrow> string \<Rightarrow> (string, string list) jsmap \<Rightarrow> (string, string list) jsmap" where
  "want_in ouDn clause byOu =
     jm_set ouDn ((case jm_get byOu ouDn of None \<Rightarrow> [] | Some cs \<Rightarrow> cs) @ [clause]) byOu"

text \<open>An OU that isn't there holds no names.\<close>

fun cns_in :: "provider_config \<Rightarrow> 'd conn \<Rightarrow> (string \<times> string list) list \<Rightarrow> ('d, ou_name list) io" where
  "cns_in p client [] = io_return []"
| "cns_in p client ((ouDn, clauses) # byOu) =
     (if \<not> isDnWithin ouDn (pc_baseDn p) then cns_in p client byOu
      else io_then
        (io_catch (searchAny client ouDn Scope_one clauses [''cn''] None)
          (\<lambda>err. case err of Err No_such_object _ _ \<Rightarrow> io_return [] | _ \<Rightarrow> io_throw err))
        (\<lambda>found. io_then (cns_in p client byOu) (\<lambda>rest. io_return
          (concat (map (\<lambda>e. map (\<lambda>cn. \<lparr>ou_ouDn = ouDn, ou_cn = cn\<rparr>) (asStringArray (attr e ''cn''))) found) @ rest))))"

(* src/apps/api/src/providers/active-directory/provider.ts:1512-1562 findTakenNames *)
definition findTakenNames :: "(string \<Rightarrow> 'd conn) \<Rightarrow> provider_config \<Rightarrow> naming_lookups \<Rightarrow> ('d, taken_names) io" where
  "findTakenNames connect p lookups =
     withServiceBind connect p (\<lambda>client.
       io_then (domainRoot p client) (\<lambda>root.
       io_then (searchAny client root Scope_sub
           (map (\<lambda>v. ''(sAMAccountName='' @ escapeLdapFilter v @ ''*)'') (nl_samAccountNamePrefixes lookups))
           [''sAMAccountName''] None) (\<lambda>sams.
       io_then (searchAny client root Scope_sub
           (map (\<lambda>q. let v = escapeLdapFilter q
                     in ''(userPrincipalName='' @ v @ ''*)(mail='' @ v @ ''*)(proxyAddresses=smtp:'' @ v @ ''*)'')
             (nl_upnLocalPrefixes lookups))
           [''userPrincipalName'', ''mail'', ''proxyAddresses''] None) (\<lambda>addressed.
       let byOu = fold (\<lambda>u. want_in (ou_ouDn u) (''(cn='' @ escapeLdapFilter (ou_cn u) @ '')'')) (nl_cns lookups) [];
           byOu = fold (\<lambda>u. want_in (ou_ouDn u) (''(cn='' @ escapeLdapFilter (ou_cn u) @ ''*)'')) (nl_cnPrefixes lookups) byOu
       in io_then (cns_in p client byOu) (\<lambda>cns. io_return
            \<lparr>tn_samAccountNames = concat (map (\<lambda>e. asStringArray (attr e ''sAMAccountName'')) sams),
             tn_userPrincipalNames = concat (map (\<lambda>e. asStringArray (attr e ''userPrincipalName'')) addressed),
             tn_mailAddresses = concat (map smtp_addresses addressed), tn_cns = cns\<rparr>)))))"

(* src/packages/shared/src/schemas/userImport.ts:115-124 ImportPerson *)
record import_person =
  ip_id :: string
  ip_distinguishedName :: string
  ip_samAccountName :: "string option"
  ip_userPrincipalName :: "string option"
  ip_displayName :: "string option"
  ip_employeeId :: "string option"
  ip_addresses :: "string list"

fun people_of :: "entry list \<Rightarrow> (string, import_person) jsmap \<Rightarrow> entry_error + (string, import_person) jsmap" where
  "people_of [] people = Inr people"
| "people_of (e # es) people =
     or_throw (normalizeObjectRef e) (\<lambda>found. case found of
         None \<Rightarrow> people_of es people
       | Some r \<Rightarrow> people_of es (jm_set (ref_objectGuid r)
           \<lparr>ip_id = ref_objectGuid r, ip_distinguishedName = ref_distinguishedName r,
            ip_samAccountName = asString (attr e ''sAMAccountName''),
            ip_userPrincipalName = asString (attr e ''userPrincipalName''),
            ip_displayName = asString (attr e ''displayName''), ip_employeeId = asString (attr e ''employeeID''),
            ip_addresses = smtp_addresses e\<rparr> people))"

(* src/apps/api/src/providers/active-directory/provider.ts:1564-1611 findPeople *)
definition findPeople :: "(string \<Rightarrow> 'd conn) \<Rightarrow> provider_config \<Rightarrow> string list \<Rightarrow> string list \<Rightarrow> ('d, import_person list) io" where
  "findPeople connect p employeeIds identifiers =
     withServiceBind connect p (\<lambda>client.
       let clauses = map (\<lambda>v. ''(employeeID='' @ escapeLdapFilter v @ '')'') employeeIds
             @ map (\<lambda>v. let e = escapeLdapFilter v
                        in ''(mail='' @ e @ '')(proxyAddresses=smtp:'' @ e @ '')(userPrincipalName='' @ e
                           @ '')(sAMAccountName='' @ e @ '')'') identifiers
       in io_then (domainRoot p client) (\<lambda>root.
          io_then (searchAny client root Scope_sub clauses
            [''objectGUID'', ''distinguishedName'', ''sAMAccountName'', ''userPrincipalName'', ''displayName'',
             ''employeeID'', ''mail'', ''proxyAddresses''] (Some USER_FILTER_BASE)) (\<lambda>es.
          io_then (io_lift (people_of es [])) (\<lambda>people. io_return (map snd people)))))"

fun refs_of :: "entry list \<Rightarrow> entry_error + directory_object_ref list" where
  "refs_of [] = Inr []"
| "refs_of (e # es) =
     or_throw (normalizeObjectRef e) (\<lambda>r. or_throw (refs_of es) (\<lambda>rs. Inr (case r of None \<Rightarrow> rs | Some x \<Rightarrow> x # rs)))"

text \<open>GUIDs only match as bytes, fifty at a time; one that isn't a GUID throws at its turn.\<close>

fun search_guids :: "'d conn \<Rightarrow> string \<Rightarrow> string list list \<Rightarrow> ('d, entry list) io" where
  "search_guids client base [] = io_return []"
| "search_guids client base (part # parts) =
     (if list_ex (\<lambda>g. objectGuidFromString g = None) part
      then io_throw (Err Plain_error None ''invalid GUID string'')
      else io_then (cn_search client
          \<lparr>sr_base = base, sr_scope = Scope_sub, sr_filter = Any_guid (map (\<lambda>g. the (objectGuidFromString g)) part),
           sr_attributes = OBJECT_REF_ATTRS, sr_deleted = False\<rparr>) (\<lambda>es.
        io_then (search_guids client base parts) (\<lambda>rest. io_return (es @ rest))))"

(* src/apps/api/src/providers/active-directory/provider.ts:1613-1646 findObjects *)
definition findObjects :: "(string \<Rightarrow> 'd conn) \<Rightarrow> provider_config \<Rightarrow> string list \<Rightarrow> string list
    \<Rightarrow> ('d, directory_object_ref list) io" where
  "findObjects connect p dns guids =
     withServiceBind connect p (\<lambda>client.
       io_then (searchAny client (pc_baseDn p) Scope_sub
         (map (\<lambda>dn. ''(distinguishedName='' @ escapeLdapFilter dn @ '')'') dns) OBJECT_REF_ATTRS None) (\<lambda>es.
       io_then (search_guids client (pc_baseDn p) (chunks_of_50 guids)) (\<lambda>gs.
       io_lift (refs_of (es @ gs)))))"

section \<open>What the forest and the schema define\<close>

(* src/apps/api/src/providers/active-directory/provider.ts:1675-1691 getUpnSuffixes *)
definition getUpnSuffixes :: "(string \<Rightarrow> 'd conn) \<Rightarrow> provider_config \<Rightarrow> ('d, string list) io" where
  "getUpnSuffixes connect p =
     withServiceBind connect p (\<lambda>client.
       io_then (cn_search client (base_search [] ''(objectClass=*)'' [''configurationNamingContext''])) (\<lambda>dse.
       case (case dse of [] \<Rightarrow> None | e # _ \<Rightarrow> asString (attr e ''configurationNamingContext'')) of
         Some (c # nc) \<Rightarrow>
           io_then (cn_search client (base_search (''CN=Partitions,'' @ c # nc) ''(objectClass=*)'' [''uPNSuffixes'']))
             (\<lambda>es. io_return (case es of [] \<Rightarrow> [] | e # _ \<Rightarrow> asStringArray (attr e ''uPNSuffixes'')))
       | _ \<Rightarrow> io_return []))"

(* src/apps/api/src/providers/active-directory/provider.ts:144-144 SCHEMA_TTL_MS *)
definition SCHEMA_TTL_MS :: ms where
  "SCHEMA_TTL_MS = 60 * 60000"

text \<open>What a directory's schema was found to define, and when: kept by directory and lower-case name.\<close>

type_synonym schema_cache = "(nat \<times> string, ms \<times> bool) jsmap"

(* src/apps/api/src/providers/active-directory/provider.ts:1693-1715 hasSchemaAttribute *)
definition hasSchemaAttribute :: "(string \<Rightarrow> 'd conn) \<Rightarrow> provider_config \<Rightarrow> nat \<Rightarrow> ms \<Rightarrow> ms \<Rightarrow> string \<Rightarrow> schema_cache
    \<Rightarrow> ('d, bool \<times> schema_cache) io" where
  "hasSchemaAttribute connect p directory now later ldapDisplayName schemaAttributes =
     (let key = (directory, to_lower ldapDisplayName);
          known = jm_get schemaAttributes key
      in case (case known of Some (at, defined) \<Rightarrow> if now - at < SCHEMA_TTL_MS then known else None | None \<Rightarrow> None) of
           Some (at, defined) \<Rightarrow> io_return (defined, schemaAttributes)
         | None \<Rightarrow>
             io_then (withServiceBind connect p (\<lambda>client.
                 io_then (cn_search client (base_search [] ''(objectClass=*)'' [''schemaNamingContext''])) (\<lambda>dse.
                 case (case dse of [] \<Rightarrow> None | e # _ \<Rightarrow> asString (attr e ''schemaNamingContext'')) of
                   Some (c # nc) \<Rightarrow>
                     io_then (cn_search client
                         \<lparr>sr_base = c # nc, sr_scope = Scope_one,
                          sr_filter = Filter_text (''(&(objectClass=attributeSchema)(lDAPDisplayName=''
                            @ escapeLdapFilter ldapDisplayName @ ''))''),
                          sr_attributes = [''lDAPDisplayName''], sr_deleted = False\<rparr>)
                       (\<lambda>found. io_return (found \<noteq> []))
                 | _ \<Rightarrow> io_return False)))
               (\<lambda>defined. io_return (defined, jm_set key (later, defined) schemaAttributes)))"

section \<open>Policies of the domain\<close>

(* src/apps/api/src/providers/active-directory/provider.ts:350-364 getPsoLockoutDuration *)
definition getPsoLockoutDuration :: "(string \<Rightarrow> 'd conn) \<Rightarrow> provider_config \<Rightarrow> string \<Rightarrow> ('d, ms option) io" where
  "getPsoLockoutDuration connect p psoDn =
     io_catch
       (withServiceBind connect p (\<lambda>client.
         io_then (cn_search client (base_search psoDn ''(objectClass=msDS-PasswordSettings)'' [''msDS-LockoutDuration'']))
           (\<lambda>es. io_return (adDurationToMs (of_text
             (case es of [] \<Rightarrow> None | e # _ \<Rightarrow> asString (attr e ''msDS-LockoutDuration'')))))))
       (\<lambda>_. io_return None)"

(* src/apps/api/src/providers/types.ts:396-411 DirectoryDomainPolicy *)
record domain_policy =
  dp_lockoutDurationMs :: "ms option"
  dp_lockoutThreshold :: "int option"
  dp_lockoutObservationMs :: "ms option"
  dp_maxPwdAgeMs :: "ms option"
  dp_minPwdLength :: "int option"
  dp_pwdHistoryLength :: "int option"
  dp_complexityRequired :: "bool option"

definition unknown_policy :: domain_policy where
  "unknown_policy =
     \<lparr>dp_lockoutDurationMs = None, dp_lockoutThreshold = None, dp_lockoutObservationMs = None, dp_maxPwdAgeMs = None,
      dp_minPwdLength = None, dp_pwdHistoryLength = None, dp_complexityRequired = None\<rparr>"

definition policy_of :: "entry list \<Rightarrow> domain_policy" where
  "policy_of es =
     (let text = (\<lambda>k. case es of [] \<Rightarrow> None | root # _ \<Rightarrow> asString (attr root k));
          number = (\<lambda>k. parseIntOrNull (text k))
      in \<lparr>dp_lockoutDurationMs = adDurationToMs (of_text (text ''lockoutDuration'')),
          dp_lockoutThreshold = number ''lockoutThreshold'',
          dp_lockoutObservationMs = adDurationToMs (of_text (text ''lockOutObservationWindow'')),
          dp_maxPwdAgeMs = adDurationToMs (of_text (text ''maxPwdAge'')),
          dp_minPwdLength = number ''minPwdLength'',
          dp_pwdHistoryLength = number ''pwdHistoryLength'',
          dp_complexityRequired = map_option (\<lambda>n. to_int32 (Some n) AND 1 = (1 :: 32 word)) (number ''pwdProperties'')\<rparr>)"

(* src/apps/api/src/providers/active-directory/provider.ts:177-177 DOMAIN_POLICY_TTL_MS *)
definition DOMAIN_POLICY_TTL_MS :: ms where
  "DOMAIN_POLICY_TTL_MS = 5 * 60 * 1000"

text \<open>The policy, and what the provider keeps of it until when. A failure isn't kept.\<close>

(* src/apps/api/src/providers/active-directory/provider.ts:366-421 getDomainPolicy *)
definition getDomainPolicy :: "(string \<Rightarrow> 'd conn) \<Rightarrow> provider_config \<Rightarrow> ms \<Rightarrow> (domain_policy \<times> ms) option
    \<Rightarrow> ('d, domain_policy \<times> (domain_policy \<times> ms) option) io" where
  "getDomainPolicy connect p now domainPolicyCache =
     (case (case domainPolicyCache of Some (policy, expiresAt) \<Rightarrow> if expiresAt > now then domainPolicyCache else None
            | None \<Rightarrow> None) of
        Some (policy, _) \<Rightarrow> io_return (policy, domainPolicyCache)
      | None \<Rightarrow>
          io_catch
            (io_then (withServiceBind connect p (\<lambda>client.
                io_then (cn_search client (base_search (pc_baseDn p) ''(objectClass=*)''
                    [''lockoutDuration'', ''lockoutThreshold'', ''lockOutObservationWindow'', ''maxPwdAge'',
                     ''minPwdLength'', ''pwdHistoryLength'', ''pwdProperties'']))
                  (\<lambda>es. io_return (policy_of es))))
              (\<lambda>policy. io_return (policy, Some (policy, now + DOMAIN_POLICY_TTL_MS))))
            (\<lambda>_. io_return (unknown_policy, domainPolicyCache)))"

end
