(* ===== verification/AdSignIn.thy ===== *)
theory AdSignIn
  imports AdReads
begin

text \<open>
  Signing in against the directory, testing a connection, and reading as the operator
  (\<^verbatim>\<open>providers/active-directory/provider.ts\<close>). The text for an unreachable directory or an untrusted
  certificate is left as the error it is made of.
\<close>

section \<open>Signing in\<close>

(* src/apps/api/src/providers/types.ts:310-313 AuthenticateInput *)
record authenticate_input =
  ain_username :: string
  ain_password :: string

datatype sign_in_refusal = Invalid_login | Login_disabled | Login_locked | Login_directory_error

datatype sign_in_message = Said string | Password_expired | Cannot_reach ldap_err

(* src/apps/api/src/providers/types.ts:315-324 AuthResult *)
datatype auth_result = Signed_in directory_user "string list" | Not_signed_in sign_in_refusal sign_in_message

(* src/apps/api/src/providers/active-directory/provider.ts:2861-2863 looksLikeUpn *)
definition looksLikeUpn :: "string \<Rightarrow> bool" where
  "looksLikeUpn s \<longleftrightarrow> CHR ''@'' \<in> set s \<and> CHR ''='' \<notin> set s"

text \<open>\<open>/data\\s+([0-9a-f]+)/i\<close>, in lower case.\<close>

fun bind_subcode :: "string \<Rightarrow> string option" where
  "bind_subcode [] = None"
| "bind_subcode (c # s) =
     (let rest = drop 3 s; code = takeWhile is_hex (dropWhile is_space rest)
      in if to_lower (take 4 (c # s)) = ''data'' \<and> rest \<noteq> [] \<and> is_space (hd rest) \<and> code \<noteq> []
         then Some (to_lower code) else bind_subcode s)"

(* src/apps/api/src/providers/active-directory/provider.ts:2880-2972 classifyBindError *)
definition classifyBindError :: "ldap_err \<Rightarrow> auth_result" where
  "classifyBindError err =
     (case err of
        Err c (Some code) m \<Rightarrow> Not_signed_in Login_directory_error (Cannot_reach err)
      | _ \<Rightarrow>
          let isLdap49 = (case err of Err c _ _ \<Rightarrow> c = Invalid_credentials | _ \<Rightarrow> False);
              sub = bind_subcode (err_message err)
          in if isLdap49 \<or> sub \<noteq> None then
               if sub = Some ''525'' then Not_signed_in Invalid_login (Said ''user not found in this directory'')
               else if sub = Some ''52e'' then Not_signed_in Invalid_login (Said ''wrong password'')
               else if sub = Some ''530'' then
                 Not_signed_in Invalid_login (Said ''this account is not allowed to sign in at this time'')
               else if sub = Some ''531'' then
                 Not_signed_in Invalid_login (Said ''this account is not allowed to sign in from this host'')
               else if sub = Some ''532'' then Not_signed_in Invalid_login Password_expired
               else if sub = Some ''533'' then Not_signed_in Login_disabled (Said ''account is disabled'')
               else if sub = Some ''701'' then Not_signed_in Invalid_login (Said ''account has expired'')
               else if sub = Some ''773'' then
                 Not_signed_in Invalid_login (Said ''password must be changed before signing in'')
               else if sub = Some ''775'' then Not_signed_in Login_locked (Said ''account is locked out'')
               else Not_signed_in Invalid_login (Said ''invalid username or password'')
             else Not_signed_in Login_directory_error (Said (''bind failed: '' @ err_message err)))"

text \<open>The filters the account is looked for with, in turn.\<close>

definition sign_in_filters :: "string \<Rightarrow> string list" where
  "sign_in_filters username =
     (if looksLikeUpn username
      then (''(userPrincipalName='' @ escapeLdapFilter username @ '')'')
        # (let samPart = takeWhile (\<lambda>c. c \<noteq> CHR ''@'') username
           in if samPart = [] then [] else [''(sAMAccountName='' @ escapeLdapFilter samPart @ '')''])
      else [''(sAMAccountName='' @ escapeLdapFilter username @ '')''])"

fun search_first :: "provider_config \<Rightarrow> 'd conn \<Rightarrow> string list \<Rightarrow> ('d, entry option) io" where
  "search_first p client [] = io_return None"
| "search_first p client (f # fs) =
     io_then (searchOne client (pc_baseDn p) (Filter_text (''(&'' @ USER_FILTER_BASE @ f @ '')'')) USER_ATTRS)
       (\<lambda>found. case found of None \<Rightarrow> search_first p client fs | Some e \<Rightarrow> io_return (Some e))"

(* src/apps/api/src/providers/active-directory/provider.ts:258-336 authenticateUser *)
definition authenticateUser :: "(string \<Rightarrow> 'd conn) \<Rightarrow> provider_config \<Rightarrow> authenticate_input \<Rightarrow> ('d, auth_result) io" where
  "authenticateUser connect p input =
     (let username = trim (ain_username input)
      in if username = [] \<or> ain_password input = []
         then io_return (Not_signed_in Invalid_login (Said ''missing credentials''))
         else io_catch
           (withFailover connect (pc_client p) (\<lambda>client.
             io_then
               (io_catch (io_then (cn_bind client username (ain_password input)) (\<lambda>_. io_return None))
                 (\<lambda>bindErr. if isDirectoryUnreachable bindErr then io_throw bindErr
                            else io_return (Some (classifyBindError bindErr))))
               (\<lambda>refused. case refused of
                   Some r \<Rightarrow> io_return r
                 | None \<Rightarrow>
                     io_then (search_first p client (sign_in_filters username)) (\<lambda>found. case found of
                         None \<Rightarrow> io_return (Not_signed_in Login_directory_error
                           (Said ''authenticated but user record not found''))
                       | Some e \<Rightarrow> io_then (io_lift (normalizeUser e)) (\<lambda>user. io_return
                           (if \<not> du_enabled user then Not_signed_in Login_disabled (Said ''account disabled'')
                            else Signed_in user (du_memberOfDns user)))))))
           (\<lambda>err. io_return (Not_signed_in Login_directory_error (Cannot_reach err))))"

section \<open>Testing a connection\<close>

(* src/apps/api/src/providers/types.ts:303-308 ConnectionTestResult *)
datatype connection_test = Connected string entry | Not_connected string

(* src/apps/api/src/providers/active-directory/provider.ts:224-256 testConnection *)
definition testConnection :: "(string \<Rightarrow> 'd conn) \<Rightarrow> provider_config \<Rightarrow> ('d, connection_test) io" where
  "testConnection connect p =
     io_catch
       (withServiceBind connect p (\<lambda>client.
         io_then (cn_search client
             \<lparr>sr_base = [], sr_scope = Scope_base, sr_filter = Filter_text ''(objectClass=*)'',
              sr_attributes = [''namingContexts'', ''defaultNamingContext'', ''dnsHostName'', ''supportedLDAPVersion''],
              sr_deleted = False\<rparr>)
           (\<lambda>es. io_return (Connected (''bound as '' @ pc_serviceAccountUpn p)
             (case es of [] \<Rightarrow> \<lparr>en_dn = [], en_attrs = []\<rparr> | dse # _ \<Rightarrow> dse)))))
       (\<lambda>err. io_return (Not_connected (message_or ''directory error'' err)))"

section \<open>Reading as the operator\<close>

(* src/apps/api/src/providers/active-directory/provider.ts:2669-2686 _withOperatorBind *)
definition withOperatorBind :: "(string \<Rightarrow> 'd conn) \<Rightarrow> provider_config \<Rightarrow> write_context \<Rightarrow> ('d conn \<Rightarrow> ('d, 'a) io) \<Rightarrow> ('d, 'a) io" where
  "withOperatorBind connect p ctx fn =
     withFailover connect (pc_client p) (\<lambda>client.
       io_then
         (io_catch (cn_bind client (wc_actorUsername ctx) (wc_actorPassword ctx))
           (\<lambda>err. if isDirectoryUnreachable err then io_throw err
                  else io_throw (Err Step_up_bind_failed None ''step-up bind failed'')))
         (\<lambda>_. fn client))"

(* src/apps/api/src/providers/active-directory/provider.ts:2695-2704 _resolveDeletedObjectsContainer *)
definition resolveDeletedObjectsContainer :: "'d conn \<Rightarrow> ('d, string option) io" where
  "resolveDeletedObjectsContainer client =
     io_then (resolveDefaultNamingContext client) (\<lambda>nc. io_return
       (if truthy nc then Some (''CN=Deleted Objects,'' @ the nc) else None))"

text \<open>Children are counted below each DN on its own: one that can't be read is unknown.\<close>

fun count_children :: "'d conn \<Rightarrow> string list \<Rightarrow> (string, nat option) jsmap \<Rightarrow> ('d, (string, nat option) jsmap) io" where
  "count_children client [] counts = io_return counts"
| "count_children client (dn # dns) counts =
     io_then
       (io_catch (io_then (cn_search client (sub_search dn ''(objectClass=*)'' [''1.1'']))
            (\<lambda>es. io_return (Some (length es - 1)))) (\<lambda>_. io_return None))
       (\<lambda>n. count_children client dns (jm_set dn n counts))"

(* src/apps/api/src/providers/active-directory/provider.ts:2287-2306 countChildObjects *)
definition countChildObjects :: "(string \<Rightarrow> 'd conn) \<Rightarrow> provider_config \<Rightarrow> string list \<Rightarrow> write_context
    \<Rightarrow> ('d, (string, nat option) jsmap) io" where
  "countChildObjects connect p dns ctx = withOperatorBind connect p ctx (\<lambda>client. count_children client dns [])"

end
