(* ===== verification/AdUnits.thy ===== *)
theory AdUnits
  imports AdSignIn
begin

text \<open>
  Organizational units and the recycle bin (\<^verbatim>\<open>providers/active-directory/provider.ts\<close>): creating,
  changing and deleting a unit, finding what was deleted, and bringing a user back.
\<close>

section \<open>Errors told by their text\<close>

text \<open>\<open>pieces\<close> one after another, with at most one character between two of them.\<close>

fun matches_pieces :: "string list \<Rightarrow> string \<Rightarrow> bool" where
  "matches_pieces [] s \<longleftrightarrow> True"
| "matches_pieces [p] s \<longleftrightarrow> starts_with s p"
| "matches_pieces (p # q # ps) s \<longleftrightarrow>
     starts_with s p
     \<and> (let u = drop (length p) s
        in matches_pieces (q # ps) u
           \<or> (case u of [] \<Rightarrow> False | c # v \<Rightarrow> c \<notin> set [char_of (10 :: nat), char_of (13 :: nat)] \<and> matches_pieces (q # ps) v))"

fun anywhere :: "(string \<Rightarrow> bool) \<Rightarrow> string \<Rightarrow> bool" where
  "anywhere P [] \<longleftrightarrow> P []"
| "anywhere P (c # s) \<longleftrightarrow> P (c # s) \<or> anywhere P s"

text \<open>\<open>/0000.{0,4}code/\<close>.\<close>

definition problem_code :: "string \<Rightarrow> string \<Rightarrow> bool" where
  "problem_code code s \<longleftrightarrow>
     anywhere (\<lambda>t. starts_with t ''0000''
       \<and> list_ex (\<lambda>n. starts_with (drop (4 + n) t) code
            \<and> list_all (\<lambda>c. c \<notin> set [char_of (10 :: nat), char_of (13 :: nat)]) (take n (drop 4 t))) [0, 1, 2, 3, 4]) s"

definition mentions :: "string list \<Rightarrow> string \<Rightarrow> bool" where
  "mentions words m \<longleftrightarrow> list_ex (includes_str (to_lower m)) words"

section \<open>Units\<close>

(* src/apps/api/src/providers/active-directory/provider.ts:2990-2993 escapeRdnValue *)
definition escapeRdnValue :: "string \<Rightarrow> string" where
  "escapeRdnValue value =
     concat (map (\<lambda>c. if c \<in> set '',+<>;='' \<or> c = quote \<or> c = backslash \<or> c = char_of (0 :: nat) then [backslash, c] else [c]) value)"

(* src/apps/api/src/providers/active-directory/provider.ts:2086-2144 createOu *)
definition createOu :: "(string \<Rightarrow> 'd conn) \<Rightarrow> provider_config \<Rightarrow> string \<Rightarrow> string \<Rightarrow> string option \<Rightarrow> write_context
    \<Rightarrow> ('d, mutation_result \<times> directory_ou option) io" where
  "createOu connect p parent name description ctx =
     (let cleanName = trim name; cleanParent = trim parent
      in if cleanName = [] then io_return (refused_with Directory_error ''empty OU name'', None)
         else if cleanParent = [] then io_return (refused_with Directory_error ''empty parent DN'', None)
         else
           let newDn = ''OU='' @ escapeRdnValue cleanName @ '','' @ cleanParent;
               about = (case description of None \<Rightarrow> [] | Some d \<Rightarrow> trim d);
               attrs = [(''objectClass'', [''top'', ''organizationalUnit'']), (''ou'', [cleanName])]
                 @ (if about = [] then [] else [(''description'', [about])])
           in asOperator connect p ctx (\<lambda>r. (r, None)) (\<lambda>client.
                io_catch
                  (io_then (cn_add client newDn attrs) (\<lambda>_. io_return
                    (plain_ok\<lparr>mr_after := Some
                       [(''distinguishedName'', JStr newDn), (''name'', JStr cleanName), (''parentDn'', JStr cleanParent)]\<rparr>,
                     Some \<lparr>do_distinguishedName = newDn, do_name = cleanName, do_parentDn = Some cleanParent,
                           do_rawAttributes =
                             [(''objectClass'', JArr [JStr ''top'', JStr ''organizationalUnit'']), (''ou'', JStr cleanName)]
                             @ (if about = [] then [] else [(''description'', JStr about)])\<rparr>)))
                  (\<lambda>err. let m = message_or ''add failed'' err
                         in io_return (refused_with
                              (if mentions [''already exists'', ''entryalreadyexists''] m then Policy_violation
                               else if mentions [''no write'', ''insuff'', ''access''] m then Permission_denied
                               else Directory_error) m, None))))"

definition del_refusal :: "string \<Rightarrow> failure_reason" where
  "del_refusal m =
     (let isNonLeaf = anywhere (matches_pieces [''not'', ''allowed on non'', ''leaf'']) (to_lower m)
            \<or> mentions [''65'', ''66''] m
      in if isNonLeaf \<or> mentions [''unwilling'', ''access denied'', ''insufficient''] m then Policy_violation
         else if mentions [''no write'', ''insuff''] m then Permission_denied
         else Directory_error)"

(* src/apps/api/src/providers/active-directory/provider.ts:2152-2189 deleteOu *)
definition deleteOu :: "(string \<Rightarrow> 'd conn) \<Rightarrow> provider_config \<Rightarrow> string \<Rightarrow> write_context \<Rightarrow> ('d, mutation_result) io" where
  "deleteOu connect p dn ctx =
     (let cleanDn = trim dn
      in if cleanDn = [] then io_return (refused_with Directory_error ''empty DN'')
         else asOperator connect p ctx id (\<lambda>client.
           io_catch
             (io_then (cn_del client cleanDn False)
               (\<lambda>_. io_return (plain_ok\<lparr>mr_before := Some [(''distinguishedName'', JStr cleanDn)]\<rparr>)))
             (\<lambda>err. let m = message_or ''del failed'' err in io_return (refused_with (del_refusal m) m))))"

text \<open>The description of a patch: undefined, null or a text.\<close>

(* src/apps/api/src/providers/active-directory/provider.ts:2201-2265 updateOuAttributes *)
definition updateOuAttributes :: "(string \<Rightarrow> 'd conn) \<Rightarrow> provider_config \<Rightarrow> string \<Rightarrow> string option option \<Rightarrow> write_context
    \<Rightarrow> ('d, mutation_result) io" where
  "updateOuAttributes connect p dn description ctx =
     (let cleanDn = trim dn
      in if cleanDn = [] then io_return (refused_with Directory_error ''empty DN'')
         else asOperator connect p ctx id (\<lambda>client.
           io_catch
             (case description of
                None \<Rightarrow> io_return (done_with [(''distinguishedName'', JStr cleanDn)] [(''distinguishedName'', JStr cleanDn)])
              | Some about \<Rightarrow>
                  io_then (cn_modify client cleanDn
                    [case about of
                       Some (c # d) \<Rightarrow>
                         if trim (c # d) = [] then \<lparr>ch_operation = Change_delete, ch_type = ''description'', ch_values = []\<rparr>
                         else replace_with ''description'' [Text (trim (c # d))]
                     | _ \<Rightarrow> \<lparr>ch_operation = Change_delete, ch_type = ''description'', ch_values = []\<rparr>] False) (\<lambda>_.
                  io_return (done_with [(''distinguishedName'', JStr cleanDn)]
                    [(''distinguishedName'', JStr cleanDn), (''description'', text_json (map_option trim about))])))
             (\<lambda>err. let m = message_or ''modify failed'' err
                    in io_return (refused_with
                         (if mentions [''no write'', ''insuff'', ''access''] m then Permission_denied else Directory_error) m))))"

section \<open>The recycle bin\<close>

(* src/apps/api/src/providers/types.ts:815-826 RecycleBinStatus *)
record recycle_bin_status =
  rb_recycleBinEnabled :: bool
  rb_deletedObjectsContainer :: "string option"
  rb_message :: "string option"

(* src/apps/api/src/providers/active-directory/provider.ts:2308-2352 getRecycleBinStatus *)
definition getRecycleBinStatus :: "(string \<Rightarrow> 'd conn) \<Rightarrow> provider_config \<Rightarrow> write_context \<Rightarrow> ('d, recycle_bin_status) io" where
  "getRecycleBinStatus connect p ctx =
     withOperatorBind connect p ctx (\<lambda>client.
       io_then (cn_search client (base_search [] ''(objectClass=*)'' [''configurationNamingContext'', ''defaultNamingContext''])) (\<lambda>es.
       let text = (\<lambda>k. case es of [] \<Rightarrow> None | dse # _ \<Rightarrow> asString (attr dse k));
           configNc = text ''configurationNamingContext'';
           defaultNc = text ''defaultNamingContext'';
           container = (if truthy defaultNc then Some (''CN=Deleted Objects,'' @ the defaultNc) else None);
           status = (\<lambda>on m. \<lparr>rb_recycleBinEnabled = on, rb_deletedObjectsContainer = container, rb_message = m\<rparr>)
       in if \<not> truthy configNc
          then io_return (status False (Some ''rootDSE did not return configurationNamingContext''))
          else io_catch
            (io_then (cn_search client (base_search
                (''CN=Recycle Bin Feature,CN=Optional Features,CN=Directory Service,CN=Windows NT,CN=Services,'' @ the configNc)
                ''(objectClass=*)'' [''msDS-EnabledFeatureBL'', ''cn''])) (\<lambda>feature. io_return
              (case feature of
                 [] \<Rightarrow> status False None
               | e # _ \<Rightarrow> status (asStringArray (attr e ''msDS-EnabledFeatureBL'') \<noteq> []) None)))
            (\<lambda>err. io_return (status False (Some (message_or ''feature lookup failed'' err))))))"

(* src/apps/api/src/providers/active-directory/normalize.ts:98-110 DELETED_USER_ATTRS *)
definition DELETED_USER_ATTRS :: "string list" where
  "DELETED_USER_ATTRS =
     [''objectGUID'', ''distinguishedName'', ''cn'', ''sAMAccountName'', ''userPrincipalName'', ''displayName'',
      ''mail'', ''lastKnownParent'', ''isDeleted'', ''isRecycled'', ''whenChanged'']"

(* src/apps/api/src/providers/active-directory/normalize.ts:228-239 DELETED_COMPUTER_ATTRS *)
definition DELETED_COMPUTER_ATTRS :: "string list" where
  "DELETED_COMPUTER_ATTRS =
     [''objectGUID'', ''distinguishedName'', ''cn'', ''sAMAccountName'', ''dNSHostName'', ''operatingSystem'',
      ''lastKnownParent'', ''isDeleted'', ''isRecycled'', ''whenChanged'']"

definition deleted_search :: "string \<Rightarrow> search_filter \<Rightarrow> string list \<Rightarrow> search" where
  "deleted_search container f attributes =
     \<lparr>sr_base = container, sr_scope = Scope_sub, sr_filter = f, sr_attributes = attributes, sr_deleted = True\<rparr>"

definition in_deleted_objects :: "'d conn \<Rightarrow> 'a \<Rightarrow> (string \<Rightarrow> ('d, 'a) io) \<Rightarrow> ('d, 'a) io" where
  "in_deleted_objects client none m =
     io_then (resolveDeletedObjectsContainer client) (\<lambda>container. case container of None \<Rightarrow> io_return none | Some dn \<Rightarrow> m dn)"

(* src/apps/api/src/providers/active-directory/provider.ts:2363-2396 searchDeletedUsers *)
definition searchDeletedUsers :: "(string \<Rightarrow> 'd conn) \<Rightarrow> provider_config \<Rightarrow> string option \<Rightarrow> write_context
    \<Rightarrow> ('d, directory_deleted_user list) io" where
  "searchDeletedUsers connect p text ctx =
     withOperatorBind connect p ctx (\<lambda>client. in_deleted_objects client [] (\<lambda>container.
       read_all client (deleted_search container (Filter_text (''(&'' @ concat
           ([''(isDeleted=TRUE)'', ''(!(isRecycled=TRUE))'', ''(objectClass=user)'', ''(!(objectClass=computer))'']
            @ contains_clause [''displayName'', ''sAMAccountName'', ''userPrincipalName'', ''mail'', ''cn''] text) @ '')''))
           DELETED_USER_ATTRS) normalizeDeletedUser))"

definition guid_filter :: "string \<Rightarrow> ('d, search_filter) io" where
  "guid_filter guid =
     (case objectGuidFromString guid of
        None \<Rightarrow> io_throw (Err Plain_error None (''invalid GUID string: '' @ guid))
      | Some b \<Rightarrow> io_return (Guid_is b))"

(* src/apps/api/src/providers/active-directory/provider.ts:2398-2423 getDeletedUser *)
definition getDeletedUser :: "(string \<Rightarrow> 'd conn) \<Rightarrow> provider_config \<Rightarrow> string \<Rightarrow> write_context
    \<Rightarrow> ('d, directory_deleted_user option) io" where
  "getDeletedUser connect p guid ctx =
     withOperatorBind connect p ctx (\<lambda>client. in_deleted_objects client None (\<lambda>container.
       io_then (guid_filter guid) (\<lambda>f. read_one normalizeDeletedUser
         (io_then (cn_search client (deleted_search container f DELETED_USER_ATTRS)) (\<lambda>es. io_return (first_of es))))))"

(* src/apps/api/src/providers/active-directory/provider.ts:2431-2463 searchDeletedComputers *)
definition searchDeletedComputers :: "(string \<Rightarrow> 'd conn) \<Rightarrow> provider_config \<Rightarrow> string option \<Rightarrow> write_context
    \<Rightarrow> ('d, directory_deleted_computer list) io" where
  "searchDeletedComputers connect p text ctx =
     withOperatorBind connect p ctx (\<lambda>client. in_deleted_objects client [] (\<lambda>container.
       read_all client (deleted_search container (Filter_text (''(&'' @ concat
           ([''(isDeleted=TRUE)'', ''(!(isRecycled=TRUE))'', ''(objectClass=computer)'']
            @ contains_clause [''cn'', ''sAMAccountName'', ''dNSHostName'', ''operatingSystem''] text) @ '')''))
           DELETED_COMPUTER_ATTRS) normalizeDeletedComputer))"

(* src/apps/api/src/providers/active-directory/provider.ts:2465-2490 getDeletedComputer *)
definition getDeletedComputer :: "(string \<Rightarrow> 'd conn) \<Rightarrow> provider_config \<Rightarrow> string \<Rightarrow> write_context
    \<Rightarrow> ('d, directory_deleted_computer option) io" where
  "getDeletedComputer connect p guid ctx =
     withOperatorBind connect p ctx (\<lambda>client. in_deleted_objects client None (\<lambda>container.
       io_then (guid_filter guid) (\<lambda>f. read_one normalizeDeletedComputer
         (io_then (cn_search client (deleted_search container f DELETED_COMPUTER_ATTRS)) (\<lambda>es. io_return (first_of es))))))"

definition restore_refusal :: "string \<Rightarrow> failure_reason" where
  "restore_refusal m =
     (if mentions [''no write'', ''insuff'', ''access denied''] m \<or> problem_code ''50'' m then Permission_denied
      else if mentions [''already exists'', ''entryalreadyexists''] m \<or> problem_code ''68'' m
          \<or> mentions [''unwilling''] m \<or> problem_code ''53'' m then Policy_violation
      else Directory_error)"

text \<open>Where the user goes: the OU asked for, or the one they were last known in. A dash beyond Latin-1 is written as one.\<close>

definition restore_parent :: "string option \<Rightarrow> directory_deleted_user \<Rightarrow> string option" where
  "restore_parent target before =
     (case map_option trim target of Some (c # dn) \<Rightarrow> Some (c # dn) | _ \<Rightarrow> ddu_lastKnownParent before)"

(* src/apps/api/src/providers/active-directory/provider.ts:2515-2655 restoreDeletedUser *)
definition restoreDeletedUser :: "(string \<Rightarrow> 'd conn) \<Rightarrow> provider_config \<Rightarrow> string \<Rightarrow> string option \<Rightarrow> write_context
    \<Rightarrow> ('d, mutation_result \<times> string option) io" where
  "restoreDeletedUser connect p guid targetParentDn ctx =
     asOperator connect p ctx (\<lambda>r. (r, None)) (\<lambda>client.
       io_catch
         (io_then (resolveDeletedObjectsContainer client) (\<lambda>container. case container of
             None \<Rightarrow> io_return (refused_with Directory_error ''could not locate Deleted Objects container'', None)
           | Some containerDn \<Rightarrow>
               io_then (guid_filter guid) (\<lambda>f.
               io_then (cn_search client (deleted_search containerDn f DELETED_USER_ATTRS)) (\<lambda>es. case es of
                   [] \<Rightarrow> io_return (refused_with Not_found ''deleted user not found'', None)
                 | e # _ \<Rightarrow>
                     io_then (io_lift (normalizeDeletedUser e)) (\<lambda>before.
                     if ddu_recycled before
                     then io_return (refused_with Policy_violation ''entry is recycled and cannot be reanimated'', None)
                     else let target = restore_parent targetParentDn before; cn = or_empty (ddu_cn before)
                     in if \<not> truthy target
                     then io_return (refused_with Policy_violation
                       ''no lastKnownParent on entry and no targetParentDn supplied - specify a parent OU'', None)
                     else if cn = []
                     then io_return (refused_with Directory_error ''deleted entry has no recoverable CN'', None)
                     else let newDn = ''CN='' @ escapeRdnValueRfc cn @ '','' @ the target
                     in io_catch
                          (io_then (cn_modify client (ddu_deletedDn before)
                            [\<lparr>ch_operation = Change_delete, ch_type = ''isDeleted'', ch_values = []\<rparr>,
                             replace_with ''distinguishedName'' [Text newDn]] True) (\<lambda>_. io_return
                            (done_with
                              [(''deletedDn'', JStr (ddu_deletedDn before)),
                               (''lastKnownParent'', text_json (ddu_lastKnownParent before)),
                               (''cn'', text_json (ddu_cn before))]
                              [(''distinguishedName'', JStr newDn), (''parentDn'', JStr (the target))], Some newDn)))
                          (\<lambda>err. let m = message_or ''modify failed'' err
                                 in io_return (refused_with (restore_refusal m)
                                      (m @ '' | newDn='' @ [quote] @ newDn @ [quote] @ '' | deletedDn='' @ [quote]
                                       @ ddu_deletedDn before @ [quote]), None)))))))
         (\<lambda>err. io_return (refused_with Directory_error (message_or ''restore failed'' err), None)))"

end
