(* ===== verification/AdTraces.thy ===== *)
theory AdTraces
  imports AdObjectWrites
begin

text \<open>
  What the provider's operations do to a directory, as the trace of the calls they make: a connection
  wrapped so that it keeps each answer to a search and each write, and rules for what a sequence of
  calls keeps of a trace. Whatever the directory does, a property of the trace is a property of the
  operation.
\<close>

section \<open>Traces\<close>

datatype ldap_write =
    Modify string "change list"
  | Modify_dn string string
  | Add_entry string
  | Delete_entry string bool

datatype answer = Accepted | Refused | No_answer

text \<open>A search with its answer; a write on a server, with what came of it. The newest comes first.\<close>

datatype event = Searched search "entry list" | Wrote string ldap_write answer

type_synonym trace = "event list"

definition traced_write :: "string \<Rightarrow> ldap_write \<Rightarrow> ('d, unit) io \<Rightarrow> ('d \<times> trace, unit) io" where
  "traced_write url w m s =
     (case m (fst s) of (r, d) \<Rightarrow> (r, (d, Wrote url w (case r of Gave _ \<Rightarrow> Accepted | Threw _ \<Rightarrow> Refused | Unfinished \<Rightarrow> No_answer) # snd s)))"

definition untraced :: "('d, 'a) io \<Rightarrow> ('d \<times> trace, 'a) io" where
  "untraced m s = (case m (fst s) of (r, d) \<Rightarrow> (r, (d, snd s)))"

definition traced_search :: "search \<Rightarrow> ('d, entry list) io \<Rightarrow> ('d \<times> trace, entry list) io" where
  "traced_search q m s =
     (case m (fst s) of
        (Gave es, d) \<Rightarrow> (Gave es, (d, Searched q es # snd s))
      | (Threw e, d) \<Rightarrow> (Threw e, (d, snd s))
      | (Unfinished, d) \<Rightarrow> (Unfinished, (d, snd s)))"

definition traced :: "string \<Rightarrow> 'd conn \<Rightarrow> ('d \<times> trace) conn" where
  "traced url c =
     \<lparr>cn_startTLS = untraced (cn_startTLS c),
      cn_bind = (\<lambda>user password. untraced (cn_bind c user password)),
      cn_search = (\<lambda>q. traced_search q (cn_search c q)),
      cn_modify = (\<lambda>dn changes critical. traced_write url (Modify dn changes) (cn_modify c dn changes critical)),
      cn_modifyDN = (\<lambda>dn newDn. traced_write url (Modify_dn dn newDn) (cn_modifyDN c dn newDn)),
      cn_add = (\<lambda>dn attrs. traced_write url (Add_entry dn) (cn_add c dn attrs)),
      cn_del = (\<lambda>dn tree. traced_write url (Delete_entry dn tree) (cn_del c dn tree))\<rparr>"

text \<open>The trace an operation leaves when it is run on the servers \<open>connect\<close> reaches.\<close>

definition trace_of :: "((string \<Rightarrow> ('d \<times> trace) conn) \<Rightarrow> ('d \<times> trace, 'a) io) \<Rightarrow> (string \<Rightarrow> 'd conn) \<Rightarrow> 'd \<Rightarrow> trace" where
  "trace_of operation connect d = snd (snd (operation (\<lambda>url. traced url (connect url)) (d, [])))"

section \<open>What a sequence of calls keeps\<close>

text \<open>
  From a trace with \<open>P\<close>, \<open>m\<close> gives \<open>x\<close> with a trace of \<open>G x\<close>, or ends otherwise with one of \<open>E\<close>: by
  throwing \<open>Some err\<close> or, \<open>None\<close>, by not returning.
\<close>

fun ends_in :: "('a \<Rightarrow> trace \<Rightarrow> bool) \<Rightarrow> (ldap_err option \<Rightarrow> trace \<Rightarrow> bool) \<Rightarrow> 'a outcome \<Rightarrow> trace \<Rightarrow> bool" where
  "ends_in G E (Gave x) t \<longleftrightarrow> G x t"
| "ends_in G E (Threw e) t \<longleftrightarrow> E (Some e) t"
| "ends_in G E Unfinished t \<longleftrightarrow> E None t"

definition triple :: "(trace \<Rightarrow> bool) \<Rightarrow> ('d \<times> trace, 'a) io \<Rightarrow> ('a \<Rightarrow> trace \<Rightarrow> bool) \<Rightarrow> (ldap_err option \<Rightarrow> trace \<Rightarrow> bool) \<Rightarrow> bool" where
  "triple P m G E \<longleftrightarrow> (\<forall>d t. P t \<longrightarrow> (case m (d, t) of (r, d', t') \<Rightarrow> ends_in G E r t'))"

named_theorems triples \<open>rules for triples, one per construct\<close>

lemma triple_return [triples]: "(\<And>t. P t \<Longrightarrow> G x t) \<Longrightarrow> triple P (io_return x) G E"
  by (simp add: triple_def io_return_def)

lemma triple_throw [triples]: "(\<And>t. P t \<Longrightarrow> E (Some e) t) \<Longrightarrow> triple P (io_throw e) G E"
  by (simp add: triple_def io_throw_def)

lemma triple_at: "triple P m G E \<Longrightarrow> P t \<Longrightarrow> m (d, t) = (r, d', t') \<Longrightarrow> ends_in G E r t'"
  unfolding triple_def by (drule spec [of _ d], drule spec [of _ t]) simp

lemma triple_then:
  assumes "triple P m R E" "\<And>x. triple (R x) (f x) G E"
  shows "triple P (io_then m f) G E"
  unfolding triple_def
proof (intro allI impI)
  fix d t
  assume "P t"
  obtain r d' t' where m: "m (d, t) = (r, d', t')" by (cases "m (d, t)")
  with assms(1) \<open>P t\<close> have p: "ends_in R E r t'" by (rule triple_at)
  show "case io_then m f (d, t) of (r, d', t') \<Rightarrow> ends_in G E r t'"
  proof (cases r)
    case (Gave x)
    with p triple_at [OF assms(2)] m show ?thesis by (simp add: io_then_def split: prod.split)
  qed (use m p in \<open>simp_all add: io_then_def\<close>)
qed

lemma triple_catch:
  assumes "triple P m G H" "\<And>e. triple (H (Some e)) (h e) G E" "\<And>t. H None t \<Longrightarrow> E None t"
  shows "triple P (io_catch m h) G E"
  unfolding triple_def
proof (intro allI impI)
  fix d t
  assume "P t"
  obtain r d' t' where m: "m (d, t) = (r, d', t')" by (cases "m (d, t)")
  with assms(1) \<open>P t\<close> have p: "ends_in G H r t'" by (rule triple_at)
  show "case io_catch m h (d, t) of (r, d', t') \<Rightarrow> ends_in G E r t'"
  proof (cases r)
    case (Threw e)
    with p triple_at [OF assms(2)] m show ?thesis by (simp add: io_catch_def split: prod.split)
  qed (use m p assms(3) in \<open>simp_all add: io_catch_def\<close>)
qed

lemma triple_weaken:
  assumes "triple P' m G' E'" "\<And>t. P t \<Longrightarrow> P' t" "\<And>x t. G' x t \<Longrightarrow> G x t" "\<And>e t. E' e t \<Longrightarrow> E e t"
  shows "triple P m G E"
  unfolding triple_def
proof (intro allI impI)
  fix d t
  assume "P t"
  obtain r d' t' where m: "m (d, t) = (r, d', t')" by (cases "m (d, t)")
  with assms(1,2) \<open>P t\<close> have "ends_in G' E' r t'" by (blast intro: triple_at)
  with m assms(3,4) show "case m (d, t) of (r, d', t') \<Rightarrow> ends_in G E r t'" by (cases r) simp_all
qed

lemma triple_lift [triples]:
  "(\<And>x t. r = Inr x \<Longrightarrow> P t \<Longrightarrow> G x t) \<Longrightarrow> (\<And>e t. P t \<Longrightarrow> E (Some e) t) \<Longrightarrow> triple P (io_lift r) G E"
  by (cases r) (simp_all add: io_lift_def triple_return triple_throw)

lemma triple_untraced:
  assumes "\<And>x t. P t \<Longrightarrow> G x t" "\<And>e t. P t \<Longrightarrow> E e t"
  shows "triple P (untraced m) G E"
  unfolding triple_def
proof (intro allI impI)
  fix d t
  assume "P t"
  with assms show "case untraced m (d, t) of (r, d', t') \<Rightarrow> ends_in G E r t'"
    by (cases "m d"; cases "fst (m d)") (simp_all add: untraced_def)
qed

lemma triple_bind [triples]:
  assumes "\<And>t. P t \<Longrightarrow> G () t" "\<And>e t. P t \<Longrightarrow> E e t"
  shows "triple P (cn_bind (traced url c) user password) G E"
  using triple_untraced [of P G E] assms by (simp add: traced_def)

lemma triple_startTLS [triples]:
  assumes "\<And>t. P t \<Longrightarrow> G () t" "\<And>e t. P t \<Longrightarrow> E e t"
  shows "triple P (cn_startTLS (traced url c)) G E"
  using triple_untraced [of P G E] assms by (simp add: traced_def)

lemma triple_search [triples]:
  assumes "\<And>es t. P t \<Longrightarrow> G es (Searched q es # t)" "\<And>e t. P t \<Longrightarrow> E e t"
  shows "triple P (cn_search (traced url c) q) G E"
  using assms by (simp add: triple_def traced_def traced_search_def split: prod.split outcome.split)

lemma triple_traced_write [triples]:
  assumes "\<And>t. P t \<Longrightarrow> G () (Wrote url w Accepted # t)" "\<And>e t. P t \<Longrightarrow> E (Some e) (Wrote url w Refused # t)"
    and "\<And>t. P t \<Longrightarrow> E None (Wrote url w No_answer # t)"
  shows "triple P (traced_write url w m) G E"
  using assms by (simp add: triple_def traced_write_def split: prod.split outcome.split)

lemma traced_writes [simp]:
  "cn_modify (traced url c) dn changes critical = traced_write url (Modify dn changes) (cn_modify c dn changes critical)"
  "cn_modifyDN (traced url c) dn newDn = traced_write url (Modify_dn dn newDn) (cn_modifyDN c dn newDn)"
  "cn_add (traced url c) dn attrs = traced_write url (Add_entry dn) (cn_add c dn attrs)"
  "cn_del (traced url c) dn tree = traced_write url (Delete_entry dn tree) (cn_del c dn tree)"
  by (simp_all add: traced_def)

lemma triple_if:
  assumes "b \<Longrightarrow> triple P m G E" "\<not> b \<Longrightarrow> triple P n G E"
  shows "triple P (if b then m else n) G E"
  using assms by simp

lemma triple_option:
  assumes "x = None \<Longrightarrow> triple P m G E" "\<And>y. x = Some y \<Longrightarrow> triple P (f y) G E"
  shows "triple P (case x of None \<Rightarrow> m | Some y \<Rightarrow> f y) G E"
  using assms by (cases x) simp_all

lemma triple_let: "triple P (f x) G E \<Longrightarrow> triple P (Let x f) G E"
  by simp

section \<open>Properties kept throughout\<close>

text \<open>\<open>m\<close> keeps \<open>I\<close>, however it ends.\<close>

definition stays :: "(trace \<Rightarrow> bool) \<Rightarrow> ('d \<times> trace, 'a) io \<Rightarrow> bool" where
  "stays I m \<longleftrightarrow> triple I m (\<lambda>_. I) (\<lambda>_. I)"

lemma staysD: "stays I m \<Longrightarrow> triple I m (\<lambda>_. I) (\<lambda>_. I)"
  by (simp add: stays_def)

lemma triple_stays_then:
  assumes "stays I m" "\<And>x. triple I (f x) G E" "\<And>e t. I t \<Longrightarrow> E e t"
  shows "triple I (io_then m f) G E"
  by (rule triple_then [OF triple_weaken [OF staysD [OF assms(1)]] assms(2)]) (simp_all add: assms(3))

lemma stays_then: "stays I m \<Longrightarrow> (\<And>x. stays I (f x)) \<Longrightarrow> stays I (io_then m f)"
  unfolding stays_def by (rule triple_then)

lemma stays_catch: "stays I m \<Longrightarrow> (\<And>e. stays I (h e)) \<Longrightarrow> stays I (io_catch m h)"
  unfolding stays_def by (rule triple_catch)

lemma stays_return: "stays I (io_return x)"
  unfolding stays_def by (rule triple_return)

lemma stays_throw: "stays I (io_throw e)"
  unfolding stays_def by (rule triple_throw)

lemma stays_lift: "stays I (io_lift r)"
  unfolding stays_def by (rule triple_lift)

lemma stays_bind: "stays I (cn_bind (traced url c) user password)"
  unfolding stays_def by (rule triple_bind)

lemma stays_startTLS: "stays I (cn_startTLS (traced url c))"
  unfolding stays_def by (rule triple_startTLS)

lemma stays_if: "(b \<Longrightarrow> stays I m) \<Longrightarrow> (\<not> b \<Longrightarrow> stays I n) \<Longrightarrow> stays I (if b then m else n)"
  by simp

lemma stays_option: "stays I m \<Longrightarrow> (\<And>y. stays I (f y)) \<Longrightarrow> stays I (case x of None \<Rightarrow> m | Some y \<Rightarrow> f y)"
  by (cases x) simp_all

lemma stays_list: "stays I m \<Longrightarrow> (\<And>y ys. stays I (f y ys)) \<Longrightarrow> stays I (case xs of [] \<Rightarrow> m | y # ys \<Rightarrow> f y ys)"
  by (cases xs) simp_all

lemma stays_err: "(\<And>c k m. stays I (f c k m)) \<Longrightarrow> (\<And>es. stays I (g es)) \<Longrightarrow>
    stays I (case e of Err c k m \<Rightarrow> f c k m | Aggregate es \<Rightarrow> g es)"
  by (cases e) simp_all

lemma stays_class:
  assumes "stays I m" "stays I n"
  shows "stays I (case c of Not_allowed_on_non_leaf \<Rightarrow> m | _ \<Rightarrow> n)" "stays I (case c of No_such_object \<Rightarrow> m | _ \<Rightarrow> n)"
    "stays I (case c of Directory_unavailable \<Rightarrow> m | _ \<Rightarrow> n)"
  using assms by (cases c; simp)+

lemma stays_prod: "(\<And>a b. stays I (f a b)) \<Longrightarrow> stays I (case x of (a, b) \<Rightarrow> f a b)"
  by (cases x) simp

lemma stays_let: "stays I (f x) \<Longrightarrow> stays I (Let x f)"
  by simp

lemmas stays_rules =
  stays_then stays_catch stays_return stays_throw stays_lift stays_bind stays_startTLS stays_if stays_option
  stays_list stays_err stays_class stays_prod stays_let

text \<open>Reading keeps what searches keep.\<close>

locale kept_by_searches =
  fixes I :: "trace \<Rightarrow> bool"
  assumes searched: "\<And>q es t. I t \<Longrightarrow> I (Searched q es # t)"
begin

lemma stays_search: "stays I (cn_search (traced url c) q)"
  unfolding stays_def by (rule triple_search) (simp_all add: searched)

lemma stays_identifier: "stays I (identifierToFilter i base)"
  by (cases "(i, base)" rule: identifierToFilter.cases) (auto intro!: stays_rules)

lemma stays_searchOne: "stays I (searchOne (traced url c) base f attributes)"
  unfolding searchOne_def by (intro stays_rules stays_search)

lemma stays_findUser: "stays I (findUserEntry p (traced url c) i attributes)"
  unfolding findUserEntry_def by (intro stays_rules stays_identifier stays_searchOne)

lemma stays_findComputer: "stays I (findComputerEntry p (traced url c) i attributes)"
  unfolding findComputerEntry_def by (intro stays_rules stays_identifier stays_searchOne)

lemma stays_findAccount: "stays I (findAccountEntry p (traced url c) kind i)"
  unfolding findAccountEntry_def by (intro stays_rules stays_findUser stays_findComputer)

lemma stays_more: "stays I (\<lambda>s. more_members fuel (traced url c) dn members til s)"
proof (induction fuel arbitrary: members til)
  case 0
  then show ?case by (cases til) (simp_all add: stays_def triple_def)
next
  case (Suc fuel)
  show ?case
  proof (cases til)
    case None
    then show ?thesis by (simp add: stays_def triple_def)
  next
    case (Some e)
    then show ?thesis
      by (simp add: Let_def) (intro stays_rules stays_search Suc)
  qed
qed

lemma stays_withAllMembers: "stays I (withAllMembers fuel (traced url c) e)"
  unfolding withAllMembers_def by (intro stays_rules stays_more)

lemma stays_findGroup: "stays I (findGroupEntry p (traced url c) i attributes)"
  unfolding findGroupEntry_def by (intro stays_rules stays_identifier stays_searchOne stays_withAllMembers)

lemma stays_guidOf: "stays I (guidOf (traced url c) dn)"
  unfolding guidOf_def by (intro stays_rules stays_search)

lemma stays_domainRoot: "stays I (domainRoot p (traced url c))"
  unfolding domainRoot_def resolveDefaultNamingContext_def by (intro stays_rules stays_search)

lemma stays_clashes: "stays I (clashes_from p (traced url c) root names parent except as holders)"
proof (induction as arbitrary: holders)
  case Nil
  then show ?case by (simp add: stays_return)
next
  case (Cons a as)
  then show ?case by (simp only: clashes_from.simps) (intro stays_rules stays_search)
qed

lemma stays_findNameClash: "stays I (findNameClash p (traced url c) names parent except label)"
  unfolding findNameClash_def nameClashes_def by (intro stays_rules stays_domainRoot stays_clashes)

lemma stays_fingerprint: "stays I (accountFingerprint p (traced url c) i)"
  unfolding accountFingerprint_def
  by (intro stays_rules stays_findUser) (simp split: option.split ldap_value.split ldap_elem.split; intro conjI allI impI stays_rules)

lemma stays_left_as: "stays I (left_as p (traced url c) dn r)"
  unfolding left_as_def by (intro stays_rules stays_findUser stays_fingerprint)

lemma stays_read_again: "stays I m \<Longrightarrow> stays I (read_again nf m)"
  unfolding read_again_def by (intro stays_rules)

lemma stays_parents: "stays I (readable_parents (traced url c) dns acc)"
  by (induction dns arbitrary: acc) (simp add: stays_return, simp only: readable_parents.simps, intro stays_rules stays_search)

lemma stays_count: "stays I (countPrimaryGroupMembers p (traced url c) g)"
  unfolding countPrimaryGroupMembers_def by (intro stays_rules stays_search stays_domainRoot)

lemma stays_facts: "stays I (groupDeleteFacts p (traced url c) g)"
  unfolding groupDeleteFacts_def by (intro stays_rules stays_parents stays_count)

lemmas stays_reads =
  stays_search stays_identifier stays_searchOne stays_findUser stays_findComputer stays_findAccount stays_findGroup
  stays_guidOf stays_findNameClash stays_fingerprint stays_left_as stays_read_again stays_facts

end

text \<open>What the writes on one server keep as well.\<close>

locale kept_on_server = kept_by_searches I for I :: "trace \<Rightarrow> bool" +
  fixes server :: string
  assumes wrote: "\<And>w b t. I t \<Longrightarrow> I (Wrote server w b # t)"
begin

lemma stays_write: "stays I (traced_write server w m)"
  unfolding stays_def by (rule triple_traced_write) (simp_all add: wrote)

lemma stays_modify: "stays I (cn_modify (traced server c) dn changes critical)"
  by (simp add: stays_write)

lemma stays_modifyDN: "stays I (cn_modifyDN (traced server c) dn newDn)"
  by (simp add: stays_write)

lemma stays_add: "stays I (cn_add (traced server c) dn attrs)"
  by (simp add: stays_write)

lemma stays_del: "stays I (cn_del (traced server c) dn tree)"
  by (simp add: stays_write)

lemmas stays_calls = stays_reads stays_modify stays_modifyDN stays_add stays_del

lemma stays_setMember: "stays I (setMember (traced server c) g m b)"
  unfolding setMember_def by (intro stays_rules stays_calls)

lemma stays_addToGroups: "stays I (addToGroups (traced server c) dn dns acc)"
  by (induction dns arbitrary: acc)
    (simp add: stays_return, simp only: addToGroups.simps, intro stays_rules stays_setMember)

lemma stays_step: "stays I (step_write (traced server c) dn finish step)"
  unfolding step_write_def by (cases step) (simp_all add: stays_write stays_return)

lemma stays_steps: "stays I (runCreateSteps p (traced server c) dn completed steps finish joined)"
proof (induction steps arbitrary: completed joined)
  case Nil
  then show ?case by (simp add: stays_left_as)
next
  case (Cons step steps)
  then show ?case
    by (simp only: runCreateSteps.simps) (intro stays_rules stays_addToGroups stays_step stays_left_as)
qed

end

section \<open>Trying the servers\<close>

text \<open>
  A function run on one server after another: as long as it throws with \<open>I\<close> kept, the next server is
  tried.
\<close>

lemma triple_try_servers:
  assumes fn: "\<And>url. triple I (fn (traced url (connect url))) G E"
    and thrown: "\<And>e t. E (Some e) t \<Longrightarrow> I t" and from_kept: "\<And>e t. I t \<Longrightarrow> E e t"
  shows "triple I (\<lambda>s. try_servers (\<lambda>url. traced url (connect url)) mode fn urls failures s) G E"
proof (induction urls arbitrary: failures)
  case Nil
  then show ?case by (simp add: triple_def from_kept)
next
  case (Cons url urls)
  let ?m = "io_then (if transportFor url mode = Starttls then cn_startTLS (traced url (connect url)) else io_return ())
              (\<lambda>_. fn (traced url (connect url)))"
  have m: "triple I ?m G E"
    by (rule triple_then [where R = "\<lambda>_. I"]) (intro triple_if triples from_kept fn; assumption)+
  show ?case
    unfolding triple_def
  proof (intro allI impI)
    fix d t
    assume "I t"
    obtain r d' t' where r: "?m (d, t) = (r, d', t')" by (cases "?m (d, t)")
    with m \<open>I t\<close> have p: "ends_in G E r t'" by (rule triple_at)
    show "case try_servers (\<lambda>url. traced url (connect url)) mode fn (url # urls) failures (d, t) of
        (r, d', t') \<Rightarrow> ends_in G E r t'"
    proof (cases r)
      case (Threw e)
      with p thrown have "I t'" by auto
      with Threw r triple_at [OF Cons] show ?thesis by (simp add: Let_def split: prod.split)
    qed (use r p in \<open>simp_all add: Let_def\<close>)
  qed
qed

lemma triple_asOperator:
  assumes fn: "\<And>url. triple I (fn (traced url (connect url))) G E"
    and "\<And>e t. E (Some e) t \<Longrightarrow> I t" "\<And>e t. I t \<Longrightarrow> E e t" "\<And>r t. I t \<Longrightarrow> G (failed r) t"
  shows "triple I (asOperator (\<lambda>url. traced url (connect url)) p ctx failed fn) G E"
  unfolding asOperator_def withFailover_def
proof (rule triple_catch)
  show "triple I (try_servers (\<lambda>url. traced url (connect url)) (cc_tlsMode (pc_client p))
      (\<lambda>client. io_then
         (io_catch (io_then (cn_bind client (wc_actorUsername ctx) (wc_actorPassword ctx)) (\<lambda>_. io_return None))
           (\<lambda>err. if isDirectoryUnreachable err then io_throw err
                  else io_return (Some (refused_with Permission_denied ''step-up bind failed''))))
         (\<lambda>refused. case refused of Some r \<Rightarrow> io_return (failed r) | None \<Rightarrow> fn client))
      (cc_ldapUrls (pc_client p)) []) G E"
    by (rule triple_try_servers [OF _ assms(2) assms(3)])
      (intro triple_then [where R = "\<lambda>_. I"] triple_catch [where H = "\<lambda>_. I"] triple_if triple_option triples;
        (assumption | rule assms | erule assms))+
qed (use assms in \<open>auto intro!: triple_return triple_throw split: ldap_err.split err_class.split\<close>)

text \<open>
  An operation of the provider, which catches what its body throws: a server that was not reached leaves
  the trace as it was, the first one reached is the last.
\<close>

lemma triple_operation:
  assumes body: "\<And>url. triple I (body (traced url (connect url))) (\<lambda>_. Q) (\<lambda>_. Q)" and weaker: "\<And>t. I t \<Longrightarrow> Q t"
  shows "triple I (asOperator (\<lambda>url. traced url (connect url)) p ctx failed (\<lambda>client. io_catch (body client) (\<lambda>e. io_return (g e))))
     (\<lambda>_. Q) (\<lambda>_. Q)"
proof -
  let ?E = "\<lambda>e t. case e of Some _ \<Rightarrow> I t | None \<Rightarrow> Q t"
  have "triple I (asOperator (\<lambda>url. traced url (connect url)) p ctx failed (\<lambda>client. io_catch (body client) (\<lambda>e. io_return (g e))))
     (\<lambda>_. Q) ?E"
  proof (rule triple_asOperator)
    show "triple I (io_catch (body (traced url (connect url))) (\<lambda>e. io_return (g e))) (\<lambda>_. Q) ?E" for url
      by (intro triple_catch [OF body] triple_return) simp_all
  qed (auto simp: weaker split: option.split)
  then show ?thesis by (rule triple_weaken) (auto simp: weaker split: option.splits)
qed

lemma trace_run:
  assumes "triple I (operation (\<lambda>url. traced url (connect url))) (\<lambda>_. Q) (\<lambda>_. Q)" "I []"
  shows "Q (trace_of operation connect d)"
proof -
  obtain r d' t where run: "operation (\<lambda>url. traced url (connect url)) (d, []) = (r, d', t)"
    by (cases "operation (\<lambda>url. traced url (connect url)) (d, [])") auto
  from assms run have "ends_in (\<lambda>_. Q) (\<lambda>_. Q) r t" by (rule triple_at)
  with run show ?thesis by (cases r) (simp_all add: trace_of_def)
qed

lemma traced_operation:
  assumes "\<And>url. triple I (body (traced url (connect url))) (\<lambda>_. Q) (\<lambda>_. Q)" "\<And>t. I t \<Longrightarrow> Q t" "I []"
  shows "Q (trace_of (\<lambda>connect. asOperator connect p ctx failed
           (\<lambda>client. io_catch (body client) (\<lambda>e. io_return (g e)))) connect d)"
  by (rule trace_run [where I = I], rule triple_operation) (rule assms, assumption?)+

end
