(* ===== verification/AdWriteClaims.thy ===== *)
theory AdWriteClaims
  imports AdTraces
begin

text \<open>
  What the provider's writes do and do not do, over any directory: they go to one server, protected
  computers and live accounts are left alone, accounts are created and renamed in a safe order, and
  where a write that was done is reported as failed.
\<close>

section \<open>One server\<close>

text \<open>The writes of the provider, and running one.\<close>

datatype provider_write =
    Unlock object_id
  | Reset_password object_id reset_password
  | Set_expiry object_id "ms option"
  | Must_change object_id bool
  | Set_control account_kind object_id control_write
  | Reset_computer object_id
  | Update_attributes object_id attribute_patch
  | Set_membership member_kind object_id object_id bool
  | Move account_kind object_id string
  | Rename object_id rename_input
  | Delete_user object_id bool
  | Create_user create_input "create_step list" create_finish
  | Finish_user object_id "create_step list" create_finish
  | Create_group group_create
  | Delete_group object_id "role_group list"

definition quietly :: "('d, 'a) io \<Rightarrow> ('d, unit) io" where
  "quietly m = io_then m (\<lambda>_. io_return ())"

fun perform :: "provider_config \<Rightarrow> write_context \<Rightarrow> provider_write \<Rightarrow> (string \<Rightarrow> 'd conn) \<Rightarrow> ('d, unit) io" where
  "perform p ctx (Unlock i) connect = quietly (unlockUser connect p i ctx)"
| "perform p ctx (Reset_password i input) connect = quietly (resetPassword connect p i input ctx)"
| "perform p ctx (Set_expiry i t) connect = quietly (setAccountExpiry connect p i t ctx)"
| "perform p ctx (Must_change i b) connect = quietly (setPasswordMustChange connect p i b ctx)"
| "perform p ctx (Set_control kind i w) connect = quietly (setAccountControlFlag connect p kind i ctx w)"
| "perform p ctx (Reset_computer i) connect = quietly (resetComputerAccount connect p i ctx)"
| "perform p ctx (Update_attributes i patch) connect = quietly (updateUserAttributes connect p i patch ctx)"
| "perform p ctx (Set_membership kind m g b) connect = quietly (modifyGroupMembership connect p kind m g ctx b)"
| "perform p ctx (Move kind i target) connect = quietly (moveAccount connect p kind i target ctx)"
| "perform p ctx (Rename i input) connect = quietly (renameUser connect p i input ctx)"
| "perform p ctx (Delete_user i b) connect = quietly (deleteUser connect p i ctx b)"
| "perform p ctx (Create_user input steps finish) connect = quietly (createUser connect p input steps finish ctx)"
| "perform p ctx (Finish_user i steps finish) connect = quietly (finishUserCreate connect p i steps finish ctx)"
| "perform p ctx (Create_group input) connect = quietly (createGroup connect p input ctx)"
| "perform p ctx (Delete_group i roles) connect = quietly (deleteGroup connect p i ctx roles)"

text \<open>The servers a trace has writes on.\<close>

definition servers :: "trace \<Rightarrow> string list" where
  "servers t = remdups (List.map_filter (\<lambda>e. case e of Wrote url _ _ \<Rightarrow> Some url | _ \<Rightarrow> None) t)"

definition only_on :: "string \<Rightarrow> trace \<Rightarrow> bool" where
  "only_on url t \<longleftrightarrow> set (servers t) \<subseteq> {url}"

lemma servers_simps:
  "servers [] = []" "set (servers (Searched q es # t)) = set (servers t)"
  "set (servers (Wrote url w b # t)) = insert url (set (servers t))"
  by (auto simp: servers_def)

lemma one_server_only: "only_on url t \<Longrightarrow> length (servers t) \<le> 1"
proof -
  assume "only_on url t"
  then have "card (set (servers t)) \<le> card {url}" unfolding only_on_def by (intro card_mono) auto
  moreover have "distinct (servers t)" by (simp add: servers_def)
  ultimately show ?thesis by (simp add: distinct_card)
qed

interpretation on_server: kept_on_server "only_on url" url for url
  by unfold_locales (auto simp: only_on_def servers_simps)

lemma one_server_operation:
  assumes "\<And>url. stays (only_on url) (body (traced url (connect url)))"
  shows "triple (\<lambda>t. servers t = [])
    (quietly (asOperator (\<lambda>url. traced url (connect url)) p ctx failed (\<lambda>client. io_catch (body client) (\<lambda>e. io_return (g e)))))
    (\<lambda>_ t. length (servers t) \<le> 1) (\<lambda>_ t. length (servers t) \<le> 1)"
  unfolding quietly_def
proof (intro triple_then [OF triple_operation triple_return])
  show "triple (\<lambda>t. servers t = []) (body (traced url (connect url))) (\<lambda>_ t. length (servers t) \<le> 1) (\<lambda>_ t. length (servers t) \<le> 1)"
    for url
    by (rule triple_weaken [OF staysD [OF assms]]) (simp add: only_on_def, erule one_server_only, erule one_server_only)
qed simp_all

lemma one_server_on_user:
  assumes "\<And>url target u. stays (only_on url) (body (traced url (connect url)) target u)"
  shows "triple (\<lambda>t. servers t = []) (quietly (on_user (\<lambda>url. traced url (connect url)) p ctx i attributes classify body))
    (\<lambda>_ t. length (servers t) \<le> 1) (\<lambda>_ t. length (servers t) \<le> 1)"
  unfolding on_user_def
  by (rule one_server_operation) (intro stays_rules on_server.stays_calls assms)

lemma one_server_perform:
  "triple (\<lambda>t. servers t = []) (perform p ctx w (\<lambda>url. traced url (connect url)))
     (\<lambda>_ t. length (servers t) \<le> 1) (\<lambda>_ t. length (servers t) \<le> 1)"
proof (cases w)
  case (Unlock i)
  then show ?thesis
    by (simp only:) (unfold perform.simps unlockUser_def, intro one_server_on_user stays_rules on_server.stays_calls)
next
  case (Reset_password i input)
  then show ?thesis
    by (simp only:) (unfold perform.simps resetPassword_def, intro one_server_on_user stays_rules on_server.stays_calls)
next
  case (Set_expiry i t)
  then show ?thesis
    by (simp only:) (unfold perform.simps setAccountExpiry_def, intro one_server_on_user stays_rules on_server.stays_calls)
next
  case (Must_change i b)
  then show ?thesis
    by (simp only:) (unfold perform.simps setPasswordMustChange_def, intro one_server_on_user stays_rules on_server.stays_calls)
next
  case (Set_control kind i cw)
  then show ?thesis
    by (simp only:) (unfold perform.simps setAccountControlFlag_def, intro one_server_operation stays_rules on_server.stays_calls)
next
  case (Reset_computer i)
  then show ?thesis
    by (simp only:) (unfold perform.simps resetComputerAccount_def, intro one_server_operation stays_rules on_server.stays_calls)
next
  case (Update_attributes i patch)
  then show ?thesis
    by (simp only:) (unfold perform.simps updateUserAttributes_def, intro one_server_on_user stays_rules on_server.stays_calls)
next
  case (Set_membership kind m g b)
  then show ?thesis
    by (simp only:) (unfold perform.simps modifyGroupMembership_def,
      intro one_server_operation stays_rules on_server.stays_setMember on_server.stays_calls)
next
  case (Rename i input)
  then show ?thesis
    by (simp only:) (unfold perform.simps renameUser_def, intro one_server_on_user stays_rules on_server.stays_calls)
next
  case (Delete_user i b)
  then show ?thesis
    by (simp only:) (unfold perform.simps deleteUser_def, intro one_server_operation stays_rules on_server.stays_calls)
next
  case (Create_user input steps finish)
  then show ?thesis
    by (simp only:) (unfold perform.simps createUser_def,
      intro one_server_operation stays_rules on_server.stays_steps on_server.stays_calls)
next
  case (Finish_user i steps finish)
  then show ?thesis
    by (simp only:) (unfold perform.simps finishUserCreate_def,
      intro one_server_operation stays_rules on_server.stays_steps on_server.stays_calls)
next
  case (Create_group input)
  then show ?thesis
    by (simp only:) (unfold perform.simps createGroup_def, intro one_server_operation stays_rules on_server.stays_calls)
next
  case (Delete_group i roles)
  then show ?thesis
    by (simp only:) (unfold perform.simps deleteGroup_def, intro one_server_operation stays_rules on_server.stays_calls)
next
  case (Move kind i target)
  show ?thesis
  proof (cases "trim target = []")
    case True
    with Move show ?thesis
      by (simp add: moveAccount_def quietly_def triple_def io_then_def io_return_def servers_simps)
  next
    case False
    with Move show ?thesis
      by (simp only: perform.simps moveAccount_def Let_def if_False)
        (intro one_server_operation stays_rules on_server.stays_calls)
  qed
qed


section \<open>Only what was read and found safe\<close>

text \<open>The entries a trace has read, one for each search that found something.\<close>

definition read_in :: "trace \<Rightarrow> entry list" where
  "read_in t = List.map_filter (\<lambda>e. case e of Searched _ (x # _) \<Rightarrow> Some x | _ \<Rightarrow> None) t"

text \<open>Before every write of the trace an entry was read that the write is fine for.\<close>

fun checked :: "(entry \<Rightarrow> ldap_write \<Rightarrow> bool) \<Rightarrow> trace \<Rightarrow> bool" where
  "checked ok [] \<longleftrightarrow> True"
| "checked ok (Searched q es # t) \<longleftrightarrow> checked ok t"
| "checked ok (Wrote url w b # t) \<longleftrightarrow> list_ex (\<lambda>e. ok e w) (read_in t) \<and> checked ok t"

lemma read_in_simps:
  "read_in [] = []" "read_in (Searched q [] # t) = read_in t" "read_in (Searched q (x # xs) # t) = x # read_in t"
  "read_in (Wrote url w b # t) = read_in t"
  by (simp_all add: read_in_def List.map_filter_simps)

interpretation reading: kept_by_searches "checked ok" for ok
  by unfold_locales simp

text \<open>What \<open>was_read\<close> says of an entry found, if any.\<close>

definition was_read :: "(entry \<Rightarrow> ldap_write \<Rightarrow> bool) \<Rightarrow> entry option \<Rightarrow> trace \<Rightarrow> bool" where
  "was_read ok found t \<longleftrightarrow> checked ok t \<and> (case found of None \<Rightarrow> True | Some e \<Rightarrow> e \<in> set (read_in t))"

lemma was_read_checked: "was_read ok found t \<Longrightarrow> checked ok t"
  by (simp add: was_read_def)

lemma triple_searchOne:
  "triple (checked ok) (searchOne (traced url c) base f attributes) (was_read ok) (\<lambda>_. checked ok)"
  unfolding searchOne_def
proof (rule triple_then)
  show "triple (checked ok) (cn_search (traced url c)
      \<lparr>sr_base = base, sr_scope = Scope_sub, sr_filter = f, sr_attributes = attributes, sr_deleted = False\<rparr>)
      (\<lambda>es. was_read ok (first_of es)) (\<lambda>_. checked ok)"
    by (rule triple_search) (simp_all add: was_read_def first_of_def read_in_simps split: list.split)
qed (rule triple_return)

lemma triple_find:
  "triple (checked ok) (findUserEntry p (traced url c) i attributes) (was_read ok) (\<lambda>_. checked ok)"
  "triple (checked ok) (findComputerEntry p (traced url c) i attributes) (was_read ok) (\<lambda>_. checked ok)"
  unfolding findUserEntry_def findComputerEntry_def
  by (rule triple_then [OF staysD [OF reading.stays_identifier] triple_searchOne])+

lemma triple_find_account:
  "triple (checked ok) (findAccountEntry p (traced url c) kind i) (was_read ok) (\<lambda>_. checked ok)"
  unfolding findAccountEntry_def by (intro triple_if triple_find)

lemma triple_checked_write:
  assumes "ok e w"
  shows "triple (was_read ok (Some e)) (traced_write url w m) (\<lambda>_. checked ok) (\<lambda>_. checked ok)"
  by (rule triple_traced_write) (use assms in \<open>auto simp: was_read_def list_ex_iff\<close>)

lemma triple_was_read: "triple (checked ok) m G E \<Longrightarrow> triple (was_read ok found) m G E"
  by (erule triple_weaken) (simp_all add: was_read_def)

lemma checked_operation:
  assumes "\<And>url. triple (checked ok) (body (traced url (connect url))) (\<lambda>_. checked ok) (\<lambda>_. checked ok)"
  shows "checked ok (trace_of (\<lambda>connect. asOperator connect p ctx failed
           (\<lambda>client. io_catch (body client) (\<lambda>e. io_return (g e)))) connect d)"
  by (rule traced_operation [where I = "checked ok"]) (simp_all add: assms)

text \<open>Searches in between.\<close>

interpretation still_read: kept_by_searches "was_read ok found" for ok found
  by unfold_locales (auto simp: was_read_def read_in_def List.map_filter_simps split: option.splits list.splits)

lemma triple_read_then:
  assumes "stays (was_read ok found) m" "\<And>x. triple (was_read ok found) (f x) G (\<lambda>_. checked ok)"
  shows "triple (was_read ok found) (io_then m f) G (\<lambda>_. checked ok)"
  by (rule triple_then [OF triple_weaken [OF staysD [OF assms(1)]] assms(2)]) (simp_all add: was_read_def)

lemma normalized_dn:
  "normalizeUser e = Inr u \<Longrightarrow> du_distinguishedName u = dn_of e"
  "normalizeComputer e = Inr c \<Longrightarrow> dc_distinguishedName c = dn_of e"
  by (auto simp: normalizeUser_def normalizeComputer_def object_identity_def or_throw_def dn_of_def Let_def truthy_def
      split: option.splits sum.splits if_splits)

text \<open>A computer is only written under the DN it was read with, and only when nothing protects it.\<close>

definition unprotected :: "entry \<Rightarrow> ldap_write \<Rightarrow> bool" where
  "unprotected e w \<longleftrightarrow>
     computerWriteBlock (entry_raw e) = None
     \<and> (case w of Modify dn _ \<Rightarrow> dn = dn_of e | Modify_dn dn _ \<Rightarrow> dn = dn_of e | _ \<Rightarrow> False)"

lemma protected_none: "protectedComputer e = None \<longleftrightarrow> computerWriteBlock (entry_raw e) = None"
  by (simp add: protectedComputer_def)

text \<open>A write after which only reads come, and a step of the normalizers before it.\<close>

lemma triple_write_then:
  assumes "\<And>t. P t \<Longrightarrow> was_read ok (Some e) t" "\<And>t. P t \<Longrightarrow> ok e w" "\<And>x. stays (checked ok) (f x)"
  shows "triple P (io_then (traced_write url w m) f) (\<lambda>_. checked ok) (\<lambda>_. checked ok)"
proof (rule triple_then)
  show "triple P (traced_write url w m) (\<lambda>_. checked ok) (\<lambda>_. checked ok)"
    by (rule triple_traced_write) (use assms(1,2) in \<open>auto simp: was_read_def list_ex_iff\<close>)
  show "triple (checked ok) (f x) (\<lambda>_. checked ok) (\<lambda>_. checked ok)" for x
    by (rule staysD [OF assms(3)])
qed

lemma triple_lift_then:
  assumes "\<And>x. triple (\<lambda>t. P t \<and> r = Inr x) (f x) G E" "\<And>e t. P t \<Longrightarrow> E (Some e) t"
  shows "triple P (io_then (io_lift r) f) G E"
  by (rule triple_then [OF triple_lift [where G = "\<lambda>x t. P t \<and> r = Inr x"] assms(1)]) (simp_all add: assms(2))

lemma checked_found:
  assumes "\<And>url. triple (checked ok) (look (traced url (connect url))) (was_read ok) (\<lambda>_. checked ok)"
    and "\<And>url e. triple (was_read ok (Some e)) (write (traced url (connect url)) e) (\<lambda>_. checked ok) (\<lambda>_. checked ok)"
  shows "checked ok (trace_of (\<lambda>connect. asOperator connect p ctx failed (\<lambda>client. io_catch
      (io_then (look client) (\<lambda>found. case found of None \<Rightarrow> io_return none | Some e \<Rightarrow> write client e))
      (\<lambda>e. io_return (g e)))) connect d)"
proof (rule checked_operation, rule triple_then [OF assms(1)], rule triple_option)
  fix url and found :: "entry option" and e :: entry
  assume "found = Some e"
  then show "triple (was_read ok found) (write (traced url (connect url)) e) (\<lambda>_. checked ok) (\<lambda>_. checked ok)"
    by (simp add: assms(2))
qed (auto intro!: triple_return simp: was_read_def)


text \<open>
  An account is only deleted under the DN it was read with, when it was read as one that may be: disabled,
  not critical and not built in. With what is below it, only when that was allowed.
\<close>

definition deletable :: "bool \<Rightarrow> entry \<Rightarrow> ldap_write \<Rightarrow> bool" where
  "deletable allowTree e w \<longleftrightarrow>
     (case normalizeUser e of
        Inl _ \<Rightarrow> False
      | Inr u \<Rightarrow>
          \<not> du_enabled u \<and> \<not> rawFlag (raw_get (du_rawAttributes u) ''isCriticalSystemObject'')
          \<and> (case ridOf (du_sid u) of None \<Rightarrow> True | Some rid \<Rightarrow> 1000 \<le> rid)
          \<and> (case w of Delete_entry dn tree \<Rightarrow> dn = dn_of e \<and> (tree \<longrightarrow> allowTree) | _ \<Rightarrow> False))"

lemma deletable_when:
  assumes "normalizeUser e = Inr u" "userDeleteBlockReason (du_enabled u) (du_sid u) (du_rawAttributes u) = None"
  shows "deletable allowTree e (Delete_entry (du_distinguishedName u) tree) \<longleftrightarrow> (tree \<longrightarrow> allowTree)"
  using assms by (auto simp: deletable_def userDeleteBlockReason_def normalized_dn split: if_splits option.splits)

text \<open>
  C25. Deleting a user writes nothing but the deletion of an account it read in the same sign-in as
  disabled, not critical and not one of those AD creates for itself; what is below the account goes
  with it only when the caller allowed that.
\<close>

theorem only_retired_accounts_are_deleted:
  "checked (deletable allowTree) (trace_of (\<lambda>connect. deleteUser connect p i ctx allowTree) connect d)"
  unfolding deleteUser_def Let_def
proof (intro checked_found triple_find; unfold traced_writes; intro triple_lift_then triple_option triple_return)
  fix url and target :: entry and u :: directory_user
  let ?P = "\<lambda>t. was_read (deletable allowTree) (Some target) t \<and> normalizeUser target = Inr u"
  let ?ok = "checked (deletable allowTree)"
  let ?del = "\<lambda>tree. traced_write url (Delete_entry (du_distinguishedName u) tree) (cn_del (connect url) (du_distinguishedName u) tree)"
  assume may: "userDeleteBlockReason (du_enabled u) (du_sid u) (du_rawAttributes u) = None"
  show "triple ?P (io_catch (io_then (?del False) (\<lambda>_. io_return (deleted_as (deletionSnapshot u) False)))
      (\<lambda>err. case err of
          Err Not_allowed_on_non_leaf _ _ \<Rightarrow>
            if \<not> allowTree
            then io_return ((refused_with Policy_violation tree_refusal)\<lparr>mr_before := Some (deletionSnapshot u)\<rparr>, None)
            else io_then (?del True) (\<lambda>_. io_return (deleted_as (deletionSnapshot u) True))
        | _ \<Rightarrow> io_throw err)) (\<lambda>_. ?ok) (\<lambda>_. ?ok)"
  proof (rule triple_catch [where H = "\<lambda>_. ?P"])
    have del: "triple ?P (?del tree) (\<lambda>_. ?P) (\<lambda>_. ?P)" if "tree \<longrightarrow> allowTree" for tree
      by (rule triple_traced_write) (use may that in \<open>auto simp: was_read_def read_in_simps list_ex_iff deletable_when intro!: bexI [of _ target]\<close>)
    show "triple ?P (io_then (?del False) (\<lambda>_. io_return (deleted_as (deletionSnapshot u) False))) (\<lambda>_. ?ok) (\<lambda>_. ?P)"
      by (rule triple_then [OF del triple_return]) (simp_all add: was_read_def)
    have tree: "triple ?P (io_then (?del True) (\<lambda>_. io_return (deleted_as (deletionSnapshot u) True))) (\<lambda>_. ?ok) (\<lambda>_. ?ok)"
      if allowTree
      by (rule triple_then [OF triple_weaken [OF del] triple_return]) (use that in \<open>simp_all add: was_read_def\<close>)
    show "triple ?P (case err of
          Err Not_allowed_on_non_leaf _ _ \<Rightarrow>
            if \<not> allowTree
            then io_return ((refused_with Policy_violation tree_refusal)\<lparr>mr_before := Some (deletionSnapshot u)\<rparr>, None)
            else io_then (?del True) (\<lambda>_. io_return (deleted_as (deletionSnapshot u) True))
        | _ \<Rightarrow> io_throw err) (\<lambda>_. ?ok) (\<lambda>_. ?ok)" for err
      using tree by (auto intro!: triple_return triple_throw dest: was_read_checked split: ldap_err.split err_class.split)
  qed (simp add: was_read_def)
qed (auto simp: was_read_def)

section \<open>One bit\<close>

text \<open>The account control of an entry written back with one flag set or cleared.\<close>

definition flag_write :: "32 word \<Rightarrow> bool \<Rightarrow> entry \<Rightarrow> ldap_write \<Rightarrow> bool" where
  "flag_write flag on e w \<longleftrightarrow>
     (case userAccountControlOf e of
        None \<Rightarrow> False
      | Some old \<Rightarrow>
          (\<exists>n. w = Modify (dn_of e) [accountControlChange n] \<and> - (2 ^ 31) \<le> n \<and> n < 2 ^ 31 \<and> n \<noteq> old
             \<and> (\<forall>i < 32. bit (to_int32 (Some n)) i = (if bit flag i then on else bit (to_int32 (Some old)) i))))"

lemma next_uac_bits:
  assumes "i < 32"
  shows "bit (to_int32 (Some (next_uac w old))) i = (if bit (cw_flag w) i then cw_on w else bit (to_int32 (Some old)) i)"
  using assms by (simp add: next_uac_def to_int32_def bit_simps)

lemma next_uac_range: "- (2 ^ 31) \<le> next_uac w old" "next_uac w old < 2 ^ 31"
  using sint_ge [where 'a = 32] sint_lt [where 'a = 32] by (simp_all add: next_uac_def)

lemma flag_write_next:
  assumes "userAccountControlOf e = Some old" "next_uac w old \<noteq> old"
  shows "flag_write (cw_flag w) (cw_on w) e (Modify (dn_of e) [accountControlChange (next_uac w old)])"
  unfolding flag_write_def option.case assms(1)
  by (intro exI [of _ "next_uac w old"] conjI allI impI next_uac_range next_uac_bits assms(2)) (rule refl, assumption)

text \<open>
  Enabling, disabling and the other flags of an account write the account control just read with that
  one flag set or cleared and no other bit changed, as a signed number of 32 bits; and only when this
  changes it.
\<close>

theorem a_flag_write_changes_one_bit:
  "checked (flag_write (cw_flag w) (cw_on w)) (trace_of (\<lambda>connect. setAccountControlFlag connect p kind i ctx w) connect d)"
  unfolding setAccountControlFlag_def Let_def
  by (intro checked_found triple_find_account; unfold traced_writes;
      intro triple_option triple_if triple_return triple_write_then stays_rules reading.stays_reads)
    (auto simp: was_read_def flag_write_next)

end
