(* ===== verification/AdObjectClaims.thy ===== *)
theory AdObjectClaims
  imports AdTraces
begin

text \<open>
  What creating and renaming a user come to: the steps of a creation run in order and stop at the first
  that fails, an account is not enabled before it has its password, a rename that fails half way is
  taken back; that the members of a large group are all read; and where a write that was done is
  reported as failed.
\<close>

unbundle bit_operations_syntax

section \<open>What calls give\<close>

text \<open>Every value \<open>m\<close> gives is one of \<open>Q\<close>.\<close>

definition gives :: "('a \<Rightarrow> bool) \<Rightarrow> ('d, 'a) io \<Rightarrow> bool" where
  "gives Q m \<longleftrightarrow> (\<forall>d x d'. m d = (Gave x, d') \<longrightarrow> Q x)"

lemma givesD: "gives Q m \<Longrightarrow> m d = (Gave x, d') \<Longrightarrow> Q x"
  unfolding gives_def by blast

lemma gives_return: "Q x \<Longrightarrow> gives Q (io_return x)"
  by (simp add: gives_def io_return_def)

lemma gives_throw: "gives Q (io_throw e)"
  by (simp add: gives_def io_throw_def)

lemma gives_then: "(\<And>x. gives Q (f x)) \<Longrightarrow> gives Q (io_then m f)"
  unfolding gives_def by (auto simp: io_then_def split: prod.splits outcome.splits)

lemma gives_then_of: "gives R m \<Longrightarrow> (\<And>x. R x \<Longrightarrow> gives Q (f x)) \<Longrightarrow> gives Q (io_then m f)"
  unfolding gives_def by (simp add: io_then_def split: prod.splits outcome.splits) metis

lemma gives_weaken: "gives R m \<Longrightarrow> (\<And>x. R x \<Longrightarrow> Q x) \<Longrightarrow> gives Q m"
  unfolding gives_def by blast

lemma gives_catch: "gives Q m \<Longrightarrow> (\<And>e. gives Q (h e)) \<Longrightarrow> gives Q (io_catch m h)"
  unfolding gives_def by (auto simp: io_catch_def split: prod.splits outcome.splits)

lemma gives_if: "(b \<Longrightarrow> gives Q m) \<Longrightarrow> (\<not> b \<Longrightarrow> gives Q n) \<Longrightarrow> gives Q (if b then m else n)"
  by simp

lemma gives_option: "(x = None \<Longrightarrow> gives Q m) \<Longrightarrow> (\<And>y. x = Some y \<Longrightarrow> gives Q (f y)) \<Longrightarrow> gives Q (case x of None \<Rightarrow> m | Some y \<Rightarrow> f y)"
  by (cases x) simp_all

lemmas gives_rules = gives_return gives_throw gives_catch gives_if gives_option gives_then

lemma gives_servers_at:
  fixes fn :: "'d conn \<Rightarrow> ('d, 'a) io"
  assumes "\<And>url. url \<in> set (cc_ldapUrls config) \<Longrightarrow> gives Q (fn (connect url))"
  shows "gives Q (withFailover connect config fn)"
  unfolding gives_def
proof (intro allI impI)
  fix d x d'
  have step: "gives Q (io_then m (\<lambda>_. fn (connect url)))" if "url \<in> set (cc_ldapUrls config)" for m url
    by (intro gives_then assms that)
  have "Q x" if "try_servers connect mode fn urls failures d = (Gave x, d')" "set urls \<subseteq> set (cc_ldapUrls config)"
    for mode urls failures d
    using that
  proof (induction urls arbitrary: failures d)
    case (Cons url urls)
    then show ?case
      by (auto simp: Let_def split: prod.splits outcome.splits dest: givesD [OF step])
  qed simp
  then show "withFailover connect config fn d = (Gave x, d') \<Longrightarrow> Q x" by (simp add: withFailover_def)
qed

lemma gives_servers: "(\<And>client. gives Q (fn client)) \<Longrightarrow> gives Q (withFailover connect config fn)"
  by (rule gives_servers_at)

lemma gives_asOperator:
  fixes fn :: "'d conn \<Rightarrow> ('d, 'a) io"
  assumes "\<And>client. gives Q (fn client)" "\<And>reason m. Q (failed (refused_with reason m))"
  shows "gives Q (asOperator connect p ctx failed fn)"
  unfolding asOperator_def
proof (rule gives_catch, rule gives_servers)
  fix client :: "'d conn"
  let ?bind = "io_catch (io_then (cn_bind client (wc_actorUsername ctx) (wc_actorPassword ctx)) (\<lambda>_. io_return None))
      (\<lambda>err. if isDirectoryUnreachable err then io_throw err
             else io_return (Some (refused_with Permission_denied ''step-up bind failed'')))"
  have "gives (\<lambda>r. r = None \<or> (\<exists>reason m. r = Some (refused_with reason m))) ?bind"
    by (intro gives_rules) auto
  then show "gives Q (io_then ?bind (\<lambda>refused. case refused of Some r \<Rightarrow> io_return (failed r) | None \<Rightarrow> fn client))"
    by (rule gives_then_of) (auto intro!: gives_return assms)
next
  show "gives Q (case e of Err Directory_unavailable _ m \<Rightarrow> io_return (failed (refused_with Directory_error m))
      | _ \<Rightarrow> io_throw e)" for e
    by (auto intro: gives_return gives_throw assms split: ldap_err.split err_class.split)
qed

section \<open>Creating a user, step by step\<close>

text \<open>The steps that were run, in order, and where they stopped.\<close>

definition ran_to :: "create_step list \<Rightarrow> create_step list \<Rightarrow> create_result \<Rightarrow> bool" where
  "ran_to before steps r \<longleftrightarrow>
     (\<exists>n \<le> length steps. cr_completed r = before @ take n steps
        \<and> mr_ok (cr_result r) = (n = length steps)
        \<and> cr_failedStep r = (if n < length steps then Some (steps ! n) else None))"

lemma gives_left_as:
  assumes "\<And>u f. Q (r\<lparr>cr_user := u, cr_fingerprint := f\<rparr>)"
  shows "gives Q (left_as p client dn r)"
  unfolding left_as_def by (intro gives_rules assms)

lemma refused_not_ok [simp]:
  "\<not> mr_ok (refused_with reason m)" "\<not> mr_ok (classifyWriteError e)" "\<not> mr_ok (classifyPasswordError e)"
  by (simp_all add: refused_with_def classifyWriteError_def classifyPasswordError_def Let_def split: ldap_err.split)

lemma ran_to_simps:
  "ran_to before steps (r\<lparr>cr_user := u, cr_fingerprint := f\<rparr>) = ran_to before steps r"
  by (simp add: ran_to_def)

lemma ran_to_done:
  "ran_to before [] ((not_created plain_ok)\<lparr>cr_completed := before, cr_groups := g\<rparr>)"
  by (simp add: ran_to_def not_created_def plain_ok_def)

lemma ran_to_failed:
  "\<not> mr_ok m \<Longrightarrow> ran_to before (step # steps)
     ((not_created m)\<lparr>cr_completed := before, cr_failedStep := Some step, cr_groups := g\<rparr>)"
  by (auto simp: ran_to_def not_created_def intro: exI [of _ 0])

lemma ran_to_Cons: "ran_to (before @ [step]) steps r \<Longrightarrow> ran_to before (step # steps) r"
  unfolding ran_to_def by (elim exE conjE, rule_tac x = "Suc n" in exI) simp

lemma gives_steps:
  "distinct steps \<Longrightarrow> set steps \<inter> set completed = {} \<Longrightarrow>
     gives (ran_to completed steps) (runCreateSteps p client dn completed steps finish joined)"
proof (induction steps arbitrary: completed joined)
  case Nil
  then show ?case by (simp add: gives_left_as ran_to_simps ran_to_done)
next
  case (Cons step steps)
  have later: "gives (ran_to completed (step # steps)) (runCreateSteps p client dn (completed @ [step]) steps finish j)" for j
    using Cons.IH [of "completed @ [step]" j] Cons.prems by (auto simp: gives_def intro: ran_to_Cons)
  have fresh: "(step \<in> set completed) = False" using Cons.prems by simp
  show ?case
    unfolding runCreateSteps.simps fresh if_False
    by (intro gives_rules later gives_left_as; simp add: ran_to_simps ran_to_failed groups_failure_def)
qed

lemma ran_to_not_created:
  "\<not> mr_ok m \<Longrightarrow> cr_completed (not_created m) = [] \<and> cr_failedStep (not_created m) = None \<and> \<not> mr_ok (cr_result (not_created m))"
  by (simp add: not_created_def)

text \<open>
  Where a call left the creation: \<open>n\<close> of the planned steps are done, \<open>before\<close> among them, and the step
  that failed, if the call got as far as running one, is the next.
\<close>

definition reached :: "create_step list \<Rightarrow> create_step list \<Rightarrow> nat \<Rightarrow> create_result \<Rightarrow> bool" where
  "reached planned before n r \<longleftrightarrow>
     n \<le> length planned \<and> before @ cr_completed r = take n planned
     \<and> (mr_ok (cr_result r) \<longrightarrow> n = length planned \<and> cr_failedStep r = None)
     \<and> (case cr_failedStep r of None \<Rightarrow> True | Some s \<Rightarrow> n < length planned \<and> s = planned ! n)"

lemma reached_not_created:
  "\<not> mr_ok m \<Longrightarrow> n \<le> length planned \<Longrightarrow> reached planned (take n planned) n (not_created m)"
  by (simp add: reached_def not_created_def)

lemma reached_ran:
  assumes "ran_to before steps r" "planned = pre @ before @ steps"
  shows "\<exists>n. length pre \<le> n \<and> reached planned pre n r"
proof -
  from assms(1) obtain n where n: "n \<le> length steps" "cr_completed r = before @ take n steps"
      "mr_ok (cr_result r) = (n = length steps)" "cr_failedStep r = (if n < length steps then Some (steps ! n) else None)"
    by (auto simp: ran_to_def)
  have "reached planned pre (length pre + length before + n) r"
    unfolding reached_def using n assms(2) by (simp add: nth_append)
  then show ?thesis by (intro exI [of _ "length pre + length before + n"]) simp
qed

lemma planned_parts: "distinct (plannedSteps enabled withGroups)" "\<exists>rest. plannedSteps enabled withGroups = Step_create # rest"
  by (cases enabled; cases withGroups; simp add: plannedSteps_def USER_CREATE_STEPS_def)+

lemma remaining_after: "distinct planned \<Longrightarrow> remainingSteps planned (take n planned) = drop n planned"
proof -
  assume "distinct planned"
  then have "filter (\<lambda>s. s \<notin> set (take n planned)) (drop n planned) = drop n planned"
    using set_take_disj_set_drop_if_distinct [of planned n n] by (intro filter_True) auto
  moreover have "filter (\<lambda>s. s \<notin> set (take n planned)) planned =
      filter (\<lambda>s. s \<notin> set (take n planned)) (take n planned) @ filter (\<lambda>s. s \<notin> set (take n planned)) (drop n planned)"
    by (metis append_take_drop_id filter_append)
  ultimately show ?thesis by (simp add: remainingSteps_def)
qed

lemma steps_skip: "runCreateSteps p client dn [s] (s # steps) finish joined = runCreateSteps p client dn [s] steps finish joined"
  by simp

lemma createUser_reached:
  "gives (\<lambda>r. \<exists>n. reached (plannedSteps enabled withGroups) [] n r)
     (createUser connect p input (plannedSteps enabled withGroups) finish ctx)"
proof -
  let ?planned = "plannedSteps enabled withGroups"
  let ?Q = "\<lambda>r. \<exists>n. reached ?planned [] n r"
  have none: "?Q (not_created m)" if "\<not> mr_ok m" for m
    using reached_not_created [OF that, of 0 ?planned] by auto
  obtain rest where rest: "?planned = Step_create # rest" using planned_parts(2) by blast
  then have "gives (ran_to [Step_create] rest) (runCreateSteps p client (ci_dn input) [Step_create] ?planned finish None)"
    for client :: "'a conn"
    unfolding rest steps_skip by (intro gives_steps) (use planned_parts(1) [of enabled withGroups] rest in auto)
  then have "gives ?Q (runCreateSteps p client (ci_dn input) [Step_create] ?planned finish None)" for client :: "'a conn"
    by (rule gives_weaken) (use reached_ran [of "[Step_create]" rest _ ?planned "[]"] rest in auto)
  then show ?thesis
    unfolding createUser_def by (intro gives_asOperator gives_rules none) simp_all
qed

lemma finishUser_reached:
  assumes "n \<le> length planned" "distinct planned"
  shows "gives (\<lambda>r. \<exists>m \<ge> n. reached planned (take n planned) m r)
     (finishUserCreate connect p i (drop n planned) finish ctx)"
proof -
  let ?Q = "\<lambda>r. \<exists>m \<ge> n. reached planned (take n planned) m r"
  have none: "?Q (not_created m)" if "\<not> mr_ok m" for m
    using reached_not_created [OF that assms(1)] by auto
  have "gives (ran_to [] (drop n planned)) (runCreateSteps p client dn [] (drop n planned) finish None)"
    for client :: "'a conn" and dn
    by (intro gives_steps) (simp_all add: assms(2))
  then have "gives ?Q (runCreateSteps p client dn [] (drop n planned) finish None)" for client :: "'a conn" and dn
    by (rule gives_weaken) (use reached_ran [of "[]" "drop n planned" _ planned "take n planned"] assms(1) in simp)
  then show ?thesis
    unfolding finishUserCreate_def by (intro gives_asOperator gives_rules none) simp_all
qed


section \<open>The password before the account is enabled\<close>

definition enables :: "ldap_write \<Rightarrow> bool" where
  "enables w \<longleftrightarrow> (case w of Modify _ cs \<Rightarrow> cs = [accountControlChange (sint UAC_NORMAL_ACCOUNT)] | _ \<Rightarrow> False)"

text \<open>An accepted write of a password to \<open>dn\<close> on the server.\<close>

definition sets_password :: "string \<Rightarrow> string \<Rightarrow> event \<Rightarrow> bool" where
  "sets_password url dn e \<longleftrightarrow>
     (case e of Wrote u (Modify dn' (c # _)) Accepted \<Rightarrow> u = url \<and> dn' = dn \<and> ch_type c = ''unicodePwd'' | _ \<Rightarrow> False)"

text \<open>Each write that enables an account comes after one that set its password, on the same server.\<close>

fun password_first :: "trace \<Rightarrow> bool" where
  "password_first [] \<longleftrightarrow> True"
| "password_first (Searched q es # t) \<longleftrightarrow> password_first t"
| "password_first (Wrote url w b # t) \<longleftrightarrow>
     (enables w \<longrightarrow> (case w of Modify dn _ \<Rightarrow> list_ex (sets_password url dn) t | _ \<Rightarrow> True)) \<and> password_first t"

definition has_password :: "string \<Rightarrow> string \<Rightarrow> trace \<Rightarrow> bool" where
  "has_password url dn t \<longleftrightarrow> password_first t \<and> list_ex (sets_password url dn) t"

interpretation passwords: kept_by_searches password_first
  by unfold_locales simp

interpretation with_password: kept_by_searches "has_password url dn" for url dn
  by unfold_locales (simp add: has_password_def sets_password_def)

lemma stays_enable: "stays (has_password url dn) (traced_write url (Modify dn cs) m)"
  unfolding stays_def by (rule triple_traced_write) (simp_all add: has_password_def)

lemma member_not_enabling [simp]: "\<not> enables (Modify dn [\<lparr>ch_operation = c, ch_type = ''member'', ch_values = vs\<rparr>])"
  by (simp add: enables_def accountControlChange_def replace_with_def)

lemma stays_join: "stays (has_password url dn) (addToGroups (traced url c) dn dns acc)"
proof (induction dns arbitrary: acc)
  case (Cons g dns)
  have w: "stays (has_password url dn)
      (traced_write url (Modify g [\<lparr>ch_operation = op, ch_type = ''member'', ch_values = vs\<rparr>]) m)" for op vs m
    unfolding stays_def by (rule triple_traced_write) (simp_all add: has_password_def)
  show ?case
    unfolding addToGroups.simps setMember_def traced_writes Let_def
    by (intro stays_rules with_password.stays_reads w Cons)
qed (simp add: stays_return)

lemma stays_later_steps:
  "set steps \<subseteq> {Step_groups, Step_enable} \<Longrightarrow>
     stays (has_password url dn) (runCreateSteps p (traced url c) dn completed steps finish joined)"
proof (induction steps arbitrary: completed joined)
  case (Cons step steps)
  then have "stays (has_password url dn) (step_write (traced url c) dn finish step)"
    by (auto simp: step_write_def stays_enable stays_return split: create_step.split)
  with Cons show ?case
    unfolding runCreateSteps.simps by (intro stays_rules stays_join with_password.stays_reads; simp)
qed (simp add: with_password.stays_left_as)


section \<open>Taking a rename back\<close>

text \<open>The writes of a trace in the order they were tried, with what came of each.\<close>

definition writes :: "trace \<Rightarrow> (ldap_write \<times> answer) list" where
  "writes t = rev (List.map_filter (\<lambda>e. case e of Wrote _ w a \<Rightarrow> Some (w, a) | _ \<Rightarrow> None) t)"

lemma writes_simps [simp]:
  "writes [] = []" "writes (Searched q es # t) = writes t" "writes (Wrote url w a # t) = writes t @ [(w, a)]"
  by (simp_all add: writes_def List.map_filter_simps)

interpretation so_far: kept_by_searches "\<lambda>t. writes t = ws" for ws
  by unfold_locales simp

text \<open>
  What a rename writes: nothing, or one write; or the new name and then, under the new name, the
  attributes; and when those are refused, the old name again.
\<close>

definition rename_writes :: "(ldap_write \<times> answer) list \<Rightarrow> bool" where
  "rename_writes ws \<longleftrightarrow>
     ws = [] \<or> (\<exists>dn cs a. ws = [(Modify dn cs, a)]) \<or> (\<exists>old rdn a. ws = [(Modify_dn old rdn, a)])
     \<or> (\<exists>old rdn new cs. new = rdn @ '','' @ or_null_text (parentDn old)
          \<and> ((\<exists>a. a \<noteq> Refused \<and> ws = [(Modify_dn old rdn, Accepted), (Modify new cs, a)])
             \<or> (\<exists>a. ws = [(Modify_dn old rdn, Accepted), (Modify new cs, Refused), (Modify_dn new (leafRdn old), a)])))"

lemma rename_writes_ok:
  "rename_writes []" "rename_writes [(Modify dn cs, a)]" "rename_writes [(Modify_dn old rdn, a)]"
  "a \<noteq> Refused \<Longrightarrow>
    rename_writes [(Modify_dn old rdn, Accepted), (Modify (rdn @ '','' @ or_null_text (parentDn old)) cs, a)]"
  "rename_writes [(Modify_dn old rdn, Accepted), (Modify (rdn @ '','' @ or_null_text (parentDn old)) cs, Refused),
     (Modify_dn (rdn @ '','' @ or_null_text (parentDn old)) (leafRdn old), a)]"
  by (simp_all add: rename_writes_def)

interpretation renaming: kept_by_searches "\<lambda>t. rename_writes (writes t)"
  by unfold_locales simp

lemma triple_pre: "(A \<Longrightarrow> triple P m G E) \<Longrightarrow> triple (\<lambda>t. A \<and> P t) m G E"
  by (cases A) (simp_all add: triple_def)

lemma rename_rest:
  fixes c :: "'d conn"
  assumes old: "du_distinguishedName user = old"
  shows "triple (\<lambda>t. writes t = [])
     (io_then
       (case rpl_newCn plan of
          None \<Rightarrow> io_return old
        | Some cn \<Rightarrow>
            let newRdn = ''CN='' @ escapeRdnValueRfc cn
            in io_then (cn_modifyDN (traced url c) old newRdn)
                 (\<lambda>_. io_return (newRdn @ '','' @ or_null_text (parentDn old)))) (\<lambda>dn.
     io_then
       (if rename_changes plan = [] then io_return None
        else io_catch (io_then (cn_modify (traced url c) dn (rename_changes plan) False) (\<lambda>_. io_return None))
          (\<lambda>err. if rpl_newCn plan \<noteq> None
                 then io_then (io_catch (io_then (cn_modifyDN (traced url c) dn (leafRdn old)) (\<lambda>_. io_return True))
                                (\<lambda>_. io_return False))
                        (\<lambda>rolledBack. io_return (Some (rename_failure err rolledBack dn)))
                 else io_throw err)) (\<lambda>failed.
     case failed of
       Some r \<Rightarrow> io_return r
     | None \<Rightarrow> io_then (read_again normalizeUser (findUserEntry p (traced url c) i USER_ATTRS_FULL)) (\<lambda>after. io_return (g after)))))
     (\<lambda>_ t. rename_writes (writes t)) (\<lambda>_ t. rename_writes (writes t))"
proof -
  let ?Q = "\<lambda>t. rename_writes (writes t)"
  let ?reread = "\<lambda>failed. case failed of
      Some r \<Rightarrow> io_return r
    | None \<Rightarrow> io_then (read_again normalizeUser (findUserEntry p (traced url c) i USER_ATTRS_FULL)) (\<lambda>after. io_return (g after))"
  have reread: "triple ?Q (?reread failed) (\<lambda>_. ?Q) (\<lambda>_. ?Q)" for failed
    by (rule staysD) (intro stays_rules renaming.stays_reads)
  show ?thesis
  proof (cases "rpl_newCn plan")
    case None
    have "triple (\<lambda>t. writes t = []) (cn_modify (traced url c) dn (rename_changes plan) False) (\<lambda>_. ?Q) (\<lambda>_. ?Q)" for dn
      unfolding traced_writes by (rule triple_traced_write) (simp_all add: rename_writes_ok)
    then show ?thesis
      unfolding None option.case
      by (intro triple_then [where R = "\<lambda>_ t. writes t = []", OF triple_return] triple_then [OF _ reread]
          triple_if triple_catch [where H = "\<lambda>_. ?Q"] triple_then [where R = "\<lambda>_. ?Q"] triple_return triple_throw)
        (simp_all add: rename_writes_ok)
  next
    case (Some cn)
    define rdn where "rdn = ''CN='' @ escapeRdnValueRfc cn"
    define new where "new = rdn @ '','' @ or_null_text (parentDn old)"
    let ?moved = "\<lambda>t. writes t = [(Modify_dn old rdn, Accepted)]"
    let ?half = "\<lambda>e t. case e of
        Some _ \<Rightarrow> writes t = [(Modify_dn old rdn, Accepted), (Modify new (rename_changes plan), Refused)]
      | None \<Rightarrow> ?Q t"
    have move: "triple (\<lambda>t. writes t = []) (io_then (cn_modifyDN (traced url c) old rdn) (\<lambda>_. io_return new))
        (\<lambda>x t. x = new \<and> ?moved t) (\<lambda>_. ?Q)"
      unfolding traced_writes
      by (intro triple_then [where R = "\<lambda>_. ?moved"] triple_traced_write triple_return) (simp_all add: rename_writes_ok)
    have modify: "triple ?moved (cn_modify (traced url c) new (rename_changes plan) False) (\<lambda>_. ?Q) ?half"
      unfolding traced_writes by (rule triple_traced_write) (simp_all add: new_def rename_writes_ok [simplified])
    have undo: "triple (?half (Some e)) (io_then (io_catch (io_then (cn_modifyDN (traced url c) new (leafRdn old)) (\<lambda>_. io_return True))
          (\<lambda>_. io_return False)) (\<lambda>rolledBack. io_return (Some (rename_failure err rolledBack new)))) (\<lambda>_. ?Q) (\<lambda>_. ?Q)" for e err
      unfolding traced_writes
      by (intro triple_then [where R = "\<lambda>_. ?Q"] triple_catch [where H = "\<lambda>_. ?Q"] triple_traced_write triple_return)
        (simp_all add: new_def rename_writes_ok [simplified])
    have changed: "triple ?moved
       (if rename_changes plan = [] then io_return None
        else io_catch (io_then (cn_modify (traced url c) new (rename_changes plan) False) (\<lambda>_. io_return None))
          (\<lambda>err. io_then (io_catch (io_then (cn_modifyDN (traced url c) new (leafRdn old)) (\<lambda>_. io_return True))
                           (\<lambda>_. io_return False))
                   (\<lambda>rolledBack. io_return (Some (rename_failure err rolledBack new)))))
       (\<lambda>_. ?Q) (\<lambda>_. ?Q)"
      by (intro triple_if triple_catch [OF triple_then [OF modify triple_return] undo] triple_return)
        (simp_all add: rename_writes_ok)
    have some: "(Some cn \<noteq> None) = True" by simp
    show ?thesis
      unfolding Some option.case Let_def rdn_def [symmetric] new_def [symmetric] some if_True
      by (rule triple_then [OF move], rule triple_pre, hypsubst, rule triple_then [OF changed reread])
  qed
qed


section \<open>All the members of a large group\<close>

text \<open>
  A server that gives at most \<open>k\<close> members at a time: a page of them from \<open>start\<close> on, under the key the
  directory gives a range, with \<open>*\<close> when it is the last.
\<close>

definition range_key :: "nat \<Rightarrow> 'a list \<Rightarrow> nat \<Rightarrow> string" where
  "range_key k vs start =
     ''member;range='' @ dec_nat start @ ''-''
     @ (if start + k \<ge> length vs then ''*'' else dec_nat (start + k - 1))"

definition range_end :: "nat \<Rightarrow> 'a list \<Rightarrow> nat \<Rightarrow> nat option" where
  "range_end k vs start = (if start + k \<ge> length vs then None else Some (start + k - 1))"

definition range_page :: "nat \<Rightarrow> string \<Rightarrow> ldap_elem list \<Rightarrow> nat \<Rightarrow> entry" where
  "range_page k dn vs start =
     \<lparr>en_dn = dn, en_attrs = [(range_key k vs start, Many (take k (drop start vs)))]\<rparr>"

lemma ranged_member_of:
  "ranged_member (''member;range='' @ dec_nat a @ CHR ''-'' # e) =
     (if e = ''*'' then Some (a, None)
      else if e \<noteq> [] \<and> list_all is_digit e then Some (a, Some (digits_value e)) else None)"
proof -
  have split: "takeWhile is_digit (dec_nat a @ CHR ''-'' # e) = dec_nat a" "dropWhile is_digit (dec_nat a @ CHR ''-'' # e) = CHR ''-'' # e"
    using dec_nat_digits [of a] by (simp_all add: list_all_iff is_digit_def)
  have lower: "to_lower ''member;range='' = ''member;range=''" by code_simp
  have parts: "take 13 (''member;range='' @ x) = ''member;range=''" "drop 13 (''member;range='' @ x) = x" for x
    by simp_all
  show ?thesis
    unfolding ranged_member_def parts lower Let_def split by (simp add: dec_nat_nonempty digits_value_dec_nat)
qed

lemma ranged_member_key: "ranged_member (range_key k vs start) = Some (start, range_end k vs start)"
proof -
  have "dec_nat n \<noteq> ''*''" for n
  proof
    assume "dec_nat n = ''*''"
    with dec_nat_digits [of n] show False by (simp add: is_digit_def)
  qed
  then show ?thesis
    using ranged_member_of [of start] dec_nat_digits
    by (simp add: range_key_def range_end_def dec_nat_nonempty digits_value_dec_nat)
qed

definition range_query :: "string \<Rightarrow> nat \<Rightarrow> search" where
  "range_query dn start =
     \<lparr>sr_base = dn, sr_scope = Scope_base, sr_filter = Filter_text ''(objectClass=*)'',
      sr_attributes = [''member;range='' @ dec_nat start @ ''-*''], sr_deleted = False\<rparr>"

definition serves_ranges :: "'d conn \<Rightarrow> string \<Rightarrow> nat \<Rightarrow> ldap_elem list \<Rightarrow> bool" where
  "serves_ranges client dn k vs \<longleftrightarrow>
     (\<forall>start d. \<exists>d'. cn_search client (range_query dn start) d = (Gave [range_page k dn vs start], d'))"

lemma ranged_key_page: "ranged_key (range_page k dn vs start) = Some (range_key k vs start, range_end k vs start)"
proof -
  have "ranged_member ''dn'' = None" by code_simp
  then show ?thesis by (simp add: ranged_key_def range_page_def ranged_member_key List.map_filter_simps)
qed

lemma more_members_served:
  assumes served: "serves_ranges client dn k vs" and k: "0 < k"
  shows "0 < n \<Longrightarrow> n < length vs \<Longrightarrow> length vs \<le> fuel + n \<Longrightarrow>
    \<exists>d'. more_members fuel client dn (take n vs) (Some (n - 1)) d = (Gave vs, d')"
proof (induction fuel arbitrary: n d)
  case (Suc fuel)
  obtain d' where page: "cn_search client (range_query dn n) d = (Gave [range_page k dn vs n], d')"
    using served unfolding serves_ranges_def by blast
  have all: "take n vs @ valuesOf (attr (range_page k dn vs n) (range_key k vs n)) = take (n + k) vs"
    by (simp add: range_page_def valuesOf_def take_add)
  have next_start: "\<not> n + k - Suc 0 < n" using k by simp
  have step: "more_members (Suc fuel) client dn (take n vs) (Some (n - 1)) d =
      more_members fuel client dn (take (n + k) vs) (range_end k vs n) d'"
    using page Suc.prems(1) k all next_start
    by (simp add: io_then_def range_query_def ranged_key_page range_end_def Let_def)
  show ?case
  proof (cases "length vs \<le> n + k")
    case True
    then show ?thesis unfolding step by (simp add: range_end_def)
  next
    case False
    then show ?thesis
      unfolding step using Suc.IH [of "n + k" d'] Suc.prems k by (simp add: range_end_def)
  qed
qed simp


text \<open>A server of three members, two at a time.\<close>

definition ex_members :: "ldap_elem list" where
  "ex_members = [Text ''CN=a'', Text ''CN=b'', Text ''CN=c'']"

definition ex_refusal :: ldap_err where
  "ex_refusal = Err Unwilling_to_perform None ''refused''"

definition ex_conn :: "(search \<Rightarrow> entry list) \<Rightarrow> unit conn" where
  "ex_conn answer =
     \<lparr>cn_startTLS = io_return (), cn_bind = (\<lambda>_ _. io_return ()), cn_search = (\<lambda>q. io_return (answer q)),
      cn_modify = (\<lambda>_ _ _. io_throw ex_refusal), cn_modifyDN = (\<lambda>_ _. io_throw ex_refusal),
      cn_add = (\<lambda>_ _. io_return ()), cn_del = (\<lambda>_ _. io_throw ex_refusal)\<rparr>"

definition ex_pages :: "search \<Rightarrow> entry list" where
  "ex_pages q =
     (case Option.bind (first_of (sr_attributes q)) ranged_member of
        None \<Rightarrow> [] | Some (start, _) \<Rightarrow> [range_page 2 ''CN=g'' ex_members start])"

lemma ex_serves: "serves_ranges (ex_conn ex_pages) ''CN=g'' 2 ex_members"
proof -
  have "ranged_member (''member;range='' @ dec_nat start @ ''-*'') = Some (start, None)" for start
    using ranged_member_of [of start "''*''"] by simp
  then show ?thesis
    by (simp add: serves_ranges_def ex_conn_def ex_pages_def range_query_def first_of_def io_return_def)
qed


text \<open>\<open>client\<close> answers every search, and no range it gives ends at \<open>N\<close> or later.\<close>

definition ranges_below :: "nat \<Rightarrow> 'd conn \<Rightarrow> bool" where
  "ranges_below N client \<longleftrightarrow>
     (\<forall>q d. case cn_search client q d of
        (Unfinished, _) \<Rightarrow> False
      | (Threw _, _) \<Rightarrow> True
      | (Gave pages, _) \<Rightarrow>
          list_all (\<lambda>page. case ranged_key page of Some (_, Some n) \<Rightarrow> n < N | _ \<Rightarrow> True) pages)"

lemma more_members_ends:
  assumes below: "ranges_below N client"
  shows "0 < fuel \<Longrightarrow> N \<le> fuel + m \<Longrightarrow> fst (more_members fuel client dn members (Some m) d) \<noteq> Unfinished"
proof (induction fuel arbitrary: members m d)
  case (Suc fuel)
  obtain r d' where page: "cn_search client (range_query dn (m + 1)) d = (r, d')" by fastforce
  with below have ok: "case r of Unfinished \<Rightarrow> False | Threw _ \<Rightarrow> True
      | Gave pages \<Rightarrow> list_all (\<lambda>page. case ranged_key page of Some (_, Some n) \<Rightarrow> n < N | _ \<Rightarrow> True) pages"
    unfolding ranges_below_def by (metis (no_types, lifting) case_prod_conv)
  show ?case
  proof (cases r)
    case (Gave pages)
    show ?thesis
    proof (cases pages)
      case Nil
      then show ?thesis using page Gave by (simp add: io_then_def io_return_def range_query_def)
    next
      case (Cons p ps)
      show ?thesis
      proof (cases "ranged_key p")
        case None
        then show ?thesis using page Gave Cons by (simp add: io_then_def io_return_def range_query_def)
      next
        case (Some kt)
        obtain key til where kt: "kt = (key, til)" by (cases kt)
        have later: "fst (more_members fuel client dn ms (Some n) d') \<noteq> Unfinished" if "til = Some n" "\<not> n < m + 1" for ms n
        proof (rule Suc.IH)
          from ok Gave Cons Some kt that(1) have "n < N" by simp
          with Suc.prems that(2) show "0 < fuel" "N \<le> fuel + n" by simp_all
        qed
        show ?thesis
          using page Gave Cons Some kt later
          by (cases til) (simp_all add: io_then_def io_return_def range_query_def Let_def)
      qed
    qed
  qed (use page ok in \<open>simp_all add: io_then_def range_query_def\<close>)
qed simp

text \<open>
  C30. Reading the members of a group ends, whatever the server sends: every round asks for a later
  member than the one before and stops when the range sent doesn't go on, so with the ranges of a
  server below some bound, as many rounds are enough.
\<close>

theorem reading_members_ends:
  assumes "ranges_below N client" "N < fuel"
  shows "fst (withAllMembers fuel client e d) \<noteq> Unfinished"
proof -
  have "fst (more_members fuel client dn members til d) \<noteq> Unfinished" for dn members til
    using more_members_ends [OF assms(1), of fuel] assms(2) by (cases til) simp_all
  then show ?thesis
    by (auto simp: withAllMembers_def io_then_def io_return_def split: option.split prod.split outcome.split)
      (metis fst_conv)+
qed

theorem reading_members_ends_witness:
  "fst (withAllMembers 3 (ex_conn ex_pages) (range_page 2 ''CN=g'' ex_members 0) ()) \<noteq> Unfinished"
proof (rule reading_members_ends)
  show "ranges_below 2 (ex_conn ex_pages)"
    by (auto simp: ranges_below_def ex_conn_def ex_pages_def io_return_def ranged_key_page range_end_def ex_members_def
        split: option.split)
qed simp

section \<open>A write that was done and is reported as failed\<close>

text \<open>
  The operator's sign-in succeeds, the user is found, every change to them is accepted, and then the
  directory fails the search that reads them again.
\<close>

definition breaks_after_write :: "'d conn \<Rightarrow> provider_config \<Rightarrow> write_context \<Rightarrow> string \<Rightarrow> directory_user \<Rightarrow> ldap_err \<Rightarrow> 'd \<Rightarrow> 'd \<Rightarrow> bool" where
  "breaks_after_write c p ctx dn u err d d' \<longleftrightarrow>
     (let q = \<lparr>sr_base = pc_baseDn p, sr_scope = Scope_sub, sr_filter = filter_for USER_FILTER_BASE ''distinguishedName'' dn,
               sr_attributes = USER_ATTRS, sr_deleted = False\<rparr>
      in \<exists>d1 d2 d3 e es. cn_bind c (wc_actorUsername ctx) (wc_actorPassword ctx) d = (Gave (), d1)
           \<and> cn_search c q d1 = (Gave (e # es), d2) \<and> normalizeUser e = Inr u
           \<and> (\<forall>changes. cn_modify c (du_distinguishedName u) changes False d2 = (Gave (), d3))
           \<and> cn_search c q d3 = (Threw err, d'))"

lemma one_server:
  assumes "pc_client p = \<lparr>cc_ldapUrls = [url], cc_tlsMode = Mode_ldaps\<rparr>"
    and "cn_bind (connect url) (wc_actorUsername ctx) (wc_actorPassword ctx) d = (Gave (), d1)" "fn (connect url) d1 = (Gave r, d')"
  shows "asOperator connect p ctx failed fn d = (Gave r, d')"
  using assms by (simp add: asOperator_def withFailover_def transportFor_def Let_def io_catch_def io_then_def io_return_def)

lemma breaks_on_user:
  assumes server: "pc_client p = \<lparr>cc_ldapUrls = [url], cc_tlsMode = Mode_ldaps\<rparr>"
    and breaks: "breaks_after_write (connect url) p ctx dn u err d d'"
    and shape: "\<And>client target u. write client target u = io_then (cn_modify client (du_distinguishedName u) changes False)
        (\<lambda>_. io_then (read_again normalizeUser (findUserEntry p client (By_distinguishedName dn) USER_ATTRS)) (g u target))"
  shows "on_user connect p ctx (By_distinguishedName dn) USER_ATTRS classify write d = (Gave (classify err), d')"
proof -
  define q where "q = \<lparr>sr_base = pc_baseDn p, sr_scope = Scope_sub, sr_filter = filter_for USER_FILTER_BASE ''distinguishedName'' dn,
               sr_attributes = USER_ATTRS, sr_deleted = False\<rparr>"
  from breaks obtain d1 d2 d3 e es where run:
    "cn_bind (connect url) (wc_actorUsername ctx) (wc_actorPassword ctx) d = (Gave (), d1)"
    "cn_search (connect url) q d1 = (Gave (e # es), d2)" "normalizeUser e = Inr u"
    "\<And>changes. cn_modify (connect url) (du_distinguishedName u) changes False d2 = (Gave (), d3)"
    "cn_search (connect url) q d3 = (Threw err, d')"
    unfolding breaks_after_write_def Let_def q_def by blast
  have find: "findUserEntry p (connect url) (By_distinguishedName dn) USER_ATTRS x = io_then (cn_search (connect url) q) (\<lambda>es. io_return (first_of es)) x" for x
    by (simp add: findUserEntry_def searchOne_def q_def io_then_def io_return_def)
  show ?thesis
    unfolding on_user_def
  proof (rule one_server [where connect = connect and url = url, OF server run(1)])
    show "io_catch (io_then (findUserEntry p (connect url) (By_distinguishedName dn) USER_ATTRS) (\<lambda>found. case found of
             None \<Rightarrow> io_return (refused_with Not_found ''user not found'')
           | Some target \<Rightarrow> io_then (io_lift (normalizeUser target)) (write (connect url) target)))
         (\<lambda>err. io_return (classify err)) d1 = (Gave (classify err), d')"
      using run by (simp add: io_catch_def io_then_def find first_of_def io_lift_def io_return_def shape read_again_def)
  qed
qed

text \<open>
  A password that was set, an expiry date that was set and a password that must be changed are
  reported as failed, with the error of the search that should have read the user again: the write was
  accepted, the answer says it was refused.
\<close>

theorem done_write_is_reported_as_failed:
  assumes "pc_client p = \<lparr>cc_ldapUrls = [url], cc_tlsMode = Mode_ldaps\<rparr>"
    and "breaks_after_write (connect url) p ctx dn u err d d'"
  shows "resetPassword connect p (By_distinguishedName dn) input ctx d = (Gave (classifyPasswordError err), d')
    \<and> setAccountExpiry connect p (By_distinguishedName dn) expiry ctx d = (Gave (classifyWriteError err), d')
    \<and> setPasswordMustChange connect p (By_distinguishedName dn) must ctx d = (Gave (classifyWriteError err), d')
    \<and> \<not> mr_ok (classifyPasswordError err) \<and> \<not> mr_ok (classifyWriteError err)"
  unfolding resetPassword_def setAccountExpiry_def setPasswordMustChange_def Let_def
  by (intro conjI breaks_on_user [where connect = connect and url = url, OF assms] refl) simp_all

section \<open>Concrete runs\<close>

definition ex_entry :: entry where
  "ex_entry =
     \<lparr>en_dn = ''CN=Ann,DC=x'',
      en_attrs = [(''objectGUID'', One (Blob (replicate 16 0))), (''distinguishedName'', One (Text ''CN=Ann,DC=x''))]\<rparr>"

definition ex_config :: provider_config where
  "ex_config =
     \<lparr>pc_client = \<lparr>cc_ldapUrls = [''ldaps://dc''], cc_tlsMode = Mode_ldaps\<rparr>, pc_baseDn = ''DC=x'',
      pc_serviceAccountUpn = ''svc@x'', pc_serviceAccountPassword = ''s'', pc_fuel = 1\<rparr>"

definition ex_input :: create_input where
  "ex_input =
     \<lparr>ci_dn = ''CN=Ann,DC=x'', ci_cn = ''Ann'', ci_samAccountName = ''ann'', ci_userPrincipalName = ''ann@x'',
      ci_givenName = ''Ann'', ci_surname = ''Lee'', ci_displayName = ''Ann'', ci_mail = None, ci_otherMailbox = None,
      ci_mobile = None, ci_telephoneNumber = None, ci_organisation = [], ci_manager = None, ci_initials = None,
      ci_employeeId = None, ci_description = None, ci_usageLocation = None\<rparr>"

definition ex_finish :: create_finish where
  "ex_finish = \<lparr>cf_password = ''pw'', cf_mustChange = False, cf_groups = []\<rparr>"

definition ex_ctx :: write_context where
  "ex_ctx = \<lparr>wc_actorUserId = ''1'', wc_actorUsername = ''op@x'', wc_actorPassword = ''pw'', wc_correlationId = ''c''\<rparr>"

text \<open>The password is refused; then the account is found and every change accepted.\<close>

definition ex_refusing :: "unit conn" where
  "ex_refusing = ex_conn (\<lambda>_. [])"

definition ex_accepting :: "unit conn" where
  "ex_accepting = (ex_conn (\<lambda>_. [ex_entry]))\<lparr>cn_modify := (\<lambda>_ _ _. io_return ())\<rparr>"

lemma ex_stopped:
  "case createUser (\<lambda>_. ex_refusing) ex_config ex_input (plannedSteps True False) ex_finish ex_ctx () of
     (Gave r, _) \<Rightarrow> cr_completed r = [Step_create] | _ \<Rightarrow> False"
  by code_simp

lemma ex_finished:
  "case finishUserCreate (\<lambda>_. ex_accepting) ex_config (By_distinguishedName ''CN=Ann,DC=x'')
       (remainingSteps (plannedSteps True False) [Step_create]) ex_finish ex_ctx () of
     (Gave s, _) \<Rightarrow> cr_completed s = [Step_password, Step_enable] | _ \<Rightarrow> False"
  by code_simp


text \<open>A directory that breaks once a change has been made; its state tells whether one has.\<close>

definition ex_breaking :: "bool conn" where
  "ex_breaking =
     \<lparr>cn_startTLS = io_return (), cn_bind = (\<lambda>_ _. io_return ()),
      cn_search = (\<lambda>_ done. (if done then Threw ex_refusal else Gave [ex_entry], done)),
      cn_modify = (\<lambda>_ _ _ _. (Gave (), True)), cn_modifyDN = (\<lambda>_ _. io_throw ex_refusal),
      cn_add = (\<lambda>_ _. io_throw ex_refusal), cn_del = (\<lambda>_ _. io_throw ex_refusal)\<rparr>"

lemma ex_normal: "\<exists>u. normalizeUser ex_entry = Inr u"
proof -
  have "case normalizeUser ex_entry of Inl _ \<Rightarrow> False | Inr _ \<Rightarrow> True" by code_simp
  then show ?thesis by (cases "normalizeUser ex_entry") simp_all
qed

theorem done_write_is_reported_as_failed_witness:
  "resetPassword (\<lambda>_. ex_breaking) ex_config (By_distinguishedName ''CN=Ann,DC=x'')
     \<lparr>rp_newPassword = ''pw'', rp_forceChangeAtNextLogin = False, rp_unlock = False\<rparr> ex_ctx False
   = (Gave (classifyPasswordError ex_refusal), True) \<and> \<not> mr_ok (classifyPasswordError ex_refusal)"
proof -
  obtain u where u: "normalizeUser ex_entry = Inr u" using ex_normal by blast
  have "pc_client ex_config = \<lparr>cc_ldapUrls = [''ldaps://dc''], cc_tlsMode = Mode_ldaps\<rparr>" by (simp add: ex_config_def)
  moreover have "breaks_after_write ex_breaking ex_config ex_ctx ''CN=Ann,DC=x'' u ex_refusal False True"
    using u by (auto simp: breaks_after_write_def ex_breaking_def io_return_def)
  ultimately show ?thesis
    using done_write_is_reported_as_failed [where connect = "\<lambda>_. ex_breaking" and url = "''ldaps://dc''"] by blast
qed

end
