(* ===== verification/AdSignInClaims.thy ===== *)
theory AdSignInClaims
  imports AdUnits AdObjectClaims
begin

text \<open>
  What signing in comes to: nobody is signed in whose password no domain controller accepted, whom the
  domain part of a name signs in, and how often a refused password is tried when the operator reads.
\<close>

section \<open>Who is signed in\<close>

definition accepted_by :: "(string \<Rightarrow> 'd conn) \<Rightarrow> provider_config \<Rightarrow> string \<Rightarrow> string \<Rightarrow> bool" where
  "accepted_by connect p username password \<longleftrightarrow>
     (\<exists>url\<in>set (cc_ldapUrls (pc_client p)). \<exists>d d'. cn_bind (connect url) username password d = (Gave (), d'))"

definition rightly_in :: "(string \<Rightarrow> 'd conn) \<Rightarrow> provider_config \<Rightarrow> authenticate_input \<Rightarrow> auth_result \<Rightarrow> bool" where
  "rightly_in connect p input r \<longleftrightarrow>
     (case r of
        Not_signed_in _ _ \<Rightarrow> True
      | Signed_in user groupDns \<Rightarrow>
          du_enabled user \<and> groupDns = du_memberOfDns user
          \<and> trim (ain_username input) \<noteq> [] \<and> ain_password input \<noteq> []
          \<and> accepted_by connect p (trim (ain_username input)) (ain_password input))"

lemma rightly_in_refused [simp]: "rightly_in connect p input (Not_signed_in reason m)"
  by (simp add: rightly_in_def)

lemma classify_rightly_in [simp]: "rightly_in connect p input (classifyBindError err)"
  by (simp add: classifyBindError_def Let_def split: ldap_err.split option.split)

text \<open>A bind gives nothing but acceptance.\<close>

lemma gives_bind:
  fixes connect :: "string \<Rightarrow> 'd conn"
  assumes "url \<in> set (cc_ldapUrls (pc_client p))"
  shows "gives (\<lambda>r. r = None \<and> accepted_by connect p user pw) (io_then (cn_bind (connect url) user pw) (\<lambda>_. io_return None))"
  unfolding gives_def
proof (intro allI impI)
  fix d d' :: 'd and x :: "'b option"
  assume "io_then (cn_bind (connect url) user pw) (\<lambda>_. io_return None) d = (Gave x, d')"
  then have "x = None \<and> (\<exists>d''. cn_bind (connect url) user pw d = (Gave (), d''))"
    by (cases "cn_bind (connect url) user pw d" rule: prod.exhaust) (auto simp: io_then_def io_return_def split: outcome.splits)
  with assms show "x = None \<and> accepted_by connect p user pw" unfolding accepted_by_def by blast
qed

lemma gives_authenticate: "gives (rightly_in connect p input) (authenticateUser connect p input)"
proof -
  let ?user = "trim (ain_username input)" and ?pw = "ain_password input"
  show ?thesis
  proof (cases "?user = [] \<or> ?pw = []")
    case True
    then show ?thesis by (auto simp: authenticateUser_def gives_return)
  next
    case False
    let ?Q = "\<lambda>r. case r of None \<Rightarrow> accepted_by connect p ?user ?pw | Some x \<Rightarrow> rightly_in connect p input x"
    have bind: "gives ?Q
        (io_catch (io_then (cn_bind (connect url) ?user ?pw) (\<lambda>_. io_return None))
          (\<lambda>e. if isDirectoryUnreachable e then io_throw e else io_return (Some (classifyBindError e))))"
      if "url \<in> set (cc_ldapUrls (pc_client p))" for url
    proof (rule gives_catch)
      show "gives ?Q (io_then (cn_bind (connect url) ?user ?pw) (\<lambda>_. io_return None))"
        by (rule gives_weaken [OF gives_bind [OF that]]) simp
      show "gives ?Q (if isDirectoryUnreachable e then io_throw e else io_return (Some (classifyBindError e)))" for e
        by (simp add: gives_throw gives_return)
    qed
    have found: "gives (rightly_in connect p input)
        (io_then (search_first p client fs) (\<lambda>found. case found of
            None \<Rightarrow> io_return (Not_signed_in Login_directory_error (Said m))
          | Some e \<Rightarrow> io_then (io_lift (normalizeUser e)) (\<lambda>user. io_return
              (if \<not> du_enabled user then Not_signed_in Login_disabled (Said m')
               else Signed_in user (du_memberOfDns user)))))"
      if "accepted_by connect p ?user ?pw" for client fs m m'
      by (rule gives_then, rule gives_option, rule gives_return, simp, rule gives_then, rule gives_return)
        (use that False in \<open>simp add: rightly_in_def\<close>)
    from False show ?thesis
      unfolding authenticateUser_def Let_def
      by (simp, intro gives_catch gives_servers_at)
        (rule gives_then_of, erule bind, auto intro: gives_return found split: option.split)
  qed
qed

text \<open>
  C31. Nobody signs in without a domain controller accepting the password. Whoever \<^verbatim>\<open>authenticateUser\<close> signs in is an enabled account,
  with the groups of its own record, and one of the configured servers accepted a sign-in with the name
  as it was typed, less the spaces around it, and the password as it was typed, which isn't empty: an
  empty password, which a server takes for an anonymous sign-in and accepts, never gets that far.
\<close>

theorem nobody_signs_in_without_a_bind:
  assumes "authenticateUser connect p input d = (Gave (Signed_in user groupDns), d')"
  shows "du_enabled user \<and> groupDns = du_memberOfDns user \<and> ain_password input \<noteq> []
     \<and> (\<exists>url\<in>set (cc_ldapUrls (pc_client p)). \<exists>d1 d2.
          cn_bind (connect url) (trim (ain_username input)) (ain_password input) d1 = (Gave (), d2))"
  using givesD [OF gives_authenticate assms] by (simp add: rightly_in_def accepted_by_def)

section \<open>The domain part of a name\<close>

text \<open>A directory that accepts every sign-in and gives \<open>answers q\<close> for a search.\<close>

definition answering :: "(search \<Rightarrow> entry list) \<Rightarrow> unit conn" where
  "answering answers = (ex_conn answers)\<lparr>cn_bind := \<lambda>_ _. io_return ()\<rparr>"

definition account_search :: "provider_config \<Rightarrow> string \<Rightarrow> string \<Rightarrow> search" where
  "account_search p attribute v =
     sub_search (pc_baseDn p) (''(&'' @ USER_FILTER_BASE @ (''('' @ attribute @ ''='' @ escapeLdapFilter v @ '')'') @ '')'') USER_ATTRS"

lemma before_at: "CHR ''@'' \<notin> set name \<Longrightarrow> takeWhile (\<lambda>c. c \<noteq> CHR ''@'') (name @ CHR ''@'' # domain) = name"
  by (induction name) auto

lemma answering_simps:
  "cn_search (answering answers) = (\<lambda>q. io_return (answers q))" "cn_bind (answering answers) = (\<lambda>_ _. io_return ())"
  "cn_startTLS (answering answers) = io_return ()"
  by (simp_all add: answering_def ex_conn_def)

lemma io_run:
  "io_then (io_return x) f = f x" "io_catch (io_return x) h = io_return x" "io_then (io_lift (Inr x)) f = f x"
  by (simp_all add: fun_eq_iff io_then_def io_catch_def io_return_def io_lift_def)

lemma at_return:
  "(case io_return x d of (Threw err, d') \<Rightarrow> a err d' | (Unfinished, d') \<Rightarrow> b d' | (Gave y, d') \<Rightarrow> g y d') = g x d"
  by (simp add: io_return_def)

lemma found_first:
  "search_first p (answering answers) (f # fs)
     = (case answers (sub_search (pc_baseDn p) (''(&'' @ USER_FILTER_BASE @ f @ '')'') USER_ATTRS) of
          [] \<Rightarrow> search_first p (answering answers) fs | e # _ \<Rightarrow> io_return (Some e))"
  by (simp add: searchOne_def answering_simps io_run sub_search_def first_of_def split: list.split)

text \<open>
  The domain part of a name doesn't decide who is signed in. When the directory accepts
  \<open>name@domain\<close>, whatever the domain is, and knows no account of that user principal name under the
  base, the account whose SAM account name is \<open>name\<close> is signed in in its place. (A domain controller
  accepts the sign-in of a user of a domain its own trusts; \<^verbatim>\<open>alice@partner\<close> is then signed in as the
  \<open>alice\<close> of the school.)
\<close>

theorem domain_part_is_not_compared:
  assumes "CHR ''@'' \<notin> set name" "name \<noteq> []" "CHR ''='' \<notin> set (name @ domain)" "password \<noteq> []"
    and "trim (name @ CHR ''@'' # domain) = name @ CHR ''@'' # domain"
    and "cc_ldapUrls (pc_client p) \<noteq> []"
    and "answers (account_search p ''userPrincipalName'' (name @ CHR ''@'' # domain)) = []"
    and "answers (account_search p ''sAMAccountName'' name) = e # es"
    and "normalizeUser e = Inr user" "du_enabled user"
  shows "authenticateUser (\<lambda>_. answering answers) p
       \<lparr>ain_username = name @ CHR ''@'' # domain, ain_password = password\<rparr> ()
     = (Gave (Signed_in user (du_memberOfDns user)), ())"
proof -
  obtain url urls where "cc_ldapUrls (pc_client p) = url # urls" using assms(6) by (cases "cc_ldapUrls (pc_client p)") auto
  moreover have "search_first p (answering answers) (sign_in_filters (name @ CHR ''@'' # domain)) = io_return (Some e)"
    using assms by (simp add: sign_in_filters_def looksLikeUpn_def before_at Let_def found_first account_search_def del: search_first.simps)
  ultimately show ?thesis using assms
    by (simp add: authenticateUser_def withFailover_def Let_def answering_simps io_run io_catch_def [of _ _ "()"] at_return del: search_first.simps)
qed

section \<open>A refused password\<close>

text \<open>Servers that count the sign-ins they are asked for, and answer each with what \<open>refusal\<close> says.\<close>

definition counting :: "(string \<Rightarrow> ldap_err) \<Rightarrow> string \<Rightarrow> nat conn" where
  "counting refusal url =
     \<lparr>cn_startTLS = io_return (), cn_bind = (\<lambda>_ _ n. (Threw (refusal url), Suc n)), cn_search = (\<lambda>_. io_return []),
      cn_modify = (\<lambda>_ _ _. io_return ()), cn_modifyDN = (\<lambda>_ _. io_return ()), cn_add = (\<lambda>_ _. io_return ()),
      cn_del = (\<lambda>_ _. io_return ())\<rparr>"

definition step_up_failed :: ldap_err where
  "step_up_failed = Err Step_up_bind_failed None ''step-up bind failed''"

text \<open>What a server's refusal is passed on as.\<close>

definition passed_on :: "ldap_err \<Rightarrow> ldap_err" where
  "passed_on e = (if isDirectoryUnreachable e then e else step_up_failed)"

lemma step_up_reachable: "\<not> isDirectoryUnreachable step_up_failed"
  by code_simp

lemma operator_bind_refused:
  "withOperatorBind (counting refusal) p ctx fn n
     = try_servers (counting refusal) (cc_tlsMode (pc_client p))
         (\<lambda>client k. case cn_bind client u pw k of (Threw e, k') \<Rightarrow> (Threw (passed_on e), k') | (_, k') \<Rightarrow> (Unfinished, k'))
         (cc_ldapUrls (pc_client p)) [] n"
proof -
  have "try_servers (counting refusal) m f urls fs n = try_servers (counting refusal) m g urls fs n"
    if "\<And>url k. f (counting refusal url) k = g (counting refusal url) k"
    for m and f g :: "nat conn \<Rightarrow> (nat, 'a) io" and urls fs n
    by (induction urls arbitrary: fs n) (simp_all add: Let_def io_then_def that split: prod.splits outcome.splits)
  then show ?thesis
    by (simp add: withOperatorBind_def withFailover_def counting_def io_then_def io_catch_def io_throw_def
        passed_on_def step_up_failed_def)
qed

lemma refused_everywhere:
  "try_servers (counting refusal) mode
      (\<lambda>client k. case cn_bind client u pw k of (Threw e, k') \<Rightarrow> (Threw (passed_on e), k') | (_, k') \<Rightarrow> (Unfinished, k'))
      urls failures n
   = (Threw (all_failed (failures @ map (\<lambda>url. (url, passed_on (refusal url))) urls)), n + length urls)"
  by (induction urls arbitrary: failures n)
    (simp_all add: Let_def counting_def io_then_def io_return_def)

text \<open>
  A password the directory refuses is tried on every server when the operator reads, and an
  unreachable server hides the refusal. When each of two or more servers is asked and all but the last
  refuse the operator's password, a read as the operator (\<^verbatim>\<open>_withOperatorBind\<close>) has signed in as often as there are
  servers, each a failed sign-in the domain counts towards the operator's lockout, and reports that no
  server can be reached if the last can't be, where the routes wait for \<^verbatim>\<open>StepUpBindFailedError\<close> to ask
  for the password again. A write as the operator (\<^verbatim>\<open>_asOperator\<close>) signs in once and says what happened.
\<close>

theorem operator_read_repeats_a_refused_bind:
  assumes "cc_ldapUrls (pc_client p) = urls @ [final]" "urls \<noteq> []"
    and "\<forall>url\<in>set urls. \<not> isDirectoryUnreachable (refusal url)"
  shows "(\<exists>m. withOperatorBind (counting refusal) p ctx fn 0
           = (Threw (if isDirectoryUnreachable (refusal final) then Err Directory_unavailable None m
                     else Err Step_up_bind_failed None ''step-up bind failed''), length urls + 1))
     \<and> asOperator (counting refusal) p ctx failed gn 0
         = (Gave (failed (refused_with Permission_denied ''step-up bind failed'')), 1)"
proof
  show "\<exists>m. withOperatorBind (counting refusal) p ctx fn 0
           = (Threw (if isDirectoryUnreachable (refusal final) then Err Directory_unavailable None m
                     else Err Step_up_bind_failed None ''step-up bind failed''), length urls + 1)"
    unfolding operator_bind_refused [where u = "[]" and pw = "[]"] refused_everywhere assms(1)
    using step_up_reachable by (simp add: all_failed_def passed_on_def step_up_failed_def Let_def split: ldap_err.split)
  from assms obtain url rest where "cc_ldapUrls (pc_client p) = url # rest" "\<not> isDirectoryUnreachable (refusal url)"
    by (cases urls) auto
  then show "asOperator (counting refusal) p ctx failed gn 0
      = (Gave (failed (refused_with Permission_denied ''step-up bind failed'')), 1)"
    by (simp add: asOperator_def withFailover_def Let_def counting_def io_then_def io_catch_def io_return_def)
qed

section \<open>Witnesses\<close>

definition ex_answers :: "search \<Rightarrow> entry list" where
  "ex_answers q = (if q = account_search ex_config ''sAMAccountName'' ''ann'' then [ex_entry] else [])"

lemma ex_ann_enabled: "case normalizeUser ex_entry of Inr u \<Rightarrow> du_enabled u | _ \<Rightarrow> False"
  by code_simp

lemma ex_user: "\<exists>u. normalizeUser ex_entry = Inr u \<and> du_enabled u"
  using ex_ann_enabled by (cases "normalizeUser ex_entry") auto

lemma ex_searches:
  "account_search ex_config ''userPrincipalName'' ''ann@partner'' \<noteq> account_search ex_config ''sAMAccountName'' ''ann''"
  "trim ''ann@partner'' = ''ann@partner''" "cc_ldapUrls (pc_client ex_config) = [''ldaps://dc'']"
  by code_simp+

theorem domain_part_is_not_compared_witness:
  "\<exists>u. authenticateUser (\<lambda>_. answering ex_answers) ex_config \<lparr>ain_username = ''ann@partner'', ain_password = ''pw''\<rparr> ()
     = (Gave (Signed_in u (du_memberOfDns u)), ())"
proof -
  obtain u where u: "normalizeUser ex_entry = Inr u" "du_enabled u" using ex_user by blast
  show ?thesis
    by (rule exI, rule domain_part_is_not_compared [where name = "''ann''" and domain = "''partner''", simplified])
      (use ex_searches u in \<open>simp_all add: ex_answers_def\<close>)
qed

theorem nobody_signs_in_without_a_bind_witness:
  "\<exists>u d1 d2. normalizeUser ex_entry = Inr u \<and> du_enabled u
     \<and> cn_bind (answering (\<lambda>_. [ex_entry])) ''ann'' ''pw'' d1 = (Gave (), d2)"
proof -
  have "case authenticateUser (\<lambda>_. answering (\<lambda>_. [ex_entry])) ex_config \<lparr>ain_username = '' ann'', ain_password = ''pw''\<rparr> () of
      (Gave (Signed_in u gs), d) \<Rightarrow> normalizeUser ex_entry = Inr u | _ \<Rightarrow> False"
    by code_simp
  then obtain u gs d where "authenticateUser (\<lambda>_. answering (\<lambda>_. [ex_entry])) ex_config
      \<lparr>ain_username = '' ann'', ain_password = ''pw''\<rparr> () = (Gave (Signed_in u gs), d)" "normalizeUser ex_entry = Inr u"
    by (auto split: prod.splits outcome.splits auth_result.splits)
  moreover have "trim '' ann'' = ''ann''" by code_simp
  ultimately show ?thesis using nobody_signs_in_without_a_bind by fastforce
qed

definition ex_two_servers :: provider_config where
  "ex_two_servers = ex_config\<lparr>pc_client := \<lparr>cc_ldapUrls = [''ldaps://one'', ''ldaps://two''], cc_tlsMode = Mode_ldaps\<rparr>\<rparr>"

definition ex_wrong_password :: "string \<Rightarrow> ldap_err" where
  "ex_wrong_password url =
     (if url = ''ldaps://one'' then Err Invalid_credentials None ''data 52e'' else Err Plain_error (Some ''ECONNREFUSED'') ''no answer'')"

theorem operator_read_repeats_a_refused_bind_witness:
  "\<exists>m. withOperatorBind (counting ex_wrong_password) ex_two_servers ex_ctx (\<lambda>_. io_return ()) 0
     = (Threw (Err Directory_unavailable None m), 2)"
proof -
  have "isDirectoryUnreachable (ex_wrong_password ''ldaps://two'')" "\<not> isDirectoryUnreachable (ex_wrong_password ''ldaps://one'')"
    by code_simp+
  moreover have "cc_ldapUrls (pc_client ex_two_servers) = [''ldaps://one''] @ [''ldaps://two'']"
    by (simp add: ex_two_servers_def)
  ultimately have "\<exists>m. withOperatorBind (counting ex_wrong_password) ex_two_servers ex_ctx (\<lambda>_. io_return ()) 0
      = (Threw (if isDirectoryUnreachable (ex_wrong_password ''ldaps://two'') then Err Directory_unavailable None m
                else Err Step_up_bind_failed None ''step-up bind failed''), length [''ldaps://one''] + 1)"
    by (intro operator_read_repeats_a_refused_bind [THEN conjunct1]) simp_all
  with \<open>isDirectoryUnreachable (ex_wrong_password ''ldaps://two'')\<close> show ?thesis by (simp add: numeral_2_eq_2)
qed

end
