(* ===== verification/Naming.thy ===== *)
theory Naming
  imports AdReads
begin

text \<open>
  The names of a new account (\<^verbatim>\<open>packages/shared/src/naming.ts\<close>): the naming pattern, a name reduced to the
  letters a username may hold, usernames cut to length, and the suggestions for a list of people made
  unique against the directory and one another. The texts of reasons are left out: a deviation's reason
  is wording made of its other fields.
\<close>

section \<open>Vocabulary\<close>

(* src/packages/shared/src/naming.ts:12-12 NamingToken *)
datatype naming_token = Token_first | Token_last | Token_f | Token_l | Token_mi

(* src/packages/shared/src/naming.ts:11-11 NAMING_TOKENS *)
definition NAMING_TOKENS :: "(string \<times> naming_token) list" where
  "NAMING_TOKENS =
     [(''first'', Token_first), (''last'', Token_last), (''f'', Token_f), (''l'', Token_l), (''mi'', Token_mi)]"

(* src/packages/shared/src/naming.ts:14-14 NAMING_PATTERN_MAX *)
definition NAMING_PATTERN_MAX :: nat where
  "NAMING_PATTERN_MAX = 64"

datatype limited_attribute = Limited_samAccountName | Limited_userPrincipalName | Limited_cn | Limited_displayName

(* src/packages/shared/src/naming.ts:17-23 NAME_LIMITS *)
fun NAME_LIMITS :: "limited_attribute \<Rightarrow> nat" where
  "NAME_LIMITS Limited_samAccountName = 20"
| "NAME_LIMITS Limited_userPrincipalName = 64"
| "NAME_LIMITS Limited_cn = 64"
| "NAME_LIMITS Limited_displayName = 256"

(* src/packages/shared/src/naming.ts:27-27 MAX_SUFFIX *)
definition MAX_SUFFIX :: nat where
  "MAX_SUFFIX = 999"

(* src/packages/shared/src/naming.ts:29-37 PersonName *)
record person_name =
  pn_first :: string
  pn_last :: string
  pn_middleInitial :: "string option"
  pn_preferredFirst :: "string option"

(* src/packages/shared/src/naming.ts:39-42 NamingSettings *)
record naming_settings =
  nst_pattern :: string
  nst_upnSuffix :: string

(* src/packages/shared/src/naming.ts:50-50 NameField *)
datatype name_field = Field_first | Field_last

(* src/packages/shared/src/naming.ts:51-52 NormalizationRule *)
datatype normalization_rule =
  Rule_invisible | Rule_letterforms | Rule_diacritics | Rule_apostrophes | Rule_periods | Rule_spaces

(* src/packages/shared/src/naming.ts:53-53 NamingAttribute *)
datatype naming_attribute = Attr_samAccountName | Attr_userPrincipalName | Attr_mail

(* src/packages/shared/src/naming.ts:60-60 NamingApproval *)
datatype naming_approval = Approve_none | Approve_together | Approve_individual | Approve_blocked

datatype name_source = From_directory | From_batch

text \<open>
  A name part is worked on as code points: reducing a Latin-1 letter passes through combining marks,
  which are beyond the block.
\<close>

type_synonym code_points = "int list"

datatype typed_problem =
  Needs_suffix | Local_too_long | Wont_sync | Not_a_suffix | Sam_too_long | Sam_invalid

datatype unusable = Nothing_left name_field | Typed_unusable naming_attribute typed_problem | Suffixes_used_up

(* src/packages/shared/src/naming.ts:64-131 NamingDeviation *)
datatype naming_deviation =
  Normalized name_field normalization_rule code_points code_points
| Dropped_letters name_field code_points code_points code_points
| Dropped_characters name_field code_points code_points code_points
| Truncated limited_attribute string string
| Collision name_source "naming_attribute list" "naming_attribute list" nat string string
| Cn_collision name_source string string bool
| Taken naming_attribute name_source string
| Unusable unusable

fun approval :: "naming_deviation \<Rightarrow> naming_approval" where
  "approval (Normalized _ _ _ _) = Approve_none"
| "approval (Dropped_letters _ _ _ _) = Approve_individual"
| "approval (Dropped_characters _ _ _ _) = Approve_individual"
| "approval (Truncated _ _ _) = Approve_together"
| "approval (Collision _ _ _ _ _ _) = Approve_individual"
| "approval (Cn_collision _ _ _ alsoTaken) = (if alsoTaken then Approve_blocked else Approve_none)"
| "approval (Taken _ _ _) = Approve_blocked"
| "approval (Unusable _) = Approve_blocked"

(* src/packages/shared/src/naming.ts:133-142 NamingSuggestion *)
record naming_suggestion =
  sg_samAccountName :: string
  sg_upnLocal :: string
  sg_upn :: string
  sg_mail :: string
  sg_cn :: string
  sg_displayName :: string
  sg_deviations :: "naming_deviation list"

(* src/packages/shared/src/naming.ts:149-154 NameOverrides *)
record name_overrides =
  ov_samAccountName :: "string option"
  ov_userPrincipalName :: "string option"
  ov_displayName :: "string option"

(* src/packages/shared/src/naming.ts:156-161 NamingRequest *)
record naming_request =
  nr_name :: person_name
  nr_ouDn :: "string option"
  nr_overrides :: "name_overrides option"

section \<open>The pattern\<close>

(* src/packages/shared/src/naming.ts:174-174 Segment *)
datatype segment = Seg_token naming_token | Seg_literal string

datatype pattern_problem =
  Too_long | Unknown_token string | Doubled_separator | Bad_literal string | No_name_token | Separator_at_an_end | Ends_in_digit

definition is_brace :: "char \<Rightarrow> bool" where
  "is_brace c \<longleftrightarrow> c = CHR ''{'' \<or> c = CHR ''}''"

text \<open>What \<open>matchAll(SEGMENT)\<close> finds: a token in braces, a run without braces, or a brace.\<close>

datatype pattern_match = Match_token string | Match_literal string | Match_brace char

function matchAll :: "string \<Rightarrow> pattern_match list" where
  "matchAll [] = []"
| "matchAll (c # s) =
     (let inner = takeWhile (\<lambda>x. \<not> is_brace x) s; rest = dropWhile (\<lambda>x. \<not> is_brace x) s
      in if c = CHR ''{'' \<and> rest \<noteq> [] \<and> hd rest = CHR ''}'' then Match_token inner # matchAll (tl rest)
         else if is_brace c then Match_brace c # matchAll s
         else Match_literal (c # inner) # matchAll rest)"
  by pat_completeness auto
termination
  by (relation "measure length") (auto simp: length_dropWhile_le less_Suc_eq_le le_SucI diff_le_self order_trans [OF diff_le_self])

declare matchAll.simps [simp del]

definition is_separator :: "char \<Rightarrow> bool" where
  "is_separator c \<longleftrightarrow> c = CHR ''.'' \<or> c = CHR ''_'' \<or> c = CHR ''-''"

definition is_literal_char :: "char \<Rightarrow> bool" where
  "is_literal_char c \<longleftrightarrow> is_lower_az c \<or> is_digit c \<or> is_separator c"

fun doubled_separator :: "string \<Rightarrow> bool" where
  "doubled_separator (a # b # s) \<longleftrightarrow> is_separator a \<and> is_separator b \<or> doubled_separator (b # s)"
| "doubled_separator _ \<longleftrightarrow> False"

fun segments_of :: "pattern_match list \<Rightarrow> pattern_problem + segment list" where
  "segments_of [] = Inr []"
| "segments_of (m # ms) =
     (case (case m of
              Match_token t \<Rightarrow> (case map_of NAMING_TOKENS t of None \<Rightarrow> Inl (Unknown_token t) | Some k \<Rightarrow> Inr (Seg_token k))
            | Match_literal s \<Rightarrow>
                if \<not> list_all is_literal_char s then Inl (Bad_literal s)
                else if doubled_separator s then Inl Doubled_separator
                else Inr (Seg_literal s)
            | Match_brace c \<Rightarrow> Inl (Bad_literal [c])) of
        Inl problem \<Rightarrow> Inl problem
      | Inr seg \<Rightarrow> (case segments_of ms of Inl problem \<Rightarrow> Inl problem | Inr segs \<Rightarrow> Inr (seg # segs)))"

definition names_someone :: "segment \<Rightarrow> bool" where
  "names_someone s \<longleftrightarrow> (case s of Seg_token t \<Rightarrow> t \<noteq> Token_mi | Seg_literal _ \<Rightarrow> False)"

(* src/packages/shared/src/naming.ts:180-223 parsePattern *)
definition parsePattern :: "string \<Rightarrow> pattern_problem + segment list" where
  "parsePattern pattern =
     (case segments_of (matchAll pattern) of
        Inl problem \<Rightarrow> Inl problem
      | Inr segments \<Rightarrow>
          if \<not> list_ex names_someone segments then Inl No_name_token
          else if (case hd segments of Seg_literal s \<Rightarrow> is_separator (hd s) | _ \<Rightarrow> False)
               \<or> (case last segments of Seg_literal s \<Rightarrow> is_separator (last s) | _ \<Rightarrow> False) then Inl Separator_at_an_end
          else if (case last segments of Seg_literal s \<Rightarrow> is_digit (last s) | _ \<Rightarrow> False) then Inl Ends_in_digit
          else Inr segments)"

(* src/packages/shared/src/naming.ts:226-231 namingPatternProblem *)
definition namingPatternProblem :: "string \<Rightarrow> pattern_problem option" where
  "namingPatternProblem pattern =
     (if length pattern > NAMING_PATTERN_MAX then Some Too_long
      else case parsePattern pattern of Inl problem \<Rightarrow> Some problem | Inr _ \<Rightarrow> None)"

(* src/packages/shared/src/naming.ts:233-237 TokenValues *)
record token_values =
  tv_first :: string
  tv_last :: string
  tv_mi :: string

fun segment_text :: "token_values \<Rightarrow> segment \<Rightarrow> string" where
  "segment_text v (Seg_literal s) = s"
| "segment_text v (Seg_token Token_first) = tv_first v"
| "segment_text v (Seg_token Token_last) = tv_last v"
| "segment_text v (Seg_token Token_f) = take 1 (tv_first v)"
| "segment_text v (Seg_token Token_l) = take 1 (tv_last v)"
| "segment_text v (Seg_token Token_mi) = tv_mi v"

text \<open>\<open>replace(/([._-])[._-]+/g, '$1')\<close>: of separators in a row the first; \<open>after\<close> tells whether one came just before.\<close>

fun single_separators :: "bool \<Rightarrow> string \<Rightarrow> string" where
  "single_separators after [] = []"
| "single_separators after (c # s) =
     (if after \<and> is_separator c then single_separators after s else c # single_separators (is_separator c) s)"

definition strip_end :: "(char \<Rightarrow> bool) \<Rightarrow> string \<Rightarrow> string" where
  "strip_end p s = rev (dropWhile p (rev s))"

definition strip_ends :: "(char \<Rightarrow> bool) \<Rightarrow> string \<Rightarrow> string" where
  "strip_ends p s = strip_end p (dropWhile p s)"

(* src/packages/shared/src/naming.ts:239-259 render *)
definition render :: "segment list \<Rightarrow> token_values \<Rightarrow> string" where
  "render segments v = strip_ends is_separator (single_separators False (concat (map (segment_text v) segments)))"

section \<open>Normalization\<close>

(* src/packages/shared/src/naming.ts:264-279 TRANSLITERATIONS *)
definition TRANSLITERATIONS :: "(int \<times> string) list" where
  "TRANSLITERATIONS =
     [(223, ''ss''), (230, ''ae''), (339, ''oe''), (248, ''o''), (322, ''l''), (273, ''d''), (240, ''d''), (254, ''th''),
      (305, ''i''), (295, ''h''), (359, ''t''), (320, ''l''), (331, ''n''), (312, ''k'')]"

text \<open>What the language's Unicode tables say of the code points a Latin-1 name comes to.\<close>

definition ascii_letter :: "int \<Rightarrow> bool" where
  "ascii_letter n \<longleftrightarrow> (65 \<le> n \<and> n \<le> 90) \<or> (97 \<le> n \<and> n \<le> 122)"

definition lower_point :: "int \<Rightarrow> int" where
  "lower_point n = (if (65 \<le> n \<and> n \<le> 90) \<or> (192 \<le> n \<and> n \<le> 222 \<and> n \<noteq> 215) then n + 32 else n)"

definition is_mark :: "int \<Rightarrow> bool" where
  "is_mark n \<longleftrightarrow> 768 \<le> n \<and> n \<le> 879"

definition space_point :: "int \<Rightarrow> bool" where
  "space_point n \<longleftrightarrow> (9 \<le> n \<and> n \<le> 13) \<or> n = 32 \<or> n = 160"

definition letter_point :: "int \<Rightarrow> bool" where
  "letter_point n \<longleftrightarrow> ascii_letter n \<or> n \<in> {170, 181, 186, 956} \<or> (192 \<le> n \<and> n \<le> 255 \<and> n \<noteq> 215 \<and> n \<noteq> 247)"

definition compatible :: "int \<Rightarrow> code_points" where
  "compatible n =
     (case map_of [(160, [32]), (168, [32, 776]), (170, [97]), (175, [32, 772]), (178, [50]), (179, [51]), (180, [32, 769]),
                   (181, [956]), (184, [32, 807]), (185, [49]), (186, [111]), (188, [49, 8260, 52]), (189, [49, 8260, 50]),
                   (190, [51, 8260, 52])] n of
        None \<Rightarrow> [n] | Some ns \<Rightarrow> ns)"

definition canonical :: "int \<Rightarrow> code_points" where
  "canonical n =
     (case map_of [(192, [65, 768]), (193, [65, 769]), (194, [65, 770]), (195, [65, 771]), (196, [65, 776]), (197, [65, 778]),
                   (199, [67, 807]), (200, [69, 768]), (201, [69, 769]), (202, [69, 770]), (203, [69, 776]), (204, [73, 768]),
                   (205, [73, 769]), (206, [73, 770]), (207, [73, 776]), (209, [78, 771]), (210, [79, 768]), (211, [79, 769]),
                   (212, [79, 770]), (213, [79, 771]), (214, [79, 776]), (217, [85, 768]), (218, [85, 769]), (219, [85, 770]),
                   (220, [85, 776]), (221, [89, 769]), (224, [97, 768]), (225, [97, 769]), (226, [97, 770]), (227, [97, 771]),
                   (228, [97, 776]), (229, [97, 778]), (231, [99, 807]), (232, [101, 768]), (233, [101, 769]),
                   (234, [101, 770]), (235, [101, 776]), (236, [105, 768]), (237, [105, 769]), (238, [105, 770]),
                   (239, [105, 776]), (241, [110, 771]), (242, [111, 768]), (243, [111, 769]), (244, [111, 770]),
                   (245, [111, 771]), (246, [111, 776]), (249, [117, 768]), (250, [117, 769]), (251, [117, 770]),
                   (252, [117, 776]), (253, [121, 769]), (255, [121, 776])] n of
        None \<Rightarrow> [n] | Some ns \<Rightarrow> ns)"

text \<open>\<open>replace(/([A-Za-z])\\p{M}+/gu, '$1')\<close>; \<open>after\<close> tells whether a letter came just before.\<close>

fun without_marks :: "bool \<Rightarrow> code_points \<Rightarrow> code_points" where
  "without_marks after [] = []"
| "without_marks after (n # ns) =
     (if after \<and> is_mark n then without_marks after ns else n # without_marks (ascii_letter n) ns)"

(* src/packages/shared/src/naming.ts:283-283 INVISIBLE *)
definition INVISIBLE :: "int \<Rightarrow> bool" where
  "INVISIBLE n \<longleftrightarrow> n = 173 \<or> n \<le> 8 \<or> (14 \<le> n \<and> n \<le> 31) \<or> (127 \<le> n \<and> n \<le> 159)"

(* src/packages/shared/src/naming.ts:284-284 APOSTROPHES *)
definition APOSTROPHES :: "int list" where
  "APOSTROPHES = [39, 8217, 8216, 700, 699, 96, 180]"

(* src/packages/shared/src/naming.ts:285-285 DASHES *)
definition DASHES :: "int list" where
  "DASHES = [8208, 8209, 8210, 8211, 8212]"

(* src/packages/shared/src/naming.ts:287-291 transliterate *)
definition transliterate :: "int \<Rightarrow> code_points" where
  "transliterate n =
     (case map_of TRANSLITERATIONS (lower_point n) of
        None \<Rightarrow> [n]
      | Some mapped \<Rightarrow>
          let ms = map of_char mapped
          in if n = lower_point n then ms else (hd ms - 32) # tl ms)"

definition norm_step :: "name_field \<Rightarrow> normalization_rule \<Rightarrow> (code_points \<Rightarrow> code_points)
    \<Rightarrow> code_points \<times> naming_deviation list \<Rightarrow> code_points \<times> naming_deviation list" where
  "norm_step field rule f s =
     (let v = fst s; next' = f v in (next', if next' \<noteq> v then snd s @ [Normalized field rule v next'] else snd s))"

definition distinct_points :: "code_points \<Rightarrow> code_points" where
  "distinct_points ns = fold (\<lambda>n seen. if n \<in> set seen then seen else seen @ [n]) ns []"

definition kept_point :: "int \<Rightarrow> bool" where
  "kept_point n \<longleftrightarrow> ascii_letter n \<or> n = 45"

fun single_hyphens :: "bool \<Rightarrow> string \<Rightarrow> string" where
  "single_hyphens after [] = []"
| "single_hyphens after (c # s) =
     (if after \<and> c = CHR ''-'' then single_hyphens after s else c # single_hyphens (c = CHR ''-'') s)"

definition drop_points :: "(code_points \<Rightarrow> code_points \<Rightarrow> code_points \<Rightarrow> naming_deviation) \<Rightarrow> code_points
    \<Rightarrow> code_points \<times> naming_deviation list \<Rightarrow> code_points \<times> naming_deviation list" where
  "drop_points deviation ns s =
     (if ns = [] then s
      else let next' = filter (\<lambda>n. n \<notin> set ns) (fst s) in (next', snd s @ [deviation ns (fst s) next']))"

text \<open>
  A name part as code points, and what each step changed. NFC leaves Latin-1 text as it is, and what
  NFD and the stripping of marks leave of it has nothing to recompose.
\<close>

definition simplify :: "name_field \<Rightarrow> string \<Rightarrow> code_points \<times> naming_deviation list" where
  "simplify field raw =
     (let s = (map of_char (trim raw), []);
          s = norm_step field Rule_invisible (filter (\<lambda>n. \<not> INVISIBLE n)) s;
          s = norm_step field Rule_letterforms (\<lambda>v. concat (map compatible v)) s;
          s = norm_step field Rule_diacritics
                (\<lambda>v. concat (map transliterate (without_marks False (concat (map canonical v))))) s;
          s = norm_step field Rule_apostrophes (filter (\<lambda>n. n \<notin> set APOSTROPHES)) s;
          s = norm_step field Rule_periods (filter (\<lambda>n. n \<noteq> 46)) s;
          s = norm_step field Rule_spaces (filter (\<lambda>n. \<not> space_point n)) s
      in (map (\<lambda>n. if n \<in> set DASHES then 45 else n) (fst s), snd s))"

(* src/packages/shared/src/naming.ts:312-391 normalizePart *)
definition normalizePart :: "name_field \<Rightarrow> string \<Rightarrow> string \<times> naming_deviation list" where
  "normalizePart field raw =
     (let s = simplify field raw;
          dropped = filter (\<lambda>n. \<not> kept_point n) (fst s);
          letters = distinct_points (filter letter_point dropped);
          others = distinct_points (filter (\<lambda>n. \<not> letter_point n) dropped);
          kept = map (\<lambda>n. char_of (lower_point n)) (filter kept_point (fst s));
          done = drop_points (Dropped_characters field) others (drop_points (Dropped_letters field) letters s)
      in (strip_ends (\<lambda>c. c = CHR ''-'') (single_hyphens False kept), snd done))"

end
