(* ===== verification/NameSuggestions.thy ===== *)
theory NameSuggestions
  imports Naming
begin

text \<open>
  Names for a list of people (\<^verbatim>\<open>packages/shared/src/naming.ts\<close>): the pattern's names cut to length, the names
  an operator typed, and each person's made unique against the directory and the people before them;
  and what has to be looked up for that.
\<close>

section \<open>One person\<close>

(* src/packages/shared/src/naming.ts:395-403 Prepared *)
record prepared =
  pr_segments :: "segment list"
  pr_values :: token_values
  pr_username :: string
  pr_fullDisplayName :: string
  pr_displayName :: string
  pr_deviations :: "naming_deviation list"

(* src/packages/shared/src/naming.ts:456-459 cutText *)
definition cutText :: "string \<Rightarrow> nat \<Rightarrow> string \<Rightarrow> string" where
  "cutText v limit tail =
     (if length v + length tail \<le> limit then v @ tail else trim_end (take (limit - length tail) v) @ tail)"

fun single_spaces :: "bool \<Rightarrow> string \<Rightarrow> string" where
  "single_spaces after [] = []"
| "single_spaces after (c # s) =
     (if is_space c then (if after then single_spaces after s else CHR '' '' # single_spaces True s)
      else c # single_spaces False s)"

definition field_deviations :: "segment list \<Rightarrow> name_field \<Rightarrow> naming_token \<Rightarrow> naming_token
    \<Rightarrow> string \<times> naming_deviation list \<Rightarrow> naming_deviation list" where
  "field_deviations segments field token initial part =
     (if \<not> (Seg_token token \<in> set segments) \<and> \<not> (Seg_token initial \<in> set segments \<and> fst part = []) then []
      else snd part @ (if fst part = [] then [Unusable (Nothing_left field)] else []))"

(* src/packages/shared/src/naming.ts:407-454 prepare *)
definition prepare :: "person_name \<Rightarrow> string \<Rightarrow> pattern_problem + prepared" where
  "prepare name pattern =
     (case parsePattern pattern of
        Inl problem \<Rightarrow> Inl problem
      | Inr segments \<Rightarrow>
          let first = normalizePart Field_first (pn_first name);
              surname = normalizePart Field_last (pn_last name);
              values = \<lparr>tv_first = fst first, tv_last = fst surname,
                tv_mi = take 1 (filter (\<lambda>c. c \<noteq> CHR ''-'') (fst (normalizePart Field_first (or_empty (pn_middleInitial name)))))\<rparr>;
              deviations = field_deviations segments Field_first Token_first Token_f first
                @ field_deviations segments Field_last Token_last Token_l surname;
              preferred = trim (or_empty (pn_preferredFirst name));
              displayFirst = (if preferred \<noteq> [] then preferred else trim (pn_first name));
              full = trim (single_spaces False (displayFirst @ '' '' @ trim (pn_last name)))
          in Inr \<lparr>pr_segments = segments, pr_values = values, pr_username = render segments values,
                  pr_fullDisplayName = full, pr_displayName = cutText full (NAME_LIMITS Limited_displayName) [],
                  pr_deviations = deviations\<rparr>)"

text \<open>The loops of \<open>fit\<close>: hyphenated parts of the surname go first, then letters of it, then of the first name.\<close>

function drop_surname_parts :: "segment list \<Rightarrow> nat \<Rightarrow> string list \<Rightarrow> token_values \<Rightarrow> token_values" where
  "drop_surname_parts segments budget parts v =
     (if length parts > 1 \<and> length (render segments v) > budget
      then drop_surname_parts segments budget (butlast parts) (v\<lparr>tv_last := join ''-'' (butlast parts)\<rparr>)
      else v)"
  by pat_completeness auto
termination
  by (relation "measure (\<lambda>(segments, budget, parts, v). length parts)") auto

function shorten_surname :: "segment list \<Rightarrow> nat \<Rightarrow> token_values \<Rightarrow> token_values" where
  "shorten_surname segments budget v =
     (if length (render segments v) > budget \<and> length (tv_last v) > 1
      then shorten_surname segments budget (v\<lparr>tv_last := butlast (tv_last v)\<rparr>)
      else v)"
  by pat_completeness auto
termination
  by (relation "measure (\<lambda>(segments, budget, v). length (tv_last v))") auto

function shorten_first :: "segment list \<Rightarrow> nat \<Rightarrow> token_values \<Rightarrow> token_values" where
  "shorten_first segments budget v =
     (if length (render segments v) > budget \<and> length (tv_first v) > 1
      then shorten_first segments budget (v\<lparr>tv_first := butlast (tv_first v)\<rparr>)
      else v)"
  by pat_completeness auto
termination
  by (relation "measure (\<lambda>(segments, budget, v). length (tv_first v))") auto

declare drop_surname_parts.simps [simp del] shorten_surname.simps [simp del] shorten_first.simps [simp del]

(* src/packages/shared/src/naming.ts:466-484 fit *)
definition fit :: "prepared \<Rightarrow> nat \<Rightarrow> string" where
  "fit p budget =
     (let v = pr_values p; out = render (pr_segments p) v
      in if length out \<le> budget then out
         else
           let v = drop_surname_parts (pr_segments p) budget (split_at (\<lambda>c. c = CHR ''-'') (tv_last v)) v;
               v = shorten_surname (pr_segments p) budget v;
               v = shorten_first (pr_segments p) budget v
           in strip_end is_separator (take budget (render (pr_segments p) v)))"

(* src/packages/shared/src/naming.ts:486-486 tailOf *)
definition tailOf :: "nat \<Rightarrow> string" where
  "tailOf suffix = (if suffix > 1 then dec_nat suffix else [])"

(* src/packages/shared/src/naming.ts:487-488 samWith *)
definition samWith :: "prepared \<Rightarrow> nat \<Rightarrow> string" where
  "samWith p suffix = fit p (NAME_LIMITS Limited_samAccountName - length (tailOf suffix)) @ tailOf suffix"

(* src/packages/shared/src/naming.ts:489-490 upnLocalWith *)
definition upnLocalWith :: "prepared \<Rightarrow> nat \<Rightarrow> string" where
  "upnLocalWith p suffix = fit p (NAME_LIMITS Limited_userPrincipalName - length (tailOf suffix)) @ tailOf suffix"

(* src/packages/shared/src/naming.ts:492-497 AccountNames *)
record account_names =
  an_samAccountName :: string
  an_upnLocal :: string
  an_upn :: string
  an_mail :: string

(* src/packages/shared/src/naming.ts:499-502 accountNames *)
definition accountNames :: "string \<Rightarrow> string \<Rightarrow> string \<Rightarrow> account_names" where
  "accountNames samAccountName upnLocal upnSuffix =
     (let upn = upnLocal @ ''@'' @ upnSuffix
      in \<lparr>an_samAccountName = samAccountName, an_upnLocal = upnLocal, an_upn = upn, an_mail = upn\<rparr>)"

(* src/packages/shared/src/naming.ts:504-526 truncation *)
definition truncation :: "limited_attribute \<Rightarrow> string \<Rightarrow> string \<Rightarrow> naming_deviation list" where
  "truncation attribute from' to' = (if from' = to' then [] else [Truncated attribute from' to'])"

section \<open>Typed names\<close>

definition SAM_FORBIDDEN :: string where
  "SAM_FORBIDDEN = quote # backslash # ''/[]:;|=,+*?<>@''"

definition control_char :: "char \<Rightarrow> bool" where
  "control_char c \<longleftrightarrow> (let n = of_char c :: nat in n \<le> 31 \<or> n = 127)"

(* src/packages/shared/src/schemas/user.ts:410-410 samAccountNameSchema *)
definition samAccountNameSchema :: "string \<Rightarrow> bool" where
  "samAccountNameSchema value =
     (let v = trim value
      in v \<noteq> [] \<and> length v \<le> 20 \<and> list_all (\<lambda>c. c \<notin> set SAM_FORBIDDEN) v \<and> list_all (\<lambda>c. \<not> control_char c) v
         \<and> \<not> list_all (\<lambda>c. c = CHR ''.'' \<or> c = CHR '' '') v \<and> last v \<noteq> CHR ''.'')"

(* src/packages/shared/src/naming.ts:725-725 UPN_LOCAL *)
definition UPN_LOCAL :: "string \<Rightarrow> bool" where
  "UPN_LOCAL s \<longleftrightarrow> s \<noteq> [] \<and> list_all (\<lambda>c. is_ascii_letter c \<or> is_digit c \<or> c \<in> set (CHR 0x27 # ''._!#^~-'')) s"

record typed_upn =
  tu_local :: string
  tu_suffix :: string

(* src/packages/shared/src/naming.ts:716-721 TypedNames *)
record typed_names =
  tn_samAccountName :: "string option"
  tn_upn :: "typed_upn option"
  tn_displayName :: "string option"
  tn_deviations :: "naming_deviation list"

definition clean :: "string option \<Rightarrow> string option" where
  "clean v = or_none (trim (or_empty v))"

definition split_upn :: "string \<Rightarrow> typed_upn" where
  "split_upn typed =
     (if CHR ''@'' \<notin> set typed then \<lparr>tu_local = typed, tu_suffix = typed\<rparr>
      else \<lparr>tu_local = rev (tl (dropWhile (\<lambda>c. c \<noteq> CHR ''@'') (rev typed))),
            tu_suffix = rev (takeWhile (\<lambda>c. c \<noteq> CHR ''@'') (rev typed))\<rparr>)"

definition upn_problem :: "string \<Rightarrow> string list option \<Rightarrow> typed_problem option" where
  "upn_problem typed upnSuffixes =
     (let u = split_upn typed
      in if CHR ''@'' \<notin> set typed \<or> tu_local u = [] \<or> tu_suffix u = [] then Some Needs_suffix
         else if length (tu_local u) > NAME_LIMITS Limited_userPrincipalName then Some Local_too_long
         else if \<not> UPN_LOCAL (tu_local u) \<or> starts_with (tu_local u) ''.'' \<or> ends_with (tu_local u) ''.''
              \<or> includes_str (tu_local u) ''..'' \<or> list_ex (\<lambda>c. is_space c \<or> c = CHR ''@'') (tu_suffix u)
              \<or> list_ex control_char (tu_suffix u) then Some Wont_sync
         else case upnSuffixes of
             None \<Rightarrow> None
           | Some xs \<Rightarrow> if list_ex (\<lambda>x. to_lower x = to_lower (tu_suffix u)) xs then None else Some Not_a_suffix)"

definition sam_problem :: "string \<Rightarrow> typed_problem option" where
  "sam_problem sam =
     (if length sam > NAME_LIMITS Limited_samAccountName then Some Sam_too_long
      else if \<not> samAccountNameSchema sam then Some Sam_invalid else None)"

definition unusable_typed :: "naming_attribute \<Rightarrow> typed_problem option \<Rightarrow> naming_deviation list" where
  "unusable_typed a problem = (case problem of None \<Rightarrow> [] | Some why \<Rightarrow> [Unusable (Typed_unusable a why)])"

(* src/packages/shared/src/naming.ts:728-797 typedNames *)
definition typedNames :: "name_overrides option \<Rightarrow> string list option \<Rightarrow> typed_names" where
  "typedNames overrides upnSuffixes =
     (let get = (\<lambda>f. clean (Option.bind overrides f));
          upnTyped = get ov_userPrincipalName;
          upn = map_option split_upn upnTyped;
          upnDeviations = unusable_typed Attr_userPrincipalName (Option.bind upnTyped (\<lambda>t. upn_problem t upnSuffixes));
          typedSam = get ov_samAccountName;
          sam = (case (typedSam, upn) of
              (None, Some u) \<Rightarrow> Some (strip_end is_separator (take (NAME_LIMITS Limited_samAccountName) (tu_local u)))
            | _ \<Rightarrow> typedSam);
          cutDeviations = (case (typedSam, upn) of
              (None, Some u) \<Rightarrow> truncation Limited_samAccountName (tu_local u) (the sam)
            | _ \<Rightarrow> []);
          samDeviations = unusable_typed Attr_samAccountName (Option.bind sam sam_problem)
      in \<lparr>tn_samAccountName = sam, tn_upn = upn, tn_displayName = get ov_displayName,
          tn_deviations = upnDeviations @ cutDeviations @ samDeviations\<rparr>)"

section \<open>Names held\<close>

text \<open>\<open>replace(/\\s*,\\s*/g, ',')\<close>: no white space at either side of a comma.\<close>

fun around_commas :: "string list \<Rightarrow> string" where
  "around_commas [] = []"
| "around_commas [s] = s"
| "around_commas (s # t # ss) =
     trim_end s @ '','' @ around_commas (trim_start t # ss)"

(* src/packages/shared/src/naming.ts:549-549 dnKey *)
definition dnKey :: "string \<Rightarrow> string" where
  "dnKey dn = around_commas (split_at (\<lambda>c. c = CHR '','') (to_lower dn))"

(* src/packages/shared/src/naming.ts:550-550 cnKey *)
definition cnKey :: "ou_name \<Rightarrow> string" where
  "cnKey u = dnKey (ou_ouDn u) @ [char_of (10 :: nat)] @ to_lower (ou_cn u)"

(* src/packages/shared/src/naming.ts:552-566 NameSet *)
record name_set =
  nset_directory :: "string list"
  nset_batch :: "string list"

definition new_name_set :: "string list \<Rightarrow> name_set" where
  "new_name_set values = \<lparr>nset_directory = map to_lower values, nset_batch = []\<rparr>"

(* src/packages/shared/src/naming.ts:558-562 holder *)
definition holder :: "name_set \<Rightarrow> string \<Rightarrow> name_source option" where
  "holder s value =
     (let key = to_lower value
      in if key \<in> set (nset_directory s) then Some From_directory
         else if key \<in> set (nset_batch s) then Some From_batch else None)"

(* src/packages/shared/src/naming.ts:563-565 claim *)
definition claim :: "string \<Rightarrow> name_set \<Rightarrow> name_set" where
  "claim value s = s\<lparr>nset_batch := to_lower value # nset_batch s\<rparr>"

record held_names =
  hn_of :: "naming_attribute \<Rightarrow> name_set"
  hn_cns :: name_set

(* src/packages/shared/src/naming.ts:697-697 ALL_ATTRIBUTES *)
definition ALL_ATTRIBUTES :: "naming_attribute list" where
  "ALL_ATTRIBUTES = [Attr_samAccountName, Attr_userPrincipalName, Attr_mail]"

(* src/packages/shared/src/naming.ts:799-801 valueOf *)
fun valueOf :: "account_names \<Rightarrow> naming_attribute \<Rightarrow> string" where
  "valueOf names Attr_samAccountName = an_samAccountName names"
| "valueOf names Attr_userPrincipalName = an_upn names"
| "valueOf names Attr_mail = an_mail names"

definition clashesOf :: "held_names \<Rightarrow> account_names \<Rightarrow> naming_attribute list \<Rightarrow> (naming_attribute \<times> name_source) list" where
  "clashesOf held names attrs =
     List.map_filter (\<lambda>a. map_option (\<lambda>source. (a, source)) (holder (hn_of held a) (valueOf names a))) attrs"

text \<open>The lowest suffix from \<open>n\<close> on that doesn't clash, or the first past the last one allowed.\<close>

function free_suffix :: "(nat \<Rightarrow> bool) \<Rightarrow> nat \<Rightarrow> nat" where
  "free_suffix clash n = (if n \<le> MAX_SUFFIX \<and> clash n then free_suffix clash (n + 1) else n)"
  by pat_completeness auto
termination
  by (relation "measure (\<lambda>(clash, n). Suc MAX_SUFFIX - n)") auto

declare free_suffix.simps [simp del]

(* src/packages/shared/src/naming.ts:803-839 collision *)
definition collision :: "account_names \<Rightarrow> account_names \<Rightarrow> nat \<Rightarrow> (naming_attribute \<times> name_source) list \<Rightarrow> bool \<Rightarrow> bool
    \<Rightarrow> naming_deviation" where
  "collision base names suffix clashes addressesClash samFree =
     Collision (if From_directory \<in> snd ` set clashes then From_directory else From_batch) (map fst clashes)
       (if addressesClash
        then (if samFree then [Attr_samAccountName, Attr_userPrincipalName, Attr_mail] else [Attr_userPrincipalName, Attr_mail])
        else [Attr_samAccountName])
       suffix
       (if addressesClash then an_upnLocal base else an_samAccountName base)
       (if addressesClash then an_upnLocal names else an_samAccountName names)"

definition blocked :: "naming_deviation list \<Rightarrow> bool" where
  "blocked ds \<longleftrightarrow> list_ex (\<lambda>d. approval d = Approve_blocked) ds"

section \<open>Suggestions\<close>

definition free_attributes :: "typed_names \<Rightarrow> naming_attribute list" where
  "free_attributes typed =
     (if tn_samAccountName typed = None then [Attr_samAccountName] else [])
     @ (if tn_upn typed = None then [Attr_userPrincipalName, Attr_mail] else [])"

definition name_candidate :: "prepared \<Rightarrow> typed_names \<Rightarrow> string \<Rightarrow> nat \<Rightarrow> bool \<Rightarrow> bool \<Rightarrow> account_names" where
  "name_candidate p typed upnSuffix n suffixSam suffixAddresses =
     accountNames
       (case tn_samAccountName typed of Some s \<Rightarrow> s | None \<Rightarrow> samWith p (if suffixSam then n else 1))
       (case tn_upn typed of Some u \<Rightarrow> tu_local u | None \<Rightarrow> upnLocalWith p (if suffixAddresses then n else 1))
       (case tn_upn typed of Some u \<Rightarrow> tu_suffix u | None \<Rightarrow> upnSuffix)"

definition takenBy :: "account_names \<Rightarrow> (naming_attribute \<times> name_source) list \<Rightarrow> naming_deviation list" where
  "takenBy base clashes = map (\<lambda>(a, source). Taken a source (valueOf base a)) clashes"

text \<open>The deviations before uniqueness is looked for, the names typed that are held included.\<close>

definition base_deviations :: "held_names \<Rightarrow> prepared \<Rightarrow> typed_names \<Rightarrow> account_names \<Rightarrow> naming_deviation list" where
  "base_deviations held p typed base =
     (if tn_upn typed = None then pr_deviations p else [])
     @ tn_deviations typed
     @ (if tn_samAccountName typed = None
        then truncation Limited_samAccountName (pr_username p) (an_samAccountName base) else [])
     @ (if tn_upn typed = None then truncation Limited_userPrincipalName (pr_username p) (an_upnLocal base) else [])
     @ (if tn_displayName typed = None then truncation Limited_displayName (pr_fullDisplayName p) (pr_displayName p) else [])
     @ takenBy base (clashesOf held base (filter (\<lambda>a. a \<notin> set (free_attributes typed)) ALL_ATTRIBUTES))"

text \<open>The names with the suffix they need and the collision it was for, or none when every suffix is taken.\<close>

definition with_suffix :: "held_names \<Rightarrow> prepared \<Rightarrow> typed_names \<Rightarrow> string \<Rightarrow> (account_names \<times> naming_deviation list) option" where
  "with_suffix held p typed upnSuffix =
     (let base = name_candidate p typed upnSuffix 1 False False;
          free = free_attributes typed;
          clashes = clashesOf held base free
      in if clashes = [] then Some (base, [])
         else
           let addressesClash = list_ex (\<lambda>(a, _). a \<noteq> Attr_samAccountName) clashes;
               checked = filter (\<lambda>a. addressesClash \<or> a = Attr_samAccountName) free;
               cand = (\<lambda>n. name_candidate p typed upnSuffix n True addressesClash);
               suffix = free_suffix (\<lambda>n. clashesOf held (cand n) checked \<noteq> []) 2
           in if suffix > MAX_SUFFIX then None
              else Some (cand suffix,
                [collision base (cand suffix) suffix clashes addressesClash (tn_samAccountName typed = None)]))"

text \<open>The CN: the display name cut to length, or that with the SAM account name in brackets.\<close>

definition choose_cn :: "name_set \<Rightarrow> string option \<Rightarrow> string \<Rightarrow> string \<Rightarrow> string \<times> naming_deviation list \<times> name_set" where
  "choose_cn cns ouDn displayName sam =
     (let cn = cutText displayName (NAME_LIMITS Limited_cn) []
      in if \<not> truthy ouDn then (cn, truncation Limited_cn displayName cn, cns)
         else
           let key = (\<lambda>c. cnKey \<lparr>ou_ouDn = the ouDn, ou_cn = c\<rparr>)
           in case holder cns (key cn) of
                None \<Rightarrow> (cn, truncation Limited_cn displayName cn, claim (key cn) cns)
              | Some source \<Rightarrow>
                  let tail = '' ('' @ sam @ '')'';
                      fallback = cutText displayName (NAME_LIMITS Limited_cn) tail
                  in (fallback,
                      Cn_collision source cn fallback (holder cns (key fallback) \<noteq> None)
                        # truncation Limited_cn (displayName @ tail) fallback,
                      claim (key fallback) cns))"

definition suggestion :: "account_names \<Rightarrow> string \<Rightarrow> string \<Rightarrow> naming_deviation list \<Rightarrow> naming_suggestion" where
  "suggestion names cn displayName deviations =
     \<lparr>sg_samAccountName = an_samAccountName names, sg_upnLocal = an_upnLocal names, sg_upn = an_upn names,
      sg_mail = an_mail names, sg_cn = cn, sg_displayName = displayName, sg_deviations = deviations\<rparr>"

definition claim_names :: "account_names \<Rightarrow> held_names \<Rightarrow> held_names" where
  "claim_names names held = held\<lparr>hn_of := (\<lambda>a. claim (valueOf names a) (hn_of held a))\<rparr>"

(* src/packages/shared/src/naming.ts:585-695 resolveNames *)
definition resolve_one :: "naming_settings \<Rightarrow> string list option \<Rightarrow> held_names \<Rightarrow> naming_request
    \<Rightarrow> pattern_problem + naming_suggestion \<times> held_names" where
  "resolve_one settings upnSuffixes held request =
     (case prepare (nr_name request) (nst_pattern settings) of
        Inl problem \<Rightarrow> Inl problem
      | Inr p \<Rightarrow>
          let typed = typedNames (nr_overrides request) upnSuffixes;
              displayName = (case tn_displayName typed of Some d \<Rightarrow> d | None \<Rightarrow> pr_displayName p);
              base = name_candidate p typed (nst_upnSuffix settings) 1 False False;
              deviations = base_deviations held p typed base;
              plainCn = cutText displayName (NAME_LIMITS Limited_cn) []
          in Inr (if blocked deviations then (suggestion base plainCn displayName deviations, held)
             else case with_suffix held p typed (nst_upnSuffix settings) of
                 None \<Rightarrow> (suggestion base plainCn displayName (deviations @ [Unusable Suffixes_used_up]), held)
               | Some (names, collisions) \<Rightarrow>
                   let held = claim_names names held;
                       (cn, cnDeviations, cns) = choose_cn (hn_cns held) (nr_ouDn request) displayName (an_samAccountName names)
                   in (suggestion names cn displayName (deviations @ collisions @ cnDeviations), held\<lparr>hn_cns := cns\<rparr>)))"

fun resolve_all :: "naming_settings \<Rightarrow> string list option \<Rightarrow> held_names \<Rightarrow> naming_request list
    \<Rightarrow> pattern_problem + naming_suggestion list" where
  "resolve_all settings upnSuffixes held [] = Inr []"
| "resolve_all settings upnSuffixes held (r # rs) =
     (case resolve_one settings upnSuffixes held r of
        Inl problem \<Rightarrow> Inl problem
      | Inr (s, held') \<Rightarrow>
          (case resolve_all settings upnSuffixes held' rs of Inl problem \<Rightarrow> Inl problem | Inr ss \<Rightarrow> Inr (s # ss)))"

definition held_in :: "taken_names \<Rightarrow> held_names" where
  "held_in taken =
     \<lparr>hn_of = (\<lambda>a. new_name_set (case a of
          Attr_samAccountName \<Rightarrow> tn_samAccountNames taken
        | Attr_userPrincipalName \<Rightarrow> tn_userPrincipalNames taken
        | Attr_mail \<Rightarrow> tn_mailAddresses taken)),
      hn_cns = new_name_set (map cnKey (tn_cns taken))\<rparr>"

(* src/packages/shared/src/naming.ts:585-695 resolveNames *)
definition resolveNames :: "naming_request list \<Rightarrow> naming_settings \<Rightarrow> taken_names \<Rightarrow> string list option
    \<Rightarrow> pattern_problem + naming_suggestion list" where
  "resolveNames requests settings taken upnSuffixes = resolve_all settings upnSuffixes (held_in taken) requests"

(* src/packages/shared/src/naming.ts:529-534 NOTHING_TAKEN *)
definition NOTHING_TAKEN :: taken_names where
  "NOTHING_TAKEN = \<lparr>tn_samAccountNames = [], tn_userPrincipalNames = [], tn_mailAddresses = [], tn_cns = []\<rparr>"

(* src/packages/shared/src/naming.ts:537-539 suggestNames *)
definition suggestNames :: "person_name \<Rightarrow> naming_settings \<Rightarrow> pattern_problem + naming_suggestion" where
  "suggestNames name settings =
     (case resolveNames [\<lparr>nr_name = name, nr_ouDn = None, nr_overrides = None\<rparr>] settings NOTHING_TAKEN None of
        Inl problem \<Rightarrow> Inl problem | Inr ss \<Rightarrow> Inr (hd ss))"

section \<open>What to look up\<close>

fun common_with :: "string \<Rightarrow> string \<Rightarrow> string" where
  "common_with (a # s) (b # t) = (if a = b then a # common_with s t else [])"
| "common_with _ _ = []"

(* src/packages/shared/src/naming.ts:841-847 commonPrefix *)
definition commonPrefix :: "string list \<Rightarrow> string" where
  "commonPrefix values = foldl common_with (if values = [] then [] else hd values) values"

definition budgets :: "prepared \<Rightarrow> nat \<Rightarrow> string list" where
  "budgets p limit = map (\<lambda>digits. fit p (limit - digits)) [0, 1, 2, 3]"

definition add_once :: "string \<Rightarrow> string list \<Rightarrow> string list" where
  "add_once x xs = (if x \<in> set xs then xs else xs @ [x])"

definition add_ou_name :: "ou_name \<Rightarrow> (string, ou_name) jsmap \<Rightarrow> (string, ou_name) jsmap" where
  "add_ou_name u m = jm_set (cnKey u) u m"

record lookup_sets =
  ls_sam :: "string list"
  ls_upn :: "string list"
  ls_cns :: "(string, ou_name) jsmap"
  ls_cnPrefixes :: "(string, ou_name) jsmap"

definition cn_prefix_of :: "string \<Rightarrow> string" where
  "cn_prefix_of displayName =
     (let longestTail = NAME_LIMITS Limited_samAccountName + 3
      in if length displayName + longestTail \<le> NAME_LIMITS Limited_cn then displayName @ '' (''
         else trim_end (take (NAME_LIMITS Limited_cn - longestTail) displayName))"

definition add_lookups :: "prepared \<Rightarrow> naming_request \<Rightarrow> lookup_sets \<Rightarrow> lookup_sets" where
  "add_lookups p request s =
     (let typed = typedNames (nr_overrides request) None;
          displayName = (case tn_displayName typed of Some d \<Rightarrow> d | None \<Rightarrow> pr_displayName p);
          s = (case tn_samAccountName typed of
                 Some sam \<Rightarrow> s\<lparr>ls_sam := add_once sam (ls_sam s)\<rparr>
               | None \<Rightarrow> if pr_username p = [] then s
                   else s\<lparr>ls_sam := add_once (commonPrefix (budgets p (NAME_LIMITS Limited_samAccountName))) (ls_sam s)\<rparr>);
          s = (case tn_upn typed of
                 Some u \<Rightarrow> s\<lparr>ls_upn := add_once (tu_local u) (ls_upn s)\<rparr>
               | None \<Rightarrow> if pr_username p = [] then s
                   else s\<lparr>ls_upn := add_once (commonPrefix (budgets p (NAME_LIMITS Limited_userPrincipalName))) (ls_upn s)\<rparr>)
      in if \<not> truthy (nr_ouDn request) then s
         else s\<lparr>ls_cns := add_ou_name \<lparr>ou_ouDn = the (nr_ouDn request), ou_cn = cutText displayName (NAME_LIMITS Limited_cn) []\<rparr> (ls_cns s),
                ls_cnPrefixes := add_ou_name \<lparr>ou_ouDn = the (nr_ouDn request), ou_cn = cn_prefix_of displayName\<rparr> (ls_cnPrefixes s)\<rparr>)"

fun lookups_from :: "string \<Rightarrow> naming_request list \<Rightarrow> lookup_sets \<Rightarrow> pattern_problem + lookup_sets" where
  "lookups_from pattern [] s = Inr s"
| "lookups_from pattern (r # rs) s =
     (case prepare (nr_name r) pattern of Inl problem \<Rightarrow> Inl problem | Inr p \<Rightarrow> lookups_from pattern rs (add_lookups p r s))"

(* src/packages/shared/src/naming.ts:864-899 namingLookups *)
definition namingLookups :: "naming_request list \<Rightarrow> naming_settings \<Rightarrow> pattern_problem + naming_lookups" where
  "namingLookups requests settings =
     (case lookups_from (nst_pattern settings) requests \<lparr>ls_sam = [], ls_upn = [], ls_cns = [], ls_cnPrefixes = []\<rparr> of
        Inl problem \<Rightarrow> Inl problem
      | Inr s \<Rightarrow> Inr \<lparr>nl_samAccountNamePrefixes = ls_sam s, nl_upnLocalPrefixes = ls_upn s,
                     nl_cns = map snd (ls_cns s), nl_cnPrefixes = map snd (ls_cnPrefixes s)\<rparr>)"

end
