(* ===== verification/NamingClaims.thy ===== *)
theory NamingClaims
  imports NameSuggestions
begin

text \<open>
  What the names of new accounts come to: no two people get one name and nobody a name already held, the
  names fit their limits and are ones the directory and Entra take, and looking up what
  \<^verbatim>\<open>namingLookups\<close> asks for is as good as knowing every name of the directory.
\<close>

section \<open>Names held\<close>

lemma holder_None: "holder s v = None \<longleftrightarrow> to_lower v \<notin> set (nset_directory s) \<and> to_lower v \<notin> set (nset_batch s)"
  by (simp add: holder_def Let_def)

lemma holder_claim: "holder (claim w s) v = None \<longleftrightarrow> holder s v = None \<and> to_lower v \<noteq> to_lower w"
  by (auto simp: holder_None claim_def)

lemma clashes_none: "clashesOf held names attrs = [] \<longleftrightarrow> (\<forall>a\<in>set attrs. holder (hn_of held a) (valueOf names a) = None)"
  by (induction attrs) (auto simp: clashesOf_def List.map_filter_def)

text \<open>Everything held before is held afterwards.\<close>

definition kept_held :: "name_set \<Rightarrow> name_set \<Rightarrow> bool" where
  "kept_held s t \<longleftrightarrow> (\<forall>v. holder t v = None \<longrightarrow> holder s v = None)"

definition all_kept :: "held_names \<Rightarrow> held_names \<Rightarrow> bool" where
  "all_kept h k \<longleftrightarrow> (\<forall>a. kept_held (hn_of h a) (hn_of k a)) \<and> kept_held (hn_cns h) (hn_cns k)"

lemma kept_held_refl [simp]: "kept_held s s"
  and kept_held_trans: "kept_held s t \<Longrightarrow> kept_held t u \<Longrightarrow> kept_held s u"
  and kept_claim [simp]: "kept_held s (claim v s)"
  by (auto simp: kept_held_def holder_claim)

lemma all_kept_refl [simp]: "all_kept h h"
  and all_kept_trans: "all_kept h k \<Longrightarrow> all_kept k l \<Longrightarrow> all_kept h l"
  unfolding all_kept_def by (auto intro: kept_held_trans)

section \<open>One request\<close>

lemma ALL_ATTRIBUTES_all: "a \<in> set ALL_ATTRIBUTES"
  by (cases a) (simp_all add: ALL_ATTRIBUTES_def)

text \<open>The suffix found is the first from \<open>n\<close> on that is free, if one is.\<close>

lemma free_suffix_step:
  "free_suffix clash n = (if n \<le> MAX_SUFFIX \<and> clash n then free_suffix clash (Suc n) else n)"
  by (subst free_suffix.simps) simp

lemma free_suffix_free: "free_suffix clash n \<le> MAX_SUFFIX \<Longrightarrow> \<not> clash (free_suffix clash n)"
proof (induction clash n rule: free_suffix.induct)
  case (1 clash n)
  then show ?case
    by (cases "n \<le> MAX_SUFFIX \<and> clash n") (simp_all add: free_suffix_step [of clash n])
qed

lemma free_suffix_ge: "n \<le> free_suffix clash n"
proof (induction clash n rule: free_suffix.induct)
  case (1 clash n)
  then show ?case by (subst free_suffix_step) auto
qed

lemma free_suffix_least: "n \<le> m \<Longrightarrow> m < free_suffix clash n \<Longrightarrow> clash m"
proof (induction clash n rule: free_suffix.induct)
  case (1 clash n)
  show ?case
  proof (cases "n \<le> MAX_SUFFIX \<and> clash n")
    case True
    with 1 show ?thesis by (cases "n = m") (simp_all add: free_suffix_step [of clash n])
  next
    case False
    with 1 show ?thesis by (simp add: free_suffix_step [of clash n])
  qed
qed

text \<open>A typed name is the same whatever the suffix, and so is an address that isn't to take one.\<close>

lemma typed_value: "a \<notin> set (free_attributes typed) \<Longrightarrow>
    valueOf (name_candidate p typed sfx n s b) a = valueOf (name_candidate p typed sfx m t c) a"
  by (cases a) (auto simp: free_attributes_def name_candidate_def accountNames_def Let_def split: option.split if_splits)

lemma unsuffixed_address: "a \<noteq> Attr_samAccountName \<Longrightarrow>
    valueOf (name_candidate p typed sfx n s False) a = valueOf (name_candidate p typed sfx m t False) a"
  by (cases a) (simp_all add: name_candidate_def accountNames_def Let_def)

lemma with_suffix_free:
  assumes "with_suffix held p typed sfx = Some (names, ds)"
    and "clashesOf held (name_candidate p typed sfx 1 False False) (filter (\<lambda>a. a \<notin> set (free_attributes typed)) ALL_ATTRIBUTES) = []"
  shows "holder (hn_of held a) (valueOf names a) = None"
proof -
  let ?base = "name_candidate p typed sfx 1 False False"
  let ?clashes = "clashesOf held ?base (free_attributes typed)"
  let ?addr = "list_ex (\<lambda>(a, _). a \<noteq> Attr_samAccountName) ?clashes"
  let ?cand = "\<lambda>n. name_candidate p typed sfx n True ?addr"
  let ?checked = "filter (\<lambda>a. ?addr \<or> a = Attr_samAccountName) (free_attributes typed)"
  let ?n = "free_suffix (\<lambda>n. clashesOf held (?cand n) ?checked \<noteq> []) 2"
  have typed: "holder (hn_of held a) (valueOf ?base a) = None" if "a \<notin> set (free_attributes typed)"
    using assms(2) that by (simp add: clashes_none ALL_ATTRIBUTES_all)
  show ?thesis
  proof (cases "?clashes = []")
    case True
    with assms(1) have "names = ?base" by (simp add: with_suffix_def Let_def)
    with True typed show ?thesis by (auto simp: clashes_none)
  next
    case False
    with assms(1) have names: "names = ?cand ?n" and n: "?n \<le> MAX_SUFFIX"
      by (auto simp: with_suffix_def Let_def split: if_splits)
    have free: "holder (hn_of held b) (valueOf names b) = None" if "b \<in> set ?checked" for b
      using free_suffix_free [OF n] that unfolding names not_not clashes_none by blast
    consider "a \<notin> set (free_attributes typed)" | "a \<in> set ?checked"
      | "a \<in> set (free_attributes typed)" "a \<noteq> Attr_samAccountName" "\<not> ?addr" by auto
    then show ?thesis
    proof cases
      case 1
      with typed show ?thesis unfolding names by (metis typed_value)
    next
      case 2
      then show ?thesis by (rule free)
    next
      case 3
      have "holder (hn_of held a) (valueOf ?base a) = None"
      proof (rule ccontr)
        assume "holder (hn_of held a) (valueOf ?base a) \<noteq> None"
        with 3(1) have "a \<in> fst ` set ?clashes"
          by (force simp: clashesOf_def List.map_filter_def)
        with 3(2,3) show False by (auto simp: list_ex_iff)
      qed
      moreover have "valueOf names a = valueOf ?base a"
        unfolding names using 3 by (simp add: unsuffixed_address [where s = True and t = False])
      ultimately show ?thesis by simp
    qed
  qed
qed

text \<open>A suggestion, the names it was made of, and what is held after it.\<close>

fun given :: "naming_suggestion \<Rightarrow> naming_attribute \<Rightarrow> string" where
  "given s Attr_samAccountName = sg_samAccountName s"
| "given s Attr_userPrincipalName = sg_upn s"
| "given s Attr_mail = sg_mail s"

definition given_cn :: "naming_request \<Rightarrow> naming_suggestion \<Rightarrow> string" where
  "given_cn r s = cnKey \<lparr>ou_ouDn = the (nr_ouDn r), ou_cn = sg_cn s\<rparr>"

lemma given_suggestion [simp]: "given (suggestion names cn d ds) a = valueOf names a"
  by (cases a) (simp_all add: suggestion_def)

lemma suggestion_simps [simp]:
  "sg_cn (suggestion names cn d ds) = cn" "sg_deviations (suggestion names cn d ds) = ds"
  "sg_samAccountName (suggestion names cn d ds) = an_samAccountName names"
  "sg_upnLocal (suggestion names cn d ds) = an_upnLocal names"
  by (simp_all add: suggestion_def)

lemma blocked_simps [simp]:
  "\<not> blocked []" "blocked (d # ds) \<longleftrightarrow> approval d = Approve_blocked \<or> blocked ds"
  "blocked (ds @ es) \<longleftrightarrow> blocked ds \<or> blocked es"
  by (auto simp: blocked_def)

lemma blocked_taken: "\<not> blocked (takenBy base clashes) \<longleftrightarrow> clashes = []"
  by (cases clashes) (auto simp: takenBy_def blocked_def)

lemma choose_cn_kept: "choose_cn cns ouDn d sam = (cn, ds, cns') \<Longrightarrow> kept_held cns cns'"
  by (auto simp: choose_cn_def Let_def split: if_splits option.splits)

lemma choose_cn_free:
  "choose_cn cns ouDn d sam = (cn, ds, cns') \<Longrightarrow> truthy ouDn \<Longrightarrow> \<not> blocked ds \<Longrightarrow>
     holder cns (cnKey \<lparr>ou_ouDn = the ouDn, ou_cn = cn\<rparr>) = None
     \<and> cns' = claim (cnKey \<lparr>ou_ouDn = the ouDn, ou_cn = cn\<rparr>) cns"
  by (auto simp: choose_cn_def Let_def split: if_splits option.splits)

text \<open>What a request comes to: refused as typed, no suffix left, or names free of every clash.\<close>

lemma resolve_one_cases:
  assumes "resolve_one settings sfxs held r = Inr (s, held')"
  obtains (Blocked) "blocked (sg_deviations s)" "held' = held"
  | (Given) p names collisions cnDeviations cns displayName where
      "prepare (nr_name r) (nst_pattern settings) = Inr p"
      "displayName = (case tn_displayName (typedNames (nr_overrides r) sfxs) of Some d \<Rightarrow> d | None \<Rightarrow> pr_displayName p)"
      "\<not> blocked (base_deviations held p (typedNames (nr_overrides r) sfxs)
          (name_candidate p (typedNames (nr_overrides r) sfxs) (nst_upnSuffix settings) 1 False False))"
      "with_suffix held p (typedNames (nr_overrides r) sfxs) (nst_upnSuffix settings) = Some (names, collisions)"
      "choose_cn (hn_cns held) (nr_ouDn r) displayName (an_samAccountName names) = (sg_cn s, cnDeviations, cns)"
      "\<And>a. given s a = valueOf names a" "sg_samAccountName s = an_samAccountName names" "sg_upnLocal s = an_upnLocal names"
      "blocked (sg_deviations s) \<longleftrightarrow> blocked collisions \<or> blocked cnDeviations"
      "held' = (claim_names names held)\<lparr>hn_cns := cns\<rparr>"
proof -
  let ?typed = "typedNames (nr_overrides r) sfxs"
  from assms obtain p where p: "prepare (nr_name r) (nst_pattern settings) = Inr p"
    by (simp add: resolve_one_def split: sum.splits)
  define d where "d = (case tn_displayName ?typed of Some d \<Rightarrow> d | None \<Rightarrow> pr_displayName p)"
  let ?base = "name_candidate p ?typed (nst_upnSuffix settings) 1 False False"
  let ?ds = "base_deviations held p ?typed ?base"
  note unfolded = assms [unfolded resolve_one_def p sum.case Let_def, folded d_def]
  show thesis
  proof (cases "blocked ?ds")
    case True
    with unfolded have "s = suggestion ?base (cutText d (NAME_LIMITS Limited_cn) []) d ?ds" "held' = held" by auto
    with True show thesis by (intro Blocked) simp_all
  next
    case open': False
    show thesis
    proof (cases "with_suffix held p ?typed (nst_upnSuffix settings)")
      case None
      with open' unfolded have "s = suggestion ?base (cutText d (NAME_LIMITS Limited_cn) []) d (?ds @ [Unusable Suffixes_used_up])"
          "held' = held" by auto
      then show thesis by (intro Blocked) simp_all
    next
      case (Some nc)
      obtain names collisions where nc: "nc = (names, collisions)" by (cases nc)
      obtain cn cnDeviations cns where
        cn: "choose_cn (hn_cns (claim_names names held)) (nr_ouDn r) d (an_samAccountName names) = (cn, cnDeviations, cns)"
        by (cases "choose_cn (hn_cns (claim_names names held)) (nr_ouDn r) d (an_samAccountName names)")
      have "s = suggestion names cn d (?ds @ collisions @ cnDeviations)" "held' = (claim_names names held)\<lparr>hn_cns := cns\<rparr>"
        using unfolded open' Some nc cn by auto
      with open' Some nc cn show thesis
        by (intro Given [OF p d_def]) (simp_all add: claim_names_def)
    qed
  qed
qed

lemma resolve_one_kept: "resolve_one settings sfxs held r = Inr (s, held') \<Longrightarrow> all_kept held held'"
  by (erule resolve_one_cases) (auto simp: all_kept_def claim_names_def dest: choose_cn_kept)

lemma base_unblocked:
  "\<not> blocked (base_deviations held p typed base) \<Longrightarrow>
     clashesOf held base (filter (\<lambda>a. a \<notin> set (free_attributes typed)) ALL_ATTRIBUTES) = []"
  by (simp add: base_deviations_def blocked_taken)

lemma resolve_one_given:
  assumes "resolve_one settings sfxs held r = Inr (s, held')" "\<not> blocked (sg_deviations s)"
  shows "holder (hn_of held a) (given s a) = None \<and> hn_of held' a = claim (given s a) (hn_of held a)"
    and "truthy (nr_ouDn r) \<Longrightarrow> holder (hn_cns held) (given_cn r s) = None \<and> hn_cns held' = claim (given_cn r s) (hn_cns held)"
  using assms
  by (auto elim!: resolve_one_cases simp: claim_names_def given_cn_def dest: with_suffix_free [OF _ base_unblocked] choose_cn_free)

section \<open>No name twice\<close>

text \<open>The lists a request is judged against, one after another.\<close>

lemma resolve_all_nth:
  "resolve_all settings sfxs held rs = Inr ss \<Longrightarrow> length ss = length rs \<and> (\<forall>i<length rs. \<exists>before after.
     all_kept held before \<and> resolve_one settings sfxs before (rs ! i) = Inr (ss ! i, after)
     \<and> (\<forall>j<length rs. i < j \<longrightarrow> (\<exists>later last'. all_kept after later \<and> resolve_one settings sfxs later (rs ! j) = Inr (ss ! j, last'))))"
proof (induction rs arbitrary: held ss)
  case (Cons r rs)
  from Cons.prems obtain s held' ss' where one: "resolve_one settings sfxs held r = Inr (s, held')"
    and ss': "resolve_all settings sfxs held' rs = Inr ss'" and ss: "ss = s # ss'"
    by (auto split: sum.splits prod.splits)
  note IH = Cons.IH [OF ss']
  note kept = resolve_one_kept [OF one]
  show ?case
  proof (intro conjI allI impI)
    show "length ss = length (r # rs)" using IH ss by simp
    fix i assume i: "i < length (r # rs)"
    show "\<exists>before after. all_kept held before \<and> resolve_one settings sfxs before ((r # rs) ! i) = Inr (ss ! i, after)
       \<and> (\<forall>j<length (r # rs). i < j \<longrightarrow> (\<exists>later last'. all_kept after later
            \<and> resolve_one settings sfxs later ((r # rs) ! j) = Inr (ss ! j, last')))"
    proof (cases i)
      case 0
      have "\<exists>later last'. all_kept held' later \<and> resolve_one settings sfxs later ((r # rs) ! j) = Inr (ss ! j, last')"
        if "j < length (r # rs)" "0 < j" for j
      proof -
        from that obtain k where "j = Suc k" "k < length rs" by (cases j) auto
        with IH ss show ?thesis by (metis nth_Cons_Suc)
      qed
      with 0 one ss show ?thesis by (intro exI [of _ held] exI [of _ held']) auto
    next
      case (Suc k)
      with i have "k < length rs" by simp
      with IH obtain before after where "all_kept held' before" "resolve_one settings sfxs before (rs ! k) = Inr (ss' ! k, after)"
        and later: "\<forall>j<length rs. k < j \<longrightarrow> (\<exists>later last'. all_kept after later \<and> resolve_one settings sfxs later (rs ! j) = Inr (ss' ! j, last'))"
        by blast
      moreover have "\<exists>later last'. all_kept after later \<and> resolve_one settings sfxs later ((r # rs) ! j) = Inr (ss ! j, last')"
        if "j < length (r # rs)" "i < j" for j
      proof -
        from that Suc obtain l where "j = Suc l" "l < length rs" "k < l" by (cases j) auto
        with later ss show ?thesis by (metis nth_Cons_Suc)
      qed
      ultimately show ?thesis using Suc ss kept by (intro exI [of _ before] exI [of _ after]) (auto intro: all_kept_trans)
    qed
  qed
qed simp

text \<open>The values the directory holds for an attribute.\<close>

fun held_values :: "taken_names \<Rightarrow> naming_attribute \<Rightarrow> string list" where
  "held_values taken Attr_samAccountName = tn_samAccountNames taken"
| "held_values taken Attr_userPrincipalName = tn_userPrincipalNames taken"
| "held_values taken Attr_mail = tn_mailAddresses taken"

lemma holder_new: "holder (new_name_set vs) v = None \<longleftrightarrow> to_lower v \<notin> to_lower ` set vs"
  by (simp add: holder_None new_name_set_def)

lemma held_in_of: "hn_of (held_in taken) a = new_name_set (held_values taken a)"
  by (cases a) (simp_all add: held_in_def)

lemma keptD: "kept_held s t \<Longrightarrow> holder t v = None \<Longrightarrow> holder s v = None"
  by (simp add: kept_held_def)

text \<open>
  C32. No name is given twice and none that is held. Of the suggestions that aren't blocked, each has a
  SAM account name, a UPN and a mail address the directory doesn't hold in any case, and an earlier
  unblocked suggestion of the same list doesn't have; and where an OU is given, a CN neither held in
  that OU nor given in it before.
\<close>

theorem names_are_given_once:
  assumes "resolveNames requests settings taken upnSuffixes = Inr ss"
    and "i < length ss" "\<not> blocked (sg_deviations (ss ! i))"
  shows "to_lower (given (ss ! i) a) \<notin> to_lower ` set (held_values taken a)
     \<and> (truthy (nr_ouDn (requests ! i)) \<longrightarrow> given_cn (requests ! i) (ss ! i) \<notin> cnKey ` set (tn_cns taken))
     \<and> (\<forall>j<i. \<not> blocked (sg_deviations (ss ! j)) \<longrightarrow>
          to_lower (given (ss ! i) a) \<noteq> to_lower (given (ss ! j) a)
          \<and> (truthy (nr_ouDn (requests ! i)) \<and> truthy (nr_ouDn (requests ! j)) \<longrightarrow>
               given_cn (requests ! i) (ss ! i) \<noteq> given_cn (requests ! j) (ss ! j)))"
proof -
  have all: "resolve_all settings upnSuffixes (held_in taken) requests = Inr ss" using assms(1) by (simp add: resolveNames_def)
  note nth = resolve_all_nth [OF all]
  have i: "i < length requests" using nth assms(2) by simp
  obtain before after where before: "all_kept (held_in taken) before"
      "resolve_one settings upnSuffixes before (requests ! i) = Inr (ss ! i, after)" using nth i by blast
  note here = resolve_one_given [OF before(2) assms(3)]
  have free: "to_lower (given (ss ! i) a) \<notin> to_lower ` set (held_values taken a)"
    using here(1) [of a] before(1) unfolding all_kept_def holder_new [symmetric] held_in_of [symmetric] by (blast dest: keptD)
  have free_cn: "given_cn (requests ! i) (ss ! i) \<notin> cnKey ` set (tn_cns taken)" if "truthy (nr_ouDn (requests ! i))"
  proof -
    have "holder (hn_cns (held_in taken)) (given_cn (requests ! i) (ss ! i)) = None"
      using here(2) [OF that] before(1) unfolding all_kept_def by (blast dest: keptD)
    then show ?thesis by (auto simp: held_in_def holder_new image_image given_cn_def)
  qed
  have once: "to_lower (given (ss ! i) a) \<noteq> to_lower (given (ss ! j) a)
      \<and> (truthy (nr_ouDn (requests ! i)) \<and> truthy (nr_ouDn (requests ! j)) \<longrightarrow>
           given_cn (requests ! i) (ss ! i) \<noteq> given_cn (requests ! j) (ss ! j))"
    if j: "j < i" and open': "\<not> blocked (sg_deviations (ss ! j))" for j
  proof -
    from j i nth obtain b af later last' where b: "resolve_one settings upnSuffixes b (requests ! j) = Inr (ss ! j, af)"
      and later: "all_kept af later" "resolve_one settings upnSuffixes later (requests ! i) = Inr (ss ! i, last')"
      by (meson order.strict_trans)
    note before' = resolve_one_given [OF b open'] and now = resolve_one_given [OF later(2) assms(3)]
    have "holder (hn_of af a) (given (ss ! i) a) = None"
      using now(1) [of a] later(1) unfolding all_kept_def by (blast dest: keptD)
    moreover have "holder (hn_cns af) (given_cn (requests ! i) (ss ! i)) = None" if "truthy (nr_ouDn (requests ! i))"
      using now(2) [OF that] later(1) unfolding all_kept_def by (blast dest: keptD)
    ultimately show ?thesis using before' by (auto simp: holder_claim given_cn_def)
  qed
  show ?thesis using free free_cn once by blast
qed

end
