(* ===== verification/NamingText.thy ===== *)
theory NamingText
  imports NameSuggestions
begin

text \<open>
  What a username the pattern builds is made of: lower-case letters, digits and single separators, never
  at an end, and never nothing when a name the pattern asks for is left; and what shortening keeps of that.
\<close>

section \<open>Separators\<close>

definition tidy :: "string \<Rightarrow> bool" where
  "tidy s \<longleftrightarrow> list_all is_literal_char s \<and> \<not> doubled_separator s
     \<and> (s \<noteq> [] \<longrightarrow> \<not> is_separator (hd s) \<and> \<not> is_separator (last s))"

lemma doubled_Cons: "doubled_separator (c # s) \<longleftrightarrow> s \<noteq> [] \<and> (is_separator c \<and> is_separator (hd s) \<or> doubled_separator s)"
  by (cases s) auto

lemma doubled_append: "doubled_separator s \<or> doubled_separator t \<Longrightarrow> doubled_separator (s @ t)"
  by (induction s) (auto simp: doubled_Cons)

lemma single_separators_ok:
  "\<not> doubled_separator (single_separators b s) \<and> (b \<and> single_separators b s \<noteq> [] \<longrightarrow> \<not> is_separator (hd (single_separators b s)))"
proof (induction s arbitrary: b)
  case (Cons c s)
  then show ?case by (auto simp: doubled_Cons)
qed simp

lemma set_single_separators: "set (single_separators b s) \<subseteq> set s"
  by (induction b s rule: single_separators.induct) auto

lemma single_separators_keeps: "c \<in> set s \<Longrightarrow> \<not> is_separator c \<Longrightarrow> c \<in> set (single_separators b s)"
  by (induction b s rule: single_separators.induct) auto

lemma strip_end_prefix: "\<exists>t. s = strip_end p s @ t"
  unfolding strip_end_def by (metis rev_append rev_rev_ident takeWhile_dropWhile_id)

lemma strip_end_snoc: "strip_end p (s @ [c]) = (if p c then strip_end p s else s @ [c])"
  by (simp add: strip_end_def)

lemma strip_end_last: "strip_end p s \<noteq> [] \<Longrightarrow> \<not> p (last (strip_end p s))"
  by (induction s rule: rev_induct) (auto simp: strip_end_snoc strip_end_def [of p "[]"])

lemma strip_end_keeps: "c \<in> set s \<Longrightarrow> \<not> p c \<Longrightarrow> c \<in> set (strip_end p s)"
  by (induction s rule: rev_induct) (auto simp: strip_end_snoc)

lemma strip_end_hd: "s \<noteq> [] \<Longrightarrow> \<not> p (hd s) \<Longrightarrow> strip_end p s \<noteq> [] \<and> hd (strip_end p s) = hd s"
  by (induction s rule: rev_induct) (auto simp: strip_end_snoc hd_append)

lemma strip_end_length: "length (strip_end p s) \<le> length s"
  by (simp add: strip_end_def) (metis length_dropWhile_le length_rev)

lemma dropWhile_keeps: "c \<in> set s \<Longrightarrow> \<not> p c \<Longrightarrow> c \<in> set (dropWhile p s)"
  by (induction s) auto

lemma strip_ends_keeps: "c \<in> set s \<Longrightarrow> \<not> p c \<Longrightarrow> c \<in> set (strip_ends p s)"
  unfolding strip_ends_def by (intro strip_end_keeps dropWhile_keeps)

text \<open>Stripping the ends of a text leaves a piece of it.\<close>

lemma strip_ends_piece: "\<exists>a b. s = a @ strip_ends p s @ b"
  unfolding strip_ends_def by (metis strip_end_prefix takeWhile_dropWhile_id)

lemma set_strip_ends: "set (strip_ends p s) \<subseteq> set s"
  using strip_ends_piece [of s p] by (metis Un_upper1 Un_upper2 order_trans set_append)

lemma strip_ends_hd: "strip_ends p s \<noteq> [] \<Longrightarrow> \<not> p (hd (strip_ends p s))"
proof -
  assume ne: "strip_ends p s \<noteq> []"
  then have "dropWhile p s \<noteq> []" unfolding strip_ends_def strip_end_def by (metis dropWhile.simps(1) rev.simps(1))
  then have "\<not> p (hd (dropWhile p s))" by (rule hd_dropWhile)
  with \<open>dropWhile p s \<noteq> []\<close> strip_end_hd [of "dropWhile p s" p] show ?thesis by (simp add: strip_ends_def)
qed

lemma strip_ends_last: "strip_ends p s \<noteq> [] \<Longrightarrow> \<not> p (last (strip_ends p s))"
  unfolding strip_ends_def by (rule strip_end_last)

lemma tidy_stripped:
  assumes "list_all is_literal_char s"
  shows "tidy (strip_ends is_separator (single_separators False s))"
proof -
  let ?t = "single_separators False s"
  obtain a b where "?t = a @ strip_ends is_separator ?t @ b" using strip_ends_piece by blast
  then have "\<not> doubled_separator (strip_ends is_separator ?t)"
    using single_separators_ok [of False s] doubled_append by metis
  moreover have "list_all is_literal_char (strip_ends is_separator ?t)"
    using assms set_strip_ends [of is_separator ?t] set_single_separators [of False s] by (auto simp: list_all_iff)
  ultimately show ?thesis by (simp add: tidy_def strip_ends_hd strip_ends_last)
qed

lemma tidy_cut:
  assumes "tidy s"
  shows "tidy (strip_end is_separator (take n s))"
proof -
  obtain t u where t: "take n s = strip_end is_separator (take n s) @ t" and u: "s = take n s @ u"
    using strip_end_prefix [of "take n s"] append_take_drop_id [of n s] by metis
  let ?c = "strip_end is_separator (take n s)"
  have s: "s = ?c @ (t @ u)" using t u by (metis append.assoc)
  have "list_all is_literal_char ?c" "\<not> doubled_separator ?c"
    using assms s doubled_append [of ?c "t @ u"] unfolding tidy_def by (metis list_all_append)+
  moreover have "\<not> is_separator (hd ?c)" if "?c \<noteq> []"
    using assms s that unfolding tidy_def by (metis hd_append2 append_is_Nil_conv)
  moreover have "\<not> is_separator (last ?c)" if "?c \<noteq> []" using that by (rule strip_end_last)
  ultimately show ?thesis by (simp add: tidy_def)
qed

lemma literal_digit: "is_digit c \<Longrightarrow> is_literal_char c \<and> \<not> is_separator c"
  by (auto simp: is_literal_char_def is_separator_def) (simp_all add: is_digit_def)

lemma doubled_snoc: "\<not> is_separator d \<Longrightarrow> \<not> doubled_separator t \<Longrightarrow> \<not> doubled_separator (t @ [d])"
  by (induction t) (auto simp: doubled_Cons hd_append)

lemma tidy_snoc: "tidy s \<Longrightarrow> s \<noteq> [] \<Longrightarrow> is_digit d \<Longrightarrow> tidy (s @ [d])"
  using literal_digit [of d] doubled_snoc [of d s] by (simp add: tidy_def)

lemma tidy_digits: "list_all is_digit ds \<Longrightarrow> tidy s \<Longrightarrow> s \<noteq> [] \<Longrightarrow> tidy (s @ ds)"
proof (induction ds rule: rev_induct)
  case (snoc d ds)
  then show ?case using tidy_snoc [of "s @ ds" d] by simp
qed simp

section \<open>Parts of a name\<close>

definition name_char :: "char \<Rightarrow> bool" where
  "name_char c \<longleftrightarrow> is_lower_az c \<or> c = CHR ''-''"

text \<open>Letters and hyphens, the first a letter.\<close>

definition name_part :: "string \<Rightarrow> bool" where
  "name_part s \<longleftrightarrow> list_all name_char s \<and> (s \<noteq> [] \<longrightarrow> is_lower_az (hd s))"

lemma lower_az_plain: "is_lower_az c \<Longrightarrow> is_literal_char c \<and> \<not> is_separator c \<and> c \<noteq> CHR ''-''"
  by (auto simp: is_literal_char_def is_separator_def is_lower_az_def Let_def)

lemma name_char_literal: "name_char c \<Longrightarrow> is_literal_char c"
  by (auto simp: name_char_def is_literal_char_def is_separator_def)

lemma hyphen_point: "char_of (45 :: int) = CHR ''-''"
  by code_simp

lemma point_char: "0 \<le> n \<Longrightarrow> n < 256 \<Longrightarrow> (of_char (char_of n :: char) :: nat) = nat n"
proof -
  assume n: "0 \<le> n" "n < 256"
  have "int (of_char (char_of n :: char)) = of_char (char_of n :: char)" by (rule of_nat_of_char)
  also have "\<dots> = n" using n by (simp add: of_char_of)
  finally show ?thesis by simp
qed

lemma kept_point_char: "kept_point n \<Longrightarrow> name_char (char_of (lower_point n))"
  by (auto simp: hyphen_point kept_point_def ascii_letter_def lower_point_def name_char_def is_lower_az_def point_char Let_def)

lemma set_single_hyphens: "set (single_hyphens b s) \<subseteq> set s"
  by (induction b s rule: single_hyphens.induct) auto

lemma normalized_part: "name_part (fst (normalizePart field raw))"
proof -
  define kept where "kept = map (\<lambda>n. char_of (lower_point n) :: char) (filter kept_point (fst (simplify field raw)))"
  let ?s = "strip_ends (\<lambda>c. c = CHR ''-'') (single_hyphens False kept)"
  have "list_all name_char kept" by (auto simp: kept_def list_all_iff kept_point_char)
  then have "list_all name_char ?s"
    using set_strip_ends [of "\<lambda>c. c = CHR ''-''" "single_hyphens False kept"] set_single_hyphens [of False kept]
    by (auto simp: list_all_iff)
  moreover have "is_lower_az (hd ?s)" if "?s \<noteq> []"
    using strip_ends_hd [OF that] that \<open>list_all name_char ?s\<close> by (cases ?s) (auto simp: name_char_def)
  moreover have "fst (normalizePart field raw) = ?s" by (simp add: normalizePart_def Let_def kept_def)
  ultimately show ?thesis by (simp add: name_part_def)
qed

definition values_ok :: "token_values \<Rightarrow> bool" where
  "values_ok v \<longleftrightarrow> name_part (tv_first v) \<and> name_part (tv_last v) \<and> list_all name_char (tv_mi v)"

definition segments_ok :: "segment list \<Rightarrow> bool" where
  "segments_ok segs \<longleftrightarrow> (\<forall>s. Seg_literal s \<in> set segs \<longrightarrow> list_all is_literal_char s)"

text \<open>A name the pattern asks for is left.\<close>

definition someone :: "segment list \<Rightarrow> token_values \<Rightarrow> bool" where
  "someone segs v \<longleftrightarrow> (\<exists>t. Seg_token t \<in> set segs
     \<and> ((t = Token_first \<or> t = Token_f) \<and> tv_first v \<noteq> [] \<or> (t = Token_last \<or> t = Token_l) \<and> tv_last v \<noteq> []))"

lemma name_part_take: "name_part s \<Longrightarrow> name_part (take n s)"
  by (cases n; cases s) (auto simp: name_part_def list_all_iff dest: in_set_takeD)

lemma segment_literal: "values_ok v \<Longrightarrow> segments_ok segs \<Longrightarrow> s \<in> set segs \<Longrightarrow> list_all is_literal_char (segment_text v s)"
proof (cases s)
  case (Seg_token t)
  assume "values_ok v"
  then show ?thesis using name_part_take Seg_token
    by (cases t) (auto simp: values_ok_def name_part_def list_all_iff dest!: in_set_takeD intro: name_char_literal)
qed (auto simp: segments_ok_def)

lemma render_tidy: "values_ok v \<Longrightarrow> segments_ok segs \<Longrightarrow> tidy (render segs v)"
  unfolding render_def by (rule tidy_stripped) (auto simp: list_all_iff dest: segment_literal)

lemma render_nonempty:
  assumes "values_ok v" "someone segs v"
  shows "render segs v \<noteq> []"
proof -
  obtain t where t: "Seg_token t \<in> set segs" and "\<exists>c\<in>set (segment_text v (Seg_token t)). is_lower_az c"
  proof -
    from assms(2) obtain t where t: "Seg_token t \<in> set segs"
      "(t = Token_first \<or> t = Token_f) \<and> tv_first v \<noteq> [] \<or> (t = Token_last \<or> t = Token_l) \<and> tv_last v \<noteq> []"
      by (auto simp: someone_def)
    moreover have "is_lower_az (hd (tv_first v))" if "tv_first v \<noteq> []" using assms(1) that by (simp add: values_ok_def name_part_def)
    moreover have "is_lower_az (hd (tv_last v))" if "tv_last v \<noteq> []" using assms(1) that by (simp add: values_ok_def name_part_def)
    ultimately have "\<exists>c\<in>set (segment_text v (Seg_token t)). is_lower_az c"
      by (cases "tv_first v"; cases "tv_last v") auto
    with t(1) that show thesis by blast
  qed
  then obtain c where c: "c \<in> set (concat (map (segment_text v) segs))" "is_lower_az c" by auto
  then have "c \<in> set (render segs v)"
    unfolding render_def by (intro strip_ends_keeps single_separators_keeps) (auto dest: lower_az_plain)
  then show ?thesis by auto
qed

section \<open>Shortening\<close>

text \<open>Shortening keeps the parts of a name parts, and empty ones empty.\<close>

definition shortened :: "token_values \<Rightarrow> token_values \<Rightarrow> bool" where
  "shortened v w \<longleftrightarrow> values_ok w \<and> (tv_first w = [] \<longleftrightarrow> tv_first v = []) \<and> (tv_last w = [] \<longleftrightarrow> tv_last v = [])"

lemma shortened_refl: "values_ok v \<Longrightarrow> shortened v v"
  and shortened_trans: "shortened u v \<Longrightarrow> shortened v w \<Longrightarrow> shortened u w"
  and shortened_someone: "shortened v w \<Longrightarrow> someone segs v \<Longrightarrow> someone segs w"
  by (auto simp: shortened_def someone_def)

lemma name_part_butlast: "name_part s \<Longrightarrow> length s > 1 \<Longrightarrow> name_part (butlast s) \<and> butlast s \<noteq> []"
  by (cases s) (auto simp: name_part_def list_all_iff dest: in_set_butlastD)

lemma shorten_surname_ok: "values_ok v \<Longrightarrow> shortened v (shorten_surname segs budget v)"
proof (induction segs budget v rule: shorten_surname.induct)
  case (1 segs budget v)
  show ?case
  proof (cases "length (render segs v) > budget \<and> length (tv_last v) > 1")
    case True
    let ?w = "v\<lparr>tv_last := butlast (tv_last v)\<rparr>"
    have w: "shortened v ?w" using True 1(2) name_part_butlast [of "tv_last v"] by (auto simp: shortened_def values_ok_def)
    with 1(1) [OF True] have "shortened ?w (shorten_surname segs budget ?w)" by (simp add: shortened_def)
    with w True show ?thesis by (subst shorten_surname.simps) (simp add: shortened_trans [OF w])
  next
    case False
    with 1(2) show ?thesis by (subst shorten_surname.simps) (auto intro: shortened_refl)
  qed
qed

lemma shorten_first_ok: "values_ok v \<Longrightarrow> shortened v (shorten_first segs budget v)"
proof (induction segs budget v rule: shorten_first.induct)
  case (1 segs budget v)
  show ?case
  proof (cases "length (render segs v) > budget \<and> length (tv_first v) > 1")
    case True
    let ?w = "v\<lparr>tv_first := butlast (tv_first v)\<rparr>"
    have w: "shortened v ?w" using True 1(2) name_part_butlast [of "tv_first v"] by (auto simp: shortened_def values_ok_def)
    with 1(1) [OF True] have "shortened ?w (shorten_first segs budget ?w)" by (simp add: shortened_def)
    with w True show ?thesis by (subst shorten_first.simps) (simp add: shortened_trans [OF w])
  next
    case False
    with 1(2) show ?thesis by (subst shorten_first.simps) (auto intro: shortened_refl)
  qed
qed

text \<open>Parts between hyphens, the first of which starts with a letter.\<close>

definition surname_parts :: "string list \<Rightarrow> bool" where
  "surname_parts parts \<longleftrightarrow> parts \<noteq> [] \<and> hd parts \<noteq> [] \<and> is_lower_az (hd (hd parts)) \<and> list_all (list_all name_char) parts"

lemma join_chars: "list_all (list_all P) parts \<Longrightarrow> list_all P sep \<Longrightarrow> list_all P (join sep parts)"
  by (induction sep parts rule: join.induct) auto

lemma join_hd: "parts \<noteq> [] \<Longrightarrow> hd parts \<noteq> [] \<Longrightarrow> join sep parts \<noteq> [] \<and> hd (join sep parts) = hd (hd parts)"
  by (cases "(sep, parts)" rule: join.cases) auto

lemma joined_part: "surname_parts parts \<Longrightarrow> name_part (join ''-'' parts) \<and> join ''-'' parts \<noteq> []"
  using join_hd [of parts "''-''"] join_chars [of name_char parts "''-''"]
  by (auto simp: surname_parts_def name_part_def name_char_def)

lemma surname_parts_butlast: "surname_parts parts \<Longrightarrow> length parts > 1 \<Longrightarrow> surname_parts (butlast parts)"
  by (cases parts) (auto simp: surname_parts_def list_all_iff dest: in_set_butlastD)

lemma split_part_chars: "list_all P s \<Longrightarrow> list_all (list_all P) (split_at q s)"
  by (induction s) (auto split: list.splits)

lemma split_surname: "name_part s \<Longrightarrow> s \<noteq> [] \<Longrightarrow> surname_parts (split_at (\<lambda>c. c = CHR ''-'') s)"
proof (cases s)
  case (Cons c t)
  assume s: "name_part s" "s \<noteq> []"
  with Cons have "is_lower_az c" "c \<noteq> CHR ''-''" by (auto simp: name_part_def dest: lower_az_plain)
  moreover have "list_all (list_all name_char) (split_at (\<lambda>c. c = CHR ''-'') s)"
    using s by (intro split_part_chars) (simp add: name_part_def)
  moreover have "hd (split_at (\<lambda>c. c = CHR ''-'') s) = c # hd (split_at (\<lambda>c. c = CHR ''-'') t)"
    using Cons \<open>c \<noteq> CHR ''-''\<close> split_at_nonempty [of "\<lambda>c. c = CHR ''-''" t] by (simp split: list.splits)
  ultimately show ?thesis by (simp add: surname_parts_def)
qed simp

lemma drop_parts_ok:
  "values_ok v \<Longrightarrow> tv_last v \<noteq> [] \<Longrightarrow> surname_parts parts \<Longrightarrow> shortened v (drop_surname_parts segs budget parts v)"
proof (induction segs budget parts v rule: drop_surname_parts.induct)
  case (1 segs budget parts v)
  show ?case
  proof (cases "length parts > 1 \<and> length (render segs v) > budget")
    case True
    let ?w = "v\<lparr>tv_last := join ''-'' (butlast parts)\<rparr>"
    have parts: "surname_parts (butlast parts)" using True 1(4) surname_parts_butlast by blast
    have w: "shortened v ?w" using joined_part [OF parts] 1(2,3) by (auto simp: shortened_def values_ok_def)
    then have "shortened ?w (drop_surname_parts segs budget (butlast parts) ?w)"
      using 1(1) [OF True] parts 1(3) by (simp add: shortened_def)
    with w True show ?thesis by (subst drop_surname_parts.simps) (simp add: shortened_trans [OF w])
  next
    case False
    with 1(2) show ?thesis by (subst drop_surname_parts.simps) (auto intro: shortened_refl)
  qed
qed

lemma drop_parts_of_surname:
  assumes "values_ok v"
  shows "shortened v (drop_surname_parts segs budget (split_at (\<lambda>c. c = CHR ''-'') (tv_last v)) v)"
proof (cases "tv_last v = []")
  case True
  then show ?thesis using assms by (subst drop_surname_parts.simps) (simp add: shortened_refl)
next
  case False
  with assms show ?thesis by (intro drop_parts_ok split_surname) (simp_all add: values_ok_def)
qed

section \<open>Usernames\<close>

definition prepared_ok :: "prepared \<Rightarrow> bool" where
  "prepared_ok p \<longleftrightarrow> values_ok (pr_values p) \<and> segments_ok (pr_segments p)"

text \<open>What \<open>fit\<close> gives is a rendering of shortened parts, cut.\<close>

lemma fit_cases:
  assumes "prepared_ok p"
  obtains (Whole) "fit p budget = render (pr_segments p) (pr_values p)" "length (fit p budget) \<le> budget"
  | (Cut) w where "shortened (pr_values p) w" "fit p budget = strip_end is_separator (take budget (render (pr_segments p) w))"
proof (cases "length (render (pr_segments p) (pr_values p)) \<le> budget")
  case True
  then show ?thesis using Whole by (simp add: fit_def Let_def)
next
  case False
  let ?v = "pr_values p" and ?segs = "pr_segments p"
  define v1 where "v1 = drop_surname_parts ?segs budget (split_at (\<lambda>c. c = CHR ''-'') (tv_last ?v)) ?v"
  define v2 where "v2 = shorten_surname ?segs budget v1"
  have "values_ok ?v" using assms by (simp add: prepared_ok_def)
  then have v1: "shortened ?v v1" unfolding v1_def by (rule drop_parts_of_surname)
  then have v2: "shortened v1 v2" unfolding v2_def by (intro shorten_surname_ok) (simp add: shortened_def)
  then have "shortened v2 (shorten_first ?segs budget v2)" by (intro shorten_first_ok) (simp add: shortened_def)
  with v1 v2 have "shortened ?v (shorten_first ?segs budget v2)" by (blast intro: shortened_trans)
  with False show ?thesis by (intro Cut) (simp_all add: fit_def Let_def v1_def v2_def)
qed

lemma fit_length: "length (fit p budget) \<le> budget"
  using strip_end_length [of is_separator] by (auto simp: fit_def Let_def intro: order_trans [OF strip_end_length])

lemma fit_tidy:
  assumes "prepared_ok p"
  shows "tidy (fit p budget)"
  using assms
proof (cases rule: fit_cases [where budget = budget])
  case Whole
  with assms render_tidy show ?thesis by (simp add: prepared_ok_def)
next
  case (Cut w)
  with assms have "tidy (render (pr_segments p) w)" by (intro render_tidy) (simp_all add: prepared_ok_def shortened_def)
  with Cut(2) show ?thesis using tidy_cut by simp
qed

lemma fit_nonempty:
  assumes "prepared_ok p" "someone (pr_segments p) (pr_values p)" "0 < budget"
  shows "fit p budget \<noteq> []"
  using assms(1)
proof (cases rule: fit_cases [where budget = budget])
  case Whole
  then show ?thesis using assms render_nonempty by (simp add: prepared_ok_def)
next
  case (Cut w)
  let ?r = "render (pr_segments p) w"
  have r: "?r \<noteq> []" "tidy ?r"
    using Cut(1) assms render_nonempty render_tidy shortened_someone by (auto simp: shortened_def prepared_ok_def)
  then have "take budget ?r \<noteq> []" "\<not> is_separator (hd (take budget ?r))" using assms(3) by (auto simp: tidy_def)
  then show ?thesis using strip_end_hd Cut(2) by metis
qed

text \<open>What the pattern and the names give is fit to be rendered.\<close>

lemma segments_of_ok: "segments_of ms = Inr segs \<Longrightarrow> segments_ok segs"
proof (induction ms arbitrary: segs)
  case (Cons m ms)
  from Cons.prems obtain seg segs' where "segs = seg # segs'" "segments_of ms = Inr segs'"
    and "Seg_literal s = seg \<Longrightarrow> list_all is_literal_char s" for s
    by (cases m) (auto split: sum.splits option.splits if_splits)
  with Cons.IH show ?case by (auto simp: segments_ok_def)
qed (simp add: segments_ok_def)

lemma parsePattern_ok: "parsePattern pattern = Inr segs \<Longrightarrow> segments_ok segs \<and> list_ex names_someone segs"
  by (auto simp: parsePattern_def segments_of_ok split: sum.splits if_splits)

lemma prepare_ok:
  assumes "prepare name pattern = Inr p"
  shows "prepared_ok p \<and> pr_username p = render (pr_segments p) (pr_values p)"
proof -
  from assms obtain segs where segs: "parsePattern pattern = Inr segs" by (auto simp: prepare_def split: sum.splits)
  have "list_all name_char (take 1 (filter (\<lambda>c. c \<noteq> CHR ''-'') s))" if "name_part s" for s
    using that by (auto simp: name_part_def list_all_iff dest!: in_set_takeD)
  with segs assms parsePattern_ok [OF segs] show ?thesis
    by (auto simp: prepare_def Let_def prepared_ok_def values_ok_def normalized_part)
qed

lemma names_someone_token: "names_someone s \<Longrightarrow> \<exists>t. s = Seg_token t \<and> t \<noteq> Token_mi"
  by (cases s) (simp_all add: names_someone_def)

lemma prepare_someone:
  assumes "prepare name pattern = Inr p" "\<not> blocked (pr_deviations p)"
  shows "someone (pr_segments p) (pr_values p)"
proof -
  from assms(1) obtain segs where segs: "parsePattern pattern = Inr segs" by (auto simp: prepare_def split: sum.splits)
  let ?f = "normalizePart Field_first (pn_first name)" and ?l = "normalizePart Field_last (pn_last name)"
  have p: "pr_segments p = segs" "tv_first (pr_values p) = fst ?f" "tv_last (pr_values p) = fst ?l"
      "pr_deviations p = field_deviations segs Field_first Token_first Token_f ?f @ field_deviations segs Field_last Token_last Token_l ?l"
    using assms(1) segs by (auto simp: prepare_def Let_def)
  have used: "fst part \<noteq> []"
    if "Seg_token t \<in> set segs \<or> Seg_token i \<in> set segs" "\<not> blocked (field_deviations segs field t i part)" for t i field part
    using that by (auto simp: field_deviations_def blocked_def split: if_splits)
  from parsePattern_ok [OF segs] obtain t where "Seg_token t \<in> set segs" "t \<noteq> Token_mi"
    using names_someone_token unfolding list_ex_iff by blast
  with used [of Token_first Token_f Field_first ?f] used [of Token_last Token_l Field_last ?l] assms(2) show ?thesis
    unfolding someone_def p by (cases t) (auto simp: p blocked_def)
qed

end
