(* ===== verification/NamingLimits.thy ===== *)
theory NamingLimits
  imports NamingClaims NamingText
begin

text \<open>
  The names given fit: a SAM account name and the part of a UPN before the @ are ones Active Directory and
  Entra take, whether the pattern built them or an operator typed them, and no name is longer than its
  limit, the number at its end included.
\<close>

section \<open>Suffixes\<close>

lemma length_dec_nat_3: "n \<le> 999 \<Longrightarrow> length (dec_nat n) \<le> 3"
  by (simp add: dec_nat.simps [of n] dec_nat.simps [of "n div 10"] dec_nat.simps [of "n div 10 div 10"])

lemma tailOf_ok: "list_all is_digit (tailOf n)" "n \<le> MAX_SUFFIX \<Longrightarrow> length (tailOf n) \<le> 3"
  by (simp_all add: tailOf_def dec_nat_digits MAX_SUFFIX_def length_dec_nat_3)

lemma samWith_length: "n \<le> MAX_SUFFIX \<Longrightarrow> length (samWith p n) \<le> 20"
  using fit_length [of p "20 - length (tailOf n)"] tailOf_ok(2) [of n] by (simp add: samWith_def)

lemma upnLocalWith_length: "n \<le> MAX_SUFFIX \<Longrightarrow> length (upnLocalWith p n) \<le> 64"
  using fit_length [of p "64 - length (tailOf n)"] tailOf_ok(2) [of n] by (simp add: upnLocalWith_def)

lemma with_tail_tidy:
  assumes "prepared_ok p" "someone (pr_segments p) (pr_values p)" "n \<le> MAX_SUFFIX" "3 < limit"
  shows "tidy (fit p (limit - length (tailOf n)) @ tailOf n) \<and> fit p (limit - length (tailOf n)) @ tailOf n \<noteq> []"
proof -
  have "0 < limit - length (tailOf n)" using assms(4) tailOf_ok(2) [OF assms(3)] by simp
  with assms have "fit p (limit - length (tailOf n)) \<noteq> []" "tidy (fit p (limit - length (tailOf n)))"
    by (simp_all add: fit_nonempty fit_tidy)
  then show ?thesis by (simp add: tidy_digits tailOf_ok)
qed

lemma with_suffix_candidate:
  assumes "with_suffix held p typed sfx = Some (names, ds)"
  shows "\<exists>n s b. 1 \<le> n \<and> n \<le> MAX_SUFFIX \<and> names = name_candidate p typed sfx n s b"
proof -
  let ?base = "name_candidate p typed sfx 1 False False"
  let ?clashes = "clashesOf held ?base (free_attributes typed)"
  let ?addr = "list_ex (\<lambda>(a, _). a \<noteq> Attr_samAccountName) ?clashes"
  let ?cand = "\<lambda>n. name_candidate p typed sfx n True ?addr"
  let ?n = "free_suffix (\<lambda>n. clashesOf held (?cand n)
    (filter (\<lambda>a. ?addr \<or> a = Attr_samAccountName) (free_attributes typed)) \<noteq> []) 2"
  have "names = ?base \<or> names = ?cand ?n \<and> ?n \<le> MAX_SUFFIX"
    using assms by (auto simp: with_suffix_def Let_def split: if_splits)
  moreover have "1 \<le> ?n" using free_suffix_ge [of 2] by (meson one_le_numeral order_trans)
  moreover have "1 \<le> MAX_SUFFIX" by (simp add: MAX_SUFFIX_def)
  ultimately show ?thesis by blast
qed

section \<open>Names a directory takes\<close>

lemma literal_not_forbidden: "is_literal_char c \<Longrightarrow> c \<notin> set SAM_FORBIDDEN \<and> \<not> control_char c \<and> \<not> is_space c"
proof -
  assume c: "is_literal_char c"
  have "list_all (\<lambda>c. \<not> is_literal_char c) SAM_FORBIDDEN" by code_simp
  with c have "c \<notin> set SAM_FORBIDDEN" by (auto simp: list_all_iff)
  moreover have "45 \<le> (of_char c :: nat) \<and> (of_char c :: nat) < 127"
    using c by (auto simp: is_literal_char_def is_lower_az_def is_digit_def is_separator_def Let_def)
  then have "\<not> control_char c \<and> \<not> is_space c" by (simp add: control_char_def is_space_def Let_def)
  ultimately show ?thesis by blast
qed

lemma tidy_sam:
  assumes "tidy s" "s \<noteq> []" "length s \<le> 20"
  shows "samAccountNameSchema s"
proof -
  have lit: "is_literal_char c" if "c \<in> set s" for c using assms(1) that by (simp add: tidy_def list_all_iff)
  then have "trim s = s" using literal_not_forbidden by (intro trim_no_space) blast
  moreover have "last s \<noteq> CHR ''.''" using assms by (auto simp: tidy_def is_separator_def)
  moreover have "hd s \<noteq> CHR ''.'' \<and> hd s \<noteq> CHR '' ''"
    using assms lit [of "hd s"] by (auto simp: tidy_def is_separator_def is_literal_char_def is_lower_az_def is_digit_def)
  then have "\<not> list_all (\<lambda>c. c = CHR ''.'' \<or> c = CHR '' '') s" using assms(2) by (cases s) auto
  ultimately show ?thesis
    using assms(2,3) lit literal_not_forbidden by (auto simp: samAccountNameSchema_def list_all_iff)
qed

definition upn_local_ok :: "string \<Rightarrow> bool" where
  "upn_local_ok s \<longleftrightarrow> UPN_LOCAL s \<and> \<not> starts_with s ''.'' \<and> \<not> ends_with s ''.'' \<and> \<not> includes_str s ''..''"

lemma doubled_dots: "includes_str s ''..'' \<Longrightarrow> doubled_separator s"
proof (induction s)
  case (Cons c s)
  then show ?case by (auto simp: doubled_Cons starts_with_iff is_separator_def)
qed simp

lemma tidy_local:
  assumes "tidy s" "s \<noteq> []"
  shows "upn_local_ok s"
proof -
  have "is_ascii_letter c \<or> is_digit c \<or> c \<in> set (CHR 0x27 # ''._!#^~-'')" if "c \<in> set s" for c
  proof -
    have "is_literal_char c" using assms(1) that by (simp add: tidy_def list_all_iff)
    then show ?thesis by (auto simp: is_literal_char_def is_separator_def is_lower_az_def is_ascii_letter_def Let_def)
  qed
  moreover have "\<not> starts_with s ''.''" using assms by (auto simp: tidy_def starts_with_iff is_separator_def)
  moreover have "\<not> ends_with s ''.''"
    using assms by (cases s rule: rev_cases) (auto simp: tidy_def ends_with_def is_separator_def)
  ultimately show ?thesis
    using assms doubled_dots [of s] by (auto simp: upn_local_ok_def UPN_LOCAL_def list_all_iff tidy_def)
qed

text \<open>Typed names that aren't refused.\<close>

lemma typed_sam_ok:
  "\<not> blocked (tn_deviations (typedNames ov sfxs)) \<Longrightarrow> tn_samAccountName (typedNames ov sfxs) = Some s \<Longrightarrow>
     length s \<le> 20 \<and> samAccountNameSchema s"
  by (auto simp: typedNames_def Let_def unusable_typed_def sam_problem_def split: option.splits if_splits)

lemma typed_upn_ok:
  assumes "\<not> blocked (tn_deviations (typedNames ov sfxs))" "tn_upn (typedNames ov sfxs) = Some u"
  shows "length (tu_local u) \<le> 64 \<and> upn_local_ok (tu_local u)"
proof -
  from assms(2) obtain t where t: "clean (Option.bind ov ov_userPrincipalName) = Some t" "u = split_upn t"
    by (auto simp: typedNames_def Let_def)
  with assms(1) have "upn_problem t sfxs = None"
    by (auto simp: typedNames_def Let_def unusable_typed_def split: option.splits)
  with t(2) show ?thesis by (auto simp: upn_problem_def Let_def upn_local_ok_def split: if_splits)
qed

lemma cutText_length: "length tail \<le> limit \<Longrightarrow> length (cutText v limit tail) \<le> limit"
proof -
  have "length (trim_end t) \<le> length t" for t :: string
    unfolding trim_end_def by (metis length_dropWhile_le length_rev)
  from this [of "take (limit - length tail) v"] show "length tail \<le> limit \<Longrightarrow> length (cutText v limit tail) \<le> limit"
    by (auto simp: cutText_def)
qed

lemma choose_cn_length: "choose_cn cns ou d sam = (cn, ds, cns') \<Longrightarrow> length sam \<le> 20 \<Longrightarrow> length cn \<le> 64"
  using cutText_length [of "[]" 64 d] cutText_length [of "'' ('' @ sam @ '')''" 64 d]
  by (auto simp: choose_cn_def Let_def split: if_splits option.splits)

definition names_ok :: "naming_suggestion \<Rightarrow> bool" where
  "names_ok s \<longleftrightarrow> length (sg_samAccountName s) \<le> 20 \<and> samAccountNameSchema (sg_samAccountName s)
     \<and> length (sg_upnLocal s) \<le> 64 \<and> upn_local_ok (sg_upnLocal s) \<and> length (sg_cn s) \<le> 64"

lemma resolve_one_names_ok:
  assumes "resolve_one settings sfxs held r = Inr (s, held')" "\<not> blocked (sg_deviations s)"
  shows "names_ok s"
  using assms(1)
proof (cases rule: resolve_one_cases)
  case Blocked
  with assms(2) show ?thesis by blast
next
  case (Given p names collisions cnDeviations cns displayName)
  let ?typed = "typedNames (nr_overrides r) sfxs"
  obtain n sb b where n: "1 \<le> n" "n \<le> MAX_SUFFIX" and names: "names = name_candidate p ?typed (nst_upnSuffix settings) n sb b"
    using with_suffix_candidate [OF Given(4)] by blast
  have m: "(if c then n else 1) \<le> MAX_SUFFIX" for c using n by simp
  note p = prepare_ok [OF Given(1)]
  have unrefused: "\<not> blocked (tn_deviations ?typed)" using Given(3) by (simp add: base_deviations_def)
  have someone: "someone (pr_segments p) (pr_values p)" if "tn_upn ?typed = None"
    using Given(3) that prepare_someone [OF Given(1)] by (simp add: base_deviations_def)
  have sam: "length (sg_samAccountName s) \<le> 20 \<and> samAccountNameSchema (sg_samAccountName s)"
  proof (cases "tn_samAccountName ?typed")
    case None
    then have "tn_upn ?typed = None" by (auto simp: typedNames_def Let_def split: option.splits)
    with p someone m have "tidy (samWith p (if sb then n else 1)) \<and> samWith p (if sb then n else 1) \<noteq> []"
      unfolding samWith_def by (intro with_tail_tidy) simp_all
    with None names Given(7) m samWith_length tidy_sam show ?thesis
      by (simp add: name_candidate_def accountNames_def Let_def)
  next
    case (Some t)
    with names Given(7) typed_sam_ok [OF unrefused Some] show ?thesis by (simp add: name_candidate_def accountNames_def Let_def)
  qed
  have local': "length (sg_upnLocal s) \<le> 64 \<and> upn_local_ok (sg_upnLocal s)"
  proof (cases "tn_upn ?typed")
    case None
    with p someone m have "tidy (upnLocalWith p (if b then n else 1)) \<and> upnLocalWith p (if b then n else 1) \<noteq> []"
      unfolding upnLocalWith_def by (intro with_tail_tidy) simp_all
    with None names Given(8) m upnLocalWith_length tidy_local show ?thesis
      by (simp add: name_candidate_def accountNames_def Let_def)
  next
    case (Some u)
    with names Given(8) typed_upn_ok [OF unrefused Some] show ?thesis by (simp add: name_candidate_def accountNames_def Let_def)
  qed
  from sam local' choose_cn_length [OF Given(5)] Given(7) show ?thesis by (simp add: names_ok_def)
qed


end
