(* ===== verification/NamingLookupClaims.thy ===== *)
theory NamingLookupClaims
  imports NamingLimits
begin

text \<open>
  Looking up what \<^verbatim>\<open>namingLookups\<close> asks for is as good as knowing every name the directory holds: whatever
  else of those is found or left out, \<^verbatim>\<open>resolveNames\<close> gives the same suggestions.
\<close>

section \<open>Prefixes\<close>

lemma starts_trans: "starts_with s p \<Longrightarrow> starts_with p q \<Longrightarrow> starts_with s q"
  by (auto simp: starts_with_iff)

lemma starts_lower: "starts_with s p \<Longrightarrow> starts_with (to_lower s) (to_lower p)"
  by (auto simp: starts_with_iff)

lemma starts_refl [simp]: "starts_with s s"
  by (simp add: starts_with_iff)

lemma common_with_starts: "starts_with s (common_with s t) \<and> starts_with t (common_with s t)"
  by (induction s t rule: common_with.induct) (auto simp: starts_with_iff)

lemma common_foldl: "starts_with s (foldl common_with s vs) \<and> (\<forall>v\<in>set vs. starts_with v (foldl common_with s vs))"
proof (induction vs arbitrary: s)
  case (Cons v vs)
  note c = common_with_starts [of s v]
  from Cons [of "common_with s v"] c show ?case by (auto intro: starts_trans)
qed simp

lemma commonPrefix_starts: "v \<in> set vs \<Longrightarrow> starts_with v (commonPrefix vs)"
  using common_foldl by (simp add: commonPrefix_def)

lemma tail_lengths: "n \<le> MAX_SUFFIX \<Longrightarrow> length (tailOf n) \<in> set [0, 1, 2, 3]"
proof -
  have "k \<in> set [0, 1, 2, 3]" if "k \<le> 3" for k :: nat using that by simp arith
  then show "n \<le> MAX_SUFFIX \<Longrightarrow> length (tailOf n) \<in> set [0, 1, 2, 3]" using tailOf_ok(2) [of n] by blast
qed

lemma fit_in_budgets: "n \<le> MAX_SUFFIX \<Longrightarrow> fit p (limit - length (tailOf n)) \<in> set (budgets p limit)"
  using tail_lengths [of n] unfolding budgets_def set_map by blast

lemma samWith_starts: "n \<le> MAX_SUFFIX \<Longrightarrow> starts_with (samWith p n) (commonPrefix (budgets p 20))"
  unfolding samWith_def by (rule starts_trans [OF starts_with_append]) (simp add: commonPrefix_starts fit_in_budgets)

lemma upnLocalWith_starts: "n \<le> MAX_SUFFIX \<Longrightarrow> starts_with (upnLocalWith p n) (commonPrefix (budgets p 64))"
  unfolding upnLocalWith_def by (rule starts_trans [OF starts_with_append]) (simp add: commonPrefix_starts fit_in_budgets)

section \<open>What is found\<close>

text \<open>
  \<open>found\<close> is part of what is held and has all that is asked for: the values starting with a prefix, the CNs
  of an OU that are one asked for or start with a prefix of it.
\<close>

definition asked_prefixes :: "naming_lookups \<Rightarrow> naming_attribute \<Rightarrow> string list" where
  "asked_prefixes lookups a =
     (if a = Attr_samAccountName then nl_samAccountNamePrefixes lookups else nl_upnLocalPrefixes lookups)"

definition asked_cn :: "naming_lookups \<Rightarrow> string \<Rightarrow> bool" where
  "asked_cn lookups key \<longleftrightarrow> list_ex (\<lambda>c. to_lower key = to_lower (cnKey c)) (nl_cns lookups)
     \<or> list_ex (\<lambda>c. starts_with (to_lower key) (to_lower (cnKey c))) (nl_cnPrefixes lookups)"

definition asked :: "naming_lookups \<Rightarrow> naming_attribute \<Rightarrow> string \<Rightarrow> bool" where
  "asked lookups a v \<longleftrightarrow> list_ex (\<lambda>q. starts_with (to_lower v) (to_lower q)) (asked_prefixes lookups a)"

definition finds :: "naming_lookups \<Rightarrow> taken_names \<Rightarrow> taken_names \<Rightarrow> bool" where
  "finds lookups taken found \<longleftrightarrow>
     (\<forall>a. set (held_values found a) \<subseteq> set (held_values taken a)
        \<and> (\<forall>v\<in>set (held_values taken a). asked lookups a v \<longrightarrow> v \<in> set (held_values found a)))
     \<and> set (tn_cns found) \<subseteq> set (tn_cns taken)
     \<and> (\<forall>u\<in>set (tn_cns taken). asked_cn lookups (cnKey u) \<longrightarrow> u \<in> set (tn_cns found))"

section \<open>Two lists of names that answer alike\<close>

definition alike :: "(string \<Rightarrow> bool) \<Rightarrow> name_set \<Rightarrow> name_set \<Rightarrow> bool" where
  "alike q s t \<longleftrightarrow> nset_batch s = nset_batch t
     \<and> (\<forall>v. q v \<longrightarrow> (to_lower v \<in> set (nset_directory s) \<longleftrightarrow> to_lower v \<in> set (nset_directory t)))"

lemma alike_holder: "alike q s t \<Longrightarrow> q v \<Longrightarrow> holder s v = holder t v"
  by (simp add: alike_def holder_def Let_def)

lemma alike_claim: "alike q s t \<Longrightarrow> alike q (claim v s) (claim v t)"
  by (simp add: alike_def claim_def)

definition held_alike :: "(naming_attribute \<Rightarrow> string \<Rightarrow> bool) \<Rightarrow> (string \<Rightarrow> bool) \<Rightarrow> held_names \<Rightarrow> held_names \<Rightarrow> bool" where
  "held_alike qa qk h k \<longleftrightarrow> (\<forall>a. alike (qa a) (hn_of h a) (hn_of k a)) \<and> alike qk (hn_cns h) (hn_cns k)"

lemma clashes_alike:
  assumes "held_alike qa qk h k" "\<forall>a\<in>set attrs. qa a (valueOf names a)"
  shows "clashesOf h names attrs = clashesOf k names attrs"
  using assms(2)
proof (induction attrs)
  case (Cons a attrs)
  have "holder (hn_of h a) (valueOf names a) = holder (hn_of k a) (valueOf names a)"
    using assms(1) Cons.prems by (intro alike_holder [where q = "qa a"]) (simp_all add: held_alike_def)
  with Cons show ?case by (simp add: clashesOf_def List.map_filter_def)
qed (simp add: clashesOf_def List.map_filter_def)

lemma free_suffix_cong: "(\<And>n. n \<le> MAX_SUFFIX \<Longrightarrow> c n = d n) \<Longrightarrow> free_suffix c n = free_suffix d n"
proof (induction c n rule: free_suffix.induct)
  case (1 c n)
  show ?case
  proof (cases "n \<le> MAX_SUFFIX \<and> c n")
    case True
    with 1(2) have "d n" by blast
    with True 1 show ?thesis by (simp add: free_suffix_step [of c n] free_suffix_step [of d n])
  next
    case False
    with 1(2) have "\<not> (n \<le> MAX_SUFFIX \<and> d n)" by auto
    with False show ?thesis by (simp only: free_suffix_step [of c n] free_suffix_step [of d n] if_False)
  qed
qed

lemma with_suffix_alike:
  assumes alike: "held_alike qa qk h k"
    and asked: "\<And>n s b a. n \<le> MAX_SUFFIX \<Longrightarrow> a \<in> set (free_attributes typed) \<Longrightarrow> qa a (valueOf (name_candidate p typed sfx n s b) a)"
  shows "with_suffix h p typed sfx = with_suffix k p typed sfx"
proof -
  let ?base = "name_candidate p typed sfx 1 False False"
  have base: "clashesOf h ?base (free_attributes typed) = clashesOf k ?base (free_attributes typed)"
    by (intro clashes_alike [OF alike]) (simp add: asked MAX_SUFFIX_def)
  let ?addr = "list_ex (\<lambda>(a, _). a \<noteq> Attr_samAccountName) (clashesOf k ?base (free_attributes typed))"
  let ?checked = "filter (\<lambda>a. ?addr \<or> a = Attr_samAccountName) (free_attributes typed)"
  have "free_suffix (\<lambda>n. clashesOf h (name_candidate p typed sfx n True ?addr) ?checked \<noteq> []) 2
      = free_suffix (\<lambda>n. clashesOf k (name_candidate p typed sfx n True ?addr) ?checked \<noteq> []) 2"
    by (rule free_suffix_cong) (subst clashes_alike [OF alike], simp_all add: asked)
  then show ?thesis unfolding with_suffix_def Let_def base by simp
qed

lemma choose_cn_alike:
  assumes "alike qk s t"
    and "truthy ou \<Longrightarrow> qk (cnKey \<lparr>ou_ouDn = the ou, ou_cn = cutText d 64 []\<rparr>)
          \<and> qk (cnKey \<lparr>ou_ouDn = the ou, ou_cn = cutText d 64 ('' ('' @ sam @ '')'')\<rparr>)"
  shows "fst (choose_cn s ou d sam) = fst (choose_cn t ou d sam)
     \<and> fst (snd (choose_cn s ou d sam)) = fst (snd (choose_cn t ou d sam))
     \<and> alike qk (snd (snd (choose_cn s ou d sam))) (snd (snd (choose_cn t ou d sam)))"
proof (cases "truthy ou")
  case True
  with assms have "holder s (cnKey \<lparr>ou_ouDn = the ou, ou_cn = cutText d 64 []\<rparr>) = holder t (cnKey \<lparr>ou_ouDn = the ou, ou_cn = cutText d 64 []\<rparr>)"
    "holder s (cnKey \<lparr>ou_ouDn = the ou, ou_cn = cutText d 64 ('' ('' @ sam @ '')'')\<rparr>)
      = holder t (cnKey \<lparr>ou_ouDn = the ou, ou_cn = cutText d 64 ('' ('' @ sam @ '')'')\<rparr>)"
    by (auto intro: alike_holder)
  with True assms(1) show ?thesis by (auto simp: choose_cn_def Let_def alike_claim split: option.splits)
qed (use assms(1) in \<open>simp add: choose_cn_def Let_def\<close>)

section \<open>What is asked for one request\<close>

lemma typed_same:
  "tn_samAccountName (typedNames ov sfxs) = tn_samAccountName (typedNames ov None)"
  "tn_upn (typedNames ov sfxs) = tn_upn (typedNames ov None)"
  "tn_displayName (typedNames ov sfxs) = tn_displayName (typedNames ov None)"
  by (simp_all add: typedNames_def Let_def)

definition display_of :: "prepared \<Rightarrow> naming_request \<Rightarrow> string" where
  "display_of p r = (case tn_displayName (typedNames (nr_overrides r) None) of Some d \<Rightarrow> d | None \<Rightarrow> pr_displayName p)"

definition request_key :: "naming_request \<Rightarrow> string \<Rightarrow> string" where
  "request_key r cn = cnKey \<lparr>ou_ouDn = the (nr_ouDn r), ou_cn = cn\<rparr>"

definition asks :: "prepared \<Rightarrow> naming_request \<Rightarrow> lookup_sets \<Rightarrow> bool" where
  "asks p r s \<longleftrightarrow>
     (case tn_samAccountName (typedNames (nr_overrides r) None) of
        Some sam \<Rightarrow> sam \<in> set (ls_sam s)
      | None \<Rightarrow> pr_username p \<noteq> [] \<longrightarrow> commonPrefix (budgets p 20) \<in> set (ls_sam s))
   \<and> (case tn_upn (typedNames (nr_overrides r) None) of
        Some u \<Rightarrow> tu_local u \<in> set (ls_upn s)
      | None \<Rightarrow> pr_username p \<noteq> [] \<longrightarrow> commonPrefix (budgets p 64) \<in> set (ls_upn s))
   \<and> (truthy (nr_ouDn r) \<longrightarrow>
        request_key r (cutText (display_of p r) 64 []) \<in> fst ` set (ls_cns s)
        \<and> request_key r (cn_prefix_of (display_of p r)) \<in> fst ` set (ls_cnPrefixes s))"

definition more_asked :: "lookup_sets \<Rightarrow> lookup_sets \<Rightarrow> bool" where
  "more_asked s t \<longleftrightarrow> set (ls_sam s) \<subseteq> set (ls_sam t) \<and> set (ls_upn s) \<subseteq> set (ls_upn t)
     \<and> fst ` set (ls_cns s) \<subseteq> fst ` set (ls_cns t) \<and> fst ` set (ls_cnPrefixes s) \<subseteq> fst ` set (ls_cnPrefixes t)"

definition key_ok :: "(string, ou_name) jsmap \<Rightarrow> bool" where
  "key_ok m \<longleftrightarrow> (\<forall>(k, u)\<in>set m. k = cnKey u)"

definition keyed :: "lookup_sets \<Rightarrow> bool" where
  "keyed s \<longleftrightarrow> key_ok (ls_cns s) \<and> key_ok (ls_cnPrefixes s)"

lemma set_add_once [simp]: "set (add_once x xs) = insert x (set xs)"
  by (auto simp: add_once_def)

lemma keys_add_ou_name [simp]: "fst ` set (add_ou_name u m) = insert (cnKey u) (fst ` set m)"
  by (simp add: add_ou_name_def dom_update)

lemma key_ok_add [simp]: "key_ok m \<Longrightarrow> key_ok (add_ou_name v m)"
proof -
  have "set (AList.update (cnKey v) v m) \<subseteq> insert (cnKey v, v) (set m)" by (induction m) auto
  then show "key_ok m \<Longrightarrow> key_ok (add_ou_name v m)" by (auto simp: add_ou_name_def key_ok_def)
qed

lemma asks_more: "asks p r s \<Longrightarrow> more_asked s t \<Longrightarrow> asks p r t"
  by (auto simp: asks_def more_asked_def split: option.splits)

lemma add_lookups_asks: "asks p r (add_lookups p r s)"
  by (auto simp: asks_def add_lookups_def Let_def request_key_def display_of_def split: option.split)

lemma add_lookups_more: "more_asked s (add_lookups p r s)"
  by (auto simp: more_asked_def add_lookups_def Let_def split: option.split)

lemma add_lookups_keyed: "keyed s \<Longrightarrow> keyed (add_lookups p r s)"
  by (auto simp: keyed_def add_lookups_def Let_def split: option.split)

lemma more_asked_trans: "more_asked s t \<Longrightarrow> more_asked t u \<Longrightarrow> more_asked s u"
  unfolding more_asked_def by (meson subset_trans)

lemma lookups_from_ok:
  "lookups_from pattern rs s = Inr t \<Longrightarrow> keyed s \<Longrightarrow>
     more_asked s t \<and> keyed t \<and> (\<forall>r\<in>set rs. \<exists>p. prepare (nr_name r) pattern = Inr p \<and> asks p r t)"
proof (induction rs arbitrary: s)
  case (Cons r rs)
  from Cons.prems(1) obtain p where p: "prepare (nr_name r) pattern = Inr p" "lookups_from pattern rs (add_lookups p r s) = Inr t"
    by (auto split: sum.splits)
  from Cons.IH [OF p(2)] Cons.prems(2)
  have "more_asked (add_lookups p r s) t" "keyed t" "\<forall>r\<in>set rs. \<exists>p. prepare (nr_name r) pattern = Inr p \<and> asks p r t"
    by (simp_all add: add_lookups_keyed)
  with p(1) add_lookups_asks [of p r s] add_lookups_more [of s p r] show ?case
    by (auto intro: more_asked_trans asks_more)
qed (simp add: more_asked_def)

section \<open>Whatever is queried is asked for\<close>

text \<open>Cutting further keeps what a shorter cut leaves.\<close>

lemma trim_end_starts: "starts_with s (trim_end s)"
  unfolding trim_end_def starts_with_iff by (metis rev_append rev_rev_ident takeWhile_dropWhile_id)

lemma trim_end_append_starts: "starts_with (trim_end (s @ t)) (trim_end s)"
proof (induction t rule: rev_induct)
  case (snoc c t)
  have "starts_with (s @ t @ [c]) (trim_end s)" by (rule starts_trans [OF starts_with_append trim_end_starts])
  with snoc trim_end_snoc [of "s @ t" c] show ?case by simp
qed simp

lemma fallback_starts:
  assumes "length sam \<le> 20"
  shows "starts_with (cutText d 64 ('' ('' @ sam @ '')'')) (cn_prefix_of d)"
proof -
  let ?tail = "'' ('' @ sam @ '')''"
  have tail: "length ?tail \<le> 23" using assms by simp
  consider "length d + 23 \<le> 64" | "\<not> length d + 23 \<le> 64" "length d + length ?tail \<le> 64"
    | "\<not> length d + length ?tail \<le> 64" by linarith
  then show ?thesis
  proof cases
    case 1
    with tail have "length d + length ?tail \<le> 64" by linarith
    with 1 show ?thesis by (simp add: cutText_def cn_prefix_of_def starts_with_iff)
  next
    case 2
    have "starts_with d (trim_end (take 41 d))"
      by (rule starts_trans [OF _ trim_end_starts]) (metis append_take_drop_id starts_with_append)
    then have "starts_with (d @ ?tail) (trim_end (take 41 d))" by (rule starts_trans [OF starts_with_append])
    with 2 show ?thesis by (simp add: cutText_def cn_prefix_of_def)
  next
    case 3
    define k where "k = 64 - length ?tail - 41"
    have k: "64 - length ?tail = 41 + k" using tail by (simp add: k_def)
    have "take (41 + k) d = take 41 d @ take k (drop 41 d)" by (rule take_add)
    then have "starts_with (trim_end (take (64 - length ?tail) d)) (trim_end (take 41 d))"
      unfolding k by (simp only: trim_end_append_starts)
    then have "starts_with (trim_end (take (64 - length ?tail) d) @ ?tail) (trim_end (take 41 d))"
      by (rule starts_trans [OF starts_with_append])
    with 3 tail show ?thesis by (simp add: cutText_def cn_prefix_of_def)
  qed
qed

lemma cnKey_starts: "starts_with v q \<Longrightarrow> starts_with (to_lower (request_key r v)) (to_lower (request_key r q))"
  by (auto simp: request_key_def cnKey_def starts_with_iff)

definition lookups_of :: "lookup_sets \<Rightarrow> naming_lookups" where
  "lookups_of s = \<lparr>nl_samAccountNamePrefixes = ls_sam s, nl_upnLocalPrefixes = ls_upn s,
     nl_cns = map snd (ls_cns s), nl_cnPrefixes = map snd (ls_cnPrefixes s)\<rparr>"

lemma asked_when: "q \<in> set (asked_prefixes lookups a) \<Longrightarrow> starts_with v q \<Longrightarrow> asked lookups a v"
  by (auto simp: asked_def list_ex_iff intro: starts_lower)

lemma key_in: "key_ok m \<Longrightarrow> k \<in> fst ` set m \<Longrightarrow> \<exists>c\<in>set (map snd m). cnKey c = k"
  by (force simp: key_ok_def)

lemma asked_keys:
  assumes "keyed s" "asks p r s" "truthy (nr_ouDn r)"
  shows "asked_cn (lookups_of s) (request_key r (cutText (display_of p r) 64 []))"
    and "length sam \<le> 20 \<Longrightarrow> asked_cn (lookups_of s) (request_key r (cutText (display_of p r) 64 ('' ('' @ sam @ '')'')))"
proof -
  from assms key_in [of "ls_cns s"] obtain c where "c \<in> set (nl_cns (lookups_of s))" "cnKey c = request_key r (cutText (display_of p r) 64 [])"
    by (auto simp: keyed_def asks_def lookups_of_def)
  then show "asked_cn (lookups_of s) (request_key r (cutText (display_of p r) 64 []))"
    unfolding asked_cn_def list_ex_iff by metis
  from assms key_in [of "ls_cnPrefixes s"] obtain c where c: "c \<in> set (nl_cnPrefixes (lookups_of s))"
      "cnKey c = request_key r (cn_prefix_of (display_of p r))"
    by (auto simp: keyed_def asks_def lookups_of_def)
  assume "length sam \<le> 20"
  from cnKey_starts [OF fallback_starts [OF this], of r "display_of p r"] c
  show "asked_cn (lookups_of s) (request_key r (cutText (display_of p r) 64 ('' ('' @ sam @ '')'')))"
    unfolding asked_cn_def list_ex_iff by metis
qed

text \<open>Every name a candidate has is asked for, when there is a username to build it from.\<close>

lemma asked_candidate:
  assumes "asks p r s" "n \<le> MAX_SUFFIX"
    and "a \<in> set (free_attributes (typedNames (nr_overrides r) sfxs)) \<longrightarrow> pr_username p \<noteq> []"
  shows "asked (lookups_of s) a (valueOf (name_candidate p (typedNames (nr_overrides r) sfxs) sfx n sb b) a)"
proof -
  have m: "(if c then n else 1) \<le> MAX_SUFFIX" for c using assms(2) by (simp add: MAX_SUFFIX_def)
  note sam = samWith_starts [OF m [of sb], of p] and upn = upnLocalWith_starts [OF m [of b], of p]
  have address: "starts_with (v @ ''@'' @ d) v" for v d :: string by simp
  show ?thesis
  proof (cases "a = Attr_samAccountName")
    case True
    with assms sam show ?thesis
      by (cases "tn_samAccountName (typedNames (nr_overrides r) None)")
        (auto simp: asks_def asked_prefixes_def lookups_of_def name_candidate_def accountNames_def Let_def typed_same [of _ sfxs]
          free_attributes_def intro: asked_when)
  next
    case False
    show ?thesis
    proof (cases "tn_upn (typedNames (nr_overrides r) None)")
      case None
      let ?v = "upnLocalWith p (if b then n else 1)"
      have "valueOf (name_candidate p (typedNames (nr_overrides r) sfxs) sfx n sb b) a = ?v @ ''@'' @ sfx"
        using False None by (cases a) (simp_all add: name_candidate_def accountNames_def Let_def typed_same [of _ sfxs])
      moreover have "pr_username p \<noteq> []" using assms(3) False None by (cases a) (auto simp: free_attributes_def typed_same [of _ sfxs])
      ultimately show ?thesis using assms(1) False None starts_trans [OF address upn]
        by (intro asked_when [of "commonPrefix (budgets p 64)"]) (auto simp: asks_def asked_prefixes_def lookups_of_def)
    next
      case (Some u)
      have "valueOf (name_candidate p (typedNames (nr_overrides r) sfxs) sfx n sb b) a = tu_local u @ ''@'' @ tu_suffix u"
        using False Some by (cases a) (simp_all add: name_candidate_def accountNames_def Let_def typed_same [of _ sfxs])
      then show ?thesis using assms(1) False Some address
        by (intro asked_when [of "tu_local u"]) (auto simp: asks_def asked_prefixes_def lookups_of_def)
    qed
  qed
qed

section \<open>The same suggestions\<close>

definition same_names :: "lookup_sets \<Rightarrow> held_names \<Rightarrow> held_names \<Rightarrow> bool" where
  "same_names s h k \<longleftrightarrow> held_alike (asked (lookups_of s)) (asked_cn (lookups_of s)) h k"

lemma prepare_username:
  "prepare name pattern = Inr p \<Longrightarrow> \<not> blocked (pr_deviations p) \<Longrightarrow> pr_username p \<noteq> []"
  using prepare_ok prepare_someone render_nonempty by (fastforce simp: prepared_ok_def)

lemma base_alike:
  assumes "asks p r s" "same_names s h k"
  shows "base_deviations h p (typedNames (nr_overrides r) sfxs) (name_candidate p (typedNames (nr_overrides r) sfxs) sfx 1 False False)
       = base_deviations k p (typedNames (nr_overrides r) sfxs) (name_candidate p (typedNames (nr_overrides r) sfxs) sfx 1 False False)"
proof -
  let ?typed = "typedNames (nr_overrides r) sfxs"
  have "clashesOf h (name_candidate p ?typed sfx 1 False False) (filter (\<lambda>a. a \<notin> set (free_attributes ?typed)) ALL_ATTRIBUTES)
      = clashesOf k (name_candidate p ?typed sfx 1 False False) (filter (\<lambda>a. a \<notin> set (free_attributes ?typed)) ALL_ATTRIBUTES)"
    using assms(2) unfolding same_names_def
    by (rule clashes_alike) (auto intro!: asked_candidate [OF assms(1)] simp: MAX_SUFFIX_def)
  then show ?thesis by (simp only: base_deviations_def)
qed

lemma resolve_one_alike:
  assumes s: "keyed s" "asks p r s" "prepare (nr_name r) (nst_pattern settings) = Inr p" and alike: "same_names s h k"
  shows "\<exists>x h' k'. resolve_one settings sfxs h r = Inr (x, h') \<and> resolve_one settings sfxs k r = Inr (x, k') \<and> same_names s h' k'"
proof -
  let ?typed = "typedNames (nr_overrides r) sfxs" and ?sfx = "nst_upnSuffix settings"
  let ?base = "name_candidate p ?typed ?sfx 1 False False"
  let ?d = "case tn_displayName ?typed of Some d \<Rightarrow> d | None \<Rightarrow> pr_displayName p"
  have d: "?d = display_of p r" by (simp add: display_of_def typed_same [of _ sfxs])
  note base = base_alike [OF s(2) alike, of sfxs ?sfx]
  show ?thesis
  proof (cases "blocked (base_deviations k p ?typed ?base)")
    case True
    with s(3) base alike show ?thesis by (simp add: resolve_one_def Let_def)
  next
    case False
    have named: "pr_username p \<noteq> []" if "a \<in> set (free_attributes ?typed)" for a
    proof -
      have "tn_upn ?typed = None" using that by (auto simp: free_attributes_def typedNames_def Let_def split: if_splits option.splits)
      with False show ?thesis by (intro prepare_username [OF s(3)]) (simp add: base_deviations_def)
    qed
    have ws: "with_suffix h p ?typed ?sfx = with_suffix k p ?typed ?sfx"
      by (rule with_suffix_alike [OF alike [unfolded same_names_def]]) (auto intro!: asked_candidate [OF s(2)] named)
    show ?thesis
    proof (cases "with_suffix k p ?typed ?sfx")
      case None
      with s(3) base alike False ws show ?thesis by (simp add: resolve_one_def Let_def)
    next
      case (Some nc)
      obtain names collisions where nc: "nc = (names, collisions)" by (cases nc)
      have sam: "length (an_samAccountName names) \<le> 20"
      proof -
        obtain n sb b where n: "1 \<le> n" "n \<le> MAX_SUFFIX" "names = name_candidate p ?typed ?sfx n sb b"
          using with_suffix_candidate Some nc by blast
        have "\<not> blocked (tn_deviations ?typed)" using False by (simp add: base_deviations_def)
        with n show ?thesis
          by (auto simp: name_candidate_def accountNames_def Let_def samWith_length dest: typed_sam_ok split: option.split)
      qed
      have "same_names s (claim_names names h) (claim_names names k)"
        using alike by (simp add: same_names_def held_alike_def claim_names_def alike_claim)
      then have cns: "alike (asked_cn (lookups_of s)) (hn_cns (claim_names names h)) (hn_cns (claim_names names k))"
        by (simp add: same_names_def held_alike_def)
      obtain cn ds cnsh where ch: "choose_cn (hn_cns (claim_names names h)) (nr_ouDn r) ?d (an_samAccountName names) = (cn, ds, cnsh)"
        by (cases "choose_cn (hn_cns (claim_names names h)) (nr_ouDn r) ?d (an_samAccountName names)")
      obtain cn' ds' cnsk where ck: "choose_cn (hn_cns (claim_names names k)) (nr_ouDn r) ?d (an_samAccountName names) = (cn', ds', cnsk)"
        by (cases "choose_cn (hn_cns (claim_names names k)) (nr_ouDn r) ?d (an_samAccountName names)")
      have "cn = cn' \<and> ds = ds' \<and> alike (asked_cn (lookups_of s)) cnsh cnsk"
        using choose_cn_alike [OF cns, of "nr_ouDn r" ?d "an_samAccountName names"]
          asked_keys [OF s(1,2)] sam ch ck by (simp add: d request_key_def)
      moreover from this \<open>same_names s (claim_names names h) (claim_names names k)\<close>
      have "same_names s ((claim_names names h)\<lparr>hn_cns := cnsh\<rparr>) ((claim_names names k)\<lparr>hn_cns := cnsk\<rparr>)"
        by (simp add: same_names_def held_alike_def)
      ultimately show ?thesis
        using s(3) base False ws Some nc ch ck by (simp add: resolve_one_def Let_def)
    qed
  qed
qed

lemma resolve_all_alike:
  "\<forall>r\<in>set rs. \<exists>p. prepare (nr_name r) (nst_pattern settings) = Inr p \<and> asks p r s \<Longrightarrow> keyed s \<Longrightarrow> same_names s h k \<Longrightarrow>
     resolve_all settings sfxs h rs = resolve_all settings sfxs k rs"
proof (induction rs arbitrary: h k)
  case (Cons r rs)
  then obtain p where p: "prepare (nr_name r) (nst_pattern settings) = Inr p" "asks p r s" by auto
  obtain x h' k' where "resolve_one settings sfxs h r = Inr (x, h')" "resolve_one settings sfxs k r = Inr (x, k')" "same_names s h' k'"
    using resolve_one_alike [OF Cons.prems(2) p(2,1) Cons.prems(3)] by blast
  with Cons.IH [of h' k'] Cons.prems show ?case by simp
qed simp

lemma alike_new:
  assumes "set vs \<subseteq> set ws" "\<And>w. w \<in> set ws \<Longrightarrow> q w \<Longrightarrow> w \<in> set vs" "\<And>v w. to_lower v = to_lower w \<Longrightarrow> q v \<Longrightarrow> q w"
  shows "alike q (new_name_set vs) (new_name_set ws)"
proof -
  have "to_lower v \<in> to_lower ` set vs" if "q v" "to_lower v \<in> to_lower ` set ws" for v
  proof -
    from that(2) obtain w where w: "w \<in> set ws" "to_lower v = to_lower w" by blast
    from assms(3) [OF w(2) that(1)] w assms(2) show ?thesis by blast
  qed
  with assms(1) show ?thesis by (auto simp: alike_def new_name_set_def)
qed

lemma held_alike_found:
  assumes "finds lookups taken found"
  shows "held_alike (asked lookups) (asked_cn lookups) (held_in found) (held_in taken)"
proof -
  have "alike (asked lookups a) (hn_of (held_in found) a) (hn_of (held_in taken) a)" for a
    using assms unfolding held_in_of by (intro alike_new) (auto simp: finds_def asked_def)
  moreover have "alike (asked_cn lookups) (hn_cns (held_in found)) (hn_cns (held_in taken))"
    using assms unfolding held_in_def held_names.simps by (intro alike_new) (auto simp: finds_def asked_cn_def)
  ultimately show ?thesis by (simp add: held_alike_def)
qed

text \<open>
  C33. Looking up what is asked for is enough. Let \<open>found\<close> be any part of the names the directory holds that
  has at least those \<^verbatim>\<open>namingLookups\<close> asks for: account names, UPNs and addresses starting with a prefix
  in any case, and in an OU the CNs asked for or starting with a prefix. Then \<^verbatim>\<open>resolveNames\<close> suggests
  from \<open>found\<close> exactly what it suggests from all of them, so no clash goes unseen: not with a suffix up to
  999, not after shortening, nor with a CN in brackets.
\<close>

theorem looking_up_is_enough:
  assumes "namingLookups requests settings = Inr lookups" "finds lookups taken found"
  shows "resolveNames requests settings found upnSuffixes = resolveNames requests settings taken upnSuffixes"
proof -
  from assms(1) obtain s where s: "lookups_from (nst_pattern settings) requests
      \<lparr>ls_sam = [], ls_upn = [], ls_cns = [], ls_cnPrefixes = []\<rparr> = Inr s" and l: "lookups = lookups_of s"
    by (auto simp: namingLookups_def lookups_of_def split: sum.splits)
  have "keyed s \<and> (\<forall>r\<in>set requests. \<exists>p. prepare (nr_name r) (nst_pattern settings) = Inr p \<and> asks p r s)"
    using lookups_from_ok [OF s] by (simp add: keyed_def key_ok_def)
  moreover have "same_names s (held_in found) (held_in taken)"
    using held_alike_found [OF assms(2)] by (simp add: same_names_def l)
  ultimately have "resolve_all settings upnSuffixes (held_in found) requests = resolve_all settings upnSuffixes (held_in taken) requests"
    by (intro resolve_all_alike [of requests settings s]) blast+
  then show ?thesis by (simp add: resolveNames_def)
qed

section \<open>Witnesses\<close>

definition ex_person :: person_name where
  "ex_person = \<lparr>pn_first = ''Jo'', pn_last = ''Li'', pn_middleInitial = None, pn_preferredFirst = None\<rparr>"

definition ex_requests :: "naming_request list" where
  "ex_requests = [\<lparr>nr_name = ex_person, nr_ouDn = Some ''DC=x'', nr_overrides = None\<rparr>,
     \<lparr>nr_name = ex_person, nr_ouDn = Some ''DC=x'', nr_overrides = None\<rparr>]"

definition ex_settings :: naming_settings where
  "ex_settings = \<lparr>nst_pattern = ''{f}{last}'', nst_upnSuffix = ''x''\<rparr>"

definition ex_taken :: taken_names where
  "ex_taken = \<lparr>tn_samAccountNames = [''JLI'', ''ann''], tn_userPrincipalNames = [], tn_mailAddresses = [],
     tn_cns = [\<lparr>ou_ouDn = ''dc=x'', ou_cn = ''jo li''\<rparr>]\<rparr>"

definition ex_found :: taken_names where
  "ex_found = ex_taken\<lparr>tn_samAccountNames := [''JLI'']\<rparr>"

lemma ex_suggested:
  "case resolveNames ex_requests ex_settings ex_taken None of
     Inr [s, t] \<Rightarrow> sg_samAccountName s = ''jli2'' \<and> sg_cn s = ''Jo Li (jli2)'' \<and> \<not> blocked (sg_deviations s)
       \<and> sg_samAccountName t = ''jli3'' \<and> sg_upn t = ''jli3@x'' \<and> \<not> blocked (sg_deviations t)
   | _ \<Rightarrow> False"
  by code_simp

lemma ex_asked: "namingLookups ex_requests ex_settings =
    Inr \<lparr>nl_samAccountNamePrefixes = [''jli''], nl_upnLocalPrefixes = [''jli''],
      nl_cns = [\<lparr>ou_ouDn = ''DC=x'', ou_cn = ''Jo Li''\<rparr>], nl_cnPrefixes = [\<lparr>ou_ouDn = ''DC=x'', ou_cn = ''Jo Li (''\<rparr>]\<rparr>"
  by code_simp

lemma ex_finds: "finds \<lparr>nl_samAccountNamePrefixes = [''jli''], nl_upnLocalPrefixes = [''jli''],
      nl_cns = [\<lparr>ou_ouDn = ''DC=x'', ou_cn = ''Jo Li''\<rparr>], nl_cnPrefixes = [\<lparr>ou_ouDn = ''DC=x'', ou_cn = ''Jo Li (''\<rparr>]\<rparr> ex_taken ex_found"
proof -
  have "\<not> starts_with (to_lower ''ann'') (to_lower ''jli'')" by code_simp
  moreover have "set (held_values ex_found a) \<subseteq> set (held_values ex_taken a)" for a
    by (cases a) (simp_all add: ex_found_def ex_taken_def)
  moreover have "v \<in> set (held_values ex_found a) \<or> a = Attr_samAccountName \<and> v = ''ann''" if "v \<in> set (held_values ex_taken a)" for a v
    using that by (cases a) (auto simp: ex_found_def ex_taken_def)
  ultimately show ?thesis
    unfolding finds_def asked_def asked_prefixes_def by (auto simp: ex_found_def ex_taken_def)
qed

theorem looking_up_is_enough_witness:
  "resolveNames ex_requests ex_settings ex_found None = resolveNames ex_requests ex_settings ex_taken None"
  by (rule looking_up_is_enough [OF ex_asked ex_finds])

lemma ex_pair:
  obtains s t where "resolveNames ex_requests ex_settings ex_taken None = Inr [s, t]"
    "\<not> blocked (sg_deviations s)" "\<not> blocked (sg_deviations t)" "sg_samAccountName s = ''jli2''" "sg_samAccountName t = ''jli3''"
  using ex_suggested by (auto split: sum.splits list.splits)

theorem names_are_given_once_witness:
  "\<exists>s t. resolveNames ex_requests ex_settings ex_taken None = Inr [s, t]
     \<and> to_lower (sg_samAccountName t) \<notin> to_lower ` {''JLI'', ''ann''}
     \<and> to_lower (sg_samAccountName t) \<noteq> to_lower (sg_samAccountName s)
     \<and> given_cn (ex_requests ! 1) t \<noteq> given_cn (ex_requests ! 0) s"
proof -
  obtain s t where st: "resolveNames ex_requests ex_settings ex_taken None = Inr [s, t]"
      "\<not> blocked (sg_deviations s)" "\<not> blocked (sg_deviations t)" by (rule ex_pair)
  have "truthy (nr_ouDn (ex_requests ! i))" if "i < 2" for i using that by (cases i) (auto simp: ex_requests_def less_Suc_eq)
  with names_are_given_once [OF st(1), of 1 Attr_samAccountName] st show ?thesis
    by (auto simp: ex_taken_def)
qed


end
