(* ===== verification/Csv.thy ===== *)
theory Csv
  imports JsText
begin

text \<open>
  Tables as text (\<^verbatim>\<open>packages/shared/src/csv.ts\<close>): writing a row of cells, none of which a spreadsheet takes for a
  formula, and reading a table that was pasted or uploaded. A byte order mark and the replacement
  character are outside the characters modelled, so what the code does about them is left out.
\<close>

section \<open>Writing\<close>

abbreviation (input) dquote :: char where "dquote \<equiv> CHR 0x22"
abbreviation (input) apostrophe :: char where "apostrophe \<equiv> CHR 0x27"
abbreviation (input) tab :: char where "tab \<equiv> CHR 0x09"
abbreviation (input) cr :: char where "cr \<equiv> CHR 0x0D"
abbreviation (input) lf :: char where "lf \<equiv> CHR 0x0A"

text \<open>What a cell is given: nothing, a value as \<open>String\<close> writes it, or a text to be kept exactly.\<close>

datatype csv_value = Csv_empty | Csv_text string | Csv_exact string

(* src/packages/shared/src/csv.ts:8-8 FORMULA_START *)
definition FORMULA_START :: "char list" where
  "FORMULA_START = ''=+-@'' @ [tab, cr]"

(* src/packages/shared/src/csv.ts:23-23 startsLikeFormula *)
definition startsLikeFormula :: "string \<Rightarrow> bool" where
  "startsLikeFormula v \<longleftrightarrow> v \<noteq> [] \<and> hd v \<in> set FORMULA_START"

definition doubled_quotes :: "string \<Rightarrow> string" where
  "doubled_quotes s = concat (map (\<lambda>c. if c = dquote then [dquote, dquote] else [c]) s)"

definition needs_quotes :: "char \<Rightarrow> bool" where
  "needs_quotes c \<longleftrightarrow> c = dquote \<or> c = CHR '','' \<or> c = cr \<or> c = lf"

text \<open>The text a cell stands for: a value that starts like a formula gets an apostrophe in front.\<close>

definition neutral :: "string \<Rightarrow> string" where
  "neutral s = (if startsLikeFormula s then apostrophe # s else s)"

(* src/packages/shared/src/csv.ts:14-14 csvCell *)
definition csvCell :: "string option \<Rightarrow> string" where
  "csvCell v =
     (case v of
        None \<Rightarrow> []
      | Some t \<Rightarrow>
          let s = neutral t
          in if list_ex needs_quotes s then dquote # doubled_quotes s @ [dquote] else s)"

text \<open>A text that starts like a formula can't be written exactly: the code throws.\<close>

(* src/packages/shared/src/csv.ts:31-35 csvExactCell *)
definition csvExactCell :: "string \<Rightarrow> string option" where
  "csvExactCell v = (if startsLikeFormula v then None else Some (dquote # doubled_quotes v @ [dquote]))"

fun csv_cell_text :: "csv_value \<Rightarrow> string option" where
  "csv_cell_text Csv_empty = Some (csvCell None)"
| "csv_cell_text (Csv_text s) = Some (csvCell (Some s))"
| "csv_cell_text (Csv_exact s) = csvExactCell s"

(* src/packages/shared/src/csv.ts:38-46 csvRow *)
definition csvRow :: "csv_value list \<Rightarrow> string option" where
  "csvRow cells =
     (if list_ex (\<lambda>c. csv_cell_text c = None) cells then None
      else Some (join '','' (map (\<lambda>c. the (csv_cell_text c)) cells)))"

section \<open>Reading\<close>

(* src/packages/shared/src/csv.ts:50-50 TABLE_DELIMITERS *)
definition TABLE_DELIMITERS :: "char list" where
  "TABLE_DELIMITERS = [tab, CHR '','', CHR '';'', CHR ''|'']"

(* src/packages/shared/src/csv.ts:66-70 widthOf *)
definition widthOf :: "string list \<Rightarrow> nat" where
  "widthOf rec = length (rev (dropWhile (\<lambda>c. trim c = []) (rev rec)))"

record read_state =
  rd_records :: "string list list"
  rd_record :: "string list"
  rd_cell :: string
  rd_quoted :: bool
  rd_quoteStart :: nat
  rd_cellStart :: bool

definition read_start :: read_state where
  "read_start = \<lparr>rd_records = [], rd_record = [], rd_cell = [], rd_quoted = False, rd_quoteStart = 0, rd_cellStart = True\<rparr>"

definition endCell :: "read_state \<Rightarrow> read_state" where
  "endCell s = s\<lparr>rd_record := rd_record s @ [rd_cell s], rd_cell := [], rd_cellStart := True\<rparr>"

definition endRecord :: "read_state \<Rightarrow> read_state" where
  "endRecord s = (let s = endCell s in s\<lparr>rd_records := rd_records s @ [rd_record s], rd_record := []\<rparr>)"

definition add_char :: "char \<Rightarrow> read_state \<Rightarrow> read_state" where
  "add_char c s = s\<lparr>rd_cell := rd_cell s @ [c]\<rparr>"

text \<open>One turn of the loop: the next state, and whether the character after is read with this one.\<close>

definition read_char :: "char \<Rightarrow> char \<Rightarrow> char option \<Rightarrow> read_state \<Rightarrow> read_state \<times> bool" where
  "read_char delimiter ch after s =
     (if rd_quoted s then
        (if ch \<noteq> dquote then (add_char ch s, False)
         else if after = Some dquote then (add_char dquote s, True)
         else (s\<lparr>rd_quoted := False\<rparr>, False))
      else if ch = dquote \<and> rd_cellStart s then
        (s\<lparr>rd_quoted := True, rd_quoteStart := length (rd_records s) + 1, rd_cellStart := False\<rparr>, False)
      else if ch = delimiter then (endCell s, False)
      else if ch = cr \<or> ch = lf then (endRecord s, ch = cr \<and> after = Some lf)
      else ((add_char ch s)\<lparr>rd_cellStart := False\<rparr>, False))"

fun read_from :: "char \<Rightarrow> string \<Rightarrow> read_state \<Rightarrow> read_state" where
  "read_from delimiter [] s = s"
| "read_from delimiter [c] s = fst (read_char delimiter c None s)"
| "read_from delimiter (c # d # cs) s =
     (case read_char delimiter c (Some d) s of
        (s', skip) \<Rightarrow> if skip then read_from delimiter cs s' else read_from delimiter (d # cs) s')"

(* src/packages/shared/src/csv.ts:94-137 readRecords *)
definition readRecords :: "string \<Rightarrow> char \<Rightarrow> string list list \<times> nat option" where
  "readRecords text delimiter =
     (let s = read_from delimiter text read_start;
          s' = (if rd_cell s \<noteq> [] \<or> rd_record s \<noteq> [] \<or> rd_quoted s then endRecord s else s)
      in (rd_records s', if rd_quoted s then Some (rd_quoteStart s) else None))"

(* src/packages/shared/src/csv.ts:79-91 detectDelimiter *)
definition detectDelimiter :: "string \<Rightarrow> char" where
  "detectDelimiter text =
     (let best = fold (\<lambda>delimiter best.
            let widths = filter (\<lambda>w. w > 0) (map widthOf (fst (readRecords text delimiter)));
                header = (case widths of [] \<Rightarrow> 0 | w # _ \<Rightarrow> w)
            in if header < 2 then best
               else let score = length (filter (\<lambda>w. w = header) (tl widths))
                    in case best of
                         None \<Rightarrow> Some (delimiter, score)
                       | Some (_, b) \<Rightarrow> if score > b then Some (delimiter, score) else best) TABLE_DELIMITERS None
      in case best of None \<Rightarrow> CHR '','' | Some (d, _) \<Rightarrow> d)"

text \<open>\<open>SEP_LINE\<close>: the character named and what follows the line.\<close>

definition line_end :: "string \<Rightarrow> string option" where
  "line_end s =
     (case s of
        [] \<Rightarrow> None
      | c # t \<Rightarrow> if c = cr then Some (if t \<noteq> [] \<and> hd t = lf then tl t else t) else if c = lf then Some t else None)"

definition skip_char :: "char \<Rightarrow> string \<Rightarrow> string" where
  "skip_char c s = (if s \<noteq> [] \<and> hd s = c then tl s else s)"

(* src/packages/shared/src/csv.ts:140-140 SEP_LINE *)
definition SEP_LINE :: "string \<Rightarrow> (char \<times> string) option" where
  "SEP_LINE text =
     (let s = skip_char dquote text
      in if to_lower (take 4 s) \<noteq> ''sep='' then None
         else case drop 4 s of
             [] \<Rightarrow> None
           | c # t \<Rightarrow>
               if c = cr \<or> c = lf then None
               else map_option (\<lambda>rest. (c, rest)) (line_end (dropWhile (\<lambda>x. x = CHR '' '' \<or> x = tab) (skip_char dquote t))))"

datatype table_problem = Unclosed_quote nat | Too_many_cells nat nat nat

(* src/packages/shared/src/csv.ts:54-63 ParsedTable *)
record parsed_table =
  pt_delimiter :: char
  pt_header :: "string list"
  pt_rows :: "string list list"
  pt_rowNumbers :: "nat list"
  pt_problems :: "table_problem list"

definition pad_to :: "nat \<Rightarrow> string list \<Rightarrow> string list" where
  "pad_to width cells = map (\<lambda>k. if k < length cells then cells ! k else []) [0..<width]"

text \<open>The records one after another: the header is the first that isn't blank.\<close>

fun table_rows :: "nat \<Rightarrow> string list option \<Rightarrow> string list list
    \<Rightarrow> string list option \<times> (string list \<times> nat) list \<times> table_problem list" where
  "table_rows n header [] = (header, [], [])"
| "table_rows n header (rec # recs) =
     (let cells = map trim rec
      in if list_all (\<lambda>c. c = []) cells then table_rows (n + 1) header recs
         else case header of
             None \<Rightarrow> table_rows (n + 1) (Some cells) recs
           | Some h \<Rightarrow>
               (case table_rows (n + 1) header recs of
                  (h', rows, problems) \<Rightarrow>
                    (h', (pad_to (length h) cells, n) # rows,
                     (if list_ex (\<lambda>c. c \<noteq> []) (drop (length h) cells)
                      then [Too_many_cells n (length cells) (length h)] else []) @ problems)))"

(* src/packages/shared/src/csv.ts:142-183 parseTable *)
definition parseTable :: "string \<Rightarrow> parsed_table" where
  "parseTable text =
     (let sep = SEP_LINE text;
          named = (case sep of Some (c, _) \<Rightarrow> if c \<in> set TABLE_DELIMITERS then Some c else None | None \<Rightarrow> None);
          source = (case sep of Some (_, rest) \<Rightarrow> rest | None \<Rightarrow> text);
          delimiter = (case named of Some d \<Rightarrow> d | None \<Rightarrow> detectDelimiter source);
          (records, unclosedAt) = readRecords source delimiter;
          (header, rows, problems) = table_rows 1 None records
      in \<lparr>pt_delimiter = delimiter, pt_header = (case header of None \<Rightarrow> [] | Some h \<Rightarrow> h), pt_rows = map fst rows,
          pt_rowNumbers = map snd rows,
          pt_problems = (case unclosedAt of None \<Rightarrow> [] | Some n \<Rightarrow> [Unclosed_quote n]) @ problems\<rparr>)"

section \<open>What is written reads back\<close>

text \<open>The text a cell is read back as.\<close>

fun cell_value :: "csv_value \<Rightarrow> string" where
  "cell_value Csv_empty = []"
| "cell_value (Csv_text s) = neutral s"
| "cell_value (Csv_exact s) = s"

text \<open>Reading \<open>cs\<close> before a character that isn't taken with the one before it.\<close>

lemma read_from_Cons: "read_from d (c # cs) s =
    (case read_char d c (case cs of [] \<Rightarrow> None | x # _ \<Rightarrow> Some x) s of
       (s', skip) \<Rightarrow> if skip then read_from d (tl cs) s' else read_from d cs s')"
  by (cases cs) (auto split: prod.splits simp: read_char_def)

lemma read_quoted:
  "rd_quoted s \<Longrightarrow> after \<noteq> dquote \<Longrightarrow>
     read_from d (doubled_quotes t @ dquote # after # rest) s
       = read_from d (after # rest) (s\<lparr>rd_cell := rd_cell s @ t, rd_quoted := False\<rparr>)"
proof (induction t arbitrary: s)
  case Nil
  then show ?case by (simp add: doubled_quotes_def read_char_def)
next
  case (Cons c t)
  have "rd_quoted (add_char c s)" using Cons.prems(1) by (simp add: add_char_def)
  note IH = Cons.IH [OF this Cons.prems(2)]
  have split: "doubled_quotes (c # t) = (if c = dquote then [dquote, dquote] else [c]) @ doubled_quotes t"
    by (simp add: doubled_quotes_def)
  show ?case
  proof (cases "c = dquote")
    case True
    with Cons.prems IH show ?thesis unfolding split by (simp add: read_from_Cons read_char_def add_char_def)
  next
    case False
    with Cons.prems IH show ?thesis unfolding split by (simp add: read_from_Cons read_char_def add_char_def)
  qed
qed

lemma read_plain:
  "\<not> rd_quoted s \<Longrightarrow> \<not> list_ex needs_quotes t \<Longrightarrow> rd_cellStart s \<longleftrightarrow> rd_cell s = [] \<Longrightarrow>
     read_from (CHR '','') (t @ rest) s
       = read_from (CHR '','') rest (s\<lparr>rd_cell := rd_cell s @ t, rd_cellStart := (rd_cell s @ t = [])\<rparr>)"
proof (induction t arbitrary: s)
  case (Cons c t)
  let ?s = "(add_char c s)\<lparr>rd_cellStart := False\<rparr>"
  have c: "c \<noteq> dquote" "c \<noteq> CHR '',''" "c \<noteq> cr" "c \<noteq> lf" using Cons.prems(2) by (auto simp: needs_quotes_def)
  have "read_from (CHR '','') (c # t @ rest) s = read_from (CHR '','') (t @ rest) ?s"
    using c Cons.prems(1) by (simp add: read_from_Cons read_char_def)
  also have "\<dots> = read_from (CHR '','') rest (?s\<lparr>rd_cell := rd_cell ?s @ t, rd_cellStart := False\<rparr>)"
    using Cons.IH [of ?s] Cons.prems by (simp add: add_char_def)
  finally show ?case by (simp add: add_char_def)
next
  case Nil
  then have "s\<lparr>rd_cell := rd_cell s @ [], rd_cellStart := (rd_cell s @ [] = [])\<rparr> = s" by (cases s) simp
  then show ?case by simp
qed

text \<open>A cell just begun.\<close>

definition fresh_cell :: "read_state \<Rightarrow> bool" where
  "fresh_cell s \<longleftrightarrow> rd_cell s = [] \<and> \<not> rd_quoted s \<and> rd_cellStart s"

definition holding :: "string \<Rightarrow> read_state \<Rightarrow> read_state \<Rightarrow> bool" where
  "holding v s t \<longleftrightarrow> rd_cell t = v \<and> rd_record t = rd_record s \<and> rd_records t = rd_records s \<and> \<not> rd_quoted t"

lemma read_cell:
  assumes "fresh_cell s" "csv_cell_text v = Some out" "after \<noteq> dquote"
  shows "\<exists>t. read_from (CHR '','') (out @ after # rest) s = read_from (CHR '','') (after # rest) t \<and> holding (cell_value v) s t"
proof -
  have quoted: "\<exists>t. read_from (CHR '','') ((dquote # doubled_quotes u @ [dquote]) @ after # rest) s
      = read_from (CHR '','') (after # rest) t \<and> holding u s t" for u
  proof -
    let ?s = "s\<lparr>rd_quoted := True, rd_quoteStart := length (rd_records s) + 1, rd_cellStart := False\<rparr>"
    have "read_from (CHR '','') ((dquote # doubled_quotes u @ [dquote]) @ after # rest) s
        = read_from (CHR '','') (doubled_quotes u @ dquote # after # rest) ?s"
      using assms(1) by (simp add: read_from_Cons read_char_def fresh_cell_def)
    also have "\<dots> = read_from (CHR '','') (after # rest) (?s\<lparr>rd_cell := rd_cell ?s @ u, rd_quoted := False\<rparr>)"
      by (rule read_quoted) (simp_all add: assms(3))
    finally show ?thesis using assms(1) by (auto simp: holding_def fresh_cell_def)
  qed
  have plain: "\<exists>t. read_from (CHR '','') (u @ after # rest) s = read_from (CHR '','') (after # rest) t \<and> holding u s t"
    if "\<not> list_ex needs_quotes u" for u
    using read_plain [of s u "after # rest"] that assms(1) by (auto simp: holding_def fresh_cell_def)
  show ?thesis
  proof (cases v)
    case Csv_empty
    with assms plain [of "[]"] show ?thesis by (simp add: csvCell_def)
  next
    case (Csv_text u)
    with assms plain quoted show ?thesis by (auto simp: csvCell_def Let_def split: if_splits)
  next
    case (Csv_exact u)
    with assms quoted show ?thesis by (auto simp: csvExactCell_def split: if_splits)
  qed
qed

lemma fresh_after: "holding v s t \<Longrightarrow>
    endCell t = \<lparr>rd_records = rd_records s, rd_record = rd_record s @ [v], rd_cell = [], rd_quoted = False,
      rd_quoteStart = rd_quoteStart t, rd_cellStart = True\<rparr>"
  by (simp add: endCell_def holding_def)

lemma read_row:
  "cells \<noteq> [] \<Longrightarrow> csvRow cells = Some line \<Longrightarrow> fresh_cell s \<Longrightarrow>
     \<exists>t. read_from (CHR '','') (line @ cr # lf # rest) s = read_from (CHR '','') rest t \<and> fresh_cell t
       \<and> rd_records t = rd_records s @ [rd_record s @ map cell_value cells] \<and> rd_record t = []"
proof (induction cells arbitrary: s line)
  case (Cons v cells)
  then obtain out where v: "csv_cell_text v = Some out"
    by (cases "csv_cell_text v") (auto simp: csvRow_def)
  show ?case
  proof (cases cells)
    case Nil
    with Cons.prems v have line: "line = out" by (simp add: csvRow_def)
    obtain t where t: "read_from (CHR '','') (out @ cr # lf # rest) s = read_from (CHR '','') (cr # lf # rest) t"
        "holding (cell_value v) s t" using read_cell [OF Cons.prems(3) v, of cr "lf # rest"] by auto
    have "read_from (CHR '','') (cr # lf # rest) t = read_from (CHR '','') rest (endRecord t)"
      using t(2) by (simp add: read_char_def holding_def)
    moreover have "fresh_cell (endRecord t)" "rd_record (endRecord t) = []"
        "rd_records (endRecord t) = rd_records s @ [rd_record s @ [cell_value v]]"
      by (simp_all add: endRecord_def Let_def fresh_after [OF t(2)] fresh_cell_def)
    ultimately show ?thesis using t(1) line Nil by auto
  next
    case (Cons w ws)
    with Cons.prems(2) v obtain line' where line: "line = out @ CHR '','' # line'" and line': "csvRow cells = Some line'"
      by (auto simp: csvRow_def split: if_splits)
    obtain t where t: "read_from (CHR '','') (out @ CHR '','' # line' @ cr # lf # rest) s
          = read_from (CHR '','') (CHR '','' # line' @ cr # lf # rest) t" "holding (cell_value v) s t"
      using read_cell [OF Cons.prems(3) v, of "CHR '',''" "line' @ cr # lf # rest"] by auto
    have "read_from (CHR '','') (CHR '','' # line' @ cr # lf # rest) t = read_from (CHR '','') (line' @ cr # lf # rest) (endCell t)"
      using t(2) by (simp add: read_from_Cons read_char_def holding_def)
    moreover have "fresh_cell (endCell t)" by (simp add: fresh_after [OF t(2)] fresh_cell_def)
    ultimately show ?thesis
      using t(1) line Cons Cons.IH [OF _ line', of "endCell t"] by (simp add: fresh_after [OF t(2)])
  qed
qed simp

text \<open>A table as the exports write it: every row with a line end after it.\<close>

fun csv_lines :: "csv_value list list \<Rightarrow> string option" where
  "csv_lines [] = Some []"
| "csv_lines (row # rows) =
     (case (csvRow row, csv_lines rows) of
        (Some line, Some out) \<Rightarrow> Some (line @ [cr, lf] @ out)
      | _ \<Rightarrow> None)"

lemma read_lines:
  "csv_lines rows = Some out \<Longrightarrow> [] \<notin> set rows \<Longrightarrow> fresh_cell s \<Longrightarrow> rd_record s = [] \<Longrightarrow>
     \<exists>t. read_from (CHR '','') out s = t \<and> fresh_cell t \<and> rd_record t = []
       \<and> rd_records t = rd_records s @ map (map cell_value) rows"
proof (induction rows arbitrary: s out)
  case (Cons row rows)
  from Cons.prems obtain line out' where row: "csvRow row = Some line" and rest: "csv_lines rows = Some out'"
    and out: "out = line @ cr # lf # out'" by (auto split: option.splits)
  obtain t where t: "read_from (CHR '','') out s = read_from (CHR '','') out' t" "fresh_cell t"
      "rd_records t = rd_records s @ [map cell_value row]" "rd_record t = []"
    using read_row [OF _ row Cons.prems(3), of out'] Cons.prems(2,4) out by auto
  from Cons.IH [OF rest _ t(2,4)] Cons.prems(2) t(1,3) show ?case by auto
qed simp

lemma neutral_safe: "\<not> startsLikeFormula (neutral s)"
  by (auto simp: neutral_def startsLikeFormula_def FORMULA_START_def)

text \<open>
  C35. An exported table reads back cell for cell, and no cell of it is a formula. When every row can be
  written (no text to be kept exactly starts like a formula), reading the lines with a comma gives each
  row as it was, quotes, commas and line breaks in a cell included, a value that starts like a formula
  with an apostrophe in front, and no quote is left open; and no cell read starts like a formula.
\<close>

theorem tables_read_back_without_formulas:
  assumes "csv_lines rows = Some out" "[] \<notin> set rows"
  shows "readRecords out (CHR '','') = (map (map cell_value) rows, None)
     \<and> (\<forall>row\<in>set rows. \<forall>c\<in>set row. \<not> startsLikeFormula (cell_value c))"
proof
  have "fresh_cell read_start" "rd_record read_start = []" by (simp_all add: fresh_cell_def read_start_def)
  with read_lines [OF assms] have "fresh_cell (read_from (CHR '','') out read_start)"
      "rd_record (read_from (CHR '','') out read_start) = []"
      "rd_records (read_from (CHR '','') out read_start) = map (map cell_value) rows"
    by (auto simp: read_start_def)
  then show "readRecords out (CHR '','') = (map (map cell_value) rows, None)"
    by (simp add: readRecords_def Let_def fresh_cell_def)
  have safe: "\<not> startsLikeFormula (cell_value c)" if "csv_cell_text c \<noteq> None" for c
    using that by (cases c) (auto simp: neutral_safe csvExactCell_def startsLikeFormula_def [of "[]"] split: if_splits)
  have "list_all (\<lambda>c. csv_cell_text c \<noteq> None) row" if "row \<in> set rows" for row
    using assms(1) that
  proof (induction rows arbitrary: out)
    case (Cons r rows)
    then show ?case by (auto simp: csvRow_def list_all_iff list_ex_iff split: option.splits if_splits)
  qed simp
  with safe show "\<forall>row\<in>set rows. \<forall>c\<in>set row. \<not> startsLikeFormula (cell_value c)" by (auto simp: list_all_iff)
qed

definition ex_table :: "csv_value list list" where
  "ex_table = [[Csv_text ''name'', Csv_exact ''p\"w''], [Csv_text ''=1+1'', Csv_empty], [Csv_text ''a,b'', Csv_text ''-'']]"

theorem tables_read_back_without_formulas_witness:
  "\<exists>out. csv_lines ex_table = Some out
     \<and> readRecords out (CHR '','') = (map (map cell_value) ex_table, None)
     \<and> cell_value (Csv_text ''=1+1'') = apostrophe # ''=1+1''"
proof -
  have "case csv_lines ex_table of Some out \<Rightarrow> True | None \<Rightarrow> False" by code_simp
  then obtain out where "csv_lines ex_table = Some out" by (auto split: option.splits)
  moreover have "[] \<notin> set ex_table" by (simp add: ex_table_def)
  moreover have "cell_value (Csv_text ''=1+1'') = apostrophe # ''=1+1''" by code_simp
  ultimately show ?thesis using tables_read_back_without_formulas by blast
qed

end
