(* ===== verification/AuditedWrites.thy ===== *)
theory AuditedWrites
  imports AdObjectWrites BulkAttributes BulkJobStore
begin

text \<open>
  The writes the routes and the bulk jobs share: one account, one membership, one user's attributes,
  each read live first, written, audited and read back (\<^verbatim>\<open>services/auditContext.ts\<close>,
  \<^verbatim>\<open>userAccountWrite.ts\<close>, \<^verbatim>\<open>groupMembershipWrite.ts\<close>, \<^verbatim>\<open>userAttributeWrite.ts\<close>,
  \<^verbatim>\<open>membershipState.ts\<close>).

  The provider, the audit log, the cache and the database are handed to these functions: they are a
  record of operations over a state \<open>'e\<close> of whatever is behind them. Each may throw.
\<close>

section \<open>Programs\<close>

text \<open>
  What is thrown: a directory that can't be reached, an edit or a request refused, or anything else by
  its class name. Beside it, whether the audit log has it already (\<open>wasAudited\<close>).
\<close>

datatype refusal = Self_manager | Manager_not_found

datatype svc_error = Unavailable | Refusal refusal | Bad_request string | Other_error string

datatype 'a svc_result = Raised svc_error bool | Value 'a

type_synonym ('e, 'a) svc = "'e \<Rightarrow> 'a svc_result \<times> 'e"

definition sv_return :: "'a \<Rightarrow> ('e, 'a) svc" where
  "sv_return x e = (Value x, e)"

definition sv_throw :: "svc_error \<Rightarrow> ('e, 'a) svc" where
  "sv_throw err e = (Raised err False, e)"

definition sv_then :: "('e, 'a) svc \<Rightarrow> ('a \<Rightarrow> ('e, 'b) svc) \<Rightarrow> ('e, 'b) svc" where
  "sv_then m f e = (case m e of (Raised err a, e') \<Rightarrow> (Raised err a, e') | (Value x, e') \<Rightarrow> f x e')"

definition sv_catch :: "('e, 'a) svc \<Rightarrow> (svc_error \<Rightarrow> bool \<Rightarrow> ('e, 'a) svc) \<Rightarrow> ('e, 'a) svc" where
  "sv_catch m h e = (case m e of (Raised err a, e') \<Rightarrow> h err a e' | (Value x, e') \<Rightarrow> (Value x, e'))"

definition sv_rethrow :: "svc_error \<Rightarrow> bool \<Rightarrow> ('e, 'a) svc" where
  "sv_rethrow err audited e = (Raised err audited, e)"

lemmas svc_defs = sv_return_def sv_throw_def sv_then_def sv_catch_def sv_rethrow_def

section \<open>The audit log\<close>

text \<open>
  What a caller's audit fields carry of what the code looks at: the correlation id and the metadata.
  The rest (the actor, the address, the session, the bulk job) is passed on as it is.
\<close>

record audit_base =
  ab_correlationId :: "string option"
  ab_metadata :: "(string, json) jsmap option"

record audit_input =
  ai_base :: audit_base
  ai_action :: string
  ai_targetType :: string
  ai_targetId :: "string option"
  ai_targetDn :: "string option"
  ai_metadata :: "(string, json) jsmap option"

record audit_row = audit_input +
  ar_ok :: bool
  ar_errorCode :: "string option"
  ar_before :: "(string, json) jsmap option"
  ar_after :: "(string, json) jsmap option"

(* src/apps/api/src/services/auditContext.ts:110-119 WriteOpResult *)
record write_op =
  wo_ok :: bool
  wo_before :: "(string, json) jsmap option"
  wo_after :: "(string, json) jsmap option"
  wo_errorCode :: "string option"
  wo_errorMessage :: "string option"
  wo_targetId :: "string option"

text \<open>The name of an error, as the audit log keeps it.\<close>

fun error_name :: "svc_error \<Rightarrow> string" where
  "error_name Unavailable = ''directory_unavailable''"
| "error_name (Refusal r) = ''UserAttributeRefusal''"
| "error_name (Bad_request code) = ''BulkJobRequestError''"
| "error_name (Other_error name) = name"

definition logged_row :: "audit_input \<Rightarrow> 'x write_op_scheme \<Rightarrow> audit_row" where
  "logged_row input r =
     (let errorMessage = (if wo_ok r then None else wo_errorMessage r)
      in \<lparr>ai_base = ai_base input, ai_action = ai_action input, ai_targetType = ai_targetType input,
          ai_targetId = (if truthy (wo_targetId r) then wo_targetId r else ai_targetId input),
          ai_targetDn = ai_targetDn input,
          ai_metadata =
            (if truthy errorMessage
             then Some (jm_set ''errorMessage'' (JStr (the errorMessage)) (case ai_metadata input of None \<Rightarrow> [] | Some m \<Rightarrow> m))
             else ai_metadata input),
          ar_ok = wo_ok r, ar_errorCode = (if wo_ok r then None else wo_errorCode r),
          ar_before = wo_before r, ar_after = wo_after r\<rparr>)"

definition thrown_row :: "audit_input \<Rightarrow> svc_error \<Rightarrow> audit_row" where
  "thrown_row input err =
     \<lparr>ai_base = ai_base input, ai_action = ai_action input, ai_targetType = ai_targetType input,
      ai_targetId = ai_targetId input, ai_targetDn = ai_targetDn input, ai_metadata = ai_metadata input,
      ar_ok = False, ar_errorCode = Some (error_name err), ar_before = None, ar_after = None\<rparr>"

(* src/apps/api/src/services/auditContext.ts:54-108 withAudit *)
definition withAudit :: "(audit_row \<Rightarrow> ('e, unit) svc) \<Rightarrow> audit_input \<Rightarrow> ('e, 'x write_op_scheme) svc
    \<Rightarrow> ('e, 'x write_op_scheme) svc" where
  "withAudit recordEvent input op =
     (\<lambda>e. case op e of
        (Value r, e') \<Rightarrow> sv_then (recordEvent (logged_row input r)) (\<lambda>_. sv_return r) e'
      | (Raised err _, e') \<Rightarrow> sv_then (recordEvent (thrown_row input err)) (\<lambda>_. sv_rethrow err True) e')"

section \<open>What the writes are handed\<close>

text \<open>A write of the provider, by the method and its arguments after the object it writes to.\<close>

datatype provider_write =
    Do_disableUser | Do_enableUser | Do_unlockUser | Do_moveUser string | Do_setAccountExpiry "ms option"
  | Do_setPasswordMustChange bool | Do_setPasswordNeverExpires bool | Do_resetPassword reset_password
  | Do_updateUserAttributes "(string, json) jsmap"
  | Do_addUserToGroup object_id | Do_removeUserFromGroup object_id
  | Do_addGroupToGroup object_id | Do_removeGroupFromGroup object_id

record 'e deps =
  dp_write :: "object_id \<Rightarrow> provider_write \<Rightarrow> write_context \<Rightarrow> ('e, mutation_result) svc"
  dp_getUser :: "object_id \<Rightarrow> ('e, directory_user option) svc"
  dp_getGroup :: "object_id \<Rightarrow> ('e, directory_group option) svc"
  dp_recordEvent :: "audit_row \<Rightarrow> 'e \<Rightarrow> string option \<times> 'e"
  dp_refresh :: "string \<Rightarrow> ('e, directory_user option) svc"
  dp_reconcileDirectMemberships :: "string \<Rightarrow> string list \<Rightarrow> ('e, unit) svc"
  dp_upsertGroup :: "directory_group \<Rightarrow> ('e, unit) svc"
  dp_reconcileNestedGroups :: "string \<Rightarrow> string list \<Rightarrow> ('e, unit) svc"
  dp_findCachedGroupsById :: "string list \<Rightarrow> ('e, (string, cached_group) jsmap) svc"

text \<open>
  The log is a table of the database: when an insert fails it throws an error of the database, named
  here, and none of the errors of the directory or of a request.
\<close>

definition record_event :: "('e, 'm) deps_scheme \<Rightarrow> audit_row \<Rightarrow> ('e, unit) svc" where
  "record_event d a e =
     (case dp_recordEvent d a e of
        (None, e') \<Rightarrow> (Value (), e')
      | (Some name, e') \<Rightarrow> (Raised (Other_error name) False, e'))"

definition reason_code :: "failure_reason \<Rightarrow> string" where
  "reason_code r =
     (case r of Not_found \<Rightarrow> ''not_found'' | Permission_denied \<Rightarrow> ''permission_denied'' | Policy_violation \<Rightarrow> ''policy_violation''
      | Conflict \<Rightarrow> ''conflict'' | Directory_error \<Rightarrow> ''directory_error'')"

definition op_of :: "mutation_result \<Rightarrow> write_op" where
  "op_of r =
     \<lparr>wo_ok = mr_ok r, wo_before = mr_before r, wo_after = mr_after r, wo_errorCode = map_option reason_code (mr_reason r),
      wo_errorMessage = mr_errorMessage r, wo_targetId = None\<rparr>"

section \<open>One account\<close>

(* src/apps/api/src/services/userAccountWrite.ts:27-45 AccountWrite *)
record account_write =
  acw_action :: string
  acw_metadata :: "(string, json) jsmap option"
  acw_asAsked :: "directory_user \<Rightarrow> (string, json) jsmap option"
  acw_refused :: "string \<Rightarrow> directory_user \<Rightarrow> string option"
  acw_write :: provider_write

text \<open>\<open>{ ...a, ...b }\<close> of two objects that may be missing.\<close>

definition spread :: "(string, json) jsmap option \<Rightarrow> (string, json) jsmap option \<Rightarrow> (string, json) jsmap" where
  "spread a b = object_assign [case a of None \<Rightarrow> [] | Some m \<Rightarrow> m, case b of None \<Rightarrow> [] | Some m \<Rightarrow> m]"

record account_written =
  awn_user :: directory_user
  awn_result :: write_op
  awn_unchanged :: bool
  awn_refreshed :: "directory_user option"

definition account_event :: "account_write \<Rightarrow> audit_base \<Rightarrow> directory_user \<Rightarrow> (string, json) jsmap option \<Rightarrow> audit_input" where
  "account_event w audit u metadata =
     \<lparr>ai_base = audit, ai_action = acw_action w, ai_targetType = ''user'', ai_targetId = Some (du_objectGuid u),
      ai_targetDn = Some (du_distinguishedName u), ai_metadata = metadata\<rparr>"

(* src/apps/api/src/services/userAccountWrite.ts:55-108 writeUserAccount *)
definition writeUserAccount :: "('e, 'm) deps_scheme \<Rightarrow> account_write \<Rightarrow> string \<Rightarrow> write_context \<Rightarrow> audit_base
    \<Rightarrow> ('e, account_written option) svc" where
  "writeUserAccount d w userId ctx audit =
     sv_then (dp_refresh d userId) (\<lambda>before. case before of
       None \<Rightarrow> sv_return None
     | Some u \<Rightarrow>
         (case acw_asAsked w u of
            Some snapshot \<Rightarrow>
              sv_then (withAudit (record_event d)
                  (account_event w audit u
                    (Some (jm_set ''unchanged'' (JBool True) (spread (ab_metadata audit) (acw_metadata w)))))
                  (sv_return \<lparr>wo_ok = True, wo_before = Some snapshot, wo_after = Some snapshot, wo_errorCode = None,
                     wo_errorMessage = None, wo_targetId = None\<rparr>)) (\<lambda>result.
              sv_return (Some \<lparr>awn_user = u, awn_result = result, awn_unchanged = True, awn_refreshed = None\<rparr>))
          | None \<Rightarrow>
              sv_then (withAudit (record_event d)
                  (account_event w audit u
                    (if acw_metadata w = None then ab_metadata audit else Some (spread (ab_metadata audit) (acw_metadata w))))
                  (sv_then (dp_write d (By_objectGuid userId) (acw_write w) ctx) (\<lambda>r. sv_return (op_of r)))) (\<lambda>result.
              sv_then (if wo_ok result then dp_refresh d userId else sv_return None) (\<lambda>refreshed.
              sv_return (Some \<lparr>awn_user = u, awn_result = result, awn_unchanged = False, awn_refreshed = refreshed\<rparr>)))))"

definition plain_write :: "string \<Rightarrow> provider_write \<Rightarrow> account_write" where
  "plain_write action w =
     \<lparr>acw_action = action, acw_metadata = None, acw_asAsked = (\<lambda>_. None), acw_refused = (\<lambda>_ _. None), acw_write = w\<rparr>"

(* src/apps/api/src/services/userAccountWrite.ts:110-113 DISABLE_USER *)
definition DISABLE_USER :: account_write where
  "DISABLE_USER = plain_write ''user.disable'' Do_disableUser"

(* src/apps/api/src/services/userAccountWrite.ts:114-117 ENABLE_USER *)
definition ENABLE_USER :: account_write where
  "ENABLE_USER = plain_write ''user.enable'' Do_enableUser"

(* src/apps/api/src/services/userAccountWrite.ts:118-121 UNLOCK_USER *)
definition UNLOCK_USER :: account_write where
  "UNLOCK_USER = plain_write ''user.unlock'' Do_unlockUser"

(* src/apps/api/src/services/userAccountWrite.ts:126-142 moveUserTo *)
definition moveUserTo :: "cached_ou \<Rightarrow> account_write" where
  "moveUserTo ou =
     \<lparr>acw_action = ''user.move'',
      acw_metadata = Some [(''targetOuDn'', JStr (co_distinguished_name ou)), (''targetOuName'', JStr (co_name ou))],
      acw_asAsked = (\<lambda>u. case parentDn (du_distinguishedName u) of
           Some parent \<Rightarrow>
             if parent \<noteq> [] \<and> to_lower parent = to_lower (co_distinguished_name ou)
             then Some [(''distinguishedName'', JStr (du_distinguishedName u)), (''parentDn'', JStr parent)] else None
         | None \<Rightarrow> None),
      acw_refused = (\<lambda>code u.
         if code = ''conflict''
         then Some (''An object named '' @ (case leafRdnValue (du_distinguishedName u) of None \<Rightarrow> du_distinguishedName u | Some v \<Rightarrow> v)
                @ '' already exists in '' @ co_name ou @ ''.'')
         else None),
      acw_write = Do_moveUser (co_distinguished_name ou)\<rparr>"

(* src/apps/api/src/services/userAccountWrite.ts:144-153 expireAccountAt *)
definition expireAccountAt :: "ms option \<Rightarrow> account_write" where
  "expireAccountAt expiresAt =
     (let at = iso_json expiresAt
      in \<lparr>acw_action = ''user.accountExpiry.set'', acw_metadata = Some [(''expiresAt'', at)],
          acw_asAsked = (\<lambda>u. if iso_json (du_accountExpiresAt u) = at then Some [(''accountExpiresAt'', at)] else None),
          acw_refused = (\<lambda>_ _. None), acw_write = Do_setAccountExpiry expiresAt\<rparr>)"

(* src/apps/api/src/services/userAccountWrite.ts:155-165 REQUIRE_PASSWORD_CHANGE *)
definition REQUIRE_PASSWORD_CHANGE :: account_write where
  "REQUIRE_PASSWORD_CHANGE =
     (plain_write ''user.passwordMustChange.set'' (Do_setPasswordMustChange True))
       \<lparr>acw_asAsked := (\<lambda>u. if du_passwordMustChange u
            then Some [(''passwordMustChange'', JBool True), (''passwordLastSetAt'', iso_json (du_passwordLastSetAt u))]
            else None)\<rparr>"

(* src/apps/api/src/services/userAccountWrite.ts:168-178 CLEAR_PASSWORD_MUST_CHANGE *)
definition CLEAR_PASSWORD_MUST_CHANGE :: account_write where
  "CLEAR_PASSWORD_MUST_CHANGE =
     (plain_write ''user.passwordMustChange.clear'' (Do_setPasswordMustChange False))
       \<lparr>acw_asAsked := (\<lambda>u. if du_passwordMustChange u then None
            else Some [(''passwordMustChange'', JBool False), (''passwordLastSetAt'', iso_json (du_passwordLastSetAt u))])\<rparr>"

text \<open>\<open>Number(rawScalarValue(...)) || null\<close>.\<close>

definition control_json :: "directory_user \<Rightarrow> json" where
  "control_json u =
     (case Option.bind (rawScalarValue (raw_get (du_rawAttributes u) ''userAccountControl'')) whole_number of
        None \<Rightarrow> JNull
      | Some n \<Rightarrow> if n = 0 then JNull else JNum n)"

(* src/apps/api/src/services/userAccountWrite.ts:180-191 CLEAR_PASSWORD_NEVER_EXPIRES *)
definition CLEAR_PASSWORD_NEVER_EXPIRES :: account_write where
  "CLEAR_PASSWORD_NEVER_EXPIRES =
     (plain_write ''user.passwordNeverExpires.clear'' (Do_setPasswordNeverExpires False))
       \<lparr>acw_asAsked := (\<lambda>u. if du_passwordNeverExpires u then None
            else Some [(''passwordNeverExpires'', JBool False), (''userAccountControl'', control_json u)])\<rparr>"

(* src/apps/api/src/services/userAccountWrite.ts:193-204 SET_PASSWORD_NEVER_EXPIRES *)
definition SET_PASSWORD_NEVER_EXPIRES :: account_write where
  "SET_PASSWORD_NEVER_EXPIRES =
     (plain_write ''user.passwordNeverExpires.set'' (Do_setPasswordNeverExpires True))
       \<lparr>acw_asAsked := (\<lambda>u. if du_passwordNeverExpires u
            then Some [(''passwordNeverExpires'', JBool True), (''userAccountControl'', control_json u)]
            else None)\<rparr>"

section \<open>Membership\<close>

(* src/apps/api/src/services/membershipState.ts:6-6 MembershipState *)
datatype membership_state = Direct_member | Primary_member | Nested_member | No_member

text \<open>Adding and removing (\<open>BulkMembershipOp\<close>).\<close>

datatype membership_op = Add_member | Remove_member

(* src/apps/api/src/services/membershipState.ts:14-24 membershipState *)
definition membershipState :: "string option \<Rightarrow> string option \<Rightarrow> bool \<Rightarrow> bool \<Rightarrow> membership_state" where
  "membershipState groupSid primaryGroupId direct nested =
     (if direct then Direct_member
      else case ridOf groupSid of
          Some rid \<Rightarrow>
            if isDomainSid groupSid \<and> primaryGroupId = Some (dec_nat rid) then Primary_member
            else if nested then Nested_member else No_member
        | None \<Rightarrow> if nested then Nested_member else No_member)"

(* src/apps/api/src/services/membershipState.ts:31-33 alreadyAsAsked *)
definition alreadyAsAsked :: "membership_op \<Rightarrow> membership_state \<Rightarrow> bool" where
  "alreadyAsAsked op state \<longleftrightarrow>
     (if op = Add_member then state = Direct_member \<or> state = Primary_member else state \<noteq> Direct_member)"

text \<open>What adding to a group takes: the capability, and of the reason the group and the role it hands out.\<close>

(* src/apps/api/src/services/groupMembershipWrite.ts:23-26 MembershipRequirement *)
record membership_requirement =
  mq_capability :: capability
  mq_group :: string
  mq_role :: role

(* src/apps/api/src/services/groupMembershipWrite.ts:34-50 membershipRequirement *)
fun membershipRequirement :: "membership_op \<Rightarrow> (string \<times> string) list \<Rightarrow> role_group list \<Rightarrow> membership_requirement option" where
  "membershipRequirement Remove_member gs roleGroups = None"
| "membershipRequirement Add_member [] roleGroups = None"
| "membershipRequirement Add_member ((dn, name) # gs) roleGroups =
     (case grantedRole dn roleGroups of
        Some role \<Rightarrow> Some \<lparr>mq_capability = Configure_security, mq_group = name, mq_role = role\<rparr>
      | None \<Rightarrow> membershipRequirement Add_member gs roleGroups)"

(* src/apps/api/src/services/groupMembershipWrite.ts:53-60 membershipRequirements *)
definition membershipRequirements :: "membership_op \<Rightarrow> (string \<times> string) list \<Rightarrow> role_group list \<Rightarrow> membership_requirement list" where
  "membershipRequirements op gs roleGroups = (case membershipRequirement op gs roleGroups of None \<Rightarrow> [] | Some r \<Rightarrow> [r])"

(* src/apps/api/src/services/groupMembershipWrite.ts:68-73 MembershipChange *)
record membership_change =
  mc_kind :: member_kind
  mc_op :: membership_op
  mc_memberGuid :: string
  mc_memberDn :: string
  mc_group :: cached_group

definition kind_text :: "member_kind \<Rightarrow> string" where
  "kind_text k = (case k of Member_user \<Rightarrow> ''user'' | Member_group \<Rightarrow> ''group'')"

definition op_text :: "membership_op \<Rightarrow> string" where
  "op_text op = (case op of Add_member \<Rightarrow> ''add'' | Remove_member \<Rightarrow> ''remove'')"

definition membership_write :: "member_kind \<Rightarrow> membership_op \<Rightarrow> object_id \<Rightarrow> provider_write" where
  "membership_write kind op groupRef =
     (case kind of
        Member_user \<Rightarrow> (case op of Add_member \<Rightarrow> Do_addUserToGroup groupRef | Remove_member \<Rightarrow> Do_removeUserFromGroup groupRef)
      | Member_group \<Rightarrow> (case op of Add_member \<Rightarrow> Do_addGroupToGroup groupRef | Remove_member \<Rightarrow> Do_removeGroupFromGroup groupRef))"

definition group_metadata :: "cached_group \<Rightarrow> (string, json) jsmap" where
  "group_metadata g =
     [(''groupId'', JStr (cg_id g)), (''groupDn'', JStr (cg_distinguishedName g)), (''groupName'', JStr (cg_name g))]"

(* src/apps/api/src/services/groupMembershipWrite.ts:82-120 writeGroupMembership *)
definition writeGroupMembership :: "('e, 'm) deps_scheme \<Rightarrow> membership_change \<Rightarrow> write_context \<Rightarrow> audit_base \<Rightarrow> ('e, write_op) svc" where
  "writeGroupMembership d change ctx base =
     withAudit (record_event d)
       \<lparr>ai_base = base, ai_action = kind_text (mc_kind change) @ ''.group.'' @ op_text (mc_op change),
        ai_targetType = kind_text (mc_kind change), ai_targetId = Some (mc_memberGuid change),
        ai_targetDn = Some (mc_memberDn change), ai_metadata = Some (group_metadata (mc_group change))\<rparr>
       (sv_then (dp_write d (By_objectGuid (mc_memberGuid change))
            (membership_write (mc_kind change) (mc_op change) (By_objectGuid (cg_id (mc_group change)))) ctx)
          (\<lambda>r. sv_return (op_of r)))"

text \<open>Of a user's groups by the user, or of a group's members by the group.\<close>

datatype membership_refresh = Refresh_user string | Refresh_group string

(* src/apps/api/src/services/groupMembershipWrite.ts:128-149 refreshMembershipCache *)
fun refreshMembershipCache :: "('e, 'm) deps_scheme \<Rightarrow> membership_refresh \<Rightarrow> ('e, unit) svc" where
  "refreshMembershipCache d (Refresh_user memberId) =
     sv_then (dp_refresh d memberId) (\<lambda>after. case after of
       None \<Rightarrow> sv_return ()
     | Some u \<Rightarrow> dp_reconcileDirectMemberships d memberId (du_memberOfDns u))"
| "refreshMembershipCache d (Refresh_group groupId) =
     sv_then (dp_getGroup d (By_objectGuid groupId)) (\<lambda>parent. case parent of
       None \<Rightarrow> sv_return ()
     | Some g \<Rightarrow> sv_then (dp_upsertGroup d g) (\<lambda>_. dp_reconcileNestedGroups d (dg_objectGuid g) (dg_memberDns g)))"

section \<open>A user's attributes\<close>

record attributes_written = write_op +
  wo_refreshed :: "directory_user option"

definition manager_of_patch :: "(string, json) jsmap \<Rightarrow> string option" where
  "manager_of_patch patch = (case jm_get patch ''managerDn'' of Some (JStr m) \<Rightarrow> if m = [] then None else Some m | _ \<Rightarrow> None)"

(* src/apps/api/src/services/userAttributeWrite.ts:35-91 writeUserAttributes *)
definition writeUserAttributes :: "('e, 'm) deps_scheme \<Rightarrow> directory_user \<Rightarrow> (string, json) jsmap \<Rightarrow> write_context \<Rightarrow> audit_base
    \<Rightarrow> ('e, attributes_written) svc" where
  "writeUserAttributes d user patch ctx audit =
     sv_then
       (case manager_of_patch patch of
          None \<Rightarrow> sv_return ()
        | Some m \<Rightarrow>
            if to_lower m = to_lower (du_distinguishedName user) then sv_throw (Refusal Self_manager)
            else sv_then (dp_getUser d (By_distinguishedName m)) (\<lambda>manager.
                   if manager = None then sv_throw (Refusal Manager_not_found) else sv_return ()))
       (\<lambda>_.
     sv_then
       (withAudit (record_event d)
          \<lparr>ai_base = audit, ai_action = ''user.update'', ai_targetType = ''user'', ai_targetId = Some (du_objectGuid user),
           ai_targetDn = Some (du_distinguishedName user),
           ai_metadata = Some (if patch \<noteq> [] then [(''fields'', JArr (map (\<lambda>(k, _). JStr k) patch))]
                               else [(''unchanged'', JBool True)])\<rparr>
          (sv_then (dp_write d (By_objectGuid (du_objectGuid user)) (Do_updateUserAttributes patch) ctx)
             (\<lambda>r. sv_return (op_of r)))) (\<lambda>result.
     sv_then (if wo_ok result \<and> patch \<noteq> [] then dp_refresh d (du_objectGuid user) else sv_return None) (\<lambda>refreshed.
     sv_return
       \<lparr>wo_ok = wo_ok result, wo_before = wo_before result, wo_after = wo_after result, wo_errorCode = wo_errorCode result,
        wo_errorMessage = wo_errorMessage result, wo_targetId = wo_targetId result, wo_refreshed = refreshed\<rparr>)))"

end
