(* ===== verification/BulkHandlers.thy ===== *)
theory BulkHandlers
  imports AuditedWrites
begin

text \<open>
  How one row of a bulk job runs (\<^verbatim>\<open>services/bulkJobs/handlers.ts\<close>): an account's write, its
  memberships, its attributes, its new password; and what an account change is resolved to
  (\<^verbatim>\<open>services/bulkAccountChange.ts\<close>) and an edit's fields (\<^verbatim>\<open>services/bulkAttributes.ts\<close>).
\<close>

section \<open>What a row is handed\<close>

record 'e row_deps = "'e deps" +
  rd_findObject :: "object_id \<Rightarrow> ('e, directory_object_ref option) svc"
  rd_findCachedOu :: "string \<Rightarrow> ('e, cached_ou option) svc"
  rd_findCachedUser :: "string \<Rightarrow> ('e, user_row option) svc"
  rd_results_downloaded_at :: "('e, ms option) svc"
  rd_handedOutPassword :: "string option \<Rightarrow> string option \<Rightarrow> ('e, string) svc"
  rd_holdPassword :: "nat \<Rightarrow> string \<Rightarrow> ('e, unit) svc"

text \<open>
  What a row says to the operator is made of these; their wording, some of it outside the characters
  modelled, is a parameter.
\<close>

datatype row_message =
    Changed_groups membership_op "string list"
  | Group_gone membership_op
  | Membership_failed membership_op string string "string option"
  | Ou_gone
  | Manager_gone
  | Own_manager
  | Results_downloaded

record row_context =
  rx_writeCtx :: write_context
  rx_audit :: audit_base
  rx_say :: "row_message list \<Rightarrow> string"

record job_row =
  jr_id :: nat
  jr_targetId :: string
  jr_before :: "json option"
  jr_after :: "json option"

definition failed_row :: "string \<Rightarrow> bool \<Rightarrow> failed_outcome" where
  "failed_row code audited =
     \<lparr>fo_errorCode = code, fo_errorMessage = None, fo_before = None, fo_after = None, fo_targetDn = None,
      fo_targetId = None, fo_message = None, fo_partial = False, fo_audited = audited\<rparr>"

definition kept_row :: "json option \<Rightarrow> json option \<Rightarrow> string \<Rightarrow> ok_outcome" where
  "kept_row before after targetDn =
     \<lparr>oo_unchanged = True, oo_reason = None, oo_before = before, oo_after = after, oo_targetDn = Some targetDn,
      oo_targetId = None\<rparr>"

section \<open>An account's write\<close>

(* src/apps/api/src/services/bulkJobs/handlers.ts:198-201 changeStamp *)
definition changeStamp :: "directory_user option \<Rightarrow> (string, json) jsmap" where
  "changeStamp user =
     (case user of
        None \<Rightarrow> []
      | Some u \<Rightarrow>
          (let usn = rawScalarValue (raw_get (du_rawAttributes u) ''uSNChanged'')
           in if truthy usn then [(''uSNChanged'', JStr (the usn))] else []))"

(* src/apps/api/src/services/bulkJobs/handlers.ts:204-242 accountRow *)
definition accountRow :: "('e, 'm) deps_scheme \<Rightarrow> job_row \<Rightarrow> row_context \<Rightarrow> account_write \<Rightarrow> ('e, row_outcome) svc" where
  "accountRow d row ctx account =
     sv_then (writeUserAccount d account (jr_targetId row) (rx_writeCtx ctx) (rx_audit ctx)) (\<lambda>written.
       case written of
         None \<Rightarrow> sv_return (Failed_row (failed_row ''not_found'' False))
       | Some w \<Rightarrow>
           let result = awn_result w;
               targetDn = du_distinguishedName (awn_user w);
               before = map_option JObj (wo_before result);
               after = map_option (\<lambda>a. JObj (spread (Some a) (Some (changeStamp (awn_refreshed w))))) (wo_after result)
           in if awn_unchanged w then sv_return (Ok_row (kept_row (jr_before row) (jr_after row) targetDn))
              else if wo_ok result
              then sv_return (Ok_row ((kept_row before after targetDn)\<lparr>oo_unchanged := False\<rparr>))
              else
                let errorCode = (case wo_errorCode result of None \<Rightarrow> ''directory_error'' | Some c \<Rightarrow> c);
                    message = acw_refused account errorCode (awn_user w)
                in sv_return (Failed_row ((failed_row errorCode True)
                     \<lparr>fo_errorMessage := wo_errorMessage result, fo_message := (if truthy message then message else None),
                      fo_before := before, fo_after := after, fo_targetDn := Some targetDn\<rparr>)))"

text \<open>The one way a job changes each account (\<open>BulkAccountChange\<close>).\<close>

datatype account_change = Change_move string | Change_accountExpiry "ms option" | Change_mustChangePassword
  | Change_clearPasswordNeverExpires

(* src/apps/api/src/services/bulkAccountChange.ts:123-136 resolveAccountChange *)
fun resolveAccountChange :: "('e, 'm) row_deps_scheme \<Rightarrow> account_change \<Rightarrow> ('e, account_write) svc" where
  "resolveAccountChange d (Change_move targetOuDn) =
     sv_then (rd_findCachedOu d targetOuDn) (\<lambda>ou. case ou of
       None \<Rightarrow> sv_throw (Bad_request ''ou_not_found'')
     | Some ou \<Rightarrow>
         if userMoveRefusal ou \<noteq> None then sv_throw (Bad_request ''ou_refused'') else sv_return (moveUserTo ou))"
| "resolveAccountChange d (Change_accountExpiry expiresAt) = sv_return (expireAccountAt expiresAt)"
| "resolveAccountChange d Change_mustChangePassword = sv_return REQUIRE_PASSWORD_CHANGE"
| "resolveAccountChange d Change_clearPasswordNeverExpires = sv_return CLEAR_PASSWORD_NEVER_EXPIRES"

(* src/apps/api/src/services/bulkJobs/handlers.ts:277-295 run *)
definition accountChangeRow :: "('e, 'm) row_deps_scheme \<Rightarrow> job_row \<Rightarrow> row_context \<Rightarrow> account_change \<Rightarrow> ('e, row_outcome) svc" where
  "accountChangeRow d row ctx change =
     (\<lambda>e. case resolveAccountChange d change e of
        (Value w, e') \<Rightarrow> accountRow d row ctx w e'
      | (Raised (Bad_request _) _, e') \<Rightarrow>
          sv_return (Failed_row ((failed_row ''not_found'' False)\<lparr>fo_message := Some (rx_say ctx [Ou_gone])\<rparr>)) e'
      | (Raised err a, e') \<Rightarrow> sv_rethrow err a e')"

section \<open>Memberships\<close>

record changed_group =
  chg_id :: string
  chg_name :: string
  chg_isMember :: bool

definition changed_json :: "changed_group \<Rightarrow> json" where
  "changed_json g = JObj [(''id'', JStr (chg_id g)), (''name'', JStr (chg_name g)), (''isMember'', JBool (chg_isMember g))]"

fun changed_of :: "json \<Rightarrow> changed_group option" where
  "changed_of (JObj kvs) =
     (case (jm_get kvs ''id'', jm_get kvs ''name'', jm_get kvs ''isMember'') of
        (Some (JStr i), Some (JStr n), Some (JBool m)) \<Rightarrow> Some \<lparr>chg_id = i, chg_name = n, chg_isMember = m\<rparr>
      | _ \<Rightarrow> None)"
| "changed_of _ = None"

definition groups_json :: "changed_group list \<Rightarrow> json" where
  "groups_json gs = JObj [(''groups'', JArr (map changed_json gs))]"

text \<open>The groups a row keeps, as the code writes them: what is no such group is passed over.\<close>

(* src/apps/api/src/services/bulkJobs/handlers.ts:498-503 changedGroups *)
definition changedGroups :: "json option \<Rightarrow> changed_group list" where
  "changedGroups after =
     (case after of
        Some (JObj kvs) \<Rightarrow> (case jm_get kvs ''groups'' of Some (JArr gs) \<Rightarrow> List.map_filter changed_of gs | _ \<Rightarrow> [])
      | _ \<Rightarrow> [])"

text \<open>
  Where the loop over the groups has got to: the changes by group, the groups changed by this run, and
  the failures with their codes.
\<close>

record membership_progress =
  mp_changes :: "(string, changed_group) jsmap"
  mp_changedNow :: "string list"
  mp_failures :: "(string \<times> row_message) list"

definition membership_event :: "membership_op \<Rightarrow> directory_user \<Rightarrow> audit_base \<Rightarrow> (string, json) jsmap \<Rightarrow> audit_input" where
  "membership_event op user audit metadata =
     \<lparr>ai_base = audit, ai_action = ''user.group.'' @ op_text op, ai_targetType = ''user'',
      ai_targetId = Some (du_objectGuid user), ai_targetDn = Some (du_distinguishedName user), ai_metadata = Some metadata\<rparr>"

definition primary_snapshot :: "cached_group \<Rightarrow> directory_user \<Rightarrow> (string, json) jsmap" where
  "primary_snapshot g user =
     [(''isMember'', JBool True), (''group'', JStr (cg_distinguishedName g)), (''member'', JStr (du_distinguishedName user)),
      (''memberKind'', JStr ''user''), (''primaryGroup'', JBool True)]"

definition was_member :: "write_op \<Rightarrow> bool" where
  "was_member r = (case wo_before r of Some b \<Rightarrow> jm_get b ''isMember'' = Some (JBool True) | None \<Rightarrow> False)"

text \<open>One group: how far the loop is after it, and whether it goes on.\<close>

(* src/apps/api/src/services/bulkJobs/handlers.ts:380-465 membershipRow *)
definition membership_group :: "('e, 'm) row_deps_scheme \<Rightarrow> membership_op \<Rightarrow> (string, cached_group) jsmap \<Rightarrow> directory_user
    \<Rightarrow> row_context \<Rightarrow> string \<Rightarrow> membership_progress \<Rightarrow> ('e, membership_progress \<times> bool) svc" where
  "membership_group d op gs user ctx groupId p =
     (let primaryGroupId = rawScalarValue (raw_get (du_rawAttributes user) ''primaryGroupID'')
      in case jm_get gs groupId of
        None \<Rightarrow>
          sv_then (record_event d (audit_input.extend
              (membership_event op user (rx_audit ctx) [(''groupId'', JStr groupId)])
              \<lparr>ar_ok = False, ar_errorCode = Some ''not_found'', ar_before = None, ar_after = None\<rparr>)) (\<lambda>_.
          sv_return (p\<lparr>mp_failures := mp_failures p @ [(''not_found'', Group_gone op)]\<rparr>, True))
      | Some g \<Rightarrow>
          if op = Add_member \<and> membershipState (cg_sid g) primaryGroupId False False = Primary_member
          then
            sv_then (record_event d (audit_input.extend (membership_event op user (rx_audit ctx) (group_metadata g))
                \<lparr>ar_ok = True, ar_errorCode = None, ar_before = Some (primary_snapshot g user),
                 ar_after = Some (primary_snapshot g user)\<rparr>)) (\<lambda>_.
            sv_return (p, True))
          else
            (\<lambda>e. case writeGroupMembership d
                  \<lparr>mc_kind = Member_user, mc_op = op, mc_memberGuid = du_objectGuid user,
                   mc_memberDn = du_distinguishedName user, mc_group = g\<rparr> (rx_writeCtx ctx) (rx_audit ctx) e of
               (Raised Unavailable _, e') \<Rightarrow>
                 sv_return (p\<lparr>mp_failures := mp_failures p
                     @ [(''directory_unavailable'', Membership_failed op (cg_name g) ''directory_unavailable'' None)]\<rparr>, False) e'
             | (Raised err a, e') \<Rightarrow> sv_rethrow err a e'
             | (Value result, e') \<Rightarrow>
                 sv_return
                   (if \<not> wo_ok result
                    then let code = (case wo_errorCode result of None \<Rightarrow> ''directory_error'' | Some c \<Rightarrow> c)
                         in p\<lparr>mp_failures := mp_failures p
                              @ [(code, Membership_failed op (cg_name g) code (wo_errorMessage result))]\<rparr>
                    else if alreadyAsAsked op (membershipState (cg_sid g) primaryGroupId (was_member result) False) then p
                    else p\<lparr>mp_changes := jm_set (cg_id g)
                             \<lparr>chg_id = cg_id g, chg_name = cg_name g, chg_isMember = (op = Add_member)\<rparr> (mp_changes p),
                           mp_changedNow := mp_changedNow p @ [cg_name g]\<rparr>, True) e'))"

fun membership_groups :: "('e, 'm) row_deps_scheme \<Rightarrow> membership_op \<Rightarrow> (string, cached_group) jsmap \<Rightarrow> directory_user
    \<Rightarrow> row_context \<Rightarrow> string list \<Rightarrow> membership_progress \<Rightarrow> ('e, membership_progress) svc" where
  "membership_groups d op gs user ctx [] p = sv_return p"
| "membership_groups d op gs user ctx (groupId # groupIds) p =
     sv_then (membership_group d op gs user ctx groupId p) (\<lambda>(p', on).
       if on then membership_groups d op gs user ctx groupIds p' else sv_return p')"

definition membership_outcome :: "membership_op \<Rightarrow> directory_user \<Rightarrow> row_context \<Rightarrow> membership_progress \<Rightarrow> row_outcome" where
  "membership_outcome op user ctx p =
     (let merged = map snd (mp_changes p);
          before = (if merged \<noteq> [] then Some (groups_json (map (\<lambda>g. g\<lparr>chg_isMember := \<not> chg_isMember g\<rparr>) merged)) else None);
          after = (if merged \<noteq> [] then Some (groups_json merged) else None)
      in case mp_failures p of
           [] \<Rightarrow> Ok_row ((kept_row before after (du_distinguishedName user))\<lparr>oo_unchanged := (merged = [])\<rparr>)
         | (code, _) # _ \<Rightarrow>
             Failed_row ((failed_row code True)
               \<lparr>fo_message := Some (rx_say ctx
                  ((if merged \<noteq> [] then [Changed_groups op (map chg_name merged)] else []) @ map snd (mp_failures p))),
                fo_partial := (merged \<noteq> []), fo_before := before, fo_after := after,
                fo_targetDn := Some (du_distinguishedName user)\<rparr>))"

(* src/apps/api/src/services/bulkJobs/handlers.ts:364-495 membershipRow *)
definition membershipRow :: "('e, 'm) row_deps_scheme \<Rightarrow> membership_op \<Rightarrow> string \<Rightarrow> json option \<Rightarrow> string list \<Rightarrow> directory_user
    \<Rightarrow> row_context \<Rightarrow> ('e, row_outcome) svc" where
  "membershipRow d op targetId after groupIds user ctx =
     sv_then (dp_findCachedGroupsById d groupIds) (\<lambda>gs.
     sv_then (membership_groups d op gs user ctx groupIds
        \<lparr>mp_changes = fold (\<lambda>g. jm_set (chg_id g) g) (changedGroups after) [], mp_changedNow = [], mp_failures = []\<rparr>) (\<lambda>p.
     sv_then
       (if mp_changedNow p \<noteq> []
        then sv_catch (refreshMembershipCache d (Refresh_user targetId))
               (\<lambda>err a. if err = Unavailable then sv_return () else sv_rethrow err a)
        else sv_return ()) (\<lambda>_.
     sv_return (membership_outcome op user ctx p))))"

(* src/apps/api/src/services/bulkJobs/handlers.ts:351-355 run *)
definition groupMembershipRow :: "('e, 'm) row_deps_scheme \<Rightarrow> membership_op \<Rightarrow> job_row \<Rightarrow> string list \<Rightarrow> row_context
    \<Rightarrow> ('e, row_outcome) svc" where
  "groupMembershipRow d op row groupIds ctx =
     sv_then (dp_refresh d (jr_targetId row)) (\<lambda>live. case live of
       None \<Rightarrow> sv_return (Failed_row (failed_row ''not_found'' False))
     | Some user \<Rightarrow> membershipRow d op (jr_targetId row) (jr_after row) groupIds user ctx)"

section \<open>Attributes\<close>

text \<open>The fields an edit names: a field that isn't there is left alone, one that is null is cleared.\<close>

(* src/packages/shared/src/schemas/bulkJob.ts:259-294 bulkAttributeChangesSchema *)
record attribute_changes =
  ach_texts :: "(attr_field, string option) jsmap"
  ach_postOfficeBox :: "string list option option"
  ach_country :: "string option option"
  ach_manager :: "string option option"

definition no_country :: country where
  "no_country = \<lparr>ct_c = None, ct_co = None, ct_countryCode = None\<rparr>"

(* src/apps/api/src/services/bulkAttributes.ts:258-281 resolveChanges *)
definition resolveChanges :: "('e, 'm) row_deps_scheme \<Rightarrow> attribute_changes \<Rightarrow> ('e, resolved_changes) svc" where
  "resolveChanges d changes =
     (let values = (\<lambda>f. map_option AV_text (jm_get (ach_texts changes) f));
          values = (case ach_postOfficeBox changes of
              None \<Rightarrow> values
            | Some boxes \<Rightarrow> values(F_postOfficeBox \<mapsto> AV_boxes (sort (case boxes of None \<Rightarrow> [] | Some vs \<Rightarrow> vs))));
          values = (case ach_country changes of
              None \<Rightarrow> values
            | Some code \<Rightarrow> values(F_country \<mapsto> AV_country
                (case Option.bind code directoryCountry of
                   None \<Rightarrow> no_country
                 | Some c \<Rightarrow> \<lparr>ct_c = Some (dc_c c), ct_co = Some (dc_co c), ct_countryCode = Some (dc_countryCode c)\<rparr>)))
      in case ach_manager changes of
           None \<Rightarrow> sv_return \<lparr>rc_values = values, rc_managerName = None\<rparr>
         | Some None \<Rightarrow> sv_return \<lparr>rc_values = values(F_manager \<mapsto> AV_text None), rc_managerName = None\<rparr>
         | Some (Some manager) \<Rightarrow>
             sv_then (rd_findCachedUser d (to_lower manager)) (\<lambda>found. case found of
               None \<Rightarrow> sv_throw (Bad_request ''manager_not_found'')
             | Some u \<Rightarrow>
                 sv_return \<lparr>rc_values = values(F_manager \<mapsto> AV_text (Some (uc_distinguished_name u))),
                   rc_managerName = Some (cachedUserName u (uc_distinguished_name u))\<rparr>))"

text \<open>The manager's GUID beside their DN, both as it was and as it is.\<close>

definition guid_of_dn :: "('e, 'm) row_deps_scheme \<Rightarrow> json option \<Rightarrow> ('e, json) svc" where
  "guid_of_dn d dn =
     (case dn of
        Some (JStr m) \<Rightarrow>
          sv_then (rd_findObject d (By_distinguishedName m)) (\<lambda>found.
            sv_return (case found of None \<Rightarrow> JNull | Some r \<Rightarrow> JStr (ref_objectGuid r)))
      | _ \<Rightarrow> sv_return JNull)"

definition refusal_code :: "refusal \<Rightarrow> string" where
  "refusal_code r = (case r of Self_manager \<Rightarrow> ''self_manager'' | Manager_not_found \<Rightarrow> ''manager_not_found'')"

definition manager_gone :: "row_context \<Rightarrow> string \<Rightarrow> string \<Rightarrow> row_outcome" where
  "manager_gone ctx code targetDn =
     Failed_row ((failed_row code False)\<lparr>fo_message := Some (rx_say ctx [Manager_gone]), fo_targetDn := Some targetDn\<rparr>)"

(* src/apps/api/src/services/bulkJobs/handlers.ts:574-639 attributesRow *)
definition attributesRow :: "('e, 'm) row_deps_scheme \<Rightarrow> json option \<Rightarrow> json option \<Rightarrow> directory_user \<Rightarrow> row_context
    \<Rightarrow> ('e, resolved_changes) svc \<Rightarrow> ('e, row_outcome) svc" where
  "attributesRow d before after user ctx target =
     (let targetDn = du_distinguishedName user
      in sv_catch
        (sv_then target (\<lambda>resolved.
           let changes = fst (fieldChanges (liveValues user) (rc_values resolved))
           in sv_then (writeUserAttributes d user (patchFor changes) (rx_writeCtx ctx) (rx_audit ctx)) (\<lambda>result.
             if \<not> wo_ok result
             then sv_return (Failed_row ((failed_row (case wo_errorCode result of None \<Rightarrow> ''directory_error'' | Some c \<Rightarrow> c) True)
                    \<lparr>fo_errorMessage := wo_errorMessage result, fo_targetDn := Some targetDn\<rparr>))
             else if changes = [] then sv_return (Ok_row (kept_row before after targetDn))
             else
               let snaps = rowSnapshots changes
               in sv_then
                 (if list_ex (\<lambda>c. fc_field c = F_manager) changes
                  then sv_then (guid_of_dn d (jm_get (fst snaps) ''managerDn'')) (\<lambda>b.
                       sv_then (guid_of_dn d (jm_get (snd snaps) ''managerDn'')) (\<lambda>a.
                       sv_return (jm_set ''managerGuid'' b (fst snaps), jm_set ''managerGuid'' a (snd snaps))))
                  else sv_return snaps) (\<lambda>snaps.
               sv_return (Ok_row ((kept_row (Some (JObj (fst snaps)))
                   (Some (JObj (spread (Some (snd snaps)) (Some (changeStamp (wo_refreshed result)))))) targetDn)
                 \<lparr>oo_unchanged := False\<rparr>))))))
        (\<lambda>err a. case err of
           Refusal Self_manager \<Rightarrow>
             sv_return (Ok_row ((kept_row before after targetDn)
               \<lparr>oo_reason := Some (refusal_code Self_manager, rx_say ctx [Own_manager])\<rparr>))
         | Refusal r \<Rightarrow> sv_return (manager_gone ctx (refusal_code r) targetDn)
         | Bad_request code \<Rightarrow> sv_return (manager_gone ctx code targetDn)
         | _ \<Rightarrow> sv_rethrow err a))"

(* src/apps/api/src/services/bulkJobs/handlers.ts:558-565 run *)
definition userAttributesRow :: "('e, 'm) row_deps_scheme \<Rightarrow> job_row \<Rightarrow> attribute_changes \<Rightarrow> row_context
    \<Rightarrow> ('e, row_outcome) svc" where
  "userAttributesRow d row changes ctx =
     sv_then (dp_refresh d (jr_targetId row)) (\<lambda>live. case live of
       None \<Rightarrow> sv_return (Failed_row (failed_row ''not_found'' False))
     | Some user \<Rightarrow> attributesRow d (jr_before row) (jr_after row) user ctx (resolveChanges d changes))"

section \<open>A new password\<close>

(* src/apps/api/src/services/bulkJobs/handlers.ts:676-729 run *)
definition passwordResetRow :: "('e, 'm) row_deps_scheme \<Rightarrow> job_row \<Rightarrow> row_context \<Rightarrow> ('e, row_outcome) svc" where
  "passwordResetRow d row ctx =
     sv_then (rd_results_downloaded_at d) (\<lambda>downloaded.
       if \<not> passwordsHoldable downloaded
       then sv_return (Failed_row ((failed_row ''results_downloaded'' False)\<lparr>fo_message := Some (rx_say ctx [Results_downloaded])\<rparr>))
       else
     sv_then (dp_refresh d (jr_targetId row)) (\<lambda>live. case live of
       None \<Rightarrow> sv_return (Failed_row (failed_row ''not_found'' False))
     | Some user \<Rightarrow>
         sv_then (rd_handedOutPassword d (du_samAccountName user) (du_displayName user)) (\<lambda>password.
         sv_then (rd_holdPassword d (jr_id row) password) (\<lambda>_.
         sv_then
           (withAudit (record_event d)
             \<lparr>ai_base = rx_audit ctx, ai_action = ''user.password.reset'', ai_targetType = ''user'',
              ai_targetId = Some (du_objectGuid user), ai_targetDn = Some (du_distinguishedName user),
              ai_metadata = Some [(''forceChangeAtNextLogin'', JBool True), (''unlock'', JBool False)]\<rparr>
             (sv_then (dp_write d (By_objectGuid (du_objectGuid user))
                  (Do_resetPassword \<lparr>rp_newPassword = password, rp_forceChangeAtNextLogin = True, rp_unlock = False\<rparr>)
                  (rx_writeCtx ctx))
                (\<lambda>r. sv_return \<lparr>wo_ok = mr_ok r, wo_before = None, wo_after = None,
                         wo_errorCode = map_option reason_code (mr_reason r), wo_errorMessage = mr_errorMessage r,
                         wo_targetId = None\<rparr>))) (\<lambda>result.
         if \<not> wo_ok result
         then sv_return (Failed_row ((failed_row (case wo_errorCode result of None \<Rightarrow> ''directory_error'' | Some c \<Rightarrow> c) True)
                \<lparr>fo_errorMessage := wo_errorMessage result, fo_targetDn := Some (du_distinguishedName user)\<rparr>))
         else
         sv_then (dp_refresh d (du_objectGuid user)) (\<lambda>_.
         sv_return (Ok_row ((kept_row None None (du_distinguishedName user))\<lparr>oo_unchanged := False\<rparr>))))))))"

section \<open>The jobs\<close>

text \<open>What a job's row does, by its action, and what the run makes of what comes back.\<close>

datatype row_work = Work_account account_write | Work_change account_change | Work_groups membership_op "string list"
  | Work_attributes attribute_changes | Work_password_reset

fun run_work :: "('e, 'm) row_deps_scheme \<Rightarrow> row_context \<Rightarrow> job_row \<Rightarrow> row_work \<Rightarrow> ('e, row_outcome) svc" where
  "run_work d ctx row (Work_account w) = accountRow d row ctx w"
| "run_work d ctx row (Work_change c) = accountChangeRow d row ctx c"
| "run_work d ctx row (Work_groups op groupIds) = groupMembershipRow d op row groupIds ctx"
| "run_work d ctx row (Work_attributes changes) = userAttributesRow d row changes ctx"
| "run_work d ctx row Work_password_reset = passwordResetRow d row ctx"

datatype stored_input = Input_none | Input_change account_change | Input_groups "string list" | Input_attributes attribute_changes

(* src/apps/api/src/services/bulkJobs/handlers.ts:732-747 BULK_ACTION_HANDLERS *)
fun work_of :: "job_kind \<Rightarrow> stored_input \<Rightarrow> row_work option" where
  "work_of User_disable Input_none = Some (Work_account DISABLE_USER)"
| "work_of User_enable Input_none = Some (Work_account ENABLE_USER)"
| "work_of User_unlock Input_none = Some (Work_account UNLOCK_USER)"
| "work_of User_group_add (Input_groups groupIds) = Some (Work_groups Add_member groupIds)"
| "work_of User_group_remove (Input_groups groupIds) = Some (Work_groups Remove_member groupIds)"
| "work_of User_update (Input_attributes changes) = Some (Work_attributes changes)"
| "work_of User_move (Input_change change) = Some (Work_change change)"
| "work_of User_accountExpiry_set (Input_change change) = Some (Work_change change)"
| "work_of User_passwordMustChange_set (Input_change change) = Some (Work_change change)"
| "work_of User_passwordNeverExpires_clear (Input_change change) = Some (Work_change change)"
| "work_of User_password_reset Input_none = Some Work_password_reset"
| "work_of _ _ = None"

fun handled :: "row_outcome svc_result \<Rightarrow> handler_result" where
  "handled (Value out) = Returned out"
| "handled (Raised Unavailable audited) = Threw_unavailable audited"
| "handled (Raised _ audited) = Threw_other audited"

end
