(* ===== verification/ImportOrder.thy ===== *)
theory ImportOrder
  imports BulkJobClaims "HOL-Library.Multiset"
begin

text \<open>
  The managers within an import of users: which rows' managers go round in a loop
  (\<^verbatim>\<open>packages/shared/src/schemas/userImport.ts\<close>), the order that puts each manager before the people
  they manage, and the job's rows in that order (\<^verbatim>\<open>services/bulkJobs/importRows.ts\<close>).
\<close>

section \<open>Loops\<close>

text \<open>The walk from \<open>start\<close>, now at \<open>i\<close>: whether it comes back before it meets a row twice.\<close>

function walk_returns :: "(nat, nat) jsmap \<Rightarrow> nat \<Rightarrow> nat list \<Rightarrow> nat \<Rightarrow> bool" where
  "walk_returns managerOf start seen i =
     (case jm_get managerOf i of
        None \<Rightarrow> False
      | Some a \<Rightarrow>
          if a = start then True
          else if a \<in> set seen then False
          else walk_returns managerOf start (a # seen) a)"
  by pat_completeness auto
termination
proof (relation "measure (\<lambda>(managerOf, start, seen, i). card (snd ` set managerOf - set seen))")
  fix managerOf :: "(nat, nat) jsmap" and start i a :: nat and seen
  assume "jm_get managerOf i = Some a" "a \<notin> set seen"
  then have "a \<in> snd ` set managerOf - set seen" by (force dest: map_of_SomeD)
  then have "snd ` set managerOf - set (a # seen) \<subset> snd ` set managerOf - set seen" by auto
  then show "((managerOf, start, a # seen, a), managerOf, start, seen, i)
      \<in> measure (\<lambda>(managerOf, start, seen, i). card (snd ` set managerOf - set seen))"
    by (simp add: psubset_card_mono)
qed simp

declare walk_returns.simps [simp del]

(* src/packages/shared/src/schemas/userImport.ts:84-98 managerLoops *)
definition managerLoops :: "(nat, nat) jsmap \<Rightarrow> nat list" where
  "managerLoops managerOf = filter (\<lambda>start. walk_returns managerOf start [start] start) (map fst managerOf)"

text \<open>Who manages whom, as the specification of a loop.\<close>

definition manages :: "(nat, nat) jsmap \<Rightarrow> nat rel" where
  "manages managerOf = {(i, m). jm_get managerOf i = Some m}"

lemma manages_iff [simp]: "(i, m) \<in> manages f \<longleftrightarrow> jm_get f i = Some m"
  by (simp add: manages_def)

lemma walk_returns_sound:
  "walk_returns f start seen i \<Longrightarrow> (i, start) \<in> (manages f)\<^sup>+"
proof (induction f start seen i rule: walk_returns.induct)
  case (1 f start seen i)
  from 1(2) obtain a where a: "jm_get f i = Some a" and on: "a = start \<or> a \<notin> set seen \<and> walk_returns f start (a # seen) a"
    by (subst (asm) walk_returns.simps) (simp split: option.splits if_splits)
  have ia: "(i, a) \<in> manages f" using a by simp
  show ?case
  proof (cases "a = start")
    case True
    then show ?thesis using ia by blast
  next
    case False
    with on have "(a, start) \<in> (manages f)\<^sup>+" using 1(1) [OF a] by blast
    then show ?thesis using ia by (rule trancl_into_trancl2 [rotated])
  qed
qed

text \<open>The rows a walk has seen, latest first: each is the manager of the one after it.\<close>

fun trail :: "(nat, nat) jsmap \<Rightarrow> nat list \<Rightarrow> bool" where
  "trail f [] = True"
| "trail f [x] = True"
| "trail f (y # x # xs) \<longleftrightarrow> jm_get f x = Some y \<and> trail f (x # xs)"

lemma trail_closed:
  "trail f (ys @ a # zs) \<Longrightarrow> x \<in> set ys \<union> {a} \<Longrightarrow> x \<noteq> hd (ys @ [a]) \<Longrightarrow> \<exists>m \<in> set ys. jm_get f x = Some m"
proof (induction ys)
  case (Cons y ys)
  then show ?case
  proof (cases ys)
    case Nil
    with Cons show ?thesis by (cases zs) auto
  next
    case (Cons y' ys')
    with Cons.prems have t: "trail f (ys @ a # zs)" and y': "jm_get f y' = Some y" by simp_all
    show ?thesis
    proof (cases "x = y'")
      case True
      then show ?thesis using y' by simp
    next
      case False
      then show ?thesis using Cons.IH [OF t] Cons.prems(2,3) Cons by auto
    qed
  qed
qed simp

lemma closed_never_leaves:
  assumes "(x, z) \<in> (manages f)\<^sup>+" "x \<in> S" "\<And>y m. y \<in> S \<Longrightarrow> jm_get f y = Some m \<Longrightarrow> m \<in> S"
  shows "z \<in> S"
  using assms by (induction rule: trancl_induct) auto

lemma walk_returns_complete:
  "(i, start) \<in> (manages f)\<^sup>+ \<Longrightarrow> trail f seen \<Longrightarrow> seen \<noteq> [] \<Longrightarrow> hd seen = i \<Longrightarrow> last seen = start
     \<Longrightarrow> start \<notin> set (butlast seen) \<Longrightarrow> walk_returns f start seen i"
proof (induction f start seen i rule: walk_returns.induct)
  case (1 f start seen i)
  obtain a where a: "jm_get f i = Some a" and on: "a = start \<or> (a, start) \<in> (manages f)\<^sup>+"
    using converse_tranclE [OF 1(2)] manages_iff by metis
  obtain rest where seen: "seen = i # rest" using 1(4,5) by (cases seen) auto
  have fresh: "a \<notin> set seen" if ne: "a \<noteq> start"
  proof
    assume "a \<in> set seen"
    then obtain ys zs where split: "seen = ys @ a # zs" by (auto dest: split_list)
    then have zs: "zs \<noteq> []" using 1(6) ne by auto
    have "jm_get f y = Some m \<Longrightarrow> m \<in> set ys \<union> {a}" if "y \<in> set ys \<union> {a}" for y m
    proof (cases "y = hd (ys @ [a])")
      case True
      then have "y = i" using 1(5) split by (cases ys) auto
      with a show "jm_get f y = Some m \<Longrightarrow> m \<in> set ys \<union> {a}" by simp
    next
      case False
      show "jm_get f y = Some m \<Longrightarrow> m \<in> set ys \<union> {a}"
        using trail_closed [of f ys a zs y] 1(3) that False split by auto
    qed
    then have "start \<in> set ys \<union> {a}"
      using closed_never_leaves [of a start f "set ys \<union> {a}"] on ne by auto
    then show False using 1(7) split zs ne by (auto simp: butlast_append)
  qed
  show ?case
  proof (cases "a = start")
    case True
    then show ?thesis by (subst walk_returns.simps) (simp add: a)
  next
    case False
    have "walk_returns f start (a # seen) a"
    proof (rule 1(1) [OF a False fresh [OF False]])
      show "trail f (a # seen)" using 1(3) a seen by simp
      show "(a, start) \<in> (manages f)\<^sup>+" using on False by simp
      show "start \<notin> set (butlast (a # seen))" using 1(7) False seen by simp
    qed (use 1(6) seen in simp_all)
    then show ?thesis using a False fresh [OF False] by (subst walk_returns.simps) simp
  qed
qed

lemma managerLoops_iff: "i \<in> set (managerLoops f) \<longleftrightarrow> (i, i) \<in> (manages f)\<^sup>+"
proof -
  have "i \<in> fst ` set f" if "(i, i) \<in> (manages f)\<^sup>+"
    using that by (cases rule: converse_tranclE) (force dest: map_of_SomeD)+
  moreover have "walk_returns f i [i] i \<longleftrightarrow> (i, i) \<in> (manages f)\<^sup>+"
    using walk_returns_sound [of f i "[i]" i] walk_returns_complete [of i i f "[i]"] by auto
  ultimately show ?thesis by (auto simp: managerLoops_def)
qed

text \<open>Without a loop, nobody manages themselves at any remove.\<close>

lemma no_loops_iff: "managerLoops f = [] \<longleftrightarrow> acyclic (manages f)"
  using managerLoops_iff [of _ f] unfolding acyclic_def by (metis empty_iff empty_set last_in_set)

section \<open>The order of the rows\<close>

(* src/apps/api/src/services/bulkJobs/importRows.ts:143-156 managersFirst *)
function place :: "nat option list \<Rightarrow> nat \<Rightarrow> nat list \<Rightarrow> nat list \<Rightarrow> (nat list \<times> nat list) option" where
  "place managers i placed order =
     (if i \<in> set placed then Some (placed, order)
      else if i \<ge> length managers then None
      else case managers ! i of
          None \<Rightarrow> Some (i # placed, order @ [i])
        | Some m \<Rightarrow> map_option (\<lambda>(placed, order). (placed, order @ [i])) (place managers m (i # placed) order))"
  by pat_completeness auto
termination
proof (relation "measure (\<lambda>(managers, i, placed, order). card ({..<length managers} - set placed))")
  fix managers :: "nat option list" and i m :: nat and placed order :: "nat list"
  assume "i \<notin> set placed" "\<not> i \<ge> length managers"
  then have i: "i \<in> {..<length managers} - set placed" by simp
  have "{..<length managers} - set (i # placed) = ({..<length managers} - set placed) - {i}"
    unfolding list.set by (rule Diff_insert)
  then show "((managers, m, i # placed, order), managers, i, placed, order)
      \<in> measure (\<lambda>(managers, i, placed, order). card ({..<length managers} - set placed))"
    using card_Diff1_less [OF _ i] by simp
qed simp

declare place.simps [simp del]

text \<open>A row whose manager's index is outside the rows makes the code throw: the result is \<open>None\<close>.\<close>

(* src/apps/api/src/services/bulkJobs/importRows.ts:143-156 managersFirst *)
definition managersFirst :: "nat option list \<Rightarrow> nat list option" where
  "managersFirst managers =
     map_option snd (foldl (\<lambda>s i. case s of None \<Rightarrow> None | Some (placed, order) \<Rightarrow> place managers i placed order)
       (Some ([], [])) [0..<length managers])"

text \<open>What the request says of its managers (\<open>superRefine\<close>).\<close>

definition manager_map :: "nat option list \<Rightarrow> (nat, nat) jsmap" where
  "manager_map managers = concat (map (\<lambda>(i, m). case m of None \<Rightarrow> [] | Some m \<Rightarrow> [(i, m)]) (enumerate 0 managers))"

lemma manager_map_get: "jm_get (manager_map managers) i = (if i < length managers then managers ! i else None)"
proof -
  have "map_of (concat (map (\<lambda>(i, m). case m of None \<Rightarrow> [] | Some m \<Rightarrow> [(i, m)]) (enumerate n ms))) i
      = (if n \<le> i \<and> i < n + length ms then ms ! (i - n) else None)" for n ms
    by (induction ms arbitrary: n) (auto split: option.splits simp: nth_Cons' Suc_diff_le)
  from this [of 0 managers] show ?thesis by (simp add: manager_map_def)
qed

text \<open>An order in which each row comes after its manager's.\<close>

fun after_managers :: "nat option list \<Rightarrow> nat list \<Rightarrow> nat list \<Rightarrow> bool" where
  "after_managers managers seen [] = True"
| "after_managers managers seen (i # is) \<longleftrightarrow>
     (case managers ! i of None \<Rightarrow> True | Some m \<Rightarrow> m \<in> set seen) \<and> after_managers managers (i # seen) is"

lemma after_managers_snoc:
  "after_managers managers seen (is @ [i]) \<longleftrightarrow>
     after_managers managers seen is \<and> (case managers ! i of None \<Rightarrow> True | Some m \<Rightarrow> m \<in> set seen \<union> set is)"
  by (induction "is" arbitrary: seen) (auto split: option.splits)

text \<open>What placing keeps: the rows placed but not yet in the order are managed by the one being placed.\<close>

definition placing :: "nat option list \<Rightarrow> nat list \<Rightarrow> nat list \<Rightarrow> bool" where
  "placing managers placed order \<longleftrightarrow>
     set order \<subseteq> set placed \<and> set placed \<subseteq> {..<length managers} \<and> distinct order \<and> after_managers managers [] order"

lemma place_in_order:
  "acyclic (manages (manager_map managers)) \<Longrightarrow> (\<And>m. Some m \<in> set managers \<Longrightarrow> m < length managers)
     \<Longrightarrow> i < length managers \<Longrightarrow> placing managers placed order
     \<Longrightarrow> (\<And>q. q \<in> set placed - set order \<Longrightarrow> (q, i) \<in> (manages (manager_map managers))\<^sup>+)
     \<Longrightarrow> \<exists>placed' order'. place managers i placed order = Some (placed', order') \<and> placing managers placed' order'
          \<and> set order \<subseteq> set order' \<and> i \<in> set order' \<and> set placed' - set order' = set placed - set order"
proof (induction managers i placed order rule: place.induct)
  case (1 managers i placed order)
  note place_i = place.simps [of managers i placed order]
  show ?case
  proof (cases "i \<in> set placed")
    case True
    have "i \<in> set order"
    proof (rule ccontr)
      assume "i \<notin> set order"
      with True 1(6) have "(i, i) \<in> (manages (manager_map managers))\<^sup>+" by blast
      with 1(2) show False unfolding acyclic_def by blast
    qed
    with True 1(5) show ?thesis by (simp add: place_i)
  next
    case new: False
    with 1(5) have out: "i \<notin> set order" by (auto simp: placing_def)
    show ?thesis
    proof (cases "managers ! i")
      case None
      have "place managers i placed order = Some (i # placed, order @ [i])"
        using new 1(4) None by (simp add: place_i)
      moreover have "placing managers (i # placed) (order @ [i])"
        using 1(4,5) out None by (auto simp: placing_def after_managers_snoc)
      moreover have "set (i # placed) - set (order @ [i]) = set placed - set order" using new by auto
      ultimately show ?thesis by fastforce
    next
      case (Some m)
      have m: "m < length managers" using 1(3) [of m] 1(4) Some nth_mem [of i managers] by simp
      have im: "(i, m) \<in> manages (manager_map managers)" using Some 1(4) by (simp add: manager_map_get)
      have pl: "placing managers (i # placed) order" using 1(4,5) by (auto simp: placing_def)
      have up: "(q, m) \<in> (manages (manager_map managers))\<^sup>+" if "q \<in> set (i # placed) - set order" for q
      proof (cases "q = i")
        case True
        then show ?thesis using im by blast
      next
        case False
        with that have "(q, i) \<in> (manages (manager_map managers))\<^sup>+" using 1(6) [of q] by simp
        then show ?thesis using im by (rule trancl_into_trancl)
      qed
      have le: "\<not> length managers \<le> i" using 1(4) by simp
      obtain placed' order' where p: "place managers m (i # placed) order = Some (placed', order')"
          "placing managers placed' order'" "set order \<subseteq> set order'" "m \<in> set order'"
          "set placed' - set order' = set (i # placed) - set order"
        using 1(1) [OF new le Some 1(2,3) m pl up] by auto
      have "i \<in> set placed'" "i \<notin> set order'" using p(5) out by auto
      have "place managers i placed order = Some (placed', order' @ [i])"
        using new 1(4) Some p(1) by (simp add: place_i)
      moreover have "placing managers placed' (order' @ [i])"
        using p(2,4) \<open>i \<in> set placed'\<close> \<open>i \<notin> set order'\<close> Some by (simp add: placing_def after_managers_snoc)
      moreover have "set placed' - set (order' @ [i]) = set placed - set order" using p(5) new by auto
      ultimately show ?thesis using p(3) by fastforce
    qed
  qed
qed

lemma managersFirst_in_order:
  assumes "acyclic (manages (manager_map managers))" "\<And>m. Some m \<in> set managers \<Longrightarrow> m < length managers"
  shows "\<exists>order. managersFirst managers = Some order \<and> distinct order \<and> set order = {..<length managers}
     \<and> after_managers managers [] order"
proof -
  let ?step = "\<lambda>s i. case s of None \<Rightarrow> None | Some (placed, order) \<Rightarrow> place managers i placed order"
  have "\<exists>placed order. foldl ?step (Some ([], [])) [0..<k] = Some (placed, order) \<and> placing managers placed order
      \<and> set placed = set order \<and> {..<k} \<subseteq> set order" if "k \<le> length managers" for k
    using that
  proof (induction k)
    case 0
    then show ?case by (simp add: placing_def)
  next
    case (Suc k)
    then obtain placed order where f: "foldl ?step (Some ([], [])) [0..<k] = Some (placed, order)"
        and s: "placing managers placed order" "set placed = set order" "{..<k} \<subseteq> set order" by auto
    have pending: "(q, k) \<in> (manages (manager_map managers))\<^sup>+" if "q \<in> set placed - set order" for q
      using that s(2) by simp
    obtain placed' order' where p: "place managers k placed order = Some (placed', order')"
        "placing managers placed' order'" "set order \<subseteq> set order'" "k \<in> set order'"
        "set placed' - set order' = set placed - set order"
      using place_in_order [OF assms(1) assms(2) _ s(1) pending] Suc.prems by fastforce
    have "set placed' = set order'" using p(2,5) s(2) by (auto simp: placing_def)
    moreover have "{..<Suc k} \<subseteq> set order'" using p(3,4) s(3) by (auto simp: less_Suc_eq)
    ultimately show ?case using f p(1,2) by simp
  qed
  from this [of "length managers"] obtain placed order where
      "foldl ?step (Some ([], [])) [0..<length managers] = Some (placed, order)" "placing managers placed order"
      "set placed = set order" "{..<length managers} \<subseteq> set order" by auto
  then show ?thesis by (auto simp: managersFirst_def placing_def)
qed

section \<open>The job's rows\<close>

(* src/packages/shared/src/schemas/userCreate.ts:21-21 PASSWORD_MODES *)
datatype password_mode = Mode_random | Mode_generate | Mode_set

text \<open>The password of a request, and what each mode asks for.\<close>

(* src/packages/shared/src/schemas/userImport.ts:136-153 importPasswordSchema *)
datatype import_password = Random_passwords | Generate_passwords bool | Set_password string bool

(* src/apps/api/src/services/bulkJobs/importRows.ts:57-83 importPlanRowSchema *)
record plan_row =
  pr_line :: int
  pr_ouDn :: string
  pr_cn :: string
  pr_samAccountName :: string
  pr_userPrincipalName :: string
  pr_givenName :: string
  pr_surname :: string
  pr_displayName :: string
  pr_initials :: "string option"
  pr_mail :: "string option"
  pr_otherMailbox :: "string option"
  pr_mobile :: "string option"
  pr_telephoneNumber :: "string option"
  pr_employeeId :: "string option"
  pr_description :: "string option"
  pr_organisation :: "(string \<times> string) list"
  pr_managerId :: "string option"
  pr_groupIds :: "string list"
  pr_usageLocation :: "string option"
  pr_startDate :: "string option"

record planned_row = plan_row +
  pr_managerRow :: "nat option"

text \<open>The class passes and the license checks that may come with an import are left out.\<close>

(* src/apps/api/src/services/bulkJobs/importRows.ts:86-94 importPlanSchema *)
record import_plan =
  pl_rows :: "planned_row list"
  pl_password :: import_password
  pl_enabled :: bool

(* src/apps/api/src/services/bulkJobs/importRows.ts:97-101 optionsSchema *)
record import_options =
  io_passwordMode :: password_mode
  io_mustChange :: bool
  io_enabled :: bool

(* src/apps/api/src/services/bulkJobs/importRows.ts:104-108 optionsOf *)
definition optionsOf :: "import_plan \<Rightarrow> import_options" where
  "optionsOf plan =
     (case pl_password plan of
        Random_passwords \<Rightarrow> \<lparr>io_passwordMode = Mode_random, io_mustChange = False, io_enabled = pl_enabled plan\<rparr>
      | Generate_passwords c \<Rightarrow> \<lparr>io_passwordMode = Mode_generate, io_mustChange = c, io_enabled = pl_enabled plan\<rparr>
      | Set_password _ c \<Rightarrow> \<lparr>io_passwordMode = Mode_set, io_mustChange = c, io_enabled = pl_enabled plan\<rparr>)"

(* src/apps/api/src/services/bulkJobs/importRows.ts:110-114 rowInputSchema *)
record import_input =
  in_row :: plan_row
  in_managerOrdinal :: "nat option"
  in_options :: import_options

text \<open>The rows of the job in their order, or \<open>None\<close> where the code throws. \<open>encode\<close> is a row's JSON.\<close>

(* src/apps/api/src/services/bulkJobs/importRows.ts:212-226 rows *)
definition import_rows :: "(import_input \<Rightarrow> json) \<Rightarrow> import_plan \<Rightarrow> row_input list option" where
  "import_rows encode plan =
     (case managersFirst (map pr_managerRow (pl_rows plan)) of
        None \<Rightarrow> None
      | Some order \<Rightarrow>
          let ordinal = map (\<lambda>(n, i). (i, n)) (enumerate 0 order)
          in Some (map (\<lambda>i.
               let row = pl_rows plan ! i;
                   managerOrdinal = (case pr_managerRow row of None \<Rightarrow> None | Some m \<Rightarrow> jm_get ordinal m)
               in \<lparr>ri_targetId = None, ri_targetName = Some (pr_displayName row),
                   ri_input = Some (encode \<lparr>in_row = plan_row.truncate row, in_managerOrdinal = managerOrdinal, in_options = optionsOf plan\<rparr>),
                   ri_after = managerOrdinal\<rparr>) order))"

text \<open>What the request's schema says of its managers, each with the row it is about.\<close>

datatype manager_issue = Manager_loop | Not_another_row | Two_managers

(* src/packages/shared/src/schemas/userImport.ts:200-240 importRequestSchema *)
definition manager_issues :: "(nat option \<times> string option) list \<Rightarrow> (nat \<times> manager_issue) list" where
  "manager_issues rows =
     map (\<lambda>i. (i, Manager_loop)) (managerLoops (manager_map (map fst rows)))
     @ concat (map (\<lambda>(i, managerRow, managerId).
         case managerRow of
           None \<Rightarrow> []
         | Some m \<Rightarrow>
             (if m \<ge> length rows \<or> m = i then [(i, Not_another_row)] else [])
             @ (if truthy managerId then [(i, Two_managers)] else [])) (enumerate 0 rows))"

lemma accepted_managers:
  assumes "manager_issues (map (\<lambda>r. (pr_managerRow r, mid r)) rows) = []"
  shows "acyclic (manages (manager_map (map pr_managerRow rows)))"
    and "Some m \<in> set (map pr_managerRow rows) \<Longrightarrow> m < length (map pr_managerRow rows)"
proof -
  let ?rs = "map (\<lambda>r. (pr_managerRow r, mid r)) rows"
  have "map fst ?rs = map pr_managerRow rows" by simp
  with assms show "acyclic (manages (manager_map (map pr_managerRow rows)))"
    by (simp add: manager_issues_def no_loops_iff del: map_map)
  assume "Some m \<in> set (map pr_managerRow rows)"
  then obtain i where i: "i < length rows" "pr_managerRow (rows ! i) = Some m" by (auto simp: in_set_conv_nth)
  then have "(i, Some m, mid (rows ! i)) \<in> set (enumerate 0 ?rs)" by (simp add: in_set_enumerate_eq)
  with assms show "m < length (map pr_managerRow rows)"
    by (force simp: manager_issues_def split: if_splits option.splits)
qed

lemma after_managers_nth:
  "after_managers managers seen order \<Longrightarrow> k < length order \<Longrightarrow> managers ! (order ! k) = Some m
     \<Longrightarrow> m \<in> set seen \<union> set (take k order)"
proof (induction order arbitrary: seen k)
  case (Cons i order)
  show ?case
  proof (cases k)
    case (Suc j)
    with Cons.IH [of "i # seen" j] Cons.prems show ?thesis by auto
  qed (use Cons.prems in auto)
qed simp

text \<open>What a row waits for comes before it.\<close>

lemma ordinal_before:
  assumes "distinct order" "m \<in> set (take k order)" "jm_get (map (\<lambda>(n, i). (i, n)) (enumerate 0 order)) m = Some a"
  shows "a < k"
proof -
  from map_of_SomeD [OF assms(3)] have a: "a < length order" "order ! a = m" by (auto simp: in_set_enumerate_eq)
  obtain j where "j < k" "j < length order" "order ! j = m" using assms(2) by (auto simp: in_set_conv_nth)
  with a assms(1) show ?thesis by (metis nth_eq_iff_index_eq)
qed

lemma import_rows_in_order:
  assumes "manager_issues (map (\<lambda>r. (pr_managerRow r, mid r)) (pl_rows plan)) = []"
  shows "\<exists>rs. import_rows encode plan = Some rs \<and> length rs = length (pl_rows plan)
     \<and> mset (map ri_targetName rs) = mset (map (\<lambda>r. Some (pr_displayName r)) (pl_rows plan))
     \<and> (\<forall>k < length rs. \<forall>a. ri_after (rs ! k) = Some a \<longrightarrow> a < k)"
proof -
  let ?ms = "map pr_managerRow (pl_rows plan)"
  obtain order where o: "managersFirst ?ms = Some order" "distinct order" "set order = {..<length ?ms}"
      "after_managers ?ms [] order"
    using managersFirst_in_order [of ?ms] accepted_managers [OF assms] by blast
  have len: "length order = length ?ms" using distinct_card [OF o(2)] o(3) by simp
  have "a < k" if k: "k < length order" and a: "pr_managerRow (pl_rows plan ! (order ! k)) = Some m"
      "jm_get (map (\<lambda>(n, i). (i, n)) (enumerate 0 order)) m = Some a" for k m a
  proof (rule ordinal_before [OF o(2) _ a(2)])
    have "order ! k < length ?ms" using nth_mem [OF k] o(3) by auto
    then show "m \<in> set (take k order)" using after_managers_nth [OF o(4) k] a(1) by simp
  qed
  moreover have "mset (map (\<lambda>i. Some (pr_displayName (pl_rows plan ! i))) order)
      = mset (map (\<lambda>r. Some (pr_displayName r)) (pl_rows plan))"
  proof -
    have "mset order = mset [0..<length (pl_rows plan)]"
      using o(3) mset_set_set [OF o(2)] by (simp add: lessThan_atLeast0)
    then have "mset (map (\<lambda>i. Some (pr_displayName (pl_rows plan ! i))) order)
        = mset (map (\<lambda>i. Some (pr_displayName (pl_rows plan ! i))) [0..<length (pl_rows plan)])" by (simp only: mset_map)
    also have "map (\<lambda>i. Some (pr_displayName (pl_rows plan ! i))) [0..<length (pl_rows plan)]
        = map (\<lambda>r. Some (pr_displayName r)) (pl_rows plan)" by (rule nth_equalityI) simp_all
    finally show ?thesis .
  qed
  ultimately show ?thesis using o(1) len
    by (auto simp: import_rows_def Let_def image_mset.compositionality comp_def split: option.splits)
qed

text \<open>
  The rows of a job as an import stored them, whatever has become of them since: what a row waits for
  is what the import's order says.
\<close>

definition rows_as_stored :: "row_input list \<Rightarrow> row_rec list \<Rightarrow> bool" where
  "rows_as_stored rs stored \<longleftrightarrow>
     list_all (\<lambda>r. rw_ordinal r < length rs \<and> rw_after_ordinal r = ri_after (rs ! rw_ordinal r)) stored"

text \<open>
  C5. An import the request's schema accepts can be ordered, and its job never waits for itself: every
  account it creates is a row of the job once, no row waits for one after it, and as long as rows are
  pending and none is running, a run that has the job finds one to claim.
\<close>

theorem accepted_import_never_waits_for_itself:
  assumes "manager_issues (map (\<lambda>r. (pr_managerRow r, mid r)) (pl_rows plan)) = []"
  shows "\<exists>rs. import_rows encode plan = Some rs \<and> length rs = length (pl_rows plan)
     \<and> mset (map ri_targetName rs) = mset (map (\<lambda>r. Some (pr_displayName r)) (pl_rows plan))
     \<and> (\<forall>db i t now. rows_as_stored rs (rows_of i db) \<longrightarrow> holds_job i t db
          \<longrightarrow> list_ex (\<lambda>r. rw_status r = R_pending) (rows_of i db)
          \<longrightarrow> list_all (\<lambda>r. rw_status r \<noteq> R_running) (rows_of i db)
          \<longrightarrow> fst (claimRow now i t db) \<noteq> None)"
proof -
  obtain rs where rs: "import_rows encode plan = Some rs" "length rs = length (pl_rows plan)"
      "mset (map ri_targetName rs) = mset (map (\<lambda>r. Some (pr_displayName r)) (pl_rows plan))"
    and order: "\<forall>k < length rs. \<forall>a. ri_after (rs ! k) = Some a \<longrightarrow> a < k"
    using import_rows_in_order [OF assms] by blast
  have "fst (claimRow now i t db) \<noteq> None"
    if "rows_as_stored rs (rows_of i db)" "holds_job i t db" "list_ex (\<lambda>r. rw_status r = R_pending) (rows_of i db)"
      "list_all (\<lambda>r. rw_status r \<noteq> R_running) (rows_of i db)" for db i t now
  proof (rule some_pending_row_is_claimable [OF that(2), of id])
    show "\<forall>r\<in>set (rows_of i db). \<forall>p\<in>set (rows_of i db). rw_after_ordinal r = Some (rw_ordinal p)
        \<longrightarrow> id (rw_ordinal p) < id (rw_ordinal r)"
      using that(1) order by (auto simp: rows_as_stored_def list_all_iff)
  qed (use that(3,4) in \<open>auto simp: list_ex_iff list_all_iff\<close>)
  with rs show ?thesis by blast
qed

text \<open>Two rows, the first managed by the second.\<close>

definition ex_planned :: "string \<Rightarrow> nat option \<Rightarrow> planned_row" where
  "ex_planned name m = \<lparr>pr_line = 2, pr_ouDn = ''OU=X'', pr_cn = name, pr_samAccountName = name, pr_userPrincipalName = name,
     pr_givenName = name, pr_surname = name, pr_displayName = name, pr_initials = None, pr_mail = None,
     pr_otherMailbox = None, pr_mobile = None, pr_telephoneNumber = None, pr_employeeId = None, pr_description = None,
     pr_organisation = [], pr_managerId = None, pr_groupIds = [], pr_usageLocation = None, pr_startDate = None,
     pr_managerRow = m\<rparr>"

definition ex_import :: import_plan where
  "ex_import = \<lparr>pl_rows = [ex_planned ''a'' (Some 1), ex_planned ''b'' None], pl_password = Random_passwords, pl_enabled = True\<rparr>"

theorem accepted_import_never_waits_for_itself_witness:
  "case import_rows (\<lambda>_. JNull) ex_import of
     None \<Rightarrow> False
   | Some rs \<Rightarrow> map ri_after rs = [None, Some 0] \<and> fst (claimRow 5 1 0 (sy_db (ex_started rs))) \<noteq> None"
proof -
  let ?rs = "the (import_rows (\<lambda>_. JNull) ex_import)"
  have "manager_issues (map (\<lambda>r. (pr_managerRow r, None)) (pl_rows ex_import)) = []" by code_simp
  note c = accepted_import_never_waits_for_itself [OF this, of "\<lambda>_. JNull"]
  have "map ri_after ?rs = [None, Some 0]" by code_simp
  moreover have "rows_as_stored ?rs (rows_of 1 (sy_db (ex_started ?rs)))" by code_simp
  moreover have "holds_job 1 0 (sy_db (ex_started ?rs))" by code_simp
  moreover have "list_ex (\<lambda>r. rw_status r = R_pending) (rows_of 1 (sy_db (ex_started ?rs)))" by code_simp
  moreover have "list_all (\<lambda>r. rw_status r \<noteq> R_running) (rows_of 1 (sy_db (ex_started ?rs)))" by code_simp
  ultimately show ?thesis using c by (auto split: option.splits)
qed

end
