(* ===== verification/ImportRows.thy ===== *)
theory ImportRows
  imports BulkHandlers ImportOrder
begin

text \<open>
  How one row of an import runs (\<^verbatim>\<open>services/bulkJobs/importRows.ts\<close>): the account is created
  disabled, given its password, enabled, added to its groups and given its manager, each step once,
  whatever earlier runs of the row have done; with reading an account back
  (\<^verbatim>\<open>services/userCreate.ts\<close>).
\<close>

section \<open>Steps\<close>

(* src/packages/shared/src/schemas/userImport.ts:267-267 ImportStep *)
datatype import_step = Import_create | Import_password | Import_enable | Import_groups | Import_manager

(* src/packages/shared/src/schemas/userImport.ts:266-266 IMPORT_STEPS *)
definition IMPORT_STEPS :: "import_step list" where
  "IMPORT_STEPS = [Import_create, Import_password, Import_enable, Import_groups, Import_manager]"

(* src/apps/api/src/services/bulkJobs/importRows.ts:190-191 accountSteps *)
definition accountSteps :: "bool \<Rightarrow> create_step list" where
  "accountSteps enabled = (if enabled then [Step_create, Step_password, Step_enable] else [Step_create, Step_password])"

text \<open>The account step an import step is, if it is one, and back.\<close>

(* src/apps/api/src/services/bulkJobs/importRows.ts:193-194 isAccountStep *)
fun account_step :: "import_step \<Rightarrow> create_step option" where
  "account_step Import_create = Some Step_create"
| "account_step Import_password = Some Step_password"
| "account_step Import_enable = Some Step_enable"
| "account_step _ = None"

fun as_import_step :: "create_step \<Rightarrow> import_step" where
  "as_import_step Step_create = Import_create"
| "as_import_step Step_password = Import_password"
| "as_import_step Step_enable = Import_enable"
| "as_import_step Step_groups = Import_groups"

(* src/apps/api/src/services/bulkJobs/importRows.ts:197-198 mergeSteps *)
definition mergeSteps :: "import_step list \<Rightarrow> import_step list \<Rightarrow> import_step list" where
  "mergeSteps before now = filter (\<lambda>s. s \<in> set before \<or> s \<in> set now) IMPORT_STEPS"

section \<open>What a row keeps, and what it says\<close>

text \<open>What a row that isn't done says, step by step; the wording is a parameter.\<close>

datatype import_message =
    Create_refused "failure_reason option" "string option"
  | Step_refused import_step "string option"
  | Not_read_back import_step
  | Groups_failed "string option"
  | Manager_not_created nat
  | Manager_left
  | Manager_refused string "string option"
  | Account_gone

record import_failure =
  if_step :: import_step
  if_message :: import_message
  if_code :: string

(* src/apps/api/src/services/bulkJobs/importRows.ts:118-134 ImportRowProgress *)
record import_progress =
  ip_id :: "string option"
  ip_distinguishedName :: string
  ip_createCorrelationId :: "string option"
  ip_completed :: "import_step list"
  ip_groups :: "changed_group list"
  ip_failed :: "(import_step \<times> import_message) list"
  ip_passwordFallback :: bool
  ip_adopted :: bool

text \<open>
  A row as a run finds it: \<open>ir_after\<close> is what \<open>progressOf\<close> reads of its \<open>after_json\<close>, which only this
  code writes.
\<close>

record import_row =
  ir_id :: nat
  ir_attempts :: nat
  ir_input :: import_input
  ir_after :: "import_progress option"

(* src/apps/api/src/services/bulkJobs/importRows.ts:273-273 JobFacts *)
record job_facts =
  jf_created_at :: ms
  jf_results_downloaded_at :: "ms option"

text \<open>The row's outcome, with what its \<open>after_json\<close> will be.\<close>

record import_outcome =
  io_ok :: bool
  io_errorCode :: string
  io_messages :: "import_message list"
  io_partial :: bool
  io_audited :: bool
  io_after :: "import_progress option"
  io_targetDn :: "string option"
  io_targetId :: "string option"

section \<open>What it is handed\<close>

text \<open>What the audit log has of a create of this job under a DN (the query of \<open>createdBefore\<close>).\<close>

record create_audit =
  ca_target_id :: "string option"
  ca_target_dn :: "string option"
  ca_correlation_id :: "string option"
  ca_completed :: "import_step list option"

record 'e import_deps = "'e row_deps" +
  im_job :: "('e, job_facts) svc"
  im_createAudit :: "string \<Rightarrow> ('e, create_audit option) svc"
  im_managerRow :: "nat \<Rightarrow> ('e, string option option) svc"
  im_createUser :: "create_input \<Rightarrow> create_step list \<Rightarrow> create_finish \<Rightarrow> write_context \<Rightarrow> ('e, create_result) svc"
  im_finishUserCreate :: "object_id \<Rightarrow> create_step list \<Rightarrow> create_finish \<Rightarrow> write_context \<Rightarrow> ('e, create_result) svc"
  im_getAccountFingerprint :: "object_id \<Rightarrow> ('e, account_fingerprint option) svc"
  im_hasSchemaAttribute :: "string \<Rightarrow> ('e, bool) svc"
  im_randomPassword :: "string \<Rightarrow> string \<Rightarrow> ('e, string) svc"
  im_heldPassword :: "nat \<Rightarrow> ('e, string option) svc"

section \<open>Taking on an account a run left\<close>

(* src/apps/api/src/services/bulkJobs/importRows.ts:159-164 generalizedTime *)
definition generalizedTime :: "string option \<Rightarrow> ms option" where
  "generalizedTime v =
     (case v of
        None \<Rightarrow> None
      | Some s \<Rightarrow>
          if length s < 14 \<or> \<not> list_all is_digit (take 14 s) then None
          else
            let y = num_at 0 4 s; y = (if y < 100 then 1900 + y else y)
            in Some (new_date 0 y (num_at 4 2 s - 1) (num_at 6 2 s)
                 (num_at 8 2 s * hour_ms + num_at 10 2 s * minute_ms + num_at 12 2 s * 1000)))"

definition same_text :: "string option \<Rightarrow> string \<Rightarrow> bool" where
  "same_text a b \<longleftrightarrow> map_option to_lower a = Some (to_lower b)"

(* src/apps/api/src/services/bulkJobs/importRows.ts:172-187 adoptable *)
definition adoptable :: "directory_user \<Rightarrow> string option \<Rightarrow> plan_row \<Rightarrow> ms \<Rightarrow> bool" where
  "adoptable account whenCreated planned jobStartedAt \<longleftrightarrow>
     same_text (du_samAccountName account) (pr_samAccountName planned)
     \<and> same_text (du_userPrincipalName account) (pr_userPrincipalName planned)
     \<and> \<not> du_enabled account
     \<and> (case generalizedTime whenCreated of None \<Rightarrow> False | Some created \<Rightarrow> created \<ge> jobStartedAt div 1000 * 1000)"

(* src/apps/api/src/services/bulkJobs/importRows.ts:397-421 createdBefore *)
definition createdBefore :: "('e, 'm) import_deps_scheme \<Rightarrow> import_input \<Rightarrow> ('e, import_progress option) svc" where
  "createdBefore d input =
     (let dn = childDn ''CN'' (pr_cn (in_row input)) (pr_ouDn (in_row input))
      in sv_then (im_createAudit d (to_lower dn)) (\<lambda>found. sv_return (map_option (\<lambda>a.
           \<lparr>ip_id = ca_target_id a, ip_distinguishedName = (case ca_target_dn a of None \<Rightarrow> dn | Some x \<Rightarrow> x),
            ip_createCorrelationId = ca_correlation_id a,
            ip_completed = (case ca_completed a of None \<Rightarrow> [Import_create] | Some steps \<Rightarrow> steps),
            ip_groups = [], ip_failed = [], ip_passwordFallback = False, ip_adopted = False\<rparr>) found)))"

(* src/apps/api/src/services/bulkJobs/importRows.ts:429-453 adopt *)
definition adopt :: "('e, 'm) import_deps_scheme \<Rightarrow> import_input \<Rightarrow> job_facts \<Rightarrow> ('e, import_progress option) svc" where
  "adopt d input job =
     sv_then (dp_getUser d (By_samAccountName (pr_samAccountName (in_row input)))) (\<lambda>found. case found of
       None \<Rightarrow> sv_return None
     | Some u \<Rightarrow>
         sv_then (im_getAccountFingerprint d (By_objectGuid (du_objectGuid u))) (\<lambda>account.
         sv_return
           (if \<not> adoptable u (Option.bind account fp_whenCreated) (in_row input) (jf_created_at job) then None
            else Some \<lparr>ip_id = Some (du_objectGuid u), ip_distinguishedName = du_distinguishedName u,
              ip_createCorrelationId = None, ip_completed = [Import_create], ip_groups = [], ip_failed = [],
              ip_passwordFallback = False, ip_adopted = True\<rparr>)))"

(* src/apps/api/src/services/bulkJobs/importRows.ts:460-478 findCreated *)
definition findCreated :: "('e, 'm) import_deps_scheme \<Rightarrow> import_progress \<Rightarrow> import_input \<Rightarrow> ('e, directory_user option) svc" where
  "findCreated d progress input =
     sv_then (if truthy (ip_id progress) then dp_getUser d (By_objectGuid (the (ip_id progress))) else sv_return None) (\<lambda>byId.
       if byId \<noteq> None then sv_return byId else
     sv_then (dp_getUser d (By_distinguishedName (ip_distinguishedName progress))) (\<lambda>byDn.
       if byDn \<noteq> None then sv_return byDn else
     sv_then (dp_getUser d (By_samAccountName (pr_samAccountName (in_row input)))) (\<lambda>byName.
       sv_return
         (case byName of
            None \<Rightarrow> None
          | Some u \<Rightarrow> if same_text (du_userPrincipalName u) (pr_userPrincipalName (in_row input)) then byName else None))))"

section \<open>The password\<close>

record used_password =
  pu_password :: string
  pu_mode :: password_mode
  pu_mustChange :: bool
  pu_fallback :: bool

(* src/apps/api/src/services/bulkJobs/importRows.ts:488-510 passwordFor *)
definition passwordFor :: "('e, 'm) import_deps_scheme \<Rightarrow> nat \<Rightarrow> import_input \<Rightarrow> job_facts \<Rightarrow> ('e, used_password) svc" where
  "passwordFor d rowId input job =
     (let sam = pr_samAccountName (in_row input); display = pr_displayName (in_row input);
          mode = io_passwordMode (in_options input); mustChange = io_mustChange (in_options input);
          random = (\<lambda>fallback. sv_then (im_randomPassword d sam display) (\<lambda>password. sv_return
              \<lparr>pu_password = password, pu_mode = Mode_random, pu_mustChange = False, pu_fallback = fallback\<rparr>))
      in if mode = Mode_random then random False
         else if \<not> passwordsHoldable (jf_results_downloaded_at job) then random True
         else
           sv_then (im_heldPassword d rowId) (\<lambda>held.
             if truthy held
             then sv_return \<lparr>pu_password = the held, pu_mode = mode, pu_mustChange = mustChange, pu_fallback = False\<rparr>
             else if mode = Mode_set then random True
             else
               sv_then (rd_handedOutPassword d (Some sam) (Some display)) (\<lambda>password.
               sv_then (rd_holdPassword d rowId password) (\<lambda>_.
               sv_return \<lparr>pu_password = password, pu_mode = mode, pu_mustChange = mustChange, pu_fallback = False\<rparr>))))"

section \<open>Creating the account\<close>

(* src/apps/api/src/services/bulkJobs/importRows.ts:513-538 createInput *)
definition createInput :: "plan_row \<Rightarrow> string \<Rightarrow> bool \<Rightarrow> create_input" where
  "createInput r dn usageLocationWritable =
     \<lparr>ci_dn = dn, ci_cn = pr_cn r, ci_samAccountName = pr_samAccountName r, ci_userPrincipalName = pr_userPrincipalName r,
      ci_givenName = pr_givenName r, ci_surname = pr_surname r, ci_displayName = pr_displayName r, ci_mail = pr_mail r,
      ci_otherMailbox = pr_otherMailbox r, ci_mobile = pr_mobile r, ci_telephoneNumber = pr_telephoneNumber r,
      ci_organisation = pr_organisation r, ci_manager = None, ci_initials = pr_initials r, ci_employeeId = pr_employeeId r,
      ci_description = pr_description r,
      ci_usageLocation = (if usageLocationWritable then pr_usageLocation r else None)\<rparr>"

(* src/apps/api/src/services/userCreate.ts:25-35 readBack *)
definition readBack :: "('e, 'm) import_deps_scheme \<Rightarrow> create_result \<Rightarrow> string \<Rightarrow> ('e, create_result) svc" where
  "readBack d r dn =
     (if Step_create \<notin> set (cr_completed r) \<or> (cr_user r \<noteq> None \<and> cr_fingerprint r \<noteq> None) then sv_return r
      else
        sv_then (case cr_user r of Some u \<Rightarrow> sv_return (Some u)
                 | None \<Rightarrow> sv_catch (dp_getUser d (By_distinguishedName dn)) (\<lambda>_ _. sv_return None)) (\<lambda>user.
        sv_then (case cr_fingerprint r of Some f \<Rightarrow> sv_return (Some f)
                 | None \<Rightarrow> sv_catch (im_getAccountFingerprint d (By_distinguishedName dn)) (\<lambda>_ _. sv_return None)) (\<lambda>fingerprint.
        sv_return (r\<lparr>cr_user := user, cr_fingerprint := fingerprint\<rparr>))))"

record create_op = write_op +
  wo_created :: create_result

definition step_text :: "create_step \<Rightarrow> string" where
  "step_text s = (case s of Step_create \<Rightarrow> ''create'' | Step_password \<Rightarrow> ''password'' | Step_groups \<Rightarrow> ''groups''
                  | Step_enable \<Rightarrow> ''enable'')"

definition steps_json :: "create_step list \<Rightarrow> json" where
  "steps_json steps = JArr (map (\<lambda>s. JStr (step_text s)) steps)"

definition fingerprint_json :: "account_fingerprint option \<Rightarrow> json" where
  "fingerprint_json f =
     (case f of None \<Rightarrow> JNull
      | Some f \<Rightarrow> JObj [(''objectGuid'', JStr (fp_objectGuid f)), (''whenCreated'', json_opt (fp_whenCreated f)),
          (''usnChanged'', json_opt (fp_usnChanged f)), (''pwdLastSet'', json_opt (fp_pwdLastSet f)),
          (''lastLogonTimestamp'', json_opt (fp_lastLogonTimestamp f))])"

(* src/apps/api/src/services/bulkJobs/importRows.ts:541-561 stepsAudit *)
definition stepsAudit :: "create_result \<Rightarrow> create_step list \<Rightarrow> (string, json) jsmap \<Rightarrow> create_op" where
  "stepsAudit r planned written =
     \<lparr>wo_ok = mr_ok (cr_result r), wo_before = None,
      wo_after =
        (if Step_create \<in> set (cr_completed r)
         then Some (spread (Some written) (Some [(''completed'', steps_json (cr_completed r)),
                (''remaining'', steps_json (remainingSteps planned (cr_completed r))),
                (''account'', fingerprint_json (cr_fingerprint r))]))
         else None),
      wo_errorCode = map_option reason_code (mr_reason (cr_result r)),
      wo_errorMessage = mr_errorMessage (cr_result r),
      wo_targetId = (case cr_user r of Some u \<Rightarrow> Some (du_objectGuid u) | None \<Rightarrow> map_option fp_objectGuid (cr_fingerprint r)),
      wo_created = r\<rparr>"

definition result_code :: "create_result \<Rightarrow> string" where
  "result_code r = (case mr_reason (cr_result r) of None \<Rightarrow> ''directory_error'' | Some c \<Rightarrow> reason_code c)"

(* src/apps/api/src/services/bulkJobs/importRows.ts:563-568 stepFailure *)
definition stepFailure :: "create_result \<Rightarrow> import_failure option" where
  "stepFailure r =
     (case cr_failedStep r of
        Some step \<Rightarrow>
          if step = Step_password \<or> step = Step_enable
          then Some \<lparr>if_step = as_import_step step,
                 if_message = Step_refused (as_import_step step) (mr_errorMessage (cr_result r)), if_code = result_code r\<rparr>
          else None
      | None \<Rightarrow> None)"

definition mode_text :: "password_mode \<Rightarrow> string" where
  "mode_text m = (case m of Mode_random \<Rightarrow> ''random'' | Mode_generate \<Rightarrow> ''generate'' | Mode_set \<Rightarrow> ''set'')"

(* src/apps/api/src/services/bulkJobs/importRows.ts:571-575 passwordAudit *)
definition passwordAudit :: "used_password \<Rightarrow> (string, json) jsmap" where
  "passwordAudit used =
     [(''passwordMode'', JStr (mode_text (pu_mode used))), (''mustChange'', JBool (pu_mustChange used))]
     @ (if pu_fallback used then [(''passwordFallback'', JBool True)] else [])"

text \<open>What a run of a row goes on with: the row's progress, its account if it was read, and what failed.\<close>

type_synonym run_state = "import_progress \<times> directory_user option \<times> import_failure list"

definition import_refused :: "string \<Rightarrow> import_message \<Rightarrow> bool \<Rightarrow> import_progress option \<Rightarrow> import_outcome" where
  "import_refused code message audited after =
     \<lparr>io_ok = False, io_errorCode = code, io_messages = [message], io_partial = False, io_audited = audited,
      io_after = after, io_targetDn = None, io_targetId = None\<rparr>"

(* src/apps/api/src/services/bulkJobs/importRows.ts:581-661 createAccount *)
definition createAccount :: "('e, 'm) import_deps_scheme \<Rightarrow> nat \<Rightarrow> import_input \<Rightarrow> create_step list \<Rightarrow> job_facts \<Rightarrow> row_context
    \<Rightarrow> ('e, import_outcome + run_state) svc" where
  "createAccount d rowId input planned job ctx =
     (let row = in_row input; dn = childDn ''CN'' (pr_cn row) (pr_ouDn row)
      in sv_then (passwordFor d rowId input job) (\<lambda>used.
         sv_then (if truthy (pr_usageLocation row) then im_hasSchemaAttribute d ''msExchUsageLocation'' else sv_return False) (\<lambda>writable.
         let create = createInput row dn writable;
             written = [(''distinguishedName'', JStr dn), (''mail'', json_opt (pr_mail row))]
               @ (if pr_organisation row \<noteq> [] then [(''organisation'', JObj (map (\<lambda>(k, v). (k, JStr v)) (pr_organisation row)))] else [])
               @ (if truthy (ci_usageLocation create) then [(''usageLocation'', json_opt (ci_usageLocation create))] else [])
         in sv_then
           (withAudit (record_event d)
             \<lparr>ai_base = rx_audit ctx, ai_action = ''user.create'', ai_targetType = ''user'', ai_targetId = None,
              ai_targetDn = Some dn,
              ai_metadata = Some ([(''ouDn'', JStr (pr_ouDn row)), (''samAccountName'', JStr (pr_samAccountName row)),
                  (''userPrincipalName'', JStr (pr_userPrincipalName row))] @ passwordAudit used
                @ [(''enabled'', JBool (io_enabled (in_options input))), (''importLine'', JNum (pr_line row))])\<rparr>
             (sv_then (im_createUser d create planned
                  \<lparr>cf_password = pu_password used, cf_mustChange = pu_mustChange used, cf_groups = []\<rparr> (rx_writeCtx ctx)) (\<lambda>r.
              sv_then (readBack d r dn) (\<lambda>r. sv_return (stepsAudit r planned written))))) (\<lambda>result.
         let r = wo_created result
         in sv_return
           (if Step_create \<notin> set (cr_completed r)
            then Inl (import_refused (result_code r)
                   (Create_refused (mr_reason (cr_result r)) (mr_errorMessage (cr_result r))) True None)
            else Inr
              (\<lparr>ip_id = wo_targetId result,
                ip_distinguishedName = (case cr_user r of None \<Rightarrow> dn | Some u \<Rightarrow> du_distinguishedName u),
                ip_createCorrelationId = ab_correlationId (rx_audit ctx),
                ip_completed = map as_import_step (cr_completed r), ip_groups = [], ip_failed = [],
                ip_passwordFallback = (pu_fallback used \<and> Step_password \<in> set (cr_completed r)), ip_adopted = False\<rparr>,
               cr_user r, case stepFailure r of None \<Rightarrow> [] | Some f \<Rightarrow> [f]))))))"

text \<open>The account steps an earlier run left: the steps done, what failed, and whether the password fell back.\<close>

(* src/apps/api/src/services/bulkJobs/importRows.ts:678-727 finishAccount *)
definition finishAccount :: "('e, 'm) import_deps_scheme \<Rightarrow> nat \<Rightarrow> import_input \<Rightarrow> directory_user \<Rightarrow> create_step list
    \<Rightarrow> create_step list \<Rightarrow> import_progress \<Rightarrow> job_facts \<Rightarrow> row_context
    \<Rightarrow> ('e, create_step list \<times> import_failure option \<times> bool) svc" where
  "finishAccount d rowId input user steps planned progress job ctx =
     sv_then (if Step_password \<in> set steps then sv_then (passwordFor d rowId input job) (\<lambda>u. sv_return (Some u))
              else sv_return None) (\<lambda>used.
     let done = List.map_filter account_step (ip_completed progress)
     in sv_then
       (withAudit (record_event d)
         \<lparr>ai_base = rx_audit ctx, ai_action = ''user.create.finish'', ai_targetType = ''user'',
          ai_targetId = Some (du_objectGuid user), ai_targetDn = Some (du_distinguishedName user),
          ai_metadata = Some ([(''createCorrelationId'', json_opt (ip_createCorrelationId progress)), (''steps'', steps_json steps)]
            @ (case used of None \<Rightarrow> [] | Some u \<Rightarrow> passwordAudit u)
            @ (if ip_adopted progress then [(''adopted'', JBool True)] else []))\<rparr>
         (sv_then (im_finishUserCreate d (By_objectGuid (du_objectGuid user)) steps
              (case used of None \<Rightarrow> \<lparr>cf_password = [], cf_mustChange = False, cf_groups = []\<rparr>
               | Some u \<Rightarrow> \<lparr>cf_password = pu_password u, cf_mustChange = pu_mustChange u, cf_groups = []\<rparr>)
              (rx_writeCtx ctx)) (\<lambda>r.
          sv_then (readBack d (r\<lparr>cr_completed := done @ cr_completed r\<rparr>) (du_distinguishedName user)) (\<lambda>r.
          sv_return (stepsAudit r planned [(''distinguishedName'', JStr (du_distinguishedName user))]))))) (\<lambda>result.
     let r = wo_created result
     in sv_return (cr_completed r, stepFailure r,
          (case used of None \<Rightarrow> False | Some u \<Rightarrow> pu_fallback u) \<and> Step_password \<in> set (cr_completed r))))"

section \<open>The manager\<close>

definition manager_failure :: "string \<Rightarrow> import_message \<Rightarrow> import_failure" where
  "manager_failure code message = \<lparr>if_step = Import_manager, if_message = message, if_code = code\<rparr>"

text \<open>Whom to set: one in the directory, one the import created, nobody, or why not.\<close>

definition manager_id :: "('e, 'm) import_deps_scheme \<Rightarrow> import_input \<Rightarrow> ('e, import_failure + string option) svc" where
  "manager_id d input =
     (case in_managerOrdinal input of
        None \<Rightarrow> sv_return (Inr (pr_managerId (in_row input)))
      | Some n \<Rightarrow>
          sv_then (im_managerRow d n) (\<lambda>manager.
            sv_return
              (case manager of
                 Some (Some target) \<Rightarrow>
                   if target \<noteq> [] then Inr (Some target)
                   else Inl (manager_failure ''manager_not_created'' (Manager_not_created n))
               | _ \<Rightarrow> Inl (manager_failure ''manager_not_created'' (Manager_not_created n)))))"

(* src/apps/api/src/services/bulkJobs/importRows.ts:734-787 setManager *)
definition setManager :: "('e, 'm) import_deps_scheme \<Rightarrow> directory_user \<Rightarrow> import_input \<Rightarrow> row_context
    \<Rightarrow> ('e, import_failure option) svc" where
  "setManager d user input ctx =
     sv_then (manager_id d input) (\<lambda>found. case found of
       Inl failure \<Rightarrow> sv_return (Some failure)
     | Inr managerId \<Rightarrow>
         if \<not> truthy managerId then sv_return None
         else
           sv_then (rd_findObject d (By_objectGuid (the managerId))) (\<lambda>manager. case manager of
             None \<Rightarrow>
               sv_return (if in_managerOrdinal input = None then None else Some (manager_failure ''not_found'' Manager_left))
           | Some m \<Rightarrow>
               if map_option to_lower (du_managerDn user) = Some (to_lower (ref_distinguishedName m)) then sv_return None
               else
                 sv_catch
                   (sv_then (writeUserAttributes d user [(''managerDn'', JStr (ref_distinguishedName m))]
                        (rx_writeCtx ctx) (rx_audit ctx)) (\<lambda>result.
                    sv_return
                      (if wo_ok result then None
                       else
                         let code = (case wo_errorCode result of None \<Rightarrow> ''directory_error'' | Some c \<Rightarrow> c)
                         in Some (manager_failure code (Manager_refused code (wo_errorMessage result))))))
                   (\<lambda>err a. case err of
                      Refusal r \<Rightarrow> sv_return (Some (manager_failure (refusal_code r) (Manager_refused (refusal_code r) None)))
                    | Unavailable \<Rightarrow>
                        sv_return (Some (manager_failure ''directory_unavailable'' (Manager_refused ''directory_unavailable'' None)))
                    | _ \<Rightarrow> sv_rethrow err a)))"

section \<open>A row\<close>

definition with_step :: "import_step \<Rightarrow> import_progress \<Rightarrow> import_progress" where
  "with_step step p = p\<lparr>ip_completed := mergeSteps (ip_completed p) [step]\<rparr>"

definition located :: "directory_user option \<Rightarrow> import_progress \<Rightarrow> import_progress" where
  "located user p =
     (case user of None \<Rightarrow> p
      | Some u \<Rightarrow> p\<lparr>ip_id := Some (du_objectGuid u), ip_distinguishedName := du_distinguishedName u\<rparr>)"

text \<open>Taking up the account earlier runs of the row made: its account steps that are left.\<close>

(* src/apps/api/src/services/bulkJobs/importRows.ts:296-317 runImportRow *)
definition resume_account :: "('e, 'm) import_deps_scheme \<Rightarrow> import_row \<Rightarrow> import_progress \<Rightarrow> create_step list \<Rightarrow> job_facts
    \<Rightarrow> row_context \<Rightarrow> ('e, import_outcome + run_state) svc" where
  "resume_account d row kept planned job ctx =
     (let progress = kept\<lparr>ip_failed := []\<rparr>
      in sv_then (findCreated d progress (ir_input row)) (\<lambda>found. case found of
        None \<Rightarrow> sv_return (Inl (import_refused ''not_found'' Account_gone False (ir_after row)))
      | Some user \<Rightarrow>
          let progress = located (Some user) progress;
              left = remainingSteps planned (List.map_filter account_step (ip_completed progress))
          in if left = [] then sv_return (Inr (progress, Some user, []))
             else
               sv_then (finishAccount d (ir_id row) (ir_input row) user left planned progress job ctx) (\<lambda>(completed, failure, fallback).
               sv_return (Inr
                 (progress\<lparr>ip_completed := mergeSteps (ip_completed progress) (map as_import_step completed),
                    ip_passwordFallback := (fallback \<or> ip_passwordFallback progress)\<rparr>,
                  Some user, case failure of None \<Rightarrow> [] | Some f \<Rightarrow> [f])))))"

text \<open>Steps with nothing to do are done.\<close>

definition nothing_to_do :: "import_input \<Rightarrow> import_progress \<Rightarrow> import_progress" where
  "nothing_to_do input p =
     (let p = (if pr_groupIds (in_row input) = [] then with_step Import_groups p else p)
      in if \<not> truthy (pr_managerId (in_row input)) \<and> in_managerOrdinal input = None then with_step Import_manager p else p)"

text \<open>What is left of an account that was made but can't be read.\<close>

definition unread_failures :: "import_progress \<Rightarrow> import_failure list \<Rightarrow> import_failure list" where
  "unread_failures p failures =
     map (\<lambda>s. \<lparr>if_step = s, if_message = Not_read_back s, if_code = ''not_found''\<rparr>)
       (filter (\<lambda>s. s \<noteq> Import_create \<and> s \<notin> set (ip_completed p) \<and> \<not> list_ex (\<lambda>f. if_step f = s) failures) IMPORT_STEPS)"

(* src/apps/api/src/services/bulkJobs/importRows.ts:347-366 runImportRow *)
definition add_groups :: "('e, 'm) import_deps_scheme \<Rightarrow> import_input \<Rightarrow> directory_user option \<Rightarrow> row_context
    \<Rightarrow> import_progress \<times> import_failure list \<Rightarrow> ('e, import_progress \<times> import_failure list) svc" where
  "add_groups d input user ctx s =
     (case s of (p, failures) \<Rightarrow>
       (case user of
          None \<Rightarrow> sv_return s
        | Some u \<Rightarrow>
            if Import_groups \<in> set (ip_completed p) then sv_return s
            else
              let done = map (\<lambda>g. to_lower (chg_id g)) (filter chg_isMember (ip_groups p))
              in sv_then (membershipRow d Add_member (du_objectGuid u) (Some (groups_json (ip_groups p)))
                   (filter (\<lambda>i. i \<notin> set done) (pr_groupIds (in_row input))) u ctx) (\<lambda>added.
                 let after = (case added of Ok_row r \<Rightarrow> oo_after r | Failed_row r \<Rightarrow> fo_after r);
                     p = (if after = None then p else p\<lparr>ip_groups := changedGroups after\<rparr>)
                 in sv_return
                   (case added of
                      Ok_row _ \<Rightarrow> (with_step Import_groups p, failures)
                    | Failed_row r \<Rightarrow>
                        (p, failures @ [\<lparr>if_step = Import_groups, if_message = Groups_failed (fo_message r),
                                       if_code = fo_errorCode r\<rparr>])))))"

(* src/apps/api/src/services/bulkJobs/importRows.ts:368-372 runImportRow *)
definition add_manager :: "('e, 'm) import_deps_scheme \<Rightarrow> import_input \<Rightarrow> directory_user option \<Rightarrow> row_context
    \<Rightarrow> import_progress \<times> import_failure list \<Rightarrow> ('e, import_progress \<times> import_failure list) svc" where
  "add_manager d input user ctx s =
     (case s of (p, failures) \<Rightarrow>
       (case user of
          None \<Rightarrow> sv_return s
        | Some u \<Rightarrow>
            if Import_manager \<in> set (ip_completed p) then sv_return s
            else
              sv_then (setManager d u input ctx) (\<lambda>failure.
              sv_return (case failure of
                  Some f \<Rightarrow> (p, failures @ [f])
                | None \<Rightarrow> (with_step Import_manager p, failures)))))"

definition unique :: "'a list \<Rightarrow> 'a list" where
  "unique xs = fold (\<lambda>x ys. if x \<in> set ys then ys else ys @ [x]) xs []"

definition row_outcome :: "import_progress \<times> import_failure list \<Rightarrow> import_outcome" where
  "row_outcome s =
     (case s of (p, failures) \<Rightarrow>
       (let p = p\<lparr>ip_failed := map (\<lambda>f. (if_step f, if_message f)) failures\<rparr>;
            targetId = (if truthy (ip_id p) then ip_id p else None)
        in case failures of
             [] \<Rightarrow> \<lparr>io_ok = True, io_errorCode = [], io_messages = [], io_partial = False, io_audited = True, io_after = Some p,
                   io_targetDn = Some (ip_distinguishedName p), io_targetId = targetId\<rparr>
           | f # _ \<Rightarrow> \<lparr>io_ok = False, io_errorCode = if_code f, io_messages = unique (map if_message failures), io_partial = True,
                   io_audited = True, io_after = Some p, io_targetDn = Some (ip_distinguishedName p), io_targetId = targetId\<rparr>))"

text \<open>What follows the account steps, whichever way they were run.\<close>

(* src/apps/api/src/services/bulkJobs/importRows.ts:319-390 runImportRow *)
definition follow_up :: "('e, 'm) import_deps_scheme \<Rightarrow> import_input \<Rightarrow> row_context \<Rightarrow> run_state \<Rightarrow> ('e, import_outcome) svc" where
  "follow_up d input ctx s =
     (case s of (p, user, failures) \<Rightarrow>
       (let p = nothing_to_do input p
        in sv_then (if user = None then findCreated d p input else sv_return user) (\<lambda>user.
           sv_then (case user of None \<Rightarrow> sv_return None | Some u \<Rightarrow> dp_refresh d (du_objectGuid u)) (\<lambda>live.
           let user = (if live = None then user else live);
               p = located user p;
               failures = failures @ (if user = None then unread_failures p failures else [])
           in sv_then (add_groups d input user ctx (p, failures)) (\<lambda>s.
              sv_then (add_manager d input user ctx s) (\<lambda>s.
              sv_return (row_outcome s)))))))"

text \<open>What earlier runs did: as the row keeps it, else as the audit log has it, else as the directory shows it.\<close>

definition progress_so_far :: "('e, 'm) import_deps_scheme \<Rightarrow> import_row \<Rightarrow> job_facts \<Rightarrow> ('e, import_progress option) svc" where
  "progress_so_far d row job =
     (if ir_after row \<noteq> None then sv_return (ir_after row)
      else
        sv_then (createdBefore d (ir_input row)) (\<lambda>before.
          if before \<noteq> None then sv_return before
          else if ir_attempts row > 1 then adopt d (ir_input row) job
          else sv_return None))"

(* src/apps/api/src/services/bulkJobs/importRows.ts:275-390 runImportRow *)
definition runImportRow :: "('e, 'm) import_deps_scheme \<Rightarrow> import_row \<Rightarrow> row_context \<Rightarrow> ('e, import_outcome) svc" where
  "runImportRow d row ctx =
     sv_then (im_job d) (\<lambda>job.
     let planned = accountSteps (io_enabled (in_options (ir_input row)))
     in sv_then (progress_so_far d row job) (\<lambda>progress.
        sv_then
          (case progress of
             None \<Rightarrow> createAccount d (ir_id row) (ir_input row) planned job ctx
           | Some p \<Rightarrow> resume_account d row p planned job ctx) (\<lambda>made.
        case made of
          Inl outcome \<Rightarrow> sv_return outcome
        | Inr s \<Rightarrow> follow_up d (ir_input row) ctx s)))"

end
