(* ===== verification/AuditClaims.thy ===== *)
theory AuditClaims
  imports ImportRows
begin

text \<open>
  What the rows of a bulk job come to in the audit log: over any provider, cache and log, no write goes
  unlogged; and where a row that was written is put back as if nothing had been.
\<close>

section \<open>Traces\<close>

text \<open>
  The operations a row is handed, wrapped so that the writes and the audit log are kept in order: a
  write with whether it was made, or \<open>None\<close> when it threw, and what the log took.
\<close>

datatype attempt = Try_write object_id provider_write | Try_create create_input create_finish | Try_finish object_id create_finish

datatype svc_event =
    Did attempt "bool option" | Logged audit_row
  | Held string | Found_held "string option" | Made_random string

definition quiet :: "('e, 'a) svc \<Rightarrow> ('e \<times> svc_event list, 'a) svc" where
  "quiet m s = (case s of (e, evs) \<Rightarrow> (case m e of (r, e') \<Rightarrow> (r, (e', evs))))"

definition noted :: "('a svc_result \<Rightarrow> svc_event list) \<Rightarrow> ('e, 'a) svc \<Rightarrow> ('e \<times> svc_event list, 'a) svc" where
  "noted note m s = (case s of (e, evs) \<Rightarrow> (case m e of (r, e') \<Rightarrow> (r, (e', evs @ note r))))"

definition traced_log :: "(audit_row \<Rightarrow> 'e \<Rightarrow> string option \<times> 'e) \<Rightarrow> audit_row \<Rightarrow> 'e \<times> svc_event list
    \<Rightarrow> string option \<times> 'e \<times> svc_event list" where
  "traced_log log a s =
     (case s of (e, evs) \<Rightarrow>
       (case log a e of (None, e') \<Rightarrow> (None, (e', evs @ [Logged a])) | (Some name, e') \<Rightarrow> (Some name, (e', evs))))"

definition made :: "mutation_result svc_result \<Rightarrow> bool option" where
  "made r = (case r of Value x \<Rightarrow> Some (mr_ok x) | Raised _ _ \<Rightarrow> None)"

definition traced :: "'e row_deps \<Rightarrow> ('e \<times> svc_event list) row_deps" where
  "traced d =
     \<lparr>dp_write = (\<lambda>i w c. noted (\<lambda>r. [Did (Try_write i w) (made r)]) (dp_write d i w c)),
      dp_getUser = (\<lambda>i. quiet (dp_getUser d i)),
      dp_getGroup = (\<lambda>i. quiet (dp_getGroup d i)),
      dp_recordEvent = traced_log (dp_recordEvent d),
      dp_refresh = (\<lambda>i. quiet (dp_refresh d i)),
      dp_reconcileDirectMemberships = (\<lambda>i dns. quiet (dp_reconcileDirectMemberships d i dns)),
      dp_upsertGroup = (\<lambda>g. quiet (dp_upsertGroup d g)),
      dp_reconcileNestedGroups = (\<lambda>i dns. quiet (dp_reconcileNestedGroups d i dns)),
      dp_findCachedGroupsById = (\<lambda>is. quiet (dp_findCachedGroupsById d is)),
      rd_findObject = (\<lambda>i. quiet (rd_findObject d i)),
      rd_findCachedOu = (\<lambda>dn. quiet (rd_findCachedOu d dn)),
      rd_findCachedUser = (\<lambda>i. quiet (rd_findCachedUser d i)),
      rd_results_downloaded_at = quiet (rd_results_downloaded_at d),
      rd_handedOutPassword = (\<lambda>a b. quiet (rd_handedOutPassword d a b)),
      rd_holdPassword = (\<lambda>i p. noted (\<lambda>r. case r of Value _ \<Rightarrow> [Held p] | Raised _ _ \<Rightarrow> []) (rd_holdPassword d i p))\<rparr>"

text \<open>The action each write is logged under.\<close>

fun write_action :: "provider_write \<Rightarrow> string" where
  "write_action Do_disableUser = ''user.disable''"
| "write_action Do_enableUser = ''user.enable''"
| "write_action Do_unlockUser = ''user.unlock''"
| "write_action (Do_moveUser _) = ''user.move''"
| "write_action (Do_setAccountExpiry _) = ''user.accountExpiry.set''"
| "write_action (Do_setPasswordMustChange b) = (if b then ''user.passwordMustChange.set'' else ''user.passwordMustChange.clear'')"
| "write_action (Do_setPasswordNeverExpires b) = (if b then ''user.passwordNeverExpires.set'' else ''user.passwordNeverExpires.clear'')"
| "write_action (Do_resetPassword _) = ''user.password.reset''"
| "write_action (Do_updateUserAttributes _) = ''user.update''"
| "write_action (Do_addUserToGroup _) = ''user.group.add''"
| "write_action (Do_removeUserFromGroup _) = ''user.group.remove''"
| "write_action (Do_addGroupToGroup _) = ''group.group.add''"
| "write_action (Do_removeGroupFromGroup _) = ''group.group.remove''"

fun action_of :: "attempt \<Rightarrow> string" where
  "action_of (Try_write _ w) = write_action w"
| "action_of (Try_create _ _) = ''user.create''"
| "action_of (Try_finish _ _) = ''user.create.finish''"

text \<open>
  Every write is followed by a row of the log for its action, a success exactly if the write was made.
\<close>

fun all_logged :: "svc_event list \<Rightarrow> bool" where
  "all_logged [] = True"
| "all_logged (Did t ok # Logged a # es) \<longleftrightarrow>
     ai_action a = action_of t \<and> (ar_ok a \<longleftrightarrow> ok = Some True) \<and> all_logged es"
| "all_logged (Did t ok # es) = False"
| "all_logged (_ # es) = all_logged es"

lemma all_logged_append: "all_logged xs \<Longrightarrow> all_logged (xs @ ys) = all_logged ys"
  by (induction xs rule: all_logged.induct) auto

text \<open>What a program keeps: unless the log itself failed, the writes are all logged.\<close>

definition log_failed :: "svc_error \<Rightarrow> bool \<Rightarrow> bool" where
  "log_failed err audited \<longleftrightarrow> (\<exists>n. err = Other_error n) \<and> \<not> audited"

definition ends_logged :: "'a svc_result \<times> 'e \<times> svc_event list \<Rightarrow> bool" where
  "ends_logged out \<longleftrightarrow>
     (case out of
        (Value _, (_, evs)) \<Rightarrow> all_logged evs
      | (Raised err audited, (_, evs)) \<Rightarrow> all_logged evs \<or> (log_failed err audited \<and> all_logged (butlast evs)))"

definition logs :: "('e \<times> svc_event list, 'a) svc \<Rightarrow> bool" where
  "logs m \<longleftrightarrow> (\<forall>e evs. all_logged evs \<longrightarrow> ends_logged (m (e, evs)))"

lemma ends_logged_simps [simp]:
  "ends_logged (Value x, (e, evs)) \<longleftrightarrow> all_logged evs"
  "ends_logged (Raised err a, (e, evs)) \<longleftrightarrow> all_logged evs \<or> (log_failed err a \<and> all_logged (butlast evs))"
  by (simp_all add: ends_logged_def)

lemma logsI: "(\<And>e evs. all_logged evs \<Longrightarrow> ends_logged (m (e, evs))) \<Longrightarrow> logs m"
  by (simp add: logs_def)

lemma logsD: "logs m \<Longrightarrow> all_logged evs \<Longrightarrow> ends_logged (m (e, evs))"
  by (simp add: logs_def)

lemma logs_return [intro, simp]: "logs (sv_return x)"
  by (simp add: logs_def sv_return_def)

lemma logs_throw [intro, simp]: "logs (sv_throw err)"
  by (simp add: logs_def sv_throw_def)

lemma logs_rethrow [intro, simp]: "logs (sv_rethrow err a)"
  by (simp add: logs_def sv_rethrow_def)

lemma logs_quiet [intro, simp]: "logs (quiet m)"
  by (auto simp: logs_def quiet_def ends_logged_def split: prod.splits svc_result.splits)

lemma logs_noted: "(\<And>r. all_logged (note r)) \<Longrightarrow> logs (noted note m)"
  by (auto simp: logs_def noted_def ends_logged_def all_logged_append split: prod.splits svc_result.splits)

lemma logs_then [intro]:
  assumes "logs m" "\<And>x. logs (f x)"
  shows "logs (sv_then m f)"
proof (rule logsI)
  fix e evs
  assume "all_logged evs"
  note m = logsD [OF assms(1) this, of e]
  obtain r e' evs' where out: "m (e, evs) = (r, (e', evs'))" by (metis prod.exhaust)
  show "ends_logged (sv_then m f (e, evs))"
    using m logsD [OF assms(2), of evs' _ e'] by (cases r) (simp_all add: sv_then_def out)
qed

text \<open>Catching what a failure of the log itself never is.\<close>

lemma logs_catch:
  assumes "logs m" "\<And>err a. \<not> log_failed err a \<Longrightarrow> logs (h err a)"
    and "\<And>err a. log_failed err a \<Longrightarrow> h err a = sv_rethrow err a"
  shows "logs (sv_catch m h)"
proof (rule logsI)
  fix e evs
  assume "all_logged evs"
  note m = logsD [OF assms(1) this, of e]
  obtain r e' evs' where out: "m (e, evs) = (r, (e', evs'))" by (metis prod.exhaust)
  show "ends_logged (sv_catch m h (e, evs))"
  proof (cases r)
    case (Raised err a)
    with m logsD [OF assms(2), of err a evs' e'] assms(3) [of err a] show ?thesis
      by (cases "log_failed err a") (simp_all add: sv_catch_def sv_rethrow_def out)
  qed (use m in \<open>simp add: sv_catch_def out\<close>)
qed

lemma logs_if [intro]: "(c \<Longrightarrow> logs m) \<Longrightarrow> (\<not> c \<Longrightarrow> logs n) \<Longrightarrow> logs (if c then m else n)"
  by simp

lemma logs_option [intro]: "logs m \<Longrightarrow> (\<And>x. logs (f x)) \<Longrightarrow> logs (case z of None \<Rightarrow> m | Some x \<Rightarrow> f x)"
  by (cases z) simp_all

section \<open>Every row\<close>

text \<open>A write of one account is logged under its own action.\<close>

definition names_its_write :: "account_write \<Rightarrow> bool" where
  "names_its_write w \<longleftrightarrow> acw_action w = write_action (acw_write w)"

lemma account_writes_named:
  "names_its_write DISABLE_USER" "names_its_write ENABLE_USER" "names_its_write UNLOCK_USER" "names_its_write (moveUserTo ou)"
  "names_its_write (expireAccountAt t)" "names_its_write REQUIRE_PASSWORD_CHANGE" "names_its_write CLEAR_PASSWORD_NEVER_EXPIRES"
  by (simp_all add: names_its_write_def DISABLE_USER_def ENABLE_USER_def UNLOCK_USER_def moveUserTo_def expireAccountAt_def
      REQUIRE_PASSWORD_CHANGE_def CLEAR_PASSWORD_NEVER_EXPIRES_def plain_write_def Let_def)

text \<open>What the rows ask of what they are handed: that reads keep a log in order, and writes in \<open>withAudit\<close> too.\<close>

locale audited_row =
  fixes d :: "('e \<times> svc_event list, 'm) row_deps_scheme"
  assumes logs_record: "logs (record_event d a)"
    and logs_withAudit: "ai_action (input :: audit_input) = write_action w \<Longrightarrow> (\<And>r. wo_ok (f r :: write_op) = mr_ok r) \<Longrightarrow>
        logs (withAudit (record_event d) input (sv_then (dp_write d i w c) (\<lambda>r. sv_return (f r))))"
    and logs_reads: "logs (dp_getUser d i)" "logs (dp_getGroup d i)" "logs (dp_refresh d x)"
        "logs (dp_reconcileDirectMemberships d x dns)" "logs (dp_findCachedGroupsById d dns)" "logs (rd_findObject d i)"
        "logs (rd_findCachedOu d x)" "logs (rd_findCachedUser d x)" "logs (rd_results_downloaded_at d)"
        "logs (rd_handedOutPassword d sam display)" "logs (rd_holdPassword d n x)"
begin

text \<open>A row of the log that no write stands behind.\<close>

lemma logs_noop: "logs (withAudit (record_event d) input (sv_return r))"
proof -
  have "withAudit (record_event d) input (sv_return r)
      = sv_then (record_event d (logged_row input r)) (\<lambda>_. sv_return r)"
    by (simp add: withAudit_def sv_return_def fun_eq_iff)
  then show ?thesis by (simp add: logs_then logs_record)
qed

lemma logs_account:
  assumes "names_its_write w"
  shows "logs (writeUserAccount d w userId ctx audit)"
  unfolding writeUserAccount_def
  using assms
  by (auto intro!: logs_then logs_option logs_noop logs_withAudit logs_reads
      simp: names_its_write_def account_event_def op_of_def)

lemma logs_accountRow: "names_its_write w \<Longrightarrow> logs (accountRow d row ctx w)"
  unfolding accountRow_def Let_def by (auto intro!: logs_then logs_account logs_option)

lemma logs_group:
  assumes "mc_kind change = Member_user"
  shows "logs (writeGroupMembership d change ctx base)"
  unfolding writeGroupMembership_def
  by (rule logs_withAudit) (cases "mc_op change"; simp add: assms kind_text_def op_text_def membership_write_def op_of_def)+

lemma logs_attributes:
  shows "logs (writeUserAttributes d user patch ctx audit)"
  unfolding writeUserAttributes_def
  by (auto intro!: logs_then logs_option logs_withAudit logs_reads simp: op_of_def)

lemma logs_membership_group:
  shows "logs (membership_group d op gs user ctx groupId p)"
proof (cases "jm_get gs groupId")
  case None
  then show ?thesis by (auto simp: membership_group_def intro!: logs_then logs_record)
next
  case (Some g)
  let ?change = "\<lparr>mc_kind = Member_user, mc_op = op, mc_memberGuid = du_objectGuid user,
      mc_memberDn = du_distinguishedName user, mc_group = g\<rparr>"
  have "ends_logged (membership_group d op gs user ctx groupId p (e, evs))"
    if l: "all_logged evs" and no: "\<not> (op = Add_member \<and> membershipState (cg_sid g)
        (rawScalarValue (raw_get (du_rawAttributes user) ''primaryGroupID'')) False False = Primary_member)" for e evs
  proof -
    obtain r e' evs' where w: "writeGroupMembership d ?change (rx_writeCtx ctx) (rx_audit ctx) (e, evs) = (r, (e', evs'))"
      by (metis prod.exhaust)
    with logsD [OF logs_group [of ?change] l] have "ends_logged (r, (e', evs'))" by (metis membership_change.select_convs(1))
    then show ?thesis using w no Some
      by (cases r) (auto simp: membership_group_def Let_def sv_return_def sv_rethrow_def log_failed_def split: svc_error.splits)
  qed
  then show ?thesis
    using Some by (cases "op = Add_member \<and> membershipState (cg_sid g)
        (rawScalarValue (raw_get (du_rawAttributes user) ''primaryGroupID'')) False False = Primary_member")
      (auto simp: membership_group_def intro: logs_then logs_record logsI)
qed

lemma logs_membership_groups: "logs (membership_groups d op gs user ctx groupIds p)"
proof (induction groupIds arbitrary: p)
  case (Cons g groupIds)
  then show ?case by (auto intro!: logs_then logs_membership_group split: prod.split)
qed simp

lemma logs_membershipRow:
  shows "logs (membershipRow d op targetId after groupIds user ctx)"
proof -
  have refresh: "logs (refreshMembershipCache d (Refresh_user targetId))"
    by (auto intro!: logs_then logs_option logs_reads)
  have "logs (sv_catch (refreshMembershipCache d (Refresh_user targetId))
      (\<lambda>err a. if err = Unavailable then sv_return () else sv_rethrow err a))"
    by (rule logs_catch [OF refresh]) (auto simp: log_failed_def)
  then show ?thesis
    unfolding membershipRow_def by (auto intro!: logs_then logs_membership_groups logs_reads)
qed

lemma logs_resolveChanges: "logs (resolveChanges d changes)"
  unfolding resolveChanges_def Let_def by (auto intro!: logs_then logs_option logs_reads)

lemma logs_attributesRow:
  assumes "logs target"
  shows "logs (attributesRow d before after user ctx target)"
  unfolding attributesRow_def Let_def
proof (rule logs_catch, goal_cases)
  case 1
  have "logs (guid_of_dn d dn)" for dn
    unfolding guid_of_dn_def by (auto intro!: logs_then logs_reads split: option.split json.split)
  then show ?case by (auto intro!: logs_then logs_attributes assms)
next
  case (2 err a)
  then show ?case by (auto split: svc_error.split refusal.split)
qed (auto simp: log_failed_def)

lemma logs_passwordResetRow:
  shows "logs (passwordResetRow d row ctx)"
  unfolding passwordResetRow_def
  by (auto intro!: logs_then logs_option logs_withAudit logs_reads)

lemma logs_accountChangeRow:
  shows "logs (accountChangeRow d row ctx change)"
proof -
  have named: "names_its_write w" if "resolveAccountChange d change s = (Value w, s')" for s w s'
    using that by (cases change)
      (auto simp: sv_return_def sv_then_def sv_throw_def account_writes_named split: prod.splits svc_result.splits option.splits if_splits)
  have resolve: "logs (resolveAccountChange d change)"
    by (cases change) (auto intro!: logs_then logs_option logs_reads)
  show ?thesis
  proof (rule logsI)
    fix e evs
    assume "all_logged evs"
    note m = logsD [OF resolve this, of e]
    obtain r e' evs' where out: "resolveAccountChange d change (e, evs) = (r, (e', evs'))" by (metis prod.exhaust)
    show "ends_logged (accountChangeRow d row ctx change (e, evs))"
    proof (cases r)
      case (Value w)
      then show ?thesis
        using m out logs_accountRow [OF named [of "(e, evs)" w "(e', evs')"], of row ctx]
        by (simp add: accountChangeRow_def logsD)
    next
      case (Raised err a)
      then show ?thesis
        using m out by (auto simp: accountChangeRow_def sv_return_def sv_rethrow_def log_failed_def split: svc_error.split)
    qed
  qed
qed

lemma logs_work:
  assumes "work_of kind input = Some work"
  shows "logs (run_work d ctx row work)"
proof (cases work)
  case (Work_account w)
  then have "names_its_write w"
    using assms account_writes_named by (cases "(kind, input)" rule: work_of.cases) auto
  then show ?thesis using Work_account logs_accountRow by simp
qed (auto simp: groupMembershipRow_def userAttributesRow_def
    intro!: logs_reads logs_accountChangeRow logs_passwordResetRow logs_then logs_option logs_membershipRow logs_attributesRow logs_resolveChanges)

end

section \<open>The log of a row\<close>

lemma logs_traced_log:
  assumes "dp_recordEvent d = traced_log log"
  shows "logs (record_event d a)"
  by (rule logsI) (auto simp: record_event_def traced_log_def assms all_logged_append log_failed_def split: prod.splits option.splits)

text \<open>A program that tries one write, and answers as it was answered.\<close>

definition attempts :: "attempt \<Rightarrow> ('e \<times> svc_event list, 'x write_op_scheme) svc \<Rightarrow> bool" where
  "attempts t op \<longleftrightarrow>
     (\<forall>e evs. all_logged evs \<longrightarrow>
        (case op (e, evs) of
           (Value r, (_, evs')) \<Rightarrow> evs' = evs @ [Did t (Some (wo_ok r))]
         | (Raised _ _, (_, evs')) \<Rightarrow> evs' = evs @ [Did t None]))"

lemma row_facts:
  "ai_action (logged_row input x) = ai_action input" "ar_ok (logged_row input x) = wo_ok x"
  "ai_action (thrown_row input err) = ai_action input" "\<not> ar_ok (thrown_row input err)"
  by (simp_all add: logged_row_def thrown_row_def Let_def)

lemma logs_withAudit_traced:
  assumes "dp_recordEvent d = traced_log log" "ai_action input = action_of t" "attempts t op"
  shows "logs (withAudit (record_event d) input op)"
proof (rule logsI)
  fix e evs
  assume l: "all_logged evs"
  obtain r e' evs' where out: "op (e, evs) = (r, (e', evs'))" by (metis prod.exhaust)
  have "case op (e, evs) of
      (Value r, (_, evs')) \<Rightarrow> evs' = evs @ [Did t (Some (wo_ok r))] | (Raised _ _, (_, evs')) \<Rightarrow> evs' = evs @ [Did t None]"
    using assms(3) l by (simp add: attempts_def)
  then have evs': "evs' = evs @ [Did t (case r of Value x \<Rightarrow> Some (wo_ok x) | Raised _ _ \<Rightarrow> None)]"
    unfolding out by (cases r) simp_all
  show "ends_logged (withAudit (record_event d) input op (e, evs))"
    using l evs' assms(2)
    by (cases r) (auto simp: row_facts withAudit_def out sv_then_def sv_return_def sv_rethrow_def record_event_def traced_log_def assms(1)
        all_logged_append log_failed_def split: prod.splits option.splits)
qed

lemma attempts_write:
  "(\<And>x. wo_ok (f x) = mr_ok x) \<Longrightarrow> attempts t (sv_then (noted (\<lambda>r. [Did t (made r)]) m) (\<lambda>x. sv_return (f x)))"
  by (auto simp: attempts_def noted_def made_def sv_then_def sv_return_def split: prod.splits svc_result.splits)

interpretation traced_row: audited_row "traced d" for d
proof
  fix a show "logs (record_event (traced d) a)" by (rule logs_traced_log) (simp add: traced_def)
next
  fix input :: audit_input and w and f :: "mutation_result \<Rightarrow> write_op" and i c
  assume "ai_action input = write_action w" "\<And>r. wo_ok (f r) = mr_ok r"
  then show "logs (withAudit (record_event (traced d)) input (sv_then (dp_write (traced d) i w c) (\<lambda>r. sv_return (f r))))"
    by (intro logs_withAudit_traced [where t = "Try_write i w"]) (simp_all add: traced_def attempts_write)
qed (auto simp: traced_def intro!: logs_noted split: svc_result.split)


section \<open>Written, and put back\<close>

text \<open>
  C10. A row that was written can be put back as if it hadn't been. When the directory takes an account's
  write, the log takes its row, and then no domain controller answers the read that follows, the row's
  run throws what the service takes for \<open>nothing was written\<close>: it has no outcome to record and goes back
  to waiting. Run again, it finds the account as asked, so it ends as skipped and keeps the values it
  had before its first run: none, so a revert passes it over.
\<close>

theorem written_row_is_put_back:
  assumes "dp_refresh d (jr_targetId row) e = (Value (Some u), ea)" "acw_asAsked w u = None"
    and "dp_write d (By_objectGuid (jr_targetId row)) (acw_write w) (rx_writeCtx ctx) ea = (Value r, eb)" "mr_ok r"
    and "\<forall>a. dp_recordEvent d a eb = (None, ec)"
    and "dp_refresh d (jr_targetId row) ec = (Raised Unavailable False, ed)"
    and "dp_refresh d (jr_targetId row) ee = (Value (Some u'), ef)" "acw_asAsked w u' \<noteq> None"
    and "\<forall>a. dp_recordEvent d a ef = (None, eg)"
  shows "(\<exists>a. accountRow (traced d) row ctx w (e, [])
        = (Raised Unavailable False, (ed, [Did (Try_write (By_objectGuid (jr_targetId row)) (acw_write w)) (Some True), Logged a]))
       \<and> ar_ok a)
     \<and> outcome_of (handled (fst (accountRow d row ctx w e))) = None
     \<and> fst (accountRow d row ctx w ee)
        = Value (Ok_row (kept_row (jr_before row) (jr_after row) (du_distinguishedName u')))"
proof -
  obtain s where s: "acw_asAsked w u' = Some s" using assms(8) by blast
  have "ar_ok (logged_row input (op_of r))" for input using assms(4) by (simp add: row_facts op_of_def)
  then show ?thesis
    using assms s
    by (simp add: accountRow_def writeUserAccount_def traced_def quiet_def noted_def traced_log_def made_def record_event_def
        withAudit_def sv_then_def sv_return_def op_of_def Let_def)
qed

text \<open>A directory behind a counter: the account has no expiry until it is written, and the second read fails.\<close>

definition ex_account :: "ms option \<Rightarrow> directory_user" where
  "ex_account expires =
     \<lparr>du_objectGuid = ''g1'', du_sid = None, du_distinguishedName = ''CN=Ann,DC=x'', du_samAccountName = Some ''ann'',
      du_userPrincipalName = Some ''ann@x'', du_displayName = Some ''Ann'', du_givenName = None, du_surname = None, du_email = None,
      du_phone = None, du_mobile = None, du_title = None, du_department = None, du_office = None, du_managerDn = None,
      du_enabled = False, du_locked = False, du_lockedAt = None, du_resultantPsoDn = None, du_passwordNeverExpires = False,
      du_passwordLastSetAt = None, du_passwordExpiresAt = None, du_passwordExpiryComputed = False, du_passwordMustChange = False,
      du_accountExpiresAt = expires, du_lastLogonAt = None, du_lastBadPasswordAt = None, du_badPasswordCount = None,
      du_createdAtSource = None, du_modifiedAtSource = None, du_memberOfDns = [], du_rawAttributes = []\<rparr>"

definition ex_row_deps :: "nat row_deps" where
  "ex_row_deps =
     \<lparr>dp_write = (\<lambda>_ _ _ n. (Value \<lparr>mr_ok = True, mr_before = None, mr_after = None, mr_reason = None, mr_errorMessage = None\<rparr>, n + 1)),
      dp_getUser = (\<lambda>_ n. (Value (Some (ex_account None)), n)), dp_getGroup = (\<lambda>_ n. (Value None, n)),
      dp_recordEvent = (\<lambda>_ n. (None, n + 1)),
      dp_refresh = (\<lambda>_ n. (if n = 3 then Raised Unavailable False
          else Value (Some (ex_account (if n > 3 then Some 0 else None))), n + 1)),
      dp_reconcileDirectMemberships = (\<lambda>_ _ n. (Value (), n)), dp_upsertGroup = (\<lambda>_ n. (Value (), n)),
      dp_reconcileNestedGroups = (\<lambda>_ _ n. (Value (), n)), dp_findCachedGroupsById = (\<lambda>_ n. (Value [], n)),
      rd_findObject = (\<lambda>_ n. (Value None, n)), rd_findCachedOu = (\<lambda>_ n. (Value None, n)),
      rd_findCachedUser = (\<lambda>_ n. (Value None, n)), rd_results_downloaded_at = (\<lambda>n. (Value None, n)),
      rd_handedOutPassword = (\<lambda>_ _ n. (Value ''pw'', n)), rd_holdPassword = (\<lambda>_ _ n. (Value (), n))\<rparr>"

definition ex_row_context :: row_context where
  "ex_row_context = \<lparr>rx_writeCtx = \<lparr>wc_actorUserId = ''g0'', wc_actorUsername = ''op'', wc_actorPassword = ''pw'', wc_correlationId = ''c''\<rparr>,
     rx_audit = \<lparr>ab_correlationId = None, ab_metadata = None\<rparr>, rx_say = (\<lambda>_. [])\<rparr>"

definition ex_job_row :: job_row where
  "ex_job_row = \<lparr>jr_id = 1, jr_targetId = ''g1'', jr_before = None, jr_after = None\<rparr>"

theorem written_row_is_put_back_witness:
  "outcome_of (handled (fst (accountRow ex_row_deps ex_job_row ex_row_context (expireAccountAt (Some 0)) 0))) = None
   \<and> fst (accountRow ex_row_deps ex_job_row ex_row_context (expireAccountAt (Some 0)) 4)
      = Value (Ok_row (kept_row None None ''CN=Ann,DC=x''))"
proof -
  have asked: "acw_asAsked (expireAccountAt (Some 0)) (ex_account None) = None"
      "acw_asAsked (expireAccountAt (Some 0)) (ex_account (Some 0)) \<noteq> None"
    by (simp_all add: expireAccountAt_def ex_account_def iso_json_def Let_def)
  show ?thesis
    using written_row_is_put_back [where d = ex_row_deps and row = ex_job_row and e = 0 and ctx = ex_row_context and ec = 3
        and ea = 1 and eb = 2 and ed = 4 and ee = 4 and ef = 5 and eg = 6, OF _ asked(1) _ _ _ _ _ asked(2)]
    by (simp add: ex_row_deps_def ex_job_row_def ex_account_def)
qed


end
