(* ===== verification/ImportClaims.thy ===== *)
theory ImportClaims
  imports ImportRows AdObjectClaims
begin

text \<open>
  What a row of an import comes to, over any directory, cache and log: when it is done, where a run that
  did nothing is taken for done, and that no account is made twice.
\<close>

section \<open>What a program may return\<close>

text \<open>A property of every value a program may return, and of every value of the ones it is made of.\<close>

definition returns :: "('a \<Rightarrow> bool) \<Rightarrow> ('e, 'a) svc \<Rightarrow> bool" where
  "returns P m \<longleftrightarrow> (\<forall>e x e'. m e = (Value x, e') \<longrightarrow> P x)"

lemma returnsI: "(\<And>e x e'. m e = (Value x, e') \<Longrightarrow> P x) \<Longrightarrow> returns P m"
  by (auto simp: returns_def)

lemma returnsD: "returns P m \<Longrightarrow> m e = (Value x, e') \<Longrightarrow> P x"
  by (auto simp: returns_def)

lemma returns_return [simp]: "returns P (sv_return x) \<longleftrightarrow> P x"
  by (simp add: returns_def sv_return_def)

lemma returns_throw [simp]: "returns P (sv_throw err)"
  by (simp add: returns_def sv_throw_def)

lemma returns_rethrow [simp]: "returns P (sv_rethrow err a)"
  by (simp add: returns_def sv_rethrow_def)

lemma returns_then:
  assumes "returns Q m" "\<And>x. Q x \<Longrightarrow> returns P (f x)"
  shows "returns P (sv_then m f)"
proof (rule returnsI)
  fix e x e'
  assume "sv_then m f e = (Value x, e')"
  then obtain y e1 where "m e = (Value y, e1)" "f y e1 = (Value x, e')"
    by (auto simp: sv_then_def split: prod.splits svc_result.splits)
  then show "P x" using assms returnsD by metis
qed

lemma returns_any: "returns (\<lambda>_. True) m"
  by (simp add: returns_def)

lemma returns_then_any: "(\<And>x. returns P (f x)) \<Longrightarrow> returns P (sv_then m f)"
  by (rule returns_then [OF returns_any])

lemma returns_withAudit: "returns P op \<Longrightarrow> returns P (withAudit log input op)"
  by (auto simp: returns_def withAudit_def sv_then_def sv_return_def sv_rethrow_def split: prod.splits svc_result.splits)

section \<open>Done means done\<close>

text \<open>The steps a row is to run.\<close>

definition required_steps :: "import_input \<Rightarrow> import_step list" where
  "required_steps input = map as_import_step (accountSteps (io_enabled (in_options input))) @ [Import_groups, Import_manager]"

text \<open>
  What the code takes a provider's result to say: with no step named that failed, every step asked for
  is done; and the step named is the password or the enabling.
\<close>

definition says_where_it_failed :: "create_step list \<Rightarrow> create_result \<Rightarrow> bool" where
  "says_where_it_failed steps r \<longleftrightarrow>
     (case cr_failedStep r of None \<Rightarrow> set steps \<subseteq> set (cr_completed r) | Some s \<Rightarrow> s = Step_password \<or> s = Step_enable)"

definition provider_says :: "('e, 'm) import_deps_scheme \<Rightarrow> bool" where
  "provider_says d \<longleftrightarrow>
     (\<forall>c steps f w. returns (\<lambda>r. Step_create \<in> set (cr_completed r) \<longrightarrow> says_where_it_failed steps r) (im_createUser d c steps f w))
     \<and> (\<forall>i steps f w. returns (says_where_it_failed steps) (im_finishUserCreate d i steps f w))"

lemma import_refused_not_ok [simp]: "\<not> io_ok (import_refused code message audited after)"
  by (simp add: import_refused_def)

lemma stepFailure_None: "says_where_it_failed steps r \<Longrightarrow> stepFailure r = None \<Longrightarrow> set steps \<subseteq> set (cr_completed r)"
  by (auto simp: says_where_it_failed_def stepFailure_def split: option.splits if_splits)

text \<open>A step not done has a failure beside it.\<close>

definition accounted :: "import_step set \<Rightarrow> import_progress \<times> import_failure list \<Rightarrow> bool" where
  "accounted steps s \<longleftrightarrow> snd s \<noteq> [] \<or> steps \<subseteq> set (ip_completed (fst s))"

lemma mergeSteps_set [simp]: "set (mergeSteps a b) = set a \<union> set b"
proof -
  have "s \<in> set IMPORT_STEPS" for s by (cases s) (simp_all add: IMPORT_STEPS_def)
  then show ?thesis by (auto simp: mergeSteps_def)
qed

lemma with_step_set [simp]: "set (ip_completed (with_step s p)) = insert s (set (ip_completed p))"
  by (simp add: with_step_def)

lemma nothing_to_do_set: "set (ip_completed p) \<subseteq> set (ip_completed (nothing_to_do input p))"
  by (auto simp: nothing_to_do_def Let_def)

lemma located_completed [simp]: "ip_completed (located user p) = ip_completed p"
  by (cases user) (simp_all add: located_def)

lemma readBack_says: "returns (\<lambda>r'. cr_failedStep r' = cr_failedStep r \<and> cr_completed r' = cr_completed r \<and> cr_result r' = cr_result r)
    (readBack d r dn)"
  unfolding readBack_def by (auto intro!: returns_then_any)

lemma wo_created_stepsAudit [simp]: "wo_created (stepsAudit r planned written) = r"
  by (simp add: stepsAudit_def)

lemma createAccount_accounted:
  assumes "provider_says d"
  shows "returns (\<lambda>made. case made of Inl out \<Rightarrow> \<not> io_ok out | Inr (p, _, failures) \<Rightarrow> accounted (set (map as_import_step planned)) (p, failures))
    (createAccount d rowId input planned job ctx)"
proof -
  let ?P = "\<lambda>r. Step_create \<in> set (cr_completed (wo_created r)) \<longrightarrow> says_where_it_failed planned (wo_created r)"
  have op: "returns ?P (sv_then (im_createUser d c planned f w) (\<lambda>r. sv_then (readBack d r dn) (\<lambda>r. sv_return (stepsAudit r planned written))))"
    for c f w dn written
  proof (rule returns_then)
    show "returns (\<lambda>r. Step_create \<in> set (cr_completed r) \<longrightarrow> says_where_it_failed planned r) (im_createUser d c planned f w)"
      using assms by (simp add: provider_says_def)
    fix r assume "Step_create \<in> set (cr_completed r) \<longrightarrow> says_where_it_failed planned r"
    then show "returns ?P (sv_then (readBack d r dn) (\<lambda>r. sv_return (stepsAudit r planned written)))"
      by (intro returns_then [OF readBack_says]) (auto simp: says_where_it_failed_def split: option.splits)
  qed
  show ?thesis
    unfolding createAccount_def Let_def
    by (intro returns_then_any returns_then [OF returns_withAudit [OF op]])
      (auto simp: accounted_def split: option.splits dest!: stepFailure_None dest: image_mono [of _ _ as_import_step])
qed

lemma finishAccount_accounted:
  assumes "provider_says d"
  shows "returns (\<lambda>(completed, failure, _). failure = None \<longrightarrow> set steps \<subseteq> set completed)
    (finishAccount d rowId input user steps planned progress job ctx)"
proof -
  let ?P = "\<lambda>r. case cr_failedStep (wo_created r) of None \<Rightarrow> set steps \<subseteq> set (cr_completed (wo_created r))
      | Some s \<Rightarrow> s = Step_password \<or> s = Step_enable"
  have op: "returns ?P (sv_then (im_finishUserCreate d i steps f w) (\<lambda>r. sv_then (readBack d (r\<lparr>cr_completed := done @ cr_completed r\<rparr>) dn)
      (\<lambda>r. sv_return (stepsAudit r planned written))))" for i f w dn written "done"
  proof (rule returns_then)
    show "returns (says_where_it_failed steps) (im_finishUserCreate d i steps f w)"
      using assms by (simp add: provider_says_def)
    fix r assume "says_where_it_failed steps r"
    then show "returns ?P (sv_then (readBack d (r\<lparr>cr_completed := done @ cr_completed r\<rparr>) dn)
        (\<lambda>r. sv_return (stepsAudit r planned written)))"
      by (intro returns_then [OF readBack_says]) (auto simp: says_where_it_failed_def split: option.splits)
  qed
  show ?thesis
    unfolding finishAccount_def Let_def
    by (intro returns_then_any returns_then [OF returns_withAudit [OF op]])
      (auto simp: stepFailure_def split: option.splits if_splits)
qed

text \<open>What follows keeps a step not done with a failure beside it.\<close>

lemma add_groups_accounted:
  assumes "accounted S s"
  shows "returns (accounted (insert Import_groups S)) (add_groups d input (Some u) ctx s)"
  using assms
  by (cases s) (auto simp: add_groups_def accounted_def Let_def intro!: returns_then_any split: row_outcome.splits)

lemma add_manager_accounted:
  assumes "accounted S s"
  shows "returns (accounted (insert Import_manager S)) (add_manager d input (Some u) ctx s)"
  using assms
  by (cases s) (auto simp: add_manager_def accounted_def intro!: returns_then_any split: option.splits)

lemma unread_accounted:
  assumes "accounted S (p, failures)"
  shows "accounted (insert Import_manager (insert Import_groups S)) (p, failures @ unread_failures p failures)"
proof (cases "failures = [] \<and> unread_failures p failures = []")
  case True
  then have "s = Import_create \<or> s \<in> set (ip_completed p)" for s
    by (cases s) (auto simp: unread_failures_def IMPORT_STEPS_def filter_empty_conv split: if_splits)
  then show ?thesis using assms True by (auto simp: accounted_def)
qed (auto simp: accounted_def)

definition ends_accounted :: "import_step set \<Rightarrow> import_outcome \<Rightarrow> bool" where
  "ends_accounted steps out \<longleftrightarrow>
     (io_ok out \<longrightarrow> (\<exists>p. io_after out = Some p \<and> steps \<subseteq> set (ip_completed p) \<and> ip_failed p = []))"

lemma row_outcome_accounted: "accounted S s \<Longrightarrow> ends_accounted S (row_outcome s)"
  by (cases s) (auto simp: accounted_def ends_accounted_def row_outcome_def Let_def split: list.splits)

lemma nothing_to_do_accounted: "accounted S (p, failures) \<Longrightarrow> accounted S (nothing_to_do input p, failures)"
  using nothing_to_do_set by (fastforce simp: accounted_def)

lemma located_accounted: "accounted S (located user p, failures) \<longleftrightarrow> accounted S (p, failures)"
  by (simp add: accounted_def)

lemma follow_up_accounted:
  assumes "accounted S (p, failures)"
  shows "returns (ends_accounted (insert Import_manager (insert Import_groups S))) (follow_up d input ctx (p, user, failures))"
proof -
  let ?p = "nothing_to_do input p"
  have steps: "returns (ends_accounted (insert Import_manager (insert Import_groups S)))
      (sv_then (add_groups d input u ctx (located u ?p, failures @ (if u = None then unread_failures (located u ?p) failures else [])))
        (\<lambda>s. sv_then (add_manager d input u ctx s) (\<lambda>s. sv_return (row_outcome s))))" for u
  proof (cases u)
    case None
    have "accounted (insert Import_manager (insert Import_groups S)) (?p, failures @ unread_failures ?p failures)"
      by (intro unread_accounted nothing_to_do_accounted assms)
    then show ?thesis using None
      by (simp add: add_groups_def add_manager_def located_def returns_def sv_then_def sv_return_def row_outcome_accounted)
  next
    case (Some v)
    have "accounted S (located (Some v) ?p, failures)"
      by (simp add: located_accounted nothing_to_do_accounted assms)
    then show ?thesis unfolding Some
      by (auto intro!: returns_then [OF add_groups_accounted] returns_then [OF add_manager_accounted] row_outcome_accounted)
  qed
  show ?thesis
    unfolding follow_up_def Let_def prod.case by (intro returns_then_any steps)
qed

lemma account_steps_of:
  assumes "s \<in> set (List.map_filter account_step steps)"
  shows "as_import_step s \<in> set steps"
proof -
  have "s \<in> set (List.map_filter account_step xs) \<Longrightarrow> \<exists>i\<in>set xs. account_step i = Some s" for xs
    by (induction xs) (auto simp: List.map_filter_simps split: option.splits)
  from this [OF assms] obtain i where "i \<in> set steps" "account_step i = Some s" by blast
  moreover from this(2) have "as_import_step s = i" by (cases i) auto
  ultimately show ?thesis by simp
qed

lemma resume_account_accounted:
  assumes "provider_says d"
  shows "returns (\<lambda>made. case made of Inl out \<Rightarrow> \<not> io_ok out | Inr (p, _, failures) \<Rightarrow> accounted (set (map as_import_step planned)) (p, failures))
    (resume_account d row kept planned job ctx)"
proof -
  show ?thesis
    unfolding resume_account_def Let_def
    by (intro returns_then_any)
      (auto simp: accounted_def remainingSteps_def import_refused_def filter_empty_conv
        intro!: returns_then [OF finishAccount_accounted [OF assms]] dest!: account_steps_of split: option.splits, blast dest: account_steps_of)
qed


section \<open>Reported done, and not done\<close>

text \<open>The provider a job is handed runs the provider's own operation: what it gives is what the row sees.\<close>

fun thrown_as :: "ldap_err \<Rightarrow> svc_error" where
  "thrown_as (Err c code m) = (if c = err_class.Directory_unavailable then Unavailable else Other_error m)"
| "thrown_as (Aggregate _) = Other_error ''AggregateError''"

definition as_svc :: "('e, 'a) io \<Rightarrow> ('e, 'a) svc" where
  "as_svc m s =
     (case m s of
        (Gave r, s') \<Rightarrow> (Value r, s')
      | (Threw err, s') \<Rightarrow> (Raised (thrown_as err) False, s')
      | (Unfinished, s') \<Rightarrow> (Raised (Other_error ''unfinished'') False, s'))"

definition finishes_with :: "(object_id \<Rightarrow> create_step list \<Rightarrow> create_finish \<Rightarrow> write_context \<Rightarrow> ('e, create_result) io)
    \<Rightarrow> ('e, 'm) import_deps_scheme \<Rightarrow> bool" where
  "finishes_with finish d \<longleftrightarrow> (\<forall>i steps f c. im_finishUserCreate d i steps f c = as_svc (finish i steps f c))"

text \<open>Every server that is asked refuses the operator's password.\<close>

definition refuses_operator :: "(string \<Rightarrow> 'd conn) \<Rightarrow> provider_config \<Rightarrow> write_context \<Rightarrow> bool" where
  "refuses_operator connect p ctx \<longleftrightarrow>
     cc_ldapUrls (pc_client p) \<noteq> []
     \<and> (\<forall>url s. \<exists>s'. cn_startTLS (connect url) s = (Gave (), s'))
     \<and> (\<forall>url s. \<exists>err s'. cn_bind (connect url) (wc_actorUsername ctx) (wc_actorPassword ctx) s = (Threw err, s')
          \<and> \<not> isDirectoryUnreachable err)"

lemma refused_operator:
  assumes "refuses_operator connect p ctx"
  shows "\<exists>s'. asOperator connect p ctx failed fn s = (Gave (failed (refused_with Permission_denied ''step-up bind failed'')), s')"
proof -
  obtain url urls where urls: "cc_ldapUrls (pc_client p) = url # urls"
    using assms by (cases "cc_ldapUrls (pc_client p)") (auto simp: refuses_operator_def)
  obtain sa where "cn_startTLS (connect url) s = (Gave (), sa)"
    using assms unfolding refuses_operator_def by blast
  then obtain sa where tls: "(if transportFor url (cc_tlsMode (pc_client p)) = Starttls then cn_startTLS (connect url) else io_return ()) s = (Gave (), sa)"
    by (cases "transportFor url (cc_tlsMode (pc_client p)) = Starttls") (simp_all add: io_return_def)
  obtain err sb where "cn_bind (connect url) (wc_actorUsername ctx) (wc_actorPassword ctx) sa = (Threw err, sb)" "\<not> isDirectoryUnreachable err"
    using assms unfolding refuses_operator_def by blast
  then show ?thesis
    by (simp add: asOperator_def withFailover_def urls Let_def io_catch_def io_then_def tls io_return_def)
qed

lemma then_return: "sv_then (sv_return x) f = f x"
  by (simp add: sv_then_def sv_return_def fun_eq_iff)

lemma add_groups_done: "Import_groups \<in> set (ip_completed p) \<Longrightarrow> add_groups d input user ctx (p, failures) = sv_return (p, failures)"
  by (cases user) (simp_all add: add_groups_def)

lemma add_manager_done: "Import_manager \<in> set (ip_completed p) \<Longrightarrow> add_manager d input user ctx (p, failures) = sv_return (p, failures)"
  by (cases user) (simp_all add: add_manager_def)

lemma finishAccount_undone:
  assumes "refuses_operator connect p (rx_writeCtx ctx)" "finishes_with (finishUserCreate connect p) d"
  shows "returns (\<lambda>(completed, failure, _). set completed \<subseteq> set (List.map_filter account_step (ip_completed progress)) \<and> failure = None)
    (finishAccount d rowId input user steps planned progress job ctx)"
proof -
  let ?done = "List.map_filter account_step (ip_completed progress)"
  have finish: "returns (\<lambda>r. cr_completed r = [] \<and> cr_failedStep r = None) (im_finishUserCreate d i steps f (rx_writeCtx ctx))" for i f
  proof (rule returnsI)
    fix e r e'
    assume "im_finishUserCreate d i steps f (rx_writeCtx ctx) e = (Value r, e')"
    moreover obtain s' where "finishUserCreate connect p i steps f (rx_writeCtx ctx) e
        = (Gave (not_created (refused_with Permission_denied ''step-up bind failed'')), s')"
      using refused_operator [OF assms(1)] unfolding finishUserCreate_def by blast
    ultimately have "r = not_created (refused_with Permission_denied ''step-up bind failed'')"
      using assms(2) by (simp add: finishes_with_def as_svc_def)
    then show "cr_completed r = [] \<and> cr_failedStep r = None" by (simp add: not_created_def)
  qed
  have op: "returns (\<lambda>r. cr_completed (wo_created r) = ?done \<and> cr_failedStep (wo_created r) = None)
      (sv_then (im_finishUserCreate d i steps f (rx_writeCtx ctx)) (\<lambda>r. sv_then (readBack d (r\<lparr>cr_completed := ?done @ cr_completed r\<rparr>) dn)
        (\<lambda>r. sv_return (stepsAudit r planned written))))" for i f dn written
    by (intro returns_then [OF finish] returns_then [OF readBack_says]) simp
  show ?thesis
    unfolding finishAccount_def Let_def
    by (intro returns_then_any returns_then [OF returns_withAudit [OF op]]) (simp add: stepFailure_def)
qed

text \<open>
  C9. A row can be reported as done when nothing of it was. When a run takes up an account whose password
  an earlier run could not set, and the directory refuses the operator's password as it goes on, the
  provider answers that it did nothing, without naming a step. The row takes that for no failure: if
  nothing else is left of it, the run reports success and keeps no step as failed, while the steps done
  are those that were done before, without the password.
\<close>

theorem refused_finish_is_reported_done:
  assumes "refuses_operator connect p (rx_writeCtx ctx)" "finishes_with (finishUserCreate connect p) d"
    and "ir_after row = Some kept" "Import_password \<notin> set (ip_completed kept)"
    and "{Import_groups, Import_manager} \<subseteq> set (ip_completed kept)"
    and "runImportRow d row ctx e = (Value out, e')" "io_errorCode out \<noteq> ''not_found''"
  shows "io_ok out \<and> (\<exists>q. io_after out = Some q \<and> Import_password \<notin> set (ip_completed q) \<and> ip_failed q = []
      \<and> set (ip_completed q) = set (ip_completed kept))"
proof -
  let ?planned = "accountSteps (io_enabled (in_options (ir_input row)))"
  let ?done = "\<lambda>out. io_ok out \<and> (\<exists>q. io_after out = Some q \<and> set (ip_completed q) = set (ip_completed kept) \<and> ip_failed q = [])"
  let ?P = "\<lambda>out. io_errorCode out = ''not_found'' \<or> ?done out"
  have "returns (\<lambda>made. case made of Inl out \<Rightarrow> ?P out
      | Inr (q, user, failures) \<Rightarrow> set (ip_completed q) = set (ip_completed kept) \<and> user \<noteq> None \<and> failures = [])
      (resume_account d row kept ?planned job ctx)" for job
    unfolding resume_account_def Let_def
    by (intro returns_then_any)
      (auto intro!: returns_then [OF finishAccount_undone [OF assms(1,2)]] simp: import_refused_def dest!: account_steps_of split: option.splits)
  note resumed = this
  have follow: "returns ?P (follow_up d (ir_input row) ctx (q, user, []))"
    if q: "set (ip_completed q) = set (ip_completed kept)" "user \<noteq> None" for q user
  proof -
    obtain u where u: "user = Some u" using q(2) by blast
    have same: "set (ip_completed (nothing_to_do (ir_input row) q)) = set (ip_completed kept)"
      using q(1) assms(5) by (auto simp: nothing_to_do_def Let_def)
    show ?thesis
      using same assms(5)
      by (auto simp: follow_up_def Let_def u then_return add_groups_done add_manager_done located_completed row_outcome_def
          intro!: returns_then_any split: option.split)
  qed
  have "returns ?P (runImportRow d row ctx)"
    unfolding runImportRow_def Let_def progress_so_far_def
    by (rule returns_then_any) (auto simp: assms(3) then_return intro!: returns_then [OF resumed] follow split: sum.splits)
  from returnsD [OF this assms(6)] assms(4,7) show ?thesis by auto
qed

section \<open>Once each\<close>

text \<open>The operations that make an account exchanged for others.\<close>

abbreviation exchanged :: "('e, 'm) import_deps_scheme \<Rightarrow> (create_input \<Rightarrow> create_step list \<Rightarrow> create_finish \<Rightarrow> write_context \<Rightarrow> ('e, create_result) svc)
    \<Rightarrow> (object_id \<Rightarrow> create_step list \<Rightarrow> create_finish \<Rightarrow> write_context \<Rightarrow> ('e, create_result) svc) \<Rightarrow> ('e, 'm) import_deps_scheme" where
  "exchanged d f g \<equiv> d\<lparr>im_createUser := f, im_finishUserCreate := g\<rparr>"

lemma exchanged_fields:
  "dp_getUser (exchanged d f g) = dp_getUser d"
  "dp_refresh (exchanged d f g) = dp_refresh d"
  "dp_findCachedGroupsById (exchanged d f g) = dp_findCachedGroupsById d"
  "rd_findObject (exchanged d f g) = rd_findObject d"
  "rd_handedOutPassword (exchanged d f g) = rd_handedOutPassword d"
  "rd_holdPassword (exchanged d f g) = rd_holdPassword d"
  "im_job (exchanged d f g) = im_job d"
  "im_createAudit (exchanged d f g) = im_createAudit d"
  "im_managerRow (exchanged d f g) = im_managerRow d"
  "im_getAccountFingerprint (exchanged d f g) = im_getAccountFingerprint d"
  "im_hasSchemaAttribute (exchanged d f g) = im_hasSchemaAttribute d"
  "im_randomPassword (exchanged d f g) = im_randomPassword d"
  "im_heldPassword (exchanged d f g) = im_heldPassword d"
  "im_finishUserCreate (exchanged d f g) = g"
  by simp_all

lemma exchanged_record_event: "record_event (exchanged d f g) = record_event d"
  by (simp add: fun_eq_iff record_event_def)

lemma exchanged_writeGroupMembership: "writeGroupMembership (exchanged d f g) = writeGroupMembership d"
  unfolding fun_eq_iff writeGroupMembership_def exchanged_record_event by simp

lemma exchanged_membership_group: "membership_group (exchanged d f g) = membership_group d"
  unfolding fun_eq_iff membership_group_def exchanged_record_event exchanged_writeGroupMembership by simp

lemma exchanged_membership_groups: "membership_groups (exchanged d f g) op gs user ctx ids p = membership_groups d op gs user ctx ids p"
proof (induction ids arbitrary: p)
  case (Cons i ids)
  show ?case unfolding membership_groups.simps exchanged_membership_group Cons ..
qed simp

lemma exchanged_refresh: "refreshMembershipCache (exchanged d f g) = refreshMembershipCache d"
proof
  fix r show "refreshMembershipCache (exchanged d f g) r = refreshMembershipCache d r"
    by (cases r) (simp_all add: fun_eq_iff)
qed

lemma exchanged_membershipRow: "membershipRow (exchanged d f g) = membershipRow d"
  unfolding fun_eq_iff membershipRow_def exchanged_fields exchanged_membership_groups exchanged_refresh by simp

lemma exchanged_writeUserAttributes: "writeUserAttributes (exchanged d f g) = writeUserAttributes d"
  unfolding fun_eq_iff writeUserAttributes_def exchanged_record_event exchanged_fields by simp

lemma exchanged_findCreated: "findCreated (exchanged d f g) = findCreated d"
  unfolding fun_eq_iff findCreated_def exchanged_fields by simp

lemma exchanged_add_groups: "add_groups (exchanged d f g) = add_groups d"
  unfolding fun_eq_iff add_groups_def exchanged_membershipRow by simp

lemma exchanged_manager_id: "manager_id (exchanged d f g) = manager_id d"
  by (simp add: fun_eq_iff manager_id_def split: option.split)

lemma exchanged_setManager: "setManager (exchanged d f g) = setManager d"
  unfolding fun_eq_iff setManager_def exchanged_manager_id exchanged_fields exchanged_writeUserAttributes by simp

lemma exchanged_add_manager: "add_manager (exchanged d f g) = add_manager d"
  unfolding fun_eq_iff add_manager_def exchanged_setManager by simp

lemma exchanged_follow_up: "follow_up (exchanged d f g) = follow_up d"
  unfolding fun_eq_iff follow_up_def exchanged_fields exchanged_findCreated exchanged_add_groups exchanged_add_manager by simp

lemma exchanged_progress_so_far: "progress_so_far (exchanged d f g) = progress_so_far d"
  unfolding fun_eq_iff progress_so_far_def createdBefore_def adopt_def exchanged_fields by simp

lemma exchanged_finishAccount:
  "finishAccount (exchanged d f (im_finishUserCreate d)) = finishAccount d"
  unfolding fun_eq_iff finishAccount_def passwordFor_def exchanged_record_event readBack_def exchanged_fields by simp

lemma exchanged_resume:
  assumes "g = im_finishUserCreate d \<or> remainingSteps planned (List.map_filter account_step (ip_completed kept)) = []"
  shows "resume_account (exchanged d f g) row kept planned job ctx = resume_account d row kept planned job ctx"
  using assms
proof
  assume g: "g = im_finishUserCreate d"
  show ?thesis unfolding g resume_account_def exchanged_findCreated exchanged_finishAccount ..
next
  assume "remainingSteps planned (List.map_filter account_step (ip_completed kept)) = []"
  then show ?thesis by (simp add: resume_account_def exchanged_findCreated located_completed cong: option.case_cong)
qed

lemma run_of_known:
  assumes "im_job d e = (Value job, ea)" "progress_so_far d row job ea = (Value (Some kept), eb)"
  shows "runImportRow d row ctx e
    = sv_then (resume_account d row kept (accountSteps (io_enabled (in_options (ir_input row)))) job ctx)
        (\<lambda>made. case made of Inl outcome \<Rightarrow> sv_return outcome | Inr s \<Rightarrow> follow_up d (ir_input row) ctx s) eb"
  using assms by (simp add: runImportRow_def Let_def sv_then_def)


section \<open>A row at work\<close>

text \<open>
  A directory with one account, which refuses the operator's password, and a log that takes everything;
  the account was made by an earlier run, which could not set its password.
\<close>

definition ex_made :: directory_user where
  "ex_made =
     \<lparr>du_objectGuid = ''g1'', du_sid = None, du_distinguishedName = ''CN=Ann,DC=x'', du_samAccountName = Some ''ann'',
      du_userPrincipalName = Some ''ann@x'', du_displayName = Some ''Ann'', du_givenName = None, du_surname = None, du_email = None,
      du_phone = None, du_mobile = None, du_title = None, du_department = None, du_office = None, du_managerDn = None,
      du_enabled = False, du_locked = False, du_lockedAt = None, du_resultantPsoDn = None, du_passwordNeverExpires = False,
      du_passwordLastSetAt = None, du_passwordExpiresAt = None, du_passwordExpiryComputed = False, du_passwordMustChange = False,
      du_accountExpiresAt = None, du_lastLogonAt = None, du_lastBadPasswordAt = None, du_badPasswordCount = None,
      du_createdAtSource = None, du_modifiedAtSource = None, du_memberOfDns = [], du_rawAttributes = []\<rparr>"

definition ex_servers :: "bool \<Rightarrow> string \<Rightarrow> unit conn" where
  "ex_servers accepts url =
     (if accepts then ex_accepting
      else (ex_conn (\<lambda>_. []))\<lparr>cn_bind := (\<lambda>_ _. io_throw (Err Invalid_credentials None ''no''))\<rparr>)"

definition ex_import_deps :: "bool \<Rightarrow> unit import_deps" where
  "ex_import_deps accepts =
     \<lparr>dp_write = (\<lambda>_ _ _ n. (Value \<lparr>mr_ok = True, mr_before = None, mr_after = None, mr_reason = None, mr_errorMessage = None\<rparr>, n)),
      dp_getUser = (\<lambda>_ n. (Value (Some ex_made), n)), dp_getGroup = (\<lambda>_ n. (Value None, n)),
      dp_recordEvent = (\<lambda>_ n. (None, n)), dp_refresh = (\<lambda>_ n. (Value (Some ex_made), n)),
      dp_reconcileDirectMemberships = (\<lambda>_ _ n. (Value (), n)), dp_upsertGroup = (\<lambda>_ n. (Value (), n)),
      dp_reconcileNestedGroups = (\<lambda>_ _ n. (Value (), n)), dp_findCachedGroupsById = (\<lambda>_ n. (Value [], n)),
      rd_findObject = (\<lambda>_ n. (Value None, n)), rd_findCachedOu = (\<lambda>_ n. (Value None, n)),
      rd_findCachedUser = (\<lambda>_ n. (Value None, n)), rd_results_downloaded_at = (\<lambda>n. (Value None, n)),
      rd_handedOutPassword = (\<lambda>_ _ n. (Value ''pw'', n)), rd_holdPassword = (\<lambda>_ _ n. (Value (), n)),
      im_job = sv_return \<lparr>jf_created_at = 0, jf_results_downloaded_at = None\<rparr>,
      im_createAudit = (\<lambda>_. sv_return None), im_managerRow = (\<lambda>_. sv_return None),
      im_createUser = (\<lambda>_ _ _ _. sv_return (not_created plain_ok)),
      im_finishUserCreate = (\<lambda>i steps f c. as_svc (finishUserCreate (ex_servers accepts) ex_config i steps f c)),
      im_getAccountFingerprint = (\<lambda>_. sv_return None), im_hasSchemaAttribute = (\<lambda>_. sv_return False),
      im_randomPassword = (\<lambda>_ _. sv_return ''pw''), im_heldPassword = (\<lambda>_. sv_return (Some ''pw''))\<rparr>"

definition ex_kept :: import_progress where
  "ex_kept = \<lparr>ip_id = Some ''g1'', ip_distinguishedName = ''CN=Ann,DC=x'', ip_createCorrelationId = None,
     ip_completed = [Import_create, Import_groups, Import_manager], ip_groups = [], ip_failed = [],
     ip_passwordFallback = False, ip_adopted = False\<rparr>"

definition ex_import_row :: import_row where
  "ex_import_row = \<lparr>ir_id = 1, ir_attempts = 2,
     ir_input = \<lparr>in_row = \<lparr>pr_line = 1, pr_ouDn = ''DC=x'', pr_cn = ''Ann'', pr_samAccountName = ''ann'', pr_userPrincipalName = ''ann@x'',
         pr_givenName = ''Ann'', pr_surname = ''Lee'', pr_displayName = ''Ann'', pr_initials = None, pr_mail = None,
         pr_otherMailbox = None, pr_mobile = None, pr_telephoneNumber = None, pr_employeeId = None, pr_description = None,
         pr_organisation = [], pr_managerId = None, pr_groupIds = [], pr_usageLocation = None, pr_startDate = None\<rparr>,
       in_managerOrdinal = None,
       in_options = \<lparr>io_passwordMode = Mode_set, io_mustChange = False, io_enabled = True\<rparr>\<rparr>,
     ir_after = Some ex_kept\<rparr>"

definition ex_import_context :: row_context where
  "ex_import_context = \<lparr>rx_writeCtx = ex_ctx, rx_audit = \<lparr>ab_correlationId = None, ab_metadata = None\<rparr>, rx_say = (\<lambda>_. [])\<rparr>"

theorem refused_finish_is_reported_done_witness:
  "\<exists>out. fst (runImportRow (ex_import_deps False) ex_import_row ex_import_context ()) = Value out \<and> io_ok out
     \<and> (\<exists>q. io_after out = Some q \<and> Import_password \<notin> set (ip_completed q))"
proof -
  have "case fst (runImportRow (ex_import_deps False) ex_import_row ex_import_context ()) of
      Value out \<Rightarrow> io_errorCode out \<noteq> ''not_found'' | Raised _ _ \<Rightarrow> False"
    by code_simp
  then obtain out where out: "runImportRow (ex_import_deps False) ex_import_row ex_import_context () = (Value out, ())"
      "io_errorCode out \<noteq> ''not_found''"
    by (cases "runImportRow (ex_import_deps False) ex_import_row ex_import_context ()") (auto split: svc_result.splits)
  have "refuses_operator (ex_servers False) ex_config (rx_writeCtx ex_import_context)"
    by (simp add: refuses_operator_def ex_config_def ex_servers_def ex_conn_def io_return_def io_throw_def result_code_error_def)
  moreover have "finishes_with (finishUserCreate (ex_servers False) ex_config) (ex_import_deps False)"
    by (simp add: finishes_with_def ex_import_deps_def)
  ultimately show ?thesis
    using refused_finish_is_reported_done [OF _ _ _ _ _ out, of "ex_servers False" ex_config ex_kept] out
    by (auto simp: ex_import_row_def ex_kept_def)
qed


text \<open>A provider that makes an account with all its steps.\<close>

definition ex_complete :: "unit import_deps" where
  "ex_complete = (ex_import_deps True)
     \<lparr>im_createUser := (\<lambda>_ steps _ _. sv_return ((not_created plain_ok)\<lparr>cr_completed := steps\<rparr>)),
      im_finishUserCreate := (\<lambda>_ steps _ _. sv_return ((not_created plain_ok)\<lparr>cr_completed := steps\<rparr>))\<rparr>"


end
